(* ===== verification/Gw_Prelude.thy ===== *)
theory Gw_Prelude
  imports Main "HOL-Library.Word" "HOL-Library.Signed_Division"
begin

text \<open>
  Shared by every component: the machine integer types, the outcome of a handler that may
  throw or end the process, loops over handlers, \<open>std::chrono\<close> conversions, the decimal
  printing that \<open>fmt\<close> does for \<open>{}\<close>, and the generic lemmas on lists and strings that the
  component theories use.

  \<^item> \<open>gw_frame\<close> collects the equations that say what an operation leaves alone.
  \<^item> \<open>gw_out\<close> collects the equations that say what an operation emits.
\<close>

named_theorems gw_frame "what an operation leaves unchanged"
named_theorems gw_out "what an operation emits"

section \<open>Machine integers and durations\<close>

type_synonym u8 = "8 word"
type_synonym u16 = "16 word"
type_synonym u32 = "32 word"
type_synonym u64 = "64 word"

text \<open>
  \<open>std::chrono\<close> durations are signed 64-bit counts. The model keeps them as \<open>int\<close>: a
  nanosecond count leaves the 64-bit range only after 292 years.
  \<open>duration_cast\<close> to a coarser unit divides and truncates towards zero.
\<close>

type_synonym nanoseconds = int
type_synonym milliseconds = int

definition to_ms :: "nanoseconds \<Rightarrow> milliseconds" where
  "to_ms t = t sdiv 1000000"

definition to_s :: "nanoseconds \<Rightarrow> int" where
  "to_s t = t sdiv 1000000000"

definition seconds :: "int \<Rightarrow> nanoseconds" where
  "seconds n = n * 1000000000"

definition minutes :: "int \<Rightarrow> nanoseconds" where
  "minutes n = seconds (60 * n)"

lemma to_ms_nonneg: "0 \<le> t \<Longrightarrow> to_ms t = t div 1000000"
  by (cases "t = 0") (simp_all add: to_ms_def signed_divide_int_def)

section \<open>Outcomes of handlers\<close>

text \<open>
  A handler ends normally, throws a C++ exception, or calls \<open>log::fatal\<close>, which ends the
  process. The state reached so far is kept in each case: what was written or sent before
  a \<open>throw\<close> stays written and sent.
\<close>

datatype ('e, 's) res = Ok 's | Throw 'e 's | Fatal string 's

primrec res_state :: "('e, 's) res \<Rightarrow> 's" where
  "res_state (Ok s) = s"
| "res_state (Throw e s) = s"
| "res_state (Fatal m s) = s"

primrec and_then :: "('e, 's) res \<Rightarrow> ('s \<Rightarrow> ('e, 's) res) \<Rightarrow> ('e, 's) res" where
  "and_then (Ok s) f = f s"
| "and_then (Throw e s) f = Throw e s"
| "and_then (Fatal m s) f = Fatal m s"

fun for_each :: "('a \<Rightarrow> 's \<Rightarrow> ('e, 's) res) \<Rightarrow> 'a list \<Rightarrow> 's \<Rightarrow> ('e, 's) res" where
  "for_each f [] s = Ok s"
| "for_each f (x # xs) s = and_then (f x s) (for_each f xs)"

lemma and_then_Ok [simp]: "and_then r Ok = r"
  by (cases r) simp_all

lemma and_then_assoc: "and_then (and_then r f) g = and_then r (\<lambda>s. and_then (f s) g)"
  by (cases r) simp_all

lemma and_then_eq_Ok:
  "and_then r f = Ok t \<longleftrightarrow> (\<exists>s. r = Ok s \<and> f s = Ok t)"
  by (cases r) simp_all

lemma for_each_append:
  "for_each f (xs @ ys) s = and_then (for_each f xs s) (for_each f ys)"
proof (induction xs arbitrary: s)
  case (Cons x xs)
  then show ?case by (cases "f x s") simp_all
qed simp

text \<open>
  An \<open>assert\<close> of the code. In a build that has its assertions (\<open>on\<close>) one that does not hold ends
  the process; in a build without them (\<open>NDEBUG\<close>) nothing is checked and the code goes on.
\<close>

definition assert_that :: "bool \<Rightarrow> bool \<Rightarrow> ('s \<Rightarrow> ('e, 's) res) \<Rightarrow> 's \<Rightarrow> ('e, 's) res" where
  "assert_that on p f s = (if on \<and> \<not> p then Fatal ''assert'' s else f s)"

lemma assert_that_eq_Ok: "assert_that on p f s = Ok t \<longleftrightarrow> (on \<longrightarrow> p) \<and> f s = Ok t"
  by (simp add: assert_that_def)

lemma assert_that_holds [simp]: "p \<Longrightarrow> assert_that on p f s = f s" "assert_that False p f s = f s"
  by (simp_all add: assert_that_def)

text \<open>A loop whose body always ends normally is a fold.\<close>

lemma for_each_Ok:
  assumes "\<And>x s. f x s = Ok (g x s)"
  shows "for_each f xs s = Ok (fold g xs s)"
  by (induction xs arbitrary: s) (simp_all add: assms)

text \<open>
  An observation that every iteration moves forward by a contribution of its own element is
  moved by the whole loop by the concatenation of the contributions.
\<close>

lemma fold_observe:
  assumes "\<And>x s. obs (g x s) = obs s @ c x"
  shows "obs (fold g xs s) = obs s @ concat (map c xs)"
  by (induction xs arbitrary: s) (simp_all add: assms)

lemma fold_keeps:
  assumes "\<And>x s. obs (g x s) = obs s"
  shows "obs (fold g xs s) = obs s"
  by (induction xs arbitrary: s) (simp_all add: assms)

text \<open>
  What a step keeps, as a relation between the state before and after it: kept by the parts,
  it is kept by sequences and loops.
\<close>

locale kept =
  fixes R :: "'s \<Rightarrow> 's \<Rightarrow> bool"
  assumes keep_refl: "R w w"
    and keep_trans: "R u v \<Longrightarrow> R v w \<Longrightarrow> R u w"
begin

lemma keep_fold: "(\<And>x v. R v (f x v)) \<Longrightarrow> R w (fold f xs w)"
proof (induction xs arbitrary: w)
  case (Cons x xs)
  then show ?case by (metis fold_simps(2) keep_trans)
qed (simp add: keep_refl)

lemma keep_then:
  "R v (res_state r) \<Longrightarrow> (\<And>w. R w (res_state (f w))) \<Longrightarrow> R v (res_state (and_then r f))"
  by (cases r) (auto intro: keep_trans)

lemma keep_for_each: "(\<And>x v. R v (res_state (f x v))) \<Longrightarrow> R w (res_state (for_each f xs w))"
proof (induction xs arbitrary: w)
  case (Cons x xs)
  then show ?case by (simp add: keep_then)
qed (simp add: keep_refl)

end

section \<open>Unordered sets as duplicate-free lists\<close>

text \<open>
  \<open>unordered_set::emplace\<close> and \<open>insert\<close>: nothing happens when the element is there. The
  order of the list is the (unspecified) order of iteration.
\<close>

definition set_emplace :: "'a \<Rightarrow> 'a list \<Rightarrow> 'a list" where
  "set_emplace x xs = (if x \<in> set xs then xs else xs @ [x])"

lemma set_set_emplace [simp]: "set (set_emplace x xs) = insert x (set xs)"
  by (auto simp: set_emplace_def)

lemma distinct_set_emplace [simp]: "distinct (set_emplace x xs) = distinct xs"
  by (auto simp: set_emplace_def)

lemma set_emplace_idem [simp]: "set_emplace x (set_emplace x xs) = set_emplace x xs"
  by (simp add: set_emplace_def)

section \<open>Decimal printing\<close>

definition digit_char :: "nat \<Rightarrow> char" where
  "digit_char d = char_of (48 + d)"

fun show_nat :: "nat \<Rightarrow> string" where
  "show_nat n = (if n < 10 then [digit_char n] else show_nat (n div 10) @ [digit_char (n mod 10)])"

declare show_nat.simps [simp del]

lemma show_nat_less [simp]: "n < 10 \<Longrightarrow> show_nat n = [digit_char n]"
  by (simp add: show_nat.simps)

lemma show_nat_step [simp]: "\<not> n < 10 \<Longrightarrow> show_nat n = show_nat (n div 10) @ [digit_char (n mod 10)]"
  by (subst show_nat.simps) simp

definition show_int :: "int \<Rightarrow> string" where
  "show_int i = (if i < 0 then CHR ''-'' # show_nat (nat (- i)) else show_nat (nat i))"

definition show_bool :: "bool \<Rightarrow> string" where
  "show_bool b = (if b then ''true'' else ''false'')"

definition read_digit :: "char \<Rightarrow> nat" where
  "read_digit c = of_char c - 48"

definition read_nat :: "string \<Rightarrow> nat" where
  "read_nat s = foldl (\<lambda>n c. 10 * n + read_digit c) 0 s"

lemma read_digit_char [simp]: "d < 10 \<Longrightarrow> read_digit (digit_char d) = d"
  by (simp add: read_digit_def digit_char_def)

lemma read_show_nat [simp]: "read_nat (show_nat n) = n"
proof (induction n rule: show_nat.induct)
  case (1 n)
  show ?case
  proof (cases "n < 10")
    case True
    then show ?thesis by (simp add: read_nat_def)
  next
    case False
    with 1 have "read_nat (show_nat (n div 10)) = n div 10" by simp
    with False show ?thesis by (simp add: read_nat_def)
  qed
qed

lemma show_nat_inj: "show_nat m = show_nat n \<longleftrightarrow> m = n"
  by (metis read_show_nat)

definition is_digit :: "char \<Rightarrow> bool" where
  "is_digit c = (48 \<le> (of_char c :: nat) \<and> (of_char c :: nat) < 58)"

lemma is_digit_digit_char [simp]: "d < 10 \<Longrightarrow> is_digit (digit_char d)"
  by (simp add: is_digit_def digit_char_def)

lemma show_nat_digits: "c \<in> set (show_nat n) \<Longrightarrow> is_digit c"
proof (induction n rule: show_nat.induct)
  case (1 n)
  then show ?case
    by (cases "n < 10") auto
qed

lemma show_nat_nonempty [simp]: "show_nat n \<noteq> []"
  by (cases "n < 10") simp_all

lemma show_int_chars: "c \<in> set (show_int i) \<Longrightarrow> is_digit c \<or> c = CHR ''-''"
  by (auto simp: show_int_def dest: show_nat_digits split: if_splits)

lemma show_int_nonempty [simp]: "show_int i \<noteq> []"
  by (simp add: show_int_def)

lemma show_bool_nonempty [simp]: "show_bool b \<noteq> []"
  by (simp add: show_bool_def)

text \<open>The integer a printed integer stands for.\<close>

definition read_int :: "string \<Rightarrow> int" where
  "read_int s = (if s \<noteq> [] \<and> hd s = CHR ''-'' then - int (read_nat (tl s)) else int (read_nat s))"

lemma hd_show_nat: "hd (show_nat n) \<noteq> CHR ''-''"
proof
  assume "hd (show_nat n) = CHR ''-''"
  then have "CHR ''-'' \<in> set (show_nat n)" by (metis hd_in_set show_nat_nonempty)
  then have "is_digit (CHR ''-'')" by (rule show_nat_digits)
  then show False by (simp add: is_digit_def)
qed

lemma read_show_int [simp]: "read_int (show_int i) = i"
  by (simp add: read_int_def show_int_def hd_show_nat)

lemma show_int_inj: "show_int i = show_int j \<longleftrightarrow> i = j"
  by (metis read_show_int)

text \<open>Characters that never occur in a printed number.\<close>

definition plain_for :: "char set \<Rightarrow> string \<Rightarrow> bool" where
  "plain_for bad s = (set s \<inter> bad = {})"

lemma plain_for_append [simp]: "plain_for bad (s @ t) = (plain_for bad s \<and> plain_for bad t)"
  by (auto simp: plain_for_def)

lemma plain_for_Cons [simp]: "plain_for bad (c # s) = (c \<notin> bad \<and> plain_for bad s)"
  by (auto simp: plain_for_def)

lemma plain_for_Nil [simp]: "plain_for bad []"
  by (simp add: plain_for_def)

lemma plain_for_show_int:
  assumes "\<And>c. c \<in> bad \<Longrightarrow> \<not> is_digit c \<and> c \<noteq> CHR ''-''"
  shows "plain_for bad (show_int i)"
  using assms show_int_chars by (fastforce simp: plain_for_def)

section \<open>Splitting strings\<close>

lemma takeWhile_append_sep:
  "c \<notin> set a \<Longrightarrow> takeWhile (\<lambda>x. x \<noteq> c) (a @ c # b) = a"
  by (induction a) auto

lemma dropWhile_append_sep:
  "c \<notin> set a \<Longrightarrow> dropWhile (\<lambda>x. x \<noteq> c) (a @ c # b) = c # b"
  by (induction a) auto

lemma takeWhile_no_sep: "c \<notin> set a \<Longrightarrow> takeWhile (\<lambda>x. x \<noteq> c) a = a"
  by (induction a) auto

lemma dropWhile_no_sep: "c \<notin> set a \<Longrightarrow> dropWhile (\<lambda>x. x \<noteq> c) a = []"
  by (induction a) auto

text \<open>\<open>split_all c s\<close> splits at every occurrence of \<open>c\<close>; \<open>join_all c\<close> puts the parts together.\<close>

fun split_all :: "char \<Rightarrow> string \<Rightarrow> string list" where
  "split_all c [] = [[]]"
| "split_all c (x # xs) =
     (if x = c then [] # split_all c xs
      else (case split_all c xs of [] \<Rightarrow> [[x]] | p # ps \<Rightarrow> (x # p) # ps))"

fun join_all :: "char \<Rightarrow> string list \<Rightarrow> string" where
  "join_all c [] = []"
| "join_all c [p] = p"
| "join_all c (p # q # ps) = p @ c # join_all c (q # ps)"

lemma split_all_nonempty [simp]: "split_all c s \<noteq> []"
  by (cases s) (auto split: list.splits)

lemma split_all_no_sep: "c \<notin> set a \<Longrightarrow> split_all c a = [a]"
  by (induction a) auto

lemma split_all_append_sep:
  "c \<notin> set a \<Longrightarrow> split_all c (a @ c # b) = a # split_all c b"
  by (induction a) auto

lemma split_join_all:
  "ps \<noteq> [] \<Longrightarrow> \<forall>p \<in> set ps. c \<notin> set p \<Longrightarrow> split_all c (join_all c ps) = ps"
  by (induction c ps rule: join_all.induct) (auto simp: split_all_no_sep split_all_append_sep)

section \<open>Codecs\<close>

text \<open>
  A value is written and can be read back. \<open>valid\<close> says which values the writer keeps apart.
\<close>

locale codec =
  fixes enc :: "'a \<Rightarrow> 'b"
    and dec :: "'b \<Rightarrow> 'a option"
    and valid :: "'a \<Rightarrow> bool"
  assumes dec_enc: "valid x \<Longrightarrow> dec (enc x) = Some x"
begin

lemma enc_inj: "valid x \<Longrightarrow> valid y \<Longrightarrow> enc x = enc y \<Longrightarrow> x = y"
  by (metis dec_enc option.inject)

lemma enc_inj_on: "inj_on enc {x. valid x}"
  by (auto intro: inj_onI enc_inj)

lemma dec_list: "list_all valid xs \<Longrightarrow> those (map (dec \<circ> enc) xs) = Some xs"
  by (induction xs) (simp_all add: dec_enc)

end

end
