(* ===== verification/Wire_Text.thy ===== *)
theory Wire_Text
  imports Gw_Prelude
begin

text \<open>
  The two text formats the encoder writes, and readers for them: the query string of a REST
  request (\<open>key=value\<close> pairs separated by \<open>&\<close>) and the JSON text of a WebSocket request. The
  readers are the specification the encoder is verified against: what the encoder writes, a
  reader of the format takes apart again into the intended pairs.
\<close>

section \<open>Query strings\<close>

text \<open>The two shapes of a format string: \<open>key={}&\<close> and, at the end, \<open>key={}\<close>.\<close>

definition kv :: "string \<Rightarrow> string \<Rightarrow> string" where
  "kv k v = k @ ''='' @ v"

definition kv_amp :: "string \<Rightarrow> string \<Rightarrow> string" where
  "kv_amp k v = k @ ''='' @ v @ ''&''"

definition read_kv :: "string \<Rightarrow> string \<times> string" where
  "read_kv s = (takeWhile (\<lambda>c. c \<noteq> CHR ''='') s, drop 1 (dropWhile (\<lambda>c. c \<noteq> CHR ''='') s))"

definition parse_query :: "string \<Rightarrow> (string \<times> string) list" where
  "parse_query s = map read_kv (split_all (CHR ''&'') s)"

definition query_plain :: "string \<Rightarrow> bool" where
  "query_plain v = plain_for {CHR ''&''} v"

lemma query_plain_simps [simp]:
  "query_plain []"
  "query_plain (c # s) = (c \<noteq> CHR ''&'' \<and> query_plain s)"
  "query_plain (s @ t) = (query_plain s \<and> query_plain t)"
  by (auto simp: query_plain_def)

lemma query_plain_show_int [simp]: "query_plain (show_int i)"
  unfolding query_plain_def by (rule plain_for_show_int) (simp add: is_digit_def)

lemma query_plain_show_bool [simp]: "query_plain (show_bool b)"
  by (simp add: show_bool_def)

lemma read_kv_kv [simp]: "CHR ''='' \<notin> set k \<Longrightarrow> read_kv (kv k v) = (k, v)"
  by (simp add: read_kv_def kv_def takeWhile_append_sep dropWhile_append_sep)

lemma parse_query_kv_amp [simp]:
  "CHR ''='' \<notin> set k \<Longrightarrow> query_plain k \<Longrightarrow> query_plain v \<Longrightarrow>
   parse_query (kv_amp k v @ rest) = (k, v) # parse_query rest"
  using split_all_append_sep [of "CHR ''&''" "kv k v" rest] read_kv_kv [of k v]
  by (simp add: parse_query_def kv_amp_def kv_def query_plain_def plain_for_def)

lemma parse_query_kv [simp]:
  "CHR ''='' \<notin> set k \<Longrightarrow> query_plain k \<Longrightarrow> query_plain v \<Longrightarrow> parse_query (kv k v) = [(k, v)]"
  using split_all_no_sep [of "CHR ''&''" "kv k v"] read_kv_kv [of k v]
  by (simp add: parse_query_def kv_def query_plain_def plain_for_def)

section \<open>JSON text\<close>

text \<open>
  Strings without escapes, bare tokens (numbers, booleans) and objects are all the encoder
  writes.
\<close>

datatype json = JStr string | JRaw string | JObj "(string \<times> json) list"

fun print_json :: "json \<Rightarrow> string" and print_members :: "(string \<times> json) list \<Rightarrow> string" where
  "print_json (JStr s) = CHR 0x22 # s @ [CHR 0x22]"
| "print_json (JRaw t) = t"
| "print_json (JObj ms) = ''{'' @ print_members ms @ ''}''"
| "print_members [] = []"
| "print_members [(k, v)] = CHR 0x22 # k @ [CHR 0x22] @ '':'' @ print_json v"
| "print_members ((k, v) # m # ms) =
     CHR 0x22 # k @ [CHR 0x22] @ '':'' @ print_json v @ '','' @ print_members (m # ms)"

text \<open>A recursive descent reader. The fuel bounds the nesting and the number of members.\<close>

definition read_str :: "string \<Rightarrow> (string \<times> string) option" where
  "read_str s = (let t = takeWhile (\<lambda>c. c \<noteq> CHR 0x22) s in
     if length t < length s \<and> CHR 0x5C \<notin> set t then Some (t, drop (length t + 1) s) else None)"

definition raw_end :: "char set" where
  "raw_end = {CHR '','', CHR ''}''}"

fun parse_json :: "nat \<Rightarrow> string \<Rightarrow> (json \<times> string) option"
  and parse_members :: "nat \<Rightarrow> string \<Rightarrow> ((string \<times> json) list \<times> string) option" where
  "parse_json 0 s = None"
| "parse_json (Suc n) [] = None"
| "parse_json (Suc n) (c # s) =
    (if c = CHR 0x22 then map_option (map_prod JStr id) (read_str s)
     else if c = CHR ''{'' then
       (if s \<noteq> [] \<and> hd s = CHR ''}'' then Some (JObj [], tl s)
        else map_option (map_prod JObj id) (parse_members n s))
     else if c \<in> raw_end then None
     else Some (JRaw (takeWhile (\<lambda>x. x \<notin> raw_end) (c # s)),
                dropWhile (\<lambda>x. x \<notin> raw_end) (c # s)))"
| "parse_members 0 s = None"
| "parse_members (Suc n) s =
    (if s = [] \<or> hd s \<noteq> CHR 0x22 then None
     else case read_str (tl s) of
       None \<Rightarrow> None
     | Some (k, r) \<Rightarrow>
        (if r = [] \<or> hd r \<noteq> CHR '':'' then None
         else case parse_json n (tl r) of
           None \<Rightarrow> None
         | Some (v, q) \<Rightarrow>
            (if q = [] then None
             else if hd q = CHR ''}'' then Some ([(k, v)], tl q)
             else if hd q = CHR '','' then
               (case parse_members n (tl q) of
                  None \<Rightarrow> None | Some (ms, z) \<Rightarrow> Some ((k, v) # ms, z))
             else None)))"

text \<open>Values the writer keeps apart: no quotes or escapes in strings, no delimiters in tokens.\<close>

definition json_plain :: "string \<Rightarrow> bool" where
  "json_plain s = plain_for {CHR 0x22, CHR 0x5C} s"

definition token_plain :: "string \<Rightarrow> bool" where
  "token_plain t = (t \<noteq> [] \<and> hd t \<noteq> CHR 0x22 \<and> hd t \<noteq> CHR ''{'' \<and> plain_for raw_end t)"

fun json_ok :: "json \<Rightarrow> bool" and members_ok :: "(string \<times> json) list \<Rightarrow> bool" where
  "json_ok (JStr s) = json_plain s"
| "json_ok (JRaw t) = token_plain t"
| "json_ok (JObj ms) = members_ok ms"
| "members_ok [] = True"
| "members_ok ((k, v) # ms) = (json_plain k \<and> json_ok v \<and> members_ok ms)"

fun json_depth :: "json \<Rightarrow> nat" and members_depth :: "(string \<times> json) list \<Rightarrow> nat" where
  "json_depth (JStr s) = 1"
| "json_depth (JRaw t) = 1"
| "json_depth (JObj ms) = Suc (members_depth ms)"
| "members_depth [] = 0"
| "members_depth ((k, v) # ms) = Suc (max (json_depth v) (members_depth ms))"

lemma read_str_plain: "json_plain t \<Longrightarrow> read_str (t @ CHR 0x22 # r) = Some (t, r)"
  by (auto simp: read_str_def Let_def takeWhile_append_sep json_plain_def plain_for_def)

text \<open>Where a value ends: at the end of the text or before a delimiter.\<close>

definition stops :: "string \<Rightarrow> bool" where
  "stops r = (r = [] \<or> hd r \<in> raw_end)"

lemma takeWhile_token:
  assumes "plain_for raw_end t" "stops r"
  shows "takeWhile (\<lambda>x. x \<notin> raw_end) (t @ r) = t" "dropWhile (\<lambda>x. x \<notin> raw_end) (t @ r) = r"
  using assms by (induction t) (cases r; auto simp: stops_def)+

lemma parse_token:
  assumes "token_plain t" "stops r"
  shows "parse_json (Suc n) (t @ r) = Some (JRaw t, r)"
proof (cases t)
  case (Cons c t')
  with assms have "c \<noteq> CHR 0x22" "c \<noteq> CHR ''{''" "c \<notin> raw_end"
    by (auto simp: token_plain_def)
  moreover have "takeWhile (\<lambda>x. x \<notin> raw_end) (c # t' @ r) = c # t'"
    "dropWhile (\<lambda>x. x \<notin> raw_end) (c # t' @ r) = r"
    using takeWhile_token [of t r] assms Cons by (auto simp: token_plain_def)
  ultimately show ?thesis using Cons by simp
qed (use assms in \<open>simp add: token_plain_def\<close>)

lemma print_members_Cons:
  "print_members ((k, v) # ms) = CHR 0x22 # k @ [CHR 0x22] @ '':'' @ print_json v
     @ (if ms = [] then [] else '','' @ print_members ms)"
  by (cases ms) auto

lemma parse_print:
  "json_ok j \<Longrightarrow> stops r \<Longrightarrow> json_depth j \<le> n \<Longrightarrow> parse_json n (print_json j @ r) = Some (j, r)"
  "members_ok ms \<Longrightarrow> ms \<noteq> [] \<Longrightarrow> members_depth ms \<le> n \<Longrightarrow>
     parse_members n (print_members ms @ ''}'' @ r) = Some (ms, r)"
proof (induction j and ms arbitrary: n r and n r rule: print_json_print_members.induct)
  case (1 s)
  then show ?case by (cases n) (simp_all add: read_str_plain)
next
  case (2 t)
  then show ?case by (cases n) (simp_all add: parse_token)
next
  case (3 ms)
  then obtain m where n: "n = Suc m" by (cases n) auto
  show ?case
  proof (cases ms)
    case (Cons kv ms')
    then obtain k v where "ms = (k, v) # ms'" by (cases kv) auto
    with 3 n show ?thesis by (simp add: print_members_Cons)
  qed (simp add: n)
next
  case (5 k v)
  then obtain m where n: "n = Suc m" by (cases n) auto
  have "parse_json m (print_json v @ CHR ''}'' # r) = Some (v, CHR ''}'' # r)"
    using 5 n by (simp add: stops_def raw_end_def)
  with 5 n show ?case by (simp add: read_str_plain)
next
  case (6 k v m ms)
  then obtain l where n: "n = Suc l" by (cases n) auto
  have "parse_json l (print_json v @ CHR '','' # print_members (m # ms) @ CHR ''}'' # r)
      = Some (v, CHR '','' # print_members (m # ms) @ CHR ''}'' # r)"
    using 6 n by (simp add: stops_def raw_end_def)
  moreover have "parse_members l (print_members (m # ms) @ CHR ''}'' # r) = Some (m # ms, r)"
    using 6 n by simp
  ultimately show ?case using 6 n by (simp add: read_str_plain)
qed simp_all

definition parse_text :: "string \<Rightarrow> json option" where
  "parse_text s = (case parse_json (length s) s of
     Some (j, r) \<Rightarrow> (if r = [] then Some j else None) | None \<Rightarrow> None)"

text \<open>The length of a text is fuel enough to read it.\<close>

lemma depth_le_length:
  "json_ok j \<Longrightarrow> json_depth j \<le> length (print_json j)"
  "members_ok ms \<Longrightarrow> members_depth ms \<le> length (print_members ms)"
proof (induction j and ms rule: print_json_print_members.induct)
  case (2 t)
  then show ?case by (cases t) (simp_all add: token_plain_def)
qed (auto simp: le_SucI)

lemma parse_text_print: "json_ok j \<Longrightarrow> parse_text (print_json j) = Some j"
  using parse_print(1) [of j "[]" "length (print_json j)"] depth_le_length(1) [of j]
  by (simp add: parse_text_def stops_def)

interpretation json_text: codec print_json parse_text json_ok
  by unfold_locales (rule parse_text_print)

lemma json_plain_simps [simp]:
  "json_plain []"
  "json_plain (c # s) = (c \<noteq> CHR 0x22 \<and> c \<noteq> CHR 0x5C \<and> json_plain s)"
  "json_plain (s @ t) = (json_plain s \<and> json_plain t)"
  by (auto simp: json_plain_def)

lemma json_plain_show_int [simp]: "json_plain (show_int i)"
  unfolding json_plain_def by (rule plain_for_show_int) (auto simp: is_digit_def)

lemma json_plain_show_bool [simp]: "json_plain (show_bool b)"
  by (simp add: show_bool_def)

lemma token_plain_show_int [simp]: "token_plain (show_int i)"
proof -
  have "is_digit (hd (show_int i)) \<or> hd (show_int i) = CHR ''-''"
    by (rule show_int_chars [of _ i]) simp
  then have "hd (show_int i) \<noteq> CHR 0x22 \<and> hd (show_int i) \<noteq> CHR ''{''"
    by (auto simp: is_digit_def)
  moreover have "plain_for raw_end (show_int i)"
    by (rule plain_for_show_int) (auto simp: is_digit_def raw_end_def)
  ultimately show ?thesis by (simp add: token_plain_def)
qed

text \<open>
  The shapes of the JSON format strings: \<open>"key":"{}"\<close>, \<open>"key":{}\<close>, and an object that is opened
  in one format string and closed in another.
\<close>

definition dq :: "string \<Rightarrow> string" where
  "dq s = CHR 0x22 # s @ [CHR 0x22]"

definition jstr :: "string \<Rightarrow> string \<Rightarrow> string" where
  "jstr k v = dq k @ '':'' @ dq v"

definition jraw :: "string \<Rightarrow> string \<Rightarrow> string" where
  "jraw k v = dq k @ '':'' @ v"

definition print_tail :: "(string \<times> json) list \<Rightarrow> string" where
  "print_tail ms = concat (map (\<lambda>(k, v). '','' @ dq k @ '':'' @ print_json v) ms)"

lemma print_members_tail:
  "print_members ((k, v) # ms) = dq k @ '':'' @ print_json v @ print_tail ms"
proof (induction ms arbitrary: k v)
  case (Cons m ms)
  then show ?case by (cases m) (simp add: print_tail_def dq_def)
qed (simp add: print_tail_def dq_def)

lemma print_tail_simps [simp]:
  "print_tail [] = []"
  "print_tail ((k, v) # ms) = '','' @ dq k @ '':'' @ print_json v @ print_tail ms"
  "print_tail (ms @ ns) = print_tail ms @ print_tail ns"
  by (simp_all add: print_tail_def)

lemma members_ok_append [simp]: "members_ok (ms @ ns) = (members_ok ms \<and> members_ok ns)"
  by (induction ms) auto

lemmas json_shapes = jstr_def jraw_def dq_def print_members_tail

declare print_members.simps(2,3) [simp del]

end
