(* ===== verification/Roq_Types.thy ===== *)
theory Roq_Types
  imports Main
begin

text \<open>
  The enumerations of the \<open>roq\<close> API that the gateway reads and writes. The API is not part of
  this repository. Where the gateway switches over every enumerator
  (\<open>protocol/json/map.cpp\<close>, which the compiler checks for completeness) the datatype lists
  those. Where it only names some, the datatype has these and one constructor
  with an index for the rest.
\<close>

datatype side = Side_UNDEFINED | Side_BUY | Side_SELL

datatype order_type = OrderType_UNDEFINED | OrderType_MARKET | OrderType_LIMIT

datatype order_status =
    OrderStatus_UNDEFINED | OrderStatus_SENT | OrderStatus_ACCEPTED | OrderStatus_SUSPENDED
  | OrderStatus_WORKING | OrderStatus_STOPPED | OrderStatus_COMPLETED | OrderStatus_EXPIRED
  | OrderStatus_CANCELED | OrderStatus_REJECTED

datatype time_in_force =
    TimeInForce_UNDEFINED | TimeInForce_GFD | TimeInForce_GTC | TimeInForce_OPG
  | TimeInForce_IOC | TimeInForce_FOK | TimeInForce_GTX | TimeInForce_GTD
  | TimeInForce_AT_THE_CLOSE | TimeInForce_GOOD_THROUGH_CROSSING | TimeInForce_AT_CROSSING
  | TimeInForce_GOOD_FOR_TIME | TimeInForce_GFA | TimeInForce_GFM

datatype execution_instruction =
    ExecutionInstruction_PARTICIPATE_DO_NOT_INITIATE
  | ExecutionInstruction_DO_NOT_INCREASE
  | ExecutionInstruction_Other nat

datatype request_status =
    RequestStatus_UNDEFINED | RequestStatus_FORWARDED | RequestStatus_ACCEPTED
  | RequestStatus_REJECTED | RequestStatus_ERROR | RequestStatus_Other nat

datatype trading_status =
    TradingStatus_UNDEFINED | TradingStatus_OPEN | TradingStatus_HALT | TradingStatus_CLOSE
  | TradingStatus_END_OF_DAY | TradingStatus_PRE_OPEN | TradingStatus_PRE_CLOSE

datatype security_type = SecurityType_UNDEFINED | SecurityType_SWAP | SecurityType_FUTURES

datatype error =
    Error_UNDEFINED | Error_UNKNOWN | Error_TOO_LATE_TO_MODIFY_OR_CANCEL
  | Error_MODIFY_HAS_NO_EFFECT | Error_REQUEST_RATE_LIMIT_REACHED
  | Error_INVALID_REQUEST_ARGS | Error_UNKNOWN_EXTERNAL_ORDER_ID | Error_Other nat

datatype origin = Origin_UNDEFINED | Origin_GATEWAY | Origin_EXCHANGE | Origin_Other nat

datatype request_type =
    RequestType_UNDEFINED | RequestType_CREATE_ORDER | RequestType_MODIFY_ORDER
  | RequestType_CANCEL_ORDER

datatype margin_mode =
    MarginMode_UNDEFINED | MarginMode_ISOLATED | MarginMode_CROSS | MarginMode_PORTFOLIO

datatype update_type =
    UpdateType_UNDEFINED | UpdateType_SNAPSHOT | UpdateType_INCREMENTAL

datatype liquidity = Liquidity_UNDEFINED | Liquidity_MAKER | Liquidity_TAKER

datatype connection_status =
    ConnectionStatus_UNDEFINED | ConnectionStatus_DISCONNECTED | ConnectionStatus_DOWNLOADING
  | ConnectionStatus_LOGIN_SENT | ConnectionStatus_READY | ConnectionStatus_Other nat

section \<open>Exceptions\<close>

text \<open>
  What a handler of the gateway may throw. \<open>server::oms\<close> exceptions carry the fields a
  response needs; the constructors \<open>NotReady\<close> and \<open>NotSupported\<close> of the library choose them, so
  a model that reads them takes them as a parameter. \<open>NetworkError\<close> knows its own request
  status and error. Everything else is seen as a \<open>std::exception\<close> with its text.
\<close>

datatype exn =
    Oms_NotReady string
  | Oms_NotSupported string
  | Oms_Rejected origin error string
  | Oms_Exception origin request_status error string
  | Network_error request_status error string
  | Std_exception string

end
