(* ===== verification/Rest_Crypto.thy ===== *)
theory Rest_Crypto
  imports Wire_Text Roq_Types
begin

text \<open>
  \<open>tools/crypto.{hpp,cpp}\<close> and \<open>gateway/account.{hpp,cpp}\<close>: the keys of an account and the
  signatures of its requests. HMAC-SHA256, Ed25519, and the hex and base64 codecs are library
  code, hence parameters. An empty \<open>pkey_\<close> or \<open>mac_\<close> is \<open>None\<close>.
\<close>

record crypto_lib =
  cl_ed_create :: "string \<Rightarrow> string option"
  cl_ed_sign :: "string \<Rightarrow> string \<Rightarrow> string"
  cl_mac_create :: "string \<Rightarrow> string option"
  cl_hmac :: "string \<Rightarrow> string \<Rightarrow> string"
  cl_hex :: "string \<Rightarrow> string"
  cl_base64 :: "string \<Rightarrow> string"
  cl_ms :: "nanoseconds \<Rightarrow> milliseconds"

record crypto =
  cr_key :: string
  cr_key_2 :: string
  cr_headers :: string
  cr_pkey :: "string option"
  cr_mac :: "string option"

section \<open>Construction\<close>

definition crlf :: string where
  "crlf = [CHR 0x0D, CHR 0x0A]"

definition create_headers :: "string \<Rightarrow> string" where
  "create_headers key = ''X-MBX-APIKEY: '' @ key @ crlf"

definition create_ed25519 :: "crypto_lib \<Rightarrow> string \<Rightarrow> margin_mode \<Rightarrow> string option" where
  "create_ed25519 L secret margin_mode =
     (if margin_mode \<noteq> MarginMode_PORTFOLIO then cl_ed_create L secret else None)"

text \<open>A fatal error is \<open>Inl\<close> with its message.\<close>

definition create_mac ::
  "crypto_lib \<Rightarrow> string \<Rightarrow> margin_mode \<Rightarrow> string \<Rightarrow> string + string option" where
  "create_mac L secret margin_mode secret_2 =
     (if margin_mode = MarginMode_PORTFOLIO then
        if secret_2 \<noteq> [] then Inl ''Unexpected: secret_2 is now allowed in PORTFOLIO mode''
        else Inr (Some secret)
      else Inr (cl_mac_create L (if secret_2 = [] then secret else secret_2)))"

definition crypto_create ::
  "crypto_lib \<Rightarrow> string \<Rightarrow> string \<Rightarrow> margin_mode \<Rightarrow> string \<Rightarrow> string \<Rightarrow> string + crypto" where
  "crypto_create L key secret margin_mode key_2 secret_2 =
     (case create_mac L secret margin_mode secret_2 of
        Inl e \<Rightarrow> Inl e
      | Inr mac \<Rightarrow>
          (let pkey = create_ed25519 L secret margin_mode in
           if pkey = None \<and> mac = None
           then Inl ''The secret must be valid ED25519 or HMAC_SHA256''
           else Inr \<lparr> cr_key = key, cr_key_2 = key_2,
                      cr_headers = create_headers (if key_2 = [] then key else key_2),
                      cr_pkey = pkey, cr_mac = mac \<rparr>))"

lemma crypto_create_has_key:
  "crypto_create L key secret m key_2 secret_2 = Inr c \<Longrightarrow> cr_pkey c \<noteq> None \<or> cr_mac c \<noteq> None"
  by (auto simp: crypto_create_def Let_def split: sum.splits if_splits)

lemma crypto_create_portfolio:
  "crypto_create L key secret MarginMode_PORTFOLIO key_2 [] =
     Inr \<lparr> cr_key = key, cr_key_2 = key_2,
           cr_headers = create_headers (if key_2 = [] then key else key_2),
           cr_pkey = None, cr_mac = Some secret \<rparr>"
  by (simp add: crypto_create_def create_mac_def create_ed25519_def)

section \<open>Signatures\<close>

text \<open>
  The functions assert that the key they use has been created. The order actions check that
  (\<open>signing\<close> in \<open>Order_Routing\<close>). The other callers do not: their model is the one of a build without
  assertions, and what is signed without a key is not determined (\<open>the None\<close>).
\<close>

definition session_logon_signature ::
  "crypto_lib \<Rightarrow> crypto \<Rightarrow> milliseconds \<Rightarrow> milliseconds \<Rightarrow> string" where
  "session_logon_signature L c now_utc recv_window =
     (let payload = kv_amp ''apiKey'' (cr_key c) @ kv_amp ''recvWindow'' (show_int recv_window) @
                    kv ''timestamp'' (show_int now_utc)
      in cl_base64 L (cl_ed_sign L (the (cr_pkey c)) payload))"

text \<open>
  \<open>mac_.clear\<close>, any number of \<open>mac_.update\<close>, \<open>mac_.final\<close>: the digest of the concatenation.
\<close>

definition hex_mac :: "crypto_lib \<Rightarrow> crypto \<Rightarrow> string \<Rightarrow> string" where
  "hex_mac L c text = cl_hex L (cl_hmac L (the (cr_mac c)) text)"

definition rest_signature :: "crypto_lib \<Rightarrow> crypto \<Rightarrow> milliseconds \<Rightarrow> string" where
  "rest_signature L c now_utc =
     (let timestamp = kv ''timestamp'' (show_int now_utc)
      in ''?'' @ timestamp @ ''&'' @ kv ''signature'' (hex_mac L c timestamp))"

definition rest_signature_body :: "crypto_lib \<Rightarrow> crypto \<Rightarrow> milliseconds \<Rightarrow> string \<Rightarrow> string" where
  "rest_signature_body L c now_utc body =
     (let timestamp = kv ''timestamp'' (show_int now_utc)
      in ''?'' @ timestamp @ ''&'' @ kv ''signature'' (hex_mac L c (timestamp @ body)))"

definition rest_signature_query :: "crypto_lib \<Rightarrow> crypto \<Rightarrow> milliseconds \<Rightarrow> string \<Rightarrow> string" where
  "rest_signature_query L c now_utc query =
     (let tmp = query @ ''&'' @ kv ''timestamp'' (show_int now_utc)
      in ''?'' @ tmp @ ''&'' @ kv ''signature'' (hex_mac L c tmp))"

section \<open>Accounts\<close>

record account =
  ac_name :: string
  ac_margin_mode :: margin_mode
  ac_crypto :: crypto

text \<open>\<open>TraceInfo\<close> and \<open>MessageInfo\<close>: when the event that is being handled came about.\<close>

record trace_info =
  ti_create_time :: nanoseconds
  ti_create_time_utc :: nanoseconds

definition acc_rest_signature :: "crypto_lib \<Rightarrow> account \<Rightarrow> trace_info \<Rightarrow> string" where
  "acc_rest_signature L a ti = rest_signature L (ac_crypto a) (cl_ms L (ti_create_time_utc ti))"

definition acc_rest_signature_body :: "crypto_lib \<Rightarrow> account \<Rightarrow> trace_info \<Rightarrow> string \<Rightarrow> string" where
  "acc_rest_signature_body L a ti body =
     rest_signature_body L (ac_crypto a) (cl_ms L (ti_create_time_utc ti)) body"

definition acc_rest_signature_query :: "crypto_lib \<Rightarrow> account \<Rightarrow> trace_info \<Rightarrow> string \<Rightarrow> string" where
  "acc_rest_signature_query L a ti query =
     rest_signature_query L (ac_crypto a) (cl_ms L (ti_create_time_utc ti)) query"

section \<open>What the exchange checks\<close>

text \<open>
  The exchange's rule for signed endpoints: the last parameter of the query is the signature,
  and it is the hex HMAC of the rest of the query followed by the body.
\<close>

definition exchange_accepts :: "crypto_lib \<Rightarrow> string \<Rightarrow> string \<Rightarrow> string \<Rightarrow> bool" where
  "exchange_accepts L secret query body =
     (query \<noteq> [] \<and> hd query = CHR ''?'' \<and>
      (let ps = split_all (CHR ''&'') (tl query) in
       read_kv (last ps)
         = (''signature'', cl_hex L (cl_hmac L secret (join_all (CHR ''&'') (butlast ps) @ body)))))"

lemma join_split_all: "join_all c (split_all c s) = s"
proof (induction s)
  case (Cons x s)
  then show ?case by (cases "split_all c s" rule: list.exhaust [case_product list.exhaust])
      (auto split: list.splits, (metis append_Cons append_Nil join_all.simps neq_Nil_conv)+)
qed simp

lemma split_all_snoc:
  "c \<notin> set b \<Longrightarrow> split_all c (a @ c # b) = split_all c a @ [b]"
  by (induction a) (auto simp: split_all_no_sep split: list.splits)

lemma exchange_accepts_signed:
  assumes "query_plain (cl_hex L (cl_hmac L secret (a @ body)))"
  shows "exchange_accepts L secret
     (CHR ''?'' # a @ CHR ''&'' # kv ''signature'' (cl_hex L (cl_hmac L secret (a @ body)))) body"
proof -
  have "CHR ''&'' \<notin> set (kv ''signature'' (cl_hex L (cl_hmac L secret (a @ body))))"
    using assms by (simp add: kv_def query_plain_def plain_for_def)
  then show ?thesis by (simp add: exchange_accepts_def Let_def split_all_snoc join_split_all)
qed

end
