(* ===== verification/Json_Enums.thy ===== *)
theory Json_Enums
  imports Main
begin

text \<open>
  The enumerations of \<open>protocol/json/*.json\<close> (schemas of type \<open>enum\<close>). The build generates a
  C++ class per schema: the enumerators of the schema and the two
  that every such class has, \<open>UNDEFINED_INTERNAL\<close> (no value) and \<open>UNKNOWN_INTERNAL\<close> (a value
  the schema does not list). The raw text of an enumerator is its \<open>raw\<close> entry, else its name.
\<close>

text \<open>\<open>protocol/json/contract_status.json\<close>.\<close>

datatype j_contract_status =
    JContractStatus_UNDEFINED_INTERNAL | JContractStatus_UNKNOWN_INTERNAL
  | JContractStatus_PRE_TRADING | JContractStatus_TRADING | JContractStatus_POST_TRADING
  | JContractStatus_END_OF_DAY | JContractStatus_HALT | JContractStatus_AUCTION_MATCH
  | JContractStatus_BREAK | JContractStatus_SETTLING | JContractStatus_PENDING_TRADING
  | JContractStatus_DELIVERING | JContractStatus_PRE_DELIVERING | JContractStatus_CLOSE
  | JContractStatus_TRADING_CANCEL_ONLY

text \<open>\<open>protocol/json/contract_type.json\<close>.\<close>

datatype j_contract_type =
    JContractType_UNDEFINED_INTERNAL | JContractType_UNKNOWN_INTERNAL
  | JContractType_PERPETUAL | JContractType_CURRENT_QUARTER | JContractType_NEXT_QUARTER
  | JContractType_CURRENT_QUARTER_DELIVERING | JContractType_PERPETUAL_DELIVERING
  | JContractType_TRADIFI_PERPETUAL | JContractType_CURRENT_WEEK | JContractType_NEXT_WEEK

text \<open>\<open>protocol/json/order_status.json\<close>.\<close>

datatype j_order_status =
    JOrderStatus_UNDEFINED_INTERNAL | JOrderStatus_UNKNOWN_INTERNAL | JOrderStatus_NEW
  | JOrderStatus_PARTIALLY_FILLED | JOrderStatus_FILLED | JOrderStatus_CANCELED
  | JOrderStatus_EXPIRED | JOrderStatus_NEW_INSURANCE | JOrderStatus_NEW_ADL
  | JOrderStatus_EXPIRED_IN_MATCH

text \<open>\<open>protocol/json/order_type.json\<close>.\<close>

datatype j_order_type =
    JOrderType_UNDEFINED_INTERNAL | JOrderType_UNKNOWN_INTERNAL | JOrderType_MARKET
  | JOrderType_LIMIT | JOrderType_STOP | JOrderType_TAKE_PROFIT | JOrderType_LIQUIDATION

text \<open>\<open>protocol/json/side.json\<close>.\<close>

datatype j_side =
    JSide_UNDEFINED_INTERNAL | JSide_UNKNOWN_INTERNAL | JSide_BUY | JSide_SELL

text \<open>\<open>protocol/json/symbol_status.json\<close>.\<close>

datatype j_symbol_status =
    JSymbolStatus_UNDEFINED_INTERNAL | JSymbolStatus_UNKNOWN_INTERNAL
  | JSymbolStatus_PRE_TRADING | JSymbolStatus_TRADING | JSymbolStatus_POST_TRADING
  | JSymbolStatus_END_OF_DAY | JSymbolStatus_HALT | JSymbolStatus_AUCTION_MATCH
  | JSymbolStatus_BREAK | JSymbolStatus_SETTLING | JSymbolStatus_PENDING_TRADING
  | JSymbolStatus_DELIVERING | JSymbolStatus_PRE_SETTLE | JSymbolStatus_TRADING_HALT
  | JSymbolStatus_TRADING_CANCEL_ONLY | JSymbolStatus_PRE_DELIVERING

text \<open>\<open>protocol/json/time_in_force.json\<close>.\<close>

datatype j_time_in_force =
    JTimeInForce_UNDEFINED_INTERNAL | JTimeInForce_UNKNOWN_INTERNAL | JTimeInForce_GTC
  | JTimeInForce_IOC | JTimeInForce_FOK | JTimeInForce_GTX | JTimeInForce_OTC
  | JTimeInForce_RPI

text \<open>\<open>protocol/json/execution_type.json\<close>.\<close>

datatype j_execution_type =
    JExecutionType_UNDEFINED_INTERNAL | JExecutionType_UNKNOWN_INTERNAL
  | JExecutionType_NEW | JExecutionType_CALCULATED | JExecutionType_CANCELED
  | JExecutionType_EXPIRED | JExecutionType_TRADE | JExecutionType_AMENDMENT

text \<open>\<open>protocol/json/position_side.json\<close>.\<close>

datatype j_position_side =
    JPositionSide_UNDEFINED_INTERNAL | JPositionSide_UNKNOWN_INTERNAL | JPositionSide_BOTH
  | JPositionSide_LONG | JPositionSide_SHORT

text \<open>\<open>protocol/json/rate_limit_type.json\<close>.\<close>

datatype j_rate_limit_type =
    JRateLimitType_UNDEFINED_INTERNAL | JRateLimitType_UNKNOWN_INTERNAL
  | JRateLimitType_REQUEST_WEIGHT | JRateLimitType_ORDERS | JRateLimitType_RAW_REQUESTS

text \<open>\<open>protocol/json/interval.json\<close>.\<close>

datatype j_interval =
    JInterval_UNDEFINED_INTERNAL | JInterval_UNKNOWN_INTERNAL | JInterval_MINUTE
  | JInterval_SECOND | JInterval_DAY

text \<open>\<open>protocol/json/wsapi_type.json\<close>.\<close>

datatype wsapi_type =
    WSAPIType_UNDEFINED_INTERNAL | WSAPIType_UNKNOWN_INTERNAL | WSAPIType_SESSION_LOGON
  | WSAPIType_USER_DATA_STREAM_START | WSAPIType_USER_DATA_STREAM_PING
  | WSAPIType_ACCOUNT_BALANCE | WSAPIType_ACCOUNT_STATUS | WSAPIType_ACCOUNT_POSITION
  | WSAPIType_ORDERS_STATUS | WSAPIType_OPEN_ORDERS_CANCEL_ALL | WSAPIType_ORDER_PLACE
  | WSAPIType_ORDER_CANCEL | WSAPIType_ORDER_MODIFY | WSAPIType_MY_TRADES

text \<open>\<open>protocol/json/event_type.json\<close>.\<close>

datatype j_event_type =
    JEventType_UNDEFINED_INTERNAL | JEventType_UNKNOWN_INTERNAL | JEventType_trade
  | JEventType_aggTrade | JEventType_24hrMiniTicker | JEventType_bookTicker
  | JEventType_depthUpdate | JEventType_markPriceUpdate | JEventType_kline
  | JEventType_assetIndexUpdate | JEventType_ORDER_TRADE_UPDATE | JEventType_ACCOUNT_UPDATE
  | JEventType_MARGIN_CALL | JEventType_STRATEGY_UPDATE | JEventType_GRID_UPDATE
  | JEventType_ACCOUNT_CONFIG_UPDATE | JEventType_listenKeyExpired | JEventType_TRADE_LITE
  | JEventType_balanceUpdate | JEventType_executionReport | JEventType_liabilityChange
  | JEventType_outboundAccountPosition | JEventType_POSITION_HISTORY_UPDATE
  | JEventType_ALGO_UPDATE | JEventType_forceOrder

text \<open>\<open>protocol/json/filter_type.json\<close>.\<close>

datatype j_filter_type =
    JFilterType_UNDEFINED_INTERNAL | JFilterType_UNKNOWN_INTERNAL
  | JFilterType_PRICE_FILTER | JFilterType_PERCENT_PRICE | JFilterType_LOT_SIZE
  | JFilterType_MIN_NOTIONAL | JFilterType_ICEBERG_PARTS | JFilterType_MARKET_LOT_SIZE
  | JFilterType_MAX_NUM_ORDERS | JFilterType_MAX_NUM_ALGO_ORDERS
  | JFilterType_MAX_NUM_ICEBERG_ORDERS | JFilterType_MAX_POSITION
  | JFilterType_EXCHANGE_MAX_NUM_ORDERS | JFilterType_EXCHANGE_MAX_NUM_ALGO_ORDERS
  | JFilterType_POSITION_RISK_CONTROL

text \<open>\<open>protocol/json/margin_type.json\<close>.\<close>

datatype j_margin_type =
    JMarginType_UNDEFINED_INTERNAL | JMarginType_UNKNOWN_INTERNAL | JMarginType_isolated
  | JMarginType_cross

text \<open>\<open>protocol/json/field.json\<close>.\<close>

datatype j_field =
    JField_UNDEFINED_INTERNAL | JField_UNKNOWN_INTERNAL | JField_id | JField_error
  | JField_result | JField_stream | JField_data | JField_event_type
  | JField_order_book_update_id

text \<open>\<open>protocol/json/self_trade_prevention.json\<close>.\<close>

datatype j_self_trade_prevention =
    JSelfTradePrevention_UNDEFINED_INTERNAL | JSelfTradePrevention_UNKNOWN_INTERNAL
  | JSelfTradePrevention_NONE | JSelfTradePrevention_EXPIRE_MAKER
  | JSelfTradePrevention_EXPIRE_TAKER | JSelfTradePrevention_EXPIRE_BOTH

text \<open>\<open>as_raw_text\<close>: the text the exchange uses. The generated class decides about the two internal
enumerators, so theirs is the parameter \<open>internal\<close>.\<close>

fun j_side_text :: "(j_side \<Rightarrow> string) \<Rightarrow> j_side \<Rightarrow> string" where
  "j_side_text internal JSide_UNDEFINED_INTERNAL = internal JSide_UNDEFINED_INTERNAL"
| "j_side_text internal JSide_UNKNOWN_INTERNAL = internal JSide_UNKNOWN_INTERNAL"
| "j_side_text internal JSide_BUY = ''BUY''"
| "j_side_text internal JSide_SELL = ''SELL''"

fun j_order_type_text :: "(j_order_type \<Rightarrow> string) \<Rightarrow> j_order_type \<Rightarrow> string" where
  "j_order_type_text internal JOrderType_UNDEFINED_INTERNAL = internal JOrderType_UNDEFINED_INTERNAL"
| "j_order_type_text internal JOrderType_UNKNOWN_INTERNAL = internal JOrderType_UNKNOWN_INTERNAL"
| "j_order_type_text internal JOrderType_MARKET = ''MARKET''"
| "j_order_type_text internal JOrderType_LIMIT = ''LIMIT''"
| "j_order_type_text internal JOrderType_STOP = ''STOP''"
| "j_order_type_text internal JOrderType_TAKE_PROFIT = ''TAKE_PROFIT''"
| "j_order_type_text internal JOrderType_LIQUIDATION = ''LIQUIDATION''"

fun j_time_in_force_text :: "(j_time_in_force \<Rightarrow> string) \<Rightarrow> j_time_in_force \<Rightarrow> string" where
  "j_time_in_force_text internal JTimeInForce_UNDEFINED_INTERNAL = internal JTimeInForce_UNDEFINED_INTERNAL"
| "j_time_in_force_text internal JTimeInForce_UNKNOWN_INTERNAL = internal JTimeInForce_UNKNOWN_INTERNAL"
| "j_time_in_force_text internal JTimeInForce_GTC = ''GTC''"
| "j_time_in_force_text internal JTimeInForce_IOC = ''IOC''"
| "j_time_in_force_text internal JTimeInForce_FOK = ''FOK''"
| "j_time_in_force_text internal JTimeInForce_GTX = ''GTX''"
| "j_time_in_force_text internal JTimeInForce_OTC = ''OTC''"
| "j_time_in_force_text internal JTimeInForce_RPI = ''RPI''"

fun j_order_status_text :: "(j_order_status \<Rightarrow> string) \<Rightarrow> j_order_status \<Rightarrow> string" where
  "j_order_status_text internal JOrderStatus_UNDEFINED_INTERNAL = internal JOrderStatus_UNDEFINED_INTERNAL"
| "j_order_status_text internal JOrderStatus_UNKNOWN_INTERNAL = internal JOrderStatus_UNKNOWN_INTERNAL"
| "j_order_status_text internal JOrderStatus_NEW = ''NEW''"
| "j_order_status_text internal JOrderStatus_PARTIALLY_FILLED = ''PARTIALLY_FILLED''"
| "j_order_status_text internal JOrderStatus_FILLED = ''FILLED''"
| "j_order_status_text internal JOrderStatus_CANCELED = ''CANCELED''"
| "j_order_status_text internal JOrderStatus_EXPIRED = ''EXPIRED''"
| "j_order_status_text internal JOrderStatus_NEW_INSURANCE = ''NEW_INSURANCE''"
| "j_order_status_text internal JOrderStatus_NEW_ADL = ''NEW_ADL''"
| "j_order_status_text internal JOrderStatus_EXPIRED_IN_MATCH = ''EXPIRED_IN_MATCH''"

fun j_self_trade_prevention_text ::
  "(j_self_trade_prevention \<Rightarrow> string) \<Rightarrow> j_self_trade_prevention \<Rightarrow> string" where
  "j_self_trade_prevention_text internal JSelfTradePrevention_UNDEFINED_INTERNAL
    = internal JSelfTradePrevention_UNDEFINED_INTERNAL"
| "j_self_trade_prevention_text internal JSelfTradePrevention_UNKNOWN_INTERNAL
    = internal JSelfTradePrevention_UNKNOWN_INTERNAL"
| "j_self_trade_prevention_text internal JSelfTradePrevention_NONE = ''NONE''"
| "j_self_trade_prevention_text internal JSelfTradePrevention_EXPIRE_MAKER = ''EXPIRE_MAKER''"
| "j_self_trade_prevention_text internal JSelfTradePrevention_EXPIRE_TAKER = ''EXPIRE_TAKER''"
| "j_self_trade_prevention_text internal JSelfTradePrevention_EXPIRE_BOTH = ''EXPIRE_BOTH''"

end
