(* ===== verification/Gw_Config.thy ===== *)
theory Gw_Config
  imports Rest_Crypto Json_Enums
begin

text \<open>
  Configuration: the flags the model reads (\<open>flags/*.json\<close>), the REST paths of the two APIs
  (\<open>gateway/api.cpp\<close>), the configuration file (\<open>gateway/config.cpp\<close>) and the creation of an
  account from it (\<open>gateway/account.cpp\<close>).
\<close>

section \<open>Settings\<close>

record settings =
  st_exchange :: string
  st_api :: string
  st_app_api :: string
  st_ws_api :: bool
  st_self_trade_prevention_mode :: string
  st_enable_rate_limit :: bool
  st_disable_fast_order_ack :: bool
  st_allow_unknown_event_types :: bool
  st_continue_with_unknown_event_type :: bool
  st_mbp_max_depth :: u32
  st_mbp_allow_price_inversion :: bool
  st_mbp_checksum :: bool
  st_rest_listen_key_refresh :: nanoseconds
  st_rest_order_recv_window :: nanoseconds
  st_rest_order_countdown :: nanoseconds
  st_rest_cancel_on_disconnect :: bool
  st_rest_drop_order_update :: bool
  st_rest_terminate_on_403 :: bool
  st_rest_back_off_delay :: nanoseconds
  st_download_symbols :: "string list"
  st_download_trades_limit :: u32
  st_download_trades_lookback :: nanoseconds
  st_download_trades_lookback_on_restart :: nanoseconds
  st_ws_enable_secondary :: bool
  st_ws_trade_lite :: bool
  st_ws_api_allow_order_update :: bool
  st_poll_balance_freq :: nanoseconds
  st_check_stale_order_freq :: nanoseconds
  st_test_alt_funds_update :: bool
  st_test_cancel_bug_timeout :: nanoseconds
  st_test_force_client_order_id :: bool
  st_subscribe_trade_details :: bool
  st_subscribe_depth_levels :: u32
  st_subscribe_depth_freq :: nanoseconds
  st_mbp_request_max_retries :: u32
  st_mark_price_freq :: nanoseconds
  st_subscribe_force_order :: bool
  st_subscribe_asset_index :: bool
  st_time_series_lookback :: nanoseconds
  st_time_series_realtime :: bool
  st_assertions :: bool

section \<open>REST paths\<close>

record api_market_data =
  am_exchange_info :: string
  am_depth :: string
  am_kline :: string
  am_asset_index :: string

record api_simple =
  as_listen_key :: string
  as_account_balance :: string
  as_account_status :: string
  as_open_orders :: string
  as_user_trades :: string
  as_order :: string
  as_all_open_orders :: string
  as_countdown_cancel_all :: string

record api_papi =
  ap_listen_key :: string
  ap_account_balance :: string
  ap_account_status :: string
  ap_position_risk :: string
  ap_open_orders :: string
  ap_user_trades :: string
  ap_order :: string
  ap_all_open_orders :: string

record api =
  api_market_data :: api_market_data
  api_simple :: api_simple
  api_papi :: api_papi
  api_modify_order_full :: bool
  api_self_trade_prevention :: j_self_trade_prevention

text \<open>
  \<open>std::toupper\<close> in the default locale. The generated class reads an enumerator from its
  text (\<open>stp_of\<close>).
\<close>

definition to_upper :: "char \<Rightarrow> char" where
  "to_upper c = (let n = of_char c :: nat in if 97 \<le> n \<and> n \<le> 122 then char_of (n - 32) else c)"

definition parse_self_trade_prevention ::
  "(string \<Rightarrow> j_self_trade_prevention) \<Rightarrow> string \<Rightarrow> j_self_trade_prevention" where
  "parse_self_trade_prevention stp_of v =
     (if v = [] then JSelfTradePrevention_UNDEFINED_INTERNAL else stp_of (map to_upper v))"

definition fapi_paths :: "j_self_trade_prevention \<Rightarrow> api" where
  "fapi_paths stp = \<lparr>
     api_market_data = \<lparr> am_exchange_info = ''/fapi/v1/exchangeInfo'', am_depth = ''/fapi/v1/depth'',
       am_kline = ''/fapi/v1/klines'', am_asset_index = ''/fapi/v1/assetIndex'' \<rparr>,
     api_simple = \<lparr> as_listen_key = ''/fapi/v1/listenKey'', as_account_balance = ''/fapi/v2/balance'',
       as_account_status = ''/fapi/v2/account'', as_open_orders = ''/fapi/v1/openOrders'',
       as_user_trades = ''/fapi/v1/userTrades'', as_order = ''/fapi/v1/order'',
       as_all_open_orders = ''/fapi/v1/allOpenOrders'',
       as_countdown_cancel_all = ''/fapi/v1/countdownCancelAll'' \<rparr>,
     api_papi = \<lparr> ap_listen_key = ''/papi/v1/listenKey'', ap_account_balance = ''/papi/v1/balance'',
       ap_account_status = ''/papi/v1/account'', ap_position_risk = ''/papi/v1/um/positionRisk'',
       ap_open_orders = ''/papi/v1/um/openOrders'', ap_user_trades = ''/papi/v1/um/userTrades'',
       ap_order = ''/papi/v1/um/order'', ap_all_open_orders = ''/papi/v1/um/allOpenOrders'' \<rparr>,
     api_modify_order_full = True,
     api_self_trade_prevention = stp \<rparr>"

definition dapi_paths :: "j_self_trade_prevention \<Rightarrow> api" where
  "dapi_paths stp = \<lparr>
     api_market_data = \<lparr> am_exchange_info = ''/dapi/v1/exchangeInfo'', am_depth = ''/dapi/v1/depth'',
       am_kline = ''/dapi/v1/klines'', am_asset_index = [] \<rparr>,
     api_simple = \<lparr> as_listen_key = ''/dapi/v1/listenKey'', as_account_balance = ''/dapi/v1/balance'',
       as_account_status = ''/dapi/v1/account'', as_open_orders = ''/dapi/v1/openOrders'',
       as_user_trades = ''/dapi/v1/userTrades'', as_order = ''/dapi/v1/order'',
       as_all_open_orders = ''/dapi/v1/allOpenOrders'',
       as_countdown_cancel_all = ''/dapi/v1/countdownCancelAll'' \<rparr>,
     api_papi = \<lparr> ap_listen_key = ''/papi/v1/listenKey'', ap_account_balance = ''/papi/v1/balance'',
       ap_account_status = ''/papi/v1/account'', ap_position_risk = ''/papi/v1/cm/positionRisk'',
       ap_open_orders = ''/papi/v1/cm/openOrders'', ap_user_trades = ''/papi/v1/cm/userTrades'',
       ap_order = ''/papi/v1/cm/order'', ap_all_open_orders = ''/papi/v1/cm/allOpenOrders'' \<rparr>,
     api_modify_order_full = False,
     api_self_trade_prevention = stp \<rparr>"

definition api_create :: "(string \<Rightarrow> j_self_trade_prevention) \<Rightarrow> settings \<Rightarrow> exn + api" where
  "api_create stp_of st =
     (let stp = parse_self_trade_prevention stp_of (st_self_trade_prevention_mode st) in
      if st_app_api st = ''fapi'' then Inr (fapi_paths stp)
      else if st_app_api st = ''dapi'' then Inr (dapi_paths stp)
      else Inl (Std_exception (''Unknown api='' @ [CHR 0x22] @ st_app_api st @ [CHR 0x22])))"

text \<open>The order and account paths of an API, which all start with its name.\<close>

definition simple_paths :: "api \<Rightarrow> string list" where
  "simple_paths a = (let s = api_simple a in
     [as_listen_key s, as_account_balance s, as_account_status s, as_open_orders s,
      as_user_trades s, as_order s, as_all_open_orders s, as_countdown_cancel_all s])"

definition papi_paths :: "api \<Rightarrow> string list" where
  "papi_paths a = (let p = api_papi a in
     [ap_listen_key p, ap_account_balance p, ap_account_status p, ap_position_risk p,
      ap_open_orders p, ap_user_trades p, ap_order p, ap_all_open_orders p])"

section \<open>Configuration file\<close>

text \<open>
  \<open>Config\<close> collects what the reader of the file reports, one call per entry. The accounts and
  rate limits are unordered maps: association lists here. \<open>emplace\<close> keeps the entry that is
  already there. Users, symbol patterns and rate limits are opaque to the gateway.
\<close>

record cfg_account =
  ca_name :: string
  ca_master :: bool
  ca_mode :: margin_mode
  ca_login :: string
  ca_secret :: string
  ca_login_2 :: string
  ca_secret_2 :: string

record gateway_settings =
  gs_mbp_max_depth :: u32
  gs_mbp_allow_remove_non_existing :: bool
  gs_mbp_allow_price_inversion :: bool
  gs_mbp_checksum :: bool

definition create_gateway_settings :: "settings \<Rightarrow> gateway_settings" where
  "create_gateway_settings st = \<lparr>
     gs_mbp_max_depth = st_mbp_max_depth st,
     gs_mbp_allow_remove_non_existing = True,
     gs_mbp_allow_price_inversion = st_mbp_allow_price_inversion st,
     gs_mbp_checksum = st_mbp_checksum st \<rparr>"

record config =
  cf_exchange :: string
  cf_gateway_settings :: gateway_settings
  cf_users :: "string list"
  cf_symbols :: "string list"
  cf_accounts :: "(string \<times> cfg_account) list"
  cf_master :: string
  cf_rate_limits :: "(string \<times> string) list"

definition map_emplace :: "'k \<Rightarrow> 'v \<Rightarrow> ('k \<times> 'v) list \<Rightarrow> ('k \<times> 'v) list" where
  "map_emplace k v m = (if map_of m k = None then m @ [(k, v)] else m)"

lemma map_of_emplace:
  "map_of (map_emplace k v m) = (if map_of m k = None then (map_of m)(k \<mapsto> v) else map_of m)"
  by (auto simp: map_emplace_def map_add_def fun_eq_iff split: option.splits)

lemma distinct_map_emplace [simp]:
  "distinct (map fst (map_emplace k v m)) = distinct (map fst m)"
  by (auto simp: map_emplace_def map_of_eq_None_iff)

datatype cfg_entry =
    CE_symbols "string list"
  | CE_account cfg_account
  | CE_user string
  | CE_rate_limit string string
  | CE_request_template
  | CE_unknown_key string

text \<open>One entry of the file. A request template ends the process; an unknown key is ignored.\<close>

fun config_entry :: "cfg_entry \<Rightarrow> config \<Rightarrow> (exn, config) res" where
  "config_entry (CE_symbols s) c = Ok (c\<lparr>cf_symbols := s\<rparr>)"
| "config_entry (CE_account a) c =
     (let c = (if ca_master a then c\<lparr>cf_master := ca_name a\<rparr> else c)
      in Ok (c\<lparr>cf_accounts := map_emplace (ca_name a) a (cf_accounts c)\<rparr>))"
| "config_entry (CE_user u) c = Ok (c\<lparr>cf_users := cf_users c @ [u]\<rparr>)"
| "config_entry (CE_rate_limit n r) c =
     Ok (c\<lparr>cf_rate_limits := map_emplace n r (cf_rate_limits c)\<rparr>)"
| "config_entry CE_request_template c =
     Fatal ''Unexpected: request templates not supported'' c"
| "config_entry (CE_unknown_key k) c = Ok c"

definition config_create :: "settings \<Rightarrow> cfg_entry list \<Rightarrow> (exn, config) res" where
  "config_create st entries = for_each config_entry entries
     \<lparr> cf_exchange = st_exchange st, cf_gateway_settings = create_gateway_settings st,
       cf_users = [], cf_symbols = [], cf_accounts = [], cf_master = [], cf_rate_limits = [] \<rparr>"

definition unknown_account :: "string \<Rightarrow> string" where
  "unknown_account name = ''Unknown account='' @ [CHR 0x22] @ name @ [CHR 0x22]"

definition config_field :: "(cfg_account \<Rightarrow> string) \<Rightarrow> config \<Rightarrow> string \<Rightarrow> string + string" where
  "config_field f c name = (case map_of (cf_accounts c) name of
     None \<Rightarrow> Inl (unknown_account name) | Some a \<Rightarrow> Inr (f a))"

definition get_api_key :: "config \<Rightarrow> string \<Rightarrow> string + string" where
  "get_api_key = config_field ca_login"

definition get_secret :: "config \<Rightarrow> string \<Rightarrow> string + string" where
  "get_secret = config_field ca_secret"

definition get_api_key_2 :: "config \<Rightarrow> string \<Rightarrow> string + string" where
  "get_api_key_2 = config_field ca_login_2"

definition get_secret_2 :: "config \<Rightarrow> string \<Rightarrow> string + string" where
  "get_secret_2 = config_field ca_secret_2"

text \<open>\<open>Config::dispatch\<close>: the calls of the handler, in order.\<close>

datatype cfg_item =
    CI_exchange string | CI_symbols "string list" | CI_account cfg_account | CI_user string
  | CI_gateway_settings gateway_settings | CI_rate_limit string

definition config_dispatch :: "config \<Rightarrow> cfg_item list" where
  "config_dispatch c =
     [CI_exchange (cf_exchange c), CI_symbols (cf_symbols c)] @
     map (CI_account \<circ> snd) (cf_accounts c) @ map CI_user (cf_users c) @
     [CI_gateway_settings (cf_gateway_settings c)] @
     map (CI_rate_limit \<circ> snd) (cf_rate_limits c)"

section \<open>Accounts from the configuration\<close>

definition account_create ::
  "crypto_lib \<Rightarrow> config \<Rightarrow> string \<Rightarrow> margin_mode \<Rightarrow> string + account" where
  "account_create L c name margin_mode =
     (case get_api_key c name of Inl e \<Rightarrow> Inl e | Inr key \<Rightarrow>
      case get_secret c name of Inl e \<Rightarrow> Inl e | Inr secret \<Rightarrow>
      if key = [] \<or> secret = [] then Inl ''Invalid config''
      else case get_api_key_2 c name of Inl e \<Rightarrow> Inl e | Inr key_2 \<Rightarrow>
      case get_secret_2 c name of Inl e \<Rightarrow> Inl e | Inr secret_2 \<Rightarrow>
      case crypto_create L key secret margin_mode key_2 secret_2 of Inl e \<Rightarrow> Inl e
      | Inr cr \<Rightarrow> Inr \<lparr> ac_name = name, ac_margin_mode = margin_mode, ac_crypto = cr \<rparr>)"

section \<open>What the file leads to\<close>

definition file_accounts :: "cfg_entry list \<Rightarrow> cfg_account list" where
  "file_accounts es = concat (map (\<lambda>e. case e of CE_account a \<Rightarrow> [a] | _ \<Rightarrow> []) es)"

lemma config_entry_accounts:
  "config_entry e c = Ok c' \<Longrightarrow>
     map_of (cf_accounts c') = map_of (map (\<lambda>a. (ca_name a, a)) (file_accounts [e])) ++ map_of (cf_accounts c)"
  by (cases e) (auto simp: map_of_emplace file_accounts_def map_add_def fun_eq_iff Let_def
      split: option.splits if_splits)

text \<open>The first entry with a name is the account of that name.\<close>

lemma config_create_accounts:
  assumes "for_each config_entry es c = Ok c'"
  shows "map_of (cf_accounts c') n =
    (case map_of (cf_accounts c) n of Some a \<Rightarrow> Some a
     | None \<Rightarrow> map_of (map (\<lambda>a. (ca_name a, a)) (file_accounts es)) n)"
  using assms
proof (induction es arbitrary: c)
  case (Cons e es)
  then obtain d where d: "config_entry e c = Ok d" "for_each config_entry es d = Ok c'"
    by (auto simp: and_then_eq_Ok)
  have "file_accounts (e # es) = file_accounts [e] @ file_accounts es"
    by (simp add: file_accounts_def)
  with Cons.IH [OF d(2)] config_entry_accounts [OF d(1)] show ?case
    by (auto simp: map_add_def split: option.splits)
qed (auto simp: file_accounts_def split: option.splits)

end
