(* ===== verification/Rate_Throttle.thy ===== *)
theory Rate_Throttle
  imports Gw_Prelude Gw_Config
begin

text \<open>
  \<open>tools/throttle.{hpp,cpp}\<close>: the interceptor every connection shares. It sees the status of
  every REST response, and the connections ask it (\<open>suspend_until_\<close>) until when they must not
  send.
\<close>

record throttle =
  th_enabled :: bool
  th_used_weight_1m :: int
  th_suspend_until :: nanoseconds

definition throttle_create :: "settings \<Rightarrow> throttle" where
  "throttle_create st =
     \<lparr> th_enabled = st_enable_rate_limit st, th_used_weight_1m = 0, th_suspend_until = 0 \<rparr>"

definition default_backoff :: nanoseconds where
  "default_backoff = seconds 5"

definition blocked_backoff :: nanoseconds where
  "blocked_backoff = minutes 10"

text \<open>
  \<open>parse_header\<close> compares hashes of the lower-case name. The hash is library code (\<open>fnv\<close>).
\<close>

datatype header = Header_UNKNOWN | Header_X_MBX_USED_WEIGHT_1M

definition ascii_to_lower :: "char \<Rightarrow> char" where
  "ascii_to_lower c =
     (let n = of_char c :: nat in if 65 \<le> n \<and> n \<le> 90 then char_of (n + 32) else c)"

definition parse_header :: "(string \<Rightarrow> u64) \<Rightarrow> string \<Rightarrow> header" where
  "parse_header fnv text =
     (if fnv (map ascii_to_lower text) = fnv ''x-mbx-used-weight-1m''
      then Header_X_MBX_USED_WEIGHT_1M else Header_UNKNOWN)"

text \<open>The value is read by library code, which may throw.\<close>

definition throttle_message_header ::
  "(string \<Rightarrow> u64) \<Rightarrow> (string \<Rightarrow> exn + int) \<Rightarrow> string \<Rightarrow> string \<Rightarrow> throttle \<Rightarrow> (exn, throttle) res"
where
  "throttle_message_header fnv from_chars name v th =
     (case parse_header fnv name of
        Header_UNKNOWN \<Rightarrow> Ok th
      | Header_X_MBX_USED_WEIGHT_1M \<Rightarrow>
          (case from_chars v of
             Inl e \<Rightarrow> Throw e th
           | Inr n \<Rightarrow> Ok (th\<lparr>th_used_weight_1m := n\<rparr>)))"

text \<open>The end of a response: its HTTP status, and the system clock.\<close>

definition throttle_message_end :: "nanoseconds \<Rightarrow> nat \<Rightarrow> throttle \<Rightarrow> throttle" where
  "throttle_message_end now status th =
     (if \<not> th_enabled th then th
      else if status = 403 then
        th\<lparr>th_suspend_until := max (th_suspend_until th) (now + blocked_backoff)\<rparr>
      else if status = 429 then
        (if th_suspend_until th = 0 then th\<lparr>th_suspend_until := now + default_backoff\<rparr> else th)
      else th)"

definition throttle_run :: "(nanoseconds \<times> nat) list \<Rightarrow> throttle \<Rightarrow> throttle" where
  "throttle_run events th = fold (\<lambda>(now, status). throttle_message_end now status) events th"

lemma throttle_enabled_keeps [simp]: "th_enabled (throttle_message_end now s th) = th_enabled th"
  by (simp add: throttle_message_end_def)

lemma throttle_monotone:
  "0 \<le> now \<Longrightarrow> th_suspend_until th \<le> th_suspend_until (throttle_message_end now s th)"
  by (auto simp: throttle_message_end_def default_backoff_def seconds_def)

lemma throttle_blocked:
  "th_enabled th \<Longrightarrow> now + blocked_backoff \<le> th_suspend_until (throttle_message_end now 403 th)"
  by (simp add: throttle_message_end_def)

lemma throttle_run_Cons [simp]:
  "throttle_run ((now, s) # es) th = throttle_run es (throttle_message_end now s th)"
  "throttle_run [] th = th"
  by (simp_all add: throttle_run_def)

lemma throttle_run_append:
  "throttle_run (es @ fs) th = throttle_run fs (throttle_run es th)"
  by (simp add: throttle_run_def)

lemma throttle_run_monotone:
  "\<forall>(now, s) \<in> set es. 0 \<le> now \<Longrightarrow> th_suspend_until th \<le> th_suspend_until (throttle_run es th)"
proof (induction es arbitrary: th)
  case (Cons e es)
  then obtain now s where e: "e = (now, s)" by (cases e) auto
  with Cons.prems have "th_suspend_until th \<le> th_suspend_until (throttle_message_end now s th)"
    by (simp add: throttle_monotone)
  also have "\<dots> \<le> th_suspend_until (throttle_run es (throttle_message_end now s th))"
    using Cons by simp
  finally show ?case by (simp add: e)
qed simp

lemma throttle_run_enabled [simp]: "th_enabled (throttle_run es th) = th_enabled th"
proof (induction es arbitrary: th)
  case (Cons e es)
  then show ?case by (cases e) simp
qed simp

text \<open>Once a suspension is recorded, only a 403 moves it.\<close>

lemma throttle_429_ignored:
  "th_suspend_until th \<noteq> 0 \<Longrightarrow> \<forall>(now, s) \<in> set es. s \<noteq> 403 \<Longrightarrow> throttle_run es th = th"
proof (induction es)
  case (Cons e es)
  then obtain now s where e: "e = (now, s)" by (cases e) auto
  with Cons show ?case by (simp add: throttle_message_end_def)
qed simp

end
