(* ===== verification/Fp_Double.thy ===== *)
theory Fp_Double
  imports Complex_Main
begin

text \<open>
  The C++ type \<open>double\<close> as far as the gateway computes with it: IEEE 754 binary64 values with
  rounding to nearest, ties to even. A finite value is the rational number it denotes, so
  the sign of a zero is not kept (no code of the gateway looks at it). The operations are those the gateway uses:
  addition, subtraction, negation, comparison, \<open>std::max\<close> and \<open>std::isnan\<close>.
\<close>

datatype double = NaN | PInf | NInf | Fin rat

section \<open>Rounding\<close>

function nbits :: "int \<Rightarrow> int" where
  "nbits n = (if n \<le> 0 then 0 else 1 + nbits (n div 2))"
  by auto
termination by (relation "measure nat") auto

declare nbits.simps [simp del]

text \<open>The exponent of the last bit kept: 53 bits from the first, and never below \<open>-1074\<close>.\<close>

definition pow2 :: "int \<Rightarrow> rat" where
  "pow2 e = (if 0 \<le> e then 2 ^ nat e else 1 / 2 ^ nat (- e))"

definition last_bit :: "rat \<Rightarrow> int" where
  "last_bit q = (let (n, d) = quotient_of q;
                     e = nbits n - nbits d;
                     e' = (if q < pow2 e then e - 1 else e)
                 in max (-1074) (e' - 52))"

definition round_even :: "rat \<Rightarrow> int" where
  "round_even q = (let f = floor q; r = q - of_int f in
     if r < 1 / 2 then f else if 1 / 2 < r then f + 1 else if even f then f else f + 1)"

definition round_pos :: "rat \<Rightarrow> rat" where
  "round_pos q = (let u = pow2 (last_bit q) in of_int (round_even (q / u)) * u)"

definition fl :: "rat \<Rightarrow> double" where
  "fl q = (if q = 0 then Fin 0
           else let r = round_pos \<bar>q\<bar> in
             if pow2 1024 \<le> r then (if 0 < q then PInf else NInf)
             else Fin (if 0 < q then r else - r))"

section \<open>Arithmetic\<close>

definition isnan :: "double \<Rightarrow> bool" where
  "isnan x = (x = NaN)"

fun fneg :: "double \<Rightarrow> double" where
  "fneg NaN = NaN"
| "fneg PInf = NInf"
| "fneg NInf = PInf"
| "fneg (Fin x) = Fin (- x)"

fun fadd :: "double \<Rightarrow> double \<Rightarrow> double" where
  "fadd NaN y = NaN"
| "fadd x NaN = NaN"
| "fadd PInf NInf = NaN"
| "fadd NInf PInf = NaN"
| "fadd PInf y = PInf"
| "fadd x PInf = PInf"
| "fadd NInf y = NInf"
| "fadd x NInf = NInf"
| "fadd (Fin x) (Fin y) = fl (x + y)"

text \<open>The arithmetic type classes of the library, so that model terms read as the code does.\<close>

instantiation double :: "{zero, plus, uminus, minus}"
begin

definition zero_double_def: "0 = Fin 0"

definition plus_double_def: "x + y = fadd x y"

definition uminus_double_def: "- x = fneg x"

definition minus_double_def: "x - y = fadd x (fneg y)"

instance ..

end

lemmas double_arith_defs = zero_double_def plus_double_def uminus_double_def minus_double_def

fun fless :: "double \<Rightarrow> double \<Rightarrow> bool" where
  "fless NaN y = False"
| "fless x NaN = False"
| "fless PInf y = False"
| "fless NInf y = (y \<noteq> NInf)"
| "fless (Fin x) PInf = True"
| "fless (Fin x) NInf = False"
| "fless (Fin x) (Fin y) = (x < y)"

text \<open>\<open>std::max (a, b)\<close> returns its first argument unless that is less than the second.\<close>

definition fmax :: "double \<Rightarrow> double \<Rightarrow> double" where
  "fmax a b = (if fless a b then b else a)"

section \<open>Lemmas\<close>

lemma fl_0 [simp]: "fl 0 = Fin 0"
  by (simp add: fl_def)

lemma pow2_pos: "0 < pow2 e"
  by (simp add: pow2_def)

lemma round_even_nonneg: "0 \<le> q \<Longrightarrow> 0 \<le> round_even q"
  by (simp add: round_even_def Let_def)

lemma round_pos_nonneg: "0 \<le> q \<Longrightarrow> 0 \<le> round_pos q"
  using pow2_pos [of "last_bit q"]
  by (simp add: round_pos_def Let_def round_even_nonneg)

definition fnonneg :: "double \<Rightarrow> bool" where
  "fnonneg x = (x \<noteq> NaN \<and> \<not> fless x (Fin 0))"

lemma fnonneg_fmax_0 [simp]: "fnonneg (fmax 0 x)"
  by (cases x) (simp_all add: fmax_def fnonneg_def zero_double_def)

lemma fl_nonneg: "0 \<le> q \<Longrightarrow> fnonneg (fl q)"
  using round_pos_nonneg [of q]
  by (auto simp: fl_def fnonneg_def Let_def)

lemma fneg_fneg: "- (- x) = (x :: double)"
  by (cases x) (simp_all add: double_arith_defs)

lemma double_minus_self: "isnan (x - x) \<or> x - x = 0"
  by (cases x) (simp_all add: isnan_def double_arith_defs)

lemma double_add_nonneg: "fnonneg x \<Longrightarrow> fnonneg y \<Longrightarrow> fnonneg (x + y)"
  by (cases x; cases y) (auto simp: fnonneg_def double_arith_defs fl_nonneg [unfolded fnonneg_def])

text \<open>
  Splitting a signed quantity into its long and its short part, as the position updates do:
  at most one part is not zero, and it has the magnitude of the quantity.
\<close>

lemma fmax_split:
  "\<not> isnan x \<Longrightarrow>
    fmax 0 x = x \<and> fmax 0 (- x) = 0 \<or> fmax 0 x = 0 \<and> fmax 0 (- x) = - x"
  by (cases x) (auto simp: fmax_def isnan_def double_arith_defs)

end
