(* ===== verification/Order_Maps.thy ===== *)
theory Order_Maps
  imports Gw_Prelude Roq_Types Json_Enums
begin

text \<open>
  \<open>protocol/json/map.cpp\<close>: the translations between the enumerations of the exchange and those
  of the \<open>roq\<close> API. Each conversion operator is a \<open>switch\<close> that returns an \<open>std::optional\<close>:
  \<open>None\<close> stands for the \<open>return {}\<close> after the switch. The
  \<open>static_assert\<close>s of the file are in \<open>Map_Asserts\<close>.
\<close>

section \<open>From the exchange\<close>

fun map_j_contract_status :: "j_contract_status \<Rightarrow> trading_status option" where
  "map_j_contract_status JContractStatus_UNDEFINED_INTERNAL = Some TradingStatus_UNDEFINED"
| "map_j_contract_status JContractStatus_UNKNOWN_INTERNAL = Some TradingStatus_UNDEFINED"
| "map_j_contract_status JContractStatus_TRADING = Some TradingStatus_OPEN"
| "map_j_contract_status JContractStatus_HALT = Some TradingStatus_HALT"
| "map_j_contract_status JContractStatus_BREAK = Some TradingStatus_CLOSE"
| "map_j_contract_status JContractStatus_END_OF_DAY = Some TradingStatus_END_OF_DAY"
| "map_j_contract_status JContractStatus_PRE_TRADING = Some TradingStatus_PRE_OPEN"
| "map_j_contract_status JContractStatus_AUCTION_MATCH = Some TradingStatus_PRE_OPEN"
| "map_j_contract_status JContractStatus_POST_TRADING = Some TradingStatus_CLOSE"
| "map_j_contract_status JContractStatus_SETTLING = Some TradingStatus_PRE_CLOSE"
| "map_j_contract_status JContractStatus_PENDING_TRADING = Some TradingStatus_PRE_OPEN"
| "map_j_contract_status JContractStatus_DELIVERING = Some TradingStatus_UNDEFINED"
| "map_j_contract_status JContractStatus_PRE_DELIVERING = Some TradingStatus_UNDEFINED"
| "map_j_contract_status JContractStatus_CLOSE = Some TradingStatus_CLOSE"
| "map_j_contract_status JContractStatus_TRADING_CANCEL_ONLY = Some TradingStatus_PRE_OPEN"

lemma map_j_contract_status_total: "\<exists>y. map_j_contract_status x = Some y"
  by (cases x) simp_all

fun map_j_contract_type :: "j_contract_type \<Rightarrow> security_type option" where
  "map_j_contract_type JContractType_UNDEFINED_INTERNAL = Some SecurityType_UNDEFINED"
| "map_j_contract_type JContractType_UNKNOWN_INTERNAL = Some SecurityType_UNDEFINED"
| "map_j_contract_type JContractType_PERPETUAL = Some SecurityType_SWAP"
| "map_j_contract_type JContractType_CURRENT_QUARTER = Some SecurityType_FUTURES"
| "map_j_contract_type JContractType_NEXT_QUARTER = Some SecurityType_FUTURES"
| "map_j_contract_type JContractType_CURRENT_QUARTER_DELIVERING = Some SecurityType_FUTURES"
| "map_j_contract_type JContractType_PERPETUAL_DELIVERING = Some SecurityType_FUTURES"
| "map_j_contract_type JContractType_TRADIFI_PERPETUAL = Some SecurityType_SWAP"
| "map_j_contract_type JContractType_CURRENT_WEEK = Some SecurityType_FUTURES"
| "map_j_contract_type JContractType_NEXT_WEEK = Some SecurityType_FUTURES"

lemma map_j_contract_type_total: "\<exists>y. map_j_contract_type x = Some y"
  by (cases x) simp_all

fun map_j_order_status :: "j_order_status \<Rightarrow> order_status option" where
  "map_j_order_status JOrderStatus_UNDEFINED_INTERNAL = Some OrderStatus_UNDEFINED"
| "map_j_order_status JOrderStatus_UNKNOWN_INTERNAL = Some OrderStatus_UNDEFINED"
| "map_j_order_status JOrderStatus_NEW = Some OrderStatus_WORKING"
| "map_j_order_status JOrderStatus_PARTIALLY_FILLED = Some OrderStatus_WORKING"
| "map_j_order_status JOrderStatus_FILLED = Some OrderStatus_COMPLETED"
| "map_j_order_status JOrderStatus_CANCELED = Some OrderStatus_CANCELED"
| "map_j_order_status JOrderStatus_EXPIRED = Some OrderStatus_EXPIRED"
| "map_j_order_status JOrderStatus_NEW_INSURANCE = Some OrderStatus_UNDEFINED"
| "map_j_order_status JOrderStatus_NEW_ADL = Some OrderStatus_UNDEFINED"
| "map_j_order_status JOrderStatus_EXPIRED_IN_MATCH = Some OrderStatus_EXPIRED"

lemma map_j_order_status_total: "\<exists>y. map_j_order_status x = Some y"
  by (cases x) simp_all

fun map_j_order_status_to_request_status :: "j_order_status \<Rightarrow> request_status option" where
  "map_j_order_status_to_request_status JOrderStatus_UNDEFINED_INTERNAL = Some RequestStatus_UNDEFINED"
| "map_j_order_status_to_request_status JOrderStatus_UNKNOWN_INTERNAL = Some RequestStatus_UNDEFINED"
| "map_j_order_status_to_request_status JOrderStatus_NEW = Some RequestStatus_ACCEPTED"
| "map_j_order_status_to_request_status JOrderStatus_PARTIALLY_FILLED = Some RequestStatus_ACCEPTED"
| "map_j_order_status_to_request_status JOrderStatus_FILLED = Some RequestStatus_REJECTED"
| "map_j_order_status_to_request_status JOrderStatus_CANCELED = Some RequestStatus_REJECTED"
| "map_j_order_status_to_request_status JOrderStatus_EXPIRED = Some RequestStatus_REJECTED"
| "map_j_order_status_to_request_status JOrderStatus_NEW_INSURANCE = Some RequestStatus_REJECTED"
| "map_j_order_status_to_request_status JOrderStatus_NEW_ADL = Some RequestStatus_REJECTED"
| "map_j_order_status_to_request_status JOrderStatus_EXPIRED_IN_MATCH = Some RequestStatus_REJECTED"

lemma map_j_order_status_to_request_status_total: "\<exists>y. map_j_order_status_to_request_status x = Some y"
  by (cases x) simp_all

fun map_j_order_type :: "j_order_type \<Rightarrow> order_type option" where
  "map_j_order_type JOrderType_UNDEFINED_INTERNAL = Some OrderType_UNDEFINED"
| "map_j_order_type JOrderType_UNKNOWN_INTERNAL = Some OrderType_UNDEFINED"
| "map_j_order_type JOrderType_MARKET = Some OrderType_MARKET"
| "map_j_order_type JOrderType_LIMIT = Some OrderType_LIMIT"
| "map_j_order_type JOrderType_STOP = Some OrderType_UNDEFINED"
| "map_j_order_type JOrderType_TAKE_PROFIT = Some OrderType_UNDEFINED"
| "map_j_order_type JOrderType_LIQUIDATION = Some OrderType_UNDEFINED"

lemma map_j_order_type_total: "\<exists>y. map_j_order_type x = Some y"
  by (cases x) simp_all

fun map_j_side :: "j_side \<Rightarrow> side option" where
  "map_j_side JSide_UNDEFINED_INTERNAL = Some Side_UNDEFINED"
| "map_j_side JSide_UNKNOWN_INTERNAL = Some Side_UNDEFINED"
| "map_j_side JSide_BUY = Some Side_BUY"
| "map_j_side JSide_SELL = Some Side_SELL"

lemma map_j_side_total: "\<exists>y. map_j_side x = Some y"
  by (cases x) simp_all

fun map_j_symbol_status :: "j_symbol_status \<Rightarrow> trading_status option" where
  "map_j_symbol_status JSymbolStatus_UNDEFINED_INTERNAL = Some TradingStatus_UNDEFINED"
| "map_j_symbol_status JSymbolStatus_UNKNOWN_INTERNAL = Some TradingStatus_UNDEFINED"
| "map_j_symbol_status JSymbolStatus_TRADING = Some TradingStatus_OPEN"
| "map_j_symbol_status JSymbolStatus_HALT = Some TradingStatus_HALT"
| "map_j_symbol_status JSymbolStatus_BREAK = Some TradingStatus_CLOSE"
| "map_j_symbol_status JSymbolStatus_END_OF_DAY = Some TradingStatus_END_OF_DAY"
| "map_j_symbol_status JSymbolStatus_PRE_TRADING = Some TradingStatus_PRE_OPEN"
| "map_j_symbol_status JSymbolStatus_AUCTION_MATCH = Some TradingStatus_PRE_OPEN"
| "map_j_symbol_status JSymbolStatus_POST_TRADING = Some TradingStatus_CLOSE"
| "map_j_symbol_status JSymbolStatus_SETTLING = Some TradingStatus_PRE_CLOSE"
| "map_j_symbol_status JSymbolStatus_PENDING_TRADING = Some TradingStatus_PRE_OPEN"
| "map_j_symbol_status JSymbolStatus_DELIVERING = Some TradingStatus_UNDEFINED"
| "map_j_symbol_status JSymbolStatus_PRE_SETTLE = Some TradingStatus_OPEN"
| "map_j_symbol_status JSymbolStatus_TRADING_HALT = Some TradingStatus_HALT"
| "map_j_symbol_status JSymbolStatus_TRADING_CANCEL_ONLY = Some TradingStatus_HALT"
| "map_j_symbol_status JSymbolStatus_PRE_DELIVERING = Some TradingStatus_UNDEFINED"

lemma map_j_symbol_status_total: "\<exists>y. map_j_symbol_status x = Some y"
  by (cases x) simp_all

fun map_j_time_in_force :: "j_time_in_force \<Rightarrow> time_in_force option" where
  "map_j_time_in_force JTimeInForce_UNDEFINED_INTERNAL = Some TimeInForce_UNDEFINED"
| "map_j_time_in_force JTimeInForce_UNKNOWN_INTERNAL = Some TimeInForce_UNDEFINED"
| "map_j_time_in_force JTimeInForce_GTC = Some TimeInForce_GTC"
| "map_j_time_in_force JTimeInForce_IOC = Some TimeInForce_IOC"
| "map_j_time_in_force JTimeInForce_FOK = Some TimeInForce_FOK"
| "map_j_time_in_force JTimeInForce_GTX = Some TimeInForce_GTX"
| "map_j_time_in_force JTimeInForce_OTC = Some TimeInForce_UNDEFINED"
| "map_j_time_in_force JTimeInForce_RPI = Some TimeInForce_GTC"

lemma map_j_time_in_force_total: "\<exists>y. map_j_time_in_force x = Some y"
  by (cases x) simp_all

section \<open>To the exchange\<close>

fun map_order_status :: "order_status \<Rightarrow> j_order_status option" where
  "map_order_status OrderStatus_UNDEFINED = Some JOrderStatus_UNDEFINED_INTERNAL"
| "map_order_status OrderStatus_SENT = Some JOrderStatus_UNDEFINED_INTERNAL"
| "map_order_status OrderStatus_ACCEPTED = Some JOrderStatus_UNDEFINED_INTERNAL"
| "map_order_status OrderStatus_SUSPENDED = Some JOrderStatus_UNDEFINED_INTERNAL"
| "map_order_status OrderStatus_WORKING = Some JOrderStatus_NEW"
| "map_order_status OrderStatus_STOPPED = Some JOrderStatus_UNDEFINED_INTERNAL"
| "map_order_status OrderStatus_COMPLETED = Some JOrderStatus_FILLED"
| "map_order_status OrderStatus_EXPIRED = Some JOrderStatus_EXPIRED"
| "map_order_status OrderStatus_CANCELED = Some JOrderStatus_CANCELED"
| "map_order_status OrderStatus_REJECTED = Some JOrderStatus_UNDEFINED_INTERNAL"

lemma map_order_status_total: "\<exists>y. map_order_status x = Some y"
  by (cases x) simp_all

fun map_order_type :: "order_type \<Rightarrow> j_order_type option" where
  "map_order_type OrderType_UNDEFINED = Some JOrderType_UNDEFINED_INTERNAL"
| "map_order_type OrderType_MARKET = Some JOrderType_MARKET"
| "map_order_type OrderType_LIMIT = Some JOrderType_LIMIT"

lemma map_order_type_total: "\<exists>y. map_order_type x = Some y"
  by (cases x) simp_all

fun map_side :: "side \<Rightarrow> j_side option" where
  "map_side Side_UNDEFINED = Some JSide_UNDEFINED_INTERNAL"
| "map_side Side_BUY = Some JSide_BUY"
| "map_side Side_SELL = Some JSide_SELL"

lemma map_side_total: "\<exists>y. map_side x = Some y"
  by (cases x) simp_all

text \<open>
  The only map that reads more than one value: the execution destination \<open>RPI\<close> takes
  precedence over everything, and a post-only \<open>GTC\<close> order is sent as \<open>GTX\<close>. A \<open>Mask\<close> is the
  list of its elements.
\<close>

fun map_time_in_force ::
  "time_in_force \<Rightarrow> execution_instruction list \<Rightarrow> string \<Rightarrow> j_time_in_force option" where
  "map_time_in_force tif instructions destination =
    (if destination = ''RPI'' then Some JTimeInForce_RPI
     else case tif of
       TimeInForce_UNDEFINED \<Rightarrow> Some JTimeInForce_UNDEFINED_INTERNAL
     | TimeInForce_GFD \<Rightarrow> Some JTimeInForce_UNDEFINED_INTERNAL
     | TimeInForce_GTC \<Rightarrow>
         (if ExecutionInstruction_PARTICIPATE_DO_NOT_INITIATE \<in> set instructions
          then Some JTimeInForce_GTX else Some JTimeInForce_GTC)
     | TimeInForce_OPG \<Rightarrow> Some JTimeInForce_UNDEFINED_INTERNAL
     | TimeInForce_IOC \<Rightarrow> Some JTimeInForce_IOC
     | TimeInForce_FOK \<Rightarrow> Some JTimeInForce_FOK
     | TimeInForce_GTX \<Rightarrow> Some JTimeInForce_GTX
     | TimeInForce_GTD \<Rightarrow> Some JTimeInForce_UNDEFINED_INTERNAL
     | TimeInForce_AT_THE_CLOSE \<Rightarrow> Some JTimeInForce_UNDEFINED_INTERNAL
     | TimeInForce_GOOD_THROUGH_CROSSING \<Rightarrow> Some JTimeInForce_UNDEFINED_INTERNAL
     | TimeInForce_AT_CROSSING \<Rightarrow> Some JTimeInForce_UNDEFINED_INTERNAL
     | TimeInForce_GOOD_FOR_TIME \<Rightarrow> Some JTimeInForce_UNDEFINED_INTERNAL
     | TimeInForce_GFA \<Rightarrow> Some JTimeInForce_UNDEFINED_INTERNAL
     | TimeInForce_GFM \<Rightarrow> Some JTimeInForce_UNDEFINED_INTERNAL)"

lemma map_time_in_force_total: "\<exists>y. map_time_in_force t i d = Some y"
  by (cases t) simp_all

declare map_time_in_force.simps [simp del]

lemmas maps_total =
  map_j_contract_status_total map_j_contract_type_total map_j_order_status_total
  map_j_order_status_to_request_status_total map_j_order_type_total map_j_side_total
  map_j_symbol_status_total map_j_time_in_force_total map_order_status_total
  map_order_type_total map_side_total map_time_in_force_total

section \<open>What a round trip preserves\<close>

text \<open>
  The values that have a counterpart on the exchange: for these the translation to the
  exchange and back is the identity.
\<close>

definition sendable_order_status :: "order_status \<Rightarrow> bool" where
  "sendable_order_status s \<longleftrightarrow> s \<in> {OrderStatus_UNDEFINED, OrderStatus_WORKING,
     OrderStatus_COMPLETED, OrderStatus_EXPIRED, OrderStatus_CANCELED}"

interpretation side_map: codec "\<lambda>x. the (map_side x)" "map_j_side" "\<lambda>_. True"
proof
  fix x show "map_j_side (the (map_side x)) = Some x" by (cases x) simp_all
qed

interpretation order_type_map: codec "\<lambda>x. the (map_order_type x)" "map_j_order_type" "\<lambda>_. True"
proof
  fix x show "map_j_order_type (the (map_order_type x)) = Some x" by (cases x) simp_all
qed

interpretation order_status_map:
  codec "\<lambda>x. the (map_order_status x)" "map_j_order_status" sendable_order_status
proof
  fix x assume "sendable_order_status x"
  then show "map_j_order_status (the (map_order_status x)) = Some x"
    by (cases x) (simp_all add: sendable_order_status_def)
qed

end
