(* ===== verification/Json_Utils.thy ===== *)
theory Json_Utils
  imports Gw_Prelude Fp_Double Order_Maps
begin

text \<open>
  \<open>protocol/json/utils.{hpp,cpp}\<close> and \<open>gateway/utils.hpp\<close>: error codes, the trading status of
  an instrument, external order ids, unrealized profit and loss, and the conversion of a JSON
  value to milliseconds.
\<close>

section \<open>Error codes\<close>

text \<open>\<open>guess_error\<close>: \<open>int32_t\<close> codes of the exchange.\<close>

definition guess_error :: "int \<Rightarrow> error" where
  "guess_error code =
    (if code = -2011 then Error_TOO_LATE_TO_MODIFY_OR_CANCEL
     else if code = -2013 then Error_TOO_LATE_TO_MODIFY_OR_CANCEL
     else if code = -4197 then Error_MODIFY_HAS_NO_EFFECT
     else Error_UNKNOWN)"

lemma guess_error_never_undefined: "guess_error c \<noteq> Error_UNDEFINED"
  by (simp add: guess_error_def)

section \<open>Trading status\<close>

text \<open>Spot-like symbols report a symbol status, delivery contracts a contract status.\<close>

definition trading_status_helper :: "j_symbol_status \<Rightarrow> j_contract_status \<Rightarrow> trading_status" where
  "trading_status_helper s c =
    (if s \<noteq> JSymbolStatus_UNDEFINED_INTERNAL then the (map_j_symbol_status s)
     else the (map_j_contract_status c))"

section \<open>External order ids\<close>

text \<open>
  The exchange numbers orders per symbol. The gateway's external order id is
  \<open>symbol#order_id\<close>; \<open>get_order_id\<close> takes what follows the first \<open>#\<close>, or everything when there
  is none.
\<close>

definition create_external_order_id :: "string \<Rightarrow> int \<Rightarrow> string" where
  "create_external_order_id symbol order_id = symbol @ ''#'' @ show_int order_id"

definition get_order_id :: "string \<Rightarrow> string" where
  "get_order_id external_order_id =
    (if CHR ''#'' \<notin> set external_order_id then external_order_id
     else drop (length (takeWhile (\<lambda>c. c \<noteq> CHR ''#'') external_order_id) + 1) external_order_id)"

lemma get_order_id_append:
  "CHR ''#'' \<notin> set s \<Longrightarrow> get_order_id (s @ CHR ''#'' # t) = t"
  by (simp add: get_order_id_def takeWhile_append_sep)

lemma get_order_id_no_hash: "CHR ''#'' \<notin> set s \<Longrightarrow> get_order_id s = s"
  by (simp add: get_order_id_def)

lemma get_order_id_plain: "plain_for bad s \<Longrightarrow> plain_for bad (get_order_id s)"
  by (auto simp: get_order_id_def plain_for_def dest: in_set_dropD)

lemma get_order_id_create [simp]:
  "CHR ''#'' \<notin> set symbol \<Longrightarrow> get_order_id (create_external_order_id symbol i) = show_int i"
  by (simp add: create_external_order_id_def get_order_id_append)

definition read_external_order_id :: "string \<Rightarrow> (string \<times> int) option" where
  "read_external_order_id s =
     Some (takeWhile (\<lambda>c. c \<noteq> CHR ''#'') s, read_int (get_order_id s))"

interpretation external_id: codec
  "\<lambda>(symbol, i). create_external_order_id symbol i" read_external_order_id
  "\<lambda>(symbol, i). CHR ''#'' \<notin> set symbol"
  by unfold_locales
    (auto simp: read_external_order_id_def create_external_order_id_def takeWhile_append_sep
      get_order_id_append)

section \<open>Profit and loss\<close>

text \<open>The sum of the two margin types, where a missing one does not count.\<close>

definition get_unrealized_pnl :: "double \<Rightarrow> double \<Rightarrow> double" where
  "get_unrealized_pnl um cm =
    (if isnan um \<and> isnan cm then NaN
     else (if isnan um then 0 else um) + (if isnan cm then 0 else cm))"

section \<open>Milliseconds from a JSON value\<close>

datatype json_value =
    JV_null | JV_bool bool | JV_int int | JV_double double | JV_string string
  | JV_object "(string \<times> json_value) list" | JV_array "json_value list"

text \<open>
  \<open>update<std::chrono::milliseconds>\<close>. The conversion of a \<open>double\<close> truncates towards zero; for a
  value \<open>int64_t\<close> does not hold, C++ leaves the result open, so it is the parameter \<open>wild\<close>.
  \<open>from_chars\<close> with the \<open>DATETIME\<close> format is library code.
\<close>

definition trunc_int64 :: "(double \<Rightarrow> int) \<Rightarrow> double \<Rightarrow> int" where
  "trunc_int64 wild x =
    (case x of
       Fin q \<Rightarrow> (let t = (if 0 \<le> q then \<lfloor>q\<rfloor> else - \<lfloor>- q\<rfloor>) in
                 if - (2 ^ 63) \<le> t \<and> t < 2 ^ 63 then t else wild x)
     | _ \<Rightarrow> wild x)"

fun update_milliseconds ::
  "(double \<Rightarrow> int) \<Rightarrow> (string \<Rightarrow> exn + milliseconds) \<Rightarrow> json_value \<Rightarrow> exn + milliseconds" where
  "update_milliseconds wild datetime JV_null = Inr 0"
| "update_milliseconds wild datetime (JV_bool b) = Inl (Std_exception ''std::bad_cast'')"
| "update_milliseconds wild datetime (JV_int i) = Inr i"
| "update_milliseconds wild datetime (JV_double x) = Inr (trunc_int64 wild x)"
| "update_milliseconds wild datetime (JV_string s) = datetime s"
| "update_milliseconds wild datetime (JV_object ms) = Inl (Std_exception ''std::bad_cast'')"
| "update_milliseconds wild datetime (JV_array vs) = Inl (Std_exception ''std::bad_cast'')"

lemma trunc_int64_of_int:
  "- (2 ^ 63) \<le> i \<Longrightarrow> i < 2 ^ 63 \<Longrightarrow> trunc_int64 wild (Fin (of_int i)) = i"
  by (auto simp: trunc_int64_def Let_def simp flip: of_int_minus)

end
