(* ===== verification/Order_Encoder.thy ===== *)
theory Order_Encoder
  imports Wire_Text Json_Utils
begin

text \<open>
  \<open>protocol/json/encoder.cpp\<close>: the query strings of the REST requests and the JSON texts of the
  WebSocket requests. Every function clears its buffer, so the result depends on the arguments
  only. The format strings are written with \<open>kv_amp\<close> (\<open>key={}&\<close>) and \<open>kv\<close> (\<open>key={}\<close>) of
  \<open>Wire_Text\<close>, or literally.
\<close>

section \<open>Arguments\<close>

text \<open>The fields of the \<open>roq\<close> API structures that the gateway reads.\<close>

record create_order =
  co_order_id :: u64
  co_symbol :: string
  co_side :: side
  co_order_type :: order_type
  co_time_in_force :: time_in_force
  co_execution_instructions :: "execution_instruction list"
  co_execution_destination :: string
  co_quantity :: double
  co_price :: double
  co_stop_price :: double

record modify_order =
  mo_order_id :: u64
  mo_version :: u32
  mo_quantity :: double
  mo_price :: double

record cancel_order =
  ca_order_id :: u64
  ca_version :: u32

record oms_order =
  oo_user_id :: u8
  oo_order_id :: u64
  oo_strategy_id :: u32
  oo_symbol :: string
  oo_side :: side
  oo_quantity :: double
  oo_price :: double
  oo_external_order_id :: string
  oo_client_order_id :: string
  oo_create_time_utc :: nanoseconds
  oo_account :: string

record ref_data =
  rd_multiplier :: double
  rd_price_precision :: nat
  rd_quantity_precision :: nat

text \<open>
  Library code the encoder prints with: \<open>roq::Decimal\<close> (a value with a number of decimals), the
  raw text of the internal enumerators of the generated classes, and \<open>utils::is_equal\<close> on doubles.
\<close>

record encoder_lib =
  el_decimal :: "double \<Rightarrow> nat \<Rightarrow> string"
  el_side :: "j_side \<Rightarrow> string"
  el_type :: "j_order_type \<Rightarrow> string"
  el_tif :: "j_time_in_force \<Rightarrow> string"
  el_stp :: "j_self_trade_prevention \<Rightarrow> string"
  el_is_equal :: "double \<Rightarrow> double \<Rightarrow> bool"

definition side_raw :: "encoder_lib \<Rightarrow> side \<Rightarrow> string" where
  "side_raw L s = j_side_text (el_side L) (the (map_side s))"

definition type_raw :: "encoder_lib \<Rightarrow> order_type \<Rightarrow> string" where
  "type_raw L t = j_order_type_text (el_type L) (the (map_order_type t))"

definition tif_of :: "create_order \<Rightarrow> j_time_in_force" where
  "tif_of c = the (map_time_in_force (co_time_in_force c) (co_execution_instructions c)
                    (co_execution_destination c))"

definition reduce_only :: "create_order \<Rightarrow> bool" where
  "reduce_only c = (ExecutionInstruction_DO_NOT_INCREASE \<in> set (co_execution_instructions c))"

section \<open>Query strings\<close>

definition user_trades_url ::
  "string \<Rightarrow> milliseconds \<Rightarrow> milliseconds \<Rightarrow> u32 \<Rightarrow> milliseconds \<Rightarrow> string" where
  "user_trades_url symbol start_time end_time limit recv_window =
     kv_amp ''symbol'' symbol @ kv_amp ''startTime'' (show_int start_time) @
     kv_amp ''endTime'' (show_int end_time) @ kv_amp ''limit'' (show_int (uint limit)) @
     kv ''recvWindow'' (show_int recv_window)"

text \<open>
  The assertions of \<open>order_place_url\<close>, and the query string itself: there is none when the build has its
  assertions (\<open>on\<close>) and one of them is violated, for then the process ends.
\<close>

definition order_place_asserts :: "create_order \<Rightarrow> bool" where
  "order_place_asserts c =
     (case co_order_type c of
        OrderType_UNDEFINED \<Rightarrow> False
      | OrderType_MARKET \<Rightarrow> isnan (co_price c)
      | OrderType_LIMIT \<Rightarrow> \<not> isnan (co_price c))"

definition order_place_url ::
  "bool \<Rightarrow> encoder_lib \<Rightarrow> create_order \<Rightarrow> ref_data \<Rightarrow> string \<Rightarrow> milliseconds
    \<Rightarrow> j_self_trade_prevention \<Rightarrow> string option" where
  "order_place_url on L c rd request_id recv_window stp =
     (if on \<and> \<not> order_place_asserts c then None else Some (
     kv_amp ''symbol'' (co_symbol c) @
     kv_amp ''side'' (side_raw L (co_side c)) @
     kv_amp ''type'' (type_raw L (co_order_type c)) @
     kv_amp ''quantity'' (el_decimal L (co_quantity c) (rd_quantity_precision rd)) @
     kv_amp ''reduceOnly'' (show_bool (reduce_only c)) @
     (case co_order_type c of
        OrderType_UNDEFINED \<Rightarrow> []
      | OrderType_MARKET \<Rightarrow> []
      | OrderType_LIMIT \<Rightarrow>
          kv_amp ''timeInForce'' (j_time_in_force_text (el_tif L) (tif_of c)) @
          kv_amp ''price'' (el_decimal L (co_price c) (rd_price_precision rd))) @
     (if \<not> isnan (co_stop_price c)
      then kv_amp ''stopPrice'' (el_decimal L (co_stop_price c) (rd_price_precision rd))
      else []) @
     (if stp \<noteq> JSelfTradePrevention_UNDEFINED_INTERNAL
      then kv_amp ''selfTradePreventionMode'' (j_self_trade_prevention_text (el_stp L) stp)
      else []) @
     kv_amp ''newClientOrderId'' request_id @
     kv ''recvWindow'' (show_int recv_window)))"

lemma order_place_url_eq_None [simp]:
  "order_place_url on L c rd request_id w stp = None \<longleftrightarrow> on \<and> \<not> order_place_asserts c"
  by (simp add: order_place_url_def)

lemma order_place_url_case:
  "order_place_asserts c \<Longrightarrow> (case order_place_url on L c rd request_id w stp of None \<Rightarrow> x | Some url \<Rightarrow> f url)
     = f (the (order_place_url on L c rd request_id w stp))"
  by (cases "order_place_url on L c rd request_id w stp") (auto simp: order_place_url_def)

text \<open>How a request names the order: by the exchange's number when it is known.\<close>

definition order_id_url :: "oms_order \<Rightarrow> string" where
  "order_id_url ord =
     (if oo_external_order_id ord \<noteq> []
      then kv_amp ''orderId'' (get_order_id (oo_external_order_id ord)) else [])"

text \<open>
  \<open>order_modify_url\<close>. The full form (USD-M) always sends quantity and price. The short form
  (COIN-M) sends the one that changes, and throws when none or both do. The rejection
  leaves the buffer cleared.
\<close>

definition changed_value :: "encoder_lib \<Rightarrow> double \<Rightarrow> double \<Rightarrow> double" where
  "changed_value L value last_value =
     (if \<not> isnan value \<and> \<not> el_is_equal L value last_value then value else NaN)"

definition order_modify_url ::
  "encoder_lib \<Rightarrow> modify_order \<Rightarrow> oms_order \<Rightarrow> ref_data \<Rightarrow> milliseconds \<Rightarrow> bool \<Rightarrow> exn + string"
where
  "order_modify_url L m ord rd recv_window order_modify_full =
    (let side = side_raw L (oo_side ord) in
     if order_modify_full then
       let quantity = (if isnan (mo_quantity m) then oo_quantity ord else mo_quantity m);
           price = (if isnan (mo_price m) then oo_price ord else mo_price m) in
       Inr (kv_amp ''symbol'' (oo_symbol ord) @ order_id_url ord @
            kv_amp ''origClientOrderId'' (oo_client_order_id ord) @
            kv_amp ''side'' side @
            kv_amp ''quantity'' (el_decimal L quantity (rd_quantity_precision rd)) @
            kv_amp ''price'' (el_decimal L price (rd_price_precision rd)) @
            kv ''recvWindow'' (show_int recv_window))
     else
       let quantity = changed_value L (mo_quantity m) (oo_quantity ord);
           price = changed_value L (mo_price m) (oo_price ord) in
       if \<not> isnan quantity \<and> isnan price then
         Inr (kv_amp ''symbol'' (oo_symbol ord) @ order_id_url ord @
              kv_amp ''origClientOrderId'' (oo_client_order_id ord) @
              kv_amp ''side'' side @
              kv_amp ''quantity'' (el_decimal L (mo_quantity m) (rd_quantity_precision rd)) @
              kv ''recvWindow'' (show_int recv_window))
       else if isnan quantity \<and> \<not> isnan price then
         Inr (kv_amp ''symbol'' (oo_symbol ord) @ order_id_url ord @
              kv_amp ''origClientOrderId'' (oo_client_order_id ord) @
              kv_amp ''side'' side @
              kv_amp ''price'' (el_decimal L (mo_price m) (rd_price_precision rd)) @
              kv ''recvWindow'' (show_int recv_window))
       else Inl (Oms_Rejected Origin_GATEWAY Error_INVALID_REQUEST_ARGS
                   ''Missing quantity or price''))"

definition order_cancel_url :: "oms_order \<Rightarrow> milliseconds \<Rightarrow> string" where
  "order_cancel_url ord recv_window =
     kv_amp ''symbol'' (oo_symbol ord) @ order_id_url ord @
     kv_amp ''origClientOrderId'' (oo_client_order_id ord) @
     kv ''recvWindow'' (show_int recv_window)"

definition all_open_orders_url :: "string \<Rightarrow> milliseconds \<Rightarrow> string" where
  "all_open_orders_url symbol recv_window =
     kv_amp ''symbol'' symbol @ kv ''recvWindow'' (show_int recv_window)"

definition get_order_url :: "string \<Rightarrow> string \<Rightarrow> milliseconds \<Rightarrow> string" where
  "get_order_url symbol client_order_id recv_window =
     kv ''symbol'' symbol @ ''&'' @ kv ''origClientOrderId'' client_order_id @
     ''&'' @ kv ''recvWindow'' (show_int recv_window)"

definition countdown_cancel_open_orders_url ::
  "string \<Rightarrow> milliseconds \<Rightarrow> milliseconds \<Rightarrow> string" where
  "countdown_cancel_open_orders_url symbol countdown_time recv_window =
     kv_amp ''symbol'' symbol @ kv_amp ''countdownTime'' (show_int countdown_time) @
     kv ''recvWindow'' (show_int recv_window)"

section \<open>JSON texts\<close>

definition session_logon_json ::
  "string \<Rightarrow> milliseconds \<Rightarrow> milliseconds \<Rightarrow> string \<Rightarrow> string \<Rightarrow> string" where
  "session_logon_json api_key now_utc recv_window signature req_id =
     ''{'' @ jstr ''id'' req_id @ '','' @ jstr ''method'' ''session.logon'' @ '','' @
     dq ''params'' @ '':{'' @ jstr ''apiKey'' api_key @ '','' @
     jraw ''timestamp'' (show_int now_utc) @ '','' @
     jraw ''recvWindow'' (show_int recv_window) @ '','' @
     jstr ''signature'' signature @ ''}'' @ ''}''"

definition user_data_stream_start_json :: "string \<Rightarrow> string \<Rightarrow> string" where
  "user_data_stream_start_json api_key req_id =
     ''{'' @ jstr ''id'' req_id @ '','' @ jstr ''method'' ''userDataStream.start'' @ '','' @
     dq ''params'' @ '':{'' @ jstr ''apiKey'' api_key @ ''}'' @ ''}''"

definition user_data_stream_ping_json :: "string \<Rightarrow> string \<Rightarrow> string" where
  "user_data_stream_ping_json api_key req_id =
     ''{'' @ jstr ''id'' req_id @ '','' @ jstr ''method'' ''userDataStream.ping'' @ '','' @
     dq ''params'' @ '':{'' @ jstr ''apiKey'' api_key @ ''}'' @ ''}''"

definition account_balance_json :: "milliseconds \<Rightarrow> string \<Rightarrow> string" where
  "account_balance_json now_utc req_id =
     ''{'' @ jstr ''id'' req_id @ '','' @ jstr ''method'' ''account.balance'' @ '','' @
     dq ''params'' @ '':{'' @ jstr ''timestamp'' (show_int now_utc) @ ''}'' @ ''}''"

definition account_status_json :: "milliseconds \<Rightarrow> string \<Rightarrow> string" where
  "account_status_json now_utc req_id =
     ''{'' @ jstr ''id'' req_id @ '','' @ jstr ''method'' ''account.status'' @ '','' @
     dq ''params'' @ '':{'' @ jstr ''timestamp'' (show_int now_utc) @ ''}'' @ ''}''"

definition account_position_json :: "milliseconds \<Rightarrow> string \<Rightarrow> string" where
  "account_position_json now_utc req_id =
     ''{'' @ jstr ''id'' req_id @ '','' @ jstr ''method'' ''account.position'' @ '','' @
     dq ''params'' @ '':{'' @ jstr ''timestamp'' (show_int now_utc) @ ''}'' @ ''}''"

definition order_status_json :: "string \<Rightarrow> milliseconds \<Rightarrow> string \<Rightarrow> string" where
  "order_status_json symbol now_utc req_id =
     ''{'' @ jstr ''id'' req_id @ '','' @ jstr ''method'' ''order.status'' @ '','' @
     dq ''params'' @ '':{'' @ jstr ''symbol'' symbol @ '','' @
     jstr ''timestamp'' (show_int now_utc) @ ''}'' @ ''}''"

definition order_place_json ::
  "encoder_lib \<Rightarrow> create_order \<Rightarrow> ref_data \<Rightarrow> string \<Rightarrow> milliseconds \<Rightarrow> milliseconds \<Rightarrow> string
    \<Rightarrow> j_self_trade_prevention \<Rightarrow> string" where
  "order_place_json L c rd request_id recv_window now_utc req_id stp =
     ''{'' @ jstr ''id'' req_id @ '','' @ jstr ''method'' ''order.place'' @ '','' @
     dq ''params'' @ '':{'' @
     jstr ''newClientOrderId'' request_id @
     '','' @ jstr ''symbol'' (co_symbol c) @
     '','' @ jstr ''side'' (side_raw L (co_side c)) @
     '','' @ jstr ''type'' (type_raw L (co_order_type c)) @
     '','' @ jstr ''reduceOnly'' (show_bool (reduce_only c)) @
     '','' @ jstr ''quantity'' (el_decimal L (co_quantity c) (rd_quantity_precision rd)) @
     (if tif_of c \<noteq> JTimeInForce_UNDEFINED_INTERNAL
      then '','' @ jstr ''timeInForce'' (j_time_in_force_text (el_tif L) (tif_of c)) else []) @
     (if \<not> isnan (co_price c)
      then '','' @ jstr ''price'' (el_decimal L (co_price c) (rd_price_precision rd)) else []) @
     (if \<not> isnan (co_stop_price c)
      then '','' @ jstr ''stopPrice'' (el_decimal L (co_stop_price c) (rd_price_precision rd))
      else []) @
     (if stp \<noteq> JSelfTradePrevention_UNDEFINED_INTERNAL
      then '','' @ jstr ''selfTradePreventionMode'' (j_self_trade_prevention_text (el_stp L) stp)
      else []) @
     '','' @ jraw ''recvWindow'' (show_int recv_window) @
     '','' @ jraw ''timestamp'' (show_int now_utc) @ ''}'' @ ''}''"

definition order_modify_json ::
  "encoder_lib \<Rightarrow> modify_order \<Rightarrow> oms_order \<Rightarrow> ref_data \<Rightarrow> milliseconds \<Rightarrow> milliseconds
    \<Rightarrow> string \<Rightarrow> string" where
  "order_modify_json L m ord rd recv_window now_utc req_id =
    (let quantity = (if isnan (mo_quantity m) then oo_quantity ord else mo_quantity m);
         price = (if isnan (mo_price m) then oo_price ord else mo_price m) in
     ''{'' @ jstr ''id'' req_id @ '','' @ jstr ''method'' ''order.modify'' @ '','' @
     dq ''params'' @ '':{'' @ jstr ''symbol'' (oo_symbol ord) @
     '','' @ jstr ''side'' (side_raw L (oo_side ord)) @
     (if oo_external_order_id ord = []
      then '','' @ jstr ''origClientOrderId'' (oo_client_order_id ord)
      else '','' @ jraw ''orderId'' (get_order_id (oo_external_order_id ord))) @
     '','' @ jstr ''quantity'' (el_decimal L quantity (rd_quantity_precision rd)) @
     '','' @ jstr ''price'' (el_decimal L price (rd_price_precision rd)) @
     '','' @ jraw ''recvWindow'' (show_int recv_window) @
     '','' @ jraw ''timestamp'' (show_int now_utc) @ ''}'' @ ''}'')"

definition order_cancel_json ::
  "oms_order \<Rightarrow> milliseconds \<Rightarrow> milliseconds \<Rightarrow> string \<Rightarrow> bool \<Rightarrow> string" where
  "order_cancel_json ord recv_window now_utc req_id force_client_order_id =
     ''{'' @ jstr ''id'' req_id @ '','' @ jstr ''method'' ''order.cancel'' @ '','' @
     dq ''params'' @ '':{'' @ jstr ''symbol'' (oo_symbol ord) @
     (if oo_external_order_id ord = [] \<or> force_client_order_id
      then '','' @ jstr ''origClientOrderId'' (oo_client_order_id ord)
      else '','' @ jraw ''orderId'' (get_order_id (oo_external_order_id ord))) @
     '','' @ jraw ''recvWindow'' (show_int recv_window) @
     '','' @ jraw ''timestamp'' (show_int now_utc) @ ''}'' @ ''}''"

lemmas encoder_json_defs =
  session_logon_json_def user_data_stream_start_json_def user_data_stream_ping_json_def
  account_balance_json_def account_status_json_def account_position_json_def
  order_status_json_def order_place_json_def order_modify_json_def order_cancel_json_def

section \<open>What the exchange reads\<close>

text \<open>The members of \<open>params\<close> of the three order requests.\<close>

definition request_json :: "string \<Rightarrow> string \<Rightarrow> (string \<times> json) list \<Rightarrow> json" where
  "request_json req_id method params =
     JObj [(''id'', JStr req_id), (''method'', JStr method), (''params'', JObj params)]"

lemma parse_request:
  assumes "text = print_json (request_json req_id method params)"
    and "json_plain req_id" "json_plain method" "members_ok params"
  shows "parse_text text = Some (request_json req_id method params)"
  unfolding assms(1) by (rule json_text.dec_enc) (use assms in \<open>simp add: request_json_def\<close>)

text \<open>
  What the encoder needs of the library code it prints with: no text it produces contains a
  character that ends a value.
\<close>

definition wire_plain :: "string \<Rightarrow> bool" where
  "wire_plain s = (query_plain s \<and> json_plain s)"

lemma wire_plainD: "wire_plain s \<Longrightarrow> query_plain s" "wire_plain s \<Longrightarrow> json_plain s"
  by (simp_all add: wire_plain_def)

lemma wire_plain_simps [simp]:
  "wire_plain []"
  "wire_plain (c # s) = (c \<noteq> CHR ''&'' \<and> c \<noteq> CHR 0x22 \<and> c \<noteq> CHR 0x5C \<and> wire_plain s)"
  "wire_plain (s @ t) = (wire_plain s \<and> wire_plain t)"
  by (auto simp: wire_plain_def)

lemma wire_plain_take: "wire_plain s \<Longrightarrow> wire_plain (take k s)"
  by (auto simp: wire_plain_def query_plain_def json_plain_def plain_for_def dest: in_set_takeD)

lemma wire_plain_drop: "wire_plain s \<Longrightarrow> wire_plain (drop k s)"
  by (auto simp: wire_plain_def query_plain_def json_plain_def plain_for_def dest: in_set_dropD)

lemma query_plain_order_id [simp]: "query_plain s \<Longrightarrow> query_plain (get_order_id s)"
  by (simp add: query_plain_def get_order_id_plain)

locale exchange_text =
  fixes L :: encoder_lib
  assumes plain_decimal: "wire_plain (el_decimal L x n)"
    and plain_side: "wire_plain (el_side L s)"
    and plain_type: "wire_plain (el_type L t)"
    and plain_tif: "wire_plain (el_tif L f)"
    and plain_stp: "wire_plain (el_stp L p)"
begin

lemma plain_side_raw: "wire_plain (side_raw L s)"
  by (cases s) (simp_all add: side_raw_def plain_side)

lemma plain_type_raw: "wire_plain (type_raw L t)"
  by (cases t) (simp_all add: type_raw_def plain_type)

lemma plain_tif_text: "wire_plain (j_time_in_force_text (el_tif L) f)"
  by (cases f) (simp_all add: plain_tif)

lemma plain_stp_text: "wire_plain (j_self_trade_prevention_text (el_stp L) p)"
  by (cases p) (simp_all add: plain_stp)

lemmas plain_texts = plain_decimal plain_side_raw plain_type_raw plain_tif_text plain_stp_text

lemmas plain_query = plain_texts [THEN wire_plainD(1)]

lemmas plain_json = plain_texts [THEN wire_plainD(2)]

lemma place_url_reads:
  assumes "query_plain (co_symbol c)" "query_plain request_id"
    and "order_place_url on L c rd request_id w stp = Some url"
  shows "parse_query url =
    [(''symbol'', co_symbol c), (''side'', side_raw L (co_side c)),
     (''type'', type_raw L (co_order_type c)),
     (''quantity'', el_decimal L (co_quantity c) (rd_quantity_precision rd)),
     (''reduceOnly'', show_bool (reduce_only c))] @
    (if co_order_type c = OrderType_LIMIT
     then [(''timeInForce'', j_time_in_force_text (el_tif L) (tif_of c)),
           (''price'', el_decimal L (co_price c) (rd_price_precision rd))] else []) @
    (if isnan (co_stop_price c) then []
     else [(''stopPrice'', el_decimal L (co_stop_price c) (rd_price_precision rd))]) @
    (if stp = JSelfTradePrevention_UNDEFINED_INTERNAL then []
     else [(''selfTradePreventionMode'', j_self_trade_prevention_text (el_stp L) stp)]) @
    [(''newClientOrderId'', request_id), (''recvWindow'', show_int w)]"
  using assms by (cases "co_order_type c") (auto simp: order_place_url_def plain_query split: if_splits)

lemma cancel_url_reads:
  assumes "query_plain (oo_symbol ord)" "query_plain (oo_external_order_id ord)"
    "query_plain (oo_client_order_id ord)"
  shows "parse_query (order_cancel_url ord w) =
    [(''symbol'', oo_symbol ord)] @
    (if oo_external_order_id ord = [] then []
     else [(''orderId'', get_order_id (oo_external_order_id ord))]) @
    [(''origClientOrderId'', oo_client_order_id ord), (''recvWindow'', show_int w)]"
  using assms by (simp add: order_cancel_url_def order_id_url_def)

end

text \<open>
  An instance: decimals printed with their number of digits, rounding halves up.
\<close>

fun plain_decimal_text :: "double \<Rightarrow> nat \<Rightarrow> string" where
  "plain_decimal_text (Fin q) n =
    (let s = show_nat (nat \<lfloor>\<bar>q\<bar> * 10 ^ n + 1 / 2\<rfloor>);
         t = replicate (n + 1 - length s) (CHR ''0'') @ s;
         k = length t - n
     in (if q < 0 then ''-'' else []) @ take k t @ (if n = 0 then [] else CHR ''.'' # drop k t))"
| "plain_decimal_text NaN n = ''nan''"
| "plain_decimal_text PInf n = ''inf''"
| "plain_decimal_text NInf n = ''-inf''"

definition plain_lib :: encoder_lib where
  "plain_lib = \<lparr> el_decimal = plain_decimal_text, el_side = \<lambda>_. ''UNDEFINED'',
     el_type = \<lambda>_. ''UNDEFINED'', el_tif = \<lambda>_. ''UNDEFINED'', el_stp = \<lambda>_. ''UNDEFINED'',
     el_is_equal = (=) \<rparr>"

lemma wire_plain_decimal: "wire_plain (plain_decimal_text x n)"
proof (cases x)
  case (Fin q)
  define s where "s = show_nat (nat \<lfloor>\<bar>q\<bar> * 10 ^ n + 1 / 2\<rfloor>)"
  define t where "t = replicate (n + 1 - length s) (CHR ''0'') @ s"
  have "is_digit c" if "c \<in> set s" for c
    using that show_nat_digits unfolding s_def by blast
  then have dig: "is_digit c" if "c \<in> set t" for c
    using that by (auto simp: t_def is_digit_def)
  have t: "wire_plain t"
    using dig [of "CHR ''&''"] dig [of "CHR 0x22"] dig [of "CHR 0x5C"]
    by (auto simp: wire_plain_def query_plain_def json_plain_def plain_for_def is_digit_def)
  then have parts: "wire_plain (take k t)" "wire_plain (drop k t)" for k
    by (simp_all add: wire_plain_take wire_plain_drop)
  have "plain_decimal_text x n = (if q < 0 then ''-'' else []) @ take (length t - n) t
      @ (if n = 0 then [] else CHR ''.'' # drop (length t - n) t)"
    by (simp add: Fin Let_def s_def t_def)
  then show ?thesis using parts by simp
qed simp_all

interpretation plain_text: exchange_text plain_lib
  by unfold_locales (simp_all add: plain_lib_def wire_plain_decimal)

end
