(* ===== verification/Gw_Shared.thy ===== *)
theory Gw_Shared
  imports Rate_Throttle Order_Encoder
begin

text \<open>
  \<open>gateway/shared.{hpp,cpp}\<close> and \<open>gateway/request.{hpp,cpp}\<close>: what the components of the gateway
  share, the messages they send to the dispatcher and to the network, and the
  state a handler works on.
\<close>

section \<open>Instruments\<close>

text \<open>
  The sequence gates of an instrument. \<open>market::mbp::Sequencer\<close> is library code: its state is
  the type \<open>'q\<close>.
\<close>

record 'q instrument =
  in_tob_last_update_id :: int
  in_mbp_last_update_id :: int
  in_sequencer :: 'q

definition instrument_create :: "'q \<Rightarrow> 'q instrument" where
  "instrument_create q =
     \<lparr> in_tob_last_update_id = 0, in_mbp_last_update_id = 0, in_sequencer = q \<rparr>"

definition tob_update :: "int \<Rightarrow> 'q instrument \<Rightarrow> bool \<times> 'q instrument" where
  "tob_update update_id i =
     (if update_id < in_tob_last_update_id i then (False, i)
      else (True, i\<lparr>in_tob_last_update_id := update_id\<rparr>))"

definition mbp_update :: "int \<Rightarrow> 'q instrument \<Rightarrow> bool \<times> 'q instrument" where
  "mbp_update update_id i =
     (if update_id < in_mbp_last_update_id i then (False, i)
      else (True, i\<lparr>in_mbp_last_update_id := update_id\<rparr>))"

text \<open>
  The contract of a gate: an update passes unless it is older than the last that passed, and
  what passes becomes the new mark.
\<close>

locale sequence_gate =
  fixes gate :: "int \<Rightarrow> 's \<Rightarrow> bool \<times> 's"
    and mark :: "'s \<Rightarrow> int"
  assumes gate_passes: "fst (gate u s) \<longleftrightarrow> mark s \<le> u"
    and gate_mark: "mark (snd (gate u s)) = max (mark s) u"
begin

fun passed :: "int list \<Rightarrow> 's \<Rightarrow> int list" where
  "passed [] s = []"
| "passed (u # us) s = (if fst (gate u s) then [u] else []) @ passed us (snd (gate u s))"

lemma passed_above: "u \<in> set (passed us s) \<Longrightarrow> mark s \<le> u"
  by (induction us arbitrary: s) (fastforce simp: gate_passes gate_mark split: if_splits)+

lemma passed_sorted: "sorted (passed us s)"
proof (induction us arbitrary: s)
  case (Cons v us)
  then show ?case
    using passed_above [of _ us "snd (gate v s)"] by (auto simp: gate_passes gate_mark)
qed simp

text \<open>Nothing newer is held back: an update that no earlier one exceeds passes.\<close>

lemma passed_complete:
  "mark s \<le> u \<Longrightarrow> \<forall>v \<in> set us. v \<le> u \<Longrightarrow> u \<in> set (passed (us @ [u]) s)"
  by (induction us arbitrary: s) (simp_all add: gate_passes gate_mark)

end

interpretation tob: sequence_gate tob_update in_tob_last_update_id
  by unfold_locales (simp_all add: tob_update_def)

interpretation mbp: sequence_gate mbp_update in_mbp_last_update_id
  by unfold_locales (simp_all add: mbp_update_def)

text \<open>
  \<open>get_instrument\<close>: an unknown symbol gets a new instrument. It is asserted that the symbol has been inserted,
  which is so because it has not been found.
\<close>

definition get_instrument ::
  "'q \<Rightarrow> string \<Rightarrow> (string \<times> 'q instrument) list \<Rightarrow> 'q instrument \<times> (string \<times> 'q instrument) list"
where
  "get_instrument q symbol m =
     (case map_of m symbol of
        Some i \<Rightarrow> (i, m)
      | None \<Rightarrow> (let i = instrument_create q in (i, map_emplace symbol i m)))"

lemma get_instrument_known:
  "get_instrument q s m = (i, m') \<Longrightarrow> map_of m' s = Some i \<and>
     (\<forall>t. t \<noteq> s \<longrightarrow> map_of m' t = map_of m t)"
  by (auto simp: get_instrument_def Let_def map_of_emplace split: option.splits)

end
