(* ===== verification/Gw_World.thy ===== *)
theory Gw_World
  imports Gw_Shared
begin

text \<open>
  The setting of a handler: the messages it may send, the answers it may get, and the state it
  works on.

  A handler is a function of its arguments and of a state. What it does to the outside
  (messages for the dispatcher, requests for the network, commands for library objects, events
  for the controller) is appended to the list \<open>gw_out\<close> in the order the code does it. A callback
  that the code hands to the network is recorded as a value that names the handler and the
  captured variables. Logging and metrics are not modelled.
\<close>

section \<open>Messages of the exchange\<close>

text \<open>
  The fields the gateway reads of the generated message classes. Durations are nanoseconds
  (the conversion from the milliseconds of the schemas is exact).
\<close>

text \<open>\<open>order_place_ack.json\<close>, \<open>order_modify_ack.json\<close>, \<open>order_cancel_ack.json\<close>.\<close>

record order_msg =
  om_order_id :: int
  om_symbol :: string
  om_status :: j_order_status
  om_client_order_id :: string
  om_price :: double
  om_avg_price :: double
  om_orig_qty :: double
  om_executed_qty :: double
  om_time_in_force :: j_time_in_force
  om_type :: j_order_type
  om_side :: j_side
  om_stop_price :: double
  om_update_time :: nanoseconds

text \<open>\<open>order_ack.json\<close> and the items of \<open>open_orders_ack.json\<close> have a creation time as well.\<close>

record order_ack_msg = order_msg +
  om_time :: nanoseconds

record balance_item =
  bi_asset :: string
  bi_balance :: double
  bi_available_balance :: double
  bi_total_wallet_balance :: double
  bi_cross_wallet_balance :: double
  bi_cross_un_pnl :: double
  bi_um_unrealized_pnl :: double
  bi_cm_unrealized_pnl :: double
  bi_update_time :: nanoseconds

record position_item =
  pi_symbol :: string
  pi_isolated :: bool
  pi_position_amt :: double
  pi_notional :: double
  pi_update_time :: nanoseconds

record account_status_msg =
  as_update_time :: nanoseconds
  as_positions :: "position_item list"

record trade_item =
  ti_id :: int
  ti_order_id :: int
  ti_symbol :: string
  ti_side :: j_side
  ti_qty :: double
  ti_price :: double
  ti_maker :: bool
  ti_commission :: double
  ti_commission_asset :: string
  ti_time :: nanoseconds

section \<open>Messages for the dispatcher\<close>

text \<open>
  The fields that some component sets to something other than the default. Left out are those
  that are \<open>{}\<close> or \<open>NaN\<close> wherever they occur, and the connection details of \<open>StreamStatus\<close>.
\<close>

record stream_status =
  ss_stream_id :: u16
  ss_account :: string
  ss_connection_status :: connection_status
  ss_reason :: string

datatype rate_limit_type = RateLimit_REQUEST_WEIGHT | RateLimit_CREATE_ORDER | RateLimit_REQUEST

record rate_limit =
  rl_type :: rate_limit_type
  rl_period :: nanoseconds
  rl_limit :: u32
  rl_value :: u32

record rate_limits_update =
  ru_stream_id :: u16
  ru_account :: string
  ru_origin :: origin
  ru_rate_limits :: "rate_limit list"

record funds_update =
  fu_stream_id :: u16
  fu_account :: string
  fu_currency :: string
  fu_margin_mode :: margin_mode
  fu_balance :: double
  fu_hold :: double
  fu_unrealized_pnl :: double
  fu_update_type :: update_type
  fu_exchange_time_utc :: nanoseconds
  fu_sending_time_utc :: nanoseconds

record position_update =
  pu_stream_id :: u16
  pu_account :: string
  pu_exchange :: string
  pu_symbol :: string
  pu_margin_mode :: margin_mode
  pu_long_quantity :: double
  pu_short_quantity :: double
  pu_update_type :: update_type
  pu_exchange_time_utc :: nanoseconds
  pu_sending_time_utc :: nanoseconds

record order_update =
  ou_account :: string
  ou_exchange :: string
  ou_symbol :: string
  ou_side :: side
  ou_margin_mode :: margin_mode
  ou_order_type :: order_type
  ou_time_in_force :: time_in_force
  ou_create_time_utc :: nanoseconds
  ou_update_time_utc :: nanoseconds
  ou_external_order_id :: string
  ou_client_order_id :: string
  ou_order_status :: order_status
  ou_error :: error
  ou_text :: string
  ou_quantity :: double
  ou_price :: double
  ou_stop_price :: double
  ou_remaining_quantity :: double
  ou_traded_quantity :: double
  ou_average_traded_price :: double
  ou_last_traded_quantity :: double
  ou_last_traded_price :: double
  ou_last_liquidity :: liquidity
  ou_update_type :: update_type
  ou_sending_time_utc :: nanoseconds

record response =
  re_request_type :: request_type
  re_origin :: origin
  re_request_status :: request_status
  re_error :: error
  re_text :: string
  re_version :: u32
  re_external_order_id :: string
  re_quantity :: double
  re_price :: double

record fill =
  fi_exchange_time_utc :: nanoseconds
  fi_external_trade_id :: string
  fi_quantity :: double
  fi_price :: double
  fi_liquidity :: liquidity
  fi_commission_amount :: double
  fi_commission_currency :: string
  fi_profit_loss_amount :: double

record trade_update =
  tu_stream_id :: u16
  tu_account :: string
  tu_order_id :: u64
  tu_exchange :: string
  tu_symbol :: string
  tu_side :: side
  tu_margin_mode :: margin_mode
  tu_create_time_utc :: nanoseconds
  tu_update_time_utc :: nanoseconds
  tu_external_order_id :: string
  tu_client_order_id :: string
  tu_fills :: "fill list"
  tu_update_type :: update_type
  tu_sending_time_utc :: nanoseconds
  tu_strategy_id :: u32

record cancel_all_orders =
  cx_exchange :: string
  cx_symbol :: string
  cx_side :: side

record cancel_all_orders_ack =
  ck_stream_id :: u16
  ck_account :: string
  ck_exchange :: string
  ck_symbol :: string
  ck_side :: side
  ck_origin :: origin
  ck_request_status :: request_status
  ck_error :: error
  ck_text :: string
  ck_request_id :: string

section \<open>Requests to the exchange\<close>

datatype http_method = GET | POST | PUT | DELETE

record rest_request =
  rq_method :: http_method
  rq_path :: string
  rq_query :: string
  rq_form :: bool
  rq_headers :: string
  rq_body :: string
  rq_immediate :: bool

text \<open>
  The callbacks: the handler of the response and what the lambda captures. \<open>rq_form\<close> says that
  the content type is \<open>APPLICATION_X_WWW_FORM_URLENCODED\<close> (else none is given), \<open>rq_immediate\<close> that
  the quality of service is \<open>IMMEDIATE\<close> (else the default).
\<close>

datatype callback =
    CB_listen_key u32
  | CB_account_balance
  | CB_account_status
  | CB_open_orders
  | CB_order string
  | CB_trades
  | CB_order_place u8 u64
  | CB_order_modify u8 u64 u32
  | CB_order_cancel u8 u64 u32
  | CB_open_orders_cancel_all
  | CB_countdown_cancel_all
  | CB_balance_polling bool
  | CB_position
  | CB_exchange_info u32
  | CB_asset_index u32
  | CB_depth string
  | CB_kline string

text \<open>The request slots of \<open>gateway/request.hpp\<close> and the queues of \<open>gateway/shared.hpp\<close> and the streams.\<close>

datatype slot =
    Slot_balances | Slot_positions | Slot_positions_pm | Slot_open_orders | Slot_stale_orders
  | Slot_trades

datatype queue = Queue_subscribe | Queue_depth | Queue_time_series

text \<open>
  The states of the downloads, one enumeration per class, and the commands for
  \<open>core::Download2\<close>. \<open>DC_GET_POSITIONS_PM\<close> occurs in \<open>DropCopyPortfolio\<close> only.
\<close>

datatype oe_state = OE_UNDEFINED | OE_LISTEN_KEY | OE_DONE

datatype dc_state =
    DC_UNDEFINED | DC_GET_BALANCES | DC_GET_POSITIONS | DC_GET_POSITIONS_PM | DC_GET_OPEN_ORDERS
  | DC_GET_STALE_ORDERS | DC_GET_TRADES | DC_DONE

datatype ws_state =
    WS_UNDEFINED | WS_SESSION_LOGON | WS_USER_DATA_STREAM_START | WS_ACCOUNT_POSITION | WS_DONE

datatype rest_state = RS_UNDEFINED | RS_EXCHANGE_INFO | RS_ASSET_INDEX | RS_DONE

datatype 's download_cmd =
    Download_begin
  | Download_bump
  | Download_reset
  | Download_retry 's
  | Download_check 's
  | Download_check_relaxed 's

section \<open>Market data for the dispatcher\<close>

datatype statistics_type =
    HIGHEST_TRADED_PRICE | LOWEST_TRADED_PRICE | OPEN_PRICE | CLOSE_PRICE | TRADE_VOLUME
  | SETTLEMENT_PRICE | PRE_SETTLEMENT_PRICE | INDEX_VALUE | FUNDING_RATE

record statistics =
  sx_type :: statistics_type
  sx_value :: double
  sx_begin_time_utc :: int
  sx_end_time_utc :: int

record mbp_level =
  ml_price :: double
  ml_quantity :: double

record bar =
  br_begin_time_utc :: int
  br_confirmed :: bool
  br_open_price :: double
  br_high_price :: double
  br_low_price :: double
  br_close_price :: double
  br_base_amount :: double
  br_quote_amount :: double
  br_number_of_trades :: int

record md_trade =
  mt_forced_liquidation :: bool
  mt_side :: side
  mt_price :: double
  mt_quantity :: double
  mt_trade_id :: string

record reference_data =
  rf_symbol :: string
  rf_security_type :: security_type
  rf_base_currency :: string
  rf_quote_currency :: string
  rf_settlement_currency :: string
  rf_margin_currency :: string
  rf_tick_size :: double
  rf_multiplier :: double
  rf_min_notional :: double
  rf_min_trade_vol :: double
  rf_max_trade_vol :: double
  rf_trade_vol_step_size :: double
  rf_underlying :: string
  rf_issue_date :: int
  rf_settlement_date :: int
  rf_sending_time_utc :: nanoseconds
  rf_discard :: bool

text \<open>
  The market messages. All of them carry the stream and the symbol; the exchange is that of the
  settings, except where it says otherwise.
\<close>

datatype market_msg =
    MM_reference_data reference_data
  | MM_market_status string trading_status nanoseconds
  | MM_trade_summary string md_trade nanoseconds nanoseconds
  | MM_top_of_book string double double double double nanoseconds int nanoseconds
  | MM_by_price string "mbp_level list" "mbp_level list" update_type nanoseconds int nanoseconds
  | MM_statistics string "statistics list" nanoseconds
  | MM_time_series string "bar list" update_type nanoseconds

section \<open>Effects\<close>

datatype effect =
    Pub_stream_status stream_status
  | Pub_external_latency u16 string nanoseconds
  | Pub_rate_limits rate_limits_update
  | Pub_funds funds_update
  | Pub_position position_update
  | Pub_order order_update u16
  | Pub_response response u16 u8 u64
  | Pub_response_order response order_update u16 u8 u64
  | Pub_trade trade_update u8
  | Pub_cancel_all_ack cancel_all_orders_ack
  | Pub_market u16 string market_msg
  | Conn_start
  | Conn_stop
  | Conn_close
  | Conn_touch
  | Conn_suspend_for nanoseconds
  | Ws_send string
  | Rest_send rest_request callback string
  | Download_command "oe_state download_cmd"
  | Slot_commit slot
  | Slot_request slot
  | Queue_push queue string
  | Queue_clear queue
  | Ev_listen_key_update string string
  | Ev_remove string
  | Ev_symbols_update "string list"
  | Ev_assets_update "string list"

section \<open>State and answers\<close>

text \<open>
  \<open>Shared\<close>. \<open>sh_limits_*\<close> are the members of \<open>limits\<close> that the code reads; the queues, the symbol
  allocation and the rate limiter are library objects and have no field.
\<close>

record 'q shared =
  sh_settings :: settings
  sh_api :: api
  sh_throttle :: throttle
  sh_instruments :: "(string \<times> 'q instrument) list"
  sh_all_symbols :: "string list"
  sh_rate_limits :: "rate_limit list"
  sh_limits_request_weight_1m :: u32
  sh_limits_create_order_10s :: u32
  sh_limits_create_order_1m :: u32
  sh_allow_unknown_event_types :: bool

definition shared_create :: "(string \<Rightarrow> j_self_trade_prevention) \<Rightarrow> settings \<Rightarrow> exn + 'q shared" where
  "shared_create stp_of st =
     (case api_create stp_of st of
        Inl e \<Rightarrow> Inl e
      | Inr a \<Rightarrow> Inr \<lparr> sh_settings = st, sh_api = a, sh_throttle = throttle_create st,
          sh_instruments = [], sh_all_symbols = [], sh_rate_limits = [],
          sh_limits_request_weight_1m = 0, sh_limits_create_order_10s = 0, sh_limits_create_order_1m = 0,
          sh_allow_unknown_event_types =
            (st_allow_unknown_event_types st \<or> st_continue_with_unknown_event_type st) \<rparr>)"

text \<open>
  The state of a handler: its own object, \<open>Shared\<close>, the part of \<open>Request\<close> that is not a library
  object (\<open>details_stale_orders\<close>), and what it has done so far.
\<close>

record ('c, 'q) gw =
  gw_self :: 'c
  gw_shared :: "'q shared"
  gw_stale_orders :: "(u8 \<times> u64) list"
  gw_out :: "effect list"

text \<open>What the streams of an account have in common: id, account and connection status.\<close>

record account_stream =
  sm_stream_id :: u16
  sm_account :: account
  sm_connection_status :: connection_status

abbreviation name_of :: "('z account_stream_scheme, 'q) gw \<Rightarrow> string" where
  "name_of w \<equiv> ac_name (sm_account (gw_self w))"

abbreviation stream_of :: "('z account_stream_scheme, 'q) gw \<Rightarrow> u16" where
  "stream_of w \<equiv> sm_stream_id (gw_self w)"

definition stream_ready :: "('z account_stream_scheme, 'q) gw \<Rightarrow> bool" where
  "stream_ready w = (sm_connection_status (gw_self w) = ConnectionStatus_READY)"

definition emit :: "effect \<Rightarrow> ('c, 'q) gw \<Rightarrow> ('c, 'q) gw" where
  "emit e w = w\<lparr>gw_out := gw_out w @ [e]\<rparr>"

definition upd_self :: "('c \<Rightarrow> 'c) \<Rightarrow> ('c, 'q) gw \<Rightarrow> ('c, 'q) gw" where
  "upd_self f w = w\<lparr>gw_self := f (gw_self w)\<rparr>"

definition upd_shared :: "('q shared \<Rightarrow> 'q shared) \<Rightarrow> ('c, 'q) gw \<Rightarrow> ('c, 'q) gw" where
  "upd_shared f w = w\<lparr>gw_shared := f (gw_shared w)\<rparr>"

lemma emit_simps [simp]:
  "gw_self (emit e w) = gw_self w"
  "gw_shared (emit e w) = gw_shared w"
  "gw_stale_orders (emit e w) = gw_stale_orders w"
  "gw_out (emit e w) = gw_out w @ [e]"
  by (simp_all add: emit_def)

lemma upd_self_simps [simp]:
  "gw_self (upd_self f w) = f (gw_self w)"
  "gw_shared (upd_self f w) = gw_shared w"
  "gw_stale_orders (upd_self f w) = gw_stale_orders w"
  "gw_out (upd_self f w) = gw_out w"
  by (simp_all add: upd_self_def)

lemma upd_shared_simps [simp]:
  "gw_self (upd_shared f w) = gw_self w"
  "gw_shared (upd_shared f w) = f (gw_shared w)"
  "gw_stale_orders (upd_shared f w) = gw_stale_orders w"
  "gw_out (upd_shared f w) = gw_out w"
  by (simp_all add: upd_shared_def)

lemma stream_ready_frame [simp]:
  "stream_ready (emit e w) = stream_ready w"
  "stream_ready (upd_shared f w) = stream_ready w"
  by (simp_all add: stream_ready_def)

abbreviation settings_of :: "('c, 'q) gw \<Rightarrow> settings" where
  "settings_of w \<equiv> sh_settings (gw_shared w)"

abbreviation api_of :: "('c, 'q) gw \<Rightarrow> api" where
  "api_of w \<equiv> sh_api (gw_shared w)"

text \<open>
  The environment of a handler: library functions (crypto, printing, number parsing), the
  generated message classes (a class is constructed from a body, or throws), and the answers
  that the dispatcher and library objects give while the handler runs.
\<close>

record env =
  ge_crypto :: crypto_lib
  ge_encoder :: encoder_lib
  ge_listen_key :: "string \<Rightarrow> exn + string"
  ge_balances :: "string \<Rightarrow> exn + balance_item list"
  ge_account :: "string \<Rightarrow> exn + account_status_msg"
  ge_open_orders :: "string \<Rightarrow> exn + order_ack_msg list"
  ge_order :: "string \<Rightarrow> exn + order_ack_msg"
  ge_position_list :: "string \<Rightarrow> exn + position_item list"
  ge_trades :: "string \<Rightarrow> exn + trade_item list"
  ge_place :: "string \<Rightarrow> exn + order_msg"
  ge_modify :: "string \<Rightarrow> exn + order_msg"
  ge_cancel :: "string \<Rightarrow> exn + order_msg"
  ge_cancel_all :: "string \<Rightarrow> exn + int \<times> string"
  ge_countdown :: "string \<Rightarrow> exn + unit"
  ge_error :: "string \<Rightarrow> exn + int \<times> string"
  ge_relaxed_i64 :: "string \<Rightarrow> int option"
  ge_relaxed_u32 :: "string \<Rightarrow> u32 option"
  ge_same_text :: "string \<Rightarrow> string \<Rightarrow> bool"
  ge_status_text :: "nat \<Rightarrow> string"
  ge_expect_ok :: "nat \<Rightarrow> exn option"
  ge_oms :: "exn \<Rightarrow> origin \<times> request_status \<times> error \<times> string"
  ge_profit_loss :: "side \<Rightarrow> double \<Rightarrow> double \<Rightarrow> double \<Rightarrow> double"
  ge_discard_symbol :: "string \<Rightarrow> bool"
  ge_ref_data :: "string \<Rightarrow> string \<Rightarrow> ref_data"
  ge_find_order :: "u8 \<Rightarrow> u64 \<Rightarrow> oms_order option"
  ge_downloading :: bool
  ge_sequence :: u32
  ge_refresh :: bool
  ge_pending :: "slot \<Rightarrow> bool"
  ge_source_none :: u8
  ge_compare :: "double \<Rightarrow> double \<Rightarrow> int"

text \<open>A message class constructed from a body: the handler goes on with it, or the exception leaves.\<close>

definition parsed :: "exn + 'm \<Rightarrow> ('m \<Rightarrow> 'w \<Rightarrow> (exn, 'w) res) \<Rightarrow> 'w \<Rightarrow> (exn, 'w) res" where
  "parsed r f w = (case r of Inl e \<Rightarrow> Throw e w | Inr m \<Rightarrow> f m w)"

lemma parsed_simps [simp]:
  "parsed (Inl e) f w = Throw e w"
  "parsed (Inr m) f w = f m w"
  by (simp_all add: parsed_def)

lemma parsed_keeps: "(\<And>m w. R w (res_state (f m w))) \<Longrightarrow> R w w \<Longrightarrow> R w (res_state (parsed p f w))"
  by (cases p) simp_all

section \<open>What was sent\<close>

text \<open>The responses to one order request among the effects.\<close>

fun is_response :: "u8 \<Rightarrow> u64 \<Rightarrow> effect \<Rightarrow> bool" where
  "is_response u i (Pub_response r s user order) = (user = u \<and> order = i)"
| "is_response u i (Pub_response_order r o' s user order) = (user = u \<and> order = i)"
| "is_response u i _ = False"

fun response_of :: "effect \<Rightarrow> response option" where
  "response_of (Pub_response r s user order) = Some r"
| "response_of (Pub_response_order r o' s user order) = Some r"
| "response_of _ = None"

definition responses :: "u8 \<Rightarrow> u64 \<Rightarrow> ('c, 'q) gw \<Rightarrow> response list" where
  "responses u i w = List.map_filter response_of (filter (is_response u i) (gw_out w))"

lemma responses_emit [simp]:
  "responses u i (emit e w) =
     responses u i w @ (if is_response u i e then List.map_filter response_of [e] else [])"
  by (simp add: responses_def List.map_filter_def)

lemma responses_upd [simp]:
  "responses u i (upd_self f w) = responses u i w"
  "responses u i (upd_shared g w) = responses u i w"
  by (simp_all add: responses_def)

fun rest_sent :: "effect list \<Rightarrow> (rest_request \<times> callback) list" where
  "rest_sent [] = []"
| "rest_sent (Rest_send r c i # es) = (r, c) # rest_sent es"
| "rest_sent (_ # es) = rest_sent es"

lemma rest_sent_append [simp]: "rest_sent (es @ fs) = rest_sent es @ rest_sent fs"
  by (induction es rule: rest_sent.induct) simp_all

end
