(* ===== verification/Rest_Response.thy ===== *)
theory Rest_Response
  imports Gw_World
begin

text \<open>
  What every REST component does with a response: \<open>get_retry_after\<close>, \<open>waf_limit_violation\<close> and
  \<open>process_response\<close> (\<open>gateway/order_entry_classic.cpp\<close>; \<open>order_entry_portfolio.cpp\<close> has the same
  text). The latter sorts the response by its HTTP category and calls an error handler or a
  success handler; an exception that leaves either of them is turned into a call of the
  error handler.
\<close>

section \<open>Responses\<close>

datatype category =
    Category_UNKNOWN | Category_INFORMATIONAL_RESPONSE | Category_SUCCESS | Category_REDIRECTION
  | Category_CLIENT_ERROR | Category_SERVER_ERROR

text \<open>
  \<open>response.result()\<close> gives status, category and body, or throws. \<open>rr_retry_after\<close> are the values of
  the header \<open>Retry-After\<close> in the order \<open>response.dispatch\<close> reports them.
\<close>

record rest_response =
  rr_result :: "exn + nat \<times> category \<times> string"
  rr_retry_after :: "string list"

text \<open>A value that is not a number is skipped; the last number counts.\<close>

definition get_retry_after :: "'z env_scheme \<Rightarrow> rest_response \<Rightarrow> nanoseconds" where
  "get_retry_after E r =
     fold (\<lambda>v result. case ge_relaxed_i64 E v of Some n \<Rightarrow> seconds n | None \<Rightarrow> result)
       (rr_retry_after r) 0"

lemma get_retry_after_none:
  "\<forall>v \<in> set (rr_retry_after r). ge_relaxed_i64 E v = None \<Longrightarrow> get_retry_after E r = 0"
proof -
  have "fold (\<lambda>v result. case ge_relaxed_i64 E v of Some n \<Rightarrow> seconds n | None \<Rightarrow> result) vs t = t"
    if "\<forall>v \<in> set vs. ge_relaxed_i64 E v = None" for vs t
    using that by (induction vs) simp_all
  then show "\<forall>v \<in> set (rr_retry_after r). ge_relaxed_i64 E v = None \<Longrightarrow> get_retry_after E r = 0"
    by (simp add: get_retry_after_def)
qed

definition waf_limit_violation :: "('c, 'q) gw \<Rightarrow> (exn, ('c, 'q) gw) res" where
  "waf_limit_violation w =
     (if st_rest_terminate_on_403 (settings_of w) then Fatal ''WAF limit violation'' w
      else Ok (emit (Conn_suspend_for (st_rest_back_off_delay (settings_of w))) w))"

section \<open>Sorting a response\<close>

type_synonym ('c, 'q) error_handler =
  "origin \<Rightarrow> request_status \<Rightarrow> error \<Rightarrow> string \<Rightarrow> ('c, 'q) gw \<Rightarrow> (exn, ('c, 'q) gw) res"

type_synonym ('c, 'q) success_handler =
  "string \<Rightarrow> ('c, 'q) gw \<Rightarrow> (exn, ('c, 'q) gw) res"

text \<open>The statuses that mean too many requests, and the answer to them.\<close>

definition rate_limited ::
  "'z env_scheme \<Rightarrow> rest_response \<Rightarrow> nat \<Rightarrow> ('c, 'q) error_handler \<Rightarrow> ('c, 'q) gw \<Rightarrow> (exn, ('c, 'q) gw) res"
where
  "rate_limited E r status error_handler w =
     (let retry_after = get_retry_after E r;
          w = (if retry_after \<noteq> 0 then emit (Conn_suspend_for retry_after) w else w)
      in error_handler Origin_EXCHANGE RequestStatus_REJECTED Error_REQUEST_RATE_LIMIT_REACHED
           (ge_status_text E status) w)"

text \<open>
  The body of the \<open>try\<close> block. \<open>response.expect\<close> throws when the status is not the expected one.
  Status 409 has an \<open>assert(false)\<close>; in a build without assertions it is an error like any other.
\<close>

definition process_body ::
  "'z env_scheme \<Rightarrow> rest_response \<Rightarrow> ('c, 'q) error_handler \<Rightarrow> ('c, 'q) success_handler
    \<Rightarrow> ('c, 'q) gw \<Rightarrow> (exn, ('c, 'q) gw) res" where
  "process_body E r error_handler success_handler w =
    (case rr_result r of
       Inl e \<Rightarrow> Throw e w
     | Inr (status, category, body) \<Rightarrow>
        (case category of
           Category_UNKNOWN \<Rightarrow>
             (case ge_expect_ok E status of Some e \<Rightarrow> Throw e w | None \<Rightarrow> Ok w)
         | Category_INFORMATIONAL_RESPONSE \<Rightarrow>
             (case ge_expect_ok E status of Some e \<Rightarrow> Throw e w | None \<Rightarrow> Ok w)
         | Category_SUCCESS \<Rightarrow> success_handler body w
         | Category_REDIRECTION \<Rightarrow> Fatal ''Unexpected: URL is being redirected'' w
         | Category_CLIENT_ERROR \<Rightarrow>
             (if status = 403 then
                and_then (waf_limit_violation w) (rate_limited E r status error_handler)
              else if status = 418 \<or> status = 429 then rate_limited E r status error_handler w
              else if status = 409 \<and> st_assertions (settings_of w) then Fatal ''assert'' w
              else parsed (ge_error E body) (\<lambda>(code, msg).
                error_handler Origin_EXCHANGE RequestStatus_REJECTED (guess_error code) msg) w)
         | Category_SERVER_ERROR \<Rightarrow>
             error_handler Origin_EXCHANGE RequestStatus_REJECTED Error_UNKNOWN
               (ge_status_text E status) w))"

text \<open>The three \<open>catch\<close> clauses: what the error handler is told about an exception.\<close>

fun caught :: "'z env_scheme \<Rightarrow> exn \<Rightarrow> origin \<times> request_status \<times> error \<times> string" where
  "caught E (Network_error status error text) = (Origin_GATEWAY, status, error, text)"
| "caught E (Std_exception text) = (Origin_EXCHANGE, RequestStatus_ERROR, Error_UNKNOWN, text)"
| "caught E e = ge_oms E e"

definition process_response ::
  "'z env_scheme \<Rightarrow> rest_response \<Rightarrow> ('c, 'q) error_handler \<Rightarrow> ('c, 'q) success_handler
    \<Rightarrow> ('c, 'q) gw \<Rightarrow> (exn, ('c, 'q) gw) res" where
  "process_response E r error_handler success_handler w =
    (case process_body E r error_handler success_handler w of
       Throw e w' \<Rightarrow>
         (case caught E e of (origin, status, error, text) \<Rightarrow> error_handler origin status error text w')
     | done \<Rightarrow> done)"

section \<open>When the process ends\<close>

text \<open>
  A redirection, a 403 when the gateway is told to terminate on it, or a 409 in a build that has its
  assertions.
\<close>

definition ends_process :: "settings \<Rightarrow> rest_response \<Rightarrow> bool" where
  "ends_process st r =
     (case rr_result r of
        Inl e \<Rightarrow> False
      | Inr (status, category, body) \<Rightarrow>
          category = Category_REDIRECTION
          \<or> category = Category_CLIENT_ERROR \<and> status = 403 \<and> st_rest_terminate_on_403 st
          \<or> category = Category_CLIENT_ERROR \<and> status = 409 \<and> st_assertions st)"

text \<open>A response that \<open>response.expect\<close> does not object to although it is not a success.\<close>

definition unexpected_ok :: "'z env_scheme \<Rightarrow> rest_response \<Rightarrow> bool" where
  "unexpected_ok E r =
     (case rr_result r of
        Inl e \<Rightarrow> False
      | Inr (status, category, body) \<Rightarrow>
          category \<in> {Category_UNKNOWN, Category_INFORMATIONAL_RESPONSE}
          \<and> ge_expect_ok E status = None)"

section \<open>The contract of a response handler\<close>

text \<open>
  The answers \<open>obs\<close> given so far: each of the two handlers adds one that is \<open>good\<close>, and an
  exception of the success handler leaves before it has added any. \<open>fit\<close> says in which states
  that holds.
\<close>

locale response_handler =
  fixes error_handler :: "('c, 'q) error_handler"
    and success_handler :: "('c, 'q) success_handler"
    and obs :: "('c, 'q) gw \<Rightarrow> 'r list"
    and good :: "'r \<Rightarrow> bool"
    and fit :: "('c, 'q) gw \<Rightarrow> bool"
  assumes error_one: "\<exists>w' a. error_handler o' s x t w = Ok w' \<and> obs w' = obs w @ [a] \<and> good a"
    and success_one: "fit w \<Longrightarrow>
       (\<exists>w' a. success_handler b w = Ok w' \<and> obs w' = obs w @ [a] \<and> good a)
       \<or> (\<exists>e w'. success_handler b w = Throw e w' \<and> obs w' = obs w)"
    and suspend_obs: "obs (emit (Conn_suspend_for d) w) = obs w"
begin

definition answers :: "('c, 'q) gw \<Rightarrow> (exn, ('c, 'q) gw) res \<Rightarrow> bool" where
  "answers w r = (\<exists>w' a. r = Ok w' \<and> obs w' = obs w @ [a] \<and> good a)"

lemma error_answers: "obs v = obs w \<Longrightarrow> answers w (error_handler o' s x t v)"
  using error_one [of o' s x t v] by (simp add: answers_def)

lemma rate_limited_answers: "obs v = obs w \<Longrightarrow> answers w (rate_limited E r n error_handler v)"
  by (simp add: rate_limited_def Let_def error_answers suspend_obs)

lemma body_cases:
  assumes "fit w" "\<not> ends_process (settings_of w) r" "\<not> unexpected_ok E r"
  shows "answers w (process_body E r error_handler success_handler w)
    \<or> (\<exists>e w'. process_body E r error_handler success_handler w = Throw e w' \<and> obs w' = obs w)"
proof (cases "rr_result r")
  case (Inr p)
  obtain status category body where p: "p = (status, category, body)" by (cases p) auto
  show ?thesis
  proof (cases category)
    case Category_CLIENT_ERROR
    have waf: "waf_limit_violation w
        = Ok (emit (Conn_suspend_for (st_rest_back_off_delay (settings_of w))) w)" if "status = 403"
      using assms that Inr p Category_CLIENT_ERROR
      by (simp add: ends_process_def waf_limit_violation_def)
    have "\<not> (status = 409 \<and> st_assertions (settings_of w))"
      using assms(2) Inr p Category_CLIENT_ERROR by (simp add: ends_process_def)
    then show ?thesis
      using Inr p Category_CLIENT_ERROR waf
      by (cases "ge_error E body")
        (auto simp: process_body_def rate_limited_answers error_answers suspend_obs)
  next
    case Category_SUCCESS
    then show ?thesis
      using Inr p success_one [OF assms(1), of body] by (simp add: process_body_def answers_def)
  qed (use assms Inr p in
      \<open>auto simp: process_body_def ends_process_def unexpected_ok_def error_answers split: option.splits\<close>)
qed (simp add: process_body_def)

text \<open>Whatever the exchange answers, the request is answered exactly once.\<close>

lemma exactly_one:
  assumes "fit w" "\<not> ends_process (settings_of w) r" "\<not> unexpected_ok E r"
  shows "\<exists>w' a. process_response E r error_handler success_handler w = Ok w'
    \<and> obs w' = obs w @ [a] \<and> good a"
  using body_cases [OF assms]
proof (elim disjE exE conjE)
  fix e w'
  assume w': "process_body E r error_handler success_handler w = Throw e w'" "obs w' = obs w"
  obtain o' s x t where "caught E e = (o', s, x, t)" by (cases "caught E e") auto
  then show ?thesis
    using w' error_answers [of w' w o' s x t] by (simp add: process_response_def answers_def)
qed (auto simp: process_response_def answers_def)

end

text \<open>
  A relation that the two handlers keep, and that suspending the connection keeps, is kept by
  the whole.
\<close>

locale kept_rest = kept R for R :: "('c, 'q) gw \<Rightarrow> ('c, 'q) gw \<Rightarrow> bool" +
  assumes keep_suspend: "R w (emit (Conn_suspend_for d) w)"
begin

lemma keep_body:
  assumes err: "\<And>o' s x t w. R w (res_state (err o' s x t w))"
    and succ: "\<And>b w. R w (res_state (succ b w))"
  shows "R w (res_state (process_body E r err succ w))"
proof (cases "rr_result r")
  case (Inr p)
  obtain status category body where p: "p = (status, category, body)" by (cases p) auto
  have limited: "R v (res_state (rate_limited E r n err v))" for n v
    by (auto simp: rate_limited_def Let_def intro: err keep_trans [OF keep_suspend err])
  have waf: "R w (res_state (and_then (waf_limit_violation w) (rate_limited E r n err)))" for n
    by (auto simp: waf_limit_violation_def keep_refl intro: keep_trans [OF keep_suspend limited])
  show ?thesis
  proof (cases category)
    case Category_CLIENT_ERROR
    then show ?thesis
      using Inr p waf limited err by (cases "ge_error E body") (auto simp: process_body_def keep_refl)
  qed (use Inr p succ err in \<open>auto simp: process_body_def keep_refl split: option.splits\<close>)
qed (simp add: process_body_def keep_refl)

lemma keep_response:
  assumes err: "\<And>o' s x t w. R w (res_state (err o' s x t w))"
    and succ: "\<And>b w. R w (res_state (succ b w))"
  shows "R w (res_state (process_response E r err succ w))"
proof -
  have body: "R w (res_state (process_body E r err succ w))" by (rule keep_body [OF err succ])
  show ?thesis
  proof (cases "process_body E r err succ w")
    case (Throw e v)
    obtain o' s x t where c: "caught E e = (o', s, x, t)" by (cases "caught E e") auto
    show ?thesis
      using keep_trans [OF _ err [of v o' s x t]] body by (simp add: process_response_def Throw c)
  qed (use body in \<open>simp_all add: process_response_def\<close>)
qed

end

text \<open>Fatal outcomes come from where they are expected to.\<close>

lemma process_body_fatal:
  assumes "process_body E r err succ w = Fatal m w'"
    and "\<And>o' s x t v m v'. err o' s x t v \<noteq> Fatal m v'" "\<And>b v m v'. succ b v \<noteq> Fatal m v'"
  shows "ends_process (settings_of w) r"
proof (cases "rr_result r")
  case (Inr p)
  obtain status category body where p: "p = (status, category, body)" by (cases p) auto
  have limited: "rate_limited E r n err v \<noteq> Fatal m v'" for n v m v'
    using assms(2) by (simp add: rate_limited_def Let_def)
  show ?thesis
  proof (cases category)
    case Category_CLIENT_ERROR
    then show ?thesis
      using assms(1,2) Inr p limited
      by (cases "ge_error E body")
        (auto simp: process_body_def ends_process_def waf_limit_violation_def split: if_splits)
  qed (use assms Inr p in \<open>auto simp: process_body_def ends_process_def split: option.splits\<close>)
qed (use assms(1) in \<open>simp add: process_body_def\<close>)

lemma process_response_fatal:
  assumes "process_response E r err succ w = Fatal m w'"
    and "\<And>o' s x t v. \<exists>v'. err o' s x t v = Ok v'"
    and "\<And>b v m v'. succ b v \<noteq> Fatal m v'"
  shows "ends_process (settings_of w) r"
proof -
  have e: "err o' s x t v \<noteq> Fatal m v'" for o' s x t v m v'
    using assms(2) [of o' s x t v] by auto
  then have "process_body E r err succ w = Fatal m w'"
    using assms(1) by (auto simp: process_response_def split: res.splits prod.splits)
  from process_body_fatal [OF this e assms(3)] show ?thesis .
qed

end
