(* ===== verification/Order_Entry_Classic.thy ===== *)
theory Order_Entry_Classic
  imports Rest_Response
begin

text \<open>
  \<open>gateway/order_entry_classic.cpp\<close>: the REST connection of an account. It keeps the listen key
  of the user stream alive, downloads balances, positions, open orders, stale orders and
  trades on request, and places, modifies and cancels orders. One definition per member
  function; a callback of the code is a value of type \<open>callback\<close>, which \<open>oe_response\<close> leads
  back to its handler.

  Sending a request and publishing a message are library calls; the model takes them to
  return normally.
\<close>

section \<open>State\<close>

text \<open>
  \<open>download_stale_orders_counter_\<close> has type \<open>size_t\<close>; it is a natural number here, since it counts
  requests in flight and the code guards the decrement.
\<close>

record rest_stream = account_stream +
  oe_open_orders_symbols :: "string list"
  oe_download_trades_is_first :: bool
  oe_stale_orders_counter :: nat

record keyed_stream = rest_stream +
  oe_listen_key :: string
  oe_listen_key_refresh :: nanoseconds

record oe_classic = keyed_stream +
  oe_next_auto_cancel :: nanoseconds

definition oe_create :: "u16 \<Rightarrow> account \<Rightarrow> oe_classic" where
  "oe_create stream_id acc = \<lparr> sm_stream_id = stream_id, sm_account = acc,
     sm_connection_status = ConnectionStatus_UNDEFINED,
     oe_open_orders_symbols = [], oe_download_trades_is_first = True,
     oe_stale_orders_counter = 0, oe_listen_key = [],
     oe_listen_key_refresh = 0, oe_next_auto_cancel = 0 \<rparr>"

text \<open>
  The members of \<open>rest_stream\<close> are those that \<open>RestTrade\<close> has as well, those of \<open>keyed_stream\<close>
  the ones that \<open>OrderEntryPortfolio\<close> has. Functions that only use these are defined for any
  extension of the record: the other classes have members with the same text.
\<close>

type_synonym ('z, 'q) acs = "('z account_stream_scheme, 'q) gw"

type_synonym ('z, 'q) rst = "('z rest_stream_scheme, 'q) gw"

type_synonym ('z, 'q) kst = "('z keyed_stream_scheme, 'q) gw"

type_synonym 'q oe = "(oe_classic, 'q) gw"

section \<open>Stream\<close>

definition oe_start :: "('z, 'q) acs \<Rightarrow> ('z, 'q) acs" where
  "oe_start w = emit Conn_start w"

definition oe_stop :: "('z, 'q) acs \<Rightarrow> ('z, 'q) acs" where
  "oe_stop w = emit Conn_stop w"

definition oe_set_connection_status :: "connection_status \<Rightarrow> string \<Rightarrow> ('z, 'q) acs \<Rightarrow> ('z, 'q) acs" where
  "oe_set_connection_status status reason w =
     (let w = upd_self (\<lambda>s. s\<lparr>sm_connection_status := status\<rparr>) w in
      emit (Pub_stream_status \<lparr> ss_stream_id = stream_of w, ss_account = name_of w,
              ss_connection_status = status, ss_reason = reason \<rparr>) w)"

definition oe_connected :: "('z, 'q) acs \<Rightarrow> ('z, 'q) acs" where
  "oe_connected w = emit (Download_command Download_begin) w"

definition oe_disconnected :: "('z, 'q) acs \<Rightarrow> ('z, 'q) acs" where
  "oe_disconnected w =
     emit (Download_command Download_reset)
       (oe_set_connection_status ConnectionStatus_DISCONNECTED [] w)"

definition oe_latency :: "nanoseconds \<Rightarrow> ('z, 'q) acs \<Rightarrow> ('z, 'q) acs" where
  "oe_latency sample w = emit (Pub_external_latency (stream_of w) (name_of w) sample) w"

section \<open>Rate limits reported by the exchange\<close>

text \<open>
  The three parts of a response: its beginning clears the list, each known header adds to
  it, its end publishes it when there is something to publish.
\<close>

definition oe_message_begin :: "('z, 'q) acs \<Rightarrow> ('z, 'q) acs" where
  "oe_message_begin w = upd_shared (\<lambda>s. s\<lparr>sh_rate_limits := []\<rparr>) w"

definition add_rate_limit :: "rate_limit_type \<Rightarrow> u32 \<Rightarrow> u32 \<Rightarrow> ('z, 'q) acs \<Rightarrow> ('z, 'q) acs" where
  "add_rate_limit t limit v w =
     upd_shared (\<lambda>s. s\<lparr>sh_rate_limits := sh_rate_limits s @
       [\<lparr> rl_type = t, rl_period = minutes 1, rl_limit = limit, rl_value = v \<rparr>]\<rparr>) w"

definition oe_message_header :: "env \<Rightarrow> string \<Rightarrow> string \<Rightarrow> ('z, 'q) acs \<Rightarrow> ('z, 'q) acs" where
  "oe_message_header E name v w =
     (let w = (if ge_same_text E name ''x-mbx-used-weight-1m'' then
                 (case ge_relaxed_u32 E v of
                    Some n \<Rightarrow> add_rate_limit RateLimit_REQUEST_WEIGHT
                               (sh_limits_request_weight_1m (gw_shared w)) n w
                  | None \<Rightarrow> w)
               else w)
      in if ge_same_text E name ''x-mbx-order-count-1m'' then
           (case ge_relaxed_u32 E v of
              Some n \<Rightarrow> add_rate_limit RateLimit_CREATE_ORDER
                         (sh_limits_create_order_1m (gw_shared w)) n w
            | None \<Rightarrow> w)
         else w)"

definition oe_message_end :: "('z, 'q) acs \<Rightarrow> ('z, 'q) acs" where
  "oe_message_end w =
     (if sh_rate_limits (gw_shared w) = [] then w
      else upd_shared (\<lambda>s. s\<lparr>sh_rate_limits := []\<rparr>)
        (emit (Pub_rate_limits \<lparr> ru_stream_id = stream_of w, ru_account = name_of w,
                 ru_origin = Origin_EXCHANGE, ru_rate_limits = sh_rate_limits (gw_shared w) \<rparr>) w))"

section \<open>Listen key\<close>

definition rest_get :: "http_method \<Rightarrow> string \<Rightarrow> string \<Rightarrow> bool \<Rightarrow> ('z, 'q) acs \<Rightarrow> rest_request" where
  "rest_get method path query form w =
     \<lparr> rq_method = method, rq_path = path, rq_query = query, rq_form = form,
       rq_headers = cr_headers (ac_crypto (sm_account (gw_self w))), rq_body = [],
       rq_immediate = False \<rparr>"

definition default_listen_key_refresh_delay :: nanoseconds where
  "default_listen_key_refresh_delay = seconds 10"

definition force_listen_key_refresh :: "trace_info \<Rightarrow> ('z, 'q) kst \<Rightarrow> ('z, 'q) kst" where
  "force_listen_key_refresh ti w =
     (if oe_listen_key_refresh (gw_self w) \<noteq> 0 then
        upd_self (\<lambda>s. s\<lparr>oe_listen_key_refresh :=
          ti_create_time ti + default_listen_key_refresh_delay\<rparr>) w
      else w)"

definition get_listen_key :: "env \<Rightarrow> ('z, 'q) kst \<Rightarrow> ('z, 'q) kst" where
  "get_listen_key E w =
     emit (Rest_send (rest_get POST (as_listen_key (api_simple (api_of w))) [] False w)
             (CB_listen_key (ge_sequence E)) ''listen-key'') w"

definition on_listen_key_ack :: "trace_info \<Rightarrow> string \<Rightarrow> ('z, 'q) kst \<Rightarrow> ('z, 'q) kst" where
  "on_listen_key_ack ti key w =
     (let initial = (oe_listen_key (gw_self w) = []);
          w = (if oe_listen_key (gw_self w) \<noteq> key then
                 let w = upd_self (\<lambda>s. s\<lparr>oe_listen_key := key\<rparr>) w in
                 (if initial then emit (Ev_listen_key_update (name_of w) key) w else w)
               else w)
      in upd_self (\<lambda>s. s\<lparr>oe_listen_key_refresh :=
           ti_create_time ti + st_rest_listen_key_refresh (settings_of w)\<rparr>) w)"

definition get_listen_key_ack ::
  "env \<Rightarrow> trace_info \<Rightarrow> rest_response \<Rightarrow> ('z, 'q) kst \<Rightarrow> (exn, ('z, 'q) kst) res" where
  "get_listen_key_ack E ti r w =
     process_response E r
       (\<lambda>origin status error text w. Ok (if ge_downloading E
          then emit (Download_command (Download_retry OE_LISTEN_KEY)) w else w))
       (\<lambda>body. parsed (ge_listen_key E body) (\<lambda>key w.
          Ok (emit (Download_command (Download_check_relaxed OE_LISTEN_KEY))
                (on_listen_key_ack ti key w)))) w"

definition refresh_listen_key :: "env \<Rightarrow> trace_info \<Rightarrow> ('z, 'q) kst \<Rightarrow> ('z, 'q) kst" where
  "refresh_listen_key E ti w =
     (if \<not> stream_ready w then w
      else if oe_listen_key_refresh (gw_self w) = 0
              \<or> ti_create_time ti < oe_listen_key_refresh (gw_self w) then w
      else get_listen_key E (upd_self (\<lambda>s. s\<lparr>oe_listen_key_refresh :=
             ti_create_time ti + st_rest_listen_key_refresh (settings_of w)\<rparr>) w))"

text \<open>
  \<open>download\<close>, which \<open>core::Download2\<close> calls with the states in turn. The number is how many
  answers it then waits for. \<open>magic_enum\<close> gives the name of the state.
\<close>

definition oe_download :: "env \<Rightarrow> oe_state \<Rightarrow> ('z, 'q) kst \<Rightarrow> int \<times> ('z, 'q) kst" where
  "oe_download E state w =
     (case state of
        OE_UNDEFINED \<Rightarrow> (0, w)
      | OE_LISTEN_KEY \<Rightarrow>
          (1, get_listen_key E
                (oe_set_connection_status ConnectionStatus_DOWNLOADING ''LISTEN_KEY'' w))
      | OE_DONE \<Rightarrow> (0, oe_set_connection_status ConnectionStatus_READY [] w))"

section \<open>Balances\<close>

text \<open>An error of a download is logged and nothing else.\<close>

definition log_error :: "('c, 'q) error_handler" where
  "log_error origin status error text w = Ok w"

definition get_account_balance :: "env \<Rightarrow> trace_info \<Rightarrow> ('z, 'q) acs \<Rightarrow> ('z, 'q) acs" where
  "get_account_balance E ti w =
     emit (Rest_send (rest_get GET (as_account_balance (api_simple (api_of w)))
             (acc_rest_signature (ge_crypto E) (sm_account (gw_self w)) ti) False w)
             CB_account_balance ''account-balance'') w"

definition balance_funds :: "('z, 'q) acs \<Rightarrow> balance_item \<Rightarrow> funds_update" where
  "balance_funds w item =
     \<lparr> fu_stream_id = stream_of w, fu_account = name_of w, fu_currency = bi_asset item,
       fu_margin_mode = MarginMode_UNDEFINED, fu_balance = bi_balance item,
       fu_hold = bi_balance item - bi_available_balance item,
       fu_unrealized_pnl =
         get_unrealized_pnl (bi_um_unrealized_pnl item) (bi_cm_unrealized_pnl item),
       fu_update_type = UpdateType_SNAPSHOT, fu_exchange_time_utc = bi_update_time item,
       fu_sending_time_utc = 0 \<rparr>"

definition cross_funds :: "('z, 'q) acs \<Rightarrow> balance_item \<Rightarrow> funds_update" where
  "cross_funds w item =
     \<lparr> fu_stream_id = stream_of w, fu_account = name_of w, fu_currency = bi_asset item,
       fu_margin_mode = MarginMode_CROSS, fu_balance = bi_cross_wallet_balance item,
       fu_hold = NaN, fu_unrealized_pnl = bi_cross_un_pnl item,
       fu_update_type = UpdateType_SNAPSHOT, fu_exchange_time_utc = bi_update_time item,
       fu_sending_time_utc = 0 \<rparr>"

definition on_balance_item :: "balance_item \<Rightarrow> ('z, 'q) acs \<Rightarrow> ('z, 'q) acs" where
  "on_balance_item item w =
     (let w = emit (Pub_funds (balance_funds w item)) w in
      if \<not> isnan (bi_cross_wallet_balance item) then emit (Pub_funds (cross_funds w item)) w
      else w)"

definition on_account_balance_ack :: "balance_item list \<Rightarrow> ('z, 'q) acs \<Rightarrow> ('z, 'q) acs" where
  "on_account_balance_ack items w = fold on_balance_item items w"

text \<open>The slot is committed after the response has been processed, whatever it was.\<close>

definition commit :: "slot \<Rightarrow> ('c, 'q) gw \<Rightarrow> (exn, ('c, 'q) gw) res" where
  "commit s w = Ok (emit (Slot_commit s) w)"

definition get_account_balance_ack :: "env \<Rightarrow> rest_response \<Rightarrow> ('z, 'q) acs \<Rightarrow> (exn, ('z, 'q) acs) res" where
  "get_account_balance_ack E r w =
     and_then
       (process_response E r log_error
         (\<lambda>body. parsed (ge_balances E body) (\<lambda>items w. Ok (on_account_balance_ack items w))) w)
       (commit Slot_balances)"

section \<open>Positions\<close>

definition get_account_status :: "env \<Rightarrow> trace_info \<Rightarrow> ('z, 'q) acs \<Rightarrow> ('z, 'q) acs" where
  "get_account_status E ti w =
     emit (Rest_send (rest_get GET (as_account_status (api_simple (api_of w)))
             (acc_rest_signature (ge_crypto E) (sm_account (gw_self w)) ti) False w)
             CB_account_status ''account-status'') w"

definition on_position_item :: "'e env_scheme \<Rightarrow> nanoseconds \<Rightarrow> position_item \<Rightarrow> ('z, 'q) acs \<Rightarrow> ('z, 'q) acs" where
  "on_position_item E update_time item w =
     (if ge_discard_symbol E (pi_symbol item) then w
      else emit (Pub_position
        \<lparr> pu_stream_id = stream_of w, pu_account = name_of w,
          pu_exchange = st_exchange (settings_of w), pu_symbol = pi_symbol item,
          pu_margin_mode = (if pi_isolated item then MarginMode_ISOLATED else MarginMode_CROSS),
          pu_long_quantity = fmax 0 (pi_position_amt item),
          pu_short_quantity = fmax 0 (- pi_position_amt item),
          pu_update_type = UpdateType_SNAPSHOT, pu_exchange_time_utc = update_time,
          pu_sending_time_utc = 0 \<rparr>) w)"

definition on_account_status_ack :: "env \<Rightarrow> account_status_msg \<Rightarrow> ('z, 'q) acs \<Rightarrow> ('z, 'q) acs" where
  "on_account_status_ack E ack w =
     fold (on_position_item E (as_update_time ack)) (as_positions ack) w"

definition get_account_status_ack :: "env \<Rightarrow> rest_response \<Rightarrow> ('z, 'q) acs \<Rightarrow> (exn, ('z, 'q) acs) res" where
  "get_account_status_ack E r w =
     and_then
       (process_response E r log_error
         (\<lambda>body. parsed (ge_account E body) (\<lambda>ack w. Ok (on_account_status_ack E ack w))) w)
       (commit Slot_positions)"

section \<open>Orders\<close>

text \<open>
  The snapshot of an order (open orders and single orders). \<open>last_traded_quantity\<close> and
  \<open>last_traded_price\<close> are \<open>{}\<close>, which is zero.
\<close>

definition order_snapshot :: "('z, 'q) acs \<Rightarrow> order_ack_msg \<Rightarrow> order_update" where
  "order_snapshot w m =
     \<lparr> ou_account = name_of w, ou_exchange = st_exchange (settings_of w),
       ou_symbol = om_symbol m, ou_side = the (map_j_side (om_side m)),
       ou_margin_mode = MarginMode_UNDEFINED,
       ou_order_type = the (map_j_order_type (om_type m)),
       ou_time_in_force = the (map_j_time_in_force (om_time_in_force m)),
       ou_create_time_utc = om_time m, ou_update_time_utc = om_update_time m,
       ou_external_order_id = create_external_order_id (om_symbol m) (om_order_id m),
       ou_client_order_id = om_client_order_id m,
       ou_order_status = the (map_j_order_status (om_status m)), ou_error = Error_UNDEFINED,
       ou_text = [], ou_quantity = om_orig_qty m, ou_price = om_price m,
       ou_stop_price = om_stop_price m, ou_remaining_quantity = NaN,
       ou_traded_quantity = om_executed_qty m,
       ou_average_traded_price = om_avg_price m, ou_last_traded_quantity = 0,
       ou_last_traded_price = 0, ou_last_liquidity = Liquidity_UNDEFINED,
       ou_update_type = UpdateType_SNAPSHOT, ou_sending_time_utc = 0 \<rparr>"

definition get_open_orders :: "env \<Rightarrow> trace_info \<Rightarrow> ('z, 'q) acs \<Rightarrow> ('z, 'q) acs" where
  "get_open_orders E ti w =
     emit (Rest_send (rest_get GET (as_open_orders (api_simple (api_of w)))
             (acc_rest_signature (ge_crypto E) (sm_account (gw_self w)) ti) False w)
             CB_open_orders ''open-orders'') w"

text \<open>An order without a client order id is not one of the gateway's and is skipped.\<close>

definition on_open_order :: "order_ack_msg \<Rightarrow> ('z, 'q) rst \<Rightarrow> ('z, 'q) rst" where
  "on_open_order m w =
     (if om_client_order_id m = [] then w
      else
        let w = upd_self (\<lambda>s. s\<lparr>oe_open_orders_symbols :=
                  set_emplace (om_symbol m) (oe_open_orders_symbols s)\<rparr>) w
        in emit (Pub_order (order_snapshot w m) (stream_of w)) w)"

definition on_open_orders_ack :: "order_ack_msg list \<Rightarrow> ('z, 'q) rst \<Rightarrow> ('z, 'q) rst" where
  "on_open_orders_ack items w = fold on_open_order items w"

definition get_open_orders_ack :: "env \<Rightarrow> rest_response \<Rightarrow> ('z, 'q) rst \<Rightarrow> (exn, ('z, 'q) rst) res" where
  "get_open_orders_ack E r w =
     and_then
       (process_response E r log_error
         (\<lambda>body. parsed (ge_open_orders E body) (\<lambda>items w. Ok (on_open_orders_ack items w))) w)
       (commit Slot_open_orders)"

text \<open>Stale orders: one request per order; the last answer commits the slot.\<close>

definition get_order :: "env \<Rightarrow> trace_info \<Rightarrow> oms_order \<Rightarrow> ('z, 'q) acs \<Rightarrow> ('z, 'q) acs" where
  "get_order E ti ord w =
     (let query = get_order_url (oo_symbol ord) (oo_client_order_id ord)
                    (cl_ms (ge_crypto E) (st_rest_order_recv_window (settings_of w)))
      in emit (Rest_send (rest_get GET (as_order (api_simple (api_of w)))
             (acc_rest_signature_query (ge_crypto E) (sm_account (gw_self w)) ti query) False w)
             (CB_order (oo_client_order_id ord)) ''order'') w)"

definition lost_order :: "('z, 'q) acs \<Rightarrow> string \<Rightarrow> error \<Rightarrow> string \<Rightarrow> order_update" where
  "lost_order w client_order_id error text =
     \<lparr> ou_account = name_of w, ou_exchange = [], ou_symbol = [], ou_side = Side_UNDEFINED,
       ou_margin_mode = MarginMode_UNDEFINED,
       ou_order_type = OrderType_UNDEFINED, ou_time_in_force = TimeInForce_UNDEFINED,
       ou_create_time_utc = 0, ou_update_time_utc = 0, ou_external_order_id = [],
       ou_client_order_id = client_order_id, ou_order_status = OrderStatus_REJECTED,
       ou_error = error, ou_text = text, ou_quantity = NaN, ou_price = NaN, ou_stop_price = NaN,
       ou_remaining_quantity = NaN,
       ou_traded_quantity = NaN, ou_average_traded_price = NaN, ou_last_traded_quantity = 0,
       ou_last_traded_price = 0, ou_last_liquidity = Liquidity_UNDEFINED,
       ou_update_type = UpdateType_SNAPSHOT, ou_sending_time_utc = 0 \<rparr>"

definition on_order_ack :: "order_ack_msg \<Rightarrow> ('z, 'q) acs \<Rightarrow> ('z, 'q) acs" where
  "on_order_ack m w = emit (Pub_order (order_snapshot w m) (stream_of w)) w"

definition stale_order_done :: "('z, 'q) rst \<Rightarrow> ('z, 'q) rst" where
  "stale_order_done w =
     (let w = (if oe_stale_orders_counter (gw_self w) \<noteq> 0
               then upd_self (\<lambda>s. s\<lparr>oe_stale_orders_counter := oe_stale_orders_counter s - 1\<rparr>) w
               else w)
      in if oe_stale_orders_counter (gw_self w) = 0 then emit (Slot_commit Slot_stale_orders) w
         else w)"

definition get_order_ack ::
  "env \<Rightarrow> rest_response \<Rightarrow> string \<Rightarrow> ('z, 'q) rst \<Rightarrow> (exn, ('z, 'q) rst) res" where
  "get_order_ack E r client_order_id w =
     and_then
       (process_response E r
         (\<lambda>origin status error text w.
            Ok (emit (Pub_order (lost_order w client_order_id error text) (stream_of w)) w))
         (\<lambda>body. parsed (ge_order E body) (\<lambda>m w. Ok (on_order_ack m w))) w)
       (\<lambda>w. Ok (stale_order_done w))"

section \<open>Trades\<close>

definition get_download_trades_lookback :: "settings \<Rightarrow> bool \<Rightarrow> nanoseconds" where
  "get_download_trades_lookback st is_first =
     (if is_first \<and> st_download_trades_lookback_on_restart st \<noteq> 0
      then st_download_trades_lookback_on_restart st else st_download_trades_lookback st)"

definition get_trades_of :: "env \<Rightarrow> trace_info \<Rightarrow> string \<Rightarrow> ('z, 'q) rst \<Rightarrow> ('z, 'q) rst" where
  "get_trades_of E ti symbol w =
     (let st = settings_of w;
          lookback = get_download_trades_lookback st (oe_download_trades_is_first (gw_self w));
          recv_window = to_ms (st_rest_order_recv_window st);
          end_time = to_ms (ti_create_time_utc ti);
          start_time = to_ms (end_time * 1000000 - lookback);
          limit = (if st_download_trades_limit st \<noteq> 0 then st_download_trades_limit st else 1000);
          body = user_trades_url symbol start_time end_time limit recv_window
      in emit (Rest_send (rest_get GET (as_user_trades (api_simple (api_of w)))
             (acc_rest_signature_query (ge_crypto E) (sm_account (gw_self w)) ti body) True w)
             CB_trades ''user-trades'') w)"

definition get_trades :: "env \<Rightarrow> trace_info \<Rightarrow> ('z, 'q) rst \<Rightarrow> ('z, 'q) rst" where
  "get_trades E ti w = fold (get_trades_of E ti) (st_download_symbols (settings_of w)) w"

definition on_trade_item :: "env \<Rightarrow> trade_item \<Rightarrow> ('z, 'q) acs \<Rightarrow> ('z, 'q) acs" where
  "on_trade_item E item w =
     (let side = the (map_j_side (ti_side item));
          rd = ge_ref_data E (st_exchange (settings_of w)) (ti_symbol item);
          profit_loss = ge_profit_loss E side (ti_qty item) (ti_price item) (rd_multiplier rd);
          f = \<lparr> fi_exchange_time_utc = ti_time item,
                fi_external_trade_id = show_int (ti_id item), fi_quantity = ti_qty item,
                fi_price = ti_price item,
                fi_liquidity = (if ti_maker item then Liquidity_MAKER else Liquidity_TAKER),
                fi_commission_amount = ti_commission item,
                fi_commission_currency = ti_commission_asset item,
                fi_profit_loss_amount = profit_loss \<rparr>
      in emit (Pub_trade
        \<lparr> tu_stream_id = stream_of w, tu_account = name_of w, tu_order_id = 0,
          tu_exchange = st_exchange (settings_of w), tu_symbol = ti_symbol item, tu_side = side,
          tu_margin_mode = MarginMode_UNDEFINED,
          tu_create_time_utc = ti_time item, tu_update_time_utc = ti_time item,
          tu_external_order_id = create_external_order_id (ti_symbol item) (ti_order_id item),
          tu_client_order_id = [],
          tu_fills = [f], tu_update_type = UpdateType_SNAPSHOT, tu_sending_time_utc = 0,
          tu_strategy_id = 0 \<rparr> (ge_source_none E)) w)"

definition on_trades_ack :: "env \<Rightarrow> trade_item list \<Rightarrow> ('z, 'q) acs \<Rightarrow> ('z, 'q) acs" where
  "on_trades_ack E items w = fold (on_trade_item E) items w"

definition get_trades_ack :: "env \<Rightarrow> rest_response \<Rightarrow> ('z, 'q) rst \<Rightarrow> (exn, ('z, 'q) rst) res" where
  "get_trades_ack E r w =
     and_then
       (process_response E r log_error
         (\<lambda>body. parsed (ge_trades E body) (\<lambda>items w.
            Ok (upd_self (\<lambda>s. s\<lparr>oe_download_trades_is_first := False\<rparr>)
                  (on_trades_ack E items w)))) w)
       (commit Slot_trades)"

section \<open>Order requests\<close>

text \<open>A request that carries its parameters in the body and is signed over it.\<close>

definition rest_order ::
  "env \<Rightarrow> trace_info \<Rightarrow> http_method \<Rightarrow> string \<Rightarrow> string \<Rightarrow> ('z, 'q) acs \<Rightarrow> rest_request" where
  "rest_order E ti method path body w =
     \<lparr> rq_method = method, rq_path = path,
       rq_query = acc_rest_signature_body (ge_crypto E) (sm_account (gw_self w)) ti body,
       rq_form = True, rq_headers = cr_headers (ac_crypto (sm_account (gw_self w))),
       rq_body = body, rq_immediate = True \<rparr>"

text \<open>The response the error handlers of the three requests publish.\<close>

definition error_response ::
  "request_type \<Rightarrow> u32 \<Rightarrow> origin \<Rightarrow> request_status \<Rightarrow> error \<Rightarrow> string \<Rightarrow> response" where
  "error_response rt version origin status error text =
     \<lparr> re_request_type = rt, re_origin = origin, re_request_status = status, re_error = error,
       re_text = text, re_version = version, re_external_order_id = [], re_quantity = NaN,
       re_price = NaN \<rparr>"

definition ack_error :: "request_type \<Rightarrow> u8 \<Rightarrow> u64 \<Rightarrow> u32 \<Rightarrow> ('z account_stream_scheme, 'q) error_handler" where
  "ack_error rt user_id order_id version origin status error text w =
     Ok (emit (Pub_response (error_response rt version origin status error text)
                 (stream_of w) user_id order_id) w)"

definition ack_response ::
  "request_type \<Rightarrow> request_status \<Rightarrow> u32 \<Rightarrow> order_msg \<Rightarrow> response" where
  "ack_response rt status version m =
     \<lparr> re_request_type = rt, re_origin = Origin_EXCHANGE, re_request_status = status,
       re_error = Error_UNDEFINED, re_text = [], re_version = version,
       re_external_order_id = create_external_order_id (om_symbol m) (om_order_id m),
       re_quantity = om_orig_qty m, re_price = om_price m \<rparr>"

definition ack_order_update :: "('z, 'q) acs \<Rightarrow> order_msg \<Rightarrow> order_update" where
  "ack_order_update w m =
     \<lparr> ou_account = name_of w, ou_exchange = st_exchange (settings_of w),
       ou_symbol = om_symbol m, ou_side = the (map_j_side (om_side m)),
       ou_margin_mode = MarginMode_UNDEFINED,
       ou_order_type = the (map_j_order_type (om_type m)),
       ou_time_in_force = the (map_j_time_in_force (om_time_in_force m)),
       ou_create_time_utc = 0, ou_update_time_utc = om_update_time m,
       ou_external_order_id = create_external_order_id (om_symbol m) (om_order_id m),
       ou_client_order_id = [],
       ou_order_status = the (map_j_order_status (om_status m)), ou_error = Error_UNDEFINED,
       ou_text = [], ou_quantity = om_orig_qty m, ou_price = om_price m,
       ou_stop_price = om_stop_price m, ou_remaining_quantity = NaN,
       ou_traded_quantity = om_executed_qty m,
       ou_average_traded_price = om_avg_price m, ou_last_traded_quantity = NaN,
       ou_last_traded_price = NaN, ou_last_liquidity = Liquidity_UNDEFINED,
       ou_update_type = UpdateType_INCREMENTAL, ou_sending_time_utc = 0 \<rparr>"

text \<open>Place.\<close>

definition order_place ::
  "env \<Rightarrow> trace_info \<Rightarrow> u8 \<Rightarrow> create_order \<Rightarrow> oms_order \<Rightarrow> ref_data \<Rightarrow> string \<Rightarrow> ('z, 'q) rst
    \<Rightarrow> (exn, ('z, 'q) rst) res" where
  "order_place E ti source c ord rd request_id w =
     (if \<not> stream_ready w then Throw (Oms_NotReady ''not ready'') w
      else
        let w = upd_self (\<lambda>s. s\<lparr>oe_open_orders_symbols :=
                  set_emplace (co_symbol c) (oe_open_orders_symbols s)\<rparr>) w
        in case order_place_url (st_assertions (settings_of w)) (ge_encoder E) c rd request_id
                  (to_ms (st_rest_order_recv_window (settings_of w)))
                  (api_self_trade_prevention (api_of w)) of
             None \<Rightarrow> Fatal ''assert'' w
           | Some body \<Rightarrow> Ok (emit (Rest_send
                 (rest_order E ti POST (as_order (api_simple (api_of w))) body w)
                 (CB_order_place source (co_order_id c)) request_id) w))"

definition on_order_place_ack :: "order_msg \<Rightarrow> u8 \<Rightarrow> u64 \<Rightarrow> u32 \<Rightarrow> ('z, 'q) acs \<Rightarrow> ('z, 'q) acs" where
  "on_order_place_ack m user_id order_id version w =
     (let response = ack_response RequestType_CREATE_ORDER RequestStatus_ACCEPTED version m in
      if st_rest_drop_order_update (settings_of w)
      then emit (Pub_response response (stream_of w) user_id order_id) w
      else emit (Pub_response_order response (ack_order_update w m) (stream_of w) user_id order_id) w)"

definition place_success :: "env \<Rightarrow> u8 \<Rightarrow> u64 \<Rightarrow> u32 \<Rightarrow> ('z account_stream_scheme, 'q) success_handler" where
  "place_success E user_id order_id version body =
     parsed (ge_place E body) (\<lambda>m w. Ok (on_order_place_ack m user_id order_id version w))"

definition order_place_ack ::
  "env \<Rightarrow> rest_response \<Rightarrow> u8 \<Rightarrow> u64 \<Rightarrow> u32 \<Rightarrow> ('z, 'q) acs \<Rightarrow> (exn, ('z, 'q) acs) res" where
  "order_place_ack E r user_id order_id version =
     process_response E r (ack_error RequestType_CREATE_ORDER user_id order_id version)
       (place_success E user_id order_id version)"

text \<open>Modify. The encoder may reject the request.\<close>

definition order_modify ::
  "env \<Rightarrow> trace_info \<Rightarrow> u8 \<Rightarrow> modify_order \<Rightarrow> oms_order \<Rightarrow> ref_data \<Rightarrow> string \<Rightarrow> ('z, 'q) acs
    \<Rightarrow> (exn, ('z, 'q) acs) res" where
  "order_modify E ti source m ord rd request_id w =
     (if \<not> stream_ready w then Throw (Oms_NotReady ''not ready'') w
      else
        case order_modify_url (ge_encoder E) m ord rd
               (to_ms (st_rest_order_recv_window (settings_of w)))
               (api_modify_order_full (api_of w)) of
          Inl e \<Rightarrow> Throw e w
        | Inr body \<Rightarrow> Ok (emit (Rest_send
            (rest_order E ti PUT (as_order (api_simple (api_of w))) body w)
            (CB_order_modify source (mo_order_id m) (mo_version m)) request_id) w))"

definition on_order_modify_ack :: "order_msg \<Rightarrow> u8 \<Rightarrow> u64 \<Rightarrow> u32 \<Rightarrow> ('z, 'q) acs \<Rightarrow> ('z, 'q) acs" where
  "on_order_modify_ack m user_id order_id version w =
     (let response = ack_response RequestType_MODIFY_ORDER
            (the (map_j_order_status_to_request_status (om_status m))) version m in
      if re_request_status response \<noteq> RequestStatus_ACCEPTED
         \<or> st_rest_drop_order_update (settings_of w)
      then emit (Pub_response response (stream_of w) user_id order_id) w
      else emit (Pub_response_order response (ack_order_update w m) (stream_of w) user_id order_id) w)"

text \<open>The statuses after which an order cannot be modified any more.\<close>

fun modify_too_late :: "j_order_status \<Rightarrow> bool" where
  "modify_too_late JOrderStatus_UNDEFINED_INTERNAL = False"
| "modify_too_late JOrderStatus_UNKNOWN_INTERNAL = False"
| "modify_too_late JOrderStatus_NEW = False"
| "modify_too_late JOrderStatus_PARTIALLY_FILLED = False"
| "modify_too_late JOrderStatus_FILLED = True"
| "modify_too_late JOrderStatus_CANCELED = True"
| "modify_too_late JOrderStatus_EXPIRED = True"
| "modify_too_late JOrderStatus_NEW_INSURANCE = True"
| "modify_too_late JOrderStatus_NEW_ADL = True"
| "modify_too_late JOrderStatus_EXPIRED_IN_MATCH = True"

definition too_late :: "u8 \<Rightarrow> u64 \<Rightarrow> u32 \<Rightarrow> request_type \<Rightarrow> ('z, 'q) acs \<Rightarrow> (exn, ('z, 'q) acs) res" where
  "too_late user_id order_id version rt =
     ack_error rt user_id order_id version Origin_EXCHANGE RequestStatus_REJECTED
       Error_TOO_LATE_TO_MODIFY_OR_CANCEL ''TOO_LATE_TO_MODIFY_OR_CANCEL''"

definition modify_success :: "env \<Rightarrow> u8 \<Rightarrow> u64 \<Rightarrow> u32 \<Rightarrow> ('z account_stream_scheme, 'q) success_handler" where
  "modify_success E user_id order_id version body =
     parsed (ge_modify E body) (\<lambda>m w.
       if modify_too_late (om_status m)
       then too_late user_id order_id version RequestType_MODIFY_ORDER w
       else if st_disable_fast_order_ack (settings_of w) then Ok w
       else Ok (on_order_modify_ack m user_id order_id version w))"

definition order_modify_ack ::
  "env \<Rightarrow> rest_response \<Rightarrow> u8 \<Rightarrow> u64 \<Rightarrow> u32 \<Rightarrow> ('z, 'q) acs \<Rightarrow> (exn, ('z, 'q) acs) res" where
  "order_modify_ack E r user_id order_id version =
     process_response E r (ack_error RequestType_MODIFY_ORDER user_id order_id version)
       (modify_success E user_id order_id version)"

text \<open>Cancel.\<close>

definition order_cancel ::
  "env \<Rightarrow> trace_info \<Rightarrow> u8 \<Rightarrow> cancel_order \<Rightarrow> oms_order \<Rightarrow> string \<Rightarrow> ('z, 'q) acs \<Rightarrow> (exn, ('z, 'q) acs) res"
where
  "order_cancel E ti source c ord request_id w =
     (if \<not> stream_ready w then Throw (Oms_NotReady ''not ready'') w
      else
        let body = order_cancel_url ord (to_ms (st_rest_order_recv_window (settings_of w)))
        in Ok (emit (Rest_send
                 (rest_order E ti DELETE (as_order (api_simple (api_of w))) body w)
                 (CB_order_cancel source (ca_order_id c) (ca_version c)) request_id) w))"

definition on_order_cancel_ack :: "order_msg \<Rightarrow> u8 \<Rightarrow> u64 \<Rightarrow> u32 \<Rightarrow> ('z, 'q) acs \<Rightarrow> ('z, 'q) acs" where
  "on_order_cancel_ack m user_id order_id version w =
     (let response = ack_response RequestType_CANCEL_ORDER RequestStatus_ACCEPTED version m in
      if st_rest_drop_order_update (settings_of w)
      then emit (Pub_response response (stream_of w) user_id order_id) w
      else emit (Pub_response_order response (ack_order_update w m) (stream_of w) user_id order_id) w)"

definition cancel_success :: "env \<Rightarrow> u8 \<Rightarrow> u64 \<Rightarrow> u32 \<Rightarrow> ('z account_stream_scheme, 'q) success_handler" where
  "cancel_success E user_id order_id version body =
     parsed (ge_cancel E body) (\<lambda>m w.
       if om_status m = JOrderStatus_FILLED
       then too_late user_id order_id version RequestType_CANCEL_ORDER w
       else if st_disable_fast_order_ack (settings_of w) then Ok w
       else Ok (on_order_cancel_ack m user_id order_id version w))"

definition order_cancel_ack ::
  "env \<Rightarrow> rest_response \<Rightarrow> u8 \<Rightarrow> u64 \<Rightarrow> u32 \<Rightarrow> ('z, 'q) acs \<Rightarrow> (exn, ('z, 'q) acs) res" where
  "order_cancel_ack E r user_id order_id version =
     process_response E r (ack_error RequestType_CANCEL_ORDER user_id order_id version)
       (cancel_success E user_id order_id version)"

section \<open>Cancel all\<close>

definition cancel_all_symbol ::
  "env \<Rightarrow> trace_info \<Rightarrow> cancel_all_orders \<Rightarrow> string \<Rightarrow> string \<Rightarrow> ('z, 'q) rst \<Rightarrow> ('z, 'q) rst" where
  "cancel_all_symbol E ti c request_id symbol w =
     (if cx_symbol c \<noteq> [] \<and> symbol \<noteq> cx_symbol c then w
      else
        let body = all_open_orders_url symbol (to_ms (st_rest_order_recv_window (settings_of w)));
            w = emit (Rest_send
                  (rest_order E ti DELETE (as_all_open_orders (api_simple (api_of w))) body w)
                  CB_open_orders_cancel_all request_id) w
        in emit (Pub_cancel_all_ack
             \<lparr> ck_stream_id = stream_of w, ck_account = name_of w, ck_exchange = cx_exchange c,
               ck_symbol = cx_symbol c, ck_side = cx_side c, ck_origin = Origin_GATEWAY,
               ck_request_status = RequestStatus_FORWARDED, ck_error = Error_UNDEFINED,
               ck_text = [], ck_request_id = request_id \<rparr>) w)"

definition open_orders_cancel_all ::
  "env \<Rightarrow> trace_info \<Rightarrow> cancel_all_orders \<Rightarrow> string \<Rightarrow> ('z, 'q) rst \<Rightarrow> ('z, 'q) rst" where
  "open_orders_cancel_all E ti c request_id w =
     fold (cancel_all_symbol E ti c request_id) (oe_open_orders_symbols (gw_self w)) w"

definition on_open_orders_cancel_all_ack :: "int \<Rightarrow> string \<Rightarrow> string \<Rightarrow> ('z, 'q) acs \<Rightarrow> ('z, 'q) acs" where
  "on_open_orders_cancel_all_ack code msg request_id w =
     emit (Pub_cancel_all_ack
       \<lparr> ck_stream_id = stream_of w, ck_account = name_of w, ck_exchange = [], ck_symbol = [],
         ck_side = Side_UNDEFINED, ck_origin = Origin_EXCHANGE,
         ck_request_status =
           (if code = 200 then RequestStatus_ACCEPTED else RequestStatus_REJECTED),
         ck_error = guess_error code, ck_text = msg, ck_request_id = request_id \<rparr>) w"

definition open_orders_cancel_all_ack ::
  "env \<Rightarrow> rest_response \<Rightarrow> string \<Rightarrow> ('z, 'q) acs \<Rightarrow> (exn, ('z, 'q) acs) res" where
  "open_orders_cancel_all_ack E r request_id =
     process_response E r log_error
       (\<lambda>body. parsed (ge_cancel_all E body) (\<lambda>(code, msg) w.
          Ok (on_open_orders_cancel_all_ack code msg request_id w)))"

section \<open>Countdown\<close>

definition countdown_symbol :: "env \<Rightarrow> trace_info \<Rightarrow> string \<Rightarrow> ('z, 'q) acs \<Rightarrow> ('z, 'q) acs" where
  "countdown_symbol E ti symbol w =
     (let body = countdown_cancel_open_orders_url symbol
            (to_ms (st_rest_order_countdown (settings_of w)))
            (to_ms (st_rest_order_recv_window (settings_of w)))
      in emit (Rest_send
           (rest_order E ti POST (as_countdown_cancel_all (api_simple (api_of w))) body w)
           CB_countdown_cancel_all ''auto-cancel'') w)"

definition countdown_cancel_all :: "env \<Rightarrow> trace_info \<Rightarrow> ('z, 'q) rst \<Rightarrow> ('z, 'q) rst" where
  "countdown_cancel_all E ti w =
     fold (countdown_symbol E ti) (oe_open_orders_symbols (gw_self w)) w"

text \<open>The answer is logged only.\<close>

definition countdown_cancel_all_ack :: "env \<Rightarrow> rest_response \<Rightarrow> ('z, 'q) acs \<Rightarrow> (exn, ('z, 'q) acs) res" where
  "countdown_cancel_all_ack E r =
     process_response E r log_error (\<lambda>body. parsed (ge_countdown E body) (\<lambda>_ w. Ok w))"

section \<open>Request queue and timer\<close>

definition request_stale_order :: "env \<Rightarrow> trace_info \<Rightarrow> u8 \<times> u64 \<Rightarrow> ('z, 'q) rst \<Rightarrow> ('z, 'q) rst" where
  "request_stale_order E ti key w =
     (case ge_find_order E (fst key) (snd key) of
        Some ord \<Rightarrow>
          upd_self (\<lambda>s. s\<lparr>oe_stale_orders_counter := Suc (oe_stale_orders_counter s)\<rparr>)
            (get_order E ti ord w)
      | None \<Rightarrow> w)"

definition request_stale_orders :: "env \<Rightarrow> trace_info \<Rightarrow> ('z, 'q) rst \<Rightarrow> ('z, 'q) rst" where
  "request_stale_orders E ti w =
     (fold (request_stale_order E ti) (gw_stale_orders w) w)\<lparr>gw_stale_orders := []\<rparr>"

text \<open>\<open>check_pending\<close> calls back when the slot has a request to make: the answer \<open>ge_pending\<close>.\<close>

definition if_pending :: "env \<Rightarrow> slot \<Rightarrow> ('w \<Rightarrow> 'w) \<Rightarrow> 'w \<Rightarrow> 'w" where
  "if_pending E s f w = (if ge_pending E s then f w else w)"

definition check_request_queue :: "env \<Rightarrow> trace_info \<Rightarrow> 'q oe \<Rightarrow> 'q oe" where
  "check_request_queue E ti w =
     (let w = if_pending E Slot_balances (get_account_balance E ti) w;
          w = if_pending E Slot_positions (get_account_status E ti) w;
          w = if_pending E Slot_open_orders (get_open_orders E ti) w;
          w = if_pending E Slot_stale_orders (request_stale_orders E ti) w
      in if_pending E Slot_trades (get_trades E ti) w)"

definition oe_timer :: "env \<Rightarrow> trace_info \<Rightarrow> nanoseconds \<Rightarrow> 'q oe \<Rightarrow> 'q oe" where
  "oe_timer E ti now w =
     (if \<not> ge_refresh E \<or> \<not> stream_ready w then w
      else
        let w = refresh_listen_key E ti w;
            st = settings_of w;
            w = (if st_rest_cancel_on_disconnect st \<and> st_rest_order_countdown st \<noteq> 0
                    \<and> oe_next_auto_cancel (gw_self w) < now
                 then countdown_cancel_all E ti
                   (upd_self (\<lambda>s. s\<lparr>oe_next_auto_cancel :=
                      now + st_rest_order_countdown st sdiv 4\<rparr>) w)
                 else w)
        in check_request_queue E ti w)"

section \<open>Callbacks\<close>

text \<open>
  The handler of a response, by the callback the request was sent with. \<open>order_place\<close> makes a
  first request: its callback passes version 1.
\<close>

definition oe_response ::
  "env \<Rightarrow> trace_info \<Rightarrow> rest_response \<Rightarrow> callback \<Rightarrow> string \<Rightarrow> 'q oe \<Rightarrow> (exn, 'q oe) res" where
  "oe_response E ti r cb request_id w =
     (case cb of
        CB_listen_key sequence \<Rightarrow> get_listen_key_ack E ti r w
      | CB_account_balance \<Rightarrow> get_account_balance_ack E r w
      | CB_account_status \<Rightarrow> get_account_status_ack E r w
      | CB_open_orders \<Rightarrow> get_open_orders_ack E r w
      | CB_order client_order_id \<Rightarrow> get_order_ack E r client_order_id w
      | CB_trades \<Rightarrow> get_trades_ack E r w
      | CB_order_place user_id order_id \<Rightarrow> order_place_ack E r user_id order_id 1 w
      | CB_order_modify user_id order_id version \<Rightarrow> order_modify_ack E r user_id order_id version w
      | CB_order_cancel user_id order_id version \<Rightarrow> order_cancel_ack E r user_id order_id version w
      | CB_open_orders_cancel_all \<Rightarrow> open_orders_cancel_all_ack E r request_id w
      | CB_countdown_cancel_all \<Rightarrow> countdown_cancel_all_ack E r w
      | _ \<Rightarrow> Ok w)"

end
