(* ===== verification/Wsapi_Request.thy ===== *)
theory Wsapi_Request
  imports Gw_Prelude Json_Enums
begin

text \<open>
  \<open>protocol/json/wsapi_request.{hpp,cpp}\<close>: the client order id of a WebSocket request carries
  everything that is needed to route the response. It packs six fields into 27 bytes and
  writes them as 36 characters of base64url.

  Not in this repository, hence parameters: \<open>utils::codec::Base64\<close> (\<open>b64e\<close>, \<open>b64d\<close>) and the
  numbering of the generated enumeration \<open>WSAPIType\<close> (\<open>code\<close>, and its inverse \<open>uncode\<close>).
  \<open>std::memcpy\<close> of an integer copies its bytes, least significant first on the machines the
  gateway is built for.
\<close>

section \<open>Little-endian bytes\<close>

primrec le_bytes :: "nat \<Rightarrow> nat \<Rightarrow> u8 list" where
  "le_bytes 0 k = []"
| "le_bytes (Suc n) k = of_nat (k mod 256) # le_bytes n (k div 256)"

primrec le_value :: "u8 list \<Rightarrow> nat" where
  "le_value [] = 0"
| "le_value (b # bs) = unat b + 256 * le_value bs"

lemma length_le_bytes [simp]: "length (le_bytes n k) = n"
  by (induction n arbitrary: k) simp_all

lemma unat_byte [simp]: "unat (of_nat (k mod 256) :: u8) = k mod 256"
  by (simp add: unat_of_nat take_bit_nat_def)

lemma le_value_bytes: "k < 256 ^ n \<Longrightarrow> le_value (le_bytes n k) = k"
proof (induction n arbitrary: k)
  case (Suc n)
  then have "k div 256 < 256 ^ n" by (simp add: less_mult_imp_div_less mult.commute)
  with Suc show ?case by simp
qed simp

lemma word_of_le_bytes:
  assumes "2 ^ LENGTH('a) = (256 :: nat) ^ n"
  shows "of_nat (le_value (le_bytes n (unat w))) = (w :: 'a :: len word)"
  using assms unsigned_less [of w, where ?'a = nat] by (simp add: le_value_bytes)

section \<open>Encode and decode\<close>

record wsapi_request =
  wr_sequence :: u32
  wr_type :: wsapi_type
  wr_user_id :: u8
  wr_order_id :: u64
  wr_version :: u32
  wr_order_id_2 :: u64

definition wsapi_request_data :: "(wsapi_type \<Rightarrow> u8) \<Rightarrow> wsapi_request \<Rightarrow> u8 list" where
  "wsapi_request_data code r =
     le_bytes 4 (unat (wr_sequence r)) @ [code (wr_type r)] @ [wr_user_id r] @
     le_bytes 8 (unat (wr_order_id r)) @ le_bytes 4 (unat (wr_version r)) @
     le_bytes 8 (unat (wr_order_id_2 r)) @ [0]"

definition wsapi_request_encode ::
  "(u8 list \<Rightarrow> string) \<Rightarrow> (wsapi_type \<Rightarrow> u8) \<Rightarrow> wsapi_request \<Rightarrow> string" where
  "wsapi_request_encode b64e code r = b64e (wsapi_request_data code r)"

definition wsapi_request_decode ::
  "(string \<Rightarrow> u8 list) \<Rightarrow> (u8 \<Rightarrow> wsapi_type) \<Rightarrow> string \<Rightarrow> string + wsapi_request" where
  "wsapi_request_decode b64d uncode buffer =
    (if length buffer \<noteq> 36 then Inl (''Unexpected: len(buffer)='' @ show_nat (length buffer))
     else let data = b64d buffer in
       Inr \<lparr> wr_sequence = of_nat (le_value (take 4 data)),
             wr_type = uncode (data ! 4),
             wr_user_id = data ! 5,
             wr_order_id = of_nat (le_value (take 8 (drop 6 data))),
             wr_version = of_nat (le_value (take 4 (drop 14 data))),
             wr_order_id_2 = of_nat (le_value (take 8 (drop 18 data))) \<rparr>)"

lemma length_wsapi_request_data [simp]: "length (wsapi_request_data code r) = 27"
  by (simp add: wsapi_request_data_def)

text \<open>What \<open>decode\<close> reads at each offset is what \<open>encode\<close> wrote there.\<close>

lemma wsapi_request_data_fields:
  "take 4 (wsapi_request_data code r) = le_bytes 4 (unat (wr_sequence r))"
  "wsapi_request_data code r ! 4 = code (wr_type r)"
  "wsapi_request_data code r ! 5 = wr_user_id r"
  "take 8 (drop 6 (wsapi_request_data code r)) = le_bytes 8 (unat (wr_order_id r))"
  "take 4 (drop 14 (wsapi_request_data code r)) = le_bytes 4 (unat (wr_version r))"
  "take 8 (drop 18 (wsapi_request_data code r)) = le_bytes 8 (unat (wr_order_id_2 r))"
  by (simp_all add: wsapi_request_data_def nth_append)

section \<open>The wire contract\<close>

text \<open>
  What the gateway relies on: base64url of 27 bytes has 36 characters and can be decoded, and
  the number of an enumerator leads back to it.
\<close>

locale wsapi_wire =
  fixes b64e :: "u8 list \<Rightarrow> string"
    and b64d :: "string \<Rightarrow> u8 list"
    and code :: "wsapi_type \<Rightarrow> u8"
    and uncode :: "u8 \<Rightarrow> wsapi_type"
  assumes b64_length: "length d = 27 \<Longrightarrow> length (b64e d) = 36"
    and b64_dec: "length d = 27 \<Longrightarrow> b64d (b64e d) = d"
    and uncode_code: "uncode (code t) = t"
begin

lemma decode_encode:
  "wsapi_request_decode b64d uncode (wsapi_request_encode b64e code r) = Inr r"
  by (simp add: wsapi_request_decode_def wsapi_request_encode_def b64_length b64_dec
      wsapi_request_data_fields uncode_code word_of_le_bytes)

lemma encode_inj: "wsapi_request_encode b64e code r = wsapi_request_encode b64e code r' \<Longrightarrow> r = r'"
  by (metis decode_encode sum.inject(2))

end

section \<open>base64url as RFC 4648 describes it\<close>

text \<open>
  The documented behaviour of the codec, for whole groups of three bytes. The contract
  holds of it.
\<close>

definition b64_alphabet :: string where
  "b64_alphabet = ''ABCDEFGHIJKLMNOPQRSTUVWXYZabcdefghijklmnopqrstuvwxyz0123456789-_''"

definition sextet_char :: "nat \<Rightarrow> char" where
  "sextet_char n = b64_alphabet ! n"

definition char_sextet :: "char \<Rightarrow> nat" where
  "char_sextet c = length (takeWhile (\<lambda>x. x \<noteq> c) b64_alphabet)"

fun rfc_b64e :: "u8 list \<Rightarrow> string" where
  "rfc_b64e (a # b # c # bs) =
     sextet_char (unat a div 4) # sextet_char (unat a mod 4 * 16 + unat b div 16)
     # sextet_char (unat b mod 16 * 4 + unat c div 64) # sextet_char (unat c mod 64)
     # rfc_b64e bs"
| "rfc_b64e _ = []"

fun rfc_b64d :: "string \<Rightarrow> u8 list" where
  "rfc_b64d (w # x # y # z # cs) =
     of_nat (char_sextet w * 4 + char_sextet x div 16)
     # of_nat (char_sextet x mod 16 * 16 + char_sextet y div 4)
     # of_nat (char_sextet y mod 4 * 64 + char_sextet z) # rfc_b64d cs"
| "rfc_b64d _ = []"

lemma char_sextet_char: "n < 64 \<Longrightarrow> char_sextet (sextet_char n) = n"
proof -
  have "list_all (\<lambda>n. char_sextet (sextet_char n) = n) [0..<64]" by code_simp
  then show "n < 64 \<Longrightarrow> char_sextet (sextet_char n) = n" by (simp add: list_all_iff)
qed

lemma u8_bound: "unat (b :: u8) < 256"
  using unsigned_less [of b, where ?'a = nat] by simp

lemma rfc_b64_group:
  fixes a b c :: u8
  shows "rfc_b64d (rfc_b64e (a # b # c # bs)) = a # b # c # rfc_b64d (rfc_b64e bs)"
proof -
  have lt: "unat a div 4 < 64" "unat b div 16 < 16" "unat c div 64 < 4"
    using u8_bound [of a] u8_bound [of b] u8_bound [of c]
    by (simp_all add: less_mult_imp_div_less)
  have "unat a mod 4 < 4" "unat b mod 16 < 16" by simp_all
  with lt have *: "unat a div 4 < 64" "unat a mod 4 * 16 + unat b div 16 < 64"
    "unat b mod 16 * 4 + unat c div 64 < 64" "unat c mod 64 < 64"
    by (linarith, linarith, linarith, simp)
  have **: "unat a div 4 * 4 + (unat a mod 4 * 16 + unat b div 16) div 16 = unat a"
    "(unat a mod 4 * 16 + unat b div 16) mod 16 * 16
       + (unat b mod 16 * 4 + unat c div 64) div 4 = unat b"
    "(unat b mod 16 * 4 + unat c div 64) mod 4 * 64 + unat c mod 64 = unat c"
    using lt by simp_all
  show ?thesis by (simp only: rfc_b64e.simps rfc_b64d.simps char_sextet_char [OF *(1)]
      char_sextet_char [OF *(2)] char_sextet_char [OF *(3)] char_sextet_char [OF *(4)] **
      of_nat_unat ucast_id)
qed

lemma rfc_b64_round: "length d = 3 * n \<Longrightarrow> rfc_b64d (rfc_b64e d) = d"
proof (induction n arbitrary: d)
  case (Suc n)
  then obtain a b c bs where d: "d = a # b # c # bs" "length bs = 3 * n"
    by (auto simp: length_Suc_conv numeral_3_eq_3)
  with Suc show ?case by (simp add: rfc_b64_group del: rfc_b64d.simps rfc_b64e.simps)
qed simp

lemma rfc_b64_length: "length d = 3 * n \<Longrightarrow> length (rfc_b64e d) = 4 * n"
proof (induction n arbitrary: d)
  case (Suc n)
  then obtain a b c bs where d: "d = a # b # c # bs" "length bs = 3 * n"
    by (auto simp: length_Suc_conv numeral_3_eq_3)
  with Suc show ?case by simp
qed simp

text \<open>A numbering of the enumerators in the order of the schema.\<close>

fun schema_code :: "wsapi_type \<Rightarrow> u8" where
  "schema_code WSAPIType_UNDEFINED_INTERNAL = 0"
| "schema_code WSAPIType_UNKNOWN_INTERNAL = 1"
| "schema_code WSAPIType_SESSION_LOGON = 2"
| "schema_code WSAPIType_USER_DATA_STREAM_START = 3"
| "schema_code WSAPIType_USER_DATA_STREAM_PING = 4"
| "schema_code WSAPIType_ACCOUNT_BALANCE = 5"
| "schema_code WSAPIType_ACCOUNT_STATUS = 6"
| "schema_code WSAPIType_ACCOUNT_POSITION = 7"
| "schema_code WSAPIType_ORDERS_STATUS = 8"
| "schema_code WSAPIType_OPEN_ORDERS_CANCEL_ALL = 9"
| "schema_code WSAPIType_ORDER_PLACE = 10"
| "schema_code WSAPIType_ORDER_CANCEL = 11"
| "schema_code WSAPIType_ORDER_MODIFY = 12"
| "schema_code WSAPIType_MY_TRADES = 13"

definition schema_uncode :: "u8 \<Rightarrow> wsapi_type" where
  "schema_uncode c =
    (case find (\<lambda>t. schema_code t = c)
       [WSAPIType_UNDEFINED_INTERNAL, WSAPIType_SESSION_LOGON, WSAPIType_USER_DATA_STREAM_START,
        WSAPIType_USER_DATA_STREAM_PING, WSAPIType_ACCOUNT_BALANCE, WSAPIType_ACCOUNT_STATUS,
        WSAPIType_ACCOUNT_POSITION, WSAPIType_ORDERS_STATUS, WSAPIType_OPEN_ORDERS_CANCEL_ALL,
        WSAPIType_ORDER_PLACE, WSAPIType_ORDER_CANCEL, WSAPIType_ORDER_MODIFY,
        WSAPIType_MY_TRADES] of
      Some t \<Rightarrow> t | None \<Rightarrow> WSAPIType_UNKNOWN_INTERNAL)"

lemma schema_uncode_code: "schema_uncode (schema_code t) = t"
  by (cases t) (simp_all add: schema_uncode_def)

interpretation rfc_wire: wsapi_wire rfc_b64e rfc_b64d schema_code schema_uncode
  by unfold_locales (simp_all add: rfc_b64_round [of _ 9] rfc_b64_length [of _ 9] schema_uncode_code)

end
