(* ===== verification/Stream_Parsers.thy ===== *)
theory Stream_Parsers
  imports Wsapi_Request Json_Utils
begin

text \<open>
  \<open>protocol/json/market_stream_parser.cpp\<close>, \<open>user_stream_parser.cpp\<close> and \<open>wsapi_parser.cpp\<close>: a
  message is looked through key by key until it is clear which message it is, and then handed
  to the handler. Since nothing happens after the handler has been called, the parsers of the
  two streams are functions from messages to outcomes.

  Library code: \<open>core::json::Parser\<close> (the members of an object in order; reading a member may
  fail), and the constructors of the generated enumerations.
\<close>

section \<open>Messages and outcomes\<close>

datatype item = Item string json_value | Broken exn

text \<open>
  \<open>Call e\<close>: the handler is called with \<open>e\<close>, and the parser returns \<open>true\<close>. \<open>Handled\<close> and
  \<open>Unhandled\<close>: it returns \<open>true\<close> and \<open>false\<close> without a call. \<open>Ends\<close>: \<open>log::fatal\<close>. \<open>Raises\<close>: an
  exception. \<open>Exhausted\<close>: the bound on the nesting of messages was reached.
\<close>

datatype 'e outcome = Call 'e | Handled | Unhandled | Ends string | Raises exn | Exhausted

record parser_lib =
  pl_parse :: "string \<Rightarrow> exn + item list"
  pl_field :: "string \<Rightarrow> j_field"
  pl_event :: "json_value \<Rightarrow> exn + j_event_type"
  pl_text :: "json_value \<Rightarrow> exn + string"

section \<open>Market streams\<close>

datatype market_event =
    ME_error json_value int
  | ME_result json_value int
  | ME_trade string
  | ME_agg_trade string
  | ME_mini_ticker string
  | ME_book_ticker string
  | ME_depth_update string
  | ME_mark_price_update string
  | ME_kline string
  | ME_asset_index_update string
  | ME_force_order string

text \<open>The handlers take the id as \<open>int32_t\<close>.\<close>

definition to_int32 :: "int \<Rightarrow> int" where
  "to_int32 n = sint (of_int n :: 32 word)"

text \<open>What the type of an event leads to; \<open>None\<close> goes on with the next key.\<close>

definition market_event_type ::
  "bool \<Rightarrow> string \<Rightarrow> j_event_type \<Rightarrow> market_event outcome option" where
  "market_event_type allow_unknown message t =
     (case t of
        JEventType_UNDEFINED_INTERNAL \<Rightarrow> None
      | JEventType_UNKNOWN_INTERNAL \<Rightarrow>
          Some (if \<not> allow_unknown then Ends ''Unexpected'' else Unhandled)
      | JEventType_trade \<Rightarrow> Some (Call (ME_trade message))
      | JEventType_aggTrade \<Rightarrow> Some (Call (ME_agg_trade message))
      | JEventType_24hrMiniTicker \<Rightarrow> Some (Call (ME_mini_ticker message))
      | JEventType_bookTicker \<Rightarrow> Some (Call (ME_book_ticker message))
      | JEventType_depthUpdate \<Rightarrow> Some (Call (ME_depth_update message))
      | JEventType_markPriceUpdate \<Rightarrow> Some (Call (ME_mark_price_update message))
      | JEventType_kline \<Rightarrow> Some (Call (ME_kline message))
      | JEventType_assetIndexUpdate \<Rightarrow> Some (Call (ME_asset_index_update message))
      | JEventType_listenKeyExpired \<Rightarrow> Some Handled
      | JEventType_forceOrder \<Rightarrow> Some (Call (ME_force_order message))
      | _ \<Rightarrow> Some (Ends ''Unexpected''))"

text \<open>
  One pass over the members. It ends with an outcome (\<open>Inl\<close>), or at the end of the object with
  the id seen so far (\<open>Inr\<close>). \<open>nested\<close> parses the message inside the member \<open>data\<close>; its
  result is ignored. An unknown key is skipped (a debug build ends the process).
\<close>

definition nested_outcome :: "'e outcome \<Rightarrow> 'e outcome" where
  "nested_outcome r = (if r = Unhandled then Handled else r)"

fun market_scan ::
  "parser_lib \<Rightarrow> bool \<Rightarrow> (string \<Rightarrow> market_event outcome) \<Rightarrow> string \<Rightarrow> item list \<Rightarrow> int
    \<Rightarrow> market_event outcome + int" where
  "market_scan L allow_unknown nested message [] i = Inr i"
| "market_scan L allow_unknown nested message (Broken e # items) i = Inl (Raises e)"
| "market_scan L allow_unknown nested message (Item key v # items) i =
    (let go = market_scan L allow_unknown nested message items in
     case pl_field L key of
       JField_UNDEFINED_INTERNAL \<Rightarrow> Inl (Ends ''Unexpected'')
     | JField_UNKNOWN_INTERNAL \<Rightarrow> go i
     | JField_id \<Rightarrow>
         (case v of JV_int n \<Rightarrow> go n | _ \<Rightarrow> Inl (Raises (Std_exception ''std::bad_variant_access'')))
     | JField_error \<Rightarrow> (if 0 \<le> i then Inl (Call (ME_error v (to_int32 i))) else go i)
     | JField_result \<Rightarrow> (if 0 \<le> i then Inl (Call (ME_result v (to_int32 i))) else go i)
     | JField_stream \<Rightarrow> go i
     | JField_data \<Rightarrow>
         Inl (case pl_text L v of Inl e \<Rightarrow> Raises e | Inr m \<Rightarrow> nested_outcome (nested m))
     | JField_event_type \<Rightarrow>
         (case pl_event L v of
            Inl e \<Rightarrow> Inl (Raises e)
          | Inr t \<Rightarrow> (case market_event_type allow_unknown message t of
                        None \<Rightarrow> go i | Some r \<Rightarrow> Inl r))
     | JField_order_book_update_id \<Rightarrow> go i)"

text \<open>
  Two passes, so that an id that follows the result is known in the second. The first argument
  bounds the nesting.
\<close>

fun market_dispatch ::
  "nat \<Rightarrow> parser_lib \<Rightarrow> bool \<Rightarrow> string \<Rightarrow> market_event outcome" where
  "market_dispatch 0 L allow_unknown message = Exhausted"
| "market_dispatch (Suc n) L allow_unknown message =
    (case pl_parse L message of
       Inl e \<Rightarrow> Raises e
     | Inr items \<Rightarrow>
        (let scan = market_scan L allow_unknown (market_dispatch n L allow_unknown) message items in
         case scan (-1) of
           Inl r \<Rightarrow> r
         | Inr i \<Rightarrow> (case scan i of
             Inl r \<Rightarrow> r
           | Inr _ \<Rightarrow> Ends (''Unexpected: message='' @ [CHR 0x22] @ message @ [CHR 0x22]))))"

section \<open>User streams\<close>

datatype user_event =
    UE_order_trade_update string
  | UE_account_update string
  | UE_margin_call string
  | UE_strategy_update string
  | UE_grid_update string
  | UE_account_config_update string
  | UE_listen_key_expired string
  | UE_trade_lite string
  | UE_balance_update string
  | UE_execution_report string
  | UE_liability_change string
  | UE_outbound_account_position string

definition unexpected_message :: "string \<Rightarrow> 'e outcome" where
  "unexpected_message message = Ends (''Unexpected: message='' @ [CHR 0x22] @ message @ [CHR 0x22])"

definition user_try_dispatch :: "bool \<Rightarrow> string \<Rightarrow> j_event_type \<Rightarrow> user_event outcome" where
  "user_try_dispatch allow_unknown message t =
     (case t of
        JEventType_UNKNOWN_INTERNAL \<Rightarrow>
          (if allow_unknown then Unhandled else unexpected_message message)
      | JEventType_ORDER_TRADE_UPDATE \<Rightarrow> Call (UE_order_trade_update message)
      | JEventType_ACCOUNT_UPDATE \<Rightarrow> Call (UE_account_update message)
      | JEventType_MARGIN_CALL \<Rightarrow> Call (UE_margin_call message)
      | JEventType_STRATEGY_UPDATE \<Rightarrow> Call (UE_strategy_update message)
      | JEventType_GRID_UPDATE \<Rightarrow> Call (UE_grid_update message)
      | JEventType_ACCOUNT_CONFIG_UPDATE \<Rightarrow> Call (UE_account_config_update message)
      | JEventType_listenKeyExpired \<Rightarrow> Call (UE_listen_key_expired message)
      | JEventType_TRADE_LITE \<Rightarrow> Call (UE_trade_lite message)
      | JEventType_balanceUpdate \<Rightarrow> Call (UE_balance_update message)
      | JEventType_executionReport \<Rightarrow> Call (UE_execution_report message)
      | JEventType_liabilityChange \<Rightarrow> Call (UE_liability_change message)
      | JEventType_outboundAccountPosition \<Rightarrow> Call (UE_outbound_account_position message)
      | JEventType_POSITION_HISTORY_UPDATE \<Rightarrow> Handled
      | JEventType_ALGO_UPDATE \<Rightarrow> Handled
      | _ \<Rightarrow> Ends ''Unexpected'')"

fun user_scan :: "parser_lib \<Rightarrow> bool \<Rightarrow> string \<Rightarrow> item list \<Rightarrow> user_event outcome" where
  "user_scan L allow_unknown message [] = Unhandled"
| "user_scan L allow_unknown message (Broken e # items) = Raises e"
| "user_scan L allow_unknown message (Item key v # items) =
    (if key \<noteq> ''e'' then user_scan L allow_unknown message items
     else case pl_event L v of
       Inl e \<Rightarrow> Raises e
     | Inr t \<Rightarrow> user_try_dispatch allow_unknown message t)"

definition user_dispatch :: "parser_lib \<Rightarrow> bool \<Rightarrow> string \<Rightarrow> user_event outcome" where
  "user_dispatch L allow_unknown message =
     (case pl_parse L message of
        Inl e \<Rightarrow> Raises e
      | Inr items \<Rightarrow> user_scan L allow_unknown message items)"

section \<open>WebSocket API\<close>

datatype wsapi_event =
    WE_session_logon string
  | WE_listen_key string
  | WE_account_balance string
  | WE_account_status string
  | WE_account_position string
  | WE_open_orders string
  | WE_trades string
  | WE_open_orders_cancel_all string wsapi_request
  | WE_order_place string wsapi_request
  | WE_order_modify string wsapi_request
  | WE_order_cancel string wsapi_request
  | WE_error string

text \<open>
  The handler call for a request, and whether the member loop then stops; \<open>None\<close> is
  \<open>log::fatal\<close>. A ping answer lets the loop go on.
\<close>

definition wsapi_route ::
  "string \<Rightarrow> wsapi_request \<Rightarrow> (wsapi_event option \<times> bool) option" where
  "wsapi_route message r =
     (case wr_type r of
        WSAPIType_UNDEFINED_INTERNAL \<Rightarrow> None
      | WSAPIType_UNKNOWN_INTERNAL \<Rightarrow> Some (None, True)
      | WSAPIType_SESSION_LOGON \<Rightarrow> Some (Some (WE_session_logon message), True)
      | WSAPIType_USER_DATA_STREAM_START \<Rightarrow> Some (Some (WE_listen_key message), True)
      | WSAPIType_USER_DATA_STREAM_PING \<Rightarrow> Some (Some (WE_listen_key message), False)
      | WSAPIType_ACCOUNT_BALANCE \<Rightarrow> Some (Some (WE_account_balance message), True)
      | WSAPIType_ACCOUNT_STATUS \<Rightarrow> Some (Some (WE_account_status message), True)
      | WSAPIType_ACCOUNT_POSITION \<Rightarrow> Some (Some (WE_account_position message), True)
      | WSAPIType_ORDERS_STATUS \<Rightarrow> Some (Some (WE_open_orders message), True)
      | WSAPIType_MY_TRADES \<Rightarrow> Some (Some (WE_trades message), True)
      | WSAPIType_OPEN_ORDERS_CANCEL_ALL \<Rightarrow> Some (Some (WE_open_orders_cancel_all message r), True)
      | WSAPIType_ORDER_PLACE \<Rightarrow> Some (Some (WE_order_place message r), True)
      | WSAPIType_ORDER_MODIFY \<Rightarrow> Some (Some (WE_order_modify message r), True)
      | WSAPIType_ORDER_CANCEL \<Rightarrow> Some (Some (WE_order_cancel message r), True))"

text \<open>
  The loop over the members: the calls made so far and whether a member \<open>error\<close> was seen. The
  library's loop stops when the helper returns \<open>true\<close>. A call sets \<open>result\<close>, so the
  member after the one that led to a call stops the loop at the latest. Keys are compared by
  their hash (\<open>fnv\<close>); \<open>decode\<close> is \<open>WSAPIRequest::decode\<close>.
\<close>

fun wsapi_scan ::
  "(string \<Rightarrow> u64) \<Rightarrow> parser_lib \<Rightarrow> (string \<Rightarrow> string + wsapi_request) \<Rightarrow> string
    \<Rightarrow> item list \<Rightarrow> wsapi_event list \<Rightarrow> bool
    \<Rightarrow> wsapi_event list \<times> (wsapi_event outcome + bool)" where
  "wsapi_scan fnv L decode message [] calls err = (calls, Inr err)"
| "wsapi_scan fnv L decode message (Broken e # items) calls err = (calls, Inl (Raises e))"
| "wsapi_scan fnv L decode message (Item key v # items) calls err =
    (let stop = (\<lambda>calls err. (calls, Inr err));
         rest = (\<lambda>calls err. if calls \<noteq> [] then (calls, Inr err)
                 else wsapi_scan fnv L decode message items calls err) in
     if fnv key = fnv ''error'' then rest calls True
     else if fnv key = fnv ''id'' then
       (case pl_text L v of
          Inl e \<Rightarrow> (calls, Inl (Raises e))
        | Inr text \<Rightarrow>
           (if text = [] then rest calls err
            else case decode text of
              Inl m \<Rightarrow> (calls, Inl (Raises (Std_exception m)))
            | Inr r \<Rightarrow> (case wsapi_route message r of
                None \<Rightarrow> (calls, Inl (Ends ''Unexpected''))
              | Some (ev, True) \<Rightarrow> stop (calls @ (case ev of Some e \<Rightarrow> [e] | None \<Rightarrow> [])) err
              | Some (ev, False) \<Rightarrow>
                  wsapi_scan fnv L decode message items
                    (calls @ (case ev of Some e \<Rightarrow> [e] | None \<Rightarrow> [])) err)))
     else rest calls err)"

text \<open>
  The calls, and what the parser returns. A member \<open>error\<close> without a request is a general
  error.
\<close>

definition wsapi_dispatch ::
  "(string \<Rightarrow> u64) \<Rightarrow> parser_lib \<Rightarrow> (string \<Rightarrow> string + wsapi_request) \<Rightarrow> bool \<Rightarrow> string
    \<Rightarrow> wsapi_event list \<times> wsapi_event outcome" where
  "wsapi_dispatch fnv L decode allow_unknown message =
     (case pl_parse L message of
        Inl e \<Rightarrow> ([], Raises e)
      | Inr items \<Rightarrow>
         (case wsapi_scan fnv L decode message items [] False of
            (calls, Inl r) \<Rightarrow> (calls, r)
          | (calls, Inr err) \<Rightarrow>
             (let calls = (if calls = [] \<and> err then [WE_error message] else calls) in
              if calls \<noteq> [] then (calls, Handled)
              else if allow_unknown then (calls, Unhandled)
              else (calls, unexpected_message message))))"

section \<open>Lemmas\<close>

text \<open>Members that a pass over a market message skips.\<close>

definition skipped :: "parser_lib \<Rightarrow> item \<Rightarrow> bool" where
  "skipped L it = (case it of
     Item key v \<Rightarrow> pl_field L key \<in> {JField_UNKNOWN_INTERNAL, JField_stream, JField_order_book_update_id}
   | Broken e \<Rightarrow> False)"

lemma market_scan_skip:
  "list_all (skipped L) xs \<Longrightarrow>
     market_scan L u nested m (xs @ ys) i = market_scan L u nested m ys i"
proof (induction xs)
  case (Cons x xs)
  then show ?case by (cases x) (auto simp: skipped_def Let_def)
qed simp

text \<open>The id of a response is found before or after its result.\<close>

lemma market_response:
  assumes "pl_parse L message = Inr (xs @ Item kr v # ys)"
    and "pl_field L kr = JField_result"
    and "list_all (\<lambda>it. skipped L it \<or> it = Item ki (JV_int n)) (xs @ ys)"
    and "Item ki (JV_int n) \<in> set (xs @ ys)" "pl_field L ki = JField_id" "0 \<le> n"
  shows "market_dispatch (Suc f) L u message = Call (ME_result v (to_int32 n))"
proof -
  let ?nested = "market_dispatch f L u"
  have scan: "market_scan L u ?nested message (zs @ rest) i =
      market_scan L u ?nested message rest (if Item ki (JV_int n) \<in> set zs then n else i)"
    if "list_all (\<lambda>it. skipped L it \<or> it = Item ki (JV_int n)) zs" for zs rest i
    using that
  proof (induction zs arbitrary: i)
    case (Cons z zs)
    show ?case
    proof (cases "z = Item ki (JV_int n)")
      case True
      then show ?thesis using Cons assms(5) by (simp add: Let_def)
    next
      case False
      then have "skipped L z" using Cons.prems by simp
      then have "market_scan L u ?nested message ((z # zs) @ rest) i
          = market_scan L u ?nested message (zs @ rest) i"
        using market_scan_skip [of L "[z]"] by simp
      with False Cons show ?thesis by auto
    qed
  qed simp
  show ?thesis
  proof (cases "Item ki (JV_int n) \<in> set xs")
    case True
    then have "market_scan L u ?nested message (xs @ Item kr v # ys) (-1)
        = Inl (Call (ME_result v (to_int32 n)))"
      using scan [of xs "Item kr v # ys" "-1"] assms by (simp add: Let_def)
    then show ?thesis using assms(1) by (simp add: Let_def)
  next
    case False
    then have ys: "Item ki (JV_int n) \<in> set ys" using assms(4) by simp
    have first: "market_scan L u ?nested message (xs @ Item kr v # ys) (-1) = Inr n"
      using scan [of xs "Item kr v # ys" "-1"] scan [of ys "[]" "-1"] False ys assms
      by (simp add: Let_def)
    have "market_scan L u ?nested message (xs @ Item kr v # ys) n
        = Inl (Call (ME_result v (to_int32 n)))"
      using scan [of xs "Item kr v # ys" n] assms by (simp add: Let_def)
    with first show ?thesis using assms(1) by (simp add: Let_def)
  qed
qed

lemma to_int32_small: "- (2 ^ 31) \<le> n \<Longrightarrow> n < 2 ^ 31 \<Longrightarrow> to_int32 n = n"
  by (simp add: to_int32_def signed_take_bit_int_eq_self sint_sbintrunc')

text \<open>A response of the WebSocket API goes to the handler of the request its id encodes.\<close>

definition not_id :: "(string \<Rightarrow> u64) \<Rightarrow> item \<Rightarrow> bool" where
  "not_id fnv it = (case it of Item k v \<Rightarrow> fnv k \<noteq> fnv ''id'' | Broken e \<Rightarrow> False)"

lemma wsapi_scan_skip:
  "list_all (not_id fnv) xs \<Longrightarrow>
     \<exists>err'. wsapi_scan fnv L decode m (xs @ ys) [] err = wsapi_scan fnv L decode m ys [] err'"
proof (induction xs arbitrary: err)
  case (Cons x xs)
  then show ?case by (cases x) (auto simp: not_id_def Let_def)
qed auto

lemma wsapi_routes:
  assumes "pl_parse L message = Inr (xs @ Item key v # ys)"
    and "list_all (not_id fnv) xs" "fnv key = fnv ''id''" "fnv ''error'' \<noteq> fnv ''id''"
    and "pl_text L v = Inr text" "text \<noteq> []" "decode text = Inr r"
    and "wsapi_route message r = Some (Some ev, True)"
  shows "wsapi_dispatch fnv L decode u message = ([ev], Handled)"
proof -
  obtain err where "wsapi_scan fnv L decode message (xs @ Item key v # ys) [] False
      = wsapi_scan fnv L decode message (Item key v # ys) [] err"
    using wsapi_scan_skip [OF assms(2)] by blast
  also have "\<dots> = ([ev], Inr err)" using assms by (simp add: Let_def)
  finally show ?thesis using assms(1) by (simp add: wsapi_dispatch_def)
qed

text \<open>A ping answer and one that is for no request.\<close>

lemma wsapi_scan_done: "list_all (not_id fnv) ys \<Longrightarrow> calls \<noteq> [] \<Longrightarrow>
    \<exists>err'. wsapi_scan fnv L decode m ys calls err = (calls, Inr err')"
  by (cases ys rule: list.exhaust; cases "hd ys") (auto simp: not_id_def Let_def)

lemma wsapi_routes_other:
  assumes "pl_parse L message = Inr (xs @ Item key v # ys)"
    and "list_all (not_id fnv) xs" "fnv key = fnv ''id''" "fnv ''error'' \<noteq> fnv ''id''"
    and "pl_text L v = Inr text" "text \<noteq> []" "decode text = Inr r"
  shows "wsapi_route message r = Some (Some ev, False) \<Longrightarrow> list_all (not_id fnv) ys \<Longrightarrow>
      wsapi_dispatch fnv L decode u message = ([ev], Handled)"
    "wsapi_route message r = Some (None, True) \<Longrightarrow>
      set (fst (wsapi_dispatch fnv L decode u message)) \<subseteq> {WE_error message}"
    "wsapi_route message r = None \<Longrightarrow>
      wsapi_dispatch fnv L decode u message = ([], Ends ''Unexpected'')"
proof -
  obtain err where scan: "wsapi_scan fnv L decode message (xs @ Item key v # ys) [] False
      = wsapi_scan fnv L decode message (Item key v # ys) [] err"
    using wsapi_scan_skip [OF assms(2)] by blast
  show "wsapi_route message r = Some (None, True) \<Longrightarrow>
      set (fst (wsapi_dispatch fnv L decode u message)) \<subseteq> {WE_error message}"
    using assms scan by (simp add: wsapi_dispatch_def Let_def)
  show "wsapi_route message r = None \<Longrightarrow>
      wsapi_dispatch fnv L decode u message = ([], Ends ''Unexpected'')"
    using assms scan by (simp add: wsapi_dispatch_def Let_def)
  assume "wsapi_route message r = Some (Some ev, False)" "list_all (not_id fnv) ys"
  then show "wsapi_dispatch fnv L decode u message = ([ev], Handled)"
    using assms scan wsapi_scan_done [of fnv ys "[ev]" L decode message err]
    by (auto simp: wsapi_dispatch_def Let_def)
qed

end
