(* ===== verification/Sample_Env.thy ===== *)
theory Sample_Env
  imports Order_Entry_Classic Stream_Parsers
begin

text \<open>
  Concrete instances of what the model takes as parameters, for theorems that show that
  hypotheses can hold: an environment whose functions compute, an account, settings and states.
\<close>

definition hex_digit :: "nat \<Rightarrow> char" where
  "hex_digit n = (if n < 10 then char_of (48 + n) else char_of (87 + n))"

definition hex_text :: "string \<Rightarrow> string" where
  "hex_text s = concat (map (\<lambda>c. let n = of_char c :: nat in [hex_digit (n div 16), hex_digit (n mod 16)]) s)"

lemma hex_digit_plain: "n < 16 \<Longrightarrow> hex_digit n \<noteq> CHR ''&''"
proof -
  have "list_all (\<lambda>n. hex_digit n \<noteq> CHR ''&'') [0..<16]" by code_simp
  then show "n < 16 \<Longrightarrow> hex_digit n \<noteq> CHR ''&''" by (simp add: list_all_iff)
qed

lemma query_plain_hex [simp]: "query_plain (hex_text s)"
proof (induction s)
  case (Cons c s)
  have "(of_char c :: nat) div 16 < 16"
    using nat_of_char_less_256 [of c] by (simp add: less_mult_imp_div_less del: nat_of_char_less_256)
  with Cons show ?case by (simp add: hex_text_def Let_def hex_digit_plain)
qed (simp add: hex_text_def)

text \<open>A keyed checksum stands for the HMAC.\<close>

definition sample_crypto_lib :: crypto_lib where
  "sample_crypto_lib = \<lparr>
     cl_ed_create = \<lambda>s. None,
     cl_ed_sign = \<lambda>k t. k @ t,
     cl_mac_create = \<lambda>s. if s = [] then None else Some s,
     cl_hmac = \<lambda>k t. k @ t,
     cl_hex = hex_text,
     cl_base64 = hex_text,
     cl_ms = to_ms \<rparr>"

definition sample_crypto :: crypto where
  "sample_crypto = \<lparr> cr_key = ''key'', cr_key_2 = [], cr_headers = create_headers ''key'',
     cr_pkey = None, cr_mac = Some ''secret'' \<rparr>"

definition sample_account :: account where
  "sample_account = \<lparr> ac_name = ''A'', ac_margin_mode = MarginMode_CROSS,
     ac_crypto = sample_crypto \<rparr>"

definition sample_settings :: settings where
  "sample_settings = \<lparr>
     st_exchange = ''binance-futures'', st_api = ''fapi'', st_app_api = ''fapi'', st_ws_api = False,
     st_self_trade_prevention_mode = [], st_enable_rate_limit = True,
     st_disable_fast_order_ack = False, st_allow_unknown_event_types = False,
     st_continue_with_unknown_event_type = False, st_mbp_max_depth = 0,
     st_mbp_allow_price_inversion = False, st_mbp_checksum = False,
     st_rest_listen_key_refresh = seconds 1800, st_rest_order_recv_window = seconds 5,
     st_rest_order_countdown = seconds 30, st_rest_cancel_on_disconnect = False,
     st_rest_drop_order_update = False, st_rest_terminate_on_403 = False,
     st_rest_back_off_delay = seconds 60, st_download_symbols = [''BTCUSDT''],
     st_download_trades_limit = 0, st_download_trades_lookback = seconds 3600,
     st_download_trades_lookback_on_restart = 0, st_ws_enable_secondary = False,
     st_ws_trade_lite = False, st_ws_api_allow_order_update = False, st_poll_balance_freq = 0,
     st_check_stale_order_freq = seconds 60, st_test_alt_funds_update = False,
     st_test_cancel_bug_timeout = 10000000, st_test_force_client_order_id = False,
     st_subscribe_trade_details = False, st_subscribe_depth_levels = 1000,
     st_subscribe_depth_freq = 100000000, st_mbp_request_max_retries = 0, st_mark_price_freq = 0,
     st_subscribe_force_order = False, st_subscribe_asset_index = False,
     st_time_series_lookback = 0, st_time_series_realtime = False,
     st_assertions = True \<rparr>"

definition sample_shared :: "unit shared" where
  "sample_shared = \<lparr>
     sh_settings = sample_settings, sh_api = fapi_paths JSelfTradePrevention_UNDEFINED_INTERNAL,
     sh_throttle = throttle_create sample_settings, sh_instruments = [], sh_all_symbols = [],
     sh_rate_limits = [], sh_limits_request_weight_1m = 2400, sh_limits_create_order_10s = 0, sh_limits_create_order_1m = 1200,
     sh_allow_unknown_event_types = False \<rparr>"

definition sample_order :: order_ack_msg where
  "sample_order = \<lparr>
     om_order_id = 42, om_symbol = ''BTCUSDT'', om_status = JOrderStatus_NEW,
     om_client_order_id = ''c'', om_price = Fin 100, om_avg_price = 0, om_orig_qty = Fin 1,
     om_executed_qty = 0, om_time_in_force = JTimeInForce_GTC, om_type = JOrderType_LIMIT,
     om_side = JSide_BUY, om_stop_price = NaN, om_update_time = 0, om_time = 0 \<rparr>"

text \<open>An exchange whose answers do not depend on the body.\<close>

definition sample_env :: env where
  "sample_env = \<lparr>
     ge_crypto = sample_crypto_lib, ge_encoder = plain_lib,
     ge_listen_key = \<lambda>_. Inr ''new-key'',
     ge_balances = \<lambda>_. Inr [], ge_account = \<lambda>_. Inr \<lparr> as_update_time = 0, as_positions = [] \<rparr>,
     ge_open_orders = \<lambda>_. Inr [sample_order], ge_order = \<lambda>_. Inr sample_order,
     ge_position_list = \<lambda>_. Inr [],
     ge_trades = \<lambda>_. Inr [], ge_place = \<lambda>_. Inr (order_msg.truncate sample_order),
     ge_modify = \<lambda>_. Inr (order_msg.truncate sample_order),
     ge_cancel = \<lambda>_. Inr (order_msg.truncate sample_order),
     ge_cancel_all = \<lambda>_. Inr (200, ''done''), ge_countdown = \<lambda>_. Inr (),
     ge_error = \<lambda>_. Inr (-2011, ''Unknown order sent.''),
     ge_relaxed_i64 = \<lambda>s. if s = [] then None else Some (int (read_nat s)),
     ge_relaxed_u32 = \<lambda>s. if s = [] then None else Some (of_nat (read_nat s)),
     ge_same_text = \<lambda>s t. s = t, ge_status_text = show_nat,
     ge_expect_ok = \<lambda>n. if n = 200 then None else Some (Std_exception ''Unexpected''),
     ge_oms = \<lambda>e. (Origin_GATEWAY, RequestStatus_REJECTED, Error_UNKNOWN, ''oms''),
     ge_profit_loss = \<lambda>s q p m. 0, ge_discard_symbol = \<lambda>s. False,
     ge_ref_data = \<lambda>e s. \<lparr> rd_multiplier = Fin 1, rd_price_precision = 2, rd_quantity_precision = 3 \<rparr>,
     ge_find_order = \<lambda>u i. if i = 7 then Some \<lparr> oo_user_id = u, oo_order_id = i, oo_strategy_id = 0,
       oo_symbol = ''BTCUSDT'', oo_side = Side_BUY, oo_quantity = Fin 1, oo_price = Fin 100,
       oo_external_order_id = ''BTCUSDT#42'', oo_client_order_id = ''c'', oo_create_time_utc = 0,
       oo_account = ''A'' \<rparr> else None,
     ge_downloading = True, ge_sequence = 1, ge_refresh = True, ge_pending = \<lambda>s. False,
     ge_source_none = 255, ge_compare = \<lambda>x y. if x = y then 0 else 1 \<rparr>"

definition sample_oe :: "(oe_classic, unit) gw" where
  "sample_oe = \<lparr> gw_self = (oe_create 3 sample_account)
       \<lparr> sm_connection_status := ConnectionStatus_READY,
         oe_open_orders_symbols := [''BTCUSDT'', ''ETHUSDT''] \<rparr>,
     gw_shared = sample_shared, gw_stale_orders = [(1, 7)], gw_out = [] \<rparr>"

definition sample_response :: "nat \<Rightarrow> category \<Rightarrow> rest_response" where
  "sample_response status category =
     \<lparr> rr_result = Inr (status, category, ''body''), rr_retry_after = [''30''] \<rparr>"

definition sample_trace :: "int \<Rightarrow> trace_info" where
  "sample_trace t = \<lparr> ti_create_time = seconds t, ti_create_time_utc = seconds (1700000000 + t) \<rparr>"

lemmas sample_defs =
  sample_env_def sample_oe_def sample_shared_def sample_settings_def sample_account_def
  sample_crypto_def sample_crypto_lib_def sample_response_def sample_trace_def sample_order_def
  oe_create_def

definition sample_create :: create_order where
  "sample_create = \<lparr> co_order_id = 1000, co_symbol = ''BTCUSDT'', co_side = Side_BUY,
     co_order_type = OrderType_LIMIT, co_time_in_force = TimeInForce_GTC,
     co_execution_instructions = [ExecutionInstruction_PARTICIPATE_DO_NOT_INITIATE],
     co_execution_destination = [], co_quantity = Fin (1 / 2), co_price = Fin 100,
     co_stop_price = NaN \<rparr>"

definition sample_ref_data :: ref_data where
  "sample_ref_data =
     \<lparr> rd_multiplier = Fin 1, rd_price_precision = 2, rd_quantity_precision = 3 \<rparr>"

end
