(* ===== verification/Text_Properties.thy ===== *)
theory Text_Properties
  imports Sample_Env
begin

text \<open>
  The properties of the components that translate: enumerations, ids, query strings, JSON
  texts, signatures, configuration, and the parsers of incoming messages.
\<close>

section \<open>Enumerations and ids\<close>

text \<open>
  The status of an order decides consistently what it means for the order and for the
  request: the request counts as accepted exactly when the order is working, and a modify
  answer is too late exactly when the request counts as rejected.
\<close>

theorem order_status_consistent:
  "(map_j_order_status_to_request_status s = Some RequestStatus_ACCEPTED
      \<longleftrightarrow> map_j_order_status s = Some OrderStatus_WORKING)
   \<and> (map_j_order_status_to_request_status s = Some RequestStatus_REJECTED
      \<longleftrightarrow> modify_too_late s)"
  by (cases s) simp_all

text \<open>Side and order type survive the way to the exchange and back.\<close>

lemma side_and_type_roundtrip:
  "map_j_side (the (map_side s)) = Some s \<and> map_j_order_type (the (map_order_type t)) = Some t"
  by (simp add: side_map.dec_enc order_type_map.dec_enc)

text \<open>
  The client order id of a WebSocket request gives the request back: sequence, type, user,
  order, version and second order id. Only the codec and the numbering of the request
  types are assumed to be invertible (on 27 bytes, which become 36 characters).
\<close>

theorem wsapi_request_roundtrip:
  assumes "wsapi_wire b64e b64d code uncode"
  shows "wsapi_request_decode b64d uncode (wsapi_request_encode b64e code r) = Inr r"
  using assms by (rule wsapi_wire.decode_encode)

theorem wsapi_request_roundtrip_witness:
  "wsapi_request_decode rfc_b64d schema_uncode (wsapi_request_encode rfc_b64e schema_code
     \<lparr> wr_sequence = 7, wr_type = WSAPIType_ORDER_PLACE, wr_user_id = 3, wr_order_id = 123456789,
       wr_version = 2, wr_order_id_2 = 0xFFFFFFFFFFFFFFFF \<rparr>)
   = Inr \<lparr> wr_sequence = 7, wr_type = WSAPIType_ORDER_PLACE, wr_user_id = 3,
       wr_order_id = 123456789, wr_version = 2, wr_order_id_2 = 0xFFFFFFFFFFFFFFFF \<rparr>"
  by (rule wsapi_request_roundtrip) (rule rfc_wire.wsapi_wire_axioms)

text \<open>
  C22: An answer of the WebSocket API, whose id is the encoded request, reaches the handler of its request,
  whatever the type of the request and whatever other members come before and after the id: exactly
  one handler is called, the one for this type, and those for orders (place, modify, cancel and cancel-all) get the request as it was sent.
  (After the answer to a ping the parser looks further, so there must not be a second id.) An id of
  unknown type calls no handler, except for that of a general error, and one of undefined type ends the process.
\<close>

theorem wsapi_answer_reaches_request:
  assumes "wsapi_wire b64e b64d code uncode"
    and "pl_parse L message = Inr (xs @ Item ''id'' v # ys)"
    and "pl_text L v = Inr (wsapi_request_encode b64e code r)"
    and "list_all (not_id fnv) xs" "fnv ''error'' \<noteq> fnv ''id''"
  shows "let result = wsapi_dispatch fnv L (wsapi_request_decode b64d uncode) u message in
    case wr_type r of
      WSAPIType_UNDEFINED_INTERNAL \<Rightarrow> result = ([], Ends ''Unexpected'')
    | WSAPIType_UNKNOWN_INTERNAL \<Rightarrow> set (fst result) \<subseteq> {WE_error message}
    | WSAPIType_SESSION_LOGON \<Rightarrow> result = ([WE_session_logon message], Handled)
    | WSAPIType_USER_DATA_STREAM_START \<Rightarrow> result = ([WE_listen_key message], Handled)
    | WSAPIType_USER_DATA_STREAM_PING \<Rightarrow>
        list_all (not_id fnv) ys \<longrightarrow> result = ([WE_listen_key message], Handled)
    | WSAPIType_ACCOUNT_BALANCE \<Rightarrow> result = ([WE_account_balance message], Handled)
    | WSAPIType_ACCOUNT_STATUS \<Rightarrow> result = ([WE_account_status message], Handled)
    | WSAPIType_ACCOUNT_POSITION \<Rightarrow> result = ([WE_account_position message], Handled)
    | WSAPIType_ORDERS_STATUS \<Rightarrow> result = ([WE_open_orders message], Handled)
    | WSAPIType_MY_TRADES \<Rightarrow> result = ([WE_trades message], Handled)
    | WSAPIType_OPEN_ORDERS_CANCEL_ALL \<Rightarrow> result = ([WE_open_orders_cancel_all message r], Handled)
    | WSAPIType_ORDER_PLACE \<Rightarrow> result = ([WE_order_place message r], Handled)
    | WSAPIType_ORDER_MODIFY \<Rightarrow> result = ([WE_order_modify message r], Handled)
    | WSAPIType_ORDER_CANCEL \<Rightarrow> result = ([WE_order_cancel message r], Handled)"
proof -
  have "length (wsapi_request_encode b64e code r) = 36"
    using assms(1) by (simp add: wsapi_request_encode_def wsapi_wire_def)
  then have 1: "wsapi_request_encode b64e code r \<noteq> []" by auto
  have 2: "wsapi_request_decode b64d uncode (wsapi_request_encode b64e code r) = Inr r"
    using assms(1) by (rule wsapi_wire.decode_encode)
  note routes = wsapi_routes [where decode = "wsapi_request_decode b64d uncode", OF assms(2,4) refl assms(5,3) 1 2]
    wsapi_routes_other [where decode = "wsapi_request_decode b64d uncode", OF assms(2,4) refl assms(5,3) 1 2]
  show ?thesis by (cases "wr_type r") (simp_all add: Let_def routes wsapi_route_def)
qed

definition sample_request :: wsapi_request where
  "sample_request = \<lparr> wr_sequence = 1, wr_type = WSAPIType_ORDER_PLACE, wr_user_id = 3,
     wr_order_id = 1000, wr_version = 1, wr_order_id_2 = 0 \<rparr>"

definition sample_hash :: "string \<Rightarrow> u64" where
  "sample_hash s = of_nat (length s)"

definition sample_parser :: parser_lib where
  "sample_parser = \<lparr>
     pl_parse = \<lambda>m. Inr [Item ''status'' (JV_int 200),
       Item ''id'' (JV_string (wsapi_request_encode rfc_b64e schema_code sample_request)),
       Item ''result'' (JV_object [])],
     pl_field = \<lambda>k. if k = ''id'' then JField_id else if k = ''result'' then JField_result
       else JField_UNKNOWN_INTERNAL,
     pl_event = \<lambda>v. Inr JEventType_UNKNOWN_INTERNAL,
     pl_text = \<lambda>v. case v of JV_string s \<Rightarrow> Inr s | _ \<Rightarrow> Inl (Std_exception ''bad cast'') \<rparr>"

theorem wsapi_answer_reaches_request_witness:
  "wsapi_dispatch sample_hash sample_parser (wsapi_request_decode rfc_b64d schema_uncode) False
     ''{...}'' = ([WE_order_place ''{...}'' sample_request], Handled)"
proof -
  have "wr_type sample_request = WSAPIType_ORDER_PLACE" by (simp add: sample_request_def)
  then show ?thesis
    using wsapi_answer_reaches_request [OF rfc_wire.wsapi_wire_axioms, of sample_parser "''{...}''"
      "[Item ''status'' (JV_int 200)]" "JV_string (wsapi_request_encode rfc_b64e schema_code sample_request)"
      "[Item ''result'' (JV_object [])]" sample_request sample_hash False]
    by (simp add: sample_parser_def sample_hash_def not_id_def)
qed

text \<open>
  A response of a market stream is recognised wherever its id stands: when the members are
  a result, one id and members that are skipped, the handler gets the result and the id
  (as \<open>int32_t\<close>), also when the id comes last.
\<close>

theorem market_result_found:
  assumes "pl_parse L message = Inr (xs @ Item kr v # ys)"
    and "pl_field L kr = JField_result" "pl_field L ki = JField_id" "0 \<le> n"
    and "list_all (\<lambda>it. skipped L it \<or> it = Item ki (JV_int n)) (xs @ ys)"
    and "Item ki (JV_int n) \<in> set (xs @ ys)"
  shows "market_dispatch (Suc f) L u message = Call (ME_result v (to_int32 n))"
  using assms by (intro market_response)

definition sample_market_parser :: parser_lib where
  "sample_market_parser = sample_parser
     \<lparr>pl_parse := \<lambda>m. Inr [Item ''result'' JV_null, Item ''x'' JV_null, Item ''id'' (JV_int 9)]\<rparr>"

theorem market_result_found_witness:
  "market_dispatch 1 sample_market_parser False ''{...}'' = Call (ME_result JV_null (to_int32 9))"
  using market_result_found [of sample_market_parser "''{...}''" "[]" "''result''" JV_null
      "[Item ''x'' JV_null, Item ''id'' (JV_int 9)]" "''id''" 9 0 False]
  by (simp add: sample_market_parser_def sample_parser_def skipped_def)

section \<open>Requests\<close>



text \<open>
  C24: The JSON text of an \<open>order.place\<close> request is well formed, and a JSON reader gets the method,
  the id and the parameters of the order, in which price and stop price appear exactly
  when they are numbers.
\<close>

theorem order_place_json_parsed:
  assumes "exchange_text L" "json_plain (co_symbol c)" "json_plain request_id" "json_plain req_id"
  shows "parse_text (order_place_json L c rd request_id w now req_id stp) =
    Some (request_json req_id ''order.place''
     ([(''newClientOrderId'', JStr request_id), (''symbol'', JStr (co_symbol c)),
       (''side'', JStr (side_raw L (co_side c))), (''type'', JStr (type_raw L (co_order_type c))),
       (''reduceOnly'', JStr (show_bool (reduce_only c))),
       (''quantity'', JStr (el_decimal L (co_quantity c) (rd_quantity_precision rd)))] @
      (if tif_of c = JTimeInForce_UNDEFINED_INTERNAL then []
       else [(''timeInForce'', JStr (j_time_in_force_text (el_tif L) (tif_of c)))]) @
      (if isnan (co_price c) then []
       else [(''price'', JStr (el_decimal L (co_price c) (rd_price_precision rd)))]) @
      (if isnan (co_stop_price c) then []
       else [(''stopPrice'', JStr (el_decimal L (co_stop_price c) (rd_price_precision rd)))]) @
      (if stp = JSelfTradePrevention_UNDEFINED_INTERNAL then []
       else [(''selfTradePreventionMode'', JStr (j_self_trade_prevention_text (el_stp L) stp))]) @
      [(''recvWindow'', JRaw (show_int w)), (''timestamp'', JRaw (show_int now))]))"
proof (rule parse_request)
  note plain = exchange_text.plain_json [OF assms(1)]
  show "members_ok ([(''newClientOrderId'', JStr request_id), (''symbol'', JStr (co_symbol c)),
       (''side'', JStr (side_raw L (co_side c))), (''type'', JStr (type_raw L (co_order_type c))),
       (''reduceOnly'', JStr (show_bool (reduce_only c))),
       (''quantity'', JStr (el_decimal L (co_quantity c) (rd_quantity_precision rd)))] @
      (if tif_of c = JTimeInForce_UNDEFINED_INTERNAL then []
       else [(''timeInForce'', JStr (j_time_in_force_text (el_tif L) (tif_of c)))]) @
      (if isnan (co_price c) then []
       else [(''price'', JStr (el_decimal L (co_price c) (rd_price_precision rd)))]) @
      (if isnan (co_stop_price c) then []
       else [(''stopPrice'', JStr (el_decimal L (co_stop_price c) (rd_price_precision rd)))]) @
      (if stp = JSelfTradePrevention_UNDEFINED_INTERNAL then []
       else [(''selfTradePreventionMode'', JStr (j_self_trade_prevention_text (el_stp L) stp))]) @
      [(''recvWindow'', JRaw (show_int w)), (''timestamp'', JRaw (show_int now))])"
    using assms by (simp add: plain)
qed (use assms in \<open>simp_all add: order_place_json_def request_json_def json_shapes\<close>)

theorem order_place_json_parsed_witness:
  "parse_text (order_place_json plain_lib sample_create sample_ref_data ''req-1'' 5000 1700000000000
     ''id-1'' JSelfTradePrevention_NONE) =
   Some (request_json ''id-1'' ''order.place''
     [(''newClientOrderId'', JStr ''req-1''), (''symbol'', JStr ''BTCUSDT''),
      (''side'', JStr ''BUY''), (''type'', JStr ''LIMIT''), (''reduceOnly'', JStr ''false''),
      (''quantity'', JStr (plain_decimal_text (Fin (1 / 2)) 3)), (''timeInForce'', JStr ''GTX''),
      (''price'', JStr (plain_decimal_text (Fin 100) 2)), (''selfTradePreventionMode'', JStr ''NONE''),
      (''recvWindow'', JRaw (show_int 5000)), (''timestamp'', JRaw (show_int 1700000000000))])"
  using order_place_json_parsed [OF plain_text.exchange_text_axioms, of sample_create "''req-1''"
      "''id-1''" sample_ref_data 5000 1700000000000 JSelfTradePrevention_NONE]
  by (simp add: sample_create_def sample_ref_data_def plain_lib_def side_raw_def type_raw_def
      tif_of_def reduce_only_def show_bool_def isnan_def map_time_in_force.simps)

lemma cancel_url_parsed:
  assumes "oo_external_order_id ord = create_external_order_id symbol n"
    and "CHR ''#'' \<notin> set symbol" "query_plain (oo_symbol ord)" "query_plain symbol"
    and "query_plain (oo_client_order_id ord)"
  shows "parse_query (order_cancel_url ord w) =
    [(''symbol'', oo_symbol ord), (''orderId'', show_int n),
     (''origClientOrderId'', oo_client_order_id ord), (''recvWindow'', show_int w)]"
proof -
  have "oo_external_order_id ord \<noteq> []" by (simp add: assms(1) create_external_order_id_def)
  then show ?thesis
    using assms by (simp add: order_cancel_url_def order_id_url_def)
qed

text \<open>
  A cancel request names the order the way the exchange numbered it: when the external order
  id is the one the gateway made from the exchange's answer, the query carries exactly this
  number as \<open>orderId\<close>, next to the client order id.
\<close>

theorem cancel_names_exchange_order:
  assumes "oo_external_order_id ord = create_external_order_id symbol n"
    and "CHR ''#'' \<notin> set symbol" "query_plain (oo_symbol ord)" "query_plain symbol"
    and "query_plain (oo_client_order_id ord)"
  shows "parse_query (order_cancel_url ord w) =
    [(''symbol'', oo_symbol ord), (''orderId'', show_int n),
     (''origClientOrderId'', oo_client_order_id ord), (''recvWindow'', show_int w)]"
  using assms by (rule cancel_url_parsed)

theorem cancel_names_exchange_order_witness:
  "parse_query (order_cancel_url \<lparr> oo_user_id = 3, oo_order_id = 1000, oo_strategy_id = 0,
     oo_symbol = ''BTCUSDT'', oo_side = Side_BUY, oo_quantity = Fin 1, oo_price = Fin 100,
     oo_external_order_id = create_external_order_id ''BTCUSDT'' 42,
     oo_client_order_id = ''req-1'', oo_create_time_utc = 0, oo_account = ''A'' \<rparr> 5000) =
   [(''symbol'', ''BTCUSDT''), (''orderId'', show_int 42), (''origClientOrderId'', ''req-1''),
    (''recvWindow'', show_int 5000)]"
  by (subst cancel_names_exchange_order [where symbol = "''BTCUSDT''" and n = 42]) simp_all

text \<open>
  The two forms of a modify request. In the full form (USD-M) it is always sent. In the short
  form (COIN-M) it is sent exactly when one of quantity and price changes; otherwise it is
  rejected as invalid before anything is sent.
\<close>

theorem order_modify_url_cases:
  "(\<exists>text. order_modify_url L m ord rd w True = Inr text) \<and>
   order_modify_url L m ord rd w False =
     (if isnan (changed_value L (mo_quantity m) (oo_quantity ord))
         = isnan (changed_value L (mo_price m) (oo_price ord))
      then Inl (Oms_Rejected Origin_GATEWAY Error_INVALID_REQUEST_ARGS ''Missing quantity or price'')
      else Inr (kv_amp ''symbol'' (oo_symbol ord) @ order_id_url ord @
        kv_amp ''origClientOrderId'' (oo_client_order_id ord) @
        kv_amp ''side'' (side_raw L (oo_side ord)) @
        (if isnan (changed_value L (mo_price m) (oo_price ord))
         then kv_amp ''quantity'' (el_decimal L (mo_quantity m) (rd_quantity_precision rd))
         else kv_amp ''price'' (el_decimal L (mo_price m) (rd_price_precision rd))) @
        kv ''recvWindow'' (show_int w)))"
  by (simp add: order_modify_url_def Let_def)

section \<open>Signatures\<close>

text \<open>
  C25: Every signed request passes the exchange's check: the requests without parameters, those
  with parameters in the query, and those with parameters in the body. All that is assumed of
  the hex codec is that its text has no \<open>&\<close>.
\<close>

theorem signatures_accepted:
  assumes "cr_mac (ac_crypto a) = Some secret" "\<And>t. query_plain (cl_hex L t)"
  shows "exchange_accepts L secret (acc_rest_signature L a ti) []
    \<and> exchange_accepts L secret (acc_rest_signature_query L a ti query) []
    \<and> exchange_accepts L secret (acc_rest_signature_body L a ti body) body"
proof -
  let ?ts = "kv ''timestamp'' (show_int (cl_ms L (ti_create_time_utc ti)))"
  have "exchange_accepts L secret (acc_rest_signature L a ti) []"
    using exchange_accepts_signed [of L secret ?ts "[]"] assms
    by (simp add: acc_rest_signature_def rest_signature_def hex_mac_def Let_def)
  moreover have "exchange_accepts L secret (acc_rest_signature_query L a ti query) []"
    using exchange_accepts_signed [of L secret "query @ ''&'' @ ?ts" "[]"] assms
    by (simp add: acc_rest_signature_query_def rest_signature_query_def hex_mac_def Let_def)
  moreover have "exchange_accepts L secret (acc_rest_signature_body L a ti body) body"
    using exchange_accepts_signed [of L secret ?ts body] assms
    by (simp add: acc_rest_signature_body_def rest_signature_body_def hex_mac_def Let_def)
  ultimately show ?thesis by simp
qed

theorem signatures_accepted_witness:
  "exchange_accepts sample_crypto_lib ''secret''
     (acc_rest_signature_body sample_crypto_lib sample_account (sample_trace 0) ''symbol=BTCUSDT'')
     ''symbol=BTCUSDT''"
  using signatures_accepted [of sample_account "''secret''" sample_crypto_lib "sample_trace 0" "[]"
      "''symbol=BTCUSDT''"]
  by (simp add: sample_account_def sample_crypto_def sample_crypto_lib_def)

text \<open>
  A portfolio account is never signed with a second secret, and a crypto object that is
  created can always sign: it has an Ed25519 key or a MAC key. When construction succeeds in
  portfolio mode, the MAC key is the secret itself.
\<close>

theorem crypto_create_safe:
  assumes "crypto_create L key secret m key_2 secret_2 = Inr c"
  shows "(cr_pkey c \<noteq> None \<or> cr_mac c \<noteq> None)
    \<and> (m = MarginMode_PORTFOLIO \<longrightarrow> secret_2 = [] \<and> cr_mac c = Some secret \<and> cr_pkey c = None)"
  using assms crypto_create_has_key [OF assms]
  by (auto simp: crypto_create_def create_mac_def create_ed25519_def Let_def
      split: sum.splits if_splits)

theorem crypto_create_safe_witness:
  "cr_mac \<lparr> cr_key = ''k'', cr_key_2 = [], cr_headers = create_headers ''k'', cr_pkey = None,
     cr_mac = Some ''s'' \<rparr> = Some ''s''"
  using crypto_create_safe [of sample_crypto_lib "''k''" "''s''" MarginMode_PORTFOLIO "[]" "[]"
      "\<lparr> cr_key = ''k'', cr_key_2 = [], cr_headers = create_headers ''k'', cr_pkey = None,
         cr_mac = Some ''s'' \<rparr>"]
  by (simp add: crypto_create_portfolio)

section \<open>Configuration\<close>

text \<open>
  The API is either USD-M or COIN-M, and all its paths belong to it: the simple paths start
  with its name, the portfolio paths with \<open>/papi/\<close> and the letters of its margin type, and
  modify requests are full exactly for USD-M. Any other name is an exception.
\<close>

theorem api_paths_consistent:
  "(case api_create stp_of st of
      Inl e \<Rightarrow> st_app_api st \<noteq> ''fapi'' \<and> st_app_api st \<noteq> ''dapi''
    | Inr a \<Rightarrow>
        (st_app_api st = ''fapi'' \<or> st_app_api st = ''dapi'')
        \<and> list_all (\<lambda>p. take 6 p = ''/'' @ st_app_api st @ ''/'') (simple_paths a)
        \<and> list_all (\<lambda>p. take 6 p = ''/papi/'') (papi_paths a)
        \<and> take 13 (ap_order (api_papi a)) =
            (if st_app_api st = ''fapi'' then ''/papi/v1/um/o'' else ''/papi/v1/cm/o'')
        \<and> (api_modify_order_full a \<longleftrightarrow> st_app_api st = ''fapi''))"
  by (simp add: api_create_def Let_def fapi_paths_def dapi_paths_def simple_paths_def papi_paths_def)

text \<open>
  Reading the configuration file either ends at a request template or succeeds, and then the
  key of an account is the one of the first entry with its name; a name that no entry has is
  a fatal error.
\<close>

theorem config_first_entry_wins:
  assumes "config_create st entries = Ok c"
  shows "get_api_key c name =
    (case find (\<lambda>a. ca_name a = name) (file_accounts entries) of
       Some a \<Rightarrow> Inr (ca_login a) | None \<Rightarrow> Inl (unknown_account name))"
proof -
  have find: "map_of (map (\<lambda>a. (ca_name a, a)) as) name = find (\<lambda>a. ca_name a = name) as" for as
    by (induction as) auto
  have "map_of (cf_accounts c) name = find (\<lambda>a. ca_name a = name) (file_accounts entries)"
    using config_create_accounts [OF assms [unfolded config_create_def], of name] find by simp
  then show ?thesis by (simp add: get_api_key_def config_field_def)
qed

theorem config_first_entry_wins_witness:
  "get_api_key (res_state (config_create sample_settings
     [CE_user ''u'',
      CE_account \<lparr> ca_name = ''A'', ca_master = True, ca_mode = MarginMode_CROSS, ca_login = ''k1'',
        ca_secret = ''s'', ca_login_2 = [], ca_secret_2 = [] \<rparr>,
      CE_account \<lparr> ca_name = ''A'', ca_master = False, ca_mode = MarginMode_CROSS, ca_login = ''k2'',
        ca_secret = ''s'', ca_login_2 = [], ca_secret_2 = [] \<rparr>])) ''A'' = Inr ''k1''"
  by (subst config_first_entry_wins [where st = sample_settings and entries =
      "[CE_user ''u'',
        CE_account \<lparr> ca_name = ''A'', ca_master = True, ca_mode = MarginMode_CROSS, ca_login = ''k1'',
          ca_secret = ''s'', ca_login_2 = [], ca_secret_2 = [] \<rparr>,
        CE_account \<lparr> ca_name = ''A'', ca_master = False, ca_mode = MarginMode_CROSS, ca_login = ''k2'',
          ca_secret = ''s'', ca_login_2 = [], ca_secret_2 = [] \<rparr>]"])
    (simp_all add: config_create_def file_accounts_def Let_def)

section \<open>Sequences and rates\<close>

text \<open>
  Top of book and depth updates never go back: the updates that pass a gate form an
  ascending sequence, all at or above the mark, and the newest update of a sequence always
  passes.
\<close>

theorem gates_ascending:
  "sorted (sequence_gate.passed tob_update us i) \<and> sorted (sequence_gate.passed mbp_update us i)
   \<and> (\<forall>u \<in> set (sequence_gate.passed tob_update us i). in_tob_last_update_id i \<le> u)
   \<and> (in_tob_last_update_id i \<le> u \<and> (\<forall>v \<in> set us. v \<le> u) \<longrightarrow>
        u \<in> set (sequence_gate.passed tob_update (us @ [u]) i))"
  using tob.passed_sorted mbp.passed_sorted tob.passed_above tob.passed_complete by blast

theorem gates_ascending_witness:
  "sorted (sequence_gate.passed tob_update [3, 2, 5] (instrument_create ()))
   \<and> 7 \<in> set (sequence_gate.passed tob_update ([3, 2, 5] @ [7]) (instrument_create ()))"
  using gates_ascending [of "[3, 2, 5]" "instrument_create ()" 7]
  by (simp add: instrument_create_def del: tob.passed.simps)

text \<open>
  A 403 blocks the gateway for at least ten minutes from then on, whatever responses
  follow: nothing shortens a suspension.
\<close>

theorem blocked_ten_minutes:
  assumes "th_enabled th" "\<forall>(t, s) \<in> set later. 0 \<le> t"
  shows "now + minutes 10 \<le> th_suspend_until (throttle_run (earlier @ [(now, 403)] @ later) th)"
proof -
  let ?th = "throttle_run earlier th"
  have "now + minutes 10 \<le> th_suspend_until (throttle_message_end now 403 ?th)"
    using throttle_blocked [of ?th now] assms(1) by (simp add: blocked_backoff_def)
  also have "\<dots> \<le> th_suspend_until (throttle_run later (throttle_message_end now 403 ?th))"
    by (rule throttle_run_monotone) (rule assms(2))
  finally show ?thesis by (simp add: throttle_run_append)
qed

theorem blocked_ten_minutes_witness:
  "seconds 100 + minutes 10 \<le> th_suspend_until (throttle_run
     ([(seconds 50, 429)] @ [(seconds 100, 403)] @ [(seconds 101, 200), (seconds 102, 429)])
     (throttle_create sample_settings))"
  by (rule blocked_ten_minutes) (simp_all add: throttle_create_def sample_settings_def seconds_def)

text \<open>
  After the first suspension the throttle no longer reacts to 429: once \<open>suspend_until_\<close> is
  not zero it is never reset, so any number of later 429 responses, however late, leave it
  where it is, in the past.
\<close>

theorem later_429_ignored:
  assumes "th_enabled th" "th_suspend_until th = 0" "t + default_backoff \<noteq> 0"
  shows "th_suspend_until (throttle_run ((t, 429) # map (\<lambda>u. (u, 429)) us) th) = t + default_backoff"
proof -
  have "throttle_run (map (\<lambda>u. (u, 429)) us) (throttle_message_end t 429 th)
      = throttle_message_end t 429 th"
    by (rule throttle_429_ignored) (use assms in \<open>auto simp: throttle_message_end_def\<close>)
  then show ?thesis using assms by (simp add: throttle_message_end_def)
qed

theorem later_429_ignored_witness:
  "th_suspend_until (throttle_run ((seconds 100, 429) # map (\<lambda>u. (u, 429)) [seconds 5000])
     (throttle_create sample_settings)) = seconds 100 + default_backoff"
  by (rule later_429_ignored)
    (simp_all add: throttle_create_def sample_settings_def seconds_def default_backoff_def)

end
