(* ===== verification/Order_Entry_Facts.thy ===== *)
theory Order_Entry_Facts
  imports Order_Entry_Classic
begin

text \<open>
  The order entry of \<open>Order_Entry_Classic\<close> verified: every request is answered once, every
  download slot is released, and the invariants of all its entry points (step relation
  \<open>oe_step\<close>).
\<close>

section \<open>Outcomes of a response\<close>

definition always_ok :: "('c, 'q) error_handler \<Rightarrow> bool" where
  "always_ok err = (\<forall>o' s x t w. \<exists>w'. err o' s x t w = Ok w')"

definition never_fatal :: "('c, 'q) success_handler \<Rightarrow> bool" where
  "never_fatal succ = (\<forall>b w m w'. succ b w \<noteq> Fatal m w')"

lemma always_okD: "always_ok err \<Longrightarrow> \<exists>w'. err o' s x t w = Ok w'"
  by (simp add: always_ok_def)

lemma process_response_never_throws:
  assumes "always_ok err"
  shows "process_response E r err succ w \<noteq> Throw e w'"
proof -
  have err: "err o' s x t v \<noteq> Throw e' v'" for o' s x t v e' v'
    using always_okD [OF assms, of o' s x t v] by auto
  show ?thesis
    by (cases "process_body E r err succ w") (auto simp: process_response_def err split: prod.splits)
qed

lemma process_response_returns:
  assumes "\<not> ends_process (settings_of w) r" "always_ok err" "never_fatal succ"
  shows "\<exists>w'. process_response E r err succ w = Ok w'"
proof (cases "process_response E r err succ w")
  case (Throw e w')
  then show ?thesis using process_response_never_throws [OF assms(2), of E r succ w] by blast
next
  case (Fatal m w')
  have "ends_process (settings_of w) r"
    by (rule process_response_fatal [OF Fatal])
      (use assms in \<open>auto simp: always_ok_def never_fatal_def\<close>)
  with assms show ?thesis by blast
qed simp

lemma always_ok_handlers [simp]:
  "always_ok log_error" "always_ok (ack_error rt u i v)"
  by (simp_all add: always_ok_def log_error_def ack_error_def)

lemma never_fatal_parsed [simp]: "never_fatal (\<lambda>b. parsed (p b) (\<lambda>m w. Ok (f b m w)))"
  unfolding never_fatal_def
proof (intro allI)
  fix b w m w' show "parsed (p b) (\<lambda>m w. Ok (f b m w)) w \<noteq> Fatal m w'"
    by (cases "p b") simp_all
qed

section \<open>One answer per order request\<close>

definition answer_to :: "request_type \<Rightarrow> u32 \<Rightarrow> response \<Rightarrow> bool" where
  "answer_to rt v a = (re_request_type a = rt \<and> re_version a = v)"

lemma responses_ack_error:
  "\<exists>w' a. ack_error rt u i v o' s x t w = Ok w' \<and>
     responses u i w' = responses u i w @ [a] \<and> answer_to rt v a"
  by (simp add: ack_error_def List.map_filter_def answer_to_def error_response_def)

lemma responses_suspend: "responses u i (emit (Conn_suspend_for d) w) = responses u i w"
  by simp

lemmas answer_defs = ack_error_def ack_response_def error_response_def answer_to_def too_late_def
  Let_def List.map_filter_def

interpretation place: response_handler
  "ack_error RequestType_CREATE_ORDER u i v" "place_success E u i v"
  "responses u i" "answer_to RequestType_CREATE_ORDER v" "\<lambda>_. True"
  for u i v E
proof (rule response_handler.intro [OF responses_ack_error _ responses_suspend])
  fix w :: "('z, 'q) acs" and b
  show "(\<exists>w' a. place_success E u i v b w = Ok w'
         \<and> responses u i w' = responses u i w @ [a] \<and> answer_to RequestType_CREATE_ORDER v a)
      \<or> (\<exists>e w'. place_success E u i v b w = Throw e w' \<and> responses u i w' = responses u i w)"
    by (cases "ge_place E b")
      (auto simp: place_success_def on_order_place_ack_def answer_defs)
qed

interpretation modify: response_handler
  "ack_error RequestType_MODIFY_ORDER u i v" "modify_success E u i v"
  "responses u i" "answer_to RequestType_MODIFY_ORDER v"
  "\<lambda>w. \<not> st_disable_fast_order_ack (settings_of w)"
  for u i v E
proof (rule response_handler.intro [OF responses_ack_error _ responses_suspend])
  fix w :: "('z, 'q) acs" and b
  assume "\<not> st_disable_fast_order_ack (settings_of w)"
  then show "(\<exists>w' a. modify_success E u i v b w = Ok w'
         \<and> responses u i w' = responses u i w @ [a] \<and> answer_to RequestType_MODIFY_ORDER v a)
      \<or> (\<exists>e w'. modify_success E u i v b w = Throw e w' \<and> responses u i w' = responses u i w)"
    by (cases "ge_modify E b")
      (auto simp: modify_success_def on_order_modify_ack_def answer_defs)
qed

interpretation cancel: response_handler
  "ack_error RequestType_CANCEL_ORDER u i v" "cancel_success E u i v"
  "responses u i" "answer_to RequestType_CANCEL_ORDER v"
  "\<lambda>w. \<not> st_disable_fast_order_ack (settings_of w)"
  for u i v E
proof (rule response_handler.intro [OF responses_ack_error _ responses_suspend])
  fix w :: "('z, 'q) acs" and b
  assume "\<not> st_disable_fast_order_ack (settings_of w)"
  then show "(\<exists>w' a. cancel_success E u i v b w = Ok w'
         \<and> responses u i w' = responses u i w @ [a] \<and> answer_to RequestType_CANCEL_ORDER v a)
      \<or> (\<exists>e w'. cancel_success E u i v b w = Throw e w' \<and> responses u i w' = responses u i w)"
    by (cases "ge_cancel E b")
      (auto simp: cancel_success_def on_order_cancel_ack_def answer_defs)
qed

section \<open>Every entry point\<close>

text \<open>
  One step of the object: an event of the connection, a response, an order action, a timer, a
  command of the download, or the controller's request to refresh the listen key. A step that
  throws leaves the state reached so far. The environment of each step is its own; \<open>key_ok\<close>
  says that a listen key the exchange sends is not empty.
\<close>

definition key_ok :: "env \<Rightarrow> bool" where
  "key_ok E = (\<forall>body. ge_listen_key E body \<noteq> Inr [])"

inductive oe_step :: "'q oe \<Rightarrow> 'q oe \<Rightarrow> bool" where
  step_start: "oe_step w (oe_start w)"
| step_stop: "oe_step w (oe_stop w)"
| step_timer: "oe_step w (oe_timer E ti now w)"
| step_connected: "oe_step w (oe_connected w)"
| step_disconnected: "oe_step w (oe_disconnected w)"
| step_latency: "oe_step w (oe_latency sample w)"
| step_begin: "oe_step w (oe_message_begin w)"
| step_header: "oe_step w (oe_message_header E name v w)"
| step_end: "oe_step w (oe_message_end w)"
| step_download: "oe_step w (snd (oe_download E state w))"
| step_force: "oe_step w (force_listen_key_refresh ti w)"
| step_place: "oe_step w (res_state (order_place E ti source c ord rd request_id w))"
| step_modify: "oe_step w (res_state (order_modify E ti source m ord rd request_id w))"
| step_cancel: "oe_step w (res_state (order_cancel E ti source k ord request_id w))"
| step_cancel_all: "oe_step w (open_orders_cancel_all E ti x request_id w)"
| step_response: "key_ok E \<Longrightarrow> oe_step w (res_state (oe_response E ti r cb request_id w))"

inductive oe_run :: "'q oe \<Rightarrow> 'q oe \<Rightarrow> bool" where
  run_refl: "oe_run w w"
| run_step: "oe_run u v \<Longrightarrow> oe_step v w \<Longrightarrow> oe_run u w"

inductive_cases oe_stepE: "oe_step v w"

section \<open>What no step changes or takes back\<close>

fun key_update :: "effect \<Rightarrow> bool" where
  "key_update (Ev_listen_key_update a k) = True"
| "key_update _ = False"

text \<open>
  How often the listen key has been announced, or is going to be: the announcements so far,
  and one more as long as no key is known.
\<close>

definition announcements :: "'q oe \<Rightarrow> nat" where
  "announcements w = length (filter key_update (gw_out w))
     + (if oe_listen_key (gw_self w) = [] then 1 else 0)"

definition oe_keeps :: "'q oe \<Rightarrow> 'q oe \<Rightarrow> bool" where
  "oe_keeps v w \<longleftrightarrow>
     stream_of w = stream_of v \<and> sm_account (gw_self w) = sm_account (gw_self v)
     \<and> settings_of w = settings_of v \<and> api_of w = api_of v
     \<and> set (oe_open_orders_symbols (gw_self v)) \<subseteq> set (oe_open_orders_symbols (gw_self w))
     \<and> (distinct (oe_open_orders_symbols (gw_self v)) \<longrightarrow> distinct (oe_open_orders_symbols (gw_self w)))
     \<and> (\<exists>es. gw_out w = gw_out v @ es
           \<and> (\<forall>a k. Ev_listen_key_update a k \<in> set es \<longrightarrow> a = name_of v))
     \<and> announcements w \<le> announcements v
     \<and> (oe_listen_key (gw_self v) \<noteq> [] \<longrightarrow> oe_listen_key (gw_self w) \<noteq> [])"

lemma keeps_refl [simp]: "oe_keeps w w"
  by (simp add: oe_keeps_def)

lemma keeps_trans: "oe_keeps u v \<Longrightarrow> oe_keeps v w \<Longrightarrow> oe_keeps u w"
  unfolding oe_keeps_def by (elim conjE exE) (intro conjI; force)

lemma keeps_out:
  assumes "oe_keeps v w"
  obtains es where "gw_out w = gw_out v @ es"
    "\<And>a k. Ev_listen_key_update a k \<in> set es \<Longrightarrow> a = name_of v"
  using assms unfolding oe_keeps_def by blast

lemma keeps_emit: "\<not> key_update e \<Longrightarrow> oe_keeps w (emit e w)"
  by (auto simp: oe_keeps_def announcements_def)

lemma keeps_self:
  assumes "sm_stream_id (f s) = sm_stream_id s" "sm_account (f s) = sm_account s"
    "oe_listen_key (f s) = oe_listen_key s"
    "set (oe_open_orders_symbols s) \<subseteq> set (oe_open_orders_symbols (f s))"
    "distinct (oe_open_orders_symbols s) \<Longrightarrow> distinct (oe_open_orders_symbols (f s))"
    "gw_self w = s"
  shows "oe_keeps w (upd_self f w)"
  using assms by (simp add: oe_keeps_def announcements_def)

lemma keeps_shared:
  assumes "sh_settings (f (gw_shared w)) = settings_of w" "sh_api (f (gw_shared w)) = api_of w"
  shows "oe_keeps w (upd_shared f w)"
  using assms by (simp add: oe_keeps_def announcements_def)

lemma keeps_stale [simp]: "oe_keeps w (w\<lparr>gw_stale_orders := xs\<rparr>)"
  by (simp add: oe_keeps_def announcements_def)

interpretation oe_kept: kept_rest oe_keeps
  by unfold_locales (auto intro: keeps_trans keeps_emit)

text \<open>Each operation in turn. The rules are tried in this order; \<open>keeps_trans\<close> splits sequences.\<close>

lemma keeps_emit2: "oe_keeps v w \<Longrightarrow> \<not> key_update e \<Longrightarrow> oe_keeps v (emit e w)"
  by (blast intro: keeps_trans keeps_emit)

lemma keeps_self2:
  assumes "oe_keeps v w" "\<And>s. sm_stream_id (f s) = sm_stream_id s"
    "\<And>s. sm_account (f s) = sm_account s" "\<And>s. oe_listen_key (f s) = oe_listen_key s"
    "\<And>s. set (oe_open_orders_symbols s) \<subseteq> set (oe_open_orders_symbols (f s))"
    "\<And>s. distinct (oe_open_orders_symbols s) \<Longrightarrow> distinct (oe_open_orders_symbols (f s))"
  shows "oe_keeps v (upd_self f w)"
  by (rule keeps_trans [OF assms(1)]) (rule keeps_self, use assms(2-) in auto)

lemma keeps_shared2:
  "oe_keeps v w \<Longrightarrow> (\<And>s. sh_settings (f s) = sh_settings s) \<Longrightarrow> (\<And>s. sh_api (f s) = sh_api s) \<Longrightarrow>
     oe_keeps v (upd_shared f w)"
  by (blast intro: keeps_trans keeps_shared)

lemmas keeps_intros = keeps_emit2 keeps_self2 keeps_shared2

lemma keeps_parsed:
  "(\<And>m w. oe_keeps w (res_state (f m w))) \<Longrightarrow> oe_keeps w (res_state (parsed p f w))"
  by (rule parsed_keeps) simp_all

lemma keeps_log_error [simp]: "oe_keeps w (res_state (log_error o' s x t w))"
  by (simp add: log_error_def)

lemma keeps_commit [simp]: "oe_keeps w (res_state (commit s w))"
  by (simp add: commit_def keeps_emit)

lemma keeps_ack_error [simp]: "oe_keeps w (res_state (ack_error rt u i v o' s x t w))"
  by (simp add: ack_error_def keeps_emit)

subsection \<open>Stream, rate limits, listen key\<close>

lemma keeps_stream:
  "oe_keeps w (oe_start w)" "oe_keeps w (oe_stop w)" "oe_keeps w (oe_connected w)"
  "oe_keeps w (oe_latency sample w)" "oe_keeps w (oe_set_connection_status c t w)"
  "oe_keeps w (oe_disconnected w)" "oe_keeps w (oe_message_begin w)" "oe_keeps w (oe_message_end w)"
  by (auto simp: oe_start_def oe_stop_def oe_connected_def oe_latency_def oe_disconnected_def
      oe_set_connection_status_def Let_def oe_message_begin_def oe_message_end_def
      intro!: keeps_intros)

lemma keeps_add_rate_limit: "oe_keeps v w \<Longrightarrow> oe_keeps v (add_rate_limit t l n w)"
  by (auto simp: add_rate_limit_def intro!: keeps_intros)

lemma keeps_header: "oe_keeps w (oe_message_header E name v w)"
  by (auto simp: oe_message_header_def Let_def intro!: keeps_add_rate_limit split: option.splits)

lemma keeps_force: "oe_keeps w (force_listen_key_refresh ti w)"
  by (auto simp: force_listen_key_refresh_def intro!: keeps_intros)

lemma keeps_get_listen_key: "oe_keeps v w \<Longrightarrow> oe_keeps v (get_listen_key E w)"
  by (auto simp: get_listen_key_def intro!: keeps_intros)

lemma keeps_refresh: "oe_keeps w (refresh_listen_key E ti w)"
  by (auto simp: refresh_listen_key_def intro!: keeps_get_listen_key keeps_intros)

lemma keeps_download: "oe_keeps w (snd (oe_download E s w))"
  by (cases s) (auto simp: oe_download_def intro!: keeps_get_listen_key keeps_stream(5))

lemma keeps_on_listen_key: "key \<noteq> [] \<Longrightarrow> oe_keeps w (on_listen_key_ack ti key w)"
  by (auto simp: on_listen_key_ack_def Let_def oe_keeps_def announcements_def)

lemma keeps_listen_key_ack:
  assumes "key_ok E"
  shows "oe_keeps w (res_state (get_listen_key_ack E ti r w))"
  unfolding get_listen_key_ack_def
proof (rule oe_kept.keep_response)
  show "oe_keeps w (res_state (parsed (ge_listen_key E b) (\<lambda>key w.
      Ok (emit (Download_command (Download_check_relaxed OE_LISTEN_KEY))
            (on_listen_key_ack ti key w))) w))" for b and w :: "'q oe"
    using assms by (cases "ge_listen_key E b")
      (auto simp: key_ok_def intro!: keeps_emit2 keeps_on_listen_key)
qed (simp add: keeps_emit)

subsection \<open>Downloads\<close>

lemma keeps_balances: "oe_keeps w (on_account_balance_ack items w)"
  unfolding on_account_balance_ack_def
  by (rule oe_kept.keep_fold) (auto simp: on_balance_item_def Let_def intro!: keeps_intros)

lemma keeps_positions: "oe_keeps w (on_account_status_ack E ack w)"
  unfolding on_account_status_ack_def
  by (rule oe_kept.keep_fold) (auto simp: on_position_item_def intro!: keeps_intros)

lemma keeps_open_orders: "oe_keeps w (on_open_orders_ack items w)"
  unfolding on_open_orders_ack_def
  by (rule oe_kept.keep_fold) (auto simp: on_open_order_def Let_def intro!: keeps_intros)

lemma keeps_trades: "oe_keeps w (on_trades_ack E items w)"
  unfolding on_trades_ack_def
  by (rule oe_kept.keep_fold) (auto simp: on_trade_item_def Let_def intro!: keeps_intros)

lemma keeps_stale_done: "oe_keeps w (stale_order_done w)"
  by (auto simp: stale_order_done_def Let_def intro!: keeps_intros)

lemma keeps_download_acks:
  "oe_keeps w (res_state (get_account_balance_ack E r w))"
  "oe_keeps w (res_state (get_account_status_ack E r w))"
  "oe_keeps w (res_state (get_open_orders_ack E r w))"
  "oe_keeps w (res_state (get_order_ack E r c w))"
  "oe_keeps w (res_state (get_trades_ack E r w))"
  by (auto simp: get_account_balance_ack_def get_account_status_ack_def get_open_orders_ack_def
      get_order_ack_def get_trades_ack_def on_order_ack_def
      intro!: oe_kept.keep_then oe_kept.keep_response keeps_parsed keeps_balances keeps_positions
      keeps_open_orders keeps_trades keeps_stale_done keeps_intros)

subsection \<open>Order actions\<close>

lemma keeps_actions:
  "oe_keeps w (res_state (order_place E ti source c ord rd request_id w))"
  "oe_keeps w (res_state (order_modify E ti source m ord rd request_id w))"
  "oe_keeps w (res_state (order_cancel E ti source k ord request_id w))"
  by (auto simp: order_place_def order_modify_def order_cancel_def Let_def
      intro!: keeps_intros split: sum.splits option.splits)

lemma keeps_cancel_all: "oe_keeps w (open_orders_cancel_all E ti x request_id w)"
  unfolding open_orders_cancel_all_def
  by (rule oe_kept.keep_fold) (auto simp: cancel_all_symbol_def Let_def intro!: keeps_intros)

lemma keeps_countdown: "oe_keeps w (countdown_cancel_all E ti w)"
  unfolding countdown_cancel_all_def
  by (rule oe_kept.keep_fold) (auto simp: countdown_symbol_def Let_def intro!: keeps_intros)

lemma keeps_on_acks:
  "oe_keeps w (on_order_place_ack m u i v w)" "oe_keeps w (on_order_modify_ack m u i v w)"
  "oe_keeps w (on_order_cancel_ack m u i v w)"
  "oe_keeps w (on_open_orders_cancel_all_ack code msg request_id w)"
  by (auto simp: on_order_place_ack_def on_order_modify_ack_def on_order_cancel_ack_def
      on_open_orders_cancel_all_ack_def Let_def intro!: keeps_intros)

lemma keeps_action_acks:
  "oe_keeps w (res_state (order_place_ack E r u i v w))"
  "oe_keeps w (res_state (order_modify_ack E r u i v w))"
  "oe_keeps w (res_state (order_cancel_ack E r u i v w))"
  "oe_keeps w (res_state (open_orders_cancel_all_ack E r request_id w))"
  "oe_keeps w (res_state (countdown_cancel_all_ack E r w))"
  by (auto simp: order_place_ack_def order_modify_ack_def order_cancel_ack_def place_success_def
      modify_success_def cancel_success_def too_late_def open_orders_cancel_all_ack_def
      countdown_cancel_all_ack_def intro!: oe_kept.keep_response keeps_parsed keeps_on_acks)

subsection \<open>Queue, timer, callbacks\<close>

lemma keeps_gets:
  "oe_keeps w (get_account_balance E ti w)" "oe_keeps w (get_account_status E ti w)"
  "oe_keeps w (get_open_orders E ti w)" "oe_keeps w (get_order E ti ord w)"
  by (auto simp: get_account_balance_def get_account_status_def get_open_orders_def get_order_def
      Let_def intro!: keeps_intros)

lemma keeps_get_trades: "oe_keeps w (get_trades E ti w)"
  unfolding get_trades_def
  by (rule oe_kept.keep_fold) (auto simp: get_trades_of_def Let_def intro!: keeps_intros)

lemma keeps_stale_request: "oe_keeps w (request_stale_order E ti key w)"
  by (auto simp: request_stale_order_def intro!: keeps_self2 keeps_gets split: option.splits)

lemma keeps_stale_requests: "oe_keeps w (request_stale_orders E ti w)"
  unfolding request_stale_orders_def
  by (rule keeps_trans [OF oe_kept.keep_fold keeps_stale]) (rule keeps_stale_request)

lemma keeps_pending: "oe_keeps v w \<Longrightarrow> (\<And>w. oe_keeps w (f w)) \<Longrightarrow> oe_keeps v (if_pending E s f w)"
  by (auto simp: if_pending_def intro: keeps_trans)

lemma keeps_queue: "oe_keeps w (check_request_queue E ti w)"
  by (simp add: check_request_queue_def Let_def keeps_pending keeps_gets keeps_get_trades
      keeps_stale_requests)

lemma keeps_timer: "oe_keeps w (oe_timer E ti now w)"
proof -
  have "oe_keeps w (upd_self (\<lambda>s. s\<lparr>oe_next_auto_cancel := n\<rparr>) (refresh_listen_key E ti w))" for n
    by (auto intro!: keeps_self2 keeps_refresh)
  then show ?thesis
    by (auto simp: oe_timer_def Let_def
        intro: keeps_trans [OF _ keeps_queue] keeps_trans [OF _ keeps_countdown] keeps_refresh)
qed

lemma keeps_oe_response: "key_ok E \<Longrightarrow> oe_keeps w (res_state (oe_response E ti r cb request_id w))"
  by (cases cb) (simp_all add: oe_response_def keeps_listen_key_ack keeps_download_acks
      keeps_action_acks)

lemma keeps_step: "oe_step v w \<Longrightarrow> oe_keeps v w"
  by (induction rule: oe_step.induct) (simp_all add: keeps_stream keeps_timer keeps_header
      keeps_download keeps_force keeps_actions keeps_cancel_all keeps_oe_response)

lemma keeps_run: "oe_run v w \<Longrightarrow> oe_keeps v w"
  by (induction rule: oe_run.induct) (auto intro: keeps_trans keeps_step)

lemma oe_run_trans: "oe_run v w \<Longrightarrow> oe_run u v \<Longrightarrow> oe_run u w"
  by (induction rule: oe_run.induct) (auto intro: oe_run.intros)

section \<open>Announcing the listen key\<close>

text \<open>Once a key is known, no step announces one.\<close>

lemma no_announcement:
  assumes "oe_keeps v w" "oe_listen_key (gw_self v) \<noteq> []" "gw_out w = gw_out v @ es"
  shows "filter key_update es = []"
proof -
  have "oe_listen_key (gw_self w) \<noteq> []" "announcements w \<le> announcements v"
    using assms(1,2) by (auto simp: oe_keeps_def)
  then show ?thesis using assms(2,3) by (simp add: announcements_def)
qed

section \<open>Stale orders\<close>

definition stale_found :: "env \<Rightarrow> (u8 \<times> u64) list \<Rightarrow> oms_order list" where
  "stale_found E keys = List.map_filter (\<lambda>(u, i). ge_find_order E u i) keys"

lemma stale_found_simps [simp]:
  "stale_found E [] = []"
  "stale_found E ((u, i) # keys) =
     (case ge_find_order E u i of Some ord \<Rightarrow> [ord] | None \<Rightarrow> []) @ stale_found E keys"
  by (simp_all add: stale_found_def List.map_filter_def split: option.splits)

lemma request_stale_order_effect:
  "oe_stale_orders_counter (gw_self (fold (request_stale_order E ti) keys w))
     = oe_stale_orders_counter (gw_self w) + length (stale_found E keys)"
  "map snd (rest_sent (gw_out (fold (request_stale_order E ti) keys w)))
     = map snd (rest_sent (gw_out w)) @ map (CB_order \<circ> oo_client_order_id) (stale_found E keys)"
proof (induction keys arbitrary: w)
  case (Cons k keys)
  obtain u i where k: "k = (u, i)" by (cases k)
  {
    case 1 show ?case
      by (simp add: k Cons.IH(1)) (simp add: request_stale_order_def get_order_def Let_def
          split: option.splits)
  next
    case 2 show ?case
      by (simp add: k Cons.IH(2)) (simp add: request_stale_order_def get_order_def Let_def
          split: option.splits)
  }
qed simp_all

text \<open>The answers, in any order and of any kind: the last one commits the slot.\<close>

fun stale_commits :: "effect list \<Rightarrow> nat" where
  "stale_commits [] = 0"
| "stale_commits (Slot_commit Slot_stale_orders # es) = Suc (stale_commits es)"
| "stale_commits (_ # es) = stale_commits es"

lemma stale_commits_append [simp]: "stale_commits (es @ fs) = stale_commits es + stale_commits fs"
  by (induction es rule: stale_commits.induct) simp_all

definition stale_same :: "('z, 'q) rst \<Rightarrow> ('z, 'q) rst \<Rightarrow> bool" where
  "stale_same v w \<longleftrightarrow>
     oe_stale_orders_counter (gw_self w) = oe_stale_orders_counter (gw_self v)
     \<and> stale_commits (gw_out w) = stale_commits (gw_out v) \<and> settings_of w = settings_of v"

interpretation stale_kept: kept_rest stale_same
  by unfold_locales (auto simp: stale_same_def)

lemma get_order_ack_effect:
  fixes w :: "('z, 'q) rst"
  assumes "\<not> ends_process (settings_of w) r"
  obtains w' where "get_order_ack E r c w = Ok w'"
    "oe_stale_orders_counter (gw_self w') = oe_stale_orders_counter (gw_self w) - 1"
    "stale_commits (gw_out w') = stale_commits (gw_out w)
       + (if oe_stale_orders_counter (gw_self w) \<le> 1 then 1 else 0)"
    "settings_of w' = settings_of w"
proof -
  define err :: "('z rest_stream_scheme, 'q) error_handler" where
    "err = (\<lambda>origin status error text w.
       Ok (emit (Pub_order (lost_order w c error text) (stream_of w)) w))"
  define succ :: "('z rest_stream_scheme, 'q) success_handler" where
    "succ = (\<lambda>body. parsed (ge_order E body) (\<lambda>m w. Ok (on_order_ack m w)))"
  have succ: "stale_same v (res_state (succ b v))" for b and v :: "('z, 'q) rst"
    by (cases "ge_order E b") (simp_all add: succ_def on_order_ack_def stale_same_def)
  have same: "stale_same w (res_state (process_response E r err succ w))"
    by (rule stale_kept.keep_response) (use succ in \<open>auto simp: err_def stale_same_def\<close>)
  have "always_ok err" by (simp add: err_def always_ok_def)
  moreover have "never_fatal succ" by (simp add: succ_def)
  ultimately obtain v where v: "process_response E r err succ w = Ok v"
    using process_response_returns [OF assms] by blast
  have "get_order_ack E r c w = Ok (stale_order_done v)"
    using v by (simp add: get_order_ack_def err_def succ_def)
  with same v show thesis
    by (intro that [of "stale_order_done v"])
      (auto simp: stale_same_def stale_order_done_def Let_def)
qed

text \<open>All the answers to the requests of one round.\<close>

definition stale_answers ::
  "(env \<times> rest_response \<times> string) list \<Rightarrow> ('z, 'q) rst \<Rightarrow> (exn, ('z, 'q) rst) res" where
  "stale_answers = for_each (\<lambda>(E, r, c). get_order_ack E r c)"

lemma stale_answers_commit:
  assumes "\<forall>(E, r, c) \<in> set answers. \<not> ends_process (settings_of w) r"
    and "oe_stale_orders_counter (gw_self w) = length answers"
  shows "\<exists>w'. stale_answers answers w = Ok w'
    \<and> oe_stale_orders_counter (gw_self w') = 0
    \<and> stale_commits (gw_out w') = stale_commits (gw_out w) + (if answers = [] then 0 else 1)"
  using assms
proof (induction answers arbitrary: w)
  case (Cons a answers)
  obtain E r c where a: "a = (E, r, c)" by (cases a)
  with Cons.prems have "\<not> ends_process (settings_of w) r" by simp
  then obtain v where v: "get_order_ack E r c w = Ok v"
    "oe_stale_orders_counter (gw_self v) = oe_stale_orders_counter (gw_self w) - 1"
    "stale_commits (gw_out v) = stale_commits (gw_out w)
       + (if oe_stale_orders_counter (gw_self w) \<le> 1 then 1 else 0)"
    "settings_of v = settings_of w"
    by (rule get_order_ack_effect)
  with Cons.prems a have "\<exists>w'. stale_answers answers v = Ok w'
    \<and> oe_stale_orders_counter (gw_self w') = 0
    \<and> stale_commits (gw_out w') = stale_commits (gw_out v) + (if answers = [] then 0 else 1)"
    by (intro Cons.IH) simp_all
  then show ?case using v a Cons.prems by (auto simp: stale_answers_def)
qed (simp add: stale_answers_def)

section \<open>Downloads always release their slot\<close>

lemma commit_after_response:
  assumes "\<not> ends_process (settings_of w) r" "never_fatal succ"
  shows "\<exists>v. and_then (process_response E r log_error succ w) (commit s) = Ok (emit (Slot_commit s) v)
    \<and> process_response E r log_error succ w = Ok v"
  using process_response_returns [OF assms(1) _ assms(2), of log_error E] by (auto simp: commit_def)

section \<open>Cancel all\<close>

definition cancel_targets :: "cancel_all_orders \<Rightarrow> string list \<Rightarrow> string list" where
  "cancel_targets c symbols = filter (\<lambda>s. cx_symbol c = [] \<or> s = cx_symbol c) symbols"

fun cancel_acks :: "effect list \<Rightarrow> cancel_all_orders_ack list" where
  "cancel_acks [] = []"
| "cancel_acks (Pub_cancel_all_ack a # es) = a # cancel_acks es"
| "cancel_acks (_ # es) = cancel_acks es"

lemma cancel_acks_append [simp]: "cancel_acks (es @ fs) = cancel_acks es @ cancel_acks fs"
  by (induction es rule: cancel_acks.induct) simp_all

lemma cancel_all_fold:
  "gw_self (fold (cancel_all_symbol E ti c request_id) xs w) = gw_self w"
  "gw_shared (fold (cancel_all_symbol E ti c request_id) xs w) = gw_shared w"
  "map (rq_body \<circ> fst) (rest_sent (gw_out (fold (cancel_all_symbol E ti c request_id) xs w))) =
     map (rq_body \<circ> fst) (rest_sent (gw_out w)) @
     map (\<lambda>s. all_open_orders_url s (to_ms (st_rest_order_recv_window (settings_of w))))
       (cancel_targets c xs)"
  "map ck_request_status (cancel_acks (gw_out (fold (cancel_all_symbol E ti c request_id) xs w))) =
     map ck_request_status (cancel_acks (gw_out w)) @
     replicate (length (cancel_targets c xs)) RequestStatus_FORWARDED"
  by (induction xs arbitrary: w)
    (auto simp: cancel_targets_def cancel_all_symbol_def Let_def rest_order_def)

lemma cancel_targets_one:
  "distinct symbols \<Longrightarrow> cx_symbol c \<noteq> [] \<Longrightarrow>
     cancel_targets c symbols = (if cx_symbol c \<in> set symbols then [cx_symbol c] else [])"
  by (induction symbols) (auto simp: cancel_targets_def)

section \<open>Listen key requests\<close>

fun key_requests :: "effect list \<Rightarrow> nat" where
  "key_requests [] = 0"
| "key_requests (Rest_send r (CB_listen_key n) i # es) = Suc (key_requests es)"
| "key_requests (_ # es) = key_requests es"

lemma key_requests_append [simp]: "key_requests (es @ fs) = key_requests es + key_requests fs"
  by (induction es rule: key_requests.induct) simp_all

lemma refresh_listen_key_requests:
  "key_requests (gw_out (refresh_listen_key E ti w)) = key_requests (gw_out w)
     + (if stream_ready w \<and> oe_listen_key_refresh (gw_self w) \<noteq> 0
           \<and> oe_listen_key_refresh (gw_self w) \<le> ti_create_time ti then 1 else 0)"
  by (auto simp: refresh_listen_key_def get_listen_key_def)

end
