(* ===== verification/Listen_Key_Window.thy ===== *)
theory Listen_Key_Window
  imports Order_Entry_Facts
begin

text \<open>
  When the classic order entry may ask for a listen key: a window of time in which the timer does not,
  whatever else happens to the stream. The time at which the key is to be refreshed (\<open>oe_listen_key_refresh\<close>) is
  set by the timer that asks, by the answer of the exchange and by the controller's request to refresh soon
  (\<open>refresh_listen_key\<close>, \<open>get_listen_key_ack\<close> and \<open>force_listen_key_refresh\<close> in
  \<open>gateway/order_entry_classic.cpp\<close>); all other operations leave it alone.
\<close>

section \<open>Runs within a window of time\<close>

text \<open>The operations that neither look at the time of the listen key nor ask for one.\<close>

inductive oe_other :: "'q oe \<Rightarrow> 'q oe \<Rightarrow> bool" where
  other_start: "oe_other w (oe_start w)"
| other_stop: "oe_other w (oe_stop w)"
| other_connected: "oe_other w (oe_connected w)"
| other_disconnected: "oe_other w (oe_disconnected w)"
| other_latency: "oe_other w (oe_latency sample w)"
| other_begin: "oe_other w (oe_message_begin w)"
| other_header: "oe_other w (oe_message_header E name v w)"
| other_end: "oe_other w (oe_message_end w)"
| other_place: "oe_other w (res_state (order_place E ti source c ord rd request_id w))"
| other_modify: "oe_other w (res_state (order_modify E ti source m ord rd request_id w))"
| other_cancel: "oe_other w (res_state (order_cancel E ti source k ord request_id w))"
| other_cancel_all: "oe_other w (open_orders_cancel_all E ti x request_id w)"

text \<open>
  The runs of the stream in which the events have their times in \<open>{t0..<t1}\<close>: every entry point of
  \<open>oe_step\<close> is one of these. \<open>forced\<close> tells whether a refresh has been forced, \<open>n\<close> how often the
  download of a (new) connection has asked for the listen key.
\<close>

inductive oe_within :: "nanoseconds \<Rightarrow> nanoseconds \<Rightarrow> bool \<Rightarrow> nat \<Rightarrow> 'q oe \<Rightarrow> 'q oe \<Rightarrow> bool" for t0 t1 where
  within_refl: "oe_within t0 t1 False 0 w w"
| within_timer: "oe_within t0 t1 forced n u v \<Longrightarrow> ti_create_time ti \<in> {t0..<t1} \<Longrightarrow>
    oe_within t0 t1 forced n u (oe_timer E ti now v)"
| within_force: "oe_within t0 t1 forced n u v \<Longrightarrow> ti_create_time ti \<in> {t0..<t1} \<Longrightarrow>
    oe_within t0 t1 True n u (force_listen_key_refresh ti v)"
| within_response: "oe_within t0 t1 forced n u v \<Longrightarrow> ti_create_time ti \<in> {t0..<t1} \<Longrightarrow>
    oe_within t0 t1 forced n u (res_state (oe_response E ti r cb request_id v))"
| within_download: "oe_within t0 t1 forced n u v \<Longrightarrow>
    oe_within t0 t1 forced (if state = OE_LISTEN_KEY then Suc n else n) u (snd (oe_download E state v))"
| within_other: "oe_within t0 t1 forced n u v \<Longrightarrow> oe_other v w \<Longrightarrow> oe_within t0 t1 forced n u w"

section \<open>Waiting\<close>

text \<open>The time of the refresh is not before \<open>b\<close> (or there is none), and no listen key is asked for.\<close>

definition held :: "nanoseconds \<Rightarrow> 'q oe \<Rightarrow> bool" where
  "held b w \<longleftrightarrow> oe_listen_key_refresh (gw_self w) = 0 \<or> b \<le> oe_listen_key_refresh (gw_self w)"

definition waits :: "nanoseconds \<Rightarrow> 'q oe \<Rightarrow> 'q oe \<Rightarrow> bool" where
  "waits b v w \<longleftrightarrow> settings_of w = settings_of v \<and> key_requests (gw_out w) = key_requests (gw_out v)
     \<and> (held b v \<longrightarrow> held b w)"

lemma waits_refl [simp]: "waits b w w"
  by (simp add: waits_def)

lemma waits_trans: "waits b u v \<Longrightarrow> waits b v w \<Longrightarrow> waits b u w"
  by (simp add: waits_def)

lemma waits_emit: "waits b v w \<Longrightarrow> key_requests [e] = 0 \<Longrightarrow> waits b v (emit e w)"
  by (simp add: waits_def held_def)

lemma waits_self:
  "waits b v w \<Longrightarrow> (\<And>s. oe_listen_key_refresh (f s) = oe_listen_key_refresh s) \<Longrightarrow> waits b v (upd_self f w)"
  by (simp add: waits_def held_def)

lemma waits_shared: "waits b v w \<Longrightarrow> (\<And>s. sh_settings (f s) = sh_settings s) \<Longrightarrow> waits b v (upd_shared f w)"
  by (simp add: waits_def held_def)

lemma waits_stale: "waits b v w \<Longrightarrow> waits b v (w\<lparr>gw_stale_orders := xs\<rparr>)"
  by (simp add: waits_def held_def)

interpretation wait: kept_rest "waits b" for b
  by unfold_locales (auto intro: waits_trans waits_emit)

lemmas waits_intros = waits_emit waits_self waits_shared waits_stale waits_refl

lemma waits_parsed:
  "(\<And>m w. waits b w (res_state (f m w))) \<Longrightarrow> waits b w (res_state (parsed p f w))"
  by (rule parsed_keeps) simp_all

lemma waits_errors:
  "waits b w (res_state (log_error o' s x t w))" "waits b w (res_state (commit sl w))"
  "waits b w (res_state (ack_error rt u i v o' s x t w))"
  by (simp_all add: log_error_def commit_def ack_error_def waits_emit)

lemma waits_status: "waits b w (oe_set_connection_status c t w)"
  by (auto simp: oe_set_connection_status_def Let_def intro!: waits_intros)

lemma waits_actions:
  "waits b w (res_state (order_place E ti source c ord rd request_id w))"
  "waits b w (res_state (order_modify E ti source m ord rd request_id w))"
  "waits b w (res_state (order_cancel E ti source k ord request_id w))"
  by (auto simp: order_place_def order_modify_def order_cancel_def Let_def
      intro!: waits_intros split: sum.splits option.splits)

lemma waits_cancel_all: "waits b w (open_orders_cancel_all E ti x request_id w)"
  unfolding open_orders_cancel_all_def
  by (rule wait.keep_fold) (auto simp: cancel_all_symbol_def Let_def intro!: waits_intros)

lemma waits_other: "oe_other v w \<Longrightarrow> waits b v w"
proof (induction rule: oe_other.induct)
  case (other_header w E name v)
  then show ?case
    by (auto simp: oe_message_header_def add_rate_limit_def Let_def intro!: waits_intros split: option.splits)
qed (auto simp: oe_start_def oe_stop_def oe_connected_def oe_latency_def oe_disconnected_def
    oe_message_begin_def oe_message_end_def waits_actions waits_cancel_all
    intro!: waits_intros waits_status)

section \<open>Responses\<close>

lemma waits_folds:
  "waits b w (on_account_balance_ack items w)" "waits b w (on_account_status_ack E ack w)"
  "waits b w (on_open_orders_ack os w)" "waits b w (on_trades_ack E ts w)"
  unfolding on_account_balance_ack_def on_account_status_ack_def on_open_orders_ack_def on_trades_ack_def
  by (rule wait.keep_fold, auto simp: on_balance_item_def on_position_item_def on_open_order_def
      on_trade_item_def Let_def intro!: waits_intros)+

lemma waits_acks:
  "waits b w (on_order_place_ack m u i v w)" "waits b w (on_order_modify_ack m u i v w)"
  "waits b w (on_order_cancel_ack m u i v w)" "waits b w (on_open_orders_cancel_all_ack code msg request_id w)"
  "waits b w (stale_order_done w)"
  by (auto simp: on_order_place_ack_def on_order_modify_ack_def on_order_cancel_ack_def
      on_open_orders_cancel_all_ack_def stale_order_done_def Let_def intro!: waits_intros)

lemma waits_downloads:
  "waits b w (res_state (get_account_balance_ack E r w))"
  "waits b w (res_state (get_account_status_ack E r w))"
  "waits b w (res_state (get_open_orders_ack E r w))"
  "waits b w (res_state (get_order_ack E r c w))"
  "waits b w (res_state (get_trades_ack E r w))"
  by (auto simp: get_account_balance_ack_def get_account_status_ack_def get_open_orders_ack_def
      get_order_ack_def get_trades_ack_def on_order_ack_def
      intro!: wait.keep_then wait.keep_response waits_parsed waits_folds waits_acks waits_intros waits_errors)

lemma waits_action_acks:
  "waits b w (res_state (order_place_ack E r u i v w))"
  "waits b w (res_state (order_modify_ack E r u i v w))"
  "waits b w (res_state (order_cancel_ack E r u i v w))"
  "waits b w (res_state (open_orders_cancel_all_ack E r request_id w))"
  "waits b w (res_state (countdown_cancel_all_ack E r w))"
  by (auto simp: order_place_ack_def order_modify_ack_def order_cancel_ack_def place_success_def
      modify_success_def cancel_success_def too_late_def open_orders_cancel_all_ack_def
      countdown_cancel_all_ack_def intro!: wait.keep_response waits_parsed waits_acks waits_errors waits_intros)

text \<open>A listen key that arrives puts the refresh off by the interval of the settings.\<close>

definition waits_for :: "settings \<Rightarrow> nanoseconds \<Rightarrow> 'q oe \<Rightarrow> 'q oe \<Rightarrow> bool" where
  "waits_for st b v w \<longleftrightarrow> (settings_of v = st \<longrightarrow> waits b v w)"

interpretation wait_for: kept_rest "waits_for st b" for st b
  by unfold_locales (auto simp: waits_for_def waits_def held_def)

lemma waits_listen_key:
  assumes "b \<le> ti_create_time ti + st_rest_listen_key_refresh (settings_of w)"
  shows "waits b w (res_state (get_listen_key_ack E ti r w))"
proof -
  have "waits_for (settings_of w) b w (res_state (get_listen_key_ack E ti r w))"
    unfolding get_listen_key_ack_def
  proof (rule wait_for.keep_response)
    fix body and v :: "'a oe"
    show "waits_for (settings_of w) b v (res_state (parsed (ge_listen_key E body) (\<lambda>key w.
        Ok (emit (Download_command (Download_check_relaxed OE_LISTEN_KEY)) (on_listen_key_ack ti key w))) v))"
      using assms by (cases "ge_listen_key E body")
        (auto simp: waits_for_def waits_def held_def on_listen_key_ack_def Let_def)
  qed (simp add: waits_for_def waits_emit)
  then show ?thesis by (simp add: waits_for_def)
qed

lemma waits_response:
  assumes "b \<le> ti_create_time ti + st_rest_listen_key_refresh (settings_of w)"
  shows "waits b w (res_state (oe_response E ti r cb request_id w))"
  by (cases cb) (simp_all add: oe_response_def waits_listen_key [OF assms] waits_downloads waits_action_acks)

section \<open>Timers and downloads\<close>

lemma waits_gets:
  "waits b w (get_account_balance E ti w)" "waits b w (get_account_status E ti w)"
  "waits b w (get_open_orders E ti w)" "waits b w (get_order E ti ord w)"
  by (auto simp: get_account_balance_def get_account_status_def get_open_orders_def get_order_def
      Let_def intro!: waits_intros)

lemma waits_get_trades: "waits b w (get_trades E ti w)"
  unfolding get_trades_def
  by (rule wait.keep_fold) (auto simp: get_trades_of_def Let_def intro!: waits_intros)

lemma waits_stale_requests: "waits b w (request_stale_orders E ti w)"
  unfolding request_stale_orders_def
  by (rule waits_stale [OF wait.keep_fold])
    (auto simp: request_stale_order_def intro!: waits_self waits_gets split: option.splits)

lemma waits_pending: "waits b v w \<Longrightarrow> (\<And>w. waits b w (f w)) \<Longrightarrow> waits b v (if_pending E s f w)"
  by (auto simp: if_pending_def intro: waits_trans)

lemma waits_queue: "waits b w (check_request_queue E ti w)"
  by (simp add: check_request_queue_def Let_def waits_pending waits_gets waits_get_trades waits_stale_requests)

lemma waits_countdown: "waits b w (countdown_cancel_all E ti w)"
  unfolding countdown_cancel_all_def
  by (rule wait.keep_fold) (auto simp: countdown_symbol_def Let_def intro!: waits_intros)

text \<open>After the refresh of the listen key, the timer does nothing that concerns it.\<close>

lemma timer_after_refresh:
  assumes "ge_refresh E" "stream_ready w"
  shows "waits b (refresh_listen_key E ti w) (oe_timer E ti now w)"
proof -
  have "waits b v (upd_self (\<lambda>s. s\<lparr>oe_next_auto_cancel := n\<rparr>) v)" for n and v :: "'a oe"
    by (auto intro!: waits_self)
  then show ?thesis
    using assms by (auto simp: oe_timer_def Let_def
        intro: waits_queue waits_trans [OF _ waits_queue] waits_trans [OF _ waits_countdown])
qed

lemma waits_timer: "held b w \<Longrightarrow> ti_create_time ti < b \<Longrightarrow> waits b w (oe_timer E ti now w)"
proof (cases "ge_refresh E \<and> stream_ready w")
  case True
  assume "held b w" "ti_create_time ti < b"
  then have "refresh_listen_key E ti w = w" by (auto simp: refresh_listen_key_def held_def)
  then show ?thesis using timer_after_refresh [of E w b ti now] True by simp
qed (auto simp: oe_timer_def)

lemma timer_asks:
  assumes "key_requests (gw_out (oe_timer E ti now w)) \<noteq> key_requests (gw_out w)"
  shows "key_requests (gw_out (oe_timer E ti now w)) = Suc (key_requests (gw_out w))
    \<and> settings_of (oe_timer E ti now w) = settings_of w
    \<and> held (ti_create_time ti + st_rest_listen_key_refresh (settings_of w)) (oe_timer E ti now w)"
proof -
  let ?b = "ti_create_time ti + st_rest_listen_key_refresh (settings_of w)"
  have "ge_refresh E \<and> stream_ready w"
  proof (rule ccontr)
    assume "\<not> (ge_refresh E \<and> stream_ready w)"
    then have "oe_timer E ti now w = w" by (auto simp: oe_timer_def)
    with assms show False by simp
  qed
  then have t: "ge_refresh E" "stream_ready w" by simp_all
  note k = timer_after_refresh [OF t, of ?b ti now]
  have "key_requests (gw_out (refresh_listen_key E ti w)) \<noteq> key_requests (gw_out w)"
    using assms k by (simp add: waits_def)
  then have "refresh_listen_key E ti w \<noteq> w" by auto
  then have "held ?b (refresh_listen_key E ti w)"
    "settings_of (refresh_listen_key E ti w) = settings_of w"
    "key_requests (gw_out (refresh_listen_key E ti w)) = Suc (key_requests (gw_out w))"
    by (auto simp: refresh_listen_key_def get_listen_key_def held_def split: if_splits)
  with k show ?thesis by (simp add: waits_def)
qed

lemma download_asks:
  "settings_of (snd (oe_download E state w)) = settings_of w"
  "held b w \<Longrightarrow> held b (snd (oe_download E state w))"
  "key_requests (gw_out (snd (oe_download E state w)))
     = key_requests (gw_out w) + (if state = OE_LISTEN_KEY then 1 else 0)"
  by (cases state; simp add: oe_download_def get_listen_key_def oe_set_connection_status_def Let_def held_def)+

section \<open>The window\<close>

lemma within_waits:
  assumes "oe_within t0 t1 forced n v w" "held t1 v"
    and "t1 \<le> t0 + st_rest_listen_key_refresh (settings_of v)"
    and "forced \<longrightarrow> t1 \<le> t0 + default_listen_key_refresh_delay"
  shows "settings_of w = settings_of v \<and> held t1 w \<and> key_requests (gw_out w) = key_requests (gw_out v) + n"
  using assms
proof (induction rule: oe_within.induct)
  case (within_timer forced n u v ti E now)
  then show ?case using waits_timer [of t1 v ti E now] by (auto simp: waits_def)
next
  case (within_force forced n u v ti)
  then show ?case
    by (auto simp: force_listen_key_refresh_def held_def)
next
  case (within_response forced n u v ti E r cb request_id)
  then show ?case using waits_response [of t1 ti v E r cb request_id] by (auto simp: waits_def)
next
  case (within_download forced n u v state E)
  then show ?case
    using download_asks [where E = E and state = state and w = v] by auto
next
  case (within_other forced n u v w)
  then show ?case using waits_other [of v w t1] by (auto simp: waits_def)
qed simp

text \<open>Every step of the stream is a run within some window.\<close>

lemma step_within: "oe_step v w \<Longrightarrow> \<exists>t0 t1 forced n. oe_within t0 t1 forced n v w"
proof (induction rule: oe_step.induct)
  case (step_timer w E ti now)
  have "ti_create_time ti \<in> {ti_create_time ti..<ti_create_time ti + 1}" by simp
  from within_timer [OF within_refl this] show ?case by blast
next
  case (step_force w ti)
  have "ti_create_time ti \<in> {ti_create_time ti..<ti_create_time ti + 1}" by simp
  from within_force [OF within_refl this] show ?case by blast
next
  case (step_response E w ti r cb request_id)
  have "ti_create_time ti \<in> {ti_create_time ti..<ti_create_time ti + 1}" by simp
  from within_response [OF within_refl this] show ?case by blast
next
  case (step_download w E state)
  from within_download [OF within_refl] show ?case by blast
qed (blast intro: within_other [OF within_refl] oe_other.intros)+

end
