(* ===== verification/Order_Entry_Properties.thy ===== *)
theory Order_Entry_Properties
  imports Sample_Env Listen_Key_Window
begin

text \<open>
  The properties of the REST order entry of an account.
\<close>

section \<open>Order requests are answered exactly once\<close>

text \<open>
  C8: A request to create an order is answered exactly once. Whatever response arrives for it
  (success with or without a readable body, any error status, a network error), the handler
  returns and has published exactly one \<open>Response\<close> for the order, of type CREATE_ORDER and
  with the version of the request. Excluded are responses that end the process, and the
  categories the code leaves unanswered when the status is 200.
\<close>

theorem order_place_answered_once:
  assumes "\<not> ends_process (settings_of w) r" "\<not> unexpected_ok E r"
  shows "\<exists>w' a. oe_response E ti r (CB_order_place u i) request_id w = Ok w'
    \<and> responses u i w' = responses u i w @ [a]
    \<and> re_request_type a = RequestType_CREATE_ORDER \<and> re_version a = 1"
  using place.exactly_one [OF _ assms, where u = u and i = i and v = 1]
  by (simp add: oe_response_def order_place_ack_def answer_to_def)

theorem order_place_answered_once_witness:
  "\<exists>w' a. oe_response sample_env (sample_trace 1) (sample_response 400 Category_CLIENT_ERROR)
      (CB_order_place 1 7) ''id'' sample_oe = Ok w'
    \<and> responses 1 7 w' = responses 1 7 sample_oe @ [a]
    \<and> re_request_type a = RequestType_CREATE_ORDER \<and> re_version a = 1"
  by (rule order_place_answered_once) (simp_all add: ends_process_def unexpected_ok_def sample_defs)

text \<open>
  A request to modify an order is answered exactly once, with the version of the request,
  when the fast order ack is not disabled.
\<close>

theorem order_modify_answered_once:
  assumes "\<not> ends_process (settings_of w) r" "\<not> unexpected_ok E r"
    and "\<not> st_disable_fast_order_ack (settings_of w)"
  shows "\<exists>w' a. oe_response E ti r (CB_order_modify u i v) request_id w = Ok w'
    \<and> responses u i w' = responses u i w @ [a]
    \<and> re_request_type a = RequestType_MODIFY_ORDER \<and> re_version a = v"
  using modify.exactly_one [OF assms(3,1,2), where u = u and i = i and v = v]
  by (simp add: oe_response_def order_modify_ack_def answer_to_def)

theorem order_modify_answered_once_witness:
  "\<exists>w' a. oe_response sample_env (sample_trace 1) (sample_response 503 Category_SERVER_ERROR)
      (CB_order_modify 1 7 2) ''id'' sample_oe = Ok w'
    \<and> responses 1 7 w' = responses 1 7 sample_oe @ [a]
    \<and> re_request_type a = RequestType_MODIFY_ORDER \<and> re_version a = 2"
  by (rule order_modify_answered_once) (simp_all add: ends_process_def unexpected_ok_def sample_defs)

text \<open>
  A request to cancel an order is answered exactly once, with the version of the request,
  when the fast order ack is not disabled.
\<close>

theorem order_cancel_answered_once:
  assumes "\<not> ends_process (settings_of w) r" "\<not> unexpected_ok E r"
    and "\<not> st_disable_fast_order_ack (settings_of w)"
  shows "\<exists>w' a. oe_response E ti r (CB_order_cancel u i v) request_id w = Ok w'
    \<and> responses u i w' = responses u i w @ [a]
    \<and> re_request_type a = RequestType_CANCEL_ORDER \<and> re_version a = v"
  using cancel.exactly_one [OF assms(3,1,2), where u = u and i = i and v = v]
  by (simp add: oe_response_def order_cancel_ack_def answer_to_def)

theorem order_cancel_answered_once_witness:
  "\<exists>w' a. oe_response sample_env (sample_trace 1) (sample_response 200 Category_SUCCESS)
      (CB_order_cancel 1 7 3) ''id'' sample_oe = Ok w'
    \<and> responses 1 7 w' = responses 1 7 sample_oe @ [a]
    \<and> re_request_type a = RequestType_CANCEL_ORDER \<and> re_version a = 3"
  by (rule order_cancel_answered_once) (simp_all add: ends_process_def unexpected_ok_def sample_defs)

section \<open>Too late\<close>

text \<open>
  C11: When the exchange answers a modify request with an order that is done (filled, canceled,
  expired, ...), or a cancel request with a filled order, the client gets one response
  REJECTED with TOO_LATE_TO_MODIFY_OR_CANCEL, whatever the settings, and nothing else happens.
\<close>

theorem too_late_rejected:
  assumes "rr_result r = Inr (status, Category_SUCCESS, body)"
    and "ge_modify E body = Inr m" "ge_cancel E body = Inr k"
    and "map_j_order_status_to_request_status (om_status m) = Some RequestStatus_REJECTED"
    and "om_status k = JOrderStatus_FILLED"
  shows "oe_response E ti r (CB_order_modify u i v) request_id w
        = Ok (emit (Pub_response (error_response RequestType_MODIFY_ORDER v Origin_EXCHANGE
            RequestStatus_REJECTED Error_TOO_LATE_TO_MODIFY_OR_CANCEL
            ''TOO_LATE_TO_MODIFY_OR_CANCEL'') (stream_of w) u i) w)
    \<and> oe_response E ti r (CB_order_cancel u i v) request_id w
        = Ok (emit (Pub_response (error_response RequestType_CANCEL_ORDER v Origin_EXCHANGE
            RequestStatus_REJECTED Error_TOO_LATE_TO_MODIFY_OR_CANCEL
            ''TOO_LATE_TO_MODIFY_OR_CANCEL'') (stream_of w) u i) w)"
  using assms
  by (cases "om_status m", simp_all add: oe_response_def order_modify_ack_def order_cancel_ack_def
      process_response_def process_body_def modify_success_def cancel_success_def too_late_def
      ack_error_def)

definition sample_filled :: order_msg where
  "sample_filled = (order_msg.truncate sample_order)\<lparr>om_status := JOrderStatus_FILLED\<rparr>"

definition sample_env_filled :: env where
  "sample_env_filled = sample_env\<lparr>ge_modify := \<lambda>_. Inr sample_filled, ge_cancel := \<lambda>_. Inr sample_filled\<rparr>"

theorem too_late_rejected_witness:
  "oe_response sample_env_filled (sample_trace 1) (sample_response 200 Category_SUCCESS)
      (CB_order_modify 1 7 2) [] sample_oe
    = Ok (emit (Pub_response (error_response RequestType_MODIFY_ORDER 2 Origin_EXCHANGE
        RequestStatus_REJECTED Error_TOO_LATE_TO_MODIFY_OR_CANCEL
        ''TOO_LATE_TO_MODIFY_OR_CANCEL'') (stream_of sample_oe) 1 7) sample_oe)"
  by (rule conjunct1 [OF too_late_rejected [where k = sample_filled and m = sample_filled]])
    (simp_all add: sample_env_filled_def sample_filled_def sample_response_def)


section \<open>Errors\<close>

text \<open>
  What an error response means for an order request. A rate limit (418, 429) suspends the
  connection for the time the exchange asks for, if it does, before the request is rejected
  with REQUEST_RATE_LIMIT_REACHED; 403 suspends it for the configured back-off delay first;
  any other client error rejects with the error the exchange's code stands for; a server
  error rejects with the text of the status.
\<close>

theorem order_place_error_responses:
  assumes "rr_result r = Inr (status, category, body)" "rr_retry_after r = [retry]"
    and "ge_relaxed_i64 E retry = Some t" "t \<noteq> 0" "ge_error E body = Inr (code, msg)"
    and "\<not> st_rest_terminate_on_403 (settings_of w)" "status \<noteq> 409 \<or> \<not> st_assertions (settings_of w)"
    and "category \<in> {Category_CLIENT_ERROR, Category_SERVER_ERROR}"
  shows "oe_response E ti r (CB_order_place u i) request_id w = Ok (
      let reject = (\<lambda>error text. Pub_response (error_response RequestType_CREATE_ORDER 1
            Origin_EXCHANGE RequestStatus_REJECTED error text) (stream_of w) u i);
          limit = reject Error_REQUEST_RATE_LIMIT_REACHED (ge_status_text E status)
      in if category = Category_SERVER_ERROR
         then emit (reject Error_UNKNOWN (ge_status_text E status)) w
         else if status = 403 then emit limit (emit (Conn_suspend_for (seconds t))
             (emit (Conn_suspend_for (st_rest_back_off_delay (settings_of w))) w))
         else if status = 418 \<or> status = 429 then emit limit (emit (Conn_suspend_for (seconds t)) w)
         else emit (reject (guess_error code) msg) w)"
  using assms
  by (auto simp: oe_response_def order_place_ack_def process_response_def process_body_def
      waf_limit_violation_def rate_limited_def get_retry_after_def ack_error_def Let_def seconds_def)

theorem order_place_error_responses_witness:
  "oe_response sample_env (sample_trace 1) (sample_response 429 Category_CLIENT_ERROR)
      (CB_order_place 1 7) [] sample_oe
    = Ok (emit (Pub_response (error_response RequestType_CREATE_ORDER 1
            Origin_EXCHANGE RequestStatus_REJECTED Error_REQUEST_RATE_LIMIT_REACHED ''429'') 3 1 7)
        (emit (Conn_suspend_for (seconds 30)) sample_oe))"
proof -
  have n: "ge_relaxed_i64 sample_env ''30'' = Some 30" "ge_status_text sample_env 429 = ''429''"
    by code_simp+
  show ?thesis
    using order_place_error_responses [of "sample_response 429 Category_CLIENT_ERROR" 429
        Category_CLIENT_ERROR "''body''" "''30''" sample_env 30 "-2011" "''Unknown order sent.''"
        sample_oe "sample_trace 1" 1 7 "[]"] n
    by (simp add: sample_response_def) (simp add: sample_defs)
qed

definition no_acceptance :: "u8 \<Rightarrow> u64 \<Rightarrow> 'q oe \<Rightarrow> (exn, 'q oe) res \<Rightarrow> bool" where
  "no_acceptance u i w x = (\<forall>w'. x = Ok w' \<longrightarrow>
     (\<exists>as. responses u i w' = responses u i w @ as
        \<and> (\<forall>a \<in> set as. re_request_status a \<noteq> RequestStatus_ACCEPTED)))"

lemma no_acceptance_error:
  "responses u i v = responses u i w \<Longrightarrow> s \<noteq> RequestStatus_ACCEPTED \<Longrightarrow>
     no_acceptance u i w (ack_error rt u i n o' s x t v)"
  by (auto simp: no_acceptance_def ack_error_def List.map_filter_def error_response_def)

lemma no_acceptance_fatal: "no_acceptance u i w (Fatal m v)"
  by (simp add: no_acceptance_def)

lemma no_acceptance_same: "no_acceptance u i w (Ok w)"
  by (auto simp: no_acceptance_def intro: exI [of _ "[]"])

lemma no_acceptance_Ok_error:
  "no_acceptance u i w (case ack_error rt u i n o' s x t v of Ok z \<Rightarrow> Ok z | Throw e z \<Rightarrow> f e z | Fatal m z \<Rightarrow> Fatal m z)
     = no_acceptance u i w (ack_error rt u i n o' s x t v)"
  by (simp add: ack_error_def)

lemma no_acceptance_response:
  assumes r: "rr_result r = Inr (status, category, body)" "category \<noteq> Category_SUCCESS"
    and e: "\<forall>e. ge_error E body = Inl e \<or> ge_expect_ok E status = Some e \<longrightarrow>
      fst (snd (caught E e)) \<noteq> RequestStatus_ACCEPTED"
  shows "no_acceptance u i w (process_response E r (ack_error rt u i n) succ w)"
proof -
  have c: "no_acceptance u i w (case caught E e of (o', s, x, t) \<Rightarrow> ack_error rt u i n o' s x t w)"
    if "fst (snd (caught E e)) \<noteq> RequestStatus_ACCEPTED" for e
    using that by (auto split: prod.splits intro: no_acceptance_error)
  show ?thesis
  proof (cases category)
    case Category_CLIENT_ERROR
    then show ?thesis
      using r e c
      by (cases "ge_error E body")
        (auto simp: process_response_def process_body_def rate_limited_def waf_limit_violation_def
          Let_def no_acceptance_Ok_error no_acceptance_fatal intro!: no_acceptance_error)
  qed (use r e c in \<open>auto simp: process_response_def process_body_def no_acceptance_Ok_error
       no_acceptance_fatal no_acceptance_same intro!: no_acceptance_error split: option.splits\<close>)
qed

text \<open>
  A request is reported as accepted only when the exchange said so: unless the response
  is a success with a readable body, the published status is not ACCEPTED (provided that
  exceptions are not translated into it).
\<close>

theorem order_place_not_accepted:
  assumes "rr_result r = Inr (status, category, body)"
    and "category \<noteq> Category_SUCCESS \<or> (\<exists>e. ge_place E body = Inl e)"
    and "\<forall>e. ge_error E body = Inl e \<or> ge_place E body = Inl e \<or> ge_expect_ok E status = Some e \<longrightarrow>
      fst (snd (caught E e)) \<noteq> RequestStatus_ACCEPTED"
    and "oe_response E ti r (CB_order_place u i) request_id w = Ok w'"
  shows "\<exists>as. responses u i w' = responses u i w @ as
    \<and> (\<forall>a \<in> set as. re_request_status a \<noteq> RequestStatus_ACCEPTED)"
proof -
  have "no_acceptance u i w (order_place_ack E r u i 1 w)"
  proof (cases "category = Category_SUCCESS")
    case True
    then obtain e where "ge_place E body = Inl e" "fst (snd (caught E e)) \<noteq> RequestStatus_ACCEPTED"
      using assms(2,3) by blast
    then show ?thesis
      using assms(1) True
      by (auto simp: order_place_ack_def process_response_def process_body_def place_success_def
          split: prod.splits intro: no_acceptance_error)
  next
    case False
    then show ?thesis
      unfolding order_place_ack_def
      by (intro no_acceptance_response [OF assms(1) False]) (use assms(3) in blast)
  qed
  then show ?thesis
    using assms(4) by (simp add: no_acceptance_def oe_response_def)
qed

theorem order_place_not_accepted_witness:
  "\<exists>as. responses 1 7 (res_state (oe_response sample_env (sample_trace 1)
      (sample_response 503 Category_SERVER_ERROR) (CB_order_place 1 7) [] sample_oe))
      = responses 1 7 sample_oe @ as
    \<and> filter (\<lambda>a. re_request_status a = RequestStatus_ACCEPTED) as = []"
proof -
  have "\<exists>as. responses 1 7 (res_state (oe_response sample_env (sample_trace 1)
      (sample_response 503 Category_SERVER_ERROR) (CB_order_place 1 7) [] sample_oe))
      = responses 1 7 sample_oe @ as
    \<and> (\<forall>a \<in> set as. re_request_status a \<noteq> RequestStatus_ACCEPTED)"
    by (rule order_place_not_accepted [where E = sample_env and ti = "sample_trace 1"
        and r = "sample_response 503 Category_SERVER_ERROR" and status = 503
        and category = Category_SERVER_ERROR and body = "''body''" and request_id = "[]"])
      (auto simp: sample_response_def sample_env_def oe_response_def order_place_ack_def
        process_response_def process_body_def ack_error_def)
  then show ?thesis by (auto simp: filter_empty_conv)
qed

section \<open>Sending order requests\<close>

text \<open>
  While the connection is not ready, no order request is sent: create, modify and cancel
  throw \<open>NotReady\<close> and leave everything as it was.
\<close>

theorem not_ready_nothing_sent:
  assumes "sm_connection_status (gw_self w) \<noteq> ConnectionStatus_READY"
  shows "order_place E ti source c ord rd request_id w = Throw (Oms_NotReady ''not ready'') w
    \<and> order_modify E ti source m ord rd request_id w = Throw (Oms_NotReady ''not ready'') w
    \<and> order_cancel E ti source k ord request_id w = Throw (Oms_NotReady ''not ready'') w"
  using assms by (simp add: order_place_def order_modify_def order_cancel_def stream_ready_def)

definition sample_oms_order :: oms_order where
  "sample_oms_order = the (ge_find_order sample_env 1 7)"

theorem not_ready_nothing_sent_witness:
  "order_cancel sample_env (sample_trace 1) 1 \<lparr> ca_order_id = 7, ca_version = 2 \<rparr>
      sample_oms_order ''id'' (oe_disconnected sample_oe)
     = Throw (Oms_NotReady ''not ready'') (oe_disconnected sample_oe)"
  by (rule conjunct2 [OF conjunct2 [OF not_ready_nothing_sent]])
    (simp add: oe_disconnected_def oe_set_connection_status_def Let_def)

text \<open>
  C10: Every order that is placed stays within reach of the cancel-all requests: whatever happens
  after the order was sent (disconnects included), a cancel-all that names the symbol of the order
  sends exactly one request, and its body is the one for this symbol.
\<close>

theorem cancel_all_reaches_placed_orders:
  assumes "order_place E ti source c ord rd request_id w = Ok v"
    and "oe_run v w'" "distinct (oe_open_orders_symbols (gw_self w))"
    and "cx_symbol x = co_symbol c" "co_symbol c \<noteq> []"
  shows "map (rq_body \<circ> fst) (rest_sent (gw_out (open_orders_cancel_all E2 ti2 x request_id2 w')))
    = map (rq_body \<circ> fst) (rest_sent (gw_out w'))
      @ [all_open_orders_url (co_symbol c) (to_ms (st_rest_order_recv_window (settings_of w)))]"
proof -
  have v: "co_symbol c \<in> set (oe_open_orders_symbols (gw_self v))"
    using assms(1) by (auto simp: order_place_def Let_def split: if_splits option.splits)
  have placed: "oe_keeps w v"
    using keeps_actions(1) [of w E ti source c ord rd request_id] by (simp add: assms(1))
  have later: "oe_keeps v w'" using assms(2) by (rule keeps_run)
  have "oe_keeps w w'" using placed later by (rule keeps_trans)
  then have w': "distinct (oe_open_orders_symbols (gw_self w'))" "settings_of w' = settings_of w"
    using assms(3) unfolding oe_keeps_def by blast+
  have "co_symbol c \<in> set (oe_open_orders_symbols (gw_self w'))"
    using v later unfolding oe_keeps_def by auto
  then have "cancel_targets x (oe_open_orders_symbols (gw_self w')) = [co_symbol c]"
    using cancel_targets_one [OF w'(1), of x] assms(4,5) by simp
  then show ?thesis
    using w'(2) by (simp add: open_orders_cancel_all_def cancel_all_fold)
qed

definition sample_create_order :: create_order where
  "sample_create_order = \<lparr> co_order_id = 9, co_symbol = ''XRPUSDT'', co_side = Side_BUY,
     co_order_type = OrderType_LIMIT, co_time_in_force = TimeInForce_GTC,
     co_execution_instructions = [], co_execution_destination = [], co_quantity = Fin 1,
     co_price = Fin 100, co_stop_price = NaN \<rparr>"

definition sample_cancel_all :: "string \<Rightarrow> cancel_all_orders" where
  "sample_cancel_all symbol = \<lparr> cx_exchange = [], cx_symbol = symbol, cx_side = Side_UNDEFINED \<rparr>"

theorem cancel_all_reaches_placed_orders_witness:
  "let v = res_state (order_place sample_env (sample_trace 1) 1 sample_create_order sample_oms_order (ge_ref_data sample_env [] []) ''id'' sample_oe)
   in map (rq_body \<circ> fst) (rest_sent (gw_out (open_orders_cancel_all sample_env (sample_trace 2)
        (sample_cancel_all ''XRPUSDT'') ''id'' (oe_disconnected v))))
    = map (rq_body \<circ> fst) (rest_sent (gw_out (oe_disconnected v)))
      @ [all_open_orders_url ''XRPUSDT'' (to_ms (st_rest_order_recv_window (settings_of sample_oe)))]"
proof -
  define v where
    "v = res_state (order_place sample_env (sample_trace 1) 1 sample_create_order sample_oms_order (ge_ref_data sample_env [] []) ''id'' sample_oe)"
  have v: "order_place sample_env (sample_trace 1) 1 sample_create_order sample_oms_order (ge_ref_data sample_env [] []) ''id'' sample_oe = Ok v"
    by (simp add: v_def order_place_def Let_def stream_ready_def sample_oe_def order_place_asserts_def
        sample_create_order_def isnan_def split: option.split)
  have run: "oe_run v (oe_disconnected v)" by (blast intro: run_refl run_step step_disconnected)
  have s: "co_symbol sample_create_order = ''XRPUSDT''"
      "cx_symbol (sample_cancel_all ''XRPUSDT'') = ''XRPUSDT''"
      "distinct (oe_open_orders_symbols (gw_self sample_oe))"
    by (simp_all add: sample_create_order_def sample_cancel_all_def sample_oe_def)
  show ?thesis
    using cancel_all_reaches_placed_orders [OF v run s(3), of "sample_cancel_all ''XRPUSDT''" sample_env
        "sample_trace 2" "''id''"]
    unfolding Let_def v_def [symmetric] s by simp
qed

text \<open>
  A cancel-all that names no symbol sends one request for each symbol the account has had
  orders in, in their order, and forwards one ack for each request.
\<close>

theorem cancel_all_requests:
  assumes "cx_symbol x = []"
  shows "map (rq_body \<circ> fst) (rest_sent (gw_out (open_orders_cancel_all E ti x request_id w)))
      = map (rq_body \<circ> fst) (rest_sent (gw_out w))
        @ map (\<lambda>s. all_open_orders_url s (to_ms (st_rest_order_recv_window (settings_of w))))
            (oe_open_orders_symbols (gw_self w))
    \<and> map ck_request_status (cancel_acks (gw_out (open_orders_cancel_all E ti x request_id w)))
      = map ck_request_status (cancel_acks (gw_out w))
        @ replicate (length (oe_open_orders_symbols (gw_self w))) RequestStatus_FORWARDED"
  using assms by (simp add: open_orders_cancel_all_def cancel_all_fold cancel_targets_def)

theorem cancel_all_requests_witness:
  "length (rest_sent (gw_out (open_orders_cancel_all sample_env (sample_trace 1)
     (sample_cancel_all []) ''id'' sample_oe))) = 2"
proof -
  have "map (rq_body \<circ> fst) (rest_sent (gw_out (open_orders_cancel_all sample_env (sample_trace 1)
     (sample_cancel_all []) ''id'' sample_oe))) = map (\<lambda>s. all_open_orders_url s
       (to_ms (st_rest_order_recv_window (settings_of sample_oe)))) [''BTCUSDT'', ''ETHUSDT'']"
    using cancel_all_requests [of "sample_cancel_all []" sample_env "sample_trace 1" "''id''" sample_oe]
    by (simp add: sample_cancel_all_def) (simp add: sample_oe_def)
  from arg_cong [OF this, of length] show ?thesis by simp
qed

text \<open>
  The answer of the exchange to a cancel-all that succeeded (code 200) is published as
  ACCEPTED and, at the same time, with the error UNKNOWN: \<open>guess_error\<close> has no case for 200.
\<close>

theorem cancel_all_success_carries_error:
  assumes "rr_result r = Inr (status, Category_SUCCESS, body)"
    and "ge_cancel_all E body = Inr (200, msg)"
  shows "\<exists>w' a. oe_response E ti r CB_open_orders_cancel_all request_id w = Ok w'
    \<and> cancel_acks (gw_out w') = cancel_acks (gw_out w) @ [a]
    \<and> ck_request_status a = RequestStatus_ACCEPTED \<and> ck_error a = Error_UNKNOWN"
  using assms
  by (simp add: oe_response_def open_orders_cancel_all_ack_def process_response_def process_body_def
      on_open_orders_cancel_all_ack_def guess_error_def)

theorem cancel_all_success_carries_error_witness:
  "\<exists>w' a. oe_response sample_env (sample_trace 1) (sample_response 200 Category_SUCCESS)
      CB_open_orders_cancel_all ''id'' sample_oe = Ok w'
    \<and> cancel_acks (gw_out w') = cancel_acks (gw_out sample_oe) @ [a]
    \<and> ck_request_status a = RequestStatus_ACCEPTED \<and> ck_error a = Error_UNKNOWN"
  by (rule cancel_all_success_carries_error [where status = 200 and body = "''body''"])
    (simp_all add: sample_response_def sample_env_def)

section \<open>Stale orders\<close>

lemma request_stale_order_same:
  "stale_commits (gw_out (fold (request_stale_order E ti) keys w)) = stale_commits (gw_out w)"
  "gw_shared (fold (request_stale_order E ti) keys w) = gw_shared w"
  by (induction keys arbitrary: w)
    (simp_all add: request_stale_order_def get_order_def Let_def split: option.splits)

lemma request_stale_orders_effect:
  "oe_stale_orders_counter (gw_self (request_stale_orders E ti w))
     = oe_stale_orders_counter (gw_self w) + length (stale_found E (gw_stale_orders w))"
  "stale_commits (gw_out (request_stale_orders E ti w)) = stale_commits (gw_out w)"
  "gw_shared (request_stale_orders E ti w) = gw_shared w"
  by (simp_all add: request_stale_orders_def request_stale_order_effect request_stale_order_same)

text \<open>
  C12: The download of stale orders completes exactly once: after one round of requests, when
  all of them have been answered, in any order and each with any response, the slot has been
  committed once and no request is outstanding. If no order of the round is known any more, no
  request is sent and the slot is not committed at all.
\<close>

theorem stale_orders_complete_once:
  assumes "oe_stale_orders_counter (gw_self w) = 0"
    and "length answers = length (stale_found E (gw_stale_orders w))"
    and "\<forall>(E, r, c) \<in> set answers. \<not> ends_process (settings_of w) r"
  shows "\<exists>w'. stale_answers answers (request_stale_orders E ti w) = Ok w'
    \<and> oe_stale_orders_counter (gw_self w') = 0
    \<and> stale_commits (gw_out w') = stale_commits (gw_out w)
        + (if stale_found E (gw_stale_orders w) = [] then 0 else 1)"
proof -
  have "settings_of (request_stale_orders E ti w) = settings_of w"
    by (simp add: request_stale_orders_effect)
  moreover have "answers = [] \<longleftrightarrow> stale_found E (gw_stale_orders w) = []"
    using assms(2) by auto
  ultimately show ?thesis
    using stale_answers_commit [of answers "request_stale_orders E ti w"] assms
    by (simp add: request_stale_orders_effect)
qed

theorem stale_orders_complete_once_witness:
  "\<exists>w'. stale_answers [(sample_env, sample_response 503 Category_SERVER_ERROR, ''c'')]
      (request_stale_orders sample_env (sample_trace 1) sample_oe) = Ok w'
    \<and> oe_stale_orders_counter (gw_self w') = 0
    \<and> stale_commits (gw_out w') = 1"
proof -
  have "stale_found sample_env (gw_stale_orders sample_oe) \<noteq> []"
      "length (stale_found sample_env (gw_stale_orders sample_oe)) = 1"
    by (simp_all add: sample_oe_def sample_env_def)
  then show ?thesis
    using stale_orders_complete_once [of sample_oe
        "[(sample_env, sample_response 503 Category_SERVER_ERROR, ''c'')]" sample_env "sample_trace 1"]
    by (simp add: sample_oe_def oe_create_def sample_response_def ends_process_def)
qed

section \<open>Listen key\<close>

text \<open>
  C14: The timer of an order entry asks for a listen key at most once per refresh interval. After a timer has asked for
  one (it sends one request), no timer asks again before the interval of the settings is over, whatever else happens in this time: answers of the
  exchange, order requests, timers, connections that come and go. Every request there is in this time is that of the
  download of a new connection. Only when the controller forces a refresh may the timer
  ask earlier, and then not before ten seconds have passed.
\<close>

theorem listen_key_once_per_interval:
  assumes "key_requests (gw_out (oe_timer E ti now w)) \<noteq> key_requests (gw_out w)"
    and "oe_within (ti_create_time ti) t1 forced n (oe_timer E ti now w) w'"
    and "t1 \<le> ti_create_time ti + st_rest_listen_key_refresh (settings_of w)"
    and "forced \<longrightarrow> t1 \<le> ti_create_time ti + seconds 10"
  shows "key_requests (gw_out (oe_timer E ti now w)) = Suc (key_requests (gw_out w))
    \<and> key_requests (gw_out w') = key_requests (gw_out (oe_timer E ti now w)) + n"
proof -
  note t = timer_asks [OF assms(1)]
  then have "held t1 (oe_timer E ti now w)" using assms(3) by (auto simp: held_def)
  from within_waits [OF assms(2) this] t assms(3,4) show ?thesis
    by (simp add: default_listen_key_refresh_delay_def)
qed

definition sample_refresh :: "unit oe" where
  "sample_refresh = upd_self (\<lambda>s. s\<lparr>oe_listen_key_refresh := 1\<rparr>) sample_oe"

theorem listen_key_once_per_interval_witness:
  "let v = oe_timer sample_env (sample_trace 11) 0 sample_refresh;
       w = oe_timer sample_env (sample_trace 20) 0 (force_listen_key_refresh (sample_trace 12) (oe_disconnected v))
   in key_requests (gw_out v) = Suc (key_requests (gw_out sample_refresh))
     \<and> key_requests (gw_out w) = key_requests (gw_out v)"
proof -
  let ?v = "oe_timer sample_env (sample_trace 11) 0 sample_refresh"
  let ?w = "oe_timer sample_env (sample_trace 20) 0
    (force_listen_key_refresh (sample_trace 12) (oe_disconnected ?v))"
  have t: "ti_create_time (sample_trace n) = seconds n" for n by (simp add: sample_trace_def)
  have r: "ge_refresh sample_env" "stream_ready sample_refresh"
    by (simp_all add: sample_env_def sample_refresh_def stream_ready_def sample_oe_def)
  have 1: "key_requests (gw_out ?v) \<noteq> key_requests (gw_out sample_refresh)"
    using timer_after_refresh [OF r, of 0 "sample_trace 11" 0] r(2)
    by (simp add: waits_def refresh_listen_key_requests t seconds_def) (simp add: sample_refresh_def)
  have "oe_within (seconds 11) (seconds 21) True 0 ?v ?w"
    by (rule within_timer [OF within_force [OF within_other [OF within_refl other_disconnected]]])
      (simp_all add: t seconds_def)
  moreover have "seconds 21 \<le> seconds 11 + st_rest_listen_key_refresh (settings_of sample_refresh)"
    by (simp add: sample_refresh_def sample_oe_def sample_shared_def sample_settings_def seconds_def)
  ultimately show ?thesis
    using listen_key_once_per_interval [OF 1, of "seconds 21" True 0 ?w] by (simp add: t Let_def seconds_def)
qed

text \<open>
  C13: An order entry announces its listen key at most once in its life, however often the
  key is refreshed or changes and whatever else happens to it.
\<close>

theorem listen_key_announced_once:
  assumes "oe_run w w'" "gw_out w = []" "gw_self w = oe_create stream_id acc"
  shows "length (filter key_update (gw_out w')) \<le> 1"
proof -
  have "oe_keeps w w'" using assms(1) by (rule keeps_run)
  then have "announcements w' \<le> announcements w" by (simp add: oe_keeps_def)
  then show ?thesis using assms(2,3) by (simp add: announcements_def oe_create_def)
qed

definition sample_fresh :: "(oe_classic, unit) gw" where
  "sample_fresh = \<lparr> gw_self = oe_create 3 sample_account, gw_shared = sample_shared,
     gw_stale_orders = [], gw_out = [] \<rparr>"

theorem listen_key_announced_once_witness:
  "let r = (\<lambda>w. res_state (oe_response sample_env (sample_trace 1)
              (sample_response 200 Category_SUCCESS) (CB_listen_key 1) ''id'' w))
   in length (filter key_update (gw_out (r (r sample_fresh)))) \<le> 1"
proof -
  have "key_ok sample_env" by (simp add: key_ok_def sample_env_def)
  then have "oe_run w (res_state (oe_response sample_env (sample_trace 1)
      (sample_response 200 Category_SUCCESS) (CB_listen_key 1) ''id''
      (res_state (oe_response sample_env (sample_trace 1)
      (sample_response 200 Category_SUCCESS) (CB_listen_key 1) ''id'' w))))" for w :: "unit oe"
    by (blast intro: run_refl run_step step_response)
  then show ?thesis
    unfolding Let_def by (rule listen_key_announced_once) (simp_all add: sample_fresh_def)
qed

section \<open>Rate limits\<close>

text \<open>What a header adds to the list, and a whole response.\<close>

definition header_limits :: "env \<Rightarrow> 'q oe \<Rightarrow> string \<times> string \<Rightarrow> rate_limit list" where
  "header_limits E w h =
     (let one = (\<lambda>name t limit. if ge_same_text E (fst h) name
            then (case ge_relaxed_u32 E (snd h) of
                Some n \<Rightarrow> [\<lparr> rl_type = t, rl_period = minutes 1, rl_limit = limit, rl_value = n \<rparr>]
              | None \<Rightarrow> []) else [])
      in one ''x-mbx-used-weight-1m'' RateLimit_REQUEST_WEIGHT (sh_limits_request_weight_1m (gw_shared w))
         @ one ''x-mbx-order-count-1m'' RateLimit_CREATE_ORDER (sh_limits_create_order_1m (gw_shared w)))"

definition oe_message :: "env \<Rightarrow> (string \<times> string) list \<Rightarrow> 'q oe \<Rightarrow> 'q oe" where
  "oe_message E headers w =
     oe_message_end (fold (\<lambda>(n, v). oe_message_header E n v) headers (oe_message_begin w))"

lemma message_header_effect:
  "sh_rate_limits (gw_shared (oe_message_header E n v w))
     = sh_rate_limits (gw_shared w) @ header_limits E w (n, v)"
  "gw_out (oe_message_header E n v w) = gw_out w"
  "gw_self (oe_message_header E n v w) = gw_self w"
  "sh_limits_request_weight_1m (gw_shared (oe_message_header E n v w))
     = sh_limits_request_weight_1m (gw_shared w)"
  "sh_limits_create_order_1m (gw_shared (oe_message_header E n v w))
     = sh_limits_create_order_1m (gw_shared w)"
  by (simp_all add: oe_message_header_def header_limits_def add_rate_limit_def Let_def
      split: option.splits)

lemma message_headers_effect:
  fixes E :: env and w :: "'q oe"
  defines "h \<equiv> \<lambda>hs (w :: 'q oe). fold (\<lambda>(n, v). oe_message_header E n v) hs w"
  shows "sh_rate_limits (gw_shared (h hs w))
      = sh_rate_limits (gw_shared w) @ concat (map (header_limits E w) hs)"
    and "gw_out (h hs w) = gw_out w" "gw_self (h hs w) = gw_self w"
  unfolding h_def
proof (induction hs arbitrary: w)
  case (Cons p hs)
  obtain n v where p: "p = (n, v)" by (cases p)
  have same: "header_limits E (oe_message_header E n v w) = header_limits E w" for w :: "'q oe"
    by (rule ext) (simp add: header_limits_def message_header_effect)
  {
    case 1 show ?case by (simp add: p Cons.IH(1) same message_header_effect)
  next
    case 2 show ?case by (simp add: p Cons.IH(2) message_header_effect)
  next
    case 3 show ?case by (simp add: p Cons.IH(3) message_header_effect)
  }
qed simp_all

text \<open>
  The rate limits of a response are published once, at its end, with the limits and values
  of its headers in the order of the headers, and nothing of an earlier response is left in
  them; a response without such headers publishes nothing. The list is empty afterwards.
\<close>

theorem rate_limits_of_response:
  "gw_out (oe_message E headers w) = gw_out w @
     (let limits = concat (map (header_limits E w) headers) in
      if limits = [] then []
      else [Pub_rate_limits \<lparr> ru_stream_id = stream_of w, ru_account = name_of w,
              ru_origin = Origin_EXCHANGE, ru_rate_limits = limits \<rparr>])
   \<and> sh_rate_limits (gw_shared (oe_message E headers w)) = []"
proof -
  let ?v = "fold (\<lambda>(n, v). oe_message_header E n v) headers (oe_message_begin w)"
  have b: "sh_rate_limits (gw_shared (oe_message_begin w)) = []" "gw_out (oe_message_begin w) = gw_out w"
    "gw_self (oe_message_begin w) = gw_self w"
    "header_limits E (oe_message_begin w) = header_limits E w"
    by (simp_all add: oe_message_begin_def header_limits_def fun_eq_iff)
  have v: "sh_rate_limits (gw_shared ?v) = concat (map (header_limits E w) headers)"
    "gw_out ?v = gw_out w" "gw_self ?v = gw_self w"
    using message_headers_effect [of E headers "oe_message_begin w"] b by simp_all
  show ?thesis by (simp add: oe_message_def oe_message_end_def v Let_def)
qed

section \<open>Downloads\<close>

text \<open>
  No download gets stuck: whatever the response to a request for balances, positions, open
  orders or trades (errors and unreadable bodies included), unless it ends the process, the
  handler returns and its last act is to commit the slot of the download.
\<close>

theorem downloads_release_slot:
  assumes "\<not> ends_process (settings_of w) r"
    and "(cb, s) \<in> {(CB_account_balance, Slot_balances), (CB_account_status, Slot_positions),
      (CB_open_orders, Slot_open_orders), (CB_trades, Slot_trades)}"
  shows "\<exists>v. oe_response E ti r cb request_id w = Ok (emit (Slot_commit s) v)"
proof -
  have c: "\<exists>v. and_then (process_response E r log_error succ w) (commit s) = Ok (emit (Slot_commit s) v)"
    if "never_fatal succ" for succ s
    using commit_after_response [OF assms(1) that] by blast
  show ?thesis
    using assms(2)
    by (auto simp: oe_response_def get_account_balance_ack_def get_account_status_ack_def
        get_open_orders_ack_def get_trades_ack_def intro!: c)
qed

theorem downloads_release_slot_witness:
  "\<exists>v. oe_response sample_env (sample_trace 1) (sample_response 500 Category_SERVER_ERROR)
      CB_trades ''id'' sample_oe = Ok (emit (Slot_commit Slot_trades) v)"
  by (rule downloads_release_slot) (simp_all add: ends_process_def sample_response_def)

fun positions_of :: "effect list \<Rightarrow> position_update list" where
  "positions_of [] = []"
| "positions_of (Pub_position p # es) = p # positions_of es"
| "positions_of (_ # es) = positions_of es"

lemma positions_of_append [simp]: "positions_of (es @ fs) = positions_of es @ positions_of fs"
  by (induction es rule: positions_of.induct) simp_all

lemma positions_fold:
  "positions_of (gw_out (fold (on_position_item E t) items w)) = positions_of (gw_out w) @
     concat (map (\<lambda>i. if ge_discard_symbol E (pi_symbol i) then [] else
       [\<lparr> pu_stream_id = stream_of w, pu_account = name_of w, pu_exchange = st_exchange (settings_of w),
          pu_symbol = pi_symbol i,
          pu_margin_mode = (if pi_isolated i then MarginMode_ISOLATED else MarginMode_CROSS),
          pu_long_quantity = fmax 0 (pi_position_amt i),
          pu_short_quantity = fmax 0 (- pi_position_amt i),
          pu_update_type = UpdateType_SNAPSHOT, pu_exchange_time_utc = t, pu_sending_time_utc = 0 \<rparr>]) items)"
proof (induction items arbitrary: w)
  case (Cons i items)
  have same: "gw_self (on_position_item E t i w) = gw_self w"
    "gw_shared (on_position_item E t i w) = gw_shared w"
    by (simp_all add: on_position_item_def)
  show ?case unfolding fold_simps Cons.IH same by (simp add: on_position_item_def)
qed simp

text \<open>
  The positions of an account are published one by one, in the order of the exchange and
  without the discarded symbols; no quantity is negative, and for an amount that is a number
  at most one of the two is not zero, and it is the magnitude of the amount.
\<close>

theorem positions_published:
  assumes "\<forall>i \<in> set (as_positions ack). \<not> isnan (pi_position_amt i)"
  shows "\<exists>ps. positions_of (gw_out (on_account_status_ack E ack w)) = positions_of (gw_out w) @ ps
    \<and> list_all2 (\<lambda>i p. pu_symbol p = pi_symbol i \<and> pu_account p = name_of w
         \<and> fnonneg (pu_long_quantity p) \<and> fnonneg (pu_short_quantity p)
         \<and> (pu_long_quantity p = pi_position_amt i \<and> pu_short_quantity p = 0
            \<or> pu_long_quantity p = 0 \<and> pu_short_quantity p = - pi_position_amt i))
       (filter (\<lambda>i. \<not> ge_discard_symbol E (pi_symbol i)) (as_positions ack)) ps"
proof -
  have split: "list_all2 (\<lambda>i p. pu_symbol p = pi_symbol i \<and> pu_account p = name_of w
         \<and> fnonneg (pu_long_quantity p) \<and> fnonneg (pu_short_quantity p)
         \<and> (pu_long_quantity p = pi_position_amt i \<and> pu_short_quantity p = 0
            \<or> pu_long_quantity p = 0 \<and> pu_short_quantity p = - pi_position_amt i))
       (filter (\<lambda>i. \<not> ge_discard_symbol E (pi_symbol i)) items)
       (concat (map (\<lambda>i. if ge_discard_symbol E (pi_symbol i) then [] else
         [\<lparr> pu_stream_id = stream_of w, pu_account = name_of w, pu_exchange = st_exchange (settings_of w),
          pu_symbol = pi_symbol i,
          pu_margin_mode = (if pi_isolated i then MarginMode_ISOLATED else MarginMode_CROSS),
          pu_long_quantity = fmax 0 (pi_position_amt i),
          pu_short_quantity = fmax 0 (- pi_position_amt i),
          pu_update_type = UpdateType_SNAPSHOT, pu_exchange_time_utc = t, pu_sending_time_utc = 0 \<rparr>]) items))"
    if "\<forall>i \<in> set items. \<not> isnan (pi_position_amt i)" for items t
    using that fmax_split by (induction items) auto
  show ?thesis
    unfolding on_account_status_ack_def positions_fold using split [OF assms] by blast
qed

definition sample_positions :: account_status_msg where
  "sample_positions = \<lparr> as_update_time = 5, as_positions =
     [\<lparr> pi_symbol = ''BTCUSDT'', pi_isolated = False, pi_position_amt = Fin 3, pi_notional = 0,
        pi_update_time = 0 \<rparr>,
      \<lparr> pi_symbol = ''ETHUSDT'', pi_isolated = True, pi_position_amt = Fin (- 2), pi_notional = 0,
        pi_update_time = 0 \<rparr>] \<rparr>"

theorem positions_published_witness:
  "\<exists>ps. positions_of (gw_out (on_account_status_ack sample_env sample_positions sample_oe))
      = positions_of (gw_out sample_oe) @ ps \<and> length ps = 2"
proof -
  have "\<forall>i \<in> set (as_positions sample_positions). \<not> isnan (pi_position_amt i)"
    by (simp add: sample_positions_def isnan_def)
  from positions_published [OF this, of sample_env sample_oe]
  obtain ps where ps: "positions_of (gw_out (on_account_status_ack sample_env sample_positions sample_oe))
      = positions_of (gw_out sample_oe) @ ps"
    and all: "list_all2 (\<lambda>i p. pu_symbol p = pi_symbol i \<and> pu_account p = name_of sample_oe
         \<and> fnonneg (pu_long_quantity p) \<and> fnonneg (pu_short_quantity p)
         \<and> (pu_long_quantity p = pi_position_amt i \<and> pu_short_quantity p = 0
            \<or> pu_long_quantity p = 0 \<and> pu_short_quantity p = - pi_position_amt i))
       (filter (\<lambda>i. \<not> ge_discard_symbol sample_env (pi_symbol i)) (as_positions sample_positions)) ps"
    by blast
  have "length (filter (\<lambda>i. \<not> ge_discard_symbol sample_env (pi_symbol i)) (as_positions sample_positions)) = 2"
    by (simp add: sample_positions_def sample_env_def)
  then have "length ps = 2" using list_all2_lengthD [OF all] by simp
  with ps show ?thesis by blast
qed

end
