(* ===== verification/Gw_Controller.thy ===== *)
theory Gw_Controller
  imports Rest_Crypto Gw_Config
begin

text \<open>
  \<open>gateway/controller.{hpp,cpp}\<close>: owns the streams, creates them, routes order actions to the
  stream of the account, and connects the streams with each other (symbols, assets, listen
  keys, removal of user streams).

  The streams are other components. What the controller calls on them, and on the dispatcher, goes
  through the parameter \<open>child\<close>, which gets the target, the call and the state of the whole, in which
  the streams keep theirs (\<open>cw_rest\<close>) and the data they share with the controller.

  The assertions of the code are checked when the build has them (\<open>st_assertions\<close>).
\<close>

section \<open>State\<close>

datatype priority = Priority_PRIMARY | Priority_SECONDARY

record market_data =
  md_stream_id :: u16
  md_priority :: priority
  md_index :: nat

record market_data_2 =
  m2_stream_id :: u16
  m2_index :: nat

datatype oe_kind = Kind_WebSocket | Kind_OrderEntryClassic | Kind_OrderEntryPortfolio

datatype dc_kind = Kind_DropCopyClassic | Kind_DropCopyPortfolio

record drop_copy =
  dc_kind :: dc_kind
  dc_stream_id :: u16
  dc_listen_key :: string

text \<open>Unordered maps are association lists in the order of iteration.\<close>

record controller =
  ct_settings :: settings
  ct_accounts :: "(string \<times> account) list"
  ct_requests :: "string list"
  ct_stream_id :: u16
  ct_market_data_a :: "market_data list"
  ct_market_data_b :: "market_data list"
  ct_market_data_2 :: "market_data_2 list"
  ct_order_entry :: "(string \<times> oe_kind \<times> u16) list"
  ct_drop_copy :: "(string \<times> drop_copy option) list"
  ct_download :: "(string \<times> u16) list"
  ct_zombies :: "string list"

datatype target =
    To_rest
  | To_market_data_a nat
  | To_market_data_b nat
  | To_market_data_2 nat
  | To_order_entry string
  | To_drop_copy string
  | To_download string
  | To_dispatcher

datatype call =
    Do_start
  | Do_stop
  | Do_timer nanoseconds
  | Do_force_listen_key_refresh
  | Do_subscribe nat
  | Do_assets "string list"
  | Do_state bool

record 'x ctw =
  cw_ctl :: controller
  cw_rest :: 'x

type_synonym 'x handler = "'x ctw \<Rightarrow> (exn, 'x ctw) res"

type_synonym 'x child = "target \<Rightarrow> call \<Rightarrow> 'x handler"

definition upd_ctl :: "(controller \<Rightarrow> controller) \<Rightarrow> 'x ctw \<Rightarrow> 'x ctw" where
  "upd_ctl f w = w\<lparr>cw_ctl := f (cw_ctl w)\<rparr>"

lemma upd_ctl_simps [simp]: "cw_ctl (upd_ctl f w) = f (cw_ctl w)" "cw_rest (upd_ctl f w) = cw_rest w"
  by (simp_all add: upd_ctl_def)

section \<open>Construction\<close>

text \<open>The accounts and requests of the configuration.\<close>

definition create_account ::
  "crypto_lib \<Rightarrow> config \<Rightarrow> string \<times> cfg_account \<Rightarrow> controller \<Rightarrow> (exn, controller) res" where
  "create_account L cfg item c =
     (case account_create L cfg (ca_name (snd item)) (ca_mode (snd item)) of
        Inl m \<Rightarrow> Fatal m c
      | Inr a \<Rightarrow> Ok (c\<lparr>ct_accounts := map_emplace (ca_name (snd item)) a (ct_accounts c)\<rparr>))"

definition create_request :: "string \<times> cfg_account \<Rightarrow> controller \<Rightarrow> controller" where
  "create_request item c = c\<lparr>ct_requests := set_emplace (ca_name (snd item)) (ct_requests c)\<rparr>"

text \<open>The order entry of an account, by margin mode.\<close>

definition order_entry_kind :: "settings \<Rightarrow> margin_mode \<Rightarrow> oe_kind" where
  "order_entry_kind st m =
     (case m of
        MarginMode_PORTFOLIO \<Rightarrow> Kind_OrderEntryPortfolio
      | _ \<Rightarrow> (if st_ws_api st then Kind_WebSocket else Kind_OrderEntryClassic))"

definition create_order_entry :: "string \<times> account \<Rightarrow> controller \<Rightarrow> (exn, controller) res" where
  "create_order_entry item c =
     (let a = snd item in
      if ac_name a \<notin> set (ct_requests c) then Fatal ''Unexpected'' c
      else
        let stream_id = ct_stream_id c + 1 in
        Ok (c\<lparr>ct_stream_id := stream_id,
              ct_order_entry := map_emplace (ac_name a)
                (order_entry_kind (ct_settings c) (ac_margin_mode a), stream_id) (ct_order_entry c)\<rparr>))"

definition create_drop_copy :: "string \<times> account \<Rightarrow> controller \<Rightarrow> controller" where
  "create_drop_copy item c =
     c\<lparr>ct_drop_copy := map_emplace (ac_name (snd item)) None (ct_drop_copy c)\<rparr>"

text \<open>The REST download connection exists for accounts that trade over the WebSocket.\<close>

definition create_download :: "string \<times> account \<Rightarrow> controller \<Rightarrow> (exn, controller) res" where
  "create_download item c =
     (let a = snd item in
      if ac_name a \<notin> set (ct_requests c) then Fatal ''Unexpected'' c
      else if ac_margin_mode a \<noteq> MarginMode_PORTFOLIO \<and> st_ws_api (ct_settings c) then
        let stream_id = ct_stream_id c + 1 in
        Ok (c\<lparr>ct_stream_id := stream_id,
              ct_download := map_emplace (ac_name a) stream_id (ct_download c)\<rparr>)
      else Ok c)"

definition empty_controller :: "settings \<Rightarrow> controller" where
  "empty_controller st = \<lparr> ct_settings = st, ct_accounts = [], ct_requests = [], ct_stream_id = 0,
     ct_market_data_a = [], ct_market_data_b = [], ct_market_data_2 = [], ct_order_entry = [],
     ct_drop_copy = [], ct_download = [], ct_zombies = [] \<rparr>"

text \<open>
  The constructor: the members in the order of their declaration (\<open>shared_\<close> creates the API
  paths and may throw; \<open>rest_\<close> takes the first stream id), then the body.
\<close>

definition controller_create ::
  "crypto_lib \<Rightarrow> (string \<Rightarrow> j_self_trade_prevention) \<Rightarrow> settings \<Rightarrow> config \<Rightarrow> (exn, controller) res"
where
  "controller_create L stp_of st cfg =
     and_then (for_each (create_account L cfg) (cf_accounts cfg) (empty_controller st)) (\<lambda>c.
       case api_create stp_of st of
         Inl e \<Rightarrow> Throw e c
       | Inr _ \<Rightarrow>
          (let c = fold create_request (cf_accounts cfg) c;
               c = c\<lparr>ct_stream_id := ct_stream_id c + 1\<rparr>
           in and_then (for_each create_order_entry (ct_accounts c) c) (\<lambda>c.
              and_then (for_each create_download (ct_accounts c) (fold create_drop_copy (ct_accounts c) c))
                (\<lambda>c. if st_rest_cancel_on_disconnect st
                     then Fatal ''Exchange does *NOT* support cancel on disconnect'' c
                     else Ok c))))"

text \<open>\<open>parse_api\<close>.\<close>

definition parse_api :: "settings \<Rightarrow> string + u8" where
  "parse_api st =
     (if st_api st = ''fapi'' then Inr 1
      else if st_api st = ''dapi'' then Inr 2
      else Inl (''Unexpected: api='' @ [CHR 0x22] @ st_api st @ [CHR 0x22]))"

section \<open>Dispatch to the streams\<close>

definition indices :: "'a list \<Rightarrow> nat list" where
  "indices xs = [0..<length xs]"

text \<open>
  \<open>dispatch_helper\<close>: the groups of streams in turn. The members of a group are looked up when
  its turn comes, so a stream that an earlier call created is reached.
\<close>

definition call_group ::
  "'x child \<Rightarrow> call \<Rightarrow> (controller \<Rightarrow> target list) \<Rightarrow> 'x handler" where
  "call_group child k targets w = for_each (\<lambda>t. child t k) (targets (cw_ctl w)) w"

definition live_drop_copies :: "controller \<Rightarrow> string list" where
  "live_drop_copies c = map fst (filter (\<lambda>(a, d). d \<noteq> None) (ct_drop_copy c))"

definition ct_dispatch :: "'x child \<Rightarrow> call \<Rightarrow> 'x handler" where
  "ct_dispatch child k w =
     and_then (child To_rest k w) (\<lambda>w.
     and_then (call_group child k (\<lambda>c. map To_market_data_a (indices (ct_market_data_a c))) w) (\<lambda>w.
     and_then (call_group child k (\<lambda>c. map To_market_data_b (indices (ct_market_data_b c))) w) (\<lambda>w.
     and_then (call_group child k (\<lambda>c. map To_market_data_2 (indices (ct_market_data_2 c))) w) (\<lambda>w.
     and_then (call_group child k (\<lambda>c. map (To_order_entry \<circ> fst) (ct_order_entry c)) w) (\<lambda>w.
     and_then (call_group child k (\<lambda>c. map To_drop_copy (live_drop_copies c)) w) (\<lambda>w.
     call_group child k (\<lambda>c. map (To_download \<circ> fst) (ct_download c)) w))))))"

definition ct_start :: "'x child \<Rightarrow> 'x handler" where
  "ct_start child w =
     assert_that (st_assertions (ct_settings (cw_ctl w)))
       (ct_market_data_a (cw_ctl w) = [] \<and> ct_market_data_b (cw_ctl w) = []
         \<and> ct_market_data_2 (cw_ctl w) = [])
       (ct_dispatch child Do_start) w"

definition ct_stop :: "'x child \<Rightarrow> 'x handler" where
  "ct_stop child = ct_dispatch child Do_stop"

section \<open>Timer\<close>

definition set_drop_copy ::
  "string \<Rightarrow> drop_copy option \<Rightarrow> (string \<times> drop_copy option) list \<Rightarrow> (string \<times> drop_copy option) list"
where
  "set_drop_copy a d = map (\<lambda>(k, v). if k = a then (k, d) else (k, v))"

lemma map_of_set_drop_copy:
  "map_of (set_drop_copy a d m) k = (if k = a \<and> map_of m a \<noteq> None then Some d else map_of m k)"
  by (induction m) (auto simp: set_drop_copy_def)

lemma fst_set_drop_copy [simp]: "map fst (set_drop_copy a d m) = map fst m"
  by (induction m) (auto simp: set_drop_copy_def)

definition remove_zombie :: "'x child \<Rightarrow> string \<Rightarrow> 'x handler" where
  "remove_zombie child a w =
     (if map_of (ct_drop_copy (cw_ctl w)) a = None then Fatal ''Unexpected'' w
      else
        let w = upd_ctl (\<lambda>c. c\<lparr>ct_drop_copy := set_drop_copy a None (ct_drop_copy c)\<rparr>) w in
        if map_of (ct_order_entry (cw_ctl w)) a = None then Fatal ''Unexpected'' w
        else child (To_order_entry a) Do_force_listen_key_refresh w)"

definition ct_timer :: "'x child \<Rightarrow> nanoseconds \<Rightarrow> 'x handler" where
  "ct_timer child now w =
     and_then (for_each (remove_zombie child) (ct_zombies (cw_ctl w)) w) (\<lambda>w.
       ct_dispatch child (Do_timer now) (upd_ctl (\<lambda>c. c\<lparr>ct_zombies := []\<rparr>) w))"

section \<open>Symbols and assets\<close>

text \<open>
  \<open>ensure_symbol_slices\<close>: the loops run while the container is too small. The first
  argument bounds the number of rounds; every round adds a stream.
\<close>

definition add_market_data ::
  "'x child \<Rightarrow> priority \<Rightarrow> 'x handler" where
  "add_market_data child p w =
     (let w = upd_ctl (\<lambda>c. c\<lparr>ct_stream_id := ct_stream_id c + 1\<rparr>) w;
          xs = (if p = Priority_PRIMARY then ct_market_data_a (cw_ctl w)
                else ct_market_data_b (cw_ctl w));
          index = length xs;
          md = \<lparr> md_stream_id = ct_stream_id (cw_ctl w), md_priority = p, md_index = index \<rparr>
      in and_then
           (child (if p = Priority_PRIMARY then To_market_data_a index else To_market_data_b index)
              Do_start w)
           (\<lambda>w. Ok (upd_ctl (\<lambda>c. if p = Priority_PRIMARY
                then c\<lparr>ct_market_data_a := ct_market_data_a c @ [md]\<rparr>
                else c\<lparr>ct_market_data_b := ct_market_data_b c @ [md]\<rparr>) w)))"

definition add_market_data_2 :: "'x child \<Rightarrow> 'x handler" where
  "add_market_data_2 child w =
     (let w = upd_ctl (\<lambda>c. c\<lparr>ct_stream_id := ct_stream_id c + 1\<rparr>) w;
          index = length (ct_market_data_2 (cw_ctl w));
          m2 = \<lparr> m2_stream_id = ct_stream_id (cw_ctl w), m2_index = index \<rparr>
      in and_then (child (To_market_data_2 index) Do_start w)
           (\<lambda>w. Ok (upd_ctl (\<lambda>c. c\<lparr>ct_market_data_2 := ct_market_data_2 c @ [m2]\<rparr>) w)))"

fun grow :: "nat \<Rightarrow> (controller \<Rightarrow> nat) \<Rightarrow> nat \<Rightarrow> 'x handler \<Rightarrow> 'x handler" where
  "grow 0 count goal add w = Ok w"
| "grow (Suc n) count goal add w =
     (if count (cw_ctl w) < goal then and_then (add w) (grow n count goal add) else Ok w)"

definition grow_to :: "(controller \<Rightarrow> nat) \<Rightarrow> nat \<Rightarrow> 'x handler \<Rightarrow> 'x handler" where
  "grow_to count goal add w = grow (goal - count (cw_ctl w)) count goal add w"

definition ensure_symbol_slices :: "'x child \<Rightarrow> nat \<Rightarrow> 'x handler" where
  "ensure_symbol_slices child slices w =
     and_then (grow_to (\<lambda>c. length (ct_market_data_a c)) slices
                 (add_market_data child Priority_PRIMARY) w) (\<lambda>w.
     and_then (if st_ws_enable_secondary (ct_settings (cw_ctl w))
               then grow_to (\<lambda>c. length (ct_market_data_b c)) slices
                      (add_market_data child Priority_SECONDARY) w
               else Ok w)
       (grow_to (\<lambda>c. length (ct_market_data_2 c)) slices (add_market_data_2 child)))"

text \<open>\<open>core::Symbols\<close> allocates symbols to slices: it answers how many there are and where the new symbols start.\<close>

definition ct_symbols_update ::
  "'x child \<Rightarrow> (string list \<Rightarrow> nat \<times> nat) \<Rightarrow> string list \<Rightarrow> 'x handler" where
  "ct_symbols_update child allocate symbols w =
     (case allocate symbols of (slices, start_from) \<Rightarrow>
       and_then (ensure_symbol_slices child slices w) (\<lambda>w.
       and_then (call_group child (Do_subscribe start_from)
         (\<lambda>c. map To_market_data_a (indices (ct_market_data_a c))) w) (\<lambda>w.
       and_then (call_group child (Do_subscribe start_from)
         (\<lambda>c. map To_market_data_b (indices (ct_market_data_b c))) w)
       (call_group child (Do_subscribe start_from)
         (\<lambda>c. map To_market_data_2 (indices (ct_market_data_2 c)))))))"

definition ct_assets_update :: "'x child \<Rightarrow> string list \<Rightarrow> 'x handler" where
  "ct_assets_update child assets w =
     (if ct_market_data_2 (cw_ctl w) \<noteq> [] then child (To_market_data_2 0) (Do_assets assets) w
      else Ok w)"

text \<open>
  \<open>Subscribe\<close>: the symbols that are not known yet, in order, each once. The set of the known symbols is
  \<open>Shared::all_symbols\<close>, the one the REST connection uses as well, so it is not part of the controller: an
  \<open>symbol_set\<close> says where it is in the state of the whole.
\<close>

record 'x symbol_set =
  ss_get :: "'x \<Rightarrow> string list"
  ss_put :: "string list \<Rightarrow> 'x \<Rightarrow> 'x"

fun new_symbols :: "string list \<Rightarrow> string list \<Rightarrow> string list \<times> string list" where
  "new_symbols known [] = ([], known)"
| "new_symbols known (s # ss) =
     (let (fresh, all) = new_symbols (set_emplace s known) ss in
      (if s \<in> set known then fresh else s # fresh, all))"

definition ct_subscribe ::
  "'x symbol_set \<Rightarrow> 'x child \<Rightarrow> (string list \<Rightarrow> nat \<times> nat) \<Rightarrow> string list \<Rightarrow> 'x handler" where
  "ct_subscribe S child allocate symbols w =
     (case new_symbols (ss_get S (cw_rest w)) symbols of (fresh, all) \<Rightarrow>
        ct_symbols_update child allocate fresh (w\<lparr>cw_rest := ss_put S all (cw_rest w)\<rparr>))"

section \<open>Listen keys and user streams\<close>

text \<open>
  \<open>create_drop_copy_helper\<close>. The stream is started before it is stored. The constructor of the stream
  asserts that there is a listen key (\<open>create_query\<close> in \<open>gateway/drop_copy_classic.cpp\<close> and
  \<open>gateway/drop_copy_portfolio.cpp\<close>).
\<close>

definition ct_listen_key_update :: "'x child \<Rightarrow> dc_kind \<Rightarrow> string \<Rightarrow> string \<Rightarrow> 'x handler" where
  "ct_listen_key_update child kind a listen_key w =
     assert_that (st_assertions (ct_settings (cw_ctl w))) (a \<noteq> []) (\<lambda>w.
      case map_of (ct_drop_copy (cw_ctl w)) a of
        None \<Rightarrow> Fatal (''Unexpected: account='' @ [CHR 0x22] @ a @ [CHR 0x22]) w
      | Some (Some d) \<Rightarrow> Ok w
      | Some None \<Rightarrow>
          (let w = upd_ctl (\<lambda>c. c\<lparr>ct_stream_id := ct_stream_id c + 1\<rparr>) w;
               d = \<lparr> dc_kind = kind, dc_stream_id = ct_stream_id (cw_ctl w),
                     dc_listen_key = listen_key \<rparr>
           in if map_of (ct_accounts (cw_ctl w)) a = None \<or> a \<notin> set (ct_requests (cw_ctl w))
              then Fatal (unknown_account a) w
              else assert_that (st_assertions (ct_settings (cw_ctl w))) (listen_key \<noteq> []) (\<lambda>w.
                and_then (child (To_drop_copy a) Do_start w) (\<lambda>w.
                Ok (upd_ctl (\<lambda>c. c\<lparr>ct_drop_copy := set_drop_copy a (Some d) (ct_drop_copy c)\<rparr>) w))) w)) w"

definition ct_remove :: "string \<Rightarrow> 'x ctw \<Rightarrow> 'x ctw" where
  "ct_remove a w = upd_ctl (\<lambda>c. c\<lparr>ct_zombies := set_emplace a (ct_zombies c)\<rparr>) w"

section \<open>Order actions\<close>

text \<open>The stream an action goes to, with the same arguments; or the exception.\<close>

definition get_order_entry :: "string \<Rightarrow> controller \<Rightarrow> exn + target" where
  "get_order_entry a c =
     (if map_of (ct_order_entry c) a \<noteq> None then Inr (To_order_entry a)
      else Inl (Std_exception (unknown_account a)))"

definition get_rest_trade :: "string \<Rightarrow> controller \<Rightarrow> exn + target" where
  "get_rest_trade a c =
     (if map_of (ct_download c) a \<noteq> None then Inr (To_download a)
      else Inl (Std_exception (unknown_account a)))"

text \<open>
  The handlers first check their assertions: each request names an account, and the order to modify or cancel
  is one of it. They end with the stream, with an exception, or, when the build has its assertions, with the
  end of the process. Requests to modify and cancel come with the account of the order.
\<close>

datatype order_action =
    Do_create_order string
  | Do_modify_order string string
  | Do_cancel_order string string
  | Do_cancel_all_orders string
  | Do_mass_quote
  | Do_cancel_quotes

fun addressed :: "order_action \<Rightarrow> bool" where
  "addressed (Do_create_order a) = (a \<noteq> [])"
| "addressed (Do_modify_order a order_account) = (a \<noteq> [] \<and> a = order_account)"
| "addressed (Do_cancel_order a order_account) = (a \<noteq> [] \<and> a = order_account)"
| "addressed (Do_cancel_all_orders a) = (a \<noteq> [])"
| "addressed Do_mass_quote = True"
| "addressed Do_cancel_quotes = True"

datatype routed = Routed target | Refused exn | Aborted string

definition routed_to :: "exn + target \<Rightarrow> routed" where
  "routed_to x = (case x of Inl e \<Rightarrow> Refused e | Inr t \<Rightarrow> Routed t)"

definition ct_order_action :: "order_action \<Rightarrow> controller \<Rightarrow> routed" where
  "ct_order_action act c =
     (if st_assertions (ct_settings c) \<and> \<not> addressed act then Aborted ''assert''
      else case act of
        Do_create_order a \<Rightarrow> routed_to (get_order_entry a c)
      | Do_modify_order a order_account \<Rightarrow> routed_to (get_order_entry a c)
      | Do_cancel_order a order_account \<Rightarrow> routed_to (get_order_entry a c)
      | Do_cancel_all_orders a \<Rightarrow>
          routed_to (if st_ws_api (ct_settings c) then get_rest_trade a c else get_order_entry a c)
      | Do_mass_quote \<Rightarrow> Refused (Oms_NotSupported ''not supported'')
      | Do_cancel_quotes \<Rightarrow> Refused (Oms_NotSupported ''not supported''))"

section \<open>Control\<close>

datatype control = Control_UNDEFINED | Control_ENABLE | Control_DISABLE

text \<open>The dispatcher is told the state to take. No action at all is asserted not to occur.\<close>

definition ct_control :: "'x child \<Rightarrow> control \<Rightarrow> 'x handler" where
  "ct_control child a w =
     (case a of
        Control_UNDEFINED \<Rightarrow> assert_that (st_assertions (ct_settings (cw_ctl w))) False Ok w
      | Control_ENABLE \<Rightarrow> child To_dispatcher (Do_state True) w
      | Control_DISABLE \<Rightarrow> child To_dispatcher (Do_state False) w)"

end
