(* ===== verification/Controller_Facts.thy ===== *)
theory Controller_Facts
  imports Gw_Controller
begin

text \<open>
  The controller verified against what it relies on: a stream that is called returns, and does
  not change the controller while it is called (events for the controller come with messages
  from the exchange, not with a start or a timer).
\<close>

locale stream_child =
  fixes child :: "'x child"
  assumes child_returns: "\<exists>w'. child t k w = Ok w' \<and> cw_ctl w' = cw_ctl w"
begin

lemma child_cases:
  obtains w' where "child t k w = Ok w'" "cw_ctl w' = cw_ctl w"
  using child_returns by blast

lemma for_each_child:
  "\<exists>w'. for_each (\<lambda>t. child t k) ts w = Ok w' \<and> cw_ctl w' = cw_ctl w"
proof (induction ts arbitrary: w)
  case (Cons t ts)
  obtain v where v: "child t k w = Ok v" "cw_ctl v = cw_ctl w" by (rule child_cases)
  with Cons.IH [of v] show ?case by auto
qed simp

lemma group_returns: "\<exists>w'. call_group child k ts w = Ok w' \<and> cw_ctl w' = cw_ctl w"
  unfolding call_group_def by (rule for_each_child)

lemma then_returns:
  assumes "\<exists>w'. r = Ok w' \<and> cw_ctl w' = c"
    and "\<And>w. cw_ctl w = c \<Longrightarrow> \<exists>w'. f w = Ok w' \<and> cw_ctl w' = c"
  shows "\<exists>w'. and_then r f = Ok w' \<and> cw_ctl w' = c"
  using assms by auto

lemma group_keeps:
  "cw_ctl w = c \<Longrightarrow> \<exists>w'. call_group child k ts w = Ok w' \<and> cw_ctl w' = c"
  using group_returns [of k ts w] by simp

lemma dispatch_returns: "\<exists>w'. ct_dispatch child k w = Ok w' \<and> cw_ctl w' = cw_ctl w"
  unfolding ct_dispatch_def by (intro then_returns child_returns group_keeps) assumption+

subsection \<open>Timer\<close>

definition known :: "controller \<Rightarrow> string \<Rightarrow> bool" where
  "known c a \<longleftrightarrow> map_of (ct_drop_copy c) a \<noteq> None \<and> map_of (ct_order_entry c) a \<noteq> None"

lemma remove_zombie_effect:
  assumes "known (cw_ctl w) a"
  shows "\<exists>w'. remove_zombie child a w = Ok w' \<and> cw_ctl w'
    = (cw_ctl w)\<lparr>ct_drop_copy := set_drop_copy a None (ct_drop_copy (cw_ctl w))\<rparr>"
  using assms child_returns
    [of "To_order_entry a" Do_force_listen_key_refresh
      "upd_ctl (\<lambda>c. c\<lparr>ct_drop_copy := set_drop_copy a None (ct_drop_copy c)\<rparr>) w"]
  by (auto simp: remove_zombie_def known_def)

lemma known_set [simp]:
  "known (c\<lparr>ct_drop_copy := set_drop_copy a d (ct_drop_copy c)\<rparr>) b = known c b"
  by (auto simp: known_def map_of_set_drop_copy)

lemma remove_zombies_effect:
  assumes "\<forall>a \<in> set zs. known (cw_ctl w) a"
  shows "\<exists>w'. for_each (remove_zombie child) zs w = Ok w' \<and> cw_ctl w'
    = (cw_ctl w)\<lparr>ct_drop_copy := fold (\<lambda>a. set_drop_copy a None) zs (ct_drop_copy (cw_ctl w))\<rparr>"
  using assms
proof (induction zs arbitrary: w)
  case (Cons a zs)
  then obtain v where v: "remove_zombie child a w = Ok v"
    "cw_ctl v = (cw_ctl w)\<lparr>ct_drop_copy := set_drop_copy a None (ct_drop_copy (cw_ctl w))\<rparr>"
    using remove_zombie_effect by fastforce
  with Cons.prems have "\<forall>b \<in> set zs. known (cw_ctl v) b" by simp
  from Cons.IH [OF this] v show ?case by auto
qed simp

lemma timer_effect:
  assumes "\<forall>a \<in> set (ct_zombies (cw_ctl w)). known (cw_ctl w) a"
  shows "\<exists>w'. ct_timer child now w = Ok w' \<and> cw_ctl w' = (cw_ctl w)\<lparr>ct_zombies := [],
    ct_drop_copy := fold (\<lambda>a. set_drop_copy a None) (ct_zombies (cw_ctl w)) (ct_drop_copy (cw_ctl w))\<rparr>"
proof -
  obtain v where v: "for_each (remove_zombie child) (ct_zombies (cw_ctl w)) w = Ok v"
    "cw_ctl v = (cw_ctl w)\<lparr>ct_drop_copy :=
       fold (\<lambda>a. set_drop_copy a None) (ct_zombies (cw_ctl w)) (ct_drop_copy (cw_ctl w))\<rparr>"
    using remove_zombies_effect [OF assms] by blast
  show ?thesis
    using dispatch_returns [of "Do_timer now" "upd_ctl (\<lambda>c. c\<lparr>ct_zombies := []\<rparr>) v"] v
    by (auto simp: ct_timer_def)
qed

subsection \<open>Slices\<close>

lemma add_market_data_effect:
  "\<exists>w'. add_market_data child p w = Ok w' \<and> cw_ctl w' =
    (let c = cw_ctl w; i = ct_stream_id c + 1 in
     if p = Priority_PRIMARY
     then c\<lparr>ct_stream_id := i, ct_market_data_a := ct_market_data_a c @
        [\<lparr> md_stream_id = i, md_priority = p, md_index = length (ct_market_data_a c) \<rparr>]\<rparr>
     else c\<lparr>ct_stream_id := i, ct_market_data_b := ct_market_data_b c @
        [\<lparr> md_stream_id = i, md_priority = p, md_index = length (ct_market_data_b c) \<rparr>]\<rparr>)"
proof -
  define v where "v = upd_ctl (\<lambda>c. c\<lparr>ct_stream_id := ct_stream_id c + 1\<rparr>) w"
  define t where "t = (if p = Priority_PRIMARY
    then To_market_data_a (length (ct_market_data_a (cw_ctl w)))
    else To_market_data_b (length (ct_market_data_b (cw_ctl w))))"
  obtain u where u: "child t Do_start v = Ok u" "cw_ctl u = cw_ctl v"
    by (rule child_cases)
  then show ?thesis
    by (cases "p = Priority_PRIMARY") (simp_all add: add_market_data_def Let_def v_def t_def)
qed

lemma add_market_data_2_effect:
  "\<exists>w'. add_market_data_2 child w = Ok w' \<and> cw_ctl w' =
    (let c = cw_ctl w; i = ct_stream_id c + 1 in
     c\<lparr>ct_stream_id := i, ct_market_data_2 := ct_market_data_2 c @
        [\<lparr> m2_stream_id = i, m2_index = length (ct_market_data_2 c) \<rparr>]\<rparr>)"
proof -
  define v where "v = upd_ctl (\<lambda>c. c\<lparr>ct_stream_id := ct_stream_id c + 1\<rparr>) w"
  obtain u where "child (To_market_data_2 (length (ct_market_data_2 (cw_ctl w)))) Do_start v = Ok u"
    "cw_ctl u = cw_ctl v"
    by (rule child_cases)
  then show ?thesis by (simp add: add_market_data_2_def Let_def v_def)
qed

text \<open>A loop that adds one stream a round reaches its goal, and keeps what every round keeps.\<close>

lemma grow_effect:
  assumes add: "\<And>w. \<exists>w'. add w = Ok w' \<and> count (cw_ctl w') = Suc (count (cw_ctl w))
      \<and> R (cw_ctl w) (cw_ctl w')"
    and refl: "\<And>c. R c c" and trans: "\<And>a b c. R a b \<Longrightarrow> R b c \<Longrightarrow> R a c"
  shows "\<exists>w'. grow_to count goal add w = Ok w' \<and> count (cw_ctl w') = max goal (count (cw_ctl w))
      \<and> R (cw_ctl w) (cw_ctl w')"
proof -
  have "\<exists>w'. grow n count goal add w = Ok w' \<and> count (cw_ctl w') = max goal (count (cw_ctl w))
      \<and> R (cw_ctl w) (cw_ctl w')" if "n = goal - count (cw_ctl w)" for n w
    using that
  proof (induction n arbitrary: w)
    case 0
    then show ?case using refl by simp
  next
    case (Suc n)
    obtain v where v: "add w = Ok v" "count (cw_ctl v) = Suc (count (cw_ctl w))"
      "R (cw_ctl w) (cw_ctl v)"
      using add by blast
    with Suc.prems have "n = goal - count (cw_ctl v)" by simp
    from Suc.IH [OF this] obtain u where u: "grow n count goal add v = Ok u"
      "count (cw_ctl u) = max goal (count (cw_ctl v))" "R (cw_ctl v) (cw_ctl u)"
      by blast
    have lt: "count (cw_ctl w) < goal" using Suc.prems by simp
    then have "grow (Suc n) count goal add w = Ok u" using v u by simp
    moreover have "count (cw_ctl u) = max goal (count (cw_ctl w))" using u v lt by simp
    moreover have "R (cw_ctl w) (cw_ctl u)" using trans u v by blast
    ultimately show ?case by blast
  qed
  then show ?thesis by (simp add: grow_to_def)
qed

text \<open>What one round keeps: the other groups, and the numbering of the streams.\<close>

definition numbered :: "controller \<Rightarrow> bool" where
  "numbered c \<longleftrightarrow>
     map md_index (ct_market_data_a c) = [0..<length (ct_market_data_a c)]
     \<and> map md_index (ct_market_data_b c) = [0..<length (ct_market_data_b c)]
     \<and> map m2_index (ct_market_data_2 c) = [0..<length (ct_market_data_2 c)]"

definition same_rest :: "controller \<Rightarrow> controller \<Rightarrow> bool" where
  "same_rest c d \<longleftrightarrow>
     ct_settings d = ct_settings c \<and> ct_accounts d = ct_accounts c
     \<and> ct_requests d = ct_requests c \<and> ct_order_entry d = ct_order_entry c
     \<and> ct_drop_copy d = ct_drop_copy c \<and> ct_download d = ct_download c
     \<and> ct_zombies d = ct_zombies c
     \<and> (numbered c \<longrightarrow> numbered d)"

lemma grow_a:
  "\<exists>w'. grow_to (\<lambda>c. length (ct_market_data_a c)) n (add_market_data child Priority_PRIMARY) w = Ok w'
    \<and> length (ct_market_data_a (cw_ctl w')) = max n (length (ct_market_data_a (cw_ctl w)))
    \<and> same_rest (cw_ctl w) (cw_ctl w') \<and> ct_market_data_b (cw_ctl w') = ct_market_data_b (cw_ctl w)
    \<and> ct_market_data_2 (cw_ctl w') = ct_market_data_2 (cw_ctl w)"
proof (rule grow_effect [where R = "\<lambda>c d. same_rest c d \<and> ct_market_data_b d = ct_market_data_b c
      \<and> ct_market_data_2 d = ct_market_data_2 c"])
  show "\<exists>w'. add_market_data child Priority_PRIMARY w = Ok w'
    \<and> length (ct_market_data_a (cw_ctl w')) = Suc (length (ct_market_data_a (cw_ctl w)))
    \<and> same_rest (cw_ctl w) (cw_ctl w') \<and> ct_market_data_b (cw_ctl w') = ct_market_data_b (cw_ctl w)
    \<and> ct_market_data_2 (cw_ctl w') = ct_market_data_2 (cw_ctl w)" for w
    using add_market_data_effect [of Priority_PRIMARY w]
    by (auto simp: Let_def same_rest_def numbered_def)
qed (auto simp: same_rest_def)

lemma grow_b:
  "\<exists>w'. grow_to (\<lambda>c. length (ct_market_data_b c)) n (add_market_data child Priority_SECONDARY) w = Ok w'
    \<and> length (ct_market_data_b (cw_ctl w')) = max n (length (ct_market_data_b (cw_ctl w)))
    \<and> same_rest (cw_ctl w) (cw_ctl w') \<and> ct_market_data_a (cw_ctl w') = ct_market_data_a (cw_ctl w)
    \<and> ct_market_data_2 (cw_ctl w') = ct_market_data_2 (cw_ctl w)"
proof (rule grow_effect [where R = "\<lambda>c d. same_rest c d \<and> ct_market_data_a d = ct_market_data_a c
      \<and> ct_market_data_2 d = ct_market_data_2 c"])
  show "\<exists>w'. add_market_data child Priority_SECONDARY w = Ok w'
    \<and> length (ct_market_data_b (cw_ctl w')) = Suc (length (ct_market_data_b (cw_ctl w)))
    \<and> same_rest (cw_ctl w) (cw_ctl w') \<and> ct_market_data_a (cw_ctl w') = ct_market_data_a (cw_ctl w)
    \<and> ct_market_data_2 (cw_ctl w') = ct_market_data_2 (cw_ctl w)" for w
    using add_market_data_effect [of Priority_SECONDARY w]
    by (auto simp: Let_def same_rest_def numbered_def)
qed (auto simp: same_rest_def)

lemma grow_b_if:
  "\<exists>w'. (if s then grow_to (\<lambda>c. length (ct_market_data_b c)) n
            (add_market_data child Priority_SECONDARY) w else Ok w) = Ok w'
    \<and> length (ct_market_data_b (cw_ctl w')) =
        (if s then max n (length (ct_market_data_b (cw_ctl w)))
         else length (ct_market_data_b (cw_ctl w)))
    \<and> same_rest (cw_ctl w) (cw_ctl w') \<and> ct_market_data_a (cw_ctl w') = ct_market_data_a (cw_ctl w)
    \<and> ct_market_data_2 (cw_ctl w') = ct_market_data_2 (cw_ctl w)"
  using grow_b [of n w] by (cases s) (simp_all, simp add: same_rest_def)

lemma grow_2:
  "\<exists>w'. grow_to (\<lambda>c. length (ct_market_data_2 c)) n (add_market_data_2 child) w = Ok w'
    \<and> length (ct_market_data_2 (cw_ctl w')) = max n (length (ct_market_data_2 (cw_ctl w)))
    \<and> same_rest (cw_ctl w) (cw_ctl w') \<and> ct_market_data_a (cw_ctl w') = ct_market_data_a (cw_ctl w)
    \<and> ct_market_data_b (cw_ctl w') = ct_market_data_b (cw_ctl w)"
proof (rule grow_effect [where R = "\<lambda>c d. same_rest c d \<and> ct_market_data_a d = ct_market_data_a c
      \<and> ct_market_data_b d = ct_market_data_b c"])
  show "\<exists>w'. add_market_data_2 child w = Ok w'
    \<and> length (ct_market_data_2 (cw_ctl w')) = Suc (length (ct_market_data_2 (cw_ctl w)))
    \<and> same_rest (cw_ctl w) (cw_ctl w') \<and> ct_market_data_a (cw_ctl w') = ct_market_data_a (cw_ctl w)
    \<and> ct_market_data_b (cw_ctl w') = ct_market_data_b (cw_ctl w)" for w
    using add_market_data_2_effect [of w]
    by (auto simp: Let_def same_rest_def numbered_def)
qed (auto simp: same_rest_def)

lemma same_rest_trans: "same_rest a b \<Longrightarrow> same_rest b c \<Longrightarrow> same_rest a c"
  by (simp add: same_rest_def)

lemma slices_effect:
  "\<exists>w'. ensure_symbol_slices child n w = Ok w' \<and> same_rest (cw_ctl w) (cw_ctl w')
    \<and> length (ct_market_data_a (cw_ctl w')) = max n (length (ct_market_data_a (cw_ctl w)))
    \<and> length (ct_market_data_b (cw_ctl w')) =
        (if st_ws_enable_secondary (ct_settings (cw_ctl w))
         then max n (length (ct_market_data_b (cw_ctl w))) else length (ct_market_data_b (cw_ctl w)))
    \<and> length (ct_market_data_2 (cw_ctl w')) = max n (length (ct_market_data_2 (cw_ctl w)))"
proof -
  obtain u where u: "grow_to (\<lambda>c. length (ct_market_data_a c)) n
      (add_market_data child Priority_PRIMARY) w = Ok u"
    "length (ct_market_data_a (cw_ctl u)) = max n (length (ct_market_data_a (cw_ctl w)))"
    "same_rest (cw_ctl w) (cw_ctl u)" "ct_market_data_b (cw_ctl u) = ct_market_data_b (cw_ctl w)"
    "ct_market_data_2 (cw_ctl u) = ct_market_data_2 (cw_ctl w)"
    using grow_a by blast
  have st: "ct_settings (cw_ctl u) = ct_settings (cw_ctl w)" using u by (simp add: same_rest_def)
  obtain v where v: "(if st_ws_enable_secondary (ct_settings (cw_ctl u))
      then grow_to (\<lambda>c. length (ct_market_data_b c)) n (add_market_data child Priority_SECONDARY) u
      else Ok u) = Ok v"
    "length (ct_market_data_b (cw_ctl v)) = (if st_ws_enable_secondary (ct_settings (cw_ctl u))
      then max n (length (ct_market_data_b (cw_ctl u))) else length (ct_market_data_b (cw_ctl u)))"
    "same_rest (cw_ctl u) (cw_ctl v)" "ct_market_data_a (cw_ctl v) = ct_market_data_a (cw_ctl u)"
    "ct_market_data_2 (cw_ctl v) = ct_market_data_2 (cw_ctl u)"
    using grow_b_if [of "st_ws_enable_secondary (ct_settings (cw_ctl u))" n u] by blast
  obtain x where "grow_to (\<lambda>c. length (ct_market_data_2 c)) n (add_market_data_2 child) v = Ok x"
    "length (ct_market_data_2 (cw_ctl x)) = max n (length (ct_market_data_2 (cw_ctl v)))"
    "same_rest (cw_ctl v) (cw_ctl x)" "ct_market_data_a (cw_ctl x) = ct_market_data_a (cw_ctl v)"
    "ct_market_data_b (cw_ctl x) = ct_market_data_b (cw_ctl v)"
    using grow_2 by blast
  with u v st show ?thesis
    by (auto simp: ensure_symbol_slices_def intro: same_rest_trans)
qed

end

end
