(* ===== verification/Gw_System.thy ===== *)
theory Gw_System
  imports Controller_Facts Order_Entry_Facts
begin

text \<open>
  The controller together with the classic order entries of its accounts: what becomes of a
  listen key, from the answer of the exchange to the user stream and back. The streams other
  than order entries take part through what they send to the controller (\<open>Remove\<close> by a user
  stream whose listen key has expired, symbols, assets).
\<close>

section \<open>The composition\<close>

type_synonym 'q sys = "(string \<Rightarrow> 'q oe) ctw"

fun oe_call :: "env \<Rightarrow> trace_info \<Rightarrow> call \<Rightarrow> 'q oe \<Rightarrow> 'q oe" where
  "oe_call E ti Do_start w = oe_start w"
| "oe_call E ti Do_stop w = oe_stop w"
| "oe_call E ti (Do_timer now) w = oe_timer E ti now w"
| "oe_call E ti Do_force_listen_key_refresh w = force_listen_key_refresh ti w"
| "oe_call E ti (Do_subscribe n) w = w"
| "oe_call E ti (Do_assets xs) w = w"
| "oe_call E ti (Do_state b) w = w"

definition on_oe :: "string \<Rightarrow> ('q oe \<Rightarrow> 'q oe) \<Rightarrow> 'q sys \<Rightarrow> 'q sys" where
  "on_oe a f w = w\<lparr>cw_rest := (cw_rest w)(a := f (cw_rest w a))\<rparr>"

definition classic_child :: "env \<Rightarrow> trace_info \<Rightarrow> (string \<Rightarrow> 'q oe) child" where
  "classic_child E ti t k w =
     (case t of To_order_entry a \<Rightarrow> Ok (on_oe a (oe_call E ti k) w) | _ \<Rightarrow> Ok w)"

interpretation classic: stream_child "classic_child E ti" for E ti
  by unfold_locales (auto simp: classic_child_def on_oe_def split: target.splits)

text \<open>The order entries do not look at the set of known symbols, which may be any here.\<close>

definition unseen_symbols :: "string list \<Rightarrow> 'x symbol_set" where
  "unseen_symbols known = \<lparr> ss_get = \<lambda>_. known, ss_put = \<lambda>_ x. x \<rparr>"

text \<open>The events of an order entry, handed to the controller in order.\<close>

definition deliver :: "(string \<Rightarrow> 'q oe) child \<Rightarrow> effect list \<Rightarrow> (string \<Rightarrow> 'q oe) handler" where
  "deliver child =
     for_each (\<lambda>e. case e of
         Ev_listen_key_update a k \<Rightarrow> ct_listen_key_update child Kind_DropCopyClassic a k
       | _ \<Rightarrow> Ok)"

inductive sys_step :: "'q sys \<Rightarrow> 'q sys \<Rightarrow> bool" where
  sys_start: "ct_start (classic_child E ti) w = Ok w' \<Longrightarrow> sys_step w w'"
| sys_stop: "ct_stop (classic_child E ti) w = Ok w' \<Longrightarrow> sys_step w w'"
| sys_timer: "ct_timer (classic_child E ti) now w = Ok w' \<Longrightarrow> sys_step w w'"
| sys_remove: "sys_step w (ct_remove b w)"
| sys_subscribe: "ct_subscribe (unseen_symbols known) (classic_child E ti) alloc symbols w = Ok w' \<Longrightarrow> sys_step w w'"
| sys_symbols: "ct_symbols_update (classic_child E ti) alloc symbols w = Ok w' \<Longrightarrow> sys_step w w'"
| sys_control: "ct_control (classic_child E ti) act w = Ok w' \<Longrightarrow> sys_step w w'"
| sys_assets: "ct_assets_update (classic_child E ti) assets w = Ok w' \<Longrightarrow> sys_step w w'"
| sys_entry: "oe_step (cw_rest w b) v \<Longrightarrow> gw_out v = gw_out (cw_rest w b) @ es \<Longrightarrow>
    deliver (classic_child E ti) es (on_oe b (\<lambda>_. v) w) = Ok w' \<Longrightarrow> sys_step w w'"

inductive sys_run :: "'q sys \<Rightarrow> 'q sys \<Rightarrow> bool" where
  sys_refl: "sys_run w w"
| sys_more: "sys_run u v \<Longrightarrow> sys_step v w \<Longrightarrow> sys_run u w"

section \<open>What happens to the user stream of an account\<close>

text \<open>The order entries keep what they keep, and a user stream that is gone stays gone.\<close>

definition gone :: "string \<Rightarrow> 'q sys \<Rightarrow> bool" where
  "gone a w = (map_of (ct_drop_copy (cw_ctl w)) a = Some None)"

definition sys_keeps :: "string \<Rightarrow> 'q sys \<Rightarrow> 'q sys \<Rightarrow> bool" where
  "sys_keeps a v w \<longleftrightarrow>
     (\<forall>b. oe_keeps (cw_rest v b) (cw_rest w b)) \<and> (gone a v \<longrightarrow> gone a w)"

lemma sys_keeps_refl [simp]: "sys_keeps a w w"
  by (simp add: sys_keeps_def)

lemma sys_keeps_trans: "sys_keeps a u v \<Longrightarrow> sys_keeps a v w \<Longrightarrow> sys_keeps a u w"
  by (auto simp: sys_keeps_def intro: keeps_trans)

definition safe :: "string \<Rightarrow> 'q sys \<Rightarrow> (exn, 'q sys) res \<Rightarrow> bool" where
  "safe a w r = (\<forall>w'. r = Ok w' \<longrightarrow> sys_keeps a w w')"

lemma safe_Ok [simp]: "safe a w (Ok v) = sys_keeps a w v"
  by (simp add: safe_def)

lemma safe_other [simp]: "safe a w (Throw e v)" "safe a w (Fatal m v)"
  by (simp_all add: safe_def)

lemma safe_then: "safe a w r \<Longrightarrow> (\<And>v. safe a v (f v)) \<Longrightarrow> safe a w (and_then r f)"
  by (cases r) (auto simp: safe_def intro: sys_keeps_trans)

lemma safe_for_each: "(\<And>x v. x \<in> set xs \<Longrightarrow> safe a v (f x v)) \<Longrightarrow> safe a w (for_each f xs w)"
proof (induction xs arbitrary: w)
  case (Cons x xs)
  then show ?case by (auto intro!: safe_then)
qed simp

lemma safe_before: "sys_keeps a u v \<Longrightarrow> safe a v r \<Longrightarrow> safe a u r"
  by (auto simp: safe_def intro: sys_keeps_trans)

lemma keeps_ctl:
  "ct_drop_copy (f (cw_ctl w)) = ct_drop_copy (cw_ctl w) \<Longrightarrow> sys_keeps a w (upd_ctl f w)"
  by (simp add: sys_keeps_def gone_def)

lemma keeps_oe_call: "oe_keeps w (oe_call E ti k w)"
  by (cases k) (simp_all add: keeps_stream keeps_timer keeps_force)

lemma safe_child: "safe a w (classic_child E ti t k w)"
  by (cases t) (simp_all add: classic_child_def on_oe_def sys_keeps_def gone_def keeps_oe_call)

lemma safe_group: "safe a w (call_group (classic_child E ti) k ts w)"
  unfolding call_group_def by (rule safe_for_each) (rule safe_child)

lemma safe_assert: "(\<And>v. safe a v (f v)) \<Longrightarrow> safe a w (assert_that on p f w)"
  by (simp add: assert_that_def)

lemma safe_dispatch: "safe a w (ct_dispatch (classic_child E ti) k w)"
  unfolding ct_dispatch_def by (intro safe_then safe_child safe_group)

lemma safe_timer: "safe a w (ct_timer (classic_child E ti) now w)"
  unfolding ct_timer_def
proof (rule safe_then)
  show "safe a w (for_each (remove_zombie (classic_child E ti)) (ct_zombies (cw_ctl w)) w)"
  proof (rule safe_for_each)
    fix b and v :: "'a sys"
    have "sys_keeps a v (upd_ctl (\<lambda>c. c\<lparr>ct_drop_copy := set_drop_copy b None (ct_drop_copy c)\<rparr>) v)"
      by (auto simp: sys_keeps_def gone_def map_of_set_drop_copy)
    then show "safe a v (remove_zombie (classic_child E ti) b v)"
      by (auto simp: remove_zombie_def Let_def intro: safe_before safe_child)
  qed
next
  show "safe a v (ct_dispatch (classic_child E ti) (Do_timer now)
      (upd_ctl (\<lambda>c. c\<lparr>ct_zombies := []\<rparr>) v))" for v :: "'a sys"
    by (rule safe_before [OF keeps_ctl safe_dispatch]) simp
qed

lemma safe_grow: "(\<And>v. safe a v (add v)) \<Longrightarrow> safe a w (grow n count goal add w)"
  by (induction n arbitrary: w) (auto intro: safe_then)

lemma safe_add:
  "safe a w (add_market_data (classic_child E ti) p w)" "safe a w (add_market_data_2 (classic_child E ti) w)"
  by (auto simp: add_market_data_def add_market_data_2_def Let_def
      intro!: safe_then safe_before [OF keeps_ctl safe_child] keeps_ctl)

lemma safe_slices: "safe a w (ensure_symbol_slices (classic_child E ti) n w)"
  unfolding ensure_symbol_slices_def grow_to_def
  by (auto intro!: safe_then safe_grow safe_add)

lemma safe_symbols: "safe a w (ct_symbols_update (classic_child E ti) alloc symbols w)"
  unfolding ct_symbols_update_def
  by (auto intro!: safe_then safe_slices safe_group split: prod.splits)

lemma safe_subscribe: "safe a w (ct_subscribe (unseen_symbols known) (classic_child E ti) alloc symbols w)"
  by (auto simp: ct_subscribe_def unseen_symbols_def safe_symbols split: prod.splits)

lemma safe_control: "safe a w (ct_control (classic_child E ti) act w)"
  by (cases act) (simp_all add: ct_control_def safe_assert safe_child)

lemma safe_assets: "safe a w (ct_assets_update (classic_child E ti) assets w)"
  by (simp add: ct_assets_update_def safe_child)

text \<open>Only an announcement for the account itself brings its user stream back.\<close>

lemma safe_listen_key:
  assumes "b \<noteq> a"
  shows "safe a w (ct_listen_key_update (classic_child E ti) kind b k w)"
proof -
  have "sys_keeps a v (upd_ctl (\<lambda>c. c\<lparr>ct_drop_copy := set_drop_copy b d (ct_drop_copy c)\<rparr>) v)"
    for d and v :: "'a sys"
    using assms by (auto simp: sys_keeps_def gone_def map_of_set_drop_copy)
  then show ?thesis
    by (auto simp: ct_listen_key_update_def Let_def intro!: safe_then safe_assert
        safe_before [OF keeps_ctl safe_assert] safe_child split: option.splits)
qed

lemma safe_deliver:
  assumes "\<And>b k. Ev_listen_key_update b k \<in> set es \<Longrightarrow> b \<noteq> a"
  shows "safe a w (deliver (classic_child E ti) es w)"
  unfolding deliver_def
  by (rule safe_for_each) (use assms in \<open>auto intro: safe_listen_key split: effect.splits\<close>)

section \<open>The life of a listen key\<close>

definition named :: "'q sys \<Rightarrow> bool" where
  "named w = (\<forall>b. name_of (cw_rest w b) = b)"

definition has_key :: "string \<Rightarrow> 'q sys \<Rightarrow> bool" where
  "has_key a w = (oe_listen_key (gw_self (cw_rest w a)) \<noteq> [])"

lemma sys_keeps_has_key: "sys_keeps a v w \<Longrightarrow> has_key a v \<Longrightarrow> has_key a w"
  unfolding sys_keeps_def has_key_def oe_keeps_def by blast

lemma sys_keeps_named: "sys_keeps a v w \<Longrightarrow> named v \<Longrightarrow> named w"
  unfolding sys_keeps_def named_def oe_keeps_def by metis

lemma sys_step_keeps:
  assumes "sys_step v w" "named v" "has_key a v"
  shows "sys_keeps a v w"
  using assms
proof (induction rule: sys_step.induct)
  case (sys_start E ti w w')
  then show ?case
    using safe_dispatch [of a w E ti Do_start] by (simp add: ct_start_def assert_that_eq_Ok safe_def)
next
  case (sys_stop E ti w w')
  then show ?case using safe_dispatch [of a w E ti Do_stop] by (simp add: ct_stop_def safe_def)
next
  case (sys_timer E ti now w w')
  then show ?case using safe_timer [of a w E ti now] by (simp add: safe_def)
next
  case (sys_remove w b)
  then show ?case by (simp add: ct_remove_def keeps_ctl)
next
  case (sys_subscribe known E ti alloc symbols w w')
  then show ?case using safe_subscribe [of a w known E ti alloc symbols] by (simp add: safe_def)
next
  case (sys_symbols E ti alloc symbols w w')
  then show ?case using safe_symbols [of a w E ti alloc symbols] by (simp add: safe_def)
next
  case (sys_control E ti act w w')
  then show ?case using safe_control [of a w E ti act] by (simp add: safe_def)
next
  case (sys_assets E ti assets w w')
  then show ?case using safe_assets [of a w E ti assets] by (simp add: safe_def)
next
  case (sys_entry w b v es E ti w')
  have k: "oe_keeps (cw_rest w b) v" using sys_entry by (simp add: keeps_step)
  have entry: "sys_keeps a w (on_oe b (\<lambda>_. v) w)"
    using k by (simp add: sys_keeps_def on_oe_def gone_def)
  have "c \<noteq> a" if e: "Ev_listen_key_update c key \<in> set es" for c key
  proof (cases "b = a")
    case True
    then have "filter key_update es = []"
      using no_announcement [OF k _ sys_entry.hyps(2)] sys_entry.prems by (simp add: has_key_def)
    with e show ?thesis by (auto simp: filter_empty_conv)
  next
    case False
    obtain fs where "gw_out v = gw_out (cw_rest w b) @ fs"
      "\<And>a k. Ev_listen_key_update a k \<in> set fs \<Longrightarrow> a = name_of (cw_rest w b)"
      using keeps_out [OF k] by blast
    then have "c = name_of (cw_rest w b)" using e sys_entry.hyps(2) by auto
    with False sys_entry.prems show ?thesis by (simp add: named_def)
  qed
  then have "safe a (on_oe b (\<lambda>_. v) w) (deliver (classic_child E ti) es (on_oe b (\<lambda>_. v) w))"
    by (rule safe_deliver)
  with sys_entry.hyps(3) entry show ?case by (auto simp: safe_def intro: sys_keeps_trans)
qed

lemma sys_run_keeps:
  assumes "sys_run v w" "named v" "has_key a v"
  shows "sys_keeps a v w"
  using assms
proof (induction rule: sys_run.induct)
  case (sys_more u v w)
  then have "sys_keeps a u v" by simp
  then show ?case
    using sys_more sys_step_keeps sys_keeps_named sys_keeps_has_key sys_keeps_trans by metis
qed simp

lemma sys_run_trans: "sys_run v w \<Longrightarrow> sys_run u v \<Longrightarrow> sys_run u w"
  by (induction rule: sys_run.induct) (auto intro: sys_run.intros)

text \<open>
  The timer after a user stream has asked to be removed: the stream is gone, and the order
  entry will ask for a new key soon.
\<close>

lemma timer_removes:
  assumes "ct_zombies (cw_ctl w) = [a]" "map_of (ct_drop_copy (cw_ctl w)) a \<noteq> None"
    "map_of (ct_order_entry (cw_ctl w)) a \<noteq> None"
  shows "\<exists>w'. ct_timer (classic_child E ti) now w = Ok w' \<and> gone a w' \<and> ct_zombies (cw_ctl w') = []"
  using classic.timer_effect [of w E ti now] assms
  by (auto simp: classic.known_def gone_def map_of_set_drop_copy)

end
