(* ===== verification/Gw_Connections.thy ===== *)
theory Gw_Connections
  imports Gw_Controller Order_Entry_Classic
begin

text \<open>
  The helpers at the top of each stream's source file: its name (\<open>create_name\<close>), what it announces
  to support (\<open>SUPPORTS\<close>), and the connection its constructor creates (\<open>create_connection\<close>, with
  \<open>create_uri\<close> and \<open>create_query\<close> of the user streams), and \<open>SUPPORTS\<close> of \<open>gateway/config.cpp\<close>.

  The clients of \<open>web::rest\<close> and \<open>web::socket\<close> are library objects: the model has the
  configurations they are created with. A \<open>Mask\<close> is the list of its elements, and a field that the
  source sets to \<open>{}\<close> is zero or empty.
\<close>

section \<open>Settings and the two kinds of clients\<close>

text \<open>
  The flags that only the connections read. \<open>'u\<close> is \<open>io::web::URI\<close>, a class of the library: what
  the code calls of it is \<open>uri_lib\<close>.
\<close>

record 'u uri_lib =
  ur_scheme :: "'u \<Rightarrow> string"
  ur_host :: "'u \<Rightarrow> string"
  ur_path :: "'u \<Rightarrow> string"
  ur_create :: "string \<Rightarrow> 'u"

record 'u connection_settings = settings +
  cn_test_interface :: string
  cn_decode_buffer_size :: u32
  cn_encode_buffer_size :: u32
  cn_tls_validate_certificate :: bool
  cn_connection_timeout :: nanoseconds
  cn_disconnect_on_idle_timeout :: nanoseconds
  cn_rest_uri :: 'u
  cn_rest_host :: string
  cn_rest_pm_uri :: 'u
  cn_rest_pm_host :: string
  cn_rest_proxy :: 'u
  cn_rest_ping_freq :: nanoseconds
  cn_rest_ping_path :: string
  cn_rest_request_timeout :: nanoseconds
  cn_ws_uri :: 'u
  cn_ws_market_uri :: 'u
  cn_ws_user_uri :: 'u
  cn_ws_host :: string
  cn_ws_pm_uri :: 'u
  cn_ws_pm_host :: string
  cn_ws_ping_freq :: nanoseconds
  cn_ws_api_uri :: 'u
  cn_ws_api_host :: string
  cn_ws_api_ping_freq :: nanoseconds

record 'u rest_client =
  rc_interface :: string
  rc_proxy :: 'u
  rc_uris :: "'u list"
  rc_host :: string
  rc_validate_certificate :: bool
  rc_connection_timeout :: nanoseconds
  rc_disconnect_on_idle_timeout :: nanoseconds
  rc_keep_alive :: bool
  rc_allow_pipelining :: bool
  rc_request_timeout :: nanoseconds
  rc_suspend_on_retry_after :: bool
  rc_query :: string
  rc_user_agent :: string
  rc_ping_frequency :: nanoseconds
  rc_ping_path :: string
  rc_decode_buffer_size :: u32
  rc_encode_buffer_size :: u32

record 'u socket_client =
  sc_interface :: string
  sc_uris :: "'u list"
  sc_host :: string
  sc_validate_certificate :: bool
  sc_connection_timeout :: nanoseconds
  sc_disconnect_on_idle_timeout :: nanoseconds
  sc_always_reconnect :: bool
  sc_proxy :: "'u option"
  sc_user_agent :: string
  sc_request_timeout :: nanoseconds
  sc_ping_frequency :: nanoseconds
  sc_decode_buffer_size :: u32
  sc_encode_buffer_size :: u32
  sc_query :: string

text \<open>\<open>ROQ_PACKAGE_NAME\<close> is the name of the CMake project.\<close>

definition package_name :: string where
  "package_name = ''roq-binance-futures''"

text \<open>What all the REST clients have in common, and all the sockets.\<close>

definition rest_client_config ::
  "'u \<Rightarrow> string \<Rightarrow> string \<Rightarrow> 'u connection_settings \<Rightarrow> 'u rest_client" where
  "rest_client_config uri host ping_path st = \<lparr>
     rc_interface = cn_test_interface st, rc_proxy = cn_rest_proxy st, rc_uris = [uri],
     rc_host = host, rc_validate_certificate = cn_tls_validate_certificate st,
     rc_connection_timeout = 0, rc_disconnect_on_idle_timeout = 0, rc_keep_alive = True,
     rc_allow_pipelining = True, rc_request_timeout = cn_rest_request_timeout st,
     rc_suspend_on_retry_after = True, rc_query = [], rc_user_agent = package_name,
     rc_ping_frequency = cn_rest_ping_freq st, rc_ping_path = ping_path,
     rc_decode_buffer_size = cn_decode_buffer_size st,
     rc_encode_buffer_size = cn_encode_buffer_size st \<rparr>"

definition socket_client_config ::
  "'u \<Rightarrow> string \<Rightarrow> nanoseconds \<Rightarrow> nanoseconds \<Rightarrow> 'u connection_settings \<Rightarrow> 'u socket_client" where
  "socket_client_config uri host idle_timeout ping_frequency st = \<lparr>
     sc_interface = cn_test_interface st, sc_uris = [uri], sc_host = host,
     sc_validate_certificate = cn_tls_validate_certificate st,
     sc_connection_timeout = cn_connection_timeout st,
     sc_disconnect_on_idle_timeout = idle_timeout, sc_always_reconnect = True, sc_proxy = None,
     sc_user_agent = package_name, sc_request_timeout = 0, sc_ping_frequency = ping_frequency,
     sc_decode_buffer_size = cn_decode_buffer_size st,
     sc_encode_buffer_size = cn_encode_buffer_size st, sc_query = [] \<rparr>"

section \<open>REST streams\<close>

definition rm_connection :: "'u connection_settings \<Rightarrow> 'u rest_client" where
  "rm_connection st =
     rest_client_config (cn_rest_uri st) (cn_rest_host st) (''/'' @ st_app_api st @ cn_rest_ping_path st) st"

definition oe_connection :: "'u connection_settings \<Rightarrow> 'u rest_client" where
  "oe_connection st =
     rest_client_config (cn_rest_uri st) (cn_rest_host st) (''/'' @ st_app_api st @ cn_rest_ping_path st) st"

definition op_connection :: "'u connection_settings \<Rightarrow> 'u rest_client" where
  "op_connection st =
     rest_client_config (cn_rest_pm_uri st) (cn_rest_pm_host st) (''/papi'' @ cn_rest_ping_path st) st"

definition rt_connection :: "'u connection_settings \<Rightarrow> 'u rest_client" where
  "rt_connection st =
     rest_client_config (cn_rest_uri st) (cn_rest_host st) (''/'' @ st_app_api st @ cn_rest_ping_path st) st"

section \<open>WebSocket streams\<close>

text \<open>The streams of an account have no idle timeout.\<close>

definition mk1_connection :: "'u connection_settings \<Rightarrow> 'u socket_client" where
  "mk1_connection st =
     socket_client_config (cn_ws_uri st) (cn_ws_host st) (cn_disconnect_on_idle_timeout st) (cn_ws_ping_freq st) st"

definition mk2_connection :: "'u connection_settings \<Rightarrow> 'u socket_client" where
  "mk2_connection st =
     socket_client_config (cn_ws_market_uri st) (cn_ws_host st) (cn_disconnect_on_idle_timeout st) (cn_ws_ping_freq st) st"

definition ws_connection :: "'u connection_settings \<Rightarrow> 'u socket_client" where
  "ws_connection st =
     socket_client_config (cn_ws_api_uri st) (cn_ws_api_host st) 0 (cn_ws_api_ping_freq st) st"

text \<open>
  The user streams. The URI is built from the parts of the one in the settings; what follows its
  path is dropped. The query is asked for by the client when it connects.
\<close>

definition uri_from :: "'u uri_lib \<Rightarrow> 'u \<Rightarrow> 'u" where
  "uri_from L u = ur_create L (ur_scheme L u @ ''://'' @ ur_host L u @ ur_path L u)"

definition usc_create_uri :: "'u uri_lib \<Rightarrow> 'u connection_settings \<Rightarrow> 'u" where
  "usc_create_uri L st = uri_from L (cn_ws_user_uri st)"

definition usp_create_uri :: "'u uri_lib \<Rightarrow> 'u connection_settings \<Rightarrow> 'u" where
  "usp_create_uri L st = uri_from L (cn_ws_pm_uri st)"

text \<open>
  That the listen key is not empty is asserted here. The listen key is the argument of the constructor, and the
  model checks the assertion where the controller creates the stream (\<open>ct_listen_key_update\<close>).
\<close>

definition usc_create_query :: "string \<Rightarrow> string" where
  "usc_create_query listen_key = ''/'' @ listen_key"

definition usp_create_query :: "string \<Rightarrow> string" where
  "usp_create_query listen_key = ''/'' @ listen_key"

definition usc_connection :: "'u uri_lib \<Rightarrow> 'u connection_settings \<Rightarrow> 'u socket_client" where
  "usc_connection L st =
     socket_client_config (usc_create_uri L st) (cn_ws_host st) 0 (cn_ws_ping_freq st) st"

definition usp_connection :: "'u uri_lib \<Rightarrow> 'u connection_settings \<Rightarrow> 'u socket_client" where
  "usp_connection L st =
     socket_client_config (usp_create_uri L st) (cn_ws_pm_host st) 0 (cn_ws_ping_freq st) st"

section \<open>Names\<close>

text \<open>
  \<open>{}:{}\<close> of the stream id and a constant, with the account behind it for the streams that send
  requests for one, and the priority for the first class of market data. The controller never
  passes the undefined priority.
\<close>

definition stream_name :: "u16 \<Rightarrow> string \<Rightarrow> string" where
  "stream_name stream_id kind = show_nat (unat stream_id) @ '':'' @ kind"

definition rm_name :: "u16 \<Rightarrow> string" where
  "rm_name stream_id = stream_name stream_id ''om''"

definition mk2_name :: "u16 \<Rightarrow> string" where
  "mk2_name stream_id = stream_name stream_id ''md''"

definition usc_name :: "u16 \<Rightarrow> string" where
  "usc_name stream_id = stream_name stream_id ''ex''"

definition usp_name :: "u16 \<Rightarrow> string" where
  "usp_name stream_id = stream_name stream_id ''ex''"

definition mk1_name :: "u16 \<Rightarrow> priority \<Rightarrow> string" where
  "mk1_name stream_id priority = stream_name stream_id ''md'' @
     (case priority of Priority_PRIMARY \<Rightarrow> '':a'' | Priority_SECONDARY \<Rightarrow> '':b'')"

definition oe_name :: "u16 \<Rightarrow> string \<Rightarrow> string" where
  "oe_name stream_id account_name = stream_name stream_id ''om'' @ '':'' @ account_name"

definition op_name :: "u16 \<Rightarrow> string \<Rightarrow> string" where
  "op_name stream_id account_name = stream_name stream_id ''omm'' @ '':'' @ account_name"

definition ws_name :: "u16 \<Rightarrow> string \<Rightarrow> string" where
  "ws_name stream_id account_name = stream_name stream_id ''ex'' @ '':'' @ account_name"

definition rt_name :: "u16 \<Rightarrow> string \<Rightarrow> string" where
  "rt_name stream_id account_name = stream_name stream_id ''rd'' @ '':'' @ account_name"

lemmas name_defs = rm_name_def mk1_name_def mk2_name_def usc_name_def usp_name_def oe_name_def
  op_name_def ws_name_def rt_name_def

text \<open>The stream id can be read back from any name, so streams with different ids have different names.\<close>

definition name_id :: "string \<Rightarrow> nat" where
  "name_id s = read_nat (takeWhile (\<lambda>c. c \<noteq> CHR '':'') s)"

lemma colon_not_in_number: "CHR '':'' \<notin> set (show_nat n)"
  by (auto dest: show_nat_digits simp: is_digit_def)

lemma name_id_stream [simp]: "name_id (stream_name i k) = unat i" "name_id (stream_name i k @ s) = unat i"
  by (simp_all add: name_id_def stream_name_def takeWhile_append_sep colon_not_in_number)

lemma name_id_names [simp]:
  "name_id (rm_name i) = unat i" "name_id (mk1_name i p) = unat i" "name_id (mk2_name i) = unat i"
  "name_id (usc_name i) = unat i" "name_id (usp_name i) = unat i" "name_id (oe_name i a) = unat i"
  "name_id (op_name i a) = unat i" "name_id (ws_name i a) = unat i" "name_id (rt_name i a) = unat i"
  unfolding name_defs by simp_all

text \<open>The name of an order entry depends on its class.\<close>

fun entry_name :: "string \<times> oe_kind \<times> u16 \<Rightarrow> string" where
  "entry_name (a, Kind_WebSocket, i) = ws_name i a"
| "entry_name (a, Kind_OrderEntryClassic, i) = oe_name i a"
| "entry_name (a, Kind_OrderEntryPortfolio, i) = op_name i a"

lemma name_id_entry [simp]: "name_id (entry_name e) = unat (snd (snd e))"
  by (cases e rule: entry_name.cases) simp_all

definition stream_names :: "controller \<Rightarrow> string list" where
  "stream_names c = rm_name 1 # map entry_name (ct_order_entry c)
     @ map (\<lambda>(a, i). rt_name i a) (ct_download c)"

lemma distinct_unat: "distinct (map unat (ids :: u16 list)) = distinct ids"
  by (auto simp: distinct_map inj_on_def simp flip: word_unat_eq_iff)

lemma stream_names_distinct:
  assumes "distinct (1 # map (snd \<circ> snd) (ct_order_entry c) @ map snd (ct_download c))"
  shows "distinct (stream_names c)"
proof -
  have "map name_id (stream_names c)
      = map unat (1 # map (snd \<circ> snd) (ct_order_entry c) @ map snd (ct_download c))"
    by (simp add: stream_names_def split_def)
  then have "distinct (map name_id (stream_names c))"
    using assms distinct_unat by (simp only:)
  then show ?thesis by (rule distinct_map [THEN iffD1, THEN conjunct1])
qed

section \<open>What the streams announce\<close>

datatype support_type =
    SupportType_REFERENCE_DATA | SupportType_MARKET_STATUS | SupportType_TOP_OF_BOOK
  | SupportType_MARKET_BY_PRICE | SupportType_TRADE_SUMMARY | SupportType_STATISTICS
  | SupportType_CREATE_ORDER | SupportType_MODIFY_ORDER | SupportType_CANCEL_ORDER
  | SupportType_ORDER_ACK | SupportType_ORDER | SupportType_TRADE | SupportType_FUNDS
  | SupportType_POSITION

definition rm_supports :: "support_type list" where
  "rm_supports =
     [SupportType_REFERENCE_DATA, SupportType_MARKET_STATUS]"

definition mk1_supports :: "support_type list" where
  "mk1_supports =
     [SupportType_MARKET_BY_PRICE]"

definition mk2_supports :: "support_type list" where
  "mk2_supports =
     [SupportType_TOP_OF_BOOK, SupportType_TRADE_SUMMARY, SupportType_STATISTICS]"

definition oe_supports :: "support_type list" where
  "oe_supports =
     [SupportType_FUNDS, SupportType_POSITION, SupportType_CREATE_ORDER,
      SupportType_MODIFY_ORDER, SupportType_CANCEL_ORDER, SupportType_ORDER_ACK]"

definition op_supports :: "support_type list" where
  "op_supports =
     [SupportType_CREATE_ORDER, SupportType_MODIFY_ORDER, SupportType_CANCEL_ORDER,
      SupportType_ORDER_ACK, SupportType_FUNDS, SupportType_POSITION]"

definition ws_supports :: "support_type list" where
  "ws_supports =
     [SupportType_FUNDS, SupportType_POSITION, SupportType_CREATE_ORDER,
      SupportType_MODIFY_ORDER, SupportType_CANCEL_ORDER, SupportType_ORDER_ACK]"

definition rt_supports :: "support_type list" where
  "rt_supports =
     [SupportType_FUNDS, SupportType_POSITION]"

definition usc_supports :: "support_type list" where
  "usc_supports =
     [SupportType_FUNDS, SupportType_POSITION, SupportType_ORDER_ACK, SupportType_ORDER,
      SupportType_TRADE]"

definition usp_supports :: "support_type list" where
  "usp_supports =
     [SupportType_FUNDS, SupportType_POSITION, SupportType_ORDER_ACK, SupportType_ORDER,
      SupportType_TRADE]"

text \<open>And the gateway as a whole, to its clients.\<close>

definition gateway_supports :: "support_type list" where
  "gateway_supports =
     [SupportType_REFERENCE_DATA, SupportType_MARKET_STATUS, SupportType_TOP_OF_BOOK,
      SupportType_MARKET_BY_PRICE, SupportType_TRADE_SUMMARY, SupportType_STATISTICS,
      SupportType_CREATE_ORDER, SupportType_CANCEL_ORDER, SupportType_ORDER_ACK,
      SupportType_FUNDS]"

definition all_supports :: "support_type list" where
  "all_supports = rm_supports @ mk1_supports @ mk2_supports @ oe_supports @ op_supports
     @ ws_supports @ rt_supports @ usc_supports @ usp_supports"

lemmas supports_defs = rm_supports_def mk1_supports_def mk2_supports_def oe_supports_def
  op_supports_def ws_supports_def rt_supports_def usc_supports_def usp_supports_def
  gateway_supports_def all_supports_def

text \<open>
  The gateway announces nothing that no stream announces, but not all of it: order modification,
  positions, and the orders and trades of the user streams are missing.
\<close>

lemma gateway_supports_incomplete:
  "set gateway_supports \<subseteq> set all_supports"
  "set all_supports - set gateway_supports
     = {SupportType_MODIFY_ORDER, SupportType_POSITION, SupportType_ORDER, SupportType_TRADE}"
  by (auto simp: supports_defs)

end
