(* ===== verification/Controller_Properties.thy ===== *)
theory Controller_Properties
  imports Gw_System Sample_Env Gw_Connections
begin

text \<open>
  The properties of the controller: what its constructor sets up, where it routes order actions,
  how it grows and prunes its streams.
\<close>

section \<open>What the constructor sets up\<close>

text \<open>The streams that the loops over the accounts create, with their ids.\<close>

fun entries_from :: "settings \<Rightarrow> u16 \<Rightarrow> (string \<times> account) list \<Rightarrow> (string \<times> oe_kind \<times> u16) list" where
  "entries_from st n [] = []"
| "entries_from st n (p # ps) =
     (fst p, order_entry_kind st (ac_margin_mode (snd p)), n + 1) # entries_from st (n + 1) ps"

definition downloads :: "settings \<Rightarrow> string \<times> account \<Rightarrow> bool" where
  "downloads st p = (ac_margin_mode (snd p) \<noteq> MarginMode_PORTFOLIO \<and> st_ws_api st)"

fun downloads_from :: "u16 \<Rightarrow> (string \<times> account) list \<Rightarrow> (string \<times> u16) list" where
  "downloads_from n [] = []"
| "downloads_from n (p # ps) = (fst p, n + 1) # downloads_from (n + 1) ps"

definition well_named :: "(string \<times> account) list \<Rightarrow> bool" where
  "well_named ps = (distinct (map fst ps) \<and> (\<forall>p \<in> set ps. ac_name (snd p) = fst p))"

lemma map_emplace_new: "k \<notin> fst ` set m \<Longrightarrow> map_emplace k v m = m @ [(k, v)]"
  by (simp add: map_emplace_def map_of_eq_None_iff)

lemma create_accounts_effect:
  "for_each (create_account L cfg) items c = Ok c' \<Longrightarrow> well_named (ct_accounts c) \<Longrightarrow>
     well_named (ct_accounts c') \<and> fst ` set (ct_accounts c') \<subseteq> fst ` set (ct_accounts c) \<union> ca_name ` snd ` set items
     \<and> c' = c\<lparr>ct_accounts := ct_accounts c'\<rparr>"
proof (induction items arbitrary: c)
  case (Cons i items)
  then obtain d where d: "create_account L cfg i c = Ok d" "for_each (create_account L cfg) items d = Ok c'"
    by (auto simp: and_then_eq_Ok)
  then obtain a where a: "account_create L cfg (ca_name (snd i)) (ca_mode (snd i)) = Inr a"
    "d = c\<lparr>ct_accounts := map_emplace (ca_name (snd i)) a (ct_accounts c)\<rparr>"
    by (auto simp: create_account_def split: sum.splits)
  have "ac_name a = ca_name (snd i)"
    using a(1) by (auto simp: account_create_def split: sum.splits if_splits)
  then have "well_named (ct_accounts d)"
    using Cons.prems(2) a(2)
    by (auto simp: well_named_def map_emplace_def map_of_eq_None_iff)
  from Cons.IH [OF d(2) this] a(2) show ?case
    by (auto simp: map_emplace_def split: if_splits)
qed simp

lemma create_requests_effect:
  "set (ct_requests (fold create_request items c)) = set (ct_requests c) \<union> ca_name ` snd ` set items"
  "fold create_request items c = c\<lparr>ct_requests := ct_requests (fold create_request items c)\<rparr>"
proof (induction items arbitrary: c)
  case (Cons i items)
  {
    case 1 show ?case
      using Cons.IH(1) [of "create_request i c"] by (simp add: create_request_def)
  next
    case 2 show ?case
      using Cons.IH(2) [of "create_request i c"] by (simp add: create_request_def)
  }
qed simp_all

lemma create_order_entries_effect:
  assumes "well_named ps" "fst ` set ps \<subseteq> set (ct_requests c)"
    and "fst ` set ps \<inter> fst ` set (ct_order_entry c) = {}"
  shows "for_each create_order_entry ps c = Ok (c\<lparr>
      ct_stream_id := ct_stream_id c + of_nat (length ps),
      ct_order_entry := ct_order_entry c @ entries_from (ct_settings c) (ct_stream_id c) ps\<rparr>)"
  using assms
proof (induction ps arbitrary: c)
  case (Cons p ps)
  define d where "d = c\<lparr>ct_stream_id := ct_stream_id c + 1, ct_order_entry := ct_order_entry c @
    [(fst p, order_entry_kind (ct_settings c) (ac_margin_mode (snd p)), ct_stream_id c + 1)]\<rparr>"
  have d: "create_order_entry p c = Ok d"
    using Cons.prems by (auto simp: create_order_entry_def d_def Let_def well_named_def map_emplace_new)
  have "for_each create_order_entry ps d = Ok (d\<lparr>
      ct_stream_id := ct_stream_id d + of_nat (length ps),
      ct_order_entry := ct_order_entry d @ entries_from (ct_settings d) (ct_stream_id d) ps\<rparr>)"
    using Cons.prems by (intro Cons.IH) (auto simp: well_named_def d_def)
  then show ?case using d by (simp add: d_def ac_simps)
qed simp

lemma create_drop_copies_effect:
  assumes "well_named ps" "fst ` set ps \<inter> fst ` set (ct_drop_copy c) = {}"
  shows "fold create_drop_copy ps c
    = c\<lparr>ct_drop_copy := ct_drop_copy c @ map (\<lambda>p. (fst p, None)) ps\<rparr>"
  using assms
proof (induction ps arbitrary: c)
  case (Cons p ps)
  have d: "create_drop_copy p c = c\<lparr>ct_drop_copy := ct_drop_copy c @ [(fst p, None)]\<rparr>"
    using Cons.prems by (auto simp: create_drop_copy_def well_named_def map_emplace_new)
  show ?case
    using Cons.prems by (simp add: d) (subst Cons.IH, auto simp: well_named_def)
qed simp

lemma create_downloads_effect:
  assumes "well_named ps" "fst ` set ps \<subseteq> set (ct_requests c)"
    and "fst ` set ps \<inter> fst ` set (ct_download c) = {}"
  defines "qs \<equiv> filter (downloads (ct_settings c)) ps"
  shows "for_each create_download ps c = Ok (c\<lparr>
      ct_stream_id := ct_stream_id c + of_nat (length qs),
      ct_download := ct_download c @ downloads_from (ct_stream_id c) qs\<rparr>)"
  using assms(1-3) unfolding qs_def
proof (induction ps arbitrary: c)
  case (Cons p ps)
  define d where "d = (if downloads (ct_settings c) p
    then c\<lparr>ct_stream_id := ct_stream_id c + 1, ct_download := ct_download c @ [(fst p, ct_stream_id c + 1)]\<rparr>
    else c)"
  have d: "create_download p c = Ok d"
    using Cons.prems
    by (auto simp: create_download_def d_def Let_def well_named_def downloads_def map_emplace_new)
  have "for_each create_download ps d = Ok (d\<lparr>
      ct_stream_id := ct_stream_id d + of_nat (length (filter (downloads (ct_settings d)) ps)),
      ct_download := ct_download d @ downloads_from (ct_stream_id d) (filter (downloads (ct_settings d)) ps)\<rparr>)"
    using Cons.prems by (intro Cons.IH) (auto simp: well_named_def d_def)
  then show ?case using d by (simp add: d_def ac_simps)
qed simp

text \<open>The constructed controller in one equation.\<close>

lemma controller_create_result:
  assumes "controller_create L stp_of st cfg = Ok c"
  obtains "well_named (ct_accounts c)" "\<not> st_rest_cancel_on_disconnect st" "ct_settings c = st"
    "ct_order_entry c = entries_from st 1 (ct_accounts c)"
    "ct_drop_copy c = map (\<lambda>p. (fst p, None)) (ct_accounts c)"
    "ct_download c = downloads_from (1 + of_nat (length (ct_accounts c)))
       (filter (downloads st) (ct_accounts c))"
    "fst ` set (ct_accounts c) \<subseteq> set (ct_requests c)"
    "ct_zombies c = []" "ct_market_data_a c = []" "ct_market_data_b c = []" "ct_market_data_2 c = []"
proof -
  obtain c1 where c1: "for_each (create_account L cfg) (cf_accounts cfg) (empty_controller st) = Ok c1"
    using assms by (auto simp: controller_create_def and_then_eq_Ok)
  have "well_named (ct_accounts (empty_controller st))" by (simp add: empty_controller_def well_named_def)
  from create_accounts_effect [OF c1 this]
  have acc: "well_named (ct_accounts c1)"
    "fst ` set (ct_accounts c1) \<subseteq> ca_name ` snd ` set (cf_accounts cfg)"
    "c1 = (empty_controller st)\<lparr>ct_accounts := ct_accounts c1\<rparr>"
    by (simp_all add: empty_controller_def)
  define ps where "ps = ct_accounts c1"
  define c2 where "c2 = (fold create_request (cf_accounts cfg) c1)"
  define c3 where "c3 = c2\<lparr>ct_stream_id := ct_stream_id c2 + 1\<rparr>"
  have c2: "c2 = (empty_controller st)\<lparr>ct_accounts := ps, ct_requests := ct_requests c2\<rparr>"
    using create_requests_effect(2) [of "cf_accounts cfg" c1] acc(3) unfolding c2_def ps_def by metis
  have req: "fst ` set ps \<subseteq> set (ct_requests c2)"
    using acc(2) create_requests_effect(1) [of "cf_accounts cfg" c1] by (auto simp: c2_def ps_def)
  have c3: "ct_settings c3 = st" "ct_stream_id c3 = 1" "ct_accounts c3 = ps" "ct_requests c3 = ct_requests c2"
    "ct_order_entry c3 = []" "ct_drop_copy c3 = []" "ct_download c3 = []" "ct_zombies c3 = []"
    "ct_market_data_a c3 = []" "ct_market_data_b c3 = []" "ct_market_data_2 c3 = []"
    unfolding c3_def by (subst c2, simp add: empty_controller_def)+
  define c4 where "c4 = c3\<lparr>ct_stream_id := 1 + of_nat (length ps), ct_order_entry := entries_from st 1 ps\<rparr>"
  have acc2: "ct_accounts c2 = ps" using c3(3) by (simp add: c3_def)
  have c4: "for_each create_order_entry (ct_accounts c2) c3 = Ok c4"
    unfolding acc2 using create_order_entries_effect [of ps c3] acc(1) req
    by (simp add: c3 ps_def c4_def)
  define c5 where "c5 = c4\<lparr>ct_drop_copy := map (\<lambda>p. (fst p, None)) ps\<rparr>"
  have c5: "fold create_drop_copy (ct_accounts c4) c4 = c5"
    using create_drop_copies_effect [of ps c4] acc(1) by (simp add: c4_def c5_def c3 ps_def)
  define qs where "qs = filter (downloads st) ps"
  define c6 where "c6 = c5\<lparr>ct_stream_id := 1 + of_nat (length ps) + of_nat (length qs),
    ct_download := downloads_from (1 + of_nat (length ps)) qs\<rparr>"
  have c6: "for_each create_download (ct_accounts c4) c5 = Ok c6"
    using create_downloads_effect [of ps c5] acc(1) req
    by (simp add: c6_def c5_def c4_def c3 ps_def qs_def)
  have "c = c6 \<and> \<not> st_rest_cancel_on_disconnect st"
    using assms c1 c4 c5 c6
    by (auto simp: controller_create_def Let_def c2_def [symmetric] c3_def [symmetric]
        split: sum.splits if_splits)
  then show thesis
    using acc(1) req by (intro that) (simp_all add: c6_def c5_def c4_def c3 ps_def qs_def)
qed

lemma map_of_entries:
  "distinct (map fst ps) \<Longrightarrow> (k, a) \<in> set ps \<Longrightarrow>
     \<exists>n'. map_of (entries_from st n ps) k = Some (order_entry_kind st (ac_margin_mode a), n')"
  by (induction ps arbitrary: n) (auto simp: rev_image_eqI)

lemma well_named_filter:
  "well_named ps \<Longrightarrow> (k, a) \<in> set ps \<Longrightarrow> (k \<in> fst ` set (filter P ps)) = P (k, a)"
  by (auto simp: well_named_def image_iff dest: eq_key_imp_eq_value)

lemma map_of_downloads: "map_of (downloads_from n ps) k = None \<longleftrightarrow> k \<notin> fst ` set ps"
  by (induction ps arbitrary: n) auto

text \<open>A controller for two accounts, one of them with portfolio margin.\<close>

definition sample_cfg_account :: "string \<Rightarrow> margin_mode \<Rightarrow> cfg_account" where
  "sample_cfg_account name mode = \<lparr> ca_name = name, ca_master = False, ca_mode = mode,
     ca_login = ''key'', ca_secret = ''secret'', ca_login_2 = [], ca_secret_2 = [] \<rparr>"

definition sample_config :: config where
  "sample_config = \<lparr> cf_exchange = ''binance-futures'',
     cf_gateway_settings = create_gateway_settings sample_settings, cf_users = [], cf_symbols = [],
     cf_accounts = [(''A'', sample_cfg_account ''A'' MarginMode_CROSS),
       (''P'', sample_cfg_account ''P'' MarginMode_PORTFOLIO)],
     cf_master = ''A'', cf_rate_limits = [] \<rparr>"

definition sample_ws_settings :: settings where
  "sample_ws_settings = sample_settings\<lparr>st_ws_api := True\<rparr>"

definition sample_created :: "(exn, controller) res" where
  "sample_created = controller_create sample_crypto_lib
     (\<lambda>_. JSelfTradePrevention_UNDEFINED_INTERNAL) sample_ws_settings sample_config"

lemmas sample_created_defs = sample_created_def sample_config_def sample_cfg_account_def
  sample_ws_settings_def sample_settings_def sample_crypto_lib_def

lemma sample_created_Ok:
  "sample_created = Ok (res_state sample_created)
     \<and> map (\<lambda>(k, a). (k, ac_name a, ac_margin_mode a)) (ct_accounts (res_state sample_created))
       = [(''A'', ''A'', MarginMode_CROSS), (''P'', ''P'', MarginMode_PORTFOLIO)]"
  by code_simp

text \<open>
  The controller sets up every account completely: one order entry of the kind the margin
  mode and the settings ask for, a place for the user stream that is still empty, and a
  download connection exactly for accounts that trade over the WebSocket API.
\<close>

theorem controller_sets_up_accounts:
  assumes "controller_create L stp_of st cfg = Ok c" "(k, a) \<in> set (ct_accounts c)"
  shows "ac_name a = k
    \<and> (\<exists>n. map_of (ct_order_entry c) k = Some (order_entry_kind st (ac_margin_mode a), n))
    \<and> map_of (ct_drop_copy c) k = Some None
    \<and> (map_of (ct_download c) k \<noteq> None \<longleftrightarrow> order_entry_kind st (ac_margin_mode a) = Kind_WebSocket)"
proof -
  from assms(1) have c: "well_named (ct_accounts c)"
    "ct_order_entry c = entries_from st 1 (ct_accounts c)"
    "ct_drop_copy c = map (\<lambda>p. (fst p, None)) (ct_accounts c)"
    "ct_download c = downloads_from (1 + of_nat (length (ct_accounts c)))
       (filter (downloads st) (ct_accounts c))"
    by (auto elim: controller_create_result)
  have "map_of (ct_accounts c) k = Some a"
    using c(1) assms(2) by (simp add: well_named_def map_of_is_SomeI)
  then have "map_of (map (\<lambda>p. (fst p, None)) (ct_accounts c)) k = Some (None :: drop_copy option)"
    using map_of_map [of "\<lambda>_. None :: drop_copy option" "ct_accounts c"]
    by (simp add: case_prod_unfold)
  moreover have "(k \<in> fst ` set (filter (downloads st) (ct_accounts c))) = downloads st (k, a)"
    using c(1) assms(2) by (rule well_named_filter)
  ultimately show ?thesis
    using c assms(2) map_of_entries [of "ct_accounts c" k a st 1]
    by (auto simp: well_named_def map_of_downloads downloads_def order_entry_kind_def
        split: margin_mode.splits)
qed

lemma sample_created_create:
  "controller_create sample_crypto_lib (\<lambda>_. JSelfTradePrevention_UNDEFINED_INTERNAL)
     sample_ws_settings sample_config = Ok (res_state sample_created)"
  using sample_created_Ok by (simp add: sample_created_def)

lemma sample_created_account:
  obtains a where "(''P'', a) \<in> set (ct_accounts (res_state sample_created))"
    "ac_margin_mode a = MarginMode_PORTFOLIO"
proof -
  have "(''P'', ''P'', MarginMode_PORTFOLIO) \<in> set (map (\<lambda>(k, a). (k, ac_name a, ac_margin_mode a))
      (ct_accounts (res_state sample_created)))"
    using sample_created_Ok by simp
  then show thesis using that by auto
qed

theorem controller_sets_up_accounts_witness:
  "\<exists>a. (''P'', a) \<in> set (ct_accounts (res_state sample_created)) \<and> ac_name a = ''P''
    \<and> map_of (ct_drop_copy (res_state sample_created)) ''P'' = Some None"
proof -
  obtain a where a: "(''P'', a) \<in> set (ct_accounts (res_state sample_created))"
    by (rule sample_created_account)
  show ?thesis using controller_sets_up_accounts [OF sample_created_create a] a by blast
qed

text \<open>
  C20: Of a portfolio margin account, orders can be created, modified and canceled one by one, but
  when the WebSocket API is enabled, canceling all of its orders fails with \<open>Unknown account\<close>: the
  controller looks for a download connection, which these accounts do not get. (An account without a name
  is asserted not to be in a request.)
\<close>

theorem cancel_all_portfolio_not_routed:
  assumes "controller_create L stp_of st cfg = Ok c" "(k, a) \<in> set (ct_accounts c)"
    and "ac_margin_mode a = MarginMode_PORTFOLIO" "st_ws_api st" "k \<noteq> [] \<or> \<not> st_assertions st"
  shows "ct_order_action (Do_create_order k) c = Routed (To_order_entry k)
    \<and> ct_order_action (Do_modify_order k k) c = Routed (To_order_entry k)
    \<and> ct_order_action (Do_cancel_order k k) c = Routed (To_order_entry k)
    \<and> ct_order_action (Do_cancel_all_orders k) c = Refused (Std_exception (unknown_account k))"
proof -
  from assms(1) have c: "well_named (ct_accounts c)" "ct_settings c = st"
    "ct_order_entry c = entries_from st 1 (ct_accounts c)"
    "ct_download c = downloads_from (1 + of_nat (length (ct_accounts c)))
       (filter (downloads st) (ct_accounts c))"
    by (auto elim: controller_create_result)
  have "k \<notin> fst ` set (filter (downloads st) (ct_accounts c))"
    using well_named_filter [OF c(1) assms(2)] assms(3) by (simp add: downloads_def)
  then show ?thesis
    using c assms map_of_entries [of "ct_accounts c" k a st 1]
    by (auto simp: ct_order_action_def routed_to_def get_order_entry_def get_rest_trade_def map_of_downloads
        well_named_def)
qed

theorem cancel_all_portfolio_not_routed_witness:
  "ct_order_action (Do_create_order ''P'') (res_state sample_created) = Routed (To_order_entry ''P'')
   \<and> ct_order_action (Do_modify_order ''P'' ''P'') (res_state sample_created) = Routed (To_order_entry ''P'')
   \<and> ct_order_action (Do_cancel_order ''P'' ''P'') (res_state sample_created) = Routed (To_order_entry ''P'')
   \<and> ct_order_action (Do_cancel_all_orders ''P'') (res_state sample_created)
      = Refused (Std_exception (unknown_account ''P''))"
proof -
  obtain a where a: "(''P'', a) \<in> set (ct_accounts (res_state sample_created))"
    "ac_margin_mode a = MarginMode_PORTFOLIO"
    by (rule sample_created_account)
  show ?thesis
    by (rule cancel_all_portfolio_not_routed [OF sample_created_create a])
      (simp_all add: sample_ws_settings_def)
qed

lemma entries_ids:
  "map (snd \<circ> snd) (entries_from st n ps) = map (\<lambda>j. n + of_nat (Suc j)) [0..<length ps]"
  by (induction ps arbitrary: n) (simp_all add: upt_rec [of 0] map_Suc_upt [symmetric] ac_simps
      del: upt_Suc)

lemma downloads_ids:
  "map snd (downloads_from n ps) = map (\<lambda>j. n + of_nat (Suc j)) [0..<length ps]"
  by (induction ps arbitrary: n) (simp_all add: upt_rec [of 0] map_Suc_upt [symmetric] ac_simps
      del: upt_Suc)

lemma unat_of_nat_u16: "x < 65536 \<Longrightarrow> unat (of_nat x :: u16) = x"
  by (simp add: unat_of_nat)

lemma u16_eq: "x < 65536 \<Longrightarrow> y < 65536 \<Longrightarrow> (of_nat x :: u16) = of_nat y \<Longrightarrow> x = y"
  by (metis unat_of_nat_u16)

lemma distinct_ids:
  assumes "n < 65535"
  shows "distinct (map (of_nat :: nat \<Rightarrow> u16) [1..<Suc (Suc n)])"
  unfolding distinct_map
  by (intro conjI inj_onI) (use assms in \<open>auto intro!: u16_eq simp del: of_nat_Suc\<close>)

lemma ids_shift: "1 # map (\<lambda>j. 1 + of_nat (Suc j) :: u16) [0..<n] = map of_nat [1..<Suc (Suc n)]"
  by (induction n) simp_all

text \<open>
  C21: Every stream of a constructed controller has an id of its own, also different from the one of
  the REST connection (1), as long as the ids fit their 16 bits, and so a name of its own: the
  metrics of two streams are never mixed up.
\<close>

theorem stream_ids_distinct:
  assumes "controller_create L stp_of st cfg = Ok c" "2 * length (ct_accounts c) + 1 < 2 ^ 16"
  shows "distinct (1 # map (snd \<circ> snd) (ct_order_entry c) @ map snd (ct_download c))
    \<and> distinct (stream_names c)"
proof -
  define n where "n = length (ct_accounts c)"
  define m where "m = length (filter (downloads st) (ct_accounts c))"
  from assms(1) have c: "ct_order_entry c = entries_from st 1 (ct_accounts c)"
    "ct_download c = downloads_from (1 + of_nat n) (filter (downloads st) (ct_accounts c))"
    unfolding n_def by (auto elim: controller_create_result)
  have "map (\<lambda>j. 1 + of_nat (Suc j) :: u16) [0..<n + m]
      = map (\<lambda>j. 1 + of_nat (Suc j)) [0..<n] @ map (\<lambda>j. 1 + of_nat n + of_nat (Suc j)) [0..<m]"
    by (rule nth_equalityI) (auto simp: nth_append)
  then have "map (snd \<circ> snd) (ct_order_entry c) @ map snd (ct_download c)
      = map (\<lambda>j. 1 + of_nat (Suc j) :: u16) [0..<n + m]"
    unfolding c entries_ids downloads_ids n_def m_def by simp
  moreover have "m \<le> n" by (simp add: m_def n_def)
  then have "n + m < 65535" using assms(2) by (simp add: n_def [symmetric])
  ultimately have "distinct (1 # map (snd \<circ> snd) (ct_order_entry c) @ map snd (ct_download c))"
    using distinct_ids [of "n + m"] by (simp only: ids_shift [symmetric])
  then show ?thesis using stream_names_distinct by blast
qed

theorem stream_ids_distinct_witness:
  "distinct (1 # map (snd \<circ> snd) (ct_order_entry (res_state sample_created))
     @ map snd (ct_download (res_state sample_created)))
   \<and> distinct (stream_names (res_state sample_created))"
proof (rule stream_ids_distinct)
  show "controller_create sample_crypto_lib (\<lambda>_. JSelfTradePrevention_UNDEFINED_INTERNAL)
      sample_ws_settings sample_config = Ok (res_state sample_created)"
    by (rule sample_created_create)
  have "length (ct_accounts (res_state sample_created)) = 2"
    using arg_cong [OF conjunct2 [OF sample_created_Ok], of length] by simp
  then show "2 * length (ct_accounts (res_state sample_created)) + 1 < 2 ^ 16" by simp
qed

text \<open>
  A gateway told to cancel orders on disconnect does not start: its constructor never completes.
  The countdown that the order entries would send for this setting is not reached.
\<close>

lemma cancel_on_disconnect_refused:
  assumes "st_rest_cancel_on_disconnect st"
  shows "controller_create L stp_of st cfg \<noteq> Ok c"
  using assms by (auto elim: controller_create_result)

section \<open>Growing and pruning streams\<close>

text \<open>
  When the exchange's symbols need more slices, every group of market data streams grows to
  exactly this number (the secondary one only when it is enabled) and never shrinks, the
  streams stay numbered by their position, and everything else is kept.
\<close>

theorem slices_match_allocation:
  assumes "stream_child child"
    and "map md_index (ct_market_data_a (cw_ctl w)) = [0..<length (ct_market_data_a (cw_ctl w))]"
    and "map md_index (ct_market_data_b (cw_ctl w)) = [0..<length (ct_market_data_b (cw_ctl w))]"
    and "map m2_index (ct_market_data_2 (cw_ctl w)) = [0..<length (ct_market_data_2 (cw_ctl w))]"
  shows "\<exists>w'. ensure_symbol_slices child n w = Ok w'
    \<and> map md_index (ct_market_data_a (cw_ctl w')) = [0..<max n (length (ct_market_data_a (cw_ctl w)))]
    \<and> map md_index (ct_market_data_b (cw_ctl w')) =
        [0..<if st_ws_enable_secondary (ct_settings (cw_ctl w))
             then max n (length (ct_market_data_b (cw_ctl w))) else length (ct_market_data_b (cw_ctl w))]
    \<and> map m2_index (ct_market_data_2 (cw_ctl w')) = [0..<max n (length (ct_market_data_2 (cw_ctl w)))]
    \<and> ct_order_entry (cw_ctl w') = ct_order_entry (cw_ctl w)
    \<and> ct_drop_copy (cw_ctl w') = ct_drop_copy (cw_ctl w)
    \<and> ct_zombies (cw_ctl w') = ct_zombies (cw_ctl w)"
  using stream_child.slices_effect [OF assms(1), of n w] assms(2-)
  by (auto simp: stream_child.same_rest_def [OF assms(1)] stream_child.numbered_def [OF assms(1)])

definition sample_ctl :: "unit sys" where
  "sample_ctl = \<lparr> cw_ctl = (res_state sample_created)\<lparr>ct_zombies := [''A'']\<rparr>,
     cw_rest = \<lambda>a. sample_oe \<rparr>"

lemma sample_ctl_code:
  "ct_market_data_a (cw_ctl sample_ctl) = []" "ct_market_data_b (cw_ctl sample_ctl) = []"
  "ct_market_data_2 (cw_ctl sample_ctl) = []" "ct_zombies (cw_ctl sample_ctl) = [''A'']"
  "map_of (ct_drop_copy (cw_ctl sample_ctl)) ''A'' = Some None"
  "map_of (ct_order_entry (cw_ctl sample_ctl)) ''A'' = Some (Kind_WebSocket, 2)"
  "st_ws_enable_secondary (ct_settings (cw_ctl sample_ctl)) = False"
  by code_simp+

theorem slices_match_allocation_witness:
  "\<exists>w'. ensure_symbol_slices (classic_child sample_env (sample_trace 1)) 3 sample_ctl = Ok w'
    \<and> map md_index (ct_market_data_a (cw_ctl w')) = [0..<3]"
  using slices_match_allocation [OF classic.stream_child_axioms, of sample_ctl sample_env
      "sample_trace 1" 3]
  by (auto simp: sample_ctl_code)

text \<open>
  C19: A user stream that has asked to be removed is gone after the next timer, and only the ones
  that asked are; nobody asks any more then, and the order entries and market data streams are
  as before.
\<close>

theorem timer_removes_user_streams:
  assumes "stream_child child"
    and "\<forall>a \<in> set (ct_zombies (cw_ctl w)). map_of (ct_drop_copy (cw_ctl w)) a \<noteq> None
        \<and> map_of (ct_order_entry (cw_ctl w)) a \<noteq> None"
  shows "\<exists>w'. ct_timer child now w = Ok w' \<and> ct_zombies (cw_ctl w') = []
    \<and> (\<forall>a. map_of (ct_drop_copy (cw_ctl w')) a =
        (if a \<in> set (ct_zombies (cw_ctl w)) then Some None else map_of (ct_drop_copy (cw_ctl w)) a))
    \<and> ct_order_entry (cw_ctl w') = ct_order_entry (cw_ctl w)
    \<and> ct_market_data_a (cw_ctl w') = ct_market_data_a (cw_ctl w)"
proof -
  have removed: "map_of (fold (\<lambda>a. set_drop_copy a None) zs m) a =
      (if a \<in> set zs \<and> map_of m a \<noteq> None then Some None else map_of m a)" for zs m a
    by (induction zs arbitrary: m) (auto simp: map_of_set_drop_copy)
  have "\<forall>a \<in> set (ct_zombies (cw_ctl w)). stream_child.known (cw_ctl w) a"
    using assms(2) by (simp add: stream_child.known_def [OF assms(1)])
  from stream_child.timer_effect [OF assms(1) this, of now] assms(2) show ?thesis
    by (auto simp: removed)
qed

theorem timer_removes_user_streams_witness:
  "\<exists>w'. ct_timer (classic_child sample_env (sample_trace 1)) (seconds 1) sample_ctl = Ok w'
    \<and> ct_zombies (cw_ctl w') = []"
  using timer_removes_user_streams [OF classic.stream_child_axioms, of sample_ctl sample_env
      "sample_trace 1" "seconds 1"]
  by (auto simp: sample_ctl_code)

text \<open>
  A user stream is created only once: while an account has one, further listen keys change
  nothing; an account without one gets it with the next free stream id and with the key that
  was announced, started before it is stored.
\<close>

theorem user_stream_created_once:
  assumes "stream_child child" "map_of (ct_drop_copy (cw_ctl w)) a = Some None"
    and "map_of (ct_accounts (cw_ctl w)) a \<noteq> None" "a \<in> set (ct_requests (cw_ctl w))"
    and "a \<noteq> []" "key \<noteq> []"
  shows "\<exists>w'. ct_listen_key_update child kind a key w = Ok w'
    \<and> map_of (ct_drop_copy (cw_ctl w')) a = Some (Some \<lparr> dc_kind = kind,
        dc_stream_id = ct_stream_id (cw_ctl w) + 1, dc_listen_key = key \<rparr>)
    \<and> ct_listen_key_update child kind a key2 w' = Ok w'"
proof -
  define v where "v = upd_ctl (\<lambda>c. c\<lparr>ct_stream_id := ct_stream_id c + 1\<rparr>) w"
  obtain u where "child (To_drop_copy a) Do_start v = Ok u" "cw_ctl u = cw_ctl v"
    using stream_child.child_returns [OF assms(1)] by blast
  then show ?thesis
    using assms(2-) by (auto simp: ct_listen_key_update_def Let_def v_def map_of_set_drop_copy)
qed

lemma sample_ctl_account:
  "map_of (ct_accounts (cw_ctl sample_ctl)) ''A'' \<noteq> None" "''A'' \<in> set (ct_requests (cw_ctl sample_ctl))"
  by code_simp+

theorem user_stream_created_once_witness:
  "\<exists>w'. ct_listen_key_update (classic_child sample_env (sample_trace 1)) Kind_DropCopyClassic
      ''A'' ''k'' sample_ctl = Ok w'
    \<and> ct_listen_key_update (classic_child sample_env (sample_trace 1)) Kind_DropCopyClassic
      ''A'' ''l'' w' = Ok w'"
  using user_stream_created_once [OF classic.stream_child_axioms sample_ctl_code(5) sample_ctl_account,
      of "''k''"]
  by blast

section \<open>Subscriptions\<close>

text \<open>
  A subscription passes on each symbol at most once over the life of the controller: the
  symbols it passes on are distinct and were not known before, and afterwards exactly the old
  symbols and the new ones are known.
\<close>

theorem subscribe_passes_new_symbols:
  "new_symbols known symbols = (fresh, all) \<Longrightarrow>
     distinct fresh \<and> set fresh = set symbols - set known \<and> set all = set known \<union> set symbols"
proof (induction symbols arbitrary: known fresh all)
  case (Cons s ss)
  obtain f a where fa: "new_symbols (set_emplace s known) ss = (f, a)" by fastforce
  from Cons.IH [OF fa] have ih: "distinct f" "set f = set ss - insert s (set known)"
    "set a = insert s (set known) \<union> set ss"
    by auto
  have "fresh = (if s \<in> set known then f else s # f)" "all = a"
    using Cons.prems fa by auto
  with ih show ?case by auto
qed simp

theorem subscribe_passes_new_symbols_witness:
  "distinct (fst (new_symbols [''A''] [''B'', ''A'', ''B'', ''C'']))"
  using subscribe_passes_new_symbols [of "[''A'']" "[''B'', ''A'', ''B'', ''C'']"]
  by (metis prod.collapse)

end
