(* ===== verification/Download_Library.thy ===== *)
theory Download_Library
  imports Gw_World
begin

text \<open>
  \<open>core::Download2\<close>, the library object that takes a stream through the states of its download.
  It is not part of this repository: the model takes it as a parameter \<open>download_lib\<close>, whose
  state is kept by the stream. A command of the stream changes that state, and as long
  as the object has a state due it calls the member function \<open>download\<close> of the stream with
  it and is told how many answers to wait for. All of this happens before the command returns.

  Each member function \<open>download\<close> has an \<open>assert(false)\<close> for the state \<open>UNDEFINED\<close>, which the library never calls it
  with (\<open>download_contract\<close>), and one behind its switch, whose branches all return or belong to that state. These
  are not checked in the model: it returns 0 there, as a build without assertions does.

  \<open>download_contract\<close> states what the streams rely on: the order of the states, waiting, and
  going on when the last answer has come.
\<close>

record ('s, 'd) download_lib =
  dl_state :: "'d \<Rightarrow> 's"
  dl_downloading :: "'d \<Rightarrow> bool"
  dl_skip :: "'d \<Rightarrow> u32 \<Rightarrow> 's \<Rightarrow> bool"
  dl_sequence :: "'d \<Rightarrow> u32"
  dl_command :: "'s download_cmd \<Rightarrow> 'd \<Rightarrow> 'd"
  dl_due :: "'d \<Rightarrow> 's option"
  dl_answer :: "int \<Rightarrow> 'd \<Rightarrow> 'd"

text \<open>
  The calls that follow a command. \<open>get\<close> and \<open>put\<close> reach the library object inside the state,
  \<open>call\<close> is the member function \<open>download\<close>. The fuel bounds the number of calls.
\<close>

fun dl_drive ::
  "nat \<Rightarrow> ('s, 'd) download_lib \<Rightarrow> ('w \<Rightarrow> 'd) \<Rightarrow> (('d \<Rightarrow> 'd) \<Rightarrow> 'w \<Rightarrow> 'w)
    \<Rightarrow> ('s \<Rightarrow> 'w \<Rightarrow> int \<times> 'w) \<Rightarrow> 'w \<Rightarrow> 'w" where
  "dl_drive 0 L get put call w = w"
| "dl_drive (Suc n) L get put call w =
    (case dl_due L (get w) of
       None \<Rightarrow> w
     | Some s \<Rightarrow> (case call s w of (k, w) \<Rightarrow> dl_drive n L get put call (put (dl_answer L k) w)))"

definition dl_send ::
  "nat \<Rightarrow> ('s, 'd) download_lib \<Rightarrow> ('w \<Rightarrow> 'd) \<Rightarrow> (('d \<Rightarrow> 'd) \<Rightarrow> 'w \<Rightarrow> 'w)
    \<Rightarrow> ('s \<Rightarrow> 'w \<Rightarrow> int \<times> 'w) \<Rightarrow> 's download_cmd \<Rightarrow> 'w \<Rightarrow> 'w" where
  "dl_send n L get put call c w = dl_drive n L get put call (put (dl_command L c) w)"

text \<open>A relation that the calls and the changes of the library object keep is kept by a command.\<close>

context kept
begin

lemma keep_send:
  assumes "\<And>f w. R w (put f w)" "\<And>s w. R w (snd (call s w))"
  shows "R w (dl_send n L get put call c w)"
proof -
  have "R w (dl_drive n L get put call w)" for w
  proof (induction n arbitrary: w)
    case (Suc n)
    have "R w (dl_drive n L get put call (put f (snd (call s w))))" for s f
      by (rule keep_trans [OF assms(2) keep_trans [OF assms(1) Suc]])
    then show ?case by (simp add: keep_refl split: option.splits prod.splits) (metis snd_conv)
  qed (simp add: keep_refl)
  then show ?thesis unfolding dl_send_def by (rule keep_trans [OF assms(1)])
qed

end

text \<open>
  The contract. \<open>states\<close> are the states in their order, the last one being the end. \<open>waiting s d\<close>:
  the object waits for one answer to \<open>s\<close>.
\<close>

fun next_of :: "'s list \<Rightarrow> 's \<Rightarrow> 's option" where
  "next_of (s # t # ss) x = (if x = s then Some t else next_of (t # ss) x)"
| "next_of _ x = None"

definition waiting :: "('s, 'd) download_lib \<Rightarrow> 's \<Rightarrow> 'd \<Rightarrow> bool" where
  "waiting L s d = (\<exists>d'. dl_due L d' = Some s \<and> d = dl_answer L 1 d')"

definition download_contract :: "'s list \<Rightarrow> ('s, 'd) download_lib \<Rightarrow> bool" where
  "download_contract states L \<longleftrightarrow>
     (\<forall>d. dl_due L (dl_command L Download_begin d) = Some (hd states)) \<and>
     (\<forall>d. dl_due L (dl_command L Download_reset d) = None) \<and>
     (\<forall>d s n. dl_due L d = Some s \<longrightarrow> 0 < n \<longrightarrow> dl_due L (dl_answer L n d) = None) \<and>
     (\<forall>d s. dl_due L d = Some s \<longrightarrow> dl_due L (dl_answer L 0 d) = next_of states s) \<and>
     (\<forall>d s. dl_due L d = Some s \<longrightarrow> next_of states s = None \<longrightarrow> dl_state L (dl_answer L 0 d) = s) \<and>
     (\<forall>d s. waiting L s d \<longrightarrow> dl_state L d = s) \<and>
     (\<forall>d s. waiting L s d \<longrightarrow> dl_due L (dl_command L (Download_check s) d) = next_of states s) \<and>
     (\<forall>d s. waiting L s d \<longrightarrow>
        dl_due L (dl_command L (Download_check_relaxed s) d) = next_of states s)"

lemma contract_begin:
  "download_contract states L \<Longrightarrow> dl_due L (dl_command L Download_begin d) = Some (hd states)"
  by (simp add: download_contract_def)

lemma contract_reset:
  "download_contract states L \<Longrightarrow> dl_due L (dl_command L Download_reset d) = None"
  by (simp add: download_contract_def)

lemma contract_wait:
  "download_contract states L \<Longrightarrow> dl_due L d = Some s \<Longrightarrow> 0 < n \<Longrightarrow> dl_due L (dl_answer L n d) = None"
  by (simp add: download_contract_def)

lemma contract_next:
  "download_contract states L \<Longrightarrow> dl_due L d = Some s \<Longrightarrow>
     dl_due L (dl_answer L 0 d) = next_of states s"
  by (simp add: download_contract_def)

lemma contract_last:
  "download_contract states L \<Longrightarrow> dl_due L d = Some s \<Longrightarrow> next_of states s = None \<Longrightarrow>
     dl_state L (dl_answer L 0 d) = s"
  by (simp add: download_contract_def)

lemma contract_state: "download_contract states L \<Longrightarrow> waiting L s d \<Longrightarrow> dl_state L d = s"
  by (simp add: download_contract_def)

lemma contract_check:
  "download_contract states L \<Longrightarrow> waiting L s d \<Longrightarrow>
     dl_due L (dl_command L (Download_check s) d) = next_of states s"
  by (simp add: download_contract_def)

lemma contract_check_relaxed:
  "download_contract states L \<Longrightarrow> waiting L s d \<Longrightarrow>
     dl_due L (dl_command L (Download_check_relaxed s) d) = next_of states s"
  by (simp add: download_contract_def)

lemma waitingI: "dl_due L d = Some s \<Longrightarrow> waiting L s (dl_answer L 1 d)"
  by (auto simp: waiting_def)

text \<open>An object that keeps the contract: the state, the number of answers to come, and whether a call is due.\<close>

definition plain_download :: "'s list \<Rightarrow> 's \<Rightarrow> ('s, 's \<times> int \<times> bool) download_lib" where
  "plain_download states none = \<lparr>
     dl_state = fst,
     dl_downloading = (\<lambda>(s, n, due). s \<noteq> none \<and> next_of states s \<noteq> None),
     dl_skip = (\<lambda>(s, n, due) k t. s \<noteq> t),
     dl_sequence = (\<lambda>_. 0),
     dl_command = (\<lambda>c (s, n, due).
        case c of
          Download_begin \<Rightarrow> (hd states, 0, True)
        | Download_bump \<Rightarrow> (s, n, True)
        | Download_reset \<Rightarrow> (none, 0, False)
        | Download_retry t \<Rightarrow> (s, n, s = t)
        | Download_check t \<Rightarrow>
            (if s \<noteq> t then (s, n, due)
             else if 1 < n then (s, n - 1, due)
             else case next_of states s of Some t \<Rightarrow> (t, 0, True) | None \<Rightarrow> (s, 0, False))
        | Download_check_relaxed t \<Rightarrow>
            (if s \<noteq> t then (s, n, due)
             else case next_of states s of Some t \<Rightarrow> (t, 0, True) | None \<Rightarrow> (s, 0, False))),
     dl_due = (\<lambda>(s, n, due). if due then Some s else None),
     dl_answer = (\<lambda>n (s, m, due).
        if 0 < n then (s, n, False)
        else case next_of states s of Some t \<Rightarrow> (t, 0, True) | None \<Rightarrow> (s, 0, False)) \<rparr>"

lemma plain_download_contract: "download_contract states (plain_download states none)"
  by (auto simp: download_contract_def waiting_def plain_download_def split: option.splits prod.splits if_splits)

end
