(* ===== verification/User_Streams.thy ===== *)
theory User_Streams
  imports Download_Library Stream_Parsers Order_Entry_Classic
begin

text \<open>
  \<open>gateway/drop_copy_classic.cpp\<close> and \<open>gateway/drop_copy_portfolio.cpp\<close>: the user stream of an
  account. It asks the request slots for the downloads one after the other, publishes what
  the exchange reports about orders, trades, funds and positions, looks for stale orders,
  and asks the controller to remove it when its listen key has expired.

  Members that have the same text in both classes are defined once (\<open>us_\<close>); those that differ
  have the prefixes \<open>usc_\<close> (classic) and \<open>usp_\<close> (portfolio). Members that only log are
  not modelled.
\<close>

section \<open>Messages\<close>

record execution_report =
  er_symbol :: string
  er_client_order_id :: string
  er_side :: j_side
  er_order_type :: j_order_type
  er_time_in_force :: j_time_in_force
  er_original_quantity :: double
  er_original_price :: double
  er_stop_price :: double
  er_execution_type :: j_execution_type
  er_order_status :: j_order_status
  er_order_id :: int
  er_last_filled_quantity :: double
  er_accumulated_quantity :: double
  er_last_filled_price :: double
  er_commission_asset :: string
  er_commission :: double
  er_trade_id :: int
  er_is_trade_maker :: bool

text \<open>\<open>order_trade_update.json\<close> with \<open>execution_report.json\<close>, and \<open>execution_report_2.json\<close>.\<close>

record order_trade_update = execution_report +
  ot_event_time :: nanoseconds
  ot_transaction_time :: nanoseconds
  ot_average_price :: double
  ot_order_trade_time :: nanoseconds

record execution_report_2 = execution_report +
  e2_event_time :: nanoseconds
  e2_transaction_time :: nanoseconds
  e2_order_creation_time :: nanoseconds

record account_update_balance =
  ab_asset :: string
  ab_wallet_balance :: double
  ab_cross_wallet_balance :: double

record account_update_position =
  aq_symbol :: string
  aq_position_amount :: double
  aq_margin_type :: j_margin_type

record account_update =
  au_event_time :: nanoseconds
  au_transaction_time :: nanoseconds
  au_balances :: "account_update_balance list"
  au_positions :: "account_update_position list"

record trade_lite =
  tl_event_time :: nanoseconds
  tl_transaction_time :: nanoseconds
  tl_symbol :: string
  tl_maker :: bool
  tl_client_order_id :: string
  tl_side :: j_side
  tl_last_filled_price :: double
  tl_last_filled_quantity :: double
  tl_trade_id :: int
  tl_order_id :: int

record outbound_balance =
  ob_asset :: string
  ob_free :: double
  ob_locked :: double

record outbound_account_position =
  op_event_time :: nanoseconds
  op_last_account_update :: nanoseconds
  op_balances :: "outbound_balance list"

section \<open>State and environment\<close>

text \<open>
  \<open>us_download\<close> is the library object \<open>download_\<close>. \<open>us_balance_refresh\<close> is a member of the classic
  class only. The query is built from the listen key, which is not empty.
\<close>

record 'd user_stream = account_stream +
  us_query :: string
  us_download :: 'd
  us_balance_refresh :: nanoseconds
  us_stop_flag :: bool
  us_next_check_stale_orders :: nanoseconds

type_synonym ('d, 'q) us = "('d user_stream, 'q) gw"

definition us_create :: "u16 \<Rightarrow> account \<Rightarrow> string \<Rightarrow> 'd \<Rightarrow> 'd user_stream" where
  "us_create stream_id acc listen_key d = \<lparr> sm_stream_id = stream_id, sm_account = acc,
     sm_connection_status = ConnectionStatus_UNDEFINED, us_query = ''/'' @ listen_key,
     us_download = d, us_balance_refresh = 0, us_stop_flag = False,
     us_next_check_stale_orders = 0 \<rparr>"

text \<open>
  \<open>ue_update_order\<close>: the order the dispatcher found for an update, \<open>ue_lookup_order\<close>: by client
  order id, \<open>ue_stale_orders\<close>: \<open>get_all_stale_orders\<close>, \<open>ue_responded\<close>: \<open>has_response\<close> of a slot,
  \<open>ue_other\<close>: the message classes whose handlers only log. The constants are those of the API.
\<close>

record user_env = env +
  ue_parser :: parser_lib
  ue_order_trade_update :: "string \<Rightarrow> exn + order_trade_update"
  ue_account_update :: "string \<Rightarrow> exn + account_update"
  ue_trade_lite :: "string \<Rightarrow> exn + trade_lite"
  ue_execution_report :: "string \<Rightarrow> exn + execution_report_2"
  ue_outbound :: "string \<Rightarrow> exn + outbound_account_position"
  ue_other :: "user_event \<Rightarrow> exn + unit"
  ue_update_order :: "order_update \<Rightarrow> oms_order option"
  ue_lookup_order :: "string \<Rightarrow> oms_order option"
  ue_stale_orders :: "string \<Rightarrow> oms_order list"
  ue_responded :: "slot \<Rightarrow> bool"
  ue_order_id_none :: u64
  ue_strategy_id_none :: u32

type_synonym 'd user_lib = "(dc_state, 'd) download_lib"

section \<open>Stream\<close>

definition us_start :: "('d, 'q) us \<Rightarrow> ('d, 'q) us" where
  "us_start w = emit Conn_start w"

definition us_stop :: "('d, 'q) us \<Rightarrow> ('d, 'q) us" where
  "us_stop w = emit Conn_stop w"

definition us_set_connection_status ::
  "connection_status \<Rightarrow> string \<Rightarrow> ('d, 'q) us \<Rightarrow> ('d, 'q) us" where
  "us_set_connection_status status reason w =
     (let w = upd_self (\<lambda>s. s\<lparr>sm_connection_status := status\<rparr>) w in
      emit (Pub_stream_status \<lparr> ss_stream_id = stream_of w, ss_account = name_of w,
              ss_connection_status = status, ss_reason = reason \<rparr>) w)"

definition us_upd_download :: "('d \<Rightarrow> 'd) \<Rightarrow> ('d, 'q) us \<Rightarrow> ('d, 'q) us" where
  "us_upd_download f = upd_self (\<lambda>s. s\<lparr>us_download := f (us_download s)\<rparr>)"

definition us_latency :: "nanoseconds \<Rightarrow> ('d, 'q) us \<Rightarrow> ('d, 'q) us" where
  "us_latency sample w = emit (Pub_external_latency (stream_of w) (name_of w) sample) w"

definition us_binary :: "('d, 'q) us \<Rightarrow> (exn, ('d, 'q) us) res" where
  "us_binary w = Fatal ''Unexpected'' w"

definition us_listen_key_expired :: "('d, 'q) us \<Rightarrow> ('d, 'q) us" where
  "us_listen_key_expired w = emit Conn_close (upd_self (\<lambda>s. s\<lparr>us_stop_flag := True\<rparr>) w)"

section \<open>Download\<close>

definition us_downloading :: "string \<Rightarrow> slot \<Rightarrow> ('d, 'q) us \<Rightarrow> int \<times> ('d, 'q) us" where
  "us_downloading name s w =
     (1, emit (Slot_request s) (us_set_connection_status ConnectionStatus_DOWNLOADING name w))"

text \<open>
  \<open>download\<close> of the classic class. Its enumeration has no \<open>GET_POSITIONS_PM\<close>. The name of a state
  is given by \<open>magic_enum\<close>.
\<close>

definition usc_download :: "dc_state \<Rightarrow> ('d, 'q) us \<Rightarrow> int \<times> ('d, 'q) us" where
  "usc_download state w =
     (case state of
        DC_UNDEFINED \<Rightarrow> (0, w)
      | DC_GET_BALANCES \<Rightarrow> us_downloading ''GET_BALANCES'' Slot_balances w
      | DC_GET_POSITIONS \<Rightarrow> us_downloading ''GET_POSITIONS'' Slot_positions w
      | DC_GET_POSITIONS_PM \<Rightarrow> (0, w)
      | DC_GET_OPEN_ORDERS \<Rightarrow> us_downloading ''GET_OPEN_ORDERS'' Slot_open_orders w
      | DC_GET_STALE_ORDERS \<Rightarrow>
          (if gw_stale_orders w = [] then (0, w)
           else us_downloading ''GET_STALE_ORDERS'' Slot_stale_orders w)
      | DC_GET_TRADES \<Rightarrow>
          (if st_download_trades_lookback (settings_of w) \<noteq> 0
              \<and> st_download_symbols (settings_of w) \<noteq> []
           then us_downloading ''GET_TRADES'' Slot_trades w else (0, w))
      | DC_DONE \<Rightarrow> (0, us_set_connection_status ConnectionStatus_READY [] w))"

definition usp_download :: "dc_state \<Rightarrow> ('d, 'q) us \<Rightarrow> int \<times> ('d, 'q) us" where
  "usp_download state w =
     (case state of
        DC_UNDEFINED \<Rightarrow> (0, w)
      | DC_GET_BALANCES \<Rightarrow> us_downloading ''GET_BALANCES'' Slot_balances w
      | DC_GET_POSITIONS \<Rightarrow> us_downloading ''GET_POSITIONS'' Slot_positions w
      | DC_GET_POSITIONS_PM \<Rightarrow> us_downloading ''GET_POSITIONS_PM'' Slot_positions_pm w
      | DC_GET_OPEN_ORDERS \<Rightarrow> us_downloading ''GET_OPEN_ORDERS'' Slot_open_orders w
      | DC_GET_STALE_ORDERS \<Rightarrow>
          (if gw_stale_orders w = [] then (0, w)
           else us_downloading ''GET_STALE_ORDERS'' Slot_stale_orders w)
      | DC_GET_TRADES \<Rightarrow>
          (if st_download_trades_lookback (settings_of w) \<noteq> 0
              \<and> st_download_symbols (settings_of w) \<noteq> []
           then us_downloading ''GET_TRADES'' Slot_trades w else (0, w))
      | DC_DONE \<Rightarrow> (0, us_set_connection_status ConnectionStatus_READY [] w))"

text \<open>A command for \<open>download_\<close>. There are eight states, so eight calls are enough.\<close>

type_synonym ('d, 'q) us_downloader = "dc_state \<Rightarrow> ('d, 'q) us \<Rightarrow> int \<times> ('d, 'q) us"

definition us_send ::
  "'d user_lib \<Rightarrow> ('d, 'q) us_downloader \<Rightarrow> dc_state download_cmd \<Rightarrow> ('d, 'q) us \<Rightarrow> ('d, 'q) us" where
  "us_send L call = dl_send 8 L (\<lambda>w. us_download (gw_self w)) us_upd_download call"

definition us_disconnected ::
  "'d user_lib \<Rightarrow> ('d, 'q) us_downloader \<Rightarrow> ('d, 'q) us \<Rightarrow> ('d, 'q) us" where
  "us_disconnected L call w =
     (let w = us_send L call Download_reset
                (us_set_connection_status ConnectionStatus_DISCONNECTED [] w)
      in if us_stop_flag (gw_self w) then emit (Ev_remove (name_of w)) w else w)"

definition us_ready ::
  "'d user_lib \<Rightarrow> ('d, 'q) us_downloader \<Rightarrow> ('d, 'q) us \<Rightarrow> ('d, 'q) us" where
  "us_ready L call w = us_send L call Download_begin w"

section \<open>Stale orders\<close>

text \<open>The orders that are not among the details yet are added; the result says whether there were any.\<close>

definition us_add_stale :: "oms_order \<Rightarrow> nat \<times> (u8 \<times> u64) list \<Rightarrow> nat \<times> (u8 \<times> u64) list" where
  "us_add_stale ord acc =
     (let key = (oo_user_id ord, oo_order_id ord) in
      if key \<in> set (snd acc) then acc else (Suc (fst acc), snd acc @ [key]))"

definition us_find_stale_orders :: "user_env \<Rightarrow> ('d, 'q) us \<Rightarrow> bool \<times> ('d, 'q) us" where
  "us_find_stale_orders E w =
     (case fold us_add_stale (ue_stale_orders E (name_of w)) (0, gw_stale_orders w) of
        (counter, details) \<Rightarrow> (counter \<noteq> 0, w\<lparr>gw_stale_orders := details\<rparr>))"

definition us_check_stale_orders :: "user_env \<Rightarrow> trace_info \<Rightarrow> ('d, 'q) us \<Rightarrow> ('d, 'q) us" where
  "us_check_stale_orders E ti w =
     (if us_next_check_stale_orders (gw_self w) < ti_create_time ti then
        let w = upd_self (\<lambda>s. s\<lparr>us_next_check_stale_orders :=
                  ti_create_time ti + st_check_stale_order_freq (settings_of w)\<rparr>) w
        in case us_find_stale_orders E w of
             (found, w) \<Rightarrow> if found then emit (Slot_request Slot_stale_orders) w else w
      else w)"

section \<open>Request queue and timer\<close>

definition us_check ::
  "user_env \<Rightarrow> 'd user_lib \<Rightarrow> ('d, 'q) us_downloader \<Rightarrow> slot \<Rightarrow> dc_state \<Rightarrow> ('d, 'q) us \<Rightarrow> ('d, 'q) us" where
  "us_check E L call s state w =
     (if ue_responded E s then us_send L call (Download_check state) w else w)"

definition us_check_open_orders ::
  "user_env \<Rightarrow> 'd user_lib \<Rightarrow> ('d, 'q) us_downloader \<Rightarrow> dc_state \<Rightarrow> ('d, 'q) us \<Rightarrow> ('d, 'q) us" where
  "us_check_open_orders E L call state w =
     (if ue_responded E Slot_open_orders
      then us_send L call (Download_check state) (snd (us_find_stale_orders E w)) else w)"

text \<open>The two classes. \<open>GET_TRADES\<close> falls through to \<open>DONE\<close>, which does nothing.\<close>

definition usc_check_request_queue :: "user_env \<Rightarrow> 'd user_lib \<Rightarrow> ('d, 'q) us \<Rightarrow> ('d, 'q) us" where
  "usc_check_request_queue E L w =
     (let state = dl_state L (us_download (gw_self w)) in
      case state of
        DC_UNDEFINED \<Rightarrow> w
      | DC_GET_BALANCES \<Rightarrow> us_check E L usc_download Slot_balances state w
      | DC_GET_POSITIONS \<Rightarrow> us_check E L usc_download Slot_positions state w
      | DC_GET_POSITIONS_PM \<Rightarrow> w
      | DC_GET_OPEN_ORDERS \<Rightarrow> us_check_open_orders E L usc_download state w
      | DC_GET_STALE_ORDERS \<Rightarrow> us_check E L usc_download Slot_stale_orders state w
      | DC_GET_TRADES \<Rightarrow> us_check E L usc_download Slot_trades state w
      | DC_DONE \<Rightarrow> w)"

definition usp_check_request_queue :: "user_env \<Rightarrow> 'd user_lib \<Rightarrow> ('d, 'q) us \<Rightarrow> ('d, 'q) us" where
  "usp_check_request_queue E L w =
     (let state = dl_state L (us_download (gw_self w)) in
      case state of
        DC_UNDEFINED \<Rightarrow> w
      | DC_GET_BALANCES \<Rightarrow> us_check E L usp_download Slot_balances state w
      | DC_GET_POSITIONS \<Rightarrow> us_check E L usp_download Slot_positions state w
      | DC_GET_POSITIONS_PM \<Rightarrow> us_check E L usp_download Slot_positions_pm state w
      | DC_GET_OPEN_ORDERS \<Rightarrow> us_check_open_orders E L usp_download state w
      | DC_GET_STALE_ORDERS \<Rightarrow> us_check E L usp_download Slot_stale_orders state w
      | DC_GET_TRADES \<Rightarrow> us_check E L usp_download Slot_trades state w
      | DC_DONE \<Rightarrow> w)"

definition usc_refresh_balance :: "trace_info \<Rightarrow> ('d, 'q) us \<Rightarrow> ('d, 'q) us" where
  "usc_refresh_balance ti w =
     (if st_poll_balance_freq (settings_of w) = 0 then w
      else if ti_create_time ti < us_balance_refresh (gw_self w) then w
      else emit (Slot_request Slot_balances) (upd_self (\<lambda>s. s\<lparr>us_balance_refresh :=
             ti_create_time ti + st_poll_balance_freq (settings_of w)\<rparr>) w))"

definition usc_timer :: "user_env \<Rightarrow> 'd user_lib \<Rightarrow> trace_info \<Rightarrow> ('d, 'q) us \<Rightarrow> ('d, 'q) us" where
  "usc_timer E L ti w =
     (if ge_refresh E then
        let w = usc_check_request_queue E L w in
        if stream_ready w then us_check_stale_orders E ti (usc_refresh_balance ti w) else w
      else w)"

definition usp_timer :: "user_env \<Rightarrow> 'd user_lib \<Rightarrow> trace_info \<Rightarrow> ('d, 'q) us \<Rightarrow> ('d, 'q) us" where
  "usp_timer E L ti w =
     (if ge_refresh E then
        if stream_ready w then us_check_stale_orders E ti (usp_check_request_queue E L w) else w
      else w)"

section \<open>Orders and trades\<close>

definition report_liquidity :: "bool \<Rightarrow> liquidity" where
  "report_liquidity maker = (if maker then Liquidity_MAKER else Liquidity_TAKER)"

text \<open>
  The order update of a report. What the two kinds of reports differ in are parameters: margin
  mode, the three times, and the average price.
\<close>

definition report_order_update ::
  "margin_mode \<Rightarrow> nanoseconds \<Rightarrow> nanoseconds \<Rightarrow> nanoseconds \<Rightarrow> double \<Rightarrow> 'z execution_report_scheme
    \<Rightarrow> ('d, 'q) us \<Rightarrow> order_update" where
  "report_order_update mode create_time update_time sending_time average_price m w =
     \<lparr> ou_account = name_of w, ou_exchange = st_exchange (settings_of w),
       ou_symbol = er_symbol m, ou_side = the (map_j_side (er_side m)), ou_margin_mode = mode,
       ou_order_type = the (map_j_order_type (er_order_type m)),
       ou_time_in_force = the (map_j_time_in_force (er_time_in_force m)),
       ou_create_time_utc = create_time, ou_update_time_utc = update_time,
       ou_external_order_id = create_external_order_id (er_symbol m) (er_order_id m),
       ou_client_order_id = er_client_order_id m,
       ou_order_status = the (map_j_order_status (er_order_status m)), ou_error = Error_UNDEFINED,
       ou_text = [], ou_quantity = er_original_quantity m, ou_price = er_original_price m,
       ou_stop_price = er_stop_price m, ou_remaining_quantity = NaN,
       ou_traded_quantity = er_accumulated_quantity m, ou_average_traded_price = average_price,
       ou_last_traded_quantity = er_last_filled_quantity m,
       ou_last_traded_price = er_last_filled_price m,
       ou_last_liquidity = report_liquidity (er_is_trade_maker m),
       ou_update_type = UpdateType_INCREMENTAL, ou_sending_time_utc = sending_time \<rparr>"

definition report_fill ::
  "user_env \<Rightarrow> nanoseconds \<Rightarrow> 'z execution_report_scheme \<Rightarrow> ('d, 'q) us \<Rightarrow> fill" where
  "report_fill E trade_time m w =
     (let side = the (map_j_side (er_side m));
          rd = ge_ref_data E (st_exchange (settings_of w)) (er_symbol m)
      in \<lparr> fi_exchange_time_utc = trade_time, fi_external_trade_id = show_int (er_trade_id m),
           fi_quantity = er_last_filled_quantity m, fi_price = er_last_filled_price m,
           fi_liquidity = report_liquidity (er_is_trade_maker m),
           fi_commission_amount = er_commission m, fi_commission_currency = er_commission_asset m,
           fi_profit_loss_amount = ge_profit_loss E side (er_last_filled_quantity m)
             (er_last_filled_price m) (rd_multiplier rd) \<rparr>)"

text \<open>The trade belongs to the order the dispatcher found for the order update, if it found one.\<close>

definition report_trade ::
  "user_env \<Rightarrow> margin_mode \<Rightarrow> nanoseconds \<Rightarrow> nanoseconds \<Rightarrow> oms_order option
    \<Rightarrow> 'z execution_report_scheme \<Rightarrow> ('d, 'q) us \<Rightarrow> ('d, 'q) us" where
  "report_trade E mode trade_time sending_time found m w =
     emit (Pub_trade
       \<lparr> tu_stream_id = stream_of w, tu_account = name_of w,
         tu_order_id = (case found of Some ord \<Rightarrow> oo_order_id ord | None \<Rightarrow> ue_order_id_none E),
         tu_exchange = st_exchange (settings_of w), tu_symbol = er_symbol m,
         tu_side = the (map_j_side (er_side m)), tu_margin_mode = mode,
         tu_create_time_utc = trade_time, tu_update_time_utc = trade_time,
         tu_external_order_id = create_external_order_id (er_symbol m) (er_order_id m),
         tu_client_order_id = er_client_order_id m, tu_fills = [report_fill E trade_time m w],
         tu_update_type = UpdateType_INCREMENTAL, tu_sending_time_utc = sending_time,
         tu_strategy_id =
           (case found of Some ord \<Rightarrow> oo_strategy_id ord | None \<Rightarrow> ue_strategy_id_none E) \<rparr>
       (case found of Some ord \<Rightarrow> oo_user_id ord | None \<Rightarrow> ge_source_none E)) w"

definition usc_on_order_trade_update ::
  "user_env \<Rightarrow> order_trade_update \<Rightarrow> ('d, 'q) us \<Rightarrow> ('d, 'q) us" where
  "usc_on_order_trade_update E m w =
     (let update = report_order_update MarginMode_UNDEFINED 0 (ot_transaction_time m)
                     (ot_event_time m) (ot_average_price m) m w;
          w = emit (Pub_order update (stream_of w)) w
      in if er_execution_type m \<noteq> JExecutionType_TRADE then w
         else if st_ws_trade_lite (settings_of w) then w
         else report_trade E MarginMode_UNDEFINED (ot_order_trade_time m) (ot_event_time m)
                (ue_update_order E update) m w)"

definition usp_on_order_trade_update ::
  "user_env \<Rightarrow> order_trade_update \<Rightarrow> ('d, 'q) us \<Rightarrow> ('d, 'q) us" where
  "usp_on_order_trade_update E m w =
     (let update = report_order_update MarginMode_PORTFOLIO 0 (ot_transaction_time m)
                     (ot_event_time m) (ot_average_price m) m w;
          w = emit (Pub_order update (stream_of w)) w
      in if er_execution_type m \<noteq> JExecutionType_TRADE then w
         else report_trade E MarginMode_PORTFOLIO (ot_order_trade_time m) (ot_event_time m)
                (ue_update_order E update) m w)"

definition usp_on_execution_report ::
  "user_env \<Rightarrow> execution_report_2 \<Rightarrow> ('d, 'q) us \<Rightarrow> ('d, 'q) us" where
  "usp_on_execution_report E m w =
     (let update = report_order_update MarginMode_PORTFOLIO (e2_order_creation_time m)
                     (e2_transaction_time m) (e2_event_time m) NaN m w;
          w = emit (Pub_order update (stream_of w)) w
      in if er_execution_type m \<noteq> JExecutionType_TRADE then w
         else if st_ws_trade_lite (settings_of w) then w
         else report_trade E MarginMode_PORTFOLIO (e2_transaction_time m) (e2_event_time m)
                (ue_update_order E update) m w)"

text \<open>
  \<open>TradeLite\<close>, the fast report of a fill, when the flag is set. It knows neither commission nor
  the order; an order that is not one of the gateway's gets no trade.
\<close>

definition lite_trade :: "user_env \<Rightarrow> trade_lite \<Rightarrow> oms_order \<Rightarrow> ('d, 'q) us \<Rightarrow> trade_update" where
  "lite_trade E m ord w =
     (let side = the (map_j_side (tl_side m));
          rd = ge_ref_data E (st_exchange (settings_of w)) (tl_symbol m);
          f = \<lparr> fi_exchange_time_utc = tl_transaction_time m,
                fi_external_trade_id = show_int (tl_trade_id m),
                fi_quantity = tl_last_filled_quantity m, fi_price = tl_last_filled_price m,
                fi_liquidity = report_liquidity (tl_maker m), fi_commission_amount = NaN,
                fi_commission_currency = [],
                fi_profit_loss_amount = ge_profit_loss E side (tl_last_filled_quantity m)
                  (tl_last_filled_price m) (rd_multiplier rd) \<rparr>
      in \<lparr> tu_stream_id = stream_of w, tu_account = name_of w, tu_order_id = oo_order_id ord,
           tu_exchange = st_exchange (settings_of w), tu_symbol = tl_symbol m, tu_side = side,
           tu_margin_mode = MarginMode_PORTFOLIO, tu_create_time_utc = tl_transaction_time m,
           tu_update_time_utc = tl_transaction_time m,
           tu_external_order_id = create_external_order_id (tl_symbol m) (tl_order_id m),
           tu_client_order_id = tl_client_order_id m, tu_fills = [f],
           tu_update_type = UpdateType_INCREMENTAL, tu_sending_time_utc = tl_event_time m,
           tu_strategy_id = oo_strategy_id ord \<rparr>)"

definition us_on_trade_lite :: "user_env \<Rightarrow> trade_lite \<Rightarrow> ('d, 'q) us \<Rightarrow> ('d, 'q) us" where
  "us_on_trade_lite E m w =
     (if \<not> st_ws_trade_lite (settings_of w) then w
      else case ue_lookup_order E (tl_client_order_id m) of
             Some ord \<Rightarrow> emit (Pub_trade (lite_trade E m ord w) (oo_user_id ord)) w
           | None \<Rightarrow> w)"

section \<open>Funds and positions\<close>

definition update_funds ::
  "margin_mode \<Rightarrow> double \<Rightarrow> double \<Rightarrow> string \<Rightarrow> nanoseconds \<Rightarrow> nanoseconds \<Rightarrow> ('d, 'q) us \<Rightarrow> ('d, 'q) us"
where
  "update_funds mode balance hold asset exchange_time sending_time w =
     emit (Pub_funds
       \<lparr> fu_stream_id = stream_of w, fu_account = name_of w, fu_currency = asset,
         fu_margin_mode = mode, fu_balance = balance, fu_hold = hold, fu_unrealized_pnl = NaN,
         fu_update_type = UpdateType_INCREMENTAL, fu_exchange_time_utc = exchange_time,
         fu_sending_time_utc = sending_time \<rparr>) w"

text \<open>A balance, and once more for the cross wallet if there is one.\<close>

definition us_on_balance ::
  "margin_mode \<Rightarrow> account_update \<Rightarrow> account_update_balance \<Rightarrow> ('d, 'q) us \<Rightarrow> ('d, 'q) us" where
  "us_on_balance mode m item w =
     (let w = update_funds mode (ab_wallet_balance item) NaN (ab_asset item)
                (au_transaction_time m) (au_event_time m) w
      in if \<not> isnan (ab_cross_wallet_balance item)
         then update_funds MarginMode_CROSS (ab_cross_wallet_balance item) NaN (ab_asset item)
                (au_transaction_time m) (au_event_time m) w
         else w)"

fun usc_margin_mode :: "j_margin_type \<Rightarrow> margin_mode" where
  "usc_margin_mode JMarginType_UNDEFINED_INTERNAL = MarginMode_UNDEFINED"
| "usc_margin_mode JMarginType_UNKNOWN_INTERNAL = MarginMode_UNDEFINED"
| "usc_margin_mode JMarginType_isolated = MarginMode_ISOLATED"
| "usc_margin_mode JMarginType_cross = MarginMode_CROSS"

definition us_on_position ::
  "user_env \<Rightarrow> (j_margin_type \<Rightarrow> margin_mode) \<Rightarrow> account_update \<Rightarrow> account_update_position
    \<Rightarrow> ('d, 'q) us \<Rightarrow> ('d, 'q) us" where
  "us_on_position E mode m item w =
     (if ge_discard_symbol E (aq_symbol item) then w
      else emit (Pub_position
        \<lparr> pu_stream_id = stream_of w, pu_account = name_of w,
          pu_exchange = st_exchange (settings_of w), pu_symbol = aq_symbol item,
          pu_margin_mode = mode (aq_margin_type item),
          pu_long_quantity = fmax 0 (aq_position_amount item),
          pu_short_quantity = fmax 0 (- aq_position_amount item),
          pu_update_type = UpdateType_INCREMENTAL,
          pu_exchange_time_utc = au_transaction_time m,
          pu_sending_time_utc = au_event_time m \<rparr>) w)"

definition usc_on_account_update :: "user_env \<Rightarrow> account_update \<Rightarrow> ('d, 'q) us \<Rightarrow> ('d, 'q) us" where
  "usc_on_account_update E m w =
     fold (us_on_position E usc_margin_mode m) (au_positions m)
       (fold (us_on_balance MarginMode_UNDEFINED m) (au_balances m) w)"

definition usp_on_account_update :: "user_env \<Rightarrow> account_update \<Rightarrow> ('d, 'q) us \<Rightarrow> ('d, 'q) us" where
  "usp_on_account_update E m w =
     fold (us_on_position E (\<lambda>_. MarginMode_PORTFOLIO) m) (au_positions m)
       (if \<not> st_test_alt_funds_update (settings_of w)
        then fold (us_on_balance MarginMode_PORTFOLIO m) (au_balances m) w else w)"

definition usp_on_outbound ::
  "outbound_account_position \<Rightarrow> ('d, 'q) us \<Rightarrow> ('d, 'q) us" where
  "usp_on_outbound m w =
     (if st_test_alt_funds_update (settings_of w)
      then fold (\<lambda>item. update_funds MarginMode_PORTFOLIO (ob_free item) (ob_locked item)
             (ob_asset item) (op_last_account_update m) (op_event_time m)) (op_balances m) w
      else w)"

section \<open>Messages\<close>

text \<open>
  \<open>parse\<close>: an exception ends the process; a message that nobody handles is logged. The handler
  of an event gets the message object that is constructed from the text.
\<close>

definition us_parse ::
  "user_env \<Rightarrow> (user_event \<Rightarrow> ('d, 'q) us \<Rightarrow> (exn, ('d, 'q) us) res) \<Rightarrow> string \<Rightarrow> ('d, 'q) us
    \<Rightarrow> (exn, ('d, 'q) us) res" where
  "us_parse E handle message w =
     (let r = (case user_dispatch (ue_parser E) (sh_allow_unknown_event_types (gw_shared w)) message of
                 Call e \<Rightarrow> handle e w
               | Handled \<Rightarrow> Ok w
               | Unhandled \<Rightarrow> Ok w
               | Exhausted \<Rightarrow> Ok w
               | Ends m \<Rightarrow> Fatal m w
               | Raises e \<Rightarrow> Throw e w)
      in case r of Throw e w \<Rightarrow> Fatal ''Unhandled'' w | done \<Rightarrow> done)"

definition usc_handle :: "user_env \<Rightarrow> user_event \<Rightarrow> ('d, 'q) us \<Rightarrow> (exn, ('d, 'q) us) res" where
  "usc_handle E e =
     (case e of
        UE_order_trade_update text \<Rightarrow>
          parsed (ue_order_trade_update E text) (\<lambda>m w. Ok (usc_on_order_trade_update E m w))
      | UE_account_update text \<Rightarrow>
          parsed (ue_account_update E text) (\<lambda>m w. Ok (usc_on_account_update E m w))
      | UE_trade_lite text \<Rightarrow> parsed (ue_trade_lite E text) (\<lambda>m w. Ok (us_on_trade_lite E m w))
      | UE_listen_key_expired text \<Rightarrow> parsed (ue_other E e) (\<lambda>_ w. Ok (us_listen_key_expired w))
      | _ \<Rightarrow> parsed (ue_other E e) (\<lambda>_ w. Ok w))"

definition usp_handle :: "user_env \<Rightarrow> user_event \<Rightarrow> ('d, 'q) us \<Rightarrow> (exn, ('d, 'q) us) res" where
  "usp_handle E e =
     (case e of
        UE_order_trade_update text \<Rightarrow>
          parsed (ue_order_trade_update E text) (\<lambda>m w. Ok (usp_on_order_trade_update E m w))
      | UE_account_update text \<Rightarrow>
          parsed (ue_account_update E text) (\<lambda>m w. Ok (usp_on_account_update E m w))
      | UE_trade_lite text \<Rightarrow> parsed (ue_trade_lite E text) (\<lambda>m w. Ok (us_on_trade_lite E m w))
      | UE_execution_report text \<Rightarrow>
          parsed (ue_execution_report E text) (\<lambda>m w. Ok (usp_on_execution_report E m w))
      | UE_outbound_account_position text \<Rightarrow>
          parsed (ue_outbound E text) (\<lambda>m w. Ok (usp_on_outbound m w))
      | UE_listen_key_expired text \<Rightarrow> parsed (ue_other E e) (\<lambda>_ w. Ok (us_listen_key_expired w))
      | _ \<Rightarrow> parsed (ue_other E e) (\<lambda>_ w. Ok w))"

text \<open>
  The portfolio class. These member functions have the text of the classic ones; what they call is
  the download and the handlers of their own class.
\<close>

definition usp_create :: "u16 \<Rightarrow> account \<Rightarrow> string \<Rightarrow> 'd \<Rightarrow> 'd user_stream" where
  "usp_create = us_create"

definition usp_start :: "('d, 'q) us \<Rightarrow> ('d, 'q) us" where
  "usp_start = us_start"

definition usp_stop :: "('d, 'q) us \<Rightarrow> ('d, 'q) us" where
  "usp_stop = us_stop"

definition usp_set_connection_status :: "connection_status \<Rightarrow> string \<Rightarrow> ('d, 'q) us \<Rightarrow> ('d, 'q) us" where
  "usp_set_connection_status = us_set_connection_status"

definition usp_disconnected :: "'d user_lib \<Rightarrow> ('d, 'q) us \<Rightarrow> ('d, 'q) us" where
  "usp_disconnected L = us_disconnected L usp_download"

definition usp_ready :: "'d user_lib \<Rightarrow> ('d, 'q) us \<Rightarrow> ('d, 'q) us" where
  "usp_ready L = us_ready L usp_download"

definition usp_latency :: "nanoseconds \<Rightarrow> ('d, 'q) us \<Rightarrow> ('d, 'q) us" where
  "usp_latency = us_latency"

definition usp_binary :: "('d, 'q) us \<Rightarrow> (exn, ('d, 'q) us) res" where
  "usp_binary = us_binary"

definition usp_listen_key_expired :: "('d, 'q) us \<Rightarrow> ('d, 'q) us" where
  "usp_listen_key_expired = us_listen_key_expired"

definition usp_on_trade_lite :: "user_env \<Rightarrow> trade_lite \<Rightarrow> ('d, 'q) us \<Rightarrow> ('d, 'q) us" where
  "usp_on_trade_lite = us_on_trade_lite"

definition usp_find_stale_orders :: "user_env \<Rightarrow> ('d, 'q) us \<Rightarrow> bool \<times> ('d, 'q) us" where
  "usp_find_stale_orders = us_find_stale_orders"

definition usp_check_stale_orders :: "user_env \<Rightarrow> trace_info \<Rightarrow> ('d, 'q) us \<Rightarrow> ('d, 'q) us" where
  "usp_check_stale_orders = us_check_stale_orders"

definition usp_parse :: "user_env \<Rightarrow> string \<Rightarrow> ('d, 'q) us \<Rightarrow> (exn, ('d, 'q) us) res" where
  "usp_parse E = us_parse E (usp_handle E)"

end
