(* ===== verification/User_Stream_Facts.thy ===== *)
theory User_Stream_Facts
  imports User_Streams
begin

text \<open>
  The user streams of \<open>User_Streams\<close>: the step relation of all their entry points, what a step
  keeps, and the progress of the download.
\<close>

section \<open>The two classes\<close>

datatype us_class = US_Classic | US_Portfolio

fun us_call :: "us_class \<Rightarrow> ('d, 'q) us_downloader" where
  "us_call US_Classic = usc_download"
| "us_call US_Portfolio = usp_download"

fun us_timer ::
  "us_class \<Rightarrow> user_env \<Rightarrow> 'd user_lib \<Rightarrow> trace_info \<Rightarrow> ('d, 'q) us \<Rightarrow> ('d, 'q) us" where
  "us_timer US_Classic = usc_timer"
| "us_timer US_Portfolio = usp_timer"

fun us_handle ::
  "us_class \<Rightarrow> user_env \<Rightarrow> user_event \<Rightarrow> ('d, 'q) us \<Rightarrow> (exn, ('d, 'q) us) res" where
  "us_handle US_Classic = usc_handle"
| "us_handle US_Portfolio = usp_handle"

text \<open>The states of the downloads, in the order of their enumerations.\<close>

fun us_states :: "us_class \<Rightarrow> dc_state list" where
  "us_states US_Classic = [DC_GET_BALANCES, DC_GET_POSITIONS, DC_GET_OPEN_ORDERS,
     DC_GET_STALE_ORDERS, DC_GET_TRADES, DC_DONE]"
| "us_states US_Portfolio = [DC_GET_BALANCES, DC_GET_POSITIONS, DC_GET_POSITIONS_PM,
     DC_GET_OPEN_ORDERS, DC_GET_STALE_ORDERS, DC_GET_TRADES, DC_DONE]"

text \<open>
  One step: an event of the connection, a message, a timer, or another component that works on
  the stale orders of the account.
\<close>

inductive us_step :: "us_class \<Rightarrow> 'd user_lib \<Rightarrow> ('d, 'q) us \<Rightarrow> ('d, 'q) us \<Rightarrow> bool"
  for c L where
  us_step_start: "us_step c L w (us_start w)"
| us_step_stop: "us_step c L w (us_stop w)"
| us_step_timer: "us_step c L w (us_timer c E L ti w)"
| us_step_ready: "us_step c L w (us_ready L (us_call c) w)"
| us_step_disconnected: "us_step c L w (us_disconnected L (us_call c) w)"
| us_step_latency: "us_step c L w (us_latency sample w)"
| us_step_message: "us_step c L w (res_state (us_parse E (us_handle c E) message w))"
| us_step_binary: "us_step c L w (res_state (us_binary w))"
| us_step_stale: "us_step c L w (w\<lparr>gw_stale_orders := xs\<rparr>)"

inductive us_run :: "us_class \<Rightarrow> 'd user_lib \<Rightarrow> ('d, 'q) us \<Rightarrow> ('d, 'q) us \<Rightarrow> bool"
  for c L where
  us_run_refl: "us_run c L w w"
| us_run_step: "us_run c L u v \<Longrightarrow> us_step c L v w \<Longrightarrow> us_run c L u w"

text \<open>A stream as the controller creates it.\<close>

definition us_fresh :: "u16 \<Rightarrow> account \<Rightarrow> string \<Rightarrow> 'd \<Rightarrow> 'q shared \<Rightarrow> (u8 \<times> u64) list \<Rightarrow> ('d, 'q) us" where
  "us_fresh stream_id acc listen_key d sh details =
     \<lparr> gw_self = us_create stream_id acc listen_key d, gw_shared = sh,
       gw_stale_orders = details, gw_out = [] \<rparr>"

section \<open>What messages leave alone\<close>

text \<open>
  Effects that say nothing about the connection, the download or the life of the stream.
\<close>

fun us_plain :: "effect \<Rightarrow> bool" where
  "us_plain (Pub_stream_status s) = False"
| "us_plain (Slot_request s) = False"
| "us_plain Conn_close = False"
| "us_plain (Ev_remove a) = False"
| "us_plain _ = True"

definition us_frame :: "('d, 'q) us \<Rightarrow> ('d, 'q) us \<Rightarrow> bool" where
  "us_frame v w \<longleftrightarrow>
     sm_account (gw_self w) = sm_account (gw_self v)
     \<and> sm_connection_status (gw_self w) = sm_connection_status (gw_self v)
     \<and> us_download (gw_self w) = us_download (gw_self v)
     \<and> us_stop_flag (gw_self w) = us_stop_flag (gw_self v)
     \<and> (\<exists>es. gw_out w = gw_out v @ es \<and> list_all us_plain es)"

lemma us_frame_refl [simp]: "us_frame w w"
  by (simp add: us_frame_def)

lemma us_frame_trans: "us_frame u v \<Longrightarrow> us_frame v w \<Longrightarrow> us_frame u w"
  unfolding us_frame_def by (elim conjE exE) (intro conjI; force)

lemma us_frame_emit: "us_frame v w \<Longrightarrow> us_plain e \<Longrightarrow> us_frame v (emit e w)"
  by (auto simp: us_frame_def)

interpretation frame_kept: kept us_frame
  by unfold_locales (auto intro: us_frame_trans)

lemma us_frame_trade: "us_frame v w \<Longrightarrow> us_frame v (report_trade E mode t s found m w)"
  by (simp add: report_trade_def us_frame_emit)

lemma us_frame_reports:
  "us_frame w (usc_on_order_trade_update E m w)" "us_frame w (usp_on_order_trade_update E m w)"
  "us_frame w (usp_on_execution_report E r w)" "us_frame w (us_on_trade_lite E l w)"
  by (auto simp: usc_on_order_trade_update_def usp_on_order_trade_update_def
      usp_on_execution_report_def us_on_trade_lite_def Let_def
      intro!: us_frame_trade us_frame_emit split: option.splits)

lemma us_frame_funds: "us_frame v w \<Longrightarrow> us_frame v (update_funds mode b h a t s w)"
  by (simp add: update_funds_def us_frame_emit)

lemma us_frame_account:
  "us_frame w (usc_on_account_update E m w)" "us_frame w (usp_on_account_update E m w)"
  "us_frame w (usp_on_outbound x w)"
proof -
  have p: "us_frame v (us_on_position E mode m i v)" for mode i and v :: "('a, 'b) us"
    by (auto simp: us_on_position_def intro!: us_frame_emit)
  have b: "us_frame v (us_on_balance mode m i v)" for mode i and v :: "('a, 'b) us"
    by (auto simp: us_on_balance_def Let_def intro!: us_frame_funds)
  show "us_frame w (usc_on_account_update E m w)" "us_frame w (usp_on_account_update E m w)"
    "us_frame w (usp_on_outbound x w)"
    by (auto simp: usc_on_account_update_def usp_on_account_update_def usp_on_outbound_def
        intro!: frame_kept.keep_fold p b us_frame_funds us_frame_trans [OF frame_kept.keep_fold frame_kept.keep_fold])
qed

text \<open>A message either is plain or says that the listen key has expired.\<close>

definition us_expires :: "('d, 'q) us \<Rightarrow> ('d, 'q) us \<Rightarrow> bool" where
  "us_expires v w \<longleftrightarrow> us_frame v w \<or> w = us_listen_key_expired v"

lemma us_expires_handle: "us_expires w (res_state (us_handle c E e w))"
  by (cases c; cases e)
    (auto simp: usc_handle_def usp_handle_def us_expires_def parsed_def us_frame_reports
      us_frame_account split: sum.splits)

lemma us_parse_state:
  "res_state (us_parse E handle message w) =
     (case user_dispatch (ue_parser E) (sh_allow_unknown_event_types (gw_shared w)) message of
        Call e \<Rightarrow> res_state (handle e w) | _ \<Rightarrow> w)"
proof -
  have "res_state (case r of Throw e w \<Rightarrow> Fatal ''Unhandled'' w | done \<Rightarrow> done) = res_state r"
    for r :: "(exn, ('a, 'b) us) res"
    by (cases r) simp_all
  then show ?thesis by (simp add: us_parse_def Let_def split: outcome.split)
qed

lemma us_expires_parse: "us_expires w (res_state (us_parse E (us_handle c E) message w))"
  by (auto simp: us_parse_state us_expires_handle us_expires_def [of w w] split: outcome.splits)

section \<open>The download\<close>

lemma us_upd_download_simps [simp]:
  "sm_account (gw_self (us_upd_download f w)) = sm_account (gw_self w)"
  "sm_connection_status (gw_self (us_upd_download f w)) = sm_connection_status (gw_self w)"
  "us_stop_flag (gw_self (us_upd_download f w)) = us_stop_flag (gw_self w)"
  "us_download (gw_self (us_upd_download f w)) = f (us_download (gw_self w))"
  "gw_out (us_upd_download f w) = gw_out w"
  "gw_shared (us_upd_download f w) = gw_shared w"
  "gw_stale_orders (us_upd_download f w) = gw_stale_orders w"
  by (simp_all add: us_upd_download_def)

lemma us_status_simps [simp]:
  "sm_account (gw_self (us_set_connection_status c t w)) = sm_account (gw_self w)"
  "sm_connection_status (gw_self (us_set_connection_status c t w)) = c"
  "us_stop_flag (gw_self (us_set_connection_status c t w)) = us_stop_flag (gw_self w)"
  "us_download (gw_self (us_set_connection_status c t w)) = us_download (gw_self w)"
  "gw_shared (us_set_connection_status c t w) = gw_shared w"
  "gw_stale_orders (us_set_connection_status c t w) = gw_stale_orders w"
  by (simp_all add: us_set_connection_status_def Let_def)

lemmas us_send_defs = us_send_def dl_send_def us_ready_def us_disconnected_def

lemma us_disconnected_effect:
  assumes "download_contract states L"
  shows "us_disconnected L call w =
    (let v = us_upd_download (dl_command L Download_reset)
               (us_set_connection_status ConnectionStatus_DISCONNECTED [] w)
     in if us_stop_flag (gw_self w) then emit (Ev_remove (name_of w)) v else v)"
  by (simp add: us_send_defs Let_def numeral_eq_Suc contract_reset [OF assms])

section \<open>The life of the stream\<close>

text \<open>
  The controller is asked to remove the stream exactly when a disconnect follows the end of
  the listen key.
\<close>

fun us_removal :: "effect \<Rightarrow> bool" where
  "us_removal (Ev_remove a) = True"
| "us_removal _ = False"

definition us_life :: "string \<Rightarrow> ('d, 'q) us \<Rightarrow> bool" where
  "us_life a w \<longleftrightarrow> name_of w = a
     \<and> (us_stop_flag (gw_self w) \<longleftrightarrow> Conn_close \<in> set (gw_out w))
     \<and> (\<forall>b. Ev_remove b \<in> set (gw_out w) \<longrightarrow> b = a \<and> us_stop_flag (gw_self w))"

text \<open>What the download does to the stream is publishing a status and requesting a slot.\<close>

fun us_benign :: "effect \<Rightarrow> bool" where
  "us_benign Conn_close = False"
| "us_benign (Ev_remove a) = False"
| "us_benign _ = True"

definition us_lives :: "('d, 'q) us \<Rightarrow> ('d, 'q) us \<Rightarrow> bool" where
  "us_lives v w \<longleftrightarrow> sm_account (gw_self w) = sm_account (gw_self v)
     \<and> us_stop_flag (gw_self w) = us_stop_flag (gw_self v)
     \<and> (\<exists>es. gw_out w = gw_out v @ es \<and> list_all us_benign es)"

lemma us_lives_refl [simp]: "us_lives w w"
  by (simp add: us_lives_def)

lemma us_lives_trans: "us_lives u v \<Longrightarrow> us_lives v w \<Longrightarrow> us_lives u w"
  unfolding us_lives_def by (elim conjE exE) (intro conjI; force)

lemma us_lives_emit: "us_lives v w \<Longrightarrow> us_benign e \<Longrightarrow> us_lives v (emit e w)"
  by (auto simp: us_lives_def)

lemma us_lives_status: "us_lives v w \<Longrightarrow> us_lives v (us_set_connection_status c t w)"
  by (auto simp: us_lives_def us_set_connection_status_def Let_def)

lemma us_lives_download: "us_lives v w \<Longrightarrow> us_lives v (us_upd_download f w)"
  by (simp add: us_lives_def)

lemma us_lives_call: "us_lives v w \<Longrightarrow> us_lives v (snd (us_call c s w))"
  by (cases c; cases s) (auto simp: usc_download_def usp_download_def us_downloading_def
      intro!: us_lives_emit us_lives_status)

interpretation lives_kept: kept us_lives
  by unfold_locales (auto intro: us_lives_trans)

lemma us_lives_send: "us_lives v w \<Longrightarrow> us_lives v (us_send L (us_call c) k w)"
  unfolding us_send_def
  by (erule us_lives_trans, rule lives_kept.keep_send) (simp_all add: us_lives_download us_lives_call)

lemma us_lives_stale: "us_lives v w \<Longrightarrow> us_lives v (w\<lparr>gw_stale_orders := xs\<rparr>)"
  by (simp add: us_lives_def)

lemma us_find_stale_orders_effect:
  "snd (us_find_stale_orders E w) = w\<lparr>gw_stale_orders :=
     snd (fold us_add_stale (ue_stale_orders E (name_of w)) (0, gw_stale_orders w))\<rparr>"
  by (simp add: us_find_stale_orders_def split: prod.splits)

lemma us_lives_find: "us_lives v w \<Longrightarrow> us_lives v (snd (us_find_stale_orders E w))"
  by (simp add: us_find_stale_orders_effect us_lives_stale)

lemma us_lives_check_stale: "us_lives v w \<Longrightarrow> us_lives v (us_check_stale_orders E ti w)"
proof -
  have "us_lives v (upd_self (\<lambda>s. s\<lparr>us_next_check_stale_orders := t\<rparr>) w)" if "us_lives v w" for t w
    using that by (simp add: us_lives_def)
  then show "us_lives v w \<Longrightarrow> us_lives v (us_check_stale_orders E ti w)"
    using us_lives_find [of v "upd_self (\<lambda>s. s\<lparr>us_next_check_stale_orders :=
        ti_create_time ti + st_check_stale_order_freq (settings_of w)\<rparr>) w" E]
    by (auto simp: us_check_stale_orders_def Let_def intro!: us_lives_emit split: prod.splits)
qed

lemma us_lives_queue:
  "us_lives v w \<Longrightarrow> us_lives v (usc_check_request_queue E L w)"
  "us_lives v w \<Longrightarrow> us_lives v (usp_check_request_queue E L w)"
  using us_lives_send [of v _ L US_Classic] us_lives_send [of v _ L US_Portfolio]
  by (auto simp: usc_check_request_queue_def usp_check_request_queue_def Let_def us_check_def
      us_check_open_orders_def us_lives_find split: dc_state.splits)

lemma us_lives_timer: "us_lives w (us_timer c E L ti w)"
proof -
  have r: "us_lives v (usc_refresh_balance ti u)" if "us_lives v u" for v u :: "('a, 'b) us"
    using that by (auto simp: usc_refresh_balance_def us_lives_def)
  show ?thesis
    by (cases c) (auto simp: usc_timer_def usp_timer_def Let_def
        intro!: r us_lives_queue us_lives_check_stale)
qed

lemma us_lives_frame: "us_frame v w \<Longrightarrow> us_lives v w"
proof -
  have "us_plain e \<Longrightarrow> us_benign e" for e by (cases e) simp_all
  then show "us_frame v w \<Longrightarrow> us_lives v w"
    by (auto simp: us_frame_def us_lives_def list_all_iff)
qed

lemma us_benign_not: "list_all us_benign es \<Longrightarrow> Conn_close \<notin> set es \<and> Ev_remove b \<notin> set es"
  by (auto simp: list_all_iff)

lemma us_life_lives: "us_life a v \<Longrightarrow> us_lives v w \<Longrightarrow> us_life a w"
  by (auto simp: us_life_def us_lives_def dest: us_benign_not)

lemma us_life_emit: "us_life a w \<Longrightarrow> us_benign e \<Longrightarrow> us_life a (emit e w)"
  by (rule us_life_lives [OF _ us_lives_emit [OF us_lives_refl]])

lemma us_life_step:
  assumes "download_contract states L" "us_step c L v w" "us_life a v"
  shows "us_life a w"
  using assms(2,3)
proof (induction rule: us_step.induct)
  case (us_step_message w E message)
  then show ?case
    using us_expires_parse [of w E c message]
    by (auto simp: us_expires_def us_listen_key_expired_def us_life_def [of a "emit _ _"]
        dest: us_life_lives [OF _ us_lives_frame]) (auto simp: us_life_def)
next
  case (us_step_disconnected w)
  have "us_lives w (us_upd_download (dl_command L Download_reset)
               (us_set_connection_status ConnectionStatus_DISCONNECTED [] w))"
    by (simp add: us_lives_download us_lives_status)
  with us_step_disconnected have *: "us_life a (us_upd_download (dl_command L Download_reset)
               (us_set_connection_status ConnectionStatus_DISCONNECTED [] w))"
    by (rule us_life_lives)
  then show ?case
    using us_step_disconnected
    by (auto simp: us_disconnected_effect [OF assms(1)] Let_def us_life_def)
qed (auto simp: us_start_def us_stop_def us_latency_def us_binary_def us_ready_def
    intro!: us_life_emit intro: us_life_lives us_lives_timer us_lives_send us_lives_stale us_lives_refl)

lemma us_life_run:
  assumes "download_contract states L" "us_run c L v w" "us_life a v"
  shows "us_life a w"
  using assms(2,3) by (induction rule: us_run.induct) (auto intro: us_life_step [OF assms(1)])

text \<open>
  A stream handles a message that its listen key has expired: it can be read, and the handlers of the class return.
\<close>

definition says_expired :: "user_env \<Rightarrow> string \<Rightarrow> ('d, 'q) us \<Rightarrow> bool" where
  "says_expired E message w \<longleftrightarrow> (\<exists>text.
     user_dispatch (ue_parser E) (sh_allow_unknown_event_types (gw_shared w)) message
       = Call (UE_listen_key_expired text)
     \<and> ue_other E (UE_listen_key_expired text) = Inr ())"

definition us_expiry :: "us_class \<Rightarrow> ('d, 'q) us \<Rightarrow> ('d, 'q) us \<Rightarrow> bool" where
  "us_expiry c v w \<longleftrightarrow>
     (\<exists>E message. says_expired E message v \<and> us_parse E (us_handle c E) message v = Ok w)"

lemma parse_expired:
  "says_expired E message w \<Longrightarrow> us_parse E (us_handle c E) message w = Ok (us_listen_key_expired w)"
  by (cases c) (auto simp: says_expired_def us_parse_def usc_handle_def usp_handle_def parsed_def Let_def)

lemma expiry_flag: "us_expiry c v w \<Longrightarrow> us_stop_flag (gw_self w)"
  by (auto simp: us_expiry_def parse_expired us_listen_key_expired_def)

lemma handle_flag:
  assumes "us_stop_flag (gw_self (res_state (us_handle c E e w))) \<noteq> us_stop_flag (gw_self w)"
  shows "\<exists>text. e = UE_listen_key_expired text \<and> ue_other E e = Inr ()"
proof -
  have "us_frame w v \<Longrightarrow> us_stop_flag (gw_self v) = us_stop_flag (gw_self w)" for v
    by (simp add: us_frame_def)
  note same = this [OF us_frame_reports(1)] this [OF us_frame_reports(2)] this [OF us_frame_reports(3)]
    this [OF us_frame_reports(4)] this [OF us_frame_account(1)] this [OF us_frame_account(2)]
    this [OF us_frame_account(3)]
  show ?thesis
    using assms by (cases c; cases e)
      (auto simp: usc_handle_def usp_handle_def parsed_def same split: sum.splits)
qed

lemma step_flag:
  assumes "download_contract states L" "us_step c L v w"
  shows "us_stop_flag (gw_self w) = us_stop_flag (gw_self v) \<or> us_expiry c v w"
  using assms(2)
proof (induction rule: us_step.induct)
  case (us_step_message w E message)
  show ?case
  proof (rule disjCI)
    assume n: "\<not> us_expiry c w (res_state (us_parse E (us_handle c E) message w))"
    have "\<not> says_expired E message w"
    proof
      assume e: "says_expired E message w"
      from parse_expired [OF e, of c] e n show False by (auto simp: us_expiry_def)
    qed
    then show "us_stop_flag (gw_self (res_state (us_parse E (us_handle c E) message w))) = us_stop_flag (gw_self w)"
      using handle_flag [of c E _ w] unfolding us_parse_state says_expired_def
      by (cases "user_dispatch (ue_parser E) (sh_allow_unknown_event_types (gw_shared w)) message")
        (simp_all, metis)
  qed
next
  case (us_step_timer w E ti)
  then show ?case using us_lives_timer [of w c E L ti] by (simp add: us_lives_def)
next
  case (us_step_ready w)
  then show ?case
    using us_lives_send [OF us_lives_refl, of w L c Download_begin] by (simp add: us_ready_def us_lives_def)
qed (auto simp: us_start_def us_stop_def us_latency_def us_binary_def us_disconnected_effect [OF assms(1)] Let_def)

lemma run_flag:
  assumes "download_contract states L" "us_run c L u w"
  shows "us_stop_flag (gw_self w) \<longleftrightarrow> us_stop_flag (gw_self u)
    \<or> (\<exists>v v'. us_run c L u v \<and> us_expiry c v v' \<and> us_run c L v' w)" (is "_ \<longleftrightarrow> _ \<or> ?expired w")
proof -
  have once: "us_run c L v w \<Longrightarrow> us_stop_flag (gw_self v) \<Longrightarrow> us_stop_flag (gw_self w)" for v w
  proof (induction rule: us_run.induct)
    case (us_run_step v x w)
    then show ?case using step_flag [OF assms(1) us_run_step.hyps(2)] expiry_flag by blast
  qed
  have "us_run c L u w \<Longrightarrow> us_stop_flag (gw_self w) \<Longrightarrow> us_stop_flag (gw_self u) \<or> ?expired w" for w
  proof (induction rule: us_run.induct)
    case (us_run_step u v w)
    from step_flag [OF assms(1) us_run_step.hyps(2)] show ?case
    proof
      assume "us_expiry c v w"
      then show ?thesis using us_run_step.hyps(1) us_run_refl by blast
    qed (use us_run_step us_run.us_run_step in blast)
  qed simp
  then show ?thesis using assms(2) once expiry_flag by blast
qed

section \<open>Progress of the download\<close>

text \<open>
  A download is stuck before its second state: it waits, the stream is not ready, and nothing
  but the balances has been requested.
\<close>

fun us_before :: "effect \<Rightarrow> bool" where
  "us_before (Pub_stream_status s) = (ss_connection_status s \<noteq> ConnectionStatus_READY)"
| "us_before (Slot_request s) = (s = Slot_balances)"
| "us_before _ = True"

definition us_stuck :: "'d user_lib \<Rightarrow> ('d, 'q) us \<Rightarrow> bool" where
  "us_stuck L w \<longleftrightarrow> dl_due L (us_download (gw_self w)) = None
     \<and> sm_connection_status (gw_self w) \<noteq> ConnectionStatus_READY \<and> list_all us_before (gw_out w)"

lemma us_stuck_emit: "us_stuck L w \<Longrightarrow> us_before e \<Longrightarrow> us_stuck L (emit e w)"
  by (simp add: us_stuck_def)

lemma us_stuck_frame: "us_frame v w \<Longrightarrow> us_stuck L v \<Longrightarrow> us_stuck L w"
proof -
  have "us_plain e \<Longrightarrow> us_before e" for e by (cases e) simp_all
  then show "us_frame v w \<Longrightarrow> us_stuck L v \<Longrightarrow> us_stuck L w"
    by (auto simp: us_frame_def us_stuck_def list_all_iff)
qed

lemma us_begin_effect:
  assumes "download_contract (us_states c) L"
  shows "us_ready L (us_call c) w =
    (let v = emit (Slot_request Slot_balances)
          (us_set_connection_status ConnectionStatus_DOWNLOADING ''GET_BALANCES''
            (us_upd_download (dl_command L Download_begin) w))
     in us_upd_download (dl_answer L 1) v)"
proof -
  have first: "dl_due L (dl_command L Download_begin d) = Some DC_GET_BALANCES" for d
    using contract_begin [OF assms] by (cases c) simp_all
  then have "dl_due L (dl_answer L 1 (dl_command L Download_begin d)) = None" for d
    using contract_wait [OF assms] by force
  with first show ?thesis
    by (cases c) (simp_all add: us_send_defs numeral_eq_Suc usc_download_def usp_download_def
        us_downloading_def Let_def)
qed

lemma us_stuck_step:
  assumes "download_contract (us_states US_Portfolio) L" "us_step US_Portfolio L v w" "us_stuck L v"
  shows "us_stuck L w"
  using assms(2,3)
proof (induction rule: us_step.induct)
  case (us_step_timer w E ti)
  then show ?case by (simp add: usp_timer_def us_stuck_def stream_ready_def)
next
  case (us_step_ready w)
  have "dl_due L (dl_answer L 1 (dl_command L Download_begin d)) = None" for d
    using contract_begin [OF assms(1)] contract_wait [OF assms(1)] by force
  with us_step_ready show ?case
    unfolding us_begin_effect [OF assms(1)]
    by (simp add: us_stuck_def us_set_connection_status_def Let_def)
next
  case (us_step_disconnected w)
  then show ?case
    by (simp add: us_disconnected_effect [OF assms(1)] us_stuck_def us_set_connection_status_def
        contract_reset [OF assms(1)] Let_def)
next
  case (us_step_message w E message)
  then show ?case
    using us_expires_parse [of w E US_Portfolio message]
    by (auto simp: us_expires_def us_listen_key_expired_def intro: us_stuck_frame)
      (simp add: us_stuck_def)
qed (simp_all add: us_start_def us_stop_def us_latency_def us_binary_def us_stuck_emit us_stuck_def)

lemma us_stuck_run:
  assumes "download_contract (us_states US_Portfolio) L" "us_run US_Portfolio L v w" "us_stuck L v"
  shows "us_stuck L w"
  using assms(2,3) by (induction rule: us_run.induct) (auto intro: us_stuck_step [OF assms(1)])

subsection \<open>The classic download goes on\<close>

text \<open>How far the download has come: the number of states left, or none when the stream is ready.\<close>

definition us_at :: "'d user_lib \<Rightarrow> nat \<Rightarrow> ('d, 'q) us \<Rightarrow> bool" where
  "us_at L n w \<longleftrightarrow>
     (if n = 0 then stream_ready w \<and> dl_state L (us_download (gw_self w)) = DC_DONE
      else n \<le> 5 \<and> waiting L (us_states US_Classic ! (5 - n)) (us_download (gw_self w)))"

text \<open>
  The slot a state waits for, and what the stream has done when it comes to wait in the state \<open>n\<close>
  from the end: it has asked the slot, for stale orders only when there are some, and for
  trades only when there are symbols to ask for.
\<close>

definition us_trades_on :: "('d, 'q) us \<Rightarrow> bool" where
  "us_trades_on w \<longleftrightarrow> st_download_trades_lookback (settings_of w) \<noteq> 0
     \<and> st_download_symbols (settings_of w) \<noteq> []"

fun us_slot :: "dc_state \<Rightarrow> slot" where
  "us_slot DC_GET_POSITIONS = Slot_positions"
| "us_slot DC_GET_POSITIONS_PM = Slot_positions_pm"
| "us_slot DC_GET_OPEN_ORDERS = Slot_open_orders"
| "us_slot DC_GET_STALE_ORDERS = Slot_stale_orders"
| "us_slot DC_GET_TRADES = Slot_trades"
| "us_slot _ = Slot_balances"

definition us_waits :: "dc_state \<Rightarrow> ('d, 'q) us \<Rightarrow> bool" where
  "us_waits s w \<longleftrightarrow> Slot_request (us_slot s) \<in> set (gw_out w)
     \<and> (s = DC_GET_STALE_ORDERS \<longrightarrow> gw_stale_orders w \<noteq> [])
     \<and> (s = DC_GET_TRADES \<longrightarrow> us_trades_on w)"

definition us_asked :: "nat \<Rightarrow> ('d, 'q) us \<Rightarrow> bool" where
  "us_asked n w \<longleftrightarrow> n = 0 \<or> us_waits (us_states US_Classic ! (5 - n)) w"

lemma us_trades_on_same [simp]:
  "us_trades_on (emit e w) = us_trades_on w" "us_trades_on (upd_self f w) = us_trades_on w"
  "us_trades_on (w\<lparr>gw_stale_orders := xs\<rparr>) = us_trades_on w"
  "us_trades_on (us_upd_download g w) = us_trades_on w"
  by (simp_all add: us_trades_on_def us_upd_download_def)

lemma usc_download_waits: "usc_download s w = (1, v) \<Longrightarrow> us_waits s v"
  by (cases s) (auto simp: usc_download_def us_downloading_def us_waits_def us_trades_on_def
      us_set_connection_status_def Let_def split: if_splits)

lemma usc_download_cases:
  assumes "usc_download s w = (k, v)"
  shows "us_download (gw_self v) = us_download (gw_self w)" "k = 1 \<or> k = 0"
    "k = 0 \<Longrightarrow> s = DC_DONE \<Longrightarrow> stream_ready v" "s = DC_DONE \<Longrightarrow> k = 0"
  using assms by (cases s; auto simp: usc_download_def us_downloading_def stream_ready_def split: if_splits)+

lemma us_states_next:
  "k \<le> 4 \<Longrightarrow> next_of (us_states US_Classic) (us_states US_Classic ! (4 - k)) = Some (us_states US_Classic ! (5 - k))"
  "next_of (us_states US_Classic) DC_DONE = None"
  "us_states US_Classic ! 5 = DC_DONE"
proof -
  assume "k \<le> 4"
  then have "k = 0 \<or> k = 1 \<or> k = 2 \<or> k = 3 \<or> k = 4" by linarith
  then show "next_of (us_states US_Classic) (us_states US_Classic ! (4 - k))
      = Some (us_states US_Classic ! (5 - k))"
    by (elim disjE) simp_all
qed simp_all

abbreviation usc_drive :: "nat \<Rightarrow> 'd user_lib \<Rightarrow> ('d, 'q) us \<Rightarrow> ('d, 'q) us" where
  "usc_drive n L \<equiv> dl_drive n L (\<lambda>w. us_download (gw_self w)) us_upd_download usc_download"

lemma us_drive_waiting [simp]: "dl_due L (us_download (gw_self w)) = None \<Longrightarrow> usc_drive n L w = w"
  by (cases n) simp_all

lemma us_drive_progress:
  assumes C: "download_contract (us_states US_Classic) L"
  shows "dl_due L (us_download (gw_self w)) = Some (us_states US_Classic ! (5 - k)) \<Longrightarrow> k \<le> 5
    \<Longrightarrow> k < n \<Longrightarrow> \<exists>j \<le> k. us_at L j (usc_drive n L w) \<and> us_asked j (usc_drive n L w)"
proof (induction k arbitrary: w n)
  case 0
  then obtain m where n: "n = Suc m" by (cases n) auto
  have due: "dl_due L (us_download (gw_self w)) = Some DC_DONE"
    using 0 us_states_next(3) by simp
  obtain k v where v: "usc_download DC_DONE w = (k, v)" by force
  have k: "k = 0" "stream_ready v" "us_download (gw_self v) = us_download (gw_self w)"
    using usc_download_cases [OF v] by auto
  have "dl_due L (dl_answer L 0 (us_download (gw_self w))) = None"
    "dl_state L (dl_answer L 0 (us_download (gw_self w))) = DC_DONE"
    using contract_next [OF C due] contract_last [OF C due] us_states_next(2) by simp_all
  with due v k show ?case by (simp add: n us_at_def us_asked_def stream_ready_def)
next
  case (Suc k)
  then obtain m where n: "n = Suc m" by (cases n) auto
  define s where "s = us_states US_Classic ! (4 - k)"
  have due: "dl_due L (us_download (gw_self w)) = Some s" using Suc.prems by (simp add: s_def)
  obtain i v where v: "usc_download s w = (i, v)" by force
  have d: "us_download (gw_self v) = us_download (gw_self w)" "i = 1 \<or> i = 0"
    using usc_download_cases [OF v] by auto
  show ?case
  proof (cases "i = 1")
    case True
    have "dl_due L (dl_answer L 1 (us_download (gw_self w))) = None"
      using contract_wait [OF C due] by simp
    then show ?thesis
      using due v d True Suc.prems waitingI [OF due] usc_download_waits [of s w v]
      by (intro exI [of _ "Suc k"]) (simp add: n us_at_def us_asked_def us_waits_def s_def)
  next
    case False
    then have i: "i = 0" using d by simp
    have "dl_due L (dl_answer L 0 (us_download (gw_self w))) = Some (us_states US_Classic ! (5 - k))"
      using contract_next [OF C due] us_states_next(1) [of k] Suc.prems by (simp add: s_def)
    then have "\<exists>j \<le> k. us_at L j (usc_drive m L (us_upd_download (dl_answer L 0) v))
        \<and> us_asked j (usc_drive m L (us_upd_download (dl_answer L 0) v))"
      using Suc.prems n d by (intro Suc.IH) simp_all
    then show ?thesis using due v i by (auto simp: n intro: le_SucI)
  qed
qed

text \<open>A timer at which the slot that the stream waits for has its answer.\<close>

definition us_answered :: "user_env \<Rightarrow> nat \<Rightarrow> bool" where
  "us_answered E n \<longleftrightarrow> n = 0 \<or> ue_responded E (us_slot (us_states US_Classic ! (5 - n)))"

lemma us_at_same:
  "us_at L n v \<Longrightarrow> us_download (gw_self w) = us_download (gw_self v) \<Longrightarrow>
     sm_connection_status (gw_self w) = sm_connection_status (gw_self v) \<Longrightarrow> us_at L n w"
  by (simp add: us_at_def stream_ready_def split: if_splits)

lemma us_tail_same:
  "us_download (gw_self (us_check_stale_orders E ti w)) = us_download (gw_self w)"
  "sm_connection_status (gw_self (us_check_stale_orders E ti w)) = sm_connection_status (gw_self w)"
  "us_download (gw_self (usc_refresh_balance ti w)) = us_download (gw_self w)"
  "sm_connection_status (gw_self (usc_refresh_balance ti w)) = sm_connection_status (gw_self w)"
  by (auto simp: us_check_stale_orders_def us_find_stale_orders_def usc_refresh_balance_def
      Let_def split: prod.splits)

lemma us_queue_progress:
  assumes C: "download_contract (us_states US_Classic) L" and all: "us_answered E n"
    and at: "us_at L n w"
  shows "\<exists>j \<le> n - 1. us_at L j (usc_check_request_queue E L w)
    \<and> us_asked j (usc_check_request_queue E L w)"
proof (cases n)
  case 0
  then show ?thesis
    using at by (auto simp: us_at_def us_asked_def usc_check_request_queue_def Let_def)
next
  case (Suc k)
  let ?s = "us_states US_Classic ! (4 - k)"
  have k: "k \<le> 4" and w: "waiting L ?s (us_download (gw_self w))"
    using at Suc by (auto simp: us_at_def)
  have st: "dl_state L (us_download (gw_self w)) = ?s" using contract_state [OF C w] .
  have due: "dl_due L (dl_command L (Download_check ?s) (us_download (gw_self w)))
      = Some (us_states US_Classic ! (5 - k))"
    using contract_check [OF C w] us_states_next(1) [OF k] by simp
  have *: "\<exists>j \<le> k. us_at L j (us_send L usc_download (Download_check ?s) v)
      \<and> us_asked j (us_send L usc_download (Download_check ?s) v)"
    if "us_download (gw_self v) = us_download (gw_self w)" for v :: "('a, 'b) us"
    unfolding us_send_defs using that due k by (intro us_drive_progress [OF C]) simp_all
  have "k = 0 \<or> k = 1 \<or> k = 2 \<or> k = 3 \<or> k = 4" using k by linarith
  then have "usc_check_request_queue E L w = us_send L usc_download (Download_check ?s) w
      \<or> usc_check_request_queue E L w
          = us_send L usc_download (Download_check ?s) (snd (us_find_stale_orders E w))"
    using st all Suc by (elim disjE) (simp_all add: usc_check_request_queue_def us_check_def
        us_check_open_orders_def us_answered_def Let_def)
  then show ?thesis
    using Suc * [of w] * [of "snd (us_find_stale_orders E w)"]
    by (auto simp: us_find_stale_orders_effect)
qed

lemma add_stale_keeps: "details \<noteq> [] \<Longrightarrow> snd (fold us_add_stale orders (n, details)) \<noteq> []"
  by (induction orders arbitrary: n details) (simp_all add: us_add_stale_def Let_def)

lemma us_waits_find: "us_waits s w \<Longrightarrow> us_waits s (snd (us_find_stale_orders E w))"
  by (simp add: us_waits_def us_find_stale_orders_effect add_stale_keeps)

lemma us_waits_emit: "us_waits s w \<Longrightarrow> us_waits s (emit e w)"
  by (simp add: us_waits_def)

lemma us_waits_self: "us_waits s w \<Longrightarrow> us_waits s (upd_self f w)"
  by (simp add: us_waits_def)

lemma us_waits_tail:
  "us_waits s w \<Longrightarrow> us_waits s (us_check_stale_orders E ti w)"
  "us_waits s w \<Longrightarrow> us_waits s (usc_refresh_balance ti w)"
  by (auto simp: us_check_stale_orders_def usc_refresh_balance_def Let_def case_prod_beta
      intro!: us_waits_emit us_waits_find us_waits_self)

lemma us_timer_progress:
  assumes "download_contract (us_states US_Classic) L" "us_answered E n" "ge_refresh E" "us_at L n w"
  shows "\<exists>j \<le> n - 1. us_at L j (usc_timer E L ti w) \<and> us_asked j (usc_timer E L ti w)"
proof -
  obtain j where j: "j \<le> n - 1" "us_at L j (usc_check_request_queue E L w)"
    "us_asked j (usc_check_request_queue E L w)"
    using us_queue_progress [OF assms(1,2,4)] by blast
  have "us_at L j (usc_timer E L ti w)"
    using j(2) assms(3) by (auto simp: usc_timer_def Let_def us_tail_same intro: us_at_same)
  moreover have "us_asked j (usc_timer E L ti w)"
    using j(3) assms(3) by (auto simp: usc_timer_def us_asked_def us_waits_tail Let_def simp del: us_states.simps)
  ultimately show ?thesis using j(1) by blast
qed

lemma us_timers_progress:
  assumes "download_contract (us_states US_Classic) L"
    and "\<forall>(E, ti) \<in> set steps. ge_refresh E \<and> (\<forall>s. ue_responded E s)"
    and "us_at L n w"
  shows "\<exists>j \<le> n - length steps. us_at L j (fold (\<lambda>(E, ti). usc_timer E L ti) steps w)"
  using assms(2,3)
proof (induction steps arbitrary: n w)
  case (Cons x steps)
  obtain E ti where x: "x = (E, ti)" by (cases x)
  then obtain j where j: "j \<le> n - 1" "us_at L j (usc_timer E L ti w)"
    using us_timer_progress [OF assms(1), of E n w ti] Cons.prems by (auto simp: us_answered_def)
  obtain i where "i \<le> j - length steps"
    "us_at L i (fold (\<lambda>(E, ti). usc_timer E L ti) steps (usc_timer E L ti w))"
    using Cons.IH [OF _ j(2)] Cons.prems by auto
  with j show ?case by (intro exI [of _ i]) (simp add: x)
qed auto

subsection \<open>The classic download waits for the trades\<close>

text \<open>
  With a lookback and symbols configured, the download stops at the trades, or before, as long
  as their slot has no answer.
\<close>

definition us_held :: "'d user_lib \<Rightarrow> ('d, 'q) us \<Rightarrow> bool" where
  "us_held L w \<longleftrightarrow> us_trades_on w \<and> \<not> stream_ready w
     \<and> (\<exists>k \<le> 4. waiting L (us_states US_Classic ! (4 - k)) (us_download (gw_self w)))"

lemma us_trades_on_cong:
  "gw_shared v = gw_shared w \<Longrightarrow> us_trades_on v = us_trades_on w"
  by (simp add: us_trades_on_def)

lemma usc_download_held:
  assumes "us_trades_on w" "usc_download s w = (i, v)" "s \<in> set (us_states US_Classic)" "s \<noteq> DC_DONE"
  shows "us_trades_on v \<and> us_download (gw_self v) = us_download (gw_self w)
    \<and> (i = 1 \<and> \<not> stream_ready v \<or> i = 0 \<and> s = DC_GET_STALE_ORDERS)"
  using assms
  by (cases s; auto simp: usc_download_def us_downloading_def stream_ready_def us_trades_on_def
      us_set_connection_status_def Let_def split: if_splits)

lemma us_drive_held:
  assumes C: "download_contract (us_states US_Classic) L"
  shows "dl_due L (us_download (gw_self w)) = Some (us_states US_Classic ! (4 - k)) \<Longrightarrow> k \<le> 4
    \<Longrightarrow> Suc k < n \<Longrightarrow> us_trades_on w \<Longrightarrow> us_held L (usc_drive n L w)"
proof (induction k arbitrary: w n rule: less_induct)
  case (less k)
  then obtain m where n: "n = Suc m" by (cases n) auto
  define s where "s = us_states US_Classic ! (4 - k)"
  have due: "dl_due L (us_download (gw_self w)) = Some s" using less.prems by (simp add: s_def)
  have "k = 0 \<or> k = 1 \<or> k = 2 \<or> k = 3 \<or> k = 4" using less.prems(2) by linarith
  then have s: "s \<in> set (us_states US_Classic)" "s \<noteq> DC_DONE" "s = DC_GET_STALE_ORDERS \<Longrightarrow> k = 1"
    by (elim disjE; simp add: s_def)+
  obtain i v where v: "usc_download s w = (i, v)" by force
  note h = usc_download_held [OF less.prems(4) v s(1,2)]
  show ?case
  proof (cases "i = 1")
    case True
    have "dl_due L (dl_answer L 1 (us_download (gw_self w))) = None"
      using contract_wait [OF C due] by simp
    then show ?thesis
      using due v h True less.prems(2) waitingI [OF due]
      by (auto simp: n us_held_def us_trades_on_def stream_ready_def s_def)
  next
    case False
    then have i: "i = 0" and k: "k = 1" using h s by auto
    let ?v = "us_upd_download (dl_answer L 0) v"
    have "dl_due L (us_download (gw_self ?v)) = Some (us_states US_Classic ! (4 - 0))"
      using contract_next [OF C due] h k by (simp add: s_def)
    then have "us_held L (usc_drive m L ?v)"
      using less.prems h k n by (intro less.IH [of 0]) (simp_all add: us_trades_on_def)
    then show ?thesis using due v i by (simp add: n)
  qed
qed

lemma us_begin_held:
  assumes C: "download_contract (us_states US_Classic) L" and "us_trades_on w"
  shows "us_held L (us_ready L usc_download w)"
  unfolding us_send_defs
  using contract_begin [OF C] assms(2)
  by (intro us_drive_held [OF C, of _ 4]) (simp_all add: us_trades_on_def)

lemma us_timer_held:
  assumes C: "download_contract (us_states US_Classic) L" and h: "us_held L w"
    and un: "\<not> ue_responded E Slot_trades"
  shows "us_held L (usc_timer E L ti w)"
proof -
  obtain k where k: "k \<le> 4" and w: "waiting L (us_states US_Classic ! (4 - k)) (us_download (gw_self w))"
    using h by (auto simp: us_held_def)
  let ?s = "us_states US_Classic ! (4 - k)"
  have st: "dl_state L (us_download (gw_self w)) = ?s" using contract_state [OF C w] .
  have *: "us_held L (us_send L usc_download (Download_check ?s) v)"
    if v: "us_download (gw_self v) = us_download (gw_self w)" "gw_shared v = gw_shared w"
      and z: "k \<noteq> 0" for v :: "('a, 'b) us"
  proof -
    obtain j where j: "k = Suc j" using z by (cases k) auto
    have "dl_due L (dl_command L (Download_check ?s) (us_download (gw_self w)))
        = Some (us_states US_Classic ! (4 - j))"
      using contract_check [OF C w] us_states_next(1) [OF k] by (simp add: j)
    then show ?thesis
      unfolding us_send_defs using h v k j
      by (intro us_drive_held [OF C, of _ j]) (simp_all add: us_held_def us_trades_on_def)
  qed
  have "k = 0 \<or> k = 1 \<or> k = 2 \<or> k = 3 \<or> k = 4" using k by linarith
  then have q: "us_held L (usc_check_request_queue E L w)"
  proof (elim disjE)
    assume "k = 0"
    then show ?thesis using st h un by (simp add: usc_check_request_queue_def us_check_def Let_def)
  qed (use st h * [of w] * [of "snd (us_find_stale_orders E w)"] in
      \<open>simp_all add: usc_check_request_queue_def us_check_def us_check_open_orders_def
        us_find_stale_orders_effect Let_def\<close>)
  then have "\<not> stream_ready (usc_check_request_queue E L w)" by (simp add: us_held_def)
  then show ?thesis using q h by (simp add: usc_timer_def Let_def)
qed

lemma us_timers_held:
  assumes "download_contract (us_states US_Classic) L" "us_held L w"
    and "\<forall>(E, ti) \<in> set steps. \<not> ue_responded E Slot_trades"
  shows "us_held L (fold (\<lambda>(E, ti). usc_timer E L ti) steps w)"
  using assms(2,3)
  by (induction steps arbitrary: w) (auto simp: us_timer_held [OF assms(1)])

end
