(* ===== verification/User_Stream_Properties.thy ===== *)
theory User_Stream_Properties
  imports User_Stream_Facts Sample_Env
begin

text \<open>
  The properties of the user streams, each with a witness where it has hypotheses.
\<close>

section \<open>A concrete stream\<close>

definition sample_report :: order_trade_update where
  "sample_report = \<lparr> er_symbol = ''BTCUSDT'', er_client_order_id = ''c'', er_side = JSide_BUY,
     er_order_type = JOrderType_LIMIT, er_time_in_force = JTimeInForce_GTC,
     er_original_quantity = Fin 1, er_original_price = Fin 100, er_stop_price = NaN,
     er_execution_type = JExecutionType_TRADE, er_order_status = JOrderStatus_FILLED,
     er_order_id = 42, er_last_filled_quantity = Fin 1, er_accumulated_quantity = Fin 1,
     er_last_filled_price = Fin 100, er_commission_asset = ''USDT'', er_commission = 0,
     er_trade_id = 5, er_is_trade_maker = True, ot_event_time = 2, ot_transaction_time = 1,
     ot_average_price = Fin 100, ot_order_trade_time = 1 \<rparr>"

definition sample_lite :: trade_lite where
  "sample_lite = \<lparr> tl_event_time = 2, tl_transaction_time = 1, tl_symbol = ''BTCUSDT'',
     tl_maker = True, tl_client_order_id = ''c'', tl_side = JSide_BUY,
     tl_last_filled_price = Fin 100, tl_last_filled_quantity = Fin 1, tl_trade_id = 5,
     tl_order_id = 42 \<rparr>"

definition sample_user_env :: user_env where
  "sample_user_env = env.extend sample_env (user_env.fields
     \<lparr> pl_parse = \<lambda>_. Inr [], pl_field = \<lambda>_. JField_UNKNOWN_INTERNAL,
        pl_event = \<lambda>_. Inr JEventType_UNKNOWN_INTERNAL, pl_text = \<lambda>_. Inr [] \<rparr>
     (\<lambda>_. Inr sample_report)
     (\<lambda>_. Inr \<lparr> au_event_time = 2, au_transaction_time = 1, au_balances = [], au_positions = [] \<rparr>)
     (\<lambda>_. Inr sample_lite) (\<lambda>_. Inl (Std_exception [])) (\<lambda>_. Inl (Std_exception []))
     (\<lambda>_. Inr ()) (\<lambda>_. None) (\<lambda>_. ge_find_order sample_env 1 7)
     (\<lambda>_. case ge_find_order sample_env 1 7 of Some ord \<Rightarrow> [ord, ord] | None \<Rightarrow> [])
     (\<lambda>_. True) 0 0)"

lemma sample_user_env_simps [simp]:
  "ge_refresh sample_user_env" "ue_responded sample_user_env = (\<lambda>_. True)"
  "ge_find_order sample_user_env = ge_find_order sample_env"
  "ue_lookup_order sample_user_env c = ge_find_order sample_env 1 7"
  "ue_stale_orders sample_user_env a =
     (case ge_find_order sample_env 1 7 of Some ord \<Rightarrow> [ord, ord] | None \<Rightarrow> [])"
  by (simp_all add: sample_user_env_def env.defs user_env.defs sample_env_def)

definition sample_user :: "us_class \<Rightarrow> (dc_state \<times> int \<times> bool, unit) us" where
  "sample_user c = us_fresh 9 sample_account ''key'' (DC_UNDEFINED, 0, False) sample_shared []"

definition sample_download :: "us_class \<Rightarrow> (dc_state \<times> int \<times> bool) user_lib" where
  "sample_download c = plain_download (us_states c) DC_UNDEFINED"

section \<open>The download\<close>

text \<open>
  C15: The user stream of a portfolio margin account never becomes ready. Whatever happens to it
  after it has been created, the stream is not ready, no status READY is published, and
  no slot but that of the balances is ever requested: the answers of the slots are looked
  for only when the stream is ready already.
\<close>

theorem portfolio_stream_never_ready:
  assumes "download_contract (us_states US_Portfolio) L" "dl_due L d = None"
    and "us_run US_Portfolio L (us_fresh stream_id acc key d sh details) w"
  shows "\<not> stream_ready w
    \<and> (\<forall>s. Pub_stream_status s \<in> set (gw_out w) \<longrightarrow> ss_connection_status s \<noteq> ConnectionStatus_READY)
    \<and> (\<forall>s. Slot_request s \<in> set (gw_out w) \<longrightarrow> s = Slot_balances)"
proof -
  have "us_stuck L (us_fresh stream_id acc key d sh details)"
    using assms(2) by (simp add: us_stuck_def us_fresh_def us_create_def)
  then have w: "us_stuck L w" by (rule us_stuck_run [OF assms(1,3)])
  then have "us_before e" if "e \<in> set (gw_out w)" for e
    using that by (simp add: us_stuck_def list_all_iff)
  then show ?thesis using w by (fastforce simp: us_stuck_def stream_ready_def)
qed

theorem portfolio_stream_never_ready_witness:
  "let L = sample_download US_Portfolio;
       w = us_timer US_Portfolio sample_user_env L (sample_trace 1)
             (us_ready L (us_call US_Portfolio) (sample_user US_Portfolio))
   in \<not> stream_ready w \<and> Slot_request Slot_balances \<in> set (gw_out w)"
proof -
  let ?L = "sample_download US_Portfolio"
  let ?v = "us_ready ?L (us_call US_Portfolio) (sample_user US_Portfolio)"
  let ?w = "us_timer US_Portfolio sample_user_env ?L (sample_trace 1) ?v"
  have run: "us_run US_Portfolio ?L (sample_user US_Portfolio) ?w"
    by (rule us_run_step [OF us_run_step [OF us_run_refl us_step_ready] us_step_timer])
  have C: "download_contract (us_states US_Portfolio) ?L"
    by (simp only: sample_download_def plain_download_contract)
  have due: "dl_due ?L (DC_UNDEFINED, 0, False) = None"
    by (simp add: sample_download_def plain_download_def)
  have out: "Slot_request Slot_balances \<in> set (gw_out ?v)"
    unfolding us_begin_effect [OF C] by (simp add: Let_def)
  have nr: "\<not> stream_ready ?v"
    unfolding us_begin_effect [OF C] by (simp add: Let_def stream_ready_def)
  show ?thesis
    using portfolio_stream_never_ready [OF C due run [unfolded sample_user_def]] out nr
    by (simp add: Let_def sample_user_def usp_timer_def)
qed

text \<open>
  The user stream of any other account becomes ready: five timers at which the slots have
  their answers are enough after the connection is up, and it stays ready with more of them.
\<close>

theorem classic_stream_becomes_ready:
  assumes "download_contract (us_states US_Classic) L"
    and "\<forall>(E, ti) \<in> set steps. ge_refresh E \<and> (\<forall>s. ue_responded E s)" "5 \<le> length steps"
  shows "stream_ready (fold (\<lambda>(E, ti). usc_timer E L ti) steps (us_ready L usc_download w))"
proof -
  let ?w = "us_ready L usc_download w"
  have first: "dl_due L (dl_command L Download_begin d) = Some DC_GET_BALANCES" for d
    using contract_begin [OF assms(1)] by simp
  obtain j where j: "j \<le> 5" "us_at L j ?w"
    using us_drive_progress [OF assms(1), of "us_upd_download (dl_command L Download_begin) w" 5 8]
      first by (auto simp: us_send_defs)
  obtain i where "i \<le> j - length steps" "us_at L i (fold (\<lambda>(E, ti). usc_timer E L ti) steps ?w)"
    using us_timers_progress [OF assms(1,2) j(2)] by blast
  then show ?thesis using j assms(3) by (simp add: us_at_def)
qed

theorem classic_stream_becomes_ready_witness:
  "stream_ready (fold (\<lambda>(E, ti). usc_timer E (sample_download US_Classic) ti)
     (replicate 5 (sample_user_env, sample_trace 1))
     (us_ready (sample_download US_Classic) usc_download (sample_user US_Classic)))"
  by (rule classic_stream_becomes_ready)
    (simp_all only: sample_download_def plain_download_contract, simp_all)

section \<open>The end of the stream\<close>

text \<open>
  C16: A user stream asks to be removed exactly when its connection is lost after the listen key
  has expired. A message of the exchange that it has, when it can be read, sets the stop flag and closes the connection; the
  flag is set, and the connection closed by the stream itself, exactly when such a message has been handled since
  the stream was created. Until then no removal is asked for; from then on every disconnect does, and the
  request names the account of the stream.
\<close>

theorem removal_follows_expiry:
  assumes "download_contract states L"
    and "us_run c L (us_fresh stream_id acc key d sh details) w"
  shows "(says_expired E message w \<longrightarrow> (\<exists>v. us_parse E (us_handle c E) message w = Ok v
        \<and> us_stop_flag (gw_self v) \<and> gw_out v = gw_out w @ [Conn_close]))
    \<and> (us_stop_flag (gw_self w) \<longleftrightarrow> (\<exists>u v. us_run c L (us_fresh stream_id acc key d sh details) u
        \<and> us_expiry c u v \<and> us_run c L v w))
    \<and> (us_stop_flag (gw_self w) \<longleftrightarrow> Conn_close \<in> set (gw_out w))
    \<and> (Ev_remove a \<in> set (gw_out w) \<longrightarrow> a = ac_name acc \<and> us_stop_flag (gw_self w))
    \<and> filter us_removal (gw_out (us_disconnected L (us_call c) w))
        = filter us_removal (gw_out w)
          @ (if us_stop_flag (gw_self w) then [Ev_remove (ac_name acc)] else [])"
proof -
  have "us_life (ac_name acc) (us_fresh stream_id acc key d sh details)"
    by (simp add: us_life_def us_fresh_def us_create_def)
  then have life: "us_life (ac_name acc) w" by (rule us_life_run [OF assms])
  have "\<not> us_stop_flag (gw_self (us_fresh stream_id acc key d sh details))"
    by (simp add: us_fresh_def us_create_def)
  then have flag: "us_stop_flag (gw_self w) \<longleftrightarrow> (\<exists>u v. us_run c L (us_fresh stream_id acc key d sh details) u
      \<and> us_expiry c u v \<and> us_run c L v w)"
    using run_flag [OF assms] by simp
  have "says_expired E message w \<longrightarrow> (\<exists>v. us_parse E (us_handle c E) message w = Ok v
      \<and> us_stop_flag (gw_self v) \<and> gw_out v = gw_out w @ [Conn_close])"
    using parse_expired [of E message w c] by (simp add: us_listen_key_expired_def)
  with life flag [symmetric] show ?thesis
    by (auto simp: us_disconnected_effect [OF assms(1)] us_life_def us_set_connection_status_def Let_def)
qed

theorem removal_follows_expiry_witness:
  "let L = sample_download US_Classic;
       E = sample_user_env\<lparr>ue_parser := (ue_parser sample_user_env)
             \<lparr>pl_parse := \<lambda>_. Inr [Item ''e'' (JV_int 0)],
              pl_event := \<lambda>_. Inr JEventType_listenKeyExpired\<rparr>\<rparr>;
       v = res_state (us_parse E (us_handle US_Classic E) [] (sample_user US_Classic));
       w = us_disconnected L (us_call US_Classic) v
   in \<not> us_stop_flag (gw_self (sample_user US_Classic)) \<and> us_stop_flag (gw_self w)
     \<and> filter us_removal (gw_out w) = [Ev_remove ''A'']"
proof -
  let ?L = "sample_download US_Classic"
  let ?E = "sample_user_env\<lparr>ue_parser := (ue_parser sample_user_env)
                \<lparr>pl_parse := \<lambda>_. Inr [Item ''e'' (JV_int 0)],
                 pl_event := \<lambda>_. Inr JEventType_listenKeyExpired\<rparr>\<rparr>"
  let ?v = "res_state (us_parse ?E (us_handle US_Classic ?E) [] (sample_user US_Classic))"
  have e: "says_expired ?E [] (sample_user US_Classic)"
    by (simp add: says_expired_def user_dispatch_def user_try_dispatch_def
        sample_user_env_def env.defs user_env.defs Let_def)
  have C: "download_contract (us_states US_Classic) ?L"
    by (simp only: sample_download_def plain_download_contract)
  note removal = removal_follows_expiry [OF C, of US_Classic 9 sample_account "''key''"
      "(DC_UNDEFINED, 0, False)" sample_shared "[]", folded sample_user_def [of US_Classic]]
  have a: "ac_name sample_account = ''A''" by (simp add: sample_account_def)
  have run: "us_run US_Classic ?L (sample_user US_Classic) ?v"
    by (rule us_run_step [OF us_run_refl us_step_message])
  obtain v where v: "us_parse ?E (us_handle US_Classic ?E) [] (sample_user US_Classic) = Ok v"
    "us_stop_flag (gw_self v)" "gw_out v = [Conn_close]"
    using removal [OF us_run_refl, of ?E "[]"] e by (auto simp: sample_user_def us_fresh_def)
  then have "filter us_removal (gw_out (us_disconnected ?L (us_call US_Classic) v)) = [Ev_remove ''A'']"
    using removal [OF run] a by simp
  moreover have "us_stop_flag (gw_self (us_disconnected ?L (us_call US_Classic) v))"
    using v(2) unfolding us_disconnected_effect [OF C] by (simp add: Let_def)
  moreover have "\<not> us_stop_flag (gw_self (sample_user US_Classic))"
    by (simp add: sample_user_def us_fresh_def us_create_def)
  ultimately show ?thesis using v(1) by (simp add: Let_def)
qed

section \<open>Fills\<close>

fun trades_of :: "effect list \<Rightarrow> trade_update list" where
  "trades_of [] = []"
| "trades_of (Pub_trade t u # es) = t # trades_of es"
| "trades_of (_ # es) = trades_of es"

lemma trades_of_append [simp]: "trades_of (es @ fs) = trades_of es @ trades_of fs"
  by (induction es rule: trades_of.induct) simp_all

definition fills_since :: "('c, 'q) gw \<Rightarrow> ('c, 'q) gw \<Rightarrow> (string \<times> double \<times> double) list" where
  "fills_since v w = concat (map (\<lambda>t. map (\<lambda>f. (fi_external_trade_id f, fi_quantity f, fi_price f)) (tu_fills t))
     (drop (length (trades_of (gw_out v))) (trades_of (gw_out w))))"

lemma sample_fill [simp]:
  "er_trade_id sample_report = 5" "tl_trade_id sample_lite = 5"
  "er_last_filled_quantity sample_report = Fin 1" "tl_last_filled_quantity sample_lite = Fin 1"
  "er_last_filled_price sample_report = Fin 100" "tl_last_filled_price sample_lite = Fin 100"
  "er_execution_type sample_report = JExecutionType_TRADE"
  by (simp_all add: sample_report_def sample_lite_def)

lemma sample_order: "\<exists>ord. ge_find_order sample_env 1 7 = Some ord"
  by (simp add: sample_env_def)

lemmas fill_defs = fills_since_def usc_on_order_trade_update_def usp_on_order_trade_update_def
  us_on_trade_lite_def report_trade_def report_fill_def lite_trade_def Let_def

text \<open>
  C17: The exchange reports a fill twice, in full and as a light message. The classic user stream
  publishes it exactly once, whichever of the two the settings choose and in whichever order the messages
  arrive, with one exception: when the settings choose the light messages and the dispatcher does not know the
  order by its client order id, as for an order that was not sent through the gateway, the fill is not published at all.
\<close>

theorem classic_fill_published_once:
  assumes "er_trade_id m = tl_trade_id l" "er_last_filled_quantity m = tl_last_filled_quantity l"
    "er_last_filled_price m = tl_last_filled_price l" "er_execution_type m = JExecutionType_TRADE"
  shows "let published = (if st_ws_trade_lite (settings_of w) \<and> ue_lookup_order E (tl_client_order_id l) = None
        then [] else [(show_int (tl_trade_id l), tl_last_filled_quantity l, tl_last_filled_price l)])
    in fills_since w (us_on_trade_lite E l (usc_on_order_trade_update E m w)) = published
      \<and> fills_since w (usc_on_order_trade_update E m (us_on_trade_lite E l w)) = published"
  using assms by (auto simp: fill_defs split: option.splits)

theorem classic_fill_published_once_witness:
  "fills_since (sample_user US_Classic)
     (us_on_trade_lite sample_user_env sample_lite
       (usc_on_order_trade_update sample_user_env sample_report (sample_user US_Classic)))
   = [(show_int 5, Fin 1, Fin 100)]
   \<and> fills_since (upd_shared (\<lambda>s. s\<lparr>sh_settings := sample_settings\<lparr>st_ws_trade_lite := True\<rparr>\<rparr>)
       (sample_user US_Classic))
     (us_on_trade_lite (sample_user_env\<lparr>ue_lookup_order := \<lambda>_. None\<rparr>) sample_lite (usc_on_order_trade_update (sample_user_env\<lparr>ue_lookup_order := \<lambda>_. None\<rparr>) sample_report (upd_shared (\<lambda>s. s\<lparr>sh_settings := sample_settings\<lparr>st_ws_trade_lite := True\<rparr>\<rparr>)
       (sample_user US_Classic)))) = []"
proof -
  let ?w = "upd_shared (\<lambda>s. s\<lparr>sh_settings := sample_settings\<lparr>st_ws_trade_lite := True\<rparr>\<rparr>)
    (sample_user US_Classic)"
  obtain ord where "ge_find_order sample_env 1 7 = Some ord" using sample_order by blast
  moreover have "st_ws_trade_lite (settings_of ?w)" by (simp add: upd_shared_def)
  ultimately show ?thesis
    using classic_fill_published_once [of sample_report sample_lite "sample_user US_Classic" sample_user_env]
      classic_fill_published_once [of sample_report sample_lite ?w "sample_user_env\<lparr>ue_lookup_order := \<lambda>_. None\<rparr>"]
    by (simp add: Let_def)
qed

text \<open>
  C18: With the light messages enabled, the portfolio user stream publishes such a fill twice: the
  full report does not look at the setting.
\<close>

theorem portfolio_fill_published_twice:
  assumes "er_trade_id m = tl_trade_id l" "er_last_filled_quantity m = tl_last_filled_quantity l"
    "er_last_filled_price m = tl_last_filled_price l" "ue_lookup_order E (tl_client_order_id l) = Some ord"
    "er_execution_type m = JExecutionType_TRADE"
  shows "fills_since w (us_on_trade_lite E l (usp_on_order_trade_update E m w))
    = replicate (if st_ws_trade_lite (settings_of w) then 2 else 1)
        (show_int (tl_trade_id l), tl_last_filled_quantity l, tl_last_filled_price l)"
  using assms by (simp add: fill_defs numeral_2_eq_2)

theorem portfolio_fill_published_twice_witness:
  "fills_since (upd_shared (\<lambda>s. s\<lparr>sh_settings := sample_settings\<lparr>st_ws_trade_lite := True\<rparr>\<rparr>)
       (sample_user US_Portfolio))
     (us_on_trade_lite sample_user_env sample_lite
       (usp_on_order_trade_update sample_user_env sample_report
         (upd_shared (\<lambda>s. s\<lparr>sh_settings := sample_settings\<lparr>st_ws_trade_lite := True\<rparr>\<rparr>)
           (sample_user US_Portfolio))))
   = [(show_int 5, Fin 1, Fin 100), (show_int 5, Fin 1, Fin 100)]"
proof -
  let ?w = "upd_shared (\<lambda>s. s\<lparr>sh_settings := sample_settings\<lparr>st_ws_trade_lite := True\<rparr>\<rparr>) (sample_user US_Portfolio)"
  obtain ord where "ge_find_order sample_env 1 7 = Some ord" using sample_order by blast
  moreover have "st_ws_trade_lite (settings_of ?w)" by (simp add: upd_shared_def)
  ultimately show ?thesis
    using portfolio_fill_published_twice [of sample_report sample_lite sample_user_env ord ?w]
    by (simp add: numeral_2_eq_2)
qed

section \<open>Stale orders\<close>

lemma card_insert_outside:
  assumes "finite A"
  shows "card (insert x A - K) = (if x \<in> K then card (A - K) else Suc (card (A - insert x K)))"
proof -
  have "insert x A - K = insert x (A - insert x K)" if "x \<notin> K" using that by auto
  then show ?thesis using assms by (simp add: insert_Diff_if)
qed

lemma add_stale_step:
  "us_add_stale ord (n, details) =
     (if (oo_user_id ord, oo_order_id ord) \<in> set details then (n, details)
      else (Suc n, details @ [(oo_user_id ord, oo_order_id ord)]))"
  by (simp add: us_add_stale_def)

lemma fold_add_stale:
  fixes details :: "(u8 \<times> u64) list"
  defines "k \<equiv> \<lambda>ord. (oo_user_id ord, oo_order_id ord)"
  shows "set (snd (fold us_add_stale orders (n, details))) = set details \<union> k ` set orders"
    "distinct (snd (fold us_add_stale orders (n, details))) = distinct details"
    "fst (fold us_add_stale orders (n, details)) = n + card (k ` set orders - set details)"
proof (induction orders arbitrary: n details)
  case (Cons x orders)
  note [simp] = add_stale_step Cons.IH
  { case 1 show ?case by (auto simp: k_def)
  next case 2 show ?case by (simp add: k_def)
  next case 3 show ?case
      using card_insert_outside [of "k ` set orders" "k x" "set details"]
      by (simp add: k_def) }
qed simp_all

text \<open>
  A search for stale orders adds those of the account to the details, each once and without
  losing any, and reports success exactly when there was one that had not been there.
\<close>

theorem stale_orders_found:
  "set (gw_stale_orders (snd (us_find_stale_orders E w)))
     = set (gw_stale_orders w) \<union> (\<lambda>ord. (oo_user_id ord, oo_order_id ord)) ` set (ue_stale_orders E (name_of w))
   \<and> distinct (gw_stale_orders (snd (us_find_stale_orders E w))) = distinct (gw_stale_orders w)
   \<and> fst (us_find_stale_orders E w) =
     (\<not> (\<lambda>ord. (oo_user_id ord, oo_order_id ord)) ` set (ue_stale_orders E (name_of w)) \<subseteq> set (gw_stale_orders w))"
proof -
  let ?k = "\<lambda>ord. (oo_user_id ord, oo_order_id ord)"
  have "fst (us_find_stale_orders E w) = (fst (fold us_add_stale (ue_stale_orders E (name_of w))
      (0, gw_stale_orders w)) \<noteq> 0)"
    by (simp add: us_find_stale_orders_def split: prod.splits)
  then have "fst (us_find_stale_orders E w) =
      (card (?k ` set (ue_stale_orders E (name_of w)) - set (gw_stale_orders w)) \<noteq> 0)"
    by (simp only: fold_add_stale(3) add_0)
  then show ?thesis
    by (simp add: us_find_stale_orders_effect fold_add_stale)
qed

end
