(* ===== verification/Web_Socket.thy ===== *)
theory Web_Socket
  imports Download_Library Stream_Parsers Order_Entry_Classic
begin

text \<open>
  \<open>gateway/web_socket.cpp\<close>: the WebSocket API connection of an account. It logs on, obtains the
  listen key of the user stream and keeps it alive, downloads balances and positions on
  request, and places, modifies and cancels orders. Every request carries an id that encodes
  what is needed to answer it (\<open>Wsapi_Request\<close>); the parser (\<open>Stream_Parsers\<close>) leads an answer to
  the handler of its request.
\<close>

section \<open>Messages\<close>

text \<open>
  The answers \<open>wsapi_*.json\<close>: the HTTP status, the result, the error and the rate limits
  (\<open>wsapi_rate_limits_item.json\<close>). The class without a result is \<open>wsapi_error.json\<close>.
\<close>

record ws_rate_limit =
  wl_type :: j_rate_limit_type
  wl_interval :: j_interval
  wl_interval_num :: u32
  wl_limit :: u32
  wl_count :: u32

record 'r ws_answer =
  wa_status :: int
  wa_result :: 'r
  wa_error_code :: int
  wa_error_msg :: string
  wa_rate_limits :: "ws_rate_limit list"

section \<open>State and environment\<close>

text \<open>\<open>ws_is_ready\<close> is the member \<open>ready_\<close>, which nothing reads.\<close>

record 'd web_socket = account_stream +
  ws_request_id :: u32
  ws_listen_key :: string
  ws_listen_key_refresh :: nanoseconds
  ws_open_orders_symbols :: "string list"
  ws_is_ready :: bool
  ws_download_of :: 'd

type_synonym ('d, 'q) ws = "('d web_socket, 'q) gw"

definition ws_create :: "u16 \<Rightarrow> account \<Rightarrow> 'd \<Rightarrow> 'd web_socket" where
  "ws_create stream_id acc d = \<lparr> sm_stream_id = stream_id, sm_account = acc,
     sm_connection_status = ConnectionStatus_UNDEFINED,
     ws_request_id = 1000000 * ucast stream_id, ws_listen_key = [], ws_listen_key_refresh = 0,
     ws_open_orders_symbols = [], ws_is_ready = False, ws_download_of = d \<rparr>"

text \<open>
  The library: the JSON parser and the hash of its keys, base64, the numbers of the
  enumerators of \<open>WSAPIType\<close> and \<open>OrderStatus\<close>, and the generated message classes.
\<close>

record ws_env = env +
  we_parser :: parser_lib
  we_fnv :: "string \<Rightarrow> u64"
  we_b64e :: "u8 list \<Rightarrow> string"
  we_b64d :: "string \<Rightarrow> u8 list"
  we_code :: "wsapi_type \<Rightarrow> u8"
  we_uncode :: "u8 \<Rightarrow> wsapi_type"
  we_status_number :: "j_order_status \<Rightarrow> int"
  we_session_logon :: "string \<Rightarrow> exn + unit ws_answer"
  we_listen_key :: "string \<Rightarrow> exn + string ws_answer"
  we_account_balance :: "string \<Rightarrow> exn + balance_item list ws_answer"
  we_account_status :: "string \<Rightarrow> exn + account_status_msg ws_answer"
  we_account_position :: "string \<Rightarrow> exn + unit ws_answer"
  we_open_orders :: "string \<Rightarrow> exn + unit"
  we_trades :: "string \<Rightarrow> exn + unit"
  we_cancel_all :: "string \<Rightarrow> exn + order_ack_msg list ws_answer"
  we_place :: "string \<Rightarrow> exn + order_msg ws_answer"
  we_modify :: "string \<Rightarrow> exn + order_msg ws_answer"
  we_cancel :: "string \<Rightarrow> exn + order_msg ws_answer"
  we_general_error :: "string \<Rightarrow> exn + unit"

type_synonym 'd ws_lib = "(ws_state, 'd) download_lib"

section \<open>Stream\<close>

definition ws_force_listen_key_refresh :: "trace_info \<Rightarrow> ('d, 'q) ws \<Rightarrow> ('d, 'q) ws" where
  "ws_force_listen_key_refresh ti w =
     (if ws_listen_key_refresh (gw_self w) \<noteq> 0 then
        upd_self (\<lambda>s. s\<lparr>ws_listen_key_refresh :=
          ti_create_time ti + default_listen_key_refresh_delay\<rparr>) w
      else w)"

definition ws_start :: "('d, 'q) ws \<Rightarrow> ('d, 'q) ws" where
  "ws_start w = emit Conn_start w"

definition ws_stop :: "('d, 'q) ws \<Rightarrow> ('d, 'q) ws" where
  "ws_stop w = emit Conn_stop w"

definition ws_set_connection_status ::
  "connection_status \<Rightarrow> string \<Rightarrow> ('d, 'q) ws \<Rightarrow> ('d, 'q) ws" where
  "ws_set_connection_status status reason w =
     (let w = upd_self (\<lambda>s. s\<lparr>sm_connection_status := status\<rparr>) w in
      emit (Pub_stream_status \<lparr> ss_stream_id = stream_of w, ss_account = name_of w,
              ss_connection_status = status, ss_reason = reason \<rparr>) w)"

definition ws_latency :: "nanoseconds \<Rightarrow> ('d, 'q) ws \<Rightarrow> ('d, 'q) ws" where
  "ws_latency sample w = emit (Pub_external_latency (stream_of w) (name_of w) sample) w"

definition ws_binary :: "('d, 'q) ws \<Rightarrow> (exn, ('d, 'q) ws) res" where
  "ws_binary w = Fatal ''Unexpected'' w"

section \<open>Requests\<close>

text \<open>
  Every request takes the next sequence number (\<open>++request_id_\<close>, 32 bits), encodes it together
  with what the answer needs, and sends the message with that id.
\<close>

definition ws_request ::
  "ws_env \<Rightarrow> wsapi_type \<Rightarrow> u8 \<Rightarrow> u64 \<Rightarrow> u32 \<Rightarrow> (string \<Rightarrow> string) \<Rightarrow> ('d, 'q) ws \<Rightarrow> ('d, 'q) ws" where
  "ws_request E t user_id order_id version message w =
     (let w = upd_self (\<lambda>s. s\<lparr>ws_request_id := ws_request_id s + 1\<rparr>) w;
          request = \<lparr> wr_sequence = ws_request_id (gw_self w), wr_type = t, wr_user_id = user_id,
            wr_order_id = order_id, wr_version = version, wr_order_id_2 = 0 \<rparr>
      in emit (Ws_send (message (wsapi_request_encode (we_b64e E) (we_code E) request))) w)"

definition ws_session_logon :: "ws_env \<Rightarrow> trace_info \<Rightarrow> ('d, 'q) ws \<Rightarrow> ('d, 'q) ws" where
  "ws_session_logon E ti w =
     (let now_utc = to_ms (ti_create_time_utc ti);
          recv_window = to_ms (st_rest_order_recv_window (settings_of w));
          crypto = ac_crypto (sm_account (gw_self w));
          signature = session_logon_signature (ge_crypto E) crypto now_utc recv_window
      in ws_set_connection_status ConnectionStatus_LOGIN_SENT []
           (ws_request E WSAPIType_SESSION_LOGON 0 0 0
             (session_logon_json (cr_key crypto) now_utc recv_window signature) w))"

definition ws_user_data_stream_start :: "ws_env \<Rightarrow> ('d, 'q) ws \<Rightarrow> ('d, 'q) ws" where
  "ws_user_data_stream_start E w =
     ws_request E WSAPIType_USER_DATA_STREAM_START 0 0 0
       (user_data_stream_start_json (cr_key (ac_crypto (sm_account (gw_self w))))) w"

definition ws_user_data_stream_ping :: "ws_env \<Rightarrow> nanoseconds \<Rightarrow> ('d, 'q) ws \<Rightarrow> ('d, 'q) ws" where
  "ws_user_data_stream_ping E now w =
     (if \<not> stream_ready w then w
      else if ws_listen_key (gw_self w) = [] then w
      else if ws_listen_key_refresh (gw_self w) = 0 \<or> now < ws_listen_key_refresh (gw_self w) then w
      else
        let w = upd_self (\<lambda>s. s\<lparr>ws_listen_key_refresh :=
                  now + st_rest_listen_key_refresh (settings_of w)\<rparr>) w
        in ws_request E WSAPIType_USER_DATA_STREAM_PING 0 0 0
             (user_data_stream_ping_json (cr_key (ac_crypto (sm_account (gw_self w))))) w)"

definition ws_account_balance :: "ws_env \<Rightarrow> trace_info \<Rightarrow> ('d, 'q) ws \<Rightarrow> ('d, 'q) ws" where
  "ws_account_balance E ti =
     ws_request E WSAPIType_ACCOUNT_BALANCE 0 0 0
       (account_balance_json (to_ms (ti_create_time_utc ti)))"

definition ws_account_status :: "ws_env \<Rightarrow> trace_info \<Rightarrow> ('d, 'q) ws \<Rightarrow> ('d, 'q) ws" where
  "ws_account_status E ti =
     ws_request E WSAPIType_ACCOUNT_STATUS 0 0 0
       (account_status_json (to_ms (ti_create_time_utc ti)))"

definition ws_account_position :: "ws_env \<Rightarrow> trace_info \<Rightarrow> ('d, 'q) ws \<Rightarrow> ('d, 'q) ws" where
  "ws_account_position E ti =
     ws_request E WSAPIType_ACCOUNT_POSITION 0 0 0
       (account_position_json (to_ms (ti_create_time_utc ti)))"

definition ws_order_status_of :: "ws_env \<Rightarrow> trace_info \<Rightarrow> string \<Rightarrow> ('d, 'q) ws \<Rightarrow> ('d, 'q) ws" where
  "ws_order_status_of E ti symbol =
     ws_request E WSAPIType_ORDERS_STATUS 0 0 0
       (order_status_json symbol (to_ms (ti_create_time_utc ti)))"

definition ws_order_status :: "ws_env \<Rightarrow> trace_info \<Rightarrow> ('d, 'q) ws \<Rightarrow> bool \<times> ('d, 'q) ws" where
  "ws_order_status E ti w =
     (let symbols = st_download_symbols (settings_of w) in
      (symbols \<noteq> [], fold (ws_order_status_of E ti) symbols w))"

section \<open>Download\<close>

definition ws_download :: "ws_env \<Rightarrow> trace_info \<Rightarrow> ws_state \<Rightarrow> ('d, 'q) ws \<Rightarrow> int \<times> ('d, 'q) ws" where
  "ws_download E ti state w =
     (case state of
        WS_UNDEFINED \<Rightarrow> (0, w)
      | WS_SESSION_LOGON \<Rightarrow>
          (1, ws_session_logon E ti
                (ws_set_connection_status ConnectionStatus_DOWNLOADING ''session-logon'' w))
      | WS_USER_DATA_STREAM_START \<Rightarrow>
          (1, ws_user_data_stream_start E
                (ws_set_connection_status ConnectionStatus_DOWNLOADING ''user-data-stream-start'' w))
      | WS_ACCOUNT_POSITION \<Rightarrow>
          (0, ws_account_position E ti
                (ws_set_connection_status ConnectionStatus_DOWNLOADING ''account-position'' w))
      | WS_DONE \<Rightarrow> (0, ws_set_connection_status ConnectionStatus_READY [] w))"

definition ws_upd_download :: "('d \<Rightarrow> 'd) \<Rightarrow> ('d, 'q) ws \<Rightarrow> ('d, 'q) ws" where
  "ws_upd_download f = upd_self (\<lambda>s. s\<lparr>ws_download_of := f (ws_download_of s)\<rparr>)"

text \<open>A command for \<open>download_\<close>. There are five states, so five calls are enough.\<close>

definition ws_send ::
  "'d ws_lib \<Rightarrow> ws_env \<Rightarrow> trace_info \<Rightarrow> ws_state download_cmd \<Rightarrow> ('d, 'q) ws \<Rightarrow> ('d, 'q) ws" where
  "ws_send L E ti = dl_send 5 L (\<lambda>w. ws_download_of (gw_self w)) ws_upd_download (ws_download E ti)"

definition ws_disconnected :: "'d ws_lib \<Rightarrow> ws_env \<Rightarrow> trace_info \<Rightarrow> ('d, 'q) ws \<Rightarrow> ('d, 'q) ws" where
  "ws_disconnected L E ti w =
     ws_send L E ti Download_reset
       (ws_set_connection_status ConnectionStatus_DISCONNECTED []
         (upd_self (\<lambda>s. s\<lparr>ws_is_ready := False\<rparr>) w))"

definition ws_ready :: "'d ws_lib \<Rightarrow> ws_env \<Rightarrow> trace_info \<Rightarrow> ('d, 'q) ws \<Rightarrow> ('d, 'q) ws" where
  "ws_ready L E ti w = ws_send L E ti Download_begin w"

definition ws_check_request_queue :: "ws_env \<Rightarrow> trace_info \<Rightarrow> ('d, 'q) ws \<Rightarrow> ('d, 'q) ws" where
  "ws_check_request_queue E ti w =
     (let w = (if ge_pending E Slot_balances then ws_account_balance E ti w else w)
      in if ge_pending E Slot_positions then ws_account_status E ti w else w)"

definition ws_timer :: "ws_env \<Rightarrow> trace_info \<Rightarrow> nanoseconds \<Rightarrow> ('d, 'q) ws \<Rightarrow> ('d, 'q) ws" where
  "ws_timer E ti now w =
     (if ge_refresh E then
        let w = ws_user_data_stream_ping E now w in
        if stream_ready w then ws_check_request_queue E ti w else w
      else w)"

section \<open>Rate limits\<close>

fun ws_rate_limit_type :: "j_rate_limit_type \<Rightarrow> rate_limit_type option" where
  "ws_rate_limit_type JRateLimitType_UNDEFINED_INTERNAL = None"
| "ws_rate_limit_type JRateLimitType_UNKNOWN_INTERNAL = None"
| "ws_rate_limit_type JRateLimitType_ORDERS = Some RateLimit_CREATE_ORDER"
| "ws_rate_limit_type JRateLimitType_REQUEST_WEIGHT = Some RateLimit_REQUEST_WEIGHT"
| "ws_rate_limit_type JRateLimitType_RAW_REQUESTS = Some RateLimit_REQUEST"

fun ws_period :: "j_interval \<Rightarrow> int \<Rightarrow> nanoseconds" where
  "ws_period JInterval_UNDEFINED_INTERNAL n = 0"
| "ws_period JInterval_UNKNOWN_INTERNAL n = 0"
| "ws_period JInterval_SECOND n = seconds n"
| "ws_period JInterval_MINUTE n = minutes n"
| "ws_period JInterval_DAY n = minutes (n * 1440)"

definition ws_limit :: "ws_rate_limit \<Rightarrow> rate_limit option" where
  "ws_limit item =
     (case ws_rate_limit_type (wl_type item) of
        None \<Rightarrow> None
      | Some t \<Rightarrow> Some \<lparr> rl_type = t,
          rl_period = ws_period (wl_interval item) (uint (wl_interval_num item)),
          rl_limit = wl_limit item, rl_value = wl_count item \<rparr>)"

text \<open>The list is cleared, filled, published if there is anything in it, and cleared again.\<close>

definition ws_update_rate_limits :: "ws_rate_limit list \<Rightarrow> ('d, 'q) ws \<Rightarrow> ('d, 'q) ws" where
  "ws_update_rate_limits items w =
     (let w = upd_shared (\<lambda>s. s\<lparr>sh_rate_limits := List.map_filter ws_limit items\<rparr>) w;
          w = (if sh_rate_limits (gw_shared w) \<noteq> []
               then emit (Pub_rate_limits \<lparr> ru_stream_id = stream_of w, ru_account = name_of w,
                      ru_origin = Origin_EXCHANGE, ru_rate_limits = sh_rate_limits (gw_shared w) \<rparr>) w
               else w)
      in upd_shared (\<lambda>s. s\<lparr>sh_rate_limits := []\<rparr>) w)"

section \<open>Session and listen key\<close>

text \<open>An error while the download is going on makes it try the state again.\<close>

definition ws_retry ::
  "'d ws_lib \<Rightarrow> ws_env \<Rightarrow> trace_info \<Rightarrow> ws_state \<Rightarrow> ('d, 'q) ws \<Rightarrow> ('d, 'q) ws" where
  "ws_retry L E ti state w =
     (if dl_downloading L (ws_download_of (gw_self w))
      then ws_send L E ti (Download_retry state) w else w)"

definition ws_on_session_logon ::
  "'d ws_lib \<Rightarrow> ws_env \<Rightarrow> trace_info \<Rightarrow> 'r ws_answer \<Rightarrow> ('d, 'q) ws \<Rightarrow> ('d, 'q) ws" where
  "ws_on_session_logon L E ti m w =
     ws_update_rate_limits (wa_rate_limits m)
       (if wa_status m = 200 then ws_send L E ti (Download_check_relaxed WS_SESSION_LOGON) w
        else ws_retry L E ti WS_SESSION_LOGON w)"

definition ws_on_listen_key ::
  "'d ws_lib \<Rightarrow> ws_env \<Rightarrow> trace_info \<Rightarrow> string ws_answer \<Rightarrow> ('d, 'q) ws \<Rightarrow> ('d, 'q) ws" where
  "ws_on_listen_key L E ti m w =
     ws_update_rate_limits (wa_rate_limits m)
       (if wa_status m = 200 then
          let w = upd_self (\<lambda>s. s\<lparr>ws_listen_key := wa_result m\<rparr>) w;
              w = emit (Ev_listen_key_update (name_of w) (ws_listen_key (gw_self w))) w;
              w = ws_send L E ti (Download_check_relaxed WS_USER_DATA_STREAM_START) w
          in upd_self (\<lambda>s. s\<lparr>ws_listen_key_refresh :=
               ti_create_time ti + st_rest_listen_key_refresh (settings_of w)\<rparr>) w
        else ws_retry L E ti WS_USER_DATA_STREAM_START w)"

section \<open>Balances and positions\<close>

definition ws_funds :: "('d, 'q) ws \<Rightarrow> balance_item \<Rightarrow> funds_update" where
  "ws_funds w item =
     \<lparr> fu_stream_id = stream_of w, fu_account = name_of w, fu_currency = bi_asset item,
       fu_margin_mode = MarginMode_UNDEFINED, fu_balance = bi_available_balance item,
       fu_hold = NaN,
       fu_unrealized_pnl =
         get_unrealized_pnl (bi_um_unrealized_pnl item) (bi_cm_unrealized_pnl item),
       fu_update_type = UpdateType_SNAPSHOT, fu_exchange_time_utc = bi_update_time item,
       fu_sending_time_utc = bi_update_time item \<rparr>"

definition ws_on_account_balance :: "balance_item list ws_answer \<Rightarrow> ('d, 'q) ws \<Rightarrow> ('d, 'q) ws" where
  "ws_on_account_balance m w =
     emit (Slot_commit Slot_balances) (ws_update_rate_limits (wa_rate_limits m)
       (if wa_status m = 200
        then fold (\<lambda>item w. emit (Pub_funds (ws_funds w item)) w) (wa_result m) w else w))"

definition ws_on_account_status ::
  "ws_env \<Rightarrow> account_status_msg ws_answer \<Rightarrow> ('d, 'q) ws \<Rightarrow> ('d, 'q) ws" where
  "ws_on_account_status E m w =
     emit (Slot_commit Slot_positions) (ws_update_rate_limits (wa_rate_limits m)
       (if wa_status m = 200
        then fold (on_position_item E (as_update_time (wa_result m)))
               (as_positions (wa_result m)) w
        else w))"

definition ws_on_account_position :: "'r ws_answer \<Rightarrow> ('d, 'q) ws \<Rightarrow> ('d, 'q) ws" where
  "ws_on_account_position m w = ws_update_rate_limits (wa_rate_limits m) w"

section \<open>Order requests\<close>

text \<open>\<open>receive_time_utc\<close> and \<open>source\<close> are those of \<open>message_info\<close>.\<close>

definition ws_order_place ::
  "ws_env \<Rightarrow> nanoseconds \<Rightarrow> u8 \<Rightarrow> create_order \<Rightarrow> ref_data \<Rightarrow> string \<Rightarrow> ('d, 'q) ws
    \<Rightarrow> (exn, ('d, 'q) ws) res" where
  "ws_order_place E receive_time_utc source c rd request_id w =
     (if \<not> stream_ready w then Throw (Oms_NotReady ''not ready'') w
      else
        let w = upd_self (\<lambda>s. s\<lparr>ws_open_orders_symbols :=
                  set_emplace (co_symbol c) (ws_open_orders_symbols s)\<rparr>) w;
            recv_window = to_ms (st_rest_order_recv_window (settings_of w));
            now_utc = to_ms receive_time_utc
        in Ok (ws_request E WSAPIType_ORDER_PLACE source (co_order_id c) 1
                 (\<lambda>id. order_place_json (ge_encoder E) c rd request_id recv_window now_utc id
                    (api_self_trade_prevention (api_of w))) w))"

definition ws_order_modify ::
  "ws_env \<Rightarrow> nanoseconds \<Rightarrow> u8 \<Rightarrow> modify_order \<Rightarrow> oms_order \<Rightarrow> ref_data \<Rightarrow> ('d, 'q) ws
    \<Rightarrow> (exn, ('d, 'q) ws) res" where
  "ws_order_modify E receive_time_utc source m ord rd w =
     (if \<not> stream_ready w then Throw (Oms_NotReady ''not ready'') w
      else
        let recv_window = to_ms (st_rest_order_recv_window (settings_of w));
            now_utc = to_ms receive_time_utc
        in Ok (ws_request E WSAPIType_ORDER_MODIFY source (mo_order_id m) (mo_version m)
                 (order_modify_json (ge_encoder E) m ord rd recv_window now_utc) w))"

definition ws_order_cancel ::
  "ws_env \<Rightarrow> nanoseconds \<Rightarrow> u8 \<Rightarrow> cancel_order \<Rightarrow> oms_order \<Rightarrow> ('d, 'q) ws
    \<Rightarrow> (exn, ('d, 'q) ws) res" where
  "ws_order_cancel E receive_time_utc source c ord w =
     (if \<not> stream_ready w then Throw (Oms_NotReady ''not ready'') w
      else
        let recv_window = to_ms (st_rest_order_recv_window (settings_of w));
            now_utc = to_ms receive_time_utc
        in Ok (ws_request E WSAPIType_ORDER_CANCEL source (ca_order_id c) (ca_version c)
                 (\<lambda>id. order_cancel_json ord recv_window now_utc id
                    (st_test_force_client_order_id (settings_of w))) w))"

text \<open>
  The handler of \<open>CancelAllOrders\<close> ends the process; the member function it would call is not
  reached from anywhere.
\<close>

definition ws_cancel_all_orders :: "('d, 'q) ws \<Rightarrow> (exn, ('d, 'q) ws) res" where
  "ws_cancel_all_orders w = Fatal ''Unexpected'' w"

definition ws_cancel_all_symbol ::
  "ws_env \<Rightarrow> nanoseconds \<Rightarrow> u8 \<Rightarrow> cancel_all_orders \<Rightarrow> string \<Rightarrow> string \<Rightarrow> ('d, 'q) ws \<Rightarrow> ('d, 'q) ws" where
  "ws_cancel_all_symbol E receive_time_utc source c request_id symbol w =
     (if cx_symbol c \<noteq> [] \<and> symbol \<noteq> cx_symbol c then w
      else
        let w = ws_request E WSAPIType_OPEN_ORDERS_CANCEL_ALL source 0 0
              (\<lambda>id. ''{'' @ jstr ''id'' id @ '','' @ jstr ''method'' ''openOrders.cancelAll'' @ '','' @
                 dq ''params'' @ '':{'' @ jstr ''symbol'' symbol @ '','' @
                 jstr ''timestamp'' (show_int (to_ms receive_time_utc)) @ ''}}'') w
        in emit (Pub_cancel_all_ack
             \<lparr> ck_stream_id = stream_of w, ck_account = name_of w, ck_exchange = cx_exchange c,
               ck_symbol = symbol, ck_side = cx_side c, ck_origin = Origin_GATEWAY,
               ck_request_status = RequestStatus_FORWARDED, ck_error = Error_UNDEFINED,
               ck_text = [], ck_request_id = request_id \<rparr>) w)"

definition ws_open_orders_cancel_all ::
  "ws_env \<Rightarrow> nanoseconds \<Rightarrow> u8 \<Rightarrow> cancel_all_orders \<Rightarrow> string \<Rightarrow> ('d, 'q) ws
    \<Rightarrow> (exn, ('d, 'q) ws) res" where
  "ws_open_orders_cancel_all E receive_time_utc source c request_id w =
     (if \<not> stream_ready w then Throw (Oms_NotReady ''not ready'') w
      else Ok (fold (ws_cancel_all_symbol E receive_time_utc source c request_id)
                 (ws_open_orders_symbols (gw_self w)) w))"

section \<open>Order answers\<close>

definition ws_ack_error ::
  "request_type \<Rightarrow> wsapi_request \<Rightarrow> request_status \<Rightarrow> error \<Rightarrow> string \<Rightarrow> ('d, 'q) ws \<Rightarrow> ('d, 'q) ws" where
  "ws_ack_error rt r status error text w =
     emit (Pub_response (error_response rt (wr_version r) Origin_EXCHANGE status error text)
             (stream_of w) (wr_user_id r) (wr_order_id r)) w"

definition ws_response ::
  "request_type \<Rightarrow> request_status \<Rightarrow> wsapi_request \<Rightarrow> order_msg \<Rightarrow> response" where
  "ws_response rt status r m =
     \<lparr> re_request_type = rt, re_origin = Origin_EXCHANGE, re_request_status = status,
       re_error = Error_UNDEFINED, re_text = [], re_version = wr_version r,
       re_external_order_id = create_external_order_id (om_symbol m) (om_order_id m),
       re_quantity = NaN, re_price = NaN \<rparr>"

text \<open>The order update of the answers; the answer to a new order knows more than the others.\<close>

definition ws_order_update ::
  "nanoseconds \<Rightarrow> order_status \<Rightarrow> double \<Rightarrow> double \<Rightarrow> order_msg \<Rightarrow> ('d, 'q) ws \<Rightarrow> order_update" where
  "ws_order_update create_time status remaining last_quantity m w =
     \<lparr> ou_account = name_of w, ou_exchange = st_exchange (settings_of w),
       ou_symbol = om_symbol m, ou_side = the (map_j_side (om_side m)),
       ou_margin_mode = MarginMode_UNDEFINED,
       ou_order_type = the (map_j_order_type (om_type m)),
       ou_time_in_force = the (map_j_time_in_force (om_time_in_force m)),
       ou_create_time_utc = create_time, ou_update_time_utc = 0,
       ou_external_order_id = create_external_order_id (om_symbol m) (om_order_id m),
       ou_client_order_id = [], ou_order_status = status, ou_error = Error_UNDEFINED,
       ou_text = [], ou_quantity = om_orig_qty m, ou_price = om_price m, ou_stop_price = NaN,
       ou_remaining_quantity = remaining, ou_traded_quantity = om_executed_qty m,
       ou_average_traded_price = NaN, ou_last_traded_quantity = last_quantity,
       ou_last_traded_price = NaN, ou_last_liquidity = Liquidity_UNDEFINED,
       ou_update_type = UpdateType_INCREMENTAL, ou_sending_time_utc = 0 \<rparr>"

definition ws_place_success ::
  "trace_info \<Rightarrow> order_msg \<Rightarrow> wsapi_request \<Rightarrow> ('d, 'q) ws \<Rightarrow> ('d, 'q) ws" where
  "ws_place_success ti m r w =
     (let status = the (map_j_order_status (om_status m));
          status = (if status = OrderStatus_UNDEFINED then OrderStatus_WORKING else status)
      in emit (Pub_response_order (ws_response RequestType_CREATE_ORDER RequestStatus_ACCEPTED r m)
           (ws_order_update (ti_create_time_utc ti) status
             (om_orig_qty m - om_executed_qty m) 0 m w)
           (stream_of w) (wr_user_id r) (wr_order_id r)) w)"

definition ws_on_order_place ::
  "trace_info \<Rightarrow> order_msg ws_answer \<Rightarrow> wsapi_request \<Rightarrow> ('d, 'q) ws \<Rightarrow> ('d, 'q) ws" where
  "ws_on_order_place ti m r w =
     ws_update_rate_limits (wa_rate_limits m)
       (if wa_status m = 200 then ws_place_success ti (wa_result m) r w
        else ws_ack_error RequestType_CREATE_ORDER r RequestStatus_REJECTED
               (guess_error (wa_error_code m)) (wa_error_msg m) w)"

text \<open>The response, with the state of the order when the flag allows it.\<close>

definition ws_publish_ack ::
  "response \<Rightarrow> order_msg \<Rightarrow> wsapi_request \<Rightarrow> ('d, 'q) ws \<Rightarrow> ('d, 'q) ws" where
  "ws_publish_ack response m r w =
     (if \<not> st_ws_api_allow_order_update (settings_of w)
      then emit (Pub_response response (stream_of w) (wr_user_id r) (wr_order_id r)) w
      else emit (Pub_response_order response
             (ws_order_update 0 (the (map_j_order_status (om_status m))) NaN NaN m w)
             (stream_of w) (wr_user_id r) (wr_order_id r)) w)"

definition ws_modify_success :: "order_msg \<Rightarrow> wsapi_request \<Rightarrow> ('d, 'q) ws \<Rightarrow> ('d, 'q) ws" where
  "ws_modify_success m r w =
     (let status = the (map_j_order_status_to_request_status (om_status m)) in
      if status \<noteq> RequestStatus_ACCEPTED
      then ws_ack_error RequestType_MODIFY_ORDER r status Error_TOO_LATE_TO_MODIFY_OR_CANCEL
             ''TOO_LATE_TO_MODIFY_OR_CANCEL'' w
      else if st_disable_fast_order_ack (settings_of w) then w
      else ws_publish_ack (ws_response RequestType_MODIFY_ORDER status r m) m r w)"

text \<open>
  The switch compares the HTTP status with the numbers of the order statuses; only \<open>CANCELED\<close>
  and \<open>EXPIRED\<close> give false.
\<close>

definition ws_modify_working :: "ws_env \<Rightarrow> int \<Rightarrow> bool" where
  "ws_modify_working E status =
     (status \<noteq> we_status_number E JOrderStatus_CANCELED
      \<and> status \<noteq> we_status_number E JOrderStatus_EXPIRED)"

definition ws_on_order_modify ::
  "ws_env \<Rightarrow> order_msg ws_answer \<Rightarrow> wsapi_request \<Rightarrow> ('d, 'q) ws \<Rightarrow> ('d, 'q) ws" where
  "ws_on_order_modify E m r w =
     ws_update_rate_limits (wa_rate_limits m)
       (if \<not> ws_modify_working E (wa_status m)
        then ws_ack_error RequestType_MODIFY_ORDER r RequestStatus_REJECTED
               Error_TOO_LATE_TO_MODIFY_OR_CANCEL (wa_error_msg m) w
        else if wa_status m = 200 then ws_modify_success (wa_result m) r w
        else ws_ack_error RequestType_MODIFY_ORDER r RequestStatus_REJECTED
               (guess_error (wa_error_code m)) (wa_error_msg m) w)"

definition ws_cancel_success :: "order_msg \<Rightarrow> wsapi_request \<Rightarrow> ('d, 'q) ws \<Rightarrow> ('d, 'q) ws" where
  "ws_cancel_success m r w =
     (if om_status m = JOrderStatus_FILLED
      then ws_ack_error RequestType_CANCEL_ORDER r RequestStatus_REJECTED
             Error_TOO_LATE_TO_MODIFY_OR_CANCEL ''TOO_LATE_TO_MODIFY_OR_CANCEL'' w
      else if st_disable_fast_order_ack (settings_of w) then w
      else ws_publish_ack (ws_response RequestType_CANCEL_ORDER RequestStatus_ACCEPTED r m) m r w)"

text \<open>
  The error of a rejected cancel. \<open>-2011\<close> (unknown order) is not trusted when the order is
  known to be younger than a timeout.
\<close>

definition ws_cancel_error :: "ws_env \<Rightarrow> trace_info \<Rightarrow> int \<Rightarrow> wsapi_request \<Rightarrow> ('d, 'q) ws \<Rightarrow> error" where
  "ws_cancel_error E ti code r w =
     (if code = -2011 then
        let error = (case ge_find_order E (wr_user_id r) (wr_order_id r) of
              Some ord \<Rightarrow>
                (if oo_create_time_utc ord \<noteq> 0 \<and> oo_create_time_utc ord < ti_create_time_utc ti
                    \<and> ti_create_time_utc ti - oo_create_time_utc ord
                        < st_test_cancel_bug_timeout (settings_of w)
                 then Error_UNKNOWN_EXTERNAL_ORDER_ID else Error_UNDEFINED)
            | None \<Rightarrow> Error_UNDEFINED)
        in if error \<noteq> Error_UNDEFINED then error else guess_error code
      else guess_error code)"

definition ws_on_order_cancel ::
  "ws_env \<Rightarrow> trace_info \<Rightarrow> order_msg ws_answer \<Rightarrow> wsapi_request \<Rightarrow> ('d, 'q) ws \<Rightarrow> ('d, 'q) ws" where
  "ws_on_order_cancel E ti m r w =
     ws_update_rate_limits (wa_rate_limits m)
       (if wa_status m = 200 then ws_cancel_success (wa_result m) r w
        else ws_ack_error RequestType_CANCEL_ORDER r RequestStatus_REJECTED
               (ws_cancel_error E ti (wa_error_code m) r w) (wa_error_msg m) w)"

text \<open>The answer to a cancel-all. An order without a client order id is skipped.\<close>

definition ws_canceled_order :: "order_ack_msg \<Rightarrow> ('d, 'q) ws \<Rightarrow> ('d, 'q) ws" where
  "ws_canceled_order m w =
     (if om_client_order_id m = [] then w
      else emit (Pub_order ((order_snapshot w m)\<lparr>ou_average_traded_price := 0,
             ou_update_type := UpdateType_INCREMENTAL\<rparr>) (stream_of w)) w)"

definition ws_on_open_orders_cancel_all ::
  "order_ack_msg list ws_answer \<Rightarrow> ('d, 'q) ws \<Rightarrow> ('d, 'q) ws" where
  "ws_on_open_orders_cancel_all m w =
     ws_update_rate_limits (wa_rate_limits m)
       (if wa_status m = 200 then fold ws_canceled_order (wa_result m) w else w)"

section \<open>Messages\<close>

definition ws_handle ::
  "'d ws_lib \<Rightarrow> ws_env \<Rightarrow> trace_info \<Rightarrow> wsapi_event \<Rightarrow> ('d, 'q) ws \<Rightarrow> (exn, ('d, 'q) ws) res" where
  "ws_handle L E ti e =
     (case e of
        WE_session_logon text \<Rightarrow>
          parsed (we_session_logon E text) (\<lambda>m w. Ok (ws_on_session_logon L E ti m w))
      | WE_listen_key text \<Rightarrow>
          parsed (we_listen_key E text) (\<lambda>m w. Ok (ws_on_listen_key L E ti m w))
      | WE_account_balance text \<Rightarrow>
          parsed (we_account_balance E text) (\<lambda>m w. Ok (ws_on_account_balance m w))
      | WE_account_status text \<Rightarrow>
          parsed (we_account_status E text) (\<lambda>m w. Ok (ws_on_account_status E m w))
      | WE_account_position text \<Rightarrow>
          parsed (we_account_position E text) (\<lambda>m w. Ok (ws_on_account_position m w))
      | WE_open_orders text \<Rightarrow> parsed (we_open_orders E text) (\<lambda>_. Fatal ''Unexpected'')
      | WE_trades text \<Rightarrow> parsed (we_trades E text) (\<lambda>_. Fatal ''Unexpected'')
      | WE_open_orders_cancel_all text r \<Rightarrow>
          parsed (we_cancel_all E text) (\<lambda>m w. Ok (ws_on_open_orders_cancel_all m w))
      | WE_order_place text r \<Rightarrow>
          parsed (we_place E text) (\<lambda>m w. Ok (ws_on_order_place ti m r w))
      | WE_order_modify text r \<Rightarrow>
          parsed (we_modify E text) (\<lambda>m w. Ok (ws_on_order_modify E m r w))
      | WE_order_cancel text r \<Rightarrow>
          parsed (we_cancel E text) (\<lambda>m w. Ok (ws_on_order_cancel E ti m r w))
      | WE_error text \<Rightarrow> parsed (we_general_error E text) (\<lambda>_. Fatal ''wsapi_error''))"

text \<open>\<open>parse\<close>: an exception ends the process; a message that nobody handles is logged.\<close>

definition ws_parse ::
  "'d ws_lib \<Rightarrow> ws_env \<Rightarrow> trace_info \<Rightarrow> string \<Rightarrow> ('d, 'q) ws \<Rightarrow> (exn, ('d, 'q) ws) res" where
  "ws_parse L E ti message w =
     (case wsapi_dispatch (we_fnv E) (we_parser E)
             (wsapi_request_decode (we_b64d E) (we_uncode E))
             (sh_allow_unknown_event_types (gw_shared w)) message of
        (calls, outcome) \<Rightarrow>
          (let r = and_then (for_each (ws_handle L E ti) calls w) (\<lambda>w.
                 case outcome of
                   Raises e \<Rightarrow> Throw e w
                 | Ends m \<Rightarrow> Fatal m w
                 | _ \<Rightarrow> Ok w)
           in case r of Throw e w \<Rightarrow> Fatal ''Unhandled'' w | done \<Rightarrow> done))"

end
