(* ===== verification/Web_Socket_Facts.thy ===== *)
theory Web_Socket_Facts
  imports Web_Socket
begin

text \<open>
  The WebSocket connection of \<open>Web_Socket\<close>: ids on the wire, the step relation of its entry
  points, and the numbers the requests of a run get.
\<close>

section \<open>Ids on the wire\<close>

text \<open>
  A message begins with its id. Whoever reads it takes the characters up to the closing
  quote, and these are the id, since base64url has no quote.
\<close>

definition carries :: "string \<Rightarrow> string \<Rightarrow> bool" where
  "carries i text = (\<exists>rest. text = ''{'' @ jstr ''id'' i @ rest)"

definition id_of :: "string \<Rightarrow> string" where
  "id_of text = takeWhile (\<lambda>c. c \<noteq> CHR 0x22) (drop 7 text)"

lemma carries_jsons:
  "carries i (session_logon_json k n v s i)" "carries i (user_data_stream_start_json k i)"
  "carries i (user_data_stream_ping_json k i)" "carries i (account_balance_json n i)"
  "carries i (account_status_json n i)" "carries i (account_position_json n i)"
  "carries i (order_status_json y n i)" "carries i (order_place_json L c rd r v n i stp)"
  "carries i (order_modify_json L m ord rd v n i)" "carries i (order_cancel_json ord v n i force)"
  by (simp_all add: carries_def encoder_json_defs Let_def)

locale wsapi_text = wsapi_wire +
  assumes b64_quote: "length d = 27 \<Longrightarrow> CHR 0x22 \<notin> set (b64e d)"
begin

abbreviation enc :: "wsapi_request \<Rightarrow> string" where
  "enc \<equiv> wsapi_request_encode b64e code"

lemma enc_quote: "CHR 0x22 \<notin> set (enc r)"
  by (simp add: wsapi_request_encode_def b64_quote)

lemma enc_nonempty: "enc r \<noteq> []"
  using b64_length [of "wsapi_request_data code r"] by (auto simp: wsapi_request_encode_def)

lemma id_of_carries: "carries (enc r) text \<Longrightarrow> id_of text = enc r"
  using enc_quote [of r] by (auto simp: carries_def id_of_def jstr_def dq_def takeWhile_tail)

text \<open>An answer with the id of a request leads to the handler of this request.\<close>

lemma answer_reaches:
  assumes "carries (enc r) text" "pl_parse P message = Inr (xs @ Item ''id'' v # ys)"
    and "pl_text P v = Inr (id_of text)" "list_all (not_id fnv) xs" "fnv ''error'' \<noteq> fnv ''id''"
    and "wsapi_route message r = Some (Some ev, True)"
  shows "wsapi_dispatch fnv P (wsapi_request_decode b64d uncode) u message = ([ev], Handled)"
  by (rule wsapi_routes [OF assms(2,4) refl assms(5) assms(3) _ _ assms(6)])
    (simp_all add: id_of_carries [OF assms(1)] enc_nonempty decode_encode)

end

lemma rfc_b64_quote: "CHR 0x22 \<notin> set (rfc_b64e d)"
proof (induction d rule: rfc_b64e.induct)
  case (1 a b c bs)
  have "list_all (\<lambda>n. sextet_char n \<noteq> CHR 0x22) [0..<64]" by code_simp
  then have q: "sextet_char n \<noteq> CHR 0x22" if "n < 64" for n
    using that by (simp add: list_all_iff)
  have "unat a div 4 < 64" "unat b div 16 < 16" "unat c div 64 < 4"
    using u8_bound [of a] u8_bound [of b] u8_bound [of c]
    by (simp_all add: less_mult_imp_div_less)
  moreover have "unat a mod 4 < 4" "unat b mod 16 < 16" by simp_all
  ultimately have "unat a div 4 < 64" "unat a mod 4 * 16 + unat b div 16 < 64"
    "unat b mod 16 * 4 + unat c div 64 < 64" "unat c mod 64 < 64"
    by (linarith, linarith, linarith, simp)
  then show ?case using 1 q [symmetric] by (simp del: One_nat_def)
qed simp_all

interpretation rfc_text: wsapi_text rfc_b64e rfc_b64d schema_code schema_uncode
  by unfold_locales (simp add: rfc_b64_quote)

section \<open>Steps\<close>

text \<open>
  One step: an event of the connection, a message, a timer, an order action (a rejected one
  included), or another component that works on the shared state. The codec is the same all
  the time.
\<close>

definition ws_enc :: "ws_env \<Rightarrow> wsapi_request \<Rightarrow> string" where
  "ws_enc E = wsapi_request_encode (we_b64e E) (we_code E)"

inductive ws_step :: "'d ws_lib \<Rightarrow> (wsapi_request \<Rightarrow> string) \<Rightarrow> ('d, 'q) ws \<Rightarrow> ('d, 'q) ws \<Rightarrow> bool"
  for L enc where
  ws_step_start: "ws_step L enc w (ws_start w)"
| ws_step_stop: "ws_step L enc w (ws_stop w)"
| ws_step_force: "ws_step L enc w (ws_force_listen_key_refresh ti w)"
| ws_step_latency: "ws_step L enc w (ws_latency sample w)"
| ws_step_binary: "ws_step L enc w (res_state (ws_binary w))"
| ws_step_timer: "ws_enc E = enc \<Longrightarrow> ws_step L enc w (ws_timer E ti now w)"
| ws_step_ready: "ws_enc E = enc \<Longrightarrow> ws_step L enc w (ws_ready L E ti w)"
| ws_step_disconnected: "ws_enc E = enc \<Longrightarrow> ws_step L enc w (ws_disconnected L E ti w)"
| ws_step_message: "ws_enc E = enc \<Longrightarrow> ws_step L enc w (res_state (ws_parse L E ti message w))"
| ws_step_place:
    "ws_enc E = enc \<Longrightarrow> ws_step L enc w (res_state (ws_order_place E t source c rd request_id w))"
| ws_step_modify:
    "ws_enc E = enc \<Longrightarrow> ws_step L enc w (res_state (ws_order_modify E t source m ord rd w))"
| ws_step_cancel:
    "ws_enc E = enc \<Longrightarrow> ws_step L enc w (res_state (ws_order_cancel E t source x ord w))"
| ws_step_cancel_all: "ws_step L enc w (res_state (ws_cancel_all_orders w))"
| ws_step_shared: "ws_step L enc w (upd_shared f w)"

inductive ws_run :: "'d ws_lib \<Rightarrow> (wsapi_request \<Rightarrow> string) \<Rightarrow> ('d, 'q) ws \<Rightarrow> ('d, 'q) ws \<Rightarrow> bool"
  for L enc where
  ws_run_refl: "ws_run L enc w w"
| ws_run_step: "ws_run L enc u v \<Longrightarrow> ws_step L enc v w \<Longrightarrow> ws_run L enc u w"

definition ws_fresh :: "u16 \<Rightarrow> account \<Rightarrow> 'd \<Rightarrow> 'q shared \<Rightarrow> (u8 \<times> u64) list \<Rightarrow> ('d, 'q) ws" where
  "ws_fresh stream_id acc d sh details =
     \<lparr> gw_self = ws_create stream_id acc d, gw_shared = sh, gw_stale_orders = details, gw_out = [] \<rparr>"

text \<open>What a request does.\<close>

lemma ws_request_effect:
  "ws_request E t user order version f w =
     emit (Ws_send (f (ws_enc E \<lparr> wr_sequence = ws_request_id (gw_self w) + 1, wr_type = t,
            wr_user_id = user, wr_order_id = order, wr_version = version, wr_order_id_2 = 0 \<rparr>)))
       (upd_self (\<lambda>s. s\<lparr>ws_request_id := ws_request_id s + 1\<rparr>) w)"
  by (simp add: ws_request_def ws_enc_def Let_def)

section \<open>Sequence numbers\<close>

fun ws_sent :: "effect list \<Rightarrow> string list" where
  "ws_sent [] = []"
| "ws_sent (Ws_send text # es) = text # ws_sent es"
| "ws_sent (_ # es) = ws_sent es"

lemma ws_sent_append [simp]: "ws_sent (es @ fs) = ws_sent es @ ws_sent fs"
  by (induction es rule: ws_sent.induct) simp_all

fun successive :: "u32 \<Rightarrow> nat \<Rightarrow> u32 list" where
  "successive k 0 = []"
| "successive k (Suc n) = (k + 1) # successive (k + 1) n"

lemma length_successive [simp]: "length (successive k n) = n"
  by (induction n arbitrary: k) simp_all

lemma successive_add: "successive k (m + n) = successive k m @ successive (k + of_nat m) n"
  by (induction m arbitrary: k) (simp_all add: add.assoc)

lemma nth_successive: "i < n \<Longrightarrow> successive k n ! i = k + of_nat (Suc i)"
proof (induction n arbitrary: k i)
  case (Suc n)
  then show ?case by (cases i) (simp_all add: add.assoc)
qed simp

lemma distinct_successive: "n \<le> 2 ^ 32 \<Longrightarrow> distinct (successive k n)"
proof -
  assume n: "n \<le> 2 ^ 32"
  have "i = j" if "i < n" "j < n" "(of_nat i :: u32) = of_nat j" for i j
  proof -
    have "unat (of_nat i :: u32) = unat (of_nat j :: u32)" using that(3) by simp
    then show ?thesis using that(1,2) n by (simp add: unat_of_nat take_bit_nat_eq_self)
  qed
  then show ?thesis by (auto simp: distinct_conv_nth nth_successive)
qed

text \<open>
  The messages of a step carry requests with successive numbers, and the member \<open>request_id_\<close> goes
  on by one for each of them.
\<close>

definition ws_extends :: "(wsapi_request \<Rightarrow> string) \<Rightarrow> ('d, 'q) ws \<Rightarrow> ('d, 'q) ws \<Rightarrow> bool" where
  "ws_extends enc v w \<longleftrightarrow> (\<exists>rs texts.
     ws_sent (gw_out w) = ws_sent (gw_out v) @ texts \<and> list_all2 (\<lambda>r. carries (enc r)) rs texts
     \<and> map wr_sequence rs = successive (ws_request_id (gw_self v)) (length rs)
     \<and> ws_request_id (gw_self w) = ws_request_id (gw_self v) + of_nat (length rs))"

lemma ws_extends_same:
  "ws_sent (gw_out w) = ws_sent (gw_out v) \<Longrightarrow> ws_request_id (gw_self w) = ws_request_id (gw_self v) \<Longrightarrow>
     ws_extends enc v w"
  by (auto simp: ws_extends_def intro!: exI [of _ "[]"])

lemma ws_extends_refl [simp]: "ws_extends enc w w"
  by (simp add: ws_extends_same)

lemma ws_extends_trans:
  assumes "ws_extends enc u v" "ws_extends enc v w" shows "ws_extends enc u w"
proof -
  obtain rs ts where 1: "ws_sent (gw_out v) = ws_sent (gw_out u) @ ts"
    "list_all2 (\<lambda>r. carries (enc r)) rs ts"
    "map wr_sequence rs = successive (ws_request_id (gw_self u)) (length rs)"
    "ws_request_id (gw_self v) = ws_request_id (gw_self u) + of_nat (length rs)"
    using assms(1) by (auto simp: ws_extends_def)
  obtain rs' ts' where 2: "ws_sent (gw_out w) = ws_sent (gw_out v) @ ts'"
    "list_all2 (\<lambda>r. carries (enc r)) rs' ts'"
    "map wr_sequence rs' = successive (ws_request_id (gw_self v)) (length rs')"
    "ws_request_id (gw_self w) = ws_request_id (gw_self v) + of_nat (length rs')"
    using assms(2) by (auto simp: ws_extends_def)
  have "list_all2 (\<lambda>r. carries (enc r)) (rs @ rs') (ts @ ts')"
    using 1(2) 2(2) by (rule list_all2_appendI)
  then show ?thesis
    using 1 2 unfolding ws_extends_def
    by (intro exI [of _ "rs @ rs'"] exI [of _ "ts @ ts'"]) (simp add: successive_add)
qed

lemma ws_extends_request:
  "(\<And>i. carries i (f i)) \<Longrightarrow> ws_extends (ws_enc E) w (ws_request E t user order version f w)"
  unfolding ws_extends_def ws_request_def ws_enc_def Let_def
  by (rule exI [of _ "[\<lparr> wr_sequence = ws_request_id (gw_self w) + 1, wr_type = t, wr_user_id = user,
            wr_order_id = order, wr_version = version, wr_order_id_2 = 0 \<rparr>]"]) simp

text \<open>Effects and changes that leave the numbers alone may follow.\<close>

lemma ws_extends_emit:
  "ws_extends enc v w \<Longrightarrow> ws_sent [e] = [] \<Longrightarrow> ws_extends enc v (emit e w)"
  by (rule ws_extends_trans) (auto intro: ws_extends_same)

lemma ws_extends_self:
  "ws_extends enc v w \<Longrightarrow> (\<And>s. ws_request_id (f s) = ws_request_id s) \<Longrightarrow> ws_extends enc v (upd_self f w)"
  by (rule ws_extends_trans) (auto intro: ws_extends_same)

lemma ws_extends_shared: "ws_extends enc v w \<Longrightarrow> ws_extends enc v (upd_shared f w)"
  by (rule ws_extends_trans) (auto intro: ws_extends_same)

interpretation ws_kept: kept "ws_extends enc" for enc
  by unfold_locales (auto intro: ws_extends_trans)

lemmas ws_extends_intros =
  ws_extends_emit ws_extends_self ws_extends_shared ws_extends_refl

lemma ws_extends_status: "ws_extends enc v w \<Longrightarrow> ws_extends enc v (ws_set_connection_status st r w)"
  by (simp add: ws_set_connection_status_def Let_def ws_extends_intros)

lemma ws_extends_sends:
  "ws_extends (ws_enc E) w (ws_session_logon E ti w)"
  "ws_extends (ws_enc E) w (ws_user_data_stream_start E w)"
  "ws_extends (ws_enc E) w (ws_user_data_stream_ping E now w)"
  "ws_extends (ws_enc E) w (ws_account_balance E ti w)"
  "ws_extends (ws_enc E) w (ws_account_status E ti w)"
  "ws_extends (ws_enc E) w (ws_account_position E ti w)"
proof -
  show "ws_extends (ws_enc E) w (ws_user_data_stream_ping E now w)"
    by (auto simp: ws_user_data_stream_ping_def Let_def carries_jsons
        intro!: ws_extends_trans [OF _ ws_extends_request] ws_extends_intros)
qed (auto simp: ws_session_logon_def ws_user_data_stream_start_def ws_account_balance_def
    ws_account_status_def ws_account_position_def Let_def carries_jsons
    intro!: ws_extends_status ws_extends_request)

lemma ws_extends_download: "ws_extends (ws_enc E) w (snd (ws_download E ti s w))"
  by (auto simp: ws_download_def split: ws_state.splits
      intro!: ws_extends_status ws_extends_trans [OF _ ws_extends_sends(1)]
        ws_extends_trans [OF _ ws_extends_sends(2)] ws_extends_trans [OF _ ws_extends_sends(6)])

lemma ws_extends_send: "ws_extends (ws_enc E) w (ws_send L E ti c w)"
  unfolding ws_send_def
  by (rule ws_kept.keep_send) (auto simp: ws_upd_download_def ws_extends_download
      intro!: ws_extends_self)

lemma ws_extends_limits: "ws_extends enc v w \<Longrightarrow> ws_extends enc v (ws_update_rate_limits items w)"
  by (auto simp: ws_update_rate_limits_def Let_def intro!: ws_extends_intros)

lemma ws_extends_retry: "ws_extends (ws_enc E) w (ws_retry L E ti s w)"
  by (simp add: ws_retry_def ws_extends_send)

lemma ws_extends_acks:
  "ws_extends enc w (ws_ack_error rt r status error text w)"
  "ws_extends enc w (ws_publish_ack response m r w)"
  "ws_extends enc w (ws_place_success ti m r w)"
  by (auto simp: ws_ack_error_def ws_publish_ack_def ws_place_success_def Let_def
      intro!: ws_extends_emit)

lemma ws_extends_handle: "ws_extends (ws_enc E) w (res_state (ws_handle L E ti e w))"
proof -
  have p: "ws_extends (ws_enc E) w (on_position_item E t i w)" for t i and w :: "('a, 'b) ws"
    by (auto simp: on_position_item_def intro!: ws_extends_emit)
  have c: "ws_extends (ws_enc E) w (ws_canceled_order m w)" for m and w :: "('a, 'b) ws"
    by (auto simp: ws_canceled_order_def intro!: ws_extends_emit)
  show ?thesis
    by (auto simp: ws_handle_def parsed_def ws_on_session_logon_def ws_on_listen_key_def
        ws_on_account_balance_def ws_on_account_status_def ws_on_account_position_def
        ws_on_open_orders_cancel_all_def ws_on_order_place_def ws_on_order_modify_def
        ws_on_order_cancel_def ws_modify_success_def ws_cancel_success_def Let_def p c
        split: wsapi_event.splits sum.splits
        intro!: ws_extends_limits ws_extends_emit ws_kept.keep_fold ws_extends_self ws_extends_send
          ws_extends_retry ws_extends_acks
        intro: ws_extends_trans [OF _ ws_extends_send])
qed

lemma ws_extends_parse: "ws_extends (ws_enc E) w (res_state (ws_parse L E ti message w))"
proof -
  have e: "ws_extends (ws_enc E) w (res_state (for_each (ws_handle L E ti) calls w))" for calls
    by (rule ws_kept.keep_for_each) (rule ws_extends_handle)
  obtain calls outcome where d: "wsapi_dispatch (we_fnv E) (we_parser E)
      (wsapi_request_decode (we_b64d E) (we_uncode E)) (sh_allow_unknown_event_types (gw_shared w))
      message = (calls, outcome)" by force
  show ?thesis
    using e [of calls] unfolding ws_parse_def d
    by (cases "for_each (ws_handle L E ti) calls w"; cases outcome) (simp_all add: Let_def)
qed

lemma ws_extends_orders:
  "ws_extends (ws_enc E) w (res_state (ws_order_place E t source c rd request_id w))"
  "ws_extends (ws_enc E) w (res_state (ws_order_modify E t source m ord rd w))"
  "ws_extends (ws_enc E) w (res_state (ws_order_cancel E t source x ord w))"
  by (auto simp: ws_order_place_def ws_order_modify_def ws_order_cancel_def Let_def carries_jsons
      intro!: ws_extends_trans [OF _ ws_extends_request] ws_extends_intros)

lemma ws_extends_stream:
  "ws_extends (ws_enc E) w (ws_timer E ti now w)"
  "ws_extends (ws_enc E) w (ws_disconnected L E ti w)"
  by (auto simp: ws_timer_def ws_check_request_queue_def ws_disconnected_def Let_def
      intro!: ws_extends_trans [OF _ ws_extends_sends(4)] ws_extends_trans [OF _ ws_extends_sends(5)]
        ws_extends_sends ws_extends_trans [OF _ ws_extends_send] ws_extends_status ws_extends_self)

lemma ws_extends_step: "ws_step L enc v w \<Longrightarrow> ws_extends enc v w"
proof (induction rule: ws_step.induct)
  case (ws_step_force w ti)
  then show ?case by (simp add: ws_force_listen_key_refresh_def ws_extends_self)
qed (auto simp: ws_start_def ws_stop_def ws_latency_def ws_binary_def ws_cancel_all_orders_def
    ws_ready_def ws_extends_stream ws_extends_orders ws_extends_parse ws_extends_send
    intro!: ws_extends_intros)

lemma ws_extends_run: "ws_run L enc v w \<Longrightarrow> ws_extends enc v w"
  by (induction rule: ws_run.induct) (auto intro: ws_extends_trans ws_extends_step)

lemma ws_fresh_simps [simp]:
  "gw_out (ws_fresh n a d sh k) = []" "gw_shared (ws_fresh n a d sh k) = sh"
  "ws_request_id (gw_self (ws_fresh n a d sh k)) = 1000000 * ucast n"
  by (simp_all add: ws_fresh_def ws_create_def)

section \<open>Download\<close>

text \<open>The states of the download in the order of the enumeration, and what is due at each of them.\<close>

definition ws_states :: "ws_state list" where
  "ws_states = [WS_SESSION_LOGON, WS_USER_DATA_STREAM_START, WS_ACCOUNT_POSITION, WS_DONE]"

lemma ws_states_next [simp]:
  "hd ws_states = WS_SESSION_LOGON"
  "next_of ws_states WS_SESSION_LOGON = Some WS_USER_DATA_STREAM_START"
  "next_of ws_states WS_USER_DATA_STREAM_START = Some WS_ACCOUNT_POSITION"
  "next_of ws_states WS_ACCOUNT_POSITION = Some WS_DONE"
  "next_of ws_states WS_DONE = None"
  by (simp_all add: ws_states_def)

abbreviation download_of :: "('d, 'q) ws \<Rightarrow> 'd" where
  "download_of w \<equiv> ws_download_of (gw_self w)"

lemma ws_upd_download_simps [simp]:
  "download_of (ws_upd_download f w) = f (download_of w)"
  "gw_out (ws_upd_download f w) = gw_out w" "gw_shared (ws_upd_download f w) = gw_shared w"
  "sm_account (gw_self (ws_upd_download f w)) = sm_account (gw_self w)"
  "stream_ready (ws_upd_download f w) = stream_ready w"
  by (simp_all add: ws_upd_download_def stream_ready_def)

lemma ws_status_simps [simp]:
  "download_of (ws_set_connection_status st r w) = download_of w"
  "sm_account (gw_self (ws_set_connection_status st r w)) = sm_account (gw_self w)"
  "stream_ready (ws_set_connection_status st r w) = (st = ConnectionStatus_READY)"
  by (simp_all add: ws_set_connection_status_def Let_def stream_ready_def)

lemma ws_request_simps [simp]:
  "download_of (ws_request E t u i v f w) = download_of w"
  "sm_account (gw_self (ws_request E t u i v f w)) = sm_account (gw_self w)"
  "stream_ready (ws_request E t u i v f w) = stream_ready w"
  by (simp_all add: ws_request_def Let_def stream_ready_def)

lemma stream_ready_refresh [simp]:
  "stream_ready (upd_self (\<lambda>s. s\<lparr>ws_listen_key_refresh := t\<rparr>) w) = stream_ready w"
  by (simp add: stream_ready_def)

lemma ws_limits_simps [simp]:
  "download_of (ws_update_rate_limits items w) = download_of w"
  "sm_account (gw_self (ws_update_rate_limits items w)) = sm_account (gw_self w)"
  "ws_listen_key (gw_self (ws_update_rate_limits items w)) = ws_listen_key (gw_self w)"
  "stream_ready (ws_update_rate_limits items w) = stream_ready w"
  by (simp_all add: ws_update_rate_limits_def Let_def stream_ready_def)

lemma ws_download_calls:
  "download_of (snd (ws_download E ti s w)) = download_of w"
  "stream_ready (snd (ws_download E ti s w)) =
     (s = WS_DONE \<or> s = WS_UNDEFINED \<and> stream_ready w)"
  by (cases s; simp add: ws_download_def ws_session_logon_def ws_user_data_stream_start_def
      ws_account_position_def Let_def)+

lemma ws_limits_outs: "set (gw_out w) \<subseteq> set (gw_out (ws_update_rate_limits items w))"
  by (auto simp: ws_update_rate_limits_def Let_def)

interpretation outs_kept: kept "\<lambda>v w. set (gw_out v) \<subseteq> set (gw_out w)"
  by unfold_locales auto

lemma ws_send_outs: "set (gw_out w) \<subseteq> set (gw_out (ws_send L E ti c w))"
  unfolding ws_send_def
  by (rule outs_kept.keep_send)
    (auto simp: ws_download_def ws_session_logon_def ws_user_data_stream_start_def
      ws_account_position_def ws_request_def ws_set_connection_status_def Let_def split: ws_state.splits)

text \<open>A state that waits for its answer ends the calls; the last two states are passed in one go.\<close>

lemma ws_send_waits:
  assumes "download_contract ws_states L"
    and "dl_due L (dl_command L c (download_of w)) = Some s"
    and "s \<in> {WS_SESSION_LOGON, WS_USER_DATA_STREAM_START}"
  shows "waiting L s (download_of (ws_send L E ti c w)) \<and> \<not> stream_ready (ws_send L E ti c w)
    \<and> length (ws_sent (gw_out (ws_send L E ti c w))) = Suc (length (ws_sent (gw_out w)))"
proof -
  let ?u = "ws_upd_download (dl_command L c) w"
  obtain v where v: "ws_download E ti s ?u = (1, v)"
    using assms(3) by (auto simp: ws_download_def)
  then have v': "download_of v = dl_command L c (download_of w)" "\<not> stream_ready v"
    using ws_download_calls [of E ti s ?u] assms(3) by auto
  have sent: "length (ws_sent (gw_out v)) = Suc (length (ws_sent (gw_out w)))"
    using v assms(3) by (auto simp: ws_download_def ws_session_logon_def
        ws_user_data_stream_start_def ws_request_def ws_set_connection_status_def Let_def)
  have "dl_due L (dl_answer L 1 (download_of v)) = None"
    using contract_wait [OF assms(1,2)] v' by simp
  then have "ws_send L E ti c w = ws_upd_download (dl_answer L 1) v"
    using assms(2) v by (simp add: ws_send_def dl_send_def eval_nat_numeral)
  then show ?thesis using waitingI [OF assms(2)] v' sent by simp
qed

lemma ws_send_completes:
  assumes "download_contract ws_states L"
    and "dl_due L (dl_command L c (download_of w)) = Some WS_ACCOUNT_POSITION"
  shows "stream_ready (ws_send L E ti c w)"
proof -
  let ?u = "ws_upd_download (dl_command L c) w"
  obtain v where v: "ws_download E ti WS_ACCOUNT_POSITION ?u = (0, v)"
    by (simp add: ws_download_def)
  then have v': "download_of v = dl_command L c (download_of w)"
    using ws_download_calls(1) [of E ti WS_ACCOUNT_POSITION ?u] by simp
  let ?x = "ws_upd_download (dl_answer L 0) v"
  have due: "dl_due L (dl_answer L 0 (download_of v)) = Some WS_DONE"
    using contract_next [OF assms] v' by simp
  obtain y where y: "ws_download E ti WS_DONE ?x = (0, y)" by (simp add: ws_download_def)
  then have y': "download_of y = dl_answer L 0 (download_of v)" "stream_ready y"
    using ws_download_calls [of E ti WS_DONE ?x] by auto
  have "dl_due L (dl_answer L 0 (download_of y)) = None"
    using contract_next [OF assms(1) due] y' by simp
  then have "ws_send L E ti c w = ws_upd_download (dl_answer L 0) y"
    using assms(2) v y due y' by (simp add: ws_send_def dl_send_def eval_nat_numeral)
  then show ?thesis using y' by simp
qed

end
