(* ===== verification/Web_Socket_Properties.thy ===== *)
theory Web_Socket_Properties
  imports Web_Socket_Facts Sample_Env
begin

text \<open>
  The properties of the WebSocket connection, each with a witness where it has hypotheses.
\<close>

section \<open>A concrete connection\<close>

definition sample_answer :: "'r \<Rightarrow> 'r ws_answer" where
  "sample_answer result = \<lparr> wa_status = 200, wa_result = result, wa_error_code = 0,
     wa_error_msg = [], wa_rate_limits = [] \<rparr>"

definition sample_order_msg :: order_msg where
  "sample_order_msg = \<lparr> om_order_id = 42, om_symbol = ''BTCUSDT'', om_status = JOrderStatus_NEW,
     om_client_order_id = ''c'', om_price = Fin 100, om_avg_price = 0, om_orig_qty = Fin 1,
     om_executed_qty = 0, om_time_in_force = JTimeInForce_GTC, om_type = JOrderType_LIMIT,
     om_side = JSide_BUY, om_stop_price = NaN, om_update_time = 0 \<rparr>"

text \<open>A parser for which a text is the id of an answer, and a hash that tells keys by their length.\<close>

definition sample_ws_env :: ws_env where
  "sample_ws_env = env.extend sample_env (ws_env.fields
     \<lparr> pl_parse = \<lambda>m. Inr [Item ''id'' (JV_string m)], pl_field = \<lambda>_. JField_UNKNOWN_INTERNAL,
        pl_event = \<lambda>_. Inr JEventType_UNKNOWN_INTERNAL,
        pl_text = \<lambda>v. case v of JV_string s \<Rightarrow> Inr s | _ \<Rightarrow> Inr [] \<rparr>
     (\<lambda>k. of_nat (length k)) rfc_b64e rfc_b64d schema_code schema_uncode (\<lambda>_. 0)
     (\<lambda>_. Inr (sample_answer ())) (\<lambda>_. Inr (sample_answer ''key''))
     (\<lambda>_. Inr (sample_answer [])) (\<lambda>_. Inl (Std_exception [])) (\<lambda>_. Inr (sample_answer ()))
     (\<lambda>_. Inr ()) (\<lambda>_. Inr ()) (\<lambda>_. Inr (sample_answer []))
     (\<lambda>_. Inr (sample_answer sample_order_msg)) (\<lambda>_. Inr (sample_answer sample_order_msg))
     (\<lambda>_. Inr (sample_answer sample_order_msg)) (\<lambda>_. Inr ()))"

lemma sample_ws_env_simps [simp]:
  "we_b64e sample_ws_env = rfc_b64e" "we_b64d sample_ws_env = rfc_b64d"
  "we_code sample_ws_env = schema_code" "we_uncode sample_ws_env = schema_uncode"
  "we_fnv sample_ws_env k = of_nat (length k)"
  "pl_parse (we_parser sample_ws_env) m = Inr [Item ''id'' (JV_string m)]"
  "pl_text (we_parser sample_ws_env) (JV_string m) = Inr m"
  "we_place sample_ws_env m = Inr (sample_answer sample_order_msg)"
  "we_session_logon sample_ws_env m = Inr (sample_answer ())"
  "we_listen_key sample_ws_env m = Inr (sample_answer ''key'')"
  by (simp_all add: sample_ws_env_def env.defs ws_env.defs)

definition sample_ws :: "(ws_state \<times> int \<times> bool, unit) ws" where
  "sample_ws = ws_fresh 3 sample_account (WS_UNDEFINED, 0, False) sample_shared []"

definition sample_ws_lib :: "(ws_state \<times> int \<times> bool) ws_lib" where
  "sample_ws_lib = plain_download ws_states WS_UNDEFINED"

section \<open>Requests\<close>

text \<open>
  C28: Whatever happens to a connection, the requests it sends have different ids, as long as they
  are not more than the 32 bits of the counter can tell apart: every message begins with the
  id, the ids encode successive numbers that start after one million times the
  stream id, and no two of them are the same text.
\<close>

theorem ws_request_ids_distinct:
  assumes "wsapi_text b64e b64d code uncode"
    and "ws_run L (wsapi_request_encode b64e code) (ws_fresh stream_id acc d sh details) w"
    and "length (ws_sent (gw_out w)) \<le> 2 ^ 32"
  shows "distinct (map id_of (ws_sent (gw_out w)))
    \<and> (\<exists>rs. map id_of (ws_sent (gw_out w)) = map (wsapi_request_encode b64e code) rs
        \<and> map wr_sequence rs = successive (1000000 * ucast stream_id) (length rs))"
proof -
  let ?enc = "wsapi_request_encode b64e code"
  obtain rs where rs: "list_all2 (\<lambda>r. carries (?enc r)) rs (ws_sent (gw_out w))"
    "map wr_sequence rs = successive (1000000 * ucast stream_id) (length rs)"
    using ws_extends_run [OF assms(2)] by (auto simp: ws_extends_def)
  have ids: "map id_of (ws_sent (gw_out w)) = map ?enc rs"
    using rs(1) by (induction rule: list_all2_induct)
      (simp_all add: wsapi_text.id_of_carries [OF assms(1)])
  have "length rs \<le> 2 ^ 32" using assms(3) list_all2_lengthD [OF rs(1)] by simp
  then have "distinct (map wr_sequence rs)" by (simp only: rs(2) distinct_successive)
  then have "distinct rs" by (simp add: distinct_map)
  then have "distinct (map ?enc rs)"
    using wsapi_wire.encode_inj assms(1) unfolding wsapi_text_def by (metis distinct_map inj_onI)
  then show ?thesis using ids rs(2) by metis
qed

lemma sample_ws_contract: "download_contract ws_states sample_ws_lib"
  by (simp only: sample_ws_lib_def plain_download_contract)

lemma ws_ready_waits:
  assumes "download_contract ws_states L"
  shows "waiting L WS_SESSION_LOGON (download_of (ws_ready L E ti w)) \<and> \<not> stream_ready (ws_ready L E ti w)
    \<and> length (ws_sent (gw_out (ws_ready L E ti w))) = Suc (length (ws_sent (gw_out w)))"
  unfolding ws_ready_def
  by (rule ws_send_waits [OF assms]) (simp_all add: contract_begin [OF assms])

theorem ws_request_ids_distinct_witness:
  "let w = ws_ready sample_ws_lib sample_ws_env (sample_trace 2)
             (ws_ready sample_ws_lib sample_ws_env (sample_trace 1) sample_ws)
   in length (ws_sent (gw_out w)) = 2 \<and> distinct (map id_of (ws_sent (gw_out w)))"
proof -
  let ?w = "ws_ready sample_ws_lib sample_ws_env (sample_trace 2)
    (ws_ready sample_ws_lib sample_ws_env (sample_trace 1) sample_ws)"
  have enc: "ws_enc sample_ws_env = wsapi_request_encode rfc_b64e schema_code"
    by (simp add: ws_enc_def fun_eq_iff)
  have run: "ws_run sample_ws_lib (wsapi_request_encode rfc_b64e schema_code) sample_ws ?w"
    by (rule ws_run_step [OF ws_run_step [OF ws_run_refl ws_step_ready [OF enc]] ws_step_ready [OF enc]])
  have two: "length (ws_sent (gw_out ?w)) = 2"
    by (simp add: ws_ready_waits [OF sample_ws_contract] sample_ws_def)
  show ?thesis
    using ws_request_ids_distinct [OF rfc_text.wsapi_text_axioms run [unfolded sample_ws_def]] two
    by (simp add: Let_def sample_ws_def)
qed

text \<open>The one response an answer to a request leads to.\<close>

definition answers ::
  "request_type \<Rightarrow> u8 \<Rightarrow> u64 \<Rightarrow> u32 \<Rightarrow> bool \<Rightarrow> ('d, 'q) ws \<Rightarrow> ('d, 'q) ws \<Rightarrow> bool" where
  "answers rt user order version accepted v w \<longleftrightarrow>
     (\<exists>resp. responses user order w = responses user order v @ [resp]
        \<and> re_request_type resp = rt \<and> re_version resp = version
        \<and> (re_request_status resp = RequestStatus_ACCEPTED) = accepted)"

lemma responses_limits [simp]:
  "responses u i (ws_update_rate_limits items w) = responses u i w"
  by (simp add: ws_update_rate_limits_def Let_def)

lemma place_answers:
  "answers RequestType_CREATE_ORDER (wr_user_id r) (wr_order_id r) (wr_version r) (wa_status m = 200)
     w (ws_on_order_place ti m r w)"
  by (simp add: answers_def ws_on_order_place_def ws_place_success_def ws_ack_error_def
      ws_response_def error_response_def Let_def List.map_filter_def)

text \<open>
  C29: A create request over the WebSocket is answered to the one who made it: when the exchange
  sends an answer with the id it read from the request, wherever this id stands among the
  members, exactly one response is published for user and order, with version 1, and it
  accepts the order if and only if the status is 200.
\<close>

theorem ws_place_answered:
  assumes "wsapi_text (we_b64e E) (we_b64d E) (we_code E) (we_uncode E)"
    and "ws_order_place E t source c rd request_id w = Ok v"
    and "pl_parse (we_parser E) message = Inr (xs @ Item ''id'' i # ys)"
    and "pl_text (we_parser E) i = Inr (id_of (last (ws_sent (gw_out v))))"
    and "list_all (not_id (we_fnv E)) xs" "we_fnv E ''error'' \<noteq> we_fnv E ''id''"
    and "we_place E message = Inr m"
  shows "\<exists>z. ws_parse L E ti message x = Ok z
    \<and> answers RequestType_CREATE_ORDER source (co_order_id c) 1 (wa_status m = 200) x z"
proof -
  let ?r = "\<lparr> wr_sequence = ws_request_id (gw_self w) + 1, wr_type = WSAPIType_ORDER_PLACE,
    wr_user_id = source, wr_order_id = co_order_id c, wr_version = 1, wr_order_id_2 = 0 \<rparr>"
  have "stream_ready w" using assms(2) by (simp add: ws_order_place_def split: if_splits)
  then have sent: "carries (ws_enc E ?r) (last (ws_sent (gw_out v)))"
    using assms(2) by (auto simp: ws_order_place_def ws_request_effect Let_def carries_jsons)
  have "wsapi_dispatch (we_fnv E) (we_parser E) (wsapi_request_decode (we_b64d E) (we_uncode E))
      u message = ([WE_order_place message ?r], Handled)" for u
    by (rule wsapi_text.answer_reaches [OF assms(1) sent [unfolded ws_enc_def] assms(3,4,5,6)])
      (simp add: wsapi_route_def)
  then have "ws_parse L E ti message x = Ok (ws_on_order_place ti m ?r x)"
    by (simp add: ws_parse_def ws_handle_def assms(7))
  then show ?thesis using place_answers [of ?r m x ti] by simp
qed

theorem ws_place_answered_witness:
  "let w = upd_self (\<lambda>s. s\<lparr>sm_connection_status := ConnectionStatus_READY\<rparr>) sample_ws;
       v = res_state (ws_order_place sample_ws_env 1000000 3 sample_create sample_ref_data ''r'' w);
       z = res_state (ws_parse sample_ws_lib sample_ws_env (sample_trace 1)
             (id_of (last (ws_sent (gw_out v)))) v)
   in answers RequestType_CREATE_ORDER 3 (co_order_id sample_create) 1 True v z"
proof -
  let ?w = "upd_self (\<lambda>s. s\<lparr>sm_connection_status := ConnectionStatus_READY\<rparr>) sample_ws"
  let ?r = "ws_order_place sample_ws_env 1000000 3 sample_create sample_ref_data ''r'' ?w"
  have ok: "?r = Ok (res_state ?r)"
    by (simp add: ws_order_place_def stream_ready_def Let_def)
  have "\<exists>z. ws_parse sample_ws_lib sample_ws_env (sample_trace 1)
      (id_of (last (ws_sent (gw_out (res_state ?r))))) (res_state ?r) = Ok z
    \<and> answers RequestType_CREATE_ORDER 3 (co_order_id sample_create) 1
        (wa_status (sample_answer sample_order_msg) = 200) (res_state ?r) z"
    by (rule ws_place_answered [OF _ ok, of _ "[]" "JV_string (id_of (last (ws_sent (gw_out (res_state ?r)))))" "[]"])
      (simp_all add: rfc_text.wsapi_text_axioms)
  then show ?thesis by (auto simp: Let_def sample_answer_def)
qed

text \<open>
  An answer to an order request publishes one response, of its type and version. A create is
  accepted when the status is 200; a modify when moreover the status of the order is one
  that can be modified; a cancel when moreover the order is not filled. (The flag that disables
  fast acknowledgements suppresses accepting answers to modify and cancel.)
\<close>

theorem ws_answers_once:
  assumes "\<not> st_disable_fast_order_ack (settings_of w)"
  shows "answers RequestType_CREATE_ORDER (wr_user_id r) (wr_order_id r) (wr_version r)
      (wa_status m = 200) w (ws_on_order_place ti m r w)
    \<and> answers RequestType_MODIFY_ORDER (wr_user_id r) (wr_order_id r) (wr_version r)
      (wa_status m = 200 \<and> ws_modify_working E 200 \<and>
        map_j_order_status_to_request_status (om_status (wa_result m)) = Some RequestStatus_ACCEPTED)
      w (ws_on_order_modify E m r w)
    \<and> answers RequestType_CANCEL_ORDER (wr_user_id r) (wr_order_id r) (wr_version r)
      (wa_status m = 200 \<and> om_status (wa_result m) \<noteq> JOrderStatus_FILLED)
      w (ws_on_order_cancel E ti m r w)"
proof (intro conjI place_answers)
  note [simp] = answers_def ws_ack_error_def ws_publish_ack_def ws_response_def
    error_response_def Let_def List.map_filter_def
  have some: "\<exists>x. map_j_order_status_to_request_status s = Some x" for s
    using map_j_order_status_to_request_status_total by fastforce
  obtain x where "map_j_order_status_to_request_status (om_status (wa_result m)) = Some x"
    using some by blast
  then show "answers RequestType_MODIFY_ORDER (wr_user_id r) (wr_order_id r) (wr_version r)
      (wa_status m = 200 \<and> ws_modify_working E 200 \<and>
        map_j_order_status_to_request_status (om_status (wa_result m)) = Some RequestStatus_ACCEPTED)
      w (ws_on_order_modify E m r w)"
    using assms by (simp add: ws_on_order_modify_def ws_modify_success_def)
  show "answers RequestType_CANCEL_ORDER (wr_user_id r) (wr_order_id r) (wr_version r)
      (wa_status m = 200 \<and> om_status (wa_result m) \<noteq> JOrderStatus_FILLED)
      w (ws_on_order_cancel E ti m r w)"
    using assms by (simp add: ws_on_order_cancel_def ws_cancel_success_def)
qed

theorem ws_answers_once_witness:
  "answers RequestType_CANCEL_ORDER 3 1000 2 True sample_ws
     (ws_on_order_cancel sample_ws_env (sample_trace 1) (sample_answer sample_order_msg)
       \<lparr> wr_sequence = 9, wr_type = WSAPIType_ORDER_CANCEL, wr_user_id = 3, wr_order_id = 1000,
         wr_version = 2, wr_order_id_2 = 0 \<rparr> sample_ws)"
proof -
  have "\<not> st_disable_fast_order_ack (settings_of sample_ws)"
    by (simp add: sample_ws_def sample_shared_def sample_settings_def)
  from ws_answers_once [OF this, of "\<lparr> wr_sequence = 9, wr_type = WSAPIType_ORDER_CANCEL,
      wr_user_id = 3, wr_order_id = 1000, wr_version = 2, wr_order_id_2 = 0 \<rparr>"
      "sample_answer sample_order_msg" "sample_trace 1" sample_ws_env]
  show ?thesis by (simp add: sample_answer_def sample_order_msg_def)
qed

section \<open>Session\<close>

text \<open>
  C30: A connection is ready when the session and the listen key have been confirmed, and not
  before: after the connection is up it waits for the answer to the logon, then for the listen
  key; the answer to the latter makes it ready and announces the key it contains. What else
  happens in between does not matter, as long as it leaves the download alone.
\<close>

theorem ws_ready_after_logon:
  assumes "download_contract ws_states L" "wa_status m1 = 200" "wa_status m2 = 200"
    and "download_of u = download_of (ws_ready L E0 t0 w)"
    and "download_of v = download_of (ws_on_session_logon L E1 t1 m1 u)"
  shows "\<not> stream_ready (ws_ready L E0 t0 w) \<and> \<not> stream_ready (ws_on_session_logon L E1 t1 m1 u)
    \<and> stream_ready (ws_on_listen_key L E2 t2 m2 v)
    \<and> Ev_listen_key_update (name_of v) (wa_result m2) \<in> set (gw_out (ws_on_listen_key L E2 t2 m2 v))"
proof -
  have 0: "waiting L WS_SESSION_LOGON (download_of u)" "\<not> stream_ready (ws_ready L E0 t0 w)"
    by (simp_all add: assms(4) ws_ready_waits [OF assms(1)])
  have "dl_due L (dl_command L (Download_check_relaxed WS_SESSION_LOGON) (download_of u))
      = Some WS_USER_DATA_STREAM_START"
    using contract_check_relaxed [OF assms(1) 0(1)] by simp
  from ws_send_waits [OF assms(1) this, of E1 t1]
  have 1: "waiting L WS_USER_DATA_STREAM_START (download_of v)"
    "\<not> stream_ready (ws_on_session_logon L E1 t1 m1 u)"
    by (simp_all add: ws_on_session_logon_def assms(2,5))
  let ?w = "emit (Ev_listen_key_update (name_of v) (wa_result m2))
    (upd_self (\<lambda>s. s\<lparr>ws_listen_key := wa_result m2\<rparr>) v)"
  have "dl_due L (dl_command L (Download_check_relaxed WS_USER_DATA_STREAM_START) (download_of ?w))
      = Some WS_ACCOUNT_POSITION"
    using contract_check_relaxed [OF assms(1) 1(1)] by simp
  note ready = ws_send_completes [OF assms(1) this, of E2 t2]
  have "Ev_listen_key_update (name_of v) (wa_result m2)
      \<in> set (gw_out (ws_send L E2 t2 (Download_check_relaxed WS_USER_DATA_STREAM_START) ?w))"
    by (rule subsetD [OF ws_send_outs]) simp
  then have "Ev_listen_key_update (name_of v) (wa_result m2) \<in> set (gw_out (ws_on_listen_key L E2 t2 m2 v))"
    by (simp add: ws_on_listen_key_def assms(3) Let_def subsetD [OF ws_limits_outs])
  moreover have "stream_ready (ws_on_listen_key L E2 t2 m2 v)"
    using ready by (simp add: ws_on_listen_key_def assms(3) Let_def)
  ultimately show ?thesis using 0(2) 1(2) by simp
qed

theorem ws_ready_after_logon_witness:
  "let L = sample_ws_lib; E = sample_ws_env; t = sample_trace 1;
       v = ws_on_session_logon L E t (sample_answer ()) (ws_ready L E t sample_ws);
       x = ws_on_listen_key L E t (sample_answer ''key'') v
   in \<not> stream_ready v \<and> stream_ready x \<and> Ev_listen_key_update (name_of v) ''key'' \<in> set (gw_out x)"
  using ws_ready_after_logon [OF sample_ws_contract, of "sample_answer ()" "sample_answer ''key''",
      OF _ _ refl refl, of sample_ws_env "sample_trace 1" sample_ws]
  by (simp add: Let_def sample_answer_def)

end
