(* ===== verification/Rest_Trade.thy ===== *)
theory Rest_Trade
  imports Order_Entry_Classic
begin

text \<open>
  \<open>gateway/rest_trade.cpp\<close>: the REST connection of an account that trades over the WebSocket API.
  It downloads open orders, stale orders and trades on request and cancels all orders; other
  order actions are not supported. Its state is that part of the order entry's which both
  classes have (\<open>rest_stream\<close>). Member functions with the text of the order entry's are defined
  by them.
\<close>

section \<open>Stream\<close>

definition rt_create :: "u16 \<Rightarrow> account \<Rightarrow> rest_stream" where
  "rt_create stream_id acc = \<lparr> sm_stream_id = stream_id, sm_account = acc,
     sm_connection_status = ConnectionStatus_UNDEFINED, oe_open_orders_symbols = [],
     oe_download_trades_is_first = True, oe_stale_orders_counter = 0 \<rparr>"

definition rt_start :: "('z, 'q) rst \<Rightarrow> ('z, 'q) rst" where
  "rt_start = oe_start"

definition rt_stop :: "('z, 'q) rst \<Rightarrow> ('z, 'q) rst" where
  "rt_stop = oe_stop"

definition rt_set_connection_status :: "connection_status \<Rightarrow> string \<Rightarrow> ('z, 'q) rst \<Rightarrow> ('z, 'q) rst" where
  "rt_set_connection_status = oe_set_connection_status"

text \<open>There is no download: a connection is ready as soon as it is up.\<close>

definition rt_connected :: "('z, 'q) rst \<Rightarrow> ('z, 'q) rst" where
  "rt_connected w = rt_set_connection_status ConnectionStatus_READY [] w"

definition rt_disconnected :: "('z, 'q) rst \<Rightarrow> ('z, 'q) rst" where
  "rt_disconnected w = rt_set_connection_status ConnectionStatus_DISCONNECTED [] w"

definition rt_latency :: "nanoseconds \<Rightarrow> ('z, 'q) rst \<Rightarrow> ('z, 'q) rst" where
  "rt_latency = oe_latency"

definition rt_message_begin :: "('z, 'q) rst \<Rightarrow> ('z, 'q) rst" where
  "rt_message_begin = oe_message_begin"

definition rt_message_header :: "env \<Rightarrow> string \<Rightarrow> string \<Rightarrow> ('z, 'q) rst \<Rightarrow> ('z, 'q) rst" where
  "rt_message_header = oe_message_header"

definition rt_message_end :: "('z, 'q) rst \<Rightarrow> ('z, 'q) rst" where
  "rt_message_end = oe_message_end"

section \<open>Responses\<close>

text \<open>
  \<open>process_response\<close> has no clause for the exceptions of the order management: they are
  exceptions like any other here. Their text is that of \<open>ge_oms\<close>.
\<close>

fun rt_caught :: "'e env_scheme \<Rightarrow> exn \<Rightarrow> origin \<times> request_status \<times> error \<times> string" where
  "rt_caught E (Network_error status error text) = (Origin_GATEWAY, status, error, text)"
| "rt_caught E (Std_exception text) = (Origin_EXCHANGE, RequestStatus_ERROR, Error_UNKNOWN, text)"
| "rt_caught E e =
     (case ge_oms E e of (origin, status, error, text) \<Rightarrow>
        (Origin_EXCHANGE, RequestStatus_ERROR, Error_UNKNOWN, text))"

definition rt_process_response ::
  "'e env_scheme \<Rightarrow> rest_response \<Rightarrow> ('c, 'q) error_handler \<Rightarrow> ('c, 'q) success_handler
    \<Rightarrow> ('c, 'q) gw \<Rightarrow> (exn, ('c, 'q) gw) res" where
  "rt_process_response E r error_handler success_handler w =
    (case process_body E r error_handler success_handler w of
       Throw e w' \<Rightarrow>
         (case rt_caught E e of (origin, status, error, text) \<Rightarrow> error_handler origin status error text w')
     | done \<Rightarrow> done)"

section \<open>Downloads\<close>

definition rt_get_open_orders :: "env \<Rightarrow> trace_info \<Rightarrow> ('z, 'q) rst \<Rightarrow> ('z, 'q) rst" where
  "rt_get_open_orders = get_open_orders"

definition rt_on_open_orders_ack :: "order_ack_msg list \<Rightarrow> ('z, 'q) rst \<Rightarrow> ('z, 'q) rst" where
  "rt_on_open_orders_ack = on_open_orders_ack"

definition rt_get_open_orders_ack ::
  "env \<Rightarrow> rest_response \<Rightarrow> ('z, 'q) rst \<Rightarrow> (exn, ('z, 'q) rst) res" where
  "rt_get_open_orders_ack E r w =
     and_then
       (rt_process_response E r log_error
         (\<lambda>body. parsed (ge_open_orders E body) (\<lambda>items w. Ok (rt_on_open_orders_ack items w))) w)
       (commit Slot_open_orders)"

definition rt_get_order :: "env \<Rightarrow> trace_info \<Rightarrow> oms_order \<Rightarrow> ('z, 'q) rst \<Rightarrow> ('z, 'q) rst" where
  "rt_get_order = get_order"

definition rt_on_order_ack :: "order_ack_msg \<Rightarrow> ('z, 'q) rst \<Rightarrow> ('z, 'q) rst" where
  "rt_on_order_ack = on_order_ack"

definition rt_get_order_ack ::
  "env \<Rightarrow> rest_response \<Rightarrow> string \<Rightarrow> ('z, 'q) rst \<Rightarrow> (exn, ('z, 'q) rst) res" where
  "rt_get_order_ack E r client_order_id w =
     and_then
       (rt_process_response E r
         (\<lambda>origin status error text w.
            Ok (emit (Pub_order (lost_order w client_order_id error text) (stream_of w)) w))
         (\<lambda>body. parsed (ge_order E body) (\<lambda>m w. Ok (rt_on_order_ack m w))) w)
       (\<lambda>w. Ok (stale_order_done w))"

text \<open>
  The download of the trades has been disabled: the function returns after it has noted that
  the next one is not the first. (The code after the \<open>return\<close> is not modelled.)
\<close>

definition rt_get_trades :: "env \<Rightarrow> trace_info \<Rightarrow> ('z, 'q) rst \<Rightarrow> ('z, 'q) rst" where
  "rt_get_trades E ti w = upd_self (\<lambda>s. s\<lparr>oe_download_trades_is_first := False\<rparr>) w"

definition rt_on_trades_ack :: "env \<Rightarrow> trade_item list \<Rightarrow> ('z, 'q) rst \<Rightarrow> ('z, 'q) rst" where
  "rt_on_trades_ack = on_trades_ack"

text \<open>The answer would commit the slot of the open orders.\<close>

definition rt_get_trades_ack :: "env \<Rightarrow> rest_response \<Rightarrow> ('z, 'q) rst \<Rightarrow> (exn, ('z, 'q) rst) res" where
  "rt_get_trades_ack E r w =
     and_then
       (rt_process_response E r log_error
         (\<lambda>body. parsed (ge_trades E body) (\<lambda>items w. Ok (rt_on_trades_ack E items w))) w)
       (commit Slot_open_orders)"

section \<open>Order actions\<close>

definition rt_create_order :: "('z, 'q) rst \<Rightarrow> (exn, ('z, 'q) rst) res" where
  "rt_create_order w = Throw (Oms_NotSupported ''not supported'') w"

definition rt_modify_order :: "('z, 'q) rst \<Rightarrow> (exn, ('z, 'q) rst) res" where
  "rt_modify_order w = Throw (Oms_NotSupported ''not supported'') w"

definition rt_cancel_order :: "('z, 'q) rst \<Rightarrow> (exn, ('z, 'q) rst) res" where
  "rt_cancel_order w = Throw (Oms_NotSupported ''not supported'') w"

definition rt_open_orders_cancel_all ::
  "env \<Rightarrow> trace_info \<Rightarrow> cancel_all_orders \<Rightarrow> string \<Rightarrow> ('z, 'q) rst \<Rightarrow> ('z, 'q) rst" where
  "rt_open_orders_cancel_all = open_orders_cancel_all"

definition rt_on_open_orders_cancel_all_ack ::
  "int \<Rightarrow> string \<Rightarrow> string \<Rightarrow> ('z, 'q) rst \<Rightarrow> ('z, 'q) rst" where
  "rt_on_open_orders_cancel_all_ack = on_open_orders_cancel_all_ack"

definition rt_open_orders_cancel_all_ack ::
  "env \<Rightarrow> rest_response \<Rightarrow> string \<Rightarrow> ('z, 'q) rst \<Rightarrow> (exn, ('z, 'q) rst) res" where
  "rt_open_orders_cancel_all_ack E r request_id =
     rt_process_response E r log_error
       (\<lambda>body. parsed (ge_cancel_all E body) (\<lambda>(code, msg) w.
          Ok (rt_on_open_orders_cancel_all_ack code msg request_id w)))"

section \<open>Request queue, timer and callbacks\<close>

definition rt_check_request_queue :: "env \<Rightarrow> trace_info \<Rightarrow> ('z, 'q) rst \<Rightarrow> ('z, 'q) rst" where
  "rt_check_request_queue E ti w =
     (let w = if_pending E Slot_open_orders (rt_get_open_orders E ti) w;
          w = if_pending E Slot_stale_orders (request_stale_orders E ti) w
      in if_pending E Slot_trades (rt_get_trades E ti) w)"

definition rt_timer :: "env \<Rightarrow> trace_info \<Rightarrow> ('z, 'q) rst \<Rightarrow> ('z, 'q) rst" where
  "rt_timer E ti w =
     (if ge_refresh E then if stream_ready w then rt_check_request_queue E ti w else w else w)"

definition rt_response ::
  "env \<Rightarrow> rest_response \<Rightarrow> callback \<Rightarrow> string \<Rightarrow> ('z, 'q) rst \<Rightarrow> (exn, ('z, 'q) rst) res" where
  "rt_response E r cb request_id w =
     (case cb of
        CB_open_orders \<Rightarrow> rt_get_open_orders_ack E r w
      | CB_order client_order_id \<Rightarrow> rt_get_order_ack E r client_order_id w
      | CB_trades \<Rightarrow> rt_get_trades_ack E r w
      | CB_open_orders_cancel_all \<Rightarrow> rt_open_orders_cancel_all_ack E r request_id w
      | _ \<Rightarrow> Ok w)"

lemmas rt_same_defs =
  rt_start_def rt_stop_def rt_set_connection_status_def rt_latency_def rt_message_begin_def
  rt_message_header_def rt_message_end_def rt_get_open_orders_def rt_on_open_orders_ack_def
  rt_get_order_def rt_on_order_ack_def rt_on_trades_ack_def rt_open_orders_cancel_all_def
  rt_on_open_orders_cancel_all_ack_def

section \<open>Steps\<close>

text \<open>
  One step of the connection. The environment is a parameter of the relation: what holds of
  the answers of a whole run can be said about it. Responses are of the callbacks that
  have been sent.
\<close>

inductive rt_step :: "(env \<Rightarrow> bool) \<Rightarrow> ('z, 'q) rst \<Rightarrow> ('z, 'q) rst \<Rightarrow> bool" for ok where
  rt_step_start: "rt_step ok w (rt_start w)"
| rt_step_stop: "rt_step ok w (rt_stop w)"
| rt_step_connected: "rt_step ok w (rt_connected w)"
| rt_step_disconnected: "rt_step ok w (rt_disconnected w)"
| rt_step_latency: "rt_step ok w (rt_latency sample w)"
| rt_step_begin: "rt_step ok w (rt_message_begin w)"
| rt_step_header: "ok E \<Longrightarrow> rt_step ok w (rt_message_header E name v w)"
| rt_step_end: "rt_step ok w (rt_message_end w)"
| rt_step_timer: "ok E \<Longrightarrow> rt_step ok w (rt_timer E ti w)"
| rt_step_response: "ok E \<Longrightarrow> (q, cb) \<in> set (rest_sent (gw_out w)) \<Longrightarrow>
    rt_step ok w (res_state (rt_response E r cb request_id w))"
| rt_step_cancel_all: "ok E \<Longrightarrow> rt_step ok w (rt_open_orders_cancel_all E ti c request_id w)"
| rt_step_shared: "rt_step ok w (upd_shared f w)"
| rt_step_stale: "rt_step ok w (w\<lparr>gw_stale_orders := xs\<rparr>)"

inductive rt_run :: "(env \<Rightarrow> bool) \<Rightarrow> ('z, 'q) rst \<Rightarrow> ('z, 'q) rst \<Rightarrow> bool" for ok where
  rt_run_refl: "rt_run ok w w"
| rt_run_step: "rt_run ok u v \<Longrightarrow> rt_step ok v w \<Longrightarrow> rt_run ok u w"

definition rt_fresh :: "u16 \<Rightarrow> account \<Rightarrow> 'q shared \<Rightarrow> (u8 \<times> u64) list \<Rightarrow> (rest_stream, 'q) gw" where
  "rt_fresh stream_id acc sh details =
     \<lparr> gw_self = rt_create stream_id acc, gw_shared = sh, gw_stale_orders = details, gw_out = [] \<rparr>"

section \<open>What the connection learns and never does\<close>

text \<open>
  The symbols it knows come from downloads of open orders, and the slot of the trades is never
  committed.
\<close>

definition orders_in :: "string set \<Rightarrow> env \<Rightarrow> bool" where
  "orders_in S E \<longleftrightarrow>
     (\<forall>body items m. ge_open_orders E body = Inr items \<longrightarrow> m \<in> set items \<longrightarrow> om_symbol m \<in> S)"

definition rt_keeps :: "string set \<Rightarrow> ('z, 'q) rst \<Rightarrow> ('z, 'q) rst \<Rightarrow> bool" where
  "rt_keeps S v w \<longleftrightarrow>
     set (oe_open_orders_symbols (gw_self w)) \<subseteq> set (oe_open_orders_symbols (gw_self v)) \<union> S
     \<and> (Slot_commit Slot_trades \<in> set (gw_out w) \<longrightarrow> Slot_commit Slot_trades \<in> set (gw_out v))"

lemma rt_keeps_emit: "e \<noteq> Slot_commit Slot_trades \<Longrightarrow> rt_keeps S w (emit e w)"
  by (auto simp: rt_keeps_def)

interpretation rt_kept: kept_rest "rt_keeps S" for S
  by unfold_locales (auto simp: rt_keeps_def)

lemma rt_keeps_emit2: "rt_keeps S v w \<Longrightarrow> e \<noteq> Slot_commit Slot_trades \<Longrightarrow> rt_keeps S v (emit e w)"
  by (rule rt_kept.keep_trans [OF _ rt_keeps_emit])

lemma rt_keeps_self:
  "rt_keeps S v w \<Longrightarrow> (\<And>s. oe_open_orders_symbols (f s) = oe_open_orders_symbols s) \<Longrightarrow>
     rt_keeps S v (upd_self f w)"
  by (simp add: rt_keeps_def)

lemma rt_keeps_shared: "rt_keeps S v w \<Longrightarrow> rt_keeps S v (upd_shared f w)"
  by (simp add: rt_keeps_def)

lemma rt_keeps_stale: "rt_keeps S v w \<Longrightarrow> rt_keeps S v (w\<lparr>gw_stale_orders := xs\<rparr>)"
  by (simp add: rt_keeps_def)

lemmas rt_intros = rt_keeps_emit2 rt_keeps_self rt_keeps_shared rt_kept.keep_refl

context kept_rest
begin

lemma keep_rt_response:
  assumes err: "\<And>o' s x t w. R w (res_state (err o' s x t w))"
    and succ: "\<And>b w. R w (res_state (succ b w))"
  shows "R w (res_state (rt_process_response E r err succ w))"
proof -
  have body: "R w (res_state (process_body E r err succ w))" by (rule keep_body [OF err succ])
  show ?thesis
  proof (cases "process_body E r err succ w")
    case (Throw e v)
    obtain o' s x t where c: "rt_caught E e = (o', s, x, t)" by (cases "rt_caught E e") auto
    show ?thesis
      using keep_trans [OF _ err [of v o' s x t]] body by (simp add: rt_process_response_def Throw c)
  qed (use body in \<open>simp_all add: rt_process_response_def\<close>)
qed

end

lemma rt_keeps_open_order: "om_symbol m \<in> S \<Longrightarrow> rt_keeps S w (on_open_order m w)"
  by (auto simp: on_open_order_def rt_keeps_def Let_def)

lemma rt_keeps_open_orders:
  "\<forall>m \<in> set items. om_symbol m \<in> S \<Longrightarrow> rt_keeps S w (on_open_orders_ack items w)"
  unfolding on_open_orders_ack_def
proof (induction items arbitrary: w)
  case (Cons m items)
  then show ?case by (auto intro: rt_kept.keep_trans [OF rt_keeps_open_order])
qed (simp add: rt_kept.keep_refl)

lemma rt_keeps_acks:
  assumes "orders_in S E"
  shows "rt_keeps S w (res_state (rt_get_open_orders_ack E r w))"
    "rt_keeps S w (res_state (rt_get_order_ack E r c w))"
    "rt_keeps S w (res_state (rt_get_trades_ack E r w))"
    "rt_keeps S w (res_state (rt_open_orders_cancel_all_ack E r i w))"
proof -
  note [simp] = rt_same_defs log_error_def commit_def rt_kept.keep_refl
  have o: "rt_keeps S w (res_state (parsed (ge_open_orders E b) (\<lambda>items w. Ok (on_open_orders_ack items w)) w))"
    for b and w :: "('a, 'b) rst"
    using assms by (cases "ge_open_orders E b") (auto simp: orders_in_def intro!: rt_keeps_open_orders)
  have t: "rt_keeps S w (on_trades_ack E items w)" for items and w :: "('a, 'b) rst"
    unfolding on_trades_ack_def
    by (rule rt_kept.keep_fold) (simp add: on_trade_item_def Let_def rt_keeps_emit)
  have l: "rt_keeps S w (res_state (log_error og s x t w))" for og s x t and w :: "('a, 'b) rst"
    by simp
  have c: "rt_keeps S w (res_state (commit Slot_open_orders w))" for w :: "('a, 'b) rst"
    by (simp add: rt_keeps_emit)
  show "rt_keeps S w (res_state (rt_get_open_orders_ack E r w))"
    unfolding rt_get_open_orders_ack_def rt_same_defs
    by (intro rt_kept.keep_then rt_kept.keep_rt_response l o c)
  have d: "rt_keeps S w (stale_order_done w)" "rt_keeps S w (on_order_ack m w)"
    for m and w :: "('a, 'b) rst"
    by (simp_all add: stale_order_done_def on_order_ack_def Let_def rt_keeps_emit rt_keeps_self rt_keeps_emit2)
  show "rt_keeps S w (res_state (rt_get_order_ack E r c w))"
    unfolding rt_get_order_ack_def rt_same_defs
    by (intro rt_kept.keep_then rt_kept.keep_rt_response parsed_keeps [of "rt_keeps S"]) (simp_all add: d rt_keeps_emit)
  show "rt_keeps S w (res_state (rt_get_trades_ack E r w))"
    unfolding rt_get_trades_ack_def rt_same_defs
    by (intro rt_kept.keep_then rt_kept.keep_rt_response parsed_keeps [of "rt_keeps S"] l c) (simp_all add: t)
  have x: "rt_keeps S w (on_open_orders_cancel_all_ack code msg i w)" for code msg and w :: "('a, 'b) rst"
    by (auto simp: on_open_orders_cancel_all_ack_def Let_def intro!: rt_intros)
  show "rt_keeps S w (res_state (rt_open_orders_cancel_all_ack E r i w))"
    unfolding rt_open_orders_cancel_all_ack_def rt_same_defs
    by (intro rt_kept.keep_rt_response parsed_keeps [of "rt_keeps S"] l) (simp_all add: x split: prod.splits)
qed

lemma rt_keeps_queue: "rt_keeps S w (rt_timer E ti w)"
proof -
  note [simp] = rt_same_defs rt_kept.keep_refl
  have o: "rt_keeps S w (get_open_orders E ti w)" "rt_keeps S w (rt_get_trades E ti w)"
    for w :: "('a, 'b) rst"
    by (auto simp: get_open_orders_def rt_get_trades_def intro!: rt_intros)
  have k: "rt_keeps S w (request_stale_order E ti key w)" for key and w :: "('a, 'b) rst"
    by (auto simp: request_stale_order_def get_order_def Let_def intro!: rt_intros split: option.splits)
  have t: "rt_keeps S w (request_stale_orders E ti w)" for w :: "('a, 'b) rst"
    unfolding request_stale_orders_def by (rule rt_keeps_stale) (rule rt_kept.keep_fold, rule k)
  have p: "rt_keeps S w (if_pending E s f w)" if "\<And>w. rt_keeps S w (f w)" for s f and w :: "('a, 'b) rst"
    using that by (simp add: if_pending_def)
  show ?thesis
    by (auto simp: rt_timer_def rt_check_request_queue_def Let_def
        intro!: rt_kept.keep_trans [OF _ p] p o t)
qed

lemma rt_keeps_cancel_all: "rt_keeps S w (rt_open_orders_cancel_all E ti c i w)"
  unfolding rt_open_orders_cancel_all_def open_orders_cancel_all_def
  by (rule rt_kept.keep_fold) (auto simp: cancel_all_symbol_def Let_def intro!: rt_intros)

lemma rt_keeps_step: "rt_step (orders_in S) v w \<Longrightarrow> rt_keeps S v w"
proof (induction rule: rt_step.induct)
  case (rt_step_response E q cb w r i)
  then show ?case
    using rt_keeps_acks [of S E w r] by (cases cb) (simp_all add: rt_response_def rt_kept.keep_refl)
qed (auto simp: rt_connected_def rt_disconnected_def rt_same_defs oe_start_def oe_stop_def
    oe_set_connection_status_def oe_latency_def oe_message_begin_def oe_message_header_def
    add_rate_limit_def oe_message_end_def Let_def rt_keeps_queue
    rt_keeps_stale [OF rt_kept.keep_refl]
    rt_keeps_cancel_all [unfolded rt_open_orders_cancel_all_def]
    intro!: rt_intros split: option.splits)

lemma rt_keeps_run: "rt_run (orders_in S) v w \<Longrightarrow> rt_keeps S v w"
  by (induction rule: rt_run.induct) (auto intro: rt_kept.keep_trans rt_kept.keep_refl rt_keeps_step)

end
