(* ===== verification/Rest_Trade_Properties.thy ===== *)
theory Rest_Trade_Properties
  imports Rest_Trade Web_Socket_Properties User_Stream_Properties
begin

text \<open>
  The properties of the REST connection of an account that trades over the WebSocket API. Both
  say how it plays together with another stream of the account.
\<close>

section \<open>The user stream waits for the trades\<close>

text \<open>
  C26: A user stream of such an account never becomes ready when trades are to be downloaded: its
  download has to wait for the slot of the trades, and the REST connection that is to
  answer never commits this slot, whatever happens to it. So no timer of the user stream
  makes it ready, as long as an answer in the slot presupposes a commit.
\<close>

theorem classic_waits_for_trades:
  assumes "download_contract (us_states US_Classic) L"
    and "rt_run (orders_in S) (rt_fresh stream_id acc sh details) r"
    and "st_download_trades_lookback (settings_of w) \<noteq> 0"
      "st_download_symbols (settings_of w) \<noteq> []"
    and "\<forall>(E, ti) \<in> set steps. ue_responded E Slot_trades \<longrightarrow> Slot_commit Slot_trades \<in> set (gw_out r)"
  shows "Slot_commit Slot_trades \<notin> set (gw_out r)
    \<and> \<not> stream_ready (fold (\<lambda>(E, ti). usc_timer E L ti) steps (us_ready L usc_download w))"
proof -
  have no: "Slot_commit Slot_trades \<notin> set (gw_out r)"
    using rt_keeps_run [OF assms(2)] by (auto simp: rt_keeps_def rt_fresh_def)
  have "us_held L (us_ready L usc_download w)"
    using assms(3,4) by (intro us_begin_held [OF assms(1)]) (simp add: us_trades_on_def)
  then have "us_held L (fold (\<lambda>(E, ti). usc_timer E L ti) steps (us_ready L usc_download w))"
    using us_timers_held [OF assms(1)] assms(5) no by fast
  then show ?thesis using no by (simp add: us_held_def)
qed

definition sample_rest :: "(rest_stream, unit) gw" where
  "sample_rest = rt_fresh 4 sample_account sample_shared []"

definition sample_lookback :: "((dc_state \<times> int \<times> bool), unit) us" where
  "sample_lookback = upd_shared (\<lambda>s. s\<lparr>sh_settings := (sh_settings s)
     \<lparr>st_download_trades_lookback := 1, st_download_symbols := [''BTCUSDT'']\<rparr>\<rparr>) (sample_user US_Classic)"

theorem classic_waits_for_trades_witness:
  "\<not> stream_ready (fold (\<lambda>(E, ti). usc_timer E (sample_download US_Classic) ti)
     [(sample_user_env\<lparr>ue_responded := \<lambda>s. s \<noteq> Slot_trades\<rparr>, sample_trace 1)]
     (us_ready (sample_download US_Classic) usc_download sample_lookback))"
proof -
  have C: "download_contract (us_states US_Classic) (sample_download US_Classic)"
    by (simp only: sample_download_def plain_download_contract)
  have run: "rt_run (orders_in UNIV) (rt_fresh 4 sample_account sample_shared []) sample_rest"
    by (simp add: sample_rest_def rt_run_refl)
  show ?thesis
    by (rule classic_waits_for_trades [OF C run, THEN conjunct2]) (simp_all add: sample_lookback_def)
qed

section \<open>Cancel-all and the orders of the WebSocket connection\<close>

text \<open>
  C27: Cancelling all orders of a symbol does nothing for a symbol that only the WebSocket
  connection knows: the symbol of an order placed over the WebSocket is recorded there, while
  the REST connection, to which the request goes, sends requests for the symbols of
  its own downloads only. If no download has listed the symbol, the request has no effect at
  all, not even an acknowledgement.
\<close>

theorem cancel_all_misses_websocket_orders:
  assumes "rt_run (orders_in S) (rt_fresh stream_id acc sh details) r"
    and "ws_order_place E t source c rd request_id w = Ok v"
    and "co_symbol c \<notin> S" "co_symbol c \<noteq> []" "cx_symbol x = co_symbol c"
  shows "co_symbol c \<in> set (ws_open_orders_symbols (gw_self v))
    \<and> rt_open_orders_cancel_all F ti x request_id' r = r"
proof -
  have known: "set (oe_open_orders_symbols (gw_self r)) \<subseteq> S"
    using rt_keeps_run [OF assms(1)] by (simp add: rt_keeps_def rt_fresh_def rt_create_def)
  have "fold (cancel_all_symbol F ti x request_id') ss r = r" if "set ss \<subseteq> S" for ss
    using that
  proof (induction ss)
    case (Cons s ss)
    then have "s \<noteq> co_symbol c" using assms(3) by auto
    then show ?case using Cons assms(4,5) by (simp add: cancel_all_symbol_def)
  qed simp
  then have "rt_open_orders_cancel_all F ti x request_id' r = r"
    using known by (simp add: rt_open_orders_cancel_all_def open_orders_cancel_all_def)
  moreover have "co_symbol c \<in> set (ws_open_orders_symbols (gw_self v))"
    using assms(2) by (auto simp: ws_order_place_def ws_request_def Let_def split: if_splits)
  ultimately show ?thesis by blast
qed

theorem cancel_all_misses_websocket_orders_witness:
  "let w = upd_self (\<lambda>s. s\<lparr>sm_connection_status := ConnectionStatus_READY\<rparr>) sample_ws;
       v = res_state (ws_order_place sample_ws_env 1000000 3 sample_create sample_ref_data ''r'' w);
       x = \<lparr> cx_exchange = [], cx_symbol = ''BTCUSDT'', cx_side = Side_UNDEFINED \<rparr>
   in ''BTCUSDT'' \<in> set (ws_open_orders_symbols (gw_self v))
     \<and> rt_open_orders_cancel_all sample_env (sample_trace 1) x ''r'' sample_rest = sample_rest"
proof -
  let ?w = "upd_self (\<lambda>s. s\<lparr>sm_connection_status := ConnectionStatus_READY\<rparr>) sample_ws"
  let ?r = "ws_order_place sample_ws_env 1000000 3 sample_create sample_ref_data ''r'' ?w"
  have ok: "?r = Ok (res_state ?r)"
    by (simp add: ws_order_place_def stream_ready_def Let_def)
  have s: "co_symbol sample_create = ''BTCUSDT''" by (simp add: sample_create_def)
  show ?thesis
    using cancel_all_misses_websocket_orders [OF rt_run_refl ok, where S = "{}" and x =
        "\<lparr> cx_exchange = [], cx_symbol = ''BTCUSDT'', cx_side = Side_UNDEFINED \<rparr>"
        and F = sample_env]
    by (simp only: Let_def sample_rest_def) (simp add: s)
qed

end
