(* ===== verification/Order_Entry_Portfolio.thy ===== *)
theory Order_Entry_Portfolio
  imports Order_Entry_Classic
begin

text \<open>
  \<open>gateway/order_entry_portfolio.cpp\<close>: the REST connection of a portfolio margin account. It
  has the members of the classic order entry, except that it uses the paths of the portfolio
  margin API, publishes with margin mode \<open>PORTFOLIO\<close>, has one more list of positions to download,
  polls the balance, and has no countdown. Member functions with the text of the
  classic ones are defined by them.
\<close>

section \<open>Stream\<close>

record oe_portfolio = keyed_stream +
  op_balance_refresh :: nanoseconds

type_synonym ('z, 'q) ops = "('z oe_portfolio_scheme, 'q) gw"

type_synonym 'q op = "(oe_portfolio, 'q) gw"

definition op_create :: "u16 \<Rightarrow> account \<Rightarrow> oe_portfolio" where
  "op_create stream_id acc = \<lparr> sm_stream_id = stream_id, sm_account = acc,
     sm_connection_status = ConnectionStatus_UNDEFINED,
     oe_open_orders_symbols = [], oe_download_trades_is_first = True,
     oe_stale_orders_counter = 0, oe_listen_key = [],
     oe_listen_key_refresh = 0, op_balance_refresh = 0 \<rparr>"

definition op_start :: "('z, 'q) acs \<Rightarrow> ('z, 'q) acs" where
  "op_start = oe_start"

definition op_stop :: "('z, 'q) acs \<Rightarrow> ('z, 'q) acs" where
  "op_stop = oe_stop"

definition op_set_connection_status :: "connection_status \<Rightarrow> string \<Rightarrow> ('z, 'q) acs \<Rightarrow> ('z, 'q) acs" where
  "op_set_connection_status = oe_set_connection_status"

definition op_connected :: "('z, 'q) acs \<Rightarrow> ('z, 'q) acs" where
  "op_connected = oe_connected"

definition op_disconnected :: "('z, 'q) acs \<Rightarrow> ('z, 'q) acs" where
  "op_disconnected = oe_disconnected"

definition op_latency :: "nanoseconds \<Rightarrow> ('z, 'q) acs \<Rightarrow> ('z, 'q) acs" where
  "op_latency = oe_latency"

definition op_message_begin :: "('z, 'q) acs \<Rightarrow> ('z, 'q) acs" where
  "op_message_begin = oe_message_begin"

definition op_message_header :: "env \<Rightarrow> string \<Rightarrow> string \<Rightarrow> ('z, 'q) acs \<Rightarrow> ('z, 'q) acs" where
  "op_message_header = oe_message_header"

definition op_message_end :: "('z, 'q) acs \<Rightarrow> ('z, 'q) acs" where
  "op_message_end = oe_message_end"

text \<open>\<open>process_response\<close> and \<open>waf_limit_violation\<close>.\<close>

definition op_process_response ::
  "env \<Rightarrow> rest_response \<Rightarrow> ('c, 'q) error_handler \<Rightarrow> ('c, 'q) success_handler
    \<Rightarrow> ('c, 'q) gw \<Rightarrow> (exn, ('c, 'q) gw) res" where
  "op_process_response = process_response"

section \<open>Listen key\<close>

definition op_force_listen_key_refresh :: "trace_info \<Rightarrow> ('z, 'q) kst \<Rightarrow> ('z, 'q) kst" where
  "op_force_listen_key_refresh = force_listen_key_refresh"

definition op_get_listen_key :: "env \<Rightarrow> ('z, 'q) kst \<Rightarrow> ('z, 'q) kst" where
  "op_get_listen_key E w =
     emit (Rest_send (rest_get POST (ap_listen_key (api_papi (api_of w))) [] False w)
             (CB_listen_key (ge_sequence E)) ''listen-key'') w"

definition op_on_listen_key_ack :: "trace_info \<Rightarrow> string \<Rightarrow> ('z, 'q) kst \<Rightarrow> ('z, 'q) kst" where
  "op_on_listen_key_ack = on_listen_key_ack"

definition op_get_listen_key_ack ::
  "env \<Rightarrow> trace_info \<Rightarrow> rest_response \<Rightarrow> ('z, 'q) kst \<Rightarrow> (exn, ('z, 'q) kst) res" where
  "op_get_listen_key_ack = get_listen_key_ack"

definition op_refresh_listen_key :: "env \<Rightarrow> trace_info \<Rightarrow> ('z, 'q) kst \<Rightarrow> ('z, 'q) kst" where
  "op_refresh_listen_key E ti w =
     (if \<not> stream_ready w then w
      else if oe_listen_key_refresh (gw_self w) = 0
              \<or> ti_create_time ti < oe_listen_key_refresh (gw_self w) then w
      else op_get_listen_key E (upd_self (\<lambda>s. s\<lparr>oe_listen_key_refresh :=
             ti_create_time ti + st_rest_listen_key_refresh (settings_of w)\<rparr>) w))"

definition op_download :: "env \<Rightarrow> oe_state \<Rightarrow> ('z, 'q) kst \<Rightarrow> int \<times> ('z, 'q) kst" where
  "op_download E state w =
     (case state of
        OE_UNDEFINED \<Rightarrow> (0, w)
      | OE_LISTEN_KEY \<Rightarrow>
          (1, op_get_listen_key E
                (op_set_connection_status ConnectionStatus_DOWNLOADING ''LISTEN_KEY'' w))
      | OE_DONE \<Rightarrow> (0, op_set_connection_status ConnectionStatus_READY [] w))"

section \<open>Balances\<close>

text \<open>A request made by polling does not belong to the slot and its answer does not commit it.\<close>

definition op_get_account_balance :: "env \<Rightarrow> trace_info \<Rightarrow> bool \<Rightarrow> ('z, 'q) acs \<Rightarrow> ('z, 'q) acs" where
  "op_get_account_balance E ti polling w =
     emit (Rest_send (rest_get GET (ap_account_balance (api_papi (api_of w)))
             (acc_rest_signature (ge_crypto E) (sm_account (gw_self w)) ti) False w)
             (CB_balance_polling polling) ''account-balance'') w"

definition op_balance_funds :: "('z, 'q) acs \<Rightarrow> balance_item \<Rightarrow> funds_update" where
  "op_balance_funds w item =
     \<lparr> fu_stream_id = stream_of w, fu_account = name_of w, fu_currency = bi_asset item,
       fu_margin_mode = MarginMode_PORTFOLIO, fu_balance = bi_total_wallet_balance item,
       fu_hold = bi_balance item - bi_available_balance item,
       fu_unrealized_pnl =
         get_unrealized_pnl (bi_um_unrealized_pnl item) (bi_cm_unrealized_pnl item),
       fu_update_type = UpdateType_SNAPSHOT, fu_exchange_time_utc = bi_update_time item,
       fu_sending_time_utc = 0 \<rparr>"

definition op_on_account_balance_ack :: "balance_item list \<Rightarrow> ('z, 'q) acs \<Rightarrow> ('z, 'q) acs" where
  "op_on_account_balance_ack items w =
     fold (\<lambda>item w. emit (Pub_funds (op_balance_funds w item)) w) items w"

definition op_get_account_balance_ack ::
  "env \<Rightarrow> rest_response \<Rightarrow> bool \<Rightarrow> ('z, 'q) acs \<Rightarrow> (exn, ('z, 'q) acs) res" where
  "op_get_account_balance_ack E r polling w =
     and_then
       (op_process_response E r log_error
         (\<lambda>body. parsed (ge_balances E body) (\<lambda>items w. Ok (op_on_account_balance_ack items w))) w)
       (\<lambda>w. if \<not> polling then commit Slot_balances w else Ok w)"

section \<open>Positions\<close>

text \<open>The account has positions too; the field that is published there is the notional.\<close>

definition op_get_account_status :: "env \<Rightarrow> trace_info \<Rightarrow> ('z, 'q) acs \<Rightarrow> ('z, 'q) acs" where
  "op_get_account_status E ti w =
     emit (Rest_send (rest_get GET (ap_account_status (api_papi (api_of w)))
             (acc_rest_signature (ge_crypto E) (sm_account (gw_self w)) ti) False w)
             CB_account_status ''account'') w"

definition op_on_account_item :: "env \<Rightarrow> nanoseconds \<Rightarrow> position_item \<Rightarrow> ('z, 'q) acs \<Rightarrow> ('z, 'q) acs" where
  "op_on_account_item E update_time item w =
     (if ge_discard_symbol E (pi_symbol item) then w
      else emit (Pub_position
        \<lparr> pu_stream_id = stream_of w, pu_account = name_of w,
          pu_exchange = st_exchange (settings_of w), pu_symbol = pi_symbol item,
          pu_margin_mode = (if pi_isolated item then MarginMode_ISOLATED else MarginMode_PORTFOLIO),
          pu_long_quantity = fmax 0 (pi_notional item),
          pu_short_quantity = fmax 0 (- pi_notional item),
          pu_update_type = UpdateType_SNAPSHOT, pu_exchange_time_utc = update_time,
          pu_sending_time_utc = 0 \<rparr>) w)"

definition op_on_account_status_ack :: "env \<Rightarrow> account_status_msg \<Rightarrow> ('z, 'q) acs \<Rightarrow> ('z, 'q) acs" where
  "op_on_account_status_ack E ack w =
     fold (op_on_account_item E (as_update_time ack)) (as_positions ack) w"

definition op_get_account_status_ack :: "env \<Rightarrow> rest_response \<Rightarrow> ('z, 'q) acs \<Rightarrow> (exn, ('z, 'q) acs) res" where
  "op_get_account_status_ack E r w =
     and_then
       (op_process_response E r log_error
         (\<lambda>body. parsed (ge_account E body) (\<lambda>ack w. Ok (op_on_account_status_ack E ack w))) w)
       (commit Slot_positions)"

definition op_get_position :: "env \<Rightarrow> trace_info \<Rightarrow> ('z, 'q) acs \<Rightarrow> ('z, 'q) acs" where
  "op_get_position E ti w =
     emit (Rest_send (rest_get GET (ap_position_risk (api_papi (api_of w)))
             (acc_rest_signature (ge_crypto E) (sm_account (gw_self w)) ti) False w)
             CB_position ''position'') w"

definition op_on_position_item :: "env \<Rightarrow> position_item \<Rightarrow> ('z, 'q) acs \<Rightarrow> ('z, 'q) acs" where
  "op_on_position_item E item w =
     (if ge_discard_symbol E (pi_symbol item) then w
      else emit (Pub_position
        \<lparr> pu_stream_id = stream_of w, pu_account = name_of w,
          pu_exchange = st_exchange (settings_of w), pu_symbol = pi_symbol item,
          pu_margin_mode = MarginMode_PORTFOLIO,
          pu_long_quantity = fmax 0 (pi_position_amt item),
          pu_short_quantity = fmax 0 (- pi_position_amt item),
          pu_update_type = UpdateType_SNAPSHOT, pu_exchange_time_utc = pi_update_time item,
          pu_sending_time_utc = 0 \<rparr>) w)"

definition op_on_position_list :: "env \<Rightarrow> position_item list \<Rightarrow> ('z, 'q) acs \<Rightarrow> ('z, 'q) acs" where
  "op_on_position_list E items w = fold (op_on_position_item E) items w"

definition op_get_position_ack :: "env \<Rightarrow> rest_response \<Rightarrow> ('z, 'q) acs \<Rightarrow> (exn, ('z, 'q) acs) res" where
  "op_get_position_ack E r w =
     and_then
       (op_process_response E r log_error
         (\<lambda>body. parsed (ge_position_list E body) (\<lambda>items w. Ok (op_on_position_list E items w))) w)
       (commit Slot_positions_pm)"

section \<open>Orders\<close>

text \<open>
  Unlike the classic snapshot this one has the remaining quantity, and the average price only
  when something was traded.
\<close>

definition op_order_snapshot :: "env \<Rightarrow> ('z, 'q) acs \<Rightarrow> order_ack_msg \<Rightarrow> order_update" where
  "op_order_snapshot E w m =
     \<lparr> ou_account = name_of w, ou_exchange = st_exchange (settings_of w),
       ou_symbol = om_symbol m, ou_side = the (map_j_side (om_side m)),
       ou_margin_mode = MarginMode_PORTFOLIO,
       ou_order_type = the (map_j_order_type (om_type m)),
       ou_time_in_force = the (map_j_time_in_force (om_time_in_force m)),
       ou_create_time_utc = om_time m, ou_update_time_utc = om_update_time m,
       ou_external_order_id = create_external_order_id (om_symbol m) (om_order_id m),
       ou_client_order_id = om_client_order_id m,
       ou_order_status = the (map_j_order_status (om_status m)), ou_error = Error_UNDEFINED,
       ou_text = [], ou_quantity = om_orig_qty m, ou_price = om_price m,
       ou_stop_price = om_stop_price m,
       ou_remaining_quantity = om_orig_qty m - om_executed_qty m,
       ou_traded_quantity = om_executed_qty m,
       ou_average_traded_price =
         (if ge_compare E (om_executed_qty m) 0 = 0 then NaN else om_avg_price m),
       ou_last_traded_quantity = 0,
       ou_last_traded_price = 0, ou_last_liquidity = Liquidity_UNDEFINED,
       ou_update_type = UpdateType_SNAPSHOT, ou_sending_time_utc = 0 \<rparr>"

definition op_get_open_orders :: "env \<Rightarrow> trace_info \<Rightarrow> ('z, 'q) acs \<Rightarrow> ('z, 'q) acs" where
  "op_get_open_orders E ti w =
     emit (Rest_send (rest_get GET (ap_open_orders (api_papi (api_of w)))
             (acc_rest_signature (ge_crypto E) (sm_account (gw_self w)) ti) False w)
             CB_open_orders ''open-orders'') w"

definition op_on_open_order :: "env \<Rightarrow> order_ack_msg \<Rightarrow> ('z, 'q) rst \<Rightarrow> ('z, 'q) rst" where
  "op_on_open_order E m w =
     (if om_client_order_id m = [] then w
      else
        let w = upd_self (\<lambda>s. s\<lparr>oe_open_orders_symbols :=
                  set_emplace (om_symbol m) (oe_open_orders_symbols s)\<rparr>) w
        in emit (Pub_order (op_order_snapshot E w m) (stream_of w)) w)"

definition op_on_open_orders_ack :: "env \<Rightarrow> order_ack_msg list \<Rightarrow> ('z, 'q) rst \<Rightarrow> ('z, 'q) rst" where
  "op_on_open_orders_ack E items w = fold (op_on_open_order E) items w"

definition op_get_open_orders_ack ::
  "env \<Rightarrow> rest_response \<Rightarrow> ('z, 'q) rst \<Rightarrow> (exn, ('z, 'q) rst) res" where
  "op_get_open_orders_ack E r w =
     and_then
       (op_process_response E r log_error
         (\<lambda>body. parsed (ge_open_orders E body) (\<lambda>items w. Ok (op_on_open_orders_ack E items w))) w)
       (commit Slot_open_orders)"

definition op_get_order :: "env \<Rightarrow> trace_info \<Rightarrow> oms_order \<Rightarrow> ('z, 'q) acs \<Rightarrow> ('z, 'q) acs" where
  "op_get_order E ti ord w =
     (let query = get_order_url (oo_symbol ord) (oo_client_order_id ord)
                    (cl_ms (ge_crypto E) (st_rest_order_recv_window (settings_of w)))
      in emit (Rest_send (rest_get GET (ap_order (api_papi (api_of w)))
             (acc_rest_signature_query (ge_crypto E) (sm_account (gw_self w)) ti query) False w)
             (CB_order (oo_client_order_id ord)) ''order'') w)"

definition op_on_order_ack :: "env \<Rightarrow> order_ack_msg \<Rightarrow> ('z, 'q) acs \<Rightarrow> ('z, 'q) acs" where
  "op_on_order_ack E m w = emit (Pub_order (op_order_snapshot E w m) (stream_of w)) w"

definition op_get_order_ack ::
  "env \<Rightarrow> rest_response \<Rightarrow> string \<Rightarrow> ('z, 'q) rst \<Rightarrow> (exn, ('z, 'q) rst) res" where
  "op_get_order_ack E r client_order_id w =
     and_then
       (op_process_response E r
         (\<lambda>origin status error text w.
            Ok (emit (Pub_order (lost_order w client_order_id error text) (stream_of w)) w))
         (\<lambda>body. parsed (ge_order E body) (\<lambda>m w. Ok (op_on_order_ack E m w))) w)
       (\<lambda>w. Ok (stale_order_done w))"

section \<open>Trades\<close>

definition op_get_trades_of :: "env \<Rightarrow> trace_info \<Rightarrow> string \<Rightarrow> ('z, 'q) rst \<Rightarrow> ('z, 'q) rst" where
  "op_get_trades_of E ti symbol w =
     (let st = settings_of w;
          lookback = get_download_trades_lookback st (oe_download_trades_is_first (gw_self w));
          recv_window = to_ms (st_rest_order_recv_window st);
          end_time = to_ms (ti_create_time_utc ti);
          start_time = to_ms (end_time * 1000000 - lookback);
          limit = (if st_download_trades_limit st \<noteq> 0 then st_download_trades_limit st else 1000);
          body = user_trades_url symbol start_time end_time limit recv_window
      in emit (Rest_send (rest_get GET (ap_user_trades (api_papi (api_of w)))
             (acc_rest_signature_query (ge_crypto E) (sm_account (gw_self w)) ti body) True w)
             CB_trades ''trades'') w)"

definition op_get_trades :: "env \<Rightarrow> trace_info \<Rightarrow> ('z, 'q) rst \<Rightarrow> ('z, 'q) rst" where
  "op_get_trades E ti w = fold (op_get_trades_of E ti) (st_download_symbols (settings_of w)) w"

definition op_on_trade_item :: "env \<Rightarrow> trade_item \<Rightarrow> ('z, 'q) acs \<Rightarrow> ('z, 'q) acs" where
  "op_on_trade_item E item w =
     (let side = the (map_j_side (ti_side item));
          rd = ge_ref_data E (st_exchange (settings_of w)) (ti_symbol item);
          profit_loss = ge_profit_loss E side (ti_qty item) (ti_price item) (rd_multiplier rd);
          f = \<lparr> fi_exchange_time_utc = ti_time item,
                fi_external_trade_id = show_int (ti_id item), fi_quantity = ti_qty item,
                fi_price = ti_price item,
                fi_liquidity = (if ti_maker item then Liquidity_MAKER else Liquidity_TAKER),
                fi_commission_amount = ti_commission item,
                fi_commission_currency = ti_commission_asset item,
                fi_profit_loss_amount = profit_loss \<rparr>
      in emit (Pub_trade
        \<lparr> tu_stream_id = stream_of w, tu_account = name_of w, tu_order_id = 0,
          tu_exchange = st_exchange (settings_of w), tu_symbol = ti_symbol item, tu_side = side,
          tu_margin_mode = MarginMode_PORTFOLIO,
          tu_create_time_utc = ti_time item, tu_update_time_utc = ti_time item,
          tu_external_order_id = create_external_order_id (ti_symbol item) (ti_order_id item),
          tu_client_order_id = [],
          tu_fills = [f], tu_update_type = UpdateType_SNAPSHOT, tu_sending_time_utc = 0,
          tu_strategy_id = 0 \<rparr> (ge_source_none E)) w)"

definition op_on_trades_ack :: "env \<Rightarrow> trade_item list \<Rightarrow> ('z, 'q) acs \<Rightarrow> ('z, 'q) acs" where
  "op_on_trades_ack E items w = fold (op_on_trade_item E) items w"

definition op_get_trades_ack :: "env \<Rightarrow> rest_response \<Rightarrow> ('z, 'q) rst \<Rightarrow> (exn, ('z, 'q) rst) res" where
  "op_get_trades_ack E r w =
     and_then
       (op_process_response E r log_error
         (\<lambda>body. parsed (ge_trades E body) (\<lambda>items w.
            Ok (upd_self (\<lambda>s. s\<lparr>oe_download_trades_is_first := False\<rparr>)
                  (op_on_trades_ack E items w)))) w)
       (commit Slot_trades)"

section \<open>Order actions\<close>

definition op_order_place ::
  "env \<Rightarrow> trace_info \<Rightarrow> u8 \<Rightarrow> create_order \<Rightarrow> oms_order \<Rightarrow> ref_data \<Rightarrow> string \<Rightarrow> ('z, 'q) rst
    \<Rightarrow> (exn, ('z, 'q) rst) res" where
  "op_order_place E ti source c ord rd request_id w =
     (if \<not> stream_ready w then Throw (Oms_NotReady ''not ready'') w
      else
        let w = upd_self (\<lambda>s. s\<lparr>oe_open_orders_symbols :=
                  set_emplace (co_symbol c) (oe_open_orders_symbols s)\<rparr>) w
        in case order_place_url (st_assertions (settings_of w)) (ge_encoder E) c rd request_id
                  (to_ms (st_rest_order_recv_window (settings_of w)))
                  (api_self_trade_prevention (api_of w)) of
             None \<Rightarrow> Fatal ''assert'' w
           | Some body \<Rightarrow> Ok (emit (Rest_send
                 (rest_order E ti POST (ap_order (api_papi (api_of w))) body w)
                 (CB_order_place source (co_order_id c)) request_id) w))"

definition op_ack_order_update :: "('z, 'q) acs \<Rightarrow> order_msg \<Rightarrow> order_update" where
  "op_ack_order_update w m =
     \<lparr> ou_account = name_of w, ou_exchange = st_exchange (settings_of w),
       ou_symbol = om_symbol m, ou_side = the (map_j_side (om_side m)),
       ou_margin_mode = MarginMode_PORTFOLIO,
       ou_order_type = the (map_j_order_type (om_type m)),
       ou_time_in_force = the (map_j_time_in_force (om_time_in_force m)),
       ou_create_time_utc = 0, ou_update_time_utc = om_update_time m,
       ou_external_order_id = create_external_order_id (om_symbol m) (om_order_id m),
       ou_client_order_id = [],
       ou_order_status = the (map_j_order_status (om_status m)), ou_error = Error_UNDEFINED,
       ou_text = [], ou_quantity = om_orig_qty m, ou_price = om_price m,
       ou_stop_price = om_stop_price m, ou_remaining_quantity = NaN,
       ou_traded_quantity = om_executed_qty m,
       ou_average_traded_price = om_avg_price m, ou_last_traded_quantity = NaN,
       ou_last_traded_price = NaN, ou_last_liquidity = Liquidity_UNDEFINED,
       ou_update_type = UpdateType_INCREMENTAL, ou_sending_time_utc = 0 \<rparr>"

definition op_on_order_place_ack :: "order_msg \<Rightarrow> u8 \<Rightarrow> u64 \<Rightarrow> u32 \<Rightarrow> ('z, 'q) acs \<Rightarrow> ('z, 'q) acs" where
  "op_on_order_place_ack m user_id order_id version w =
     (let response = ack_response RequestType_CREATE_ORDER RequestStatus_ACCEPTED version m in
      if st_rest_drop_order_update (settings_of w)
      then emit (Pub_response response (stream_of w) user_id order_id) w
      else emit (Pub_response_order response (op_ack_order_update w m) (stream_of w) user_id order_id) w)"

definition op_place_success ::
  "env \<Rightarrow> u8 \<Rightarrow> u64 \<Rightarrow> u32 \<Rightarrow> ('z account_stream_scheme, 'q) success_handler" where
  "op_place_success E user_id order_id version body =
     parsed (ge_place E body) (\<lambda>m w. Ok (op_on_order_place_ack m user_id order_id version w))"

definition op_order_place_ack ::
  "env \<Rightarrow> rest_response \<Rightarrow> u8 \<Rightarrow> u64 \<Rightarrow> u32 \<Rightarrow> ('z, 'q) acs \<Rightarrow> (exn, ('z, 'q) acs) res" where
  "op_order_place_ack E r user_id order_id version =
     op_process_response E r (ack_error RequestType_CREATE_ORDER user_id order_id version)
       (op_place_success E user_id order_id version)"

text \<open>A modify request always carries all its fields.\<close>

definition op_order_modify ::
  "env \<Rightarrow> trace_info \<Rightarrow> u8 \<Rightarrow> modify_order \<Rightarrow> oms_order \<Rightarrow> ref_data \<Rightarrow> string \<Rightarrow> ('z, 'q) acs
    \<Rightarrow> (exn, ('z, 'q) acs) res" where
  "op_order_modify E ti source m ord rd request_id w =
     (if \<not> stream_ready w then Throw (Oms_NotReady ''not ready'') w
      else
        case order_modify_url (ge_encoder E) m ord rd
               (to_ms (st_rest_order_recv_window (settings_of w))) True of
          Inl e \<Rightarrow> Throw e w
        | Inr body \<Rightarrow> Ok (emit (Rest_send
            (rest_order E ti PUT (ap_order (api_papi (api_of w))) body w)
            (CB_order_modify source (mo_order_id m) (mo_version m)) request_id) w))"

definition op_on_order_modify_ack :: "order_msg \<Rightarrow> u8 \<Rightarrow> u64 \<Rightarrow> u32 \<Rightarrow> ('z, 'q) acs \<Rightarrow> ('z, 'q) acs" where
  "op_on_order_modify_ack m user_id order_id version w =
     (let response = ack_response RequestType_MODIFY_ORDER
            (the (map_j_order_status_to_request_status (om_status m))) version m in
      if re_request_status response \<noteq> RequestStatus_ACCEPTED
         \<or> st_rest_drop_order_update (settings_of w)
      then emit (Pub_response response (stream_of w) user_id order_id) w
      else emit (Pub_response_order response (op_ack_order_update w m) (stream_of w) user_id order_id) w)"

definition op_modify_success ::
  "env \<Rightarrow> u8 \<Rightarrow> u64 \<Rightarrow> u32 \<Rightarrow> ('z account_stream_scheme, 'q) success_handler" where
  "op_modify_success E user_id order_id version body =
     parsed (ge_modify E body) (\<lambda>m w.
       if modify_too_late (om_status m)
       then too_late user_id order_id version RequestType_MODIFY_ORDER w
       else if st_disable_fast_order_ack (settings_of w) then Ok w
       else Ok (op_on_order_modify_ack m user_id order_id version w))"

definition op_order_modify_ack ::
  "env \<Rightarrow> rest_response \<Rightarrow> u8 \<Rightarrow> u64 \<Rightarrow> u32 \<Rightarrow> ('z, 'q) acs \<Rightarrow> (exn, ('z, 'q) acs) res" where
  "op_order_modify_ack E r user_id order_id version =
     op_process_response E r (ack_error RequestType_MODIFY_ORDER user_id order_id version)
       (op_modify_success E user_id order_id version)"

definition op_order_cancel ::
  "env \<Rightarrow> trace_info \<Rightarrow> u8 \<Rightarrow> cancel_order \<Rightarrow> oms_order \<Rightarrow> string \<Rightarrow> ('z, 'q) acs \<Rightarrow> (exn, ('z, 'q) acs) res"
where
  "op_order_cancel E ti source c ord request_id w =
     (if \<not> stream_ready w then Throw (Oms_NotReady ''not ready'') w
      else
        let body = order_cancel_url ord (to_ms (st_rest_order_recv_window (settings_of w)))
        in Ok (emit (Rest_send
                 (rest_order E ti DELETE (ap_order (api_papi (api_of w))) body w)
                 (CB_order_cancel source (ca_order_id c) (ca_version c)) request_id) w))"

definition op_on_order_cancel_ack :: "order_msg \<Rightarrow> u8 \<Rightarrow> u64 \<Rightarrow> u32 \<Rightarrow> ('z, 'q) acs \<Rightarrow> ('z, 'q) acs" where
  "op_on_order_cancel_ack m user_id order_id version w =
     (let response = ack_response RequestType_CANCEL_ORDER RequestStatus_ACCEPTED version m in
      if st_rest_drop_order_update (settings_of w)
      then emit (Pub_response response (stream_of w) user_id order_id) w
      else emit (Pub_response_order response (op_ack_order_update w m) (stream_of w) user_id order_id) w)"

definition op_cancel_success ::
  "env \<Rightarrow> u8 \<Rightarrow> u64 \<Rightarrow> u32 \<Rightarrow> ('z account_stream_scheme, 'q) success_handler" where
  "op_cancel_success E user_id order_id version body =
     parsed (ge_cancel E body) (\<lambda>m w.
       if om_status m = JOrderStatus_FILLED
       then too_late user_id order_id version RequestType_CANCEL_ORDER w
       else if st_disable_fast_order_ack (settings_of w) then Ok w
       else Ok (op_on_order_cancel_ack m user_id order_id version w))"

definition op_order_cancel_ack ::
  "env \<Rightarrow> rest_response \<Rightarrow> u8 \<Rightarrow> u64 \<Rightarrow> u32 \<Rightarrow> ('z, 'q) acs \<Rightarrow> (exn, ('z, 'q) acs) res" where
  "op_order_cancel_ack E r user_id order_id version =
     op_process_response E r (ack_error RequestType_CANCEL_ORDER user_id order_id version)
       (op_cancel_success E user_id order_id version)"

definition op_cancel_all_symbol ::
  "env \<Rightarrow> trace_info \<Rightarrow> cancel_all_orders \<Rightarrow> string \<Rightarrow> string \<Rightarrow> ('z, 'q) rst \<Rightarrow> ('z, 'q) rst" where
  "op_cancel_all_symbol E ti c request_id symbol w =
     (if cx_symbol c \<noteq> [] \<and> symbol \<noteq> cx_symbol c then w
      else
        let body = all_open_orders_url symbol (to_ms (st_rest_order_recv_window (settings_of w)));
            w = emit (Rest_send
                  (rest_order E ti DELETE (ap_all_open_orders (api_papi (api_of w))) body w)
                  CB_open_orders_cancel_all request_id) w
        in emit (Pub_cancel_all_ack
             \<lparr> ck_stream_id = stream_of w, ck_account = name_of w, ck_exchange = cx_exchange c,
               ck_symbol = cx_symbol c, ck_side = cx_side c, ck_origin = Origin_GATEWAY,
               ck_request_status = RequestStatus_FORWARDED, ck_error = Error_UNDEFINED,
               ck_text = [], ck_request_id = request_id \<rparr>) w)"

definition op_open_orders_cancel_all ::
  "env \<Rightarrow> trace_info \<Rightarrow> cancel_all_orders \<Rightarrow> string \<Rightarrow> ('z, 'q) rst \<Rightarrow> ('z, 'q) rst" where
  "op_open_orders_cancel_all E ti c request_id w =
     fold (op_cancel_all_symbol E ti c request_id) (oe_open_orders_symbols (gw_self w)) w"

definition op_on_open_orders_cancel_all_ack :: "int \<Rightarrow> string \<Rightarrow> string \<Rightarrow> ('z, 'q) acs \<Rightarrow> ('z, 'q) acs" where
  "op_on_open_orders_cancel_all_ack = on_open_orders_cancel_all_ack"

definition op_open_orders_cancel_all_ack ::
  "env \<Rightarrow> rest_response \<Rightarrow> string \<Rightarrow> ('z, 'q) acs \<Rightarrow> (exn, ('z, 'q) acs) res" where
  "op_open_orders_cancel_all_ack = open_orders_cancel_all_ack"

section \<open>Request queue, timer and callbacks\<close>

definition op_request_stale_order :: "env \<Rightarrow> trace_info \<Rightarrow> u8 \<times> u64 \<Rightarrow> ('z, 'q) rst \<Rightarrow> ('z, 'q) rst" where
  "op_request_stale_order E ti key w =
     (case ge_find_order E (fst key) (snd key) of
        Some ord \<Rightarrow>
          upd_self (\<lambda>s. s\<lparr>oe_stale_orders_counter := Suc (oe_stale_orders_counter s)\<rparr>)
            (op_get_order E ti ord w)
      | None \<Rightarrow> w)"

definition op_request_stale_orders :: "env \<Rightarrow> trace_info \<Rightarrow> ('z, 'q) rst \<Rightarrow> ('z, 'q) rst" where
  "op_request_stale_orders E ti w =
     (fold (op_request_stale_order E ti) (gw_stale_orders w) w)\<lparr>gw_stale_orders := []\<rparr>"

definition op_check_request_queue :: "env \<Rightarrow> trace_info \<Rightarrow> ('z, 'q) rst \<Rightarrow> ('z, 'q) rst" where
  "op_check_request_queue E ti w =
     (let w = if_pending E Slot_balances (op_get_account_balance E ti False) w;
          w = if_pending E Slot_positions (op_get_account_status E ti) w;
          w = if_pending E Slot_positions_pm (op_get_position E ti) w;
          w = if_pending E Slot_open_orders (op_get_open_orders E ti) w;
          w = if_pending E Slot_stale_orders (op_request_stale_orders E ti) w
      in if_pending E Slot_trades (op_get_trades E ti) w)"

definition op_refresh_balance :: "env \<Rightarrow> trace_info \<Rightarrow> ('z, 'q) ops \<Rightarrow> ('z, 'q) ops" where
  "op_refresh_balance E ti w =
     (if \<not> stream_ready w then w
      else if st_poll_balance_freq (settings_of w) = 0 then w
      else if ti_create_time ti < op_balance_refresh (gw_self w) then w
      else op_get_account_balance E ti True
        (upd_self (\<lambda>s. s\<lparr>op_balance_refresh :=
           ti_create_time ti + st_poll_balance_freq (settings_of w)\<rparr>) w))"

definition op_timer :: "env \<Rightarrow> trace_info \<Rightarrow> ('z, 'q) ops \<Rightarrow> ('z, 'q) ops" where
  "op_timer E ti w =
     (if \<not> ge_refresh E \<or> \<not> stream_ready w then w
      else op_check_request_queue E ti (op_refresh_balance E ti (op_refresh_listen_key E ti w)))"

definition op_response ::
  "env \<Rightarrow> trace_info \<Rightarrow> rest_response \<Rightarrow> callback \<Rightarrow> string \<Rightarrow> ('z, 'q) kst \<Rightarrow> (exn, ('z, 'q) kst) res" where
  "op_response E ti r cb request_id w =
     (case cb of
        CB_listen_key sequence \<Rightarrow> op_get_listen_key_ack E ti r w
      | CB_balance_polling polling \<Rightarrow> op_get_account_balance_ack E r polling w
      | CB_account_status \<Rightarrow> op_get_account_status_ack E r w
      | CB_position \<Rightarrow> op_get_position_ack E r w
      | CB_open_orders \<Rightarrow> op_get_open_orders_ack E r w
      | CB_order client_order_id \<Rightarrow> op_get_order_ack E r client_order_id w
      | CB_trades \<Rightarrow> op_get_trades_ack E r w
      | CB_order_place user_id order_id \<Rightarrow> op_order_place_ack E r user_id order_id 1 w
      | CB_order_modify user_id order_id version \<Rightarrow> op_order_modify_ack E r user_id order_id version w
      | CB_order_cancel user_id order_id version \<Rightarrow> op_order_cancel_ack E r user_id order_id version w
      | CB_open_orders_cancel_all \<Rightarrow> op_open_orders_cancel_all_ack E r request_id w
      | _ \<Rightarrow> Ok w)"

lemmas op_same_defs =
  op_start_def op_stop_def op_set_connection_status_def op_connected_def op_disconnected_def
  op_latency_def op_message_begin_def op_message_header_def op_message_end_def
  op_force_listen_key_refresh_def op_on_listen_key_ack_def op_get_listen_key_ack_def
  op_on_open_orders_cancel_all_ack_def op_open_orders_cancel_all_ack_def

end
