(* ===== verification/Portfolio_Facts.thy ===== *)
theory Portfolio_Facts
  imports Order_Entry_Portfolio Order_Entry_Facts
begin

text \<open>
  The portfolio margin order entry: its steps, which requests they send, and the answers of its
  order handlers.
\<close>

section \<open>Steps\<close>

text \<open>
  As for the classic order entry. The shared data may change between the steps, but not
  the API.
\<close>

inductive op_step :: "('z, 'q) ops \<Rightarrow> ('z, 'q) ops \<Rightarrow> bool" where
  op_step_start: "op_step w (op_start w)"
| op_step_stop: "op_step w (op_stop w)"
| op_step_connected: "op_step w (op_connected w)"
| op_step_disconnected: "op_step w (op_disconnected w)"
| op_step_latency: "op_step w (op_latency sample w)"
| op_step_begin: "op_step w (op_message_begin w)"
| op_step_header: "op_step w (op_message_header E name v w)"
| op_step_end: "op_step w (op_message_end w)"
| op_step_download: "op_step w (snd (op_download E state w))"
| op_step_refresh: "op_step w (op_force_listen_key_refresh ti w)"
| op_step_timer: "op_step w (op_timer E ti w)"
| op_step_response: "op_step w (res_state (op_response E ti r cb request_id w))"
| op_step_place: "op_step w (res_state (op_order_place E ti source c ord rd request_id w))"
| op_step_modify: "op_step w (res_state (op_order_modify E ti source m ord rd request_id w))"
| op_step_cancel: "op_step w (res_state (op_order_cancel E ti source x ord request_id w))"
| op_step_cancel_all: "op_step w (op_open_orders_cancel_all E ti a request_id w)"
| op_step_shared: "sh_api (f (gw_shared w)) = api_of w \<Longrightarrow> op_step w (upd_shared f w)"
| op_step_stale: "op_step w (w\<lparr>gw_stale_orders := xs\<rparr>)"

inductive op_run :: "('z, 'q) ops \<Rightarrow> ('z, 'q) ops \<Rightarrow> bool" where
  op_run_refl: "op_run w w"
| op_run_step: "op_run u v \<Longrightarrow> op_step v w \<Longrightarrow> op_run u w"

definition op_fresh :: "u16 \<Rightarrow> account \<Rightarrow> 'q shared \<Rightarrow> (u8 \<times> u64) list \<Rightarrow> 'q op" where
  "op_fresh stream_id acc sh details =
     \<lparr> gw_self = op_create stream_id acc, gw_shared = sh, gw_stale_orders = details, gw_out = [] \<rparr>"

section \<open>Only paths of the portfolio margin API\<close>

fun papi_effect :: "api \<Rightarrow> effect \<Rightarrow> bool" where
  "papi_effect a (Rest_send q cb i) = (rq_path q \<in> set (papi_paths a))"
| "papi_effect a _ = True"

definition op_keeps :: "('c, 'q) gw \<Rightarrow> ('c, 'q) gw \<Rightarrow> bool" where
  "op_keeps v w \<longleftrightarrow> api_of w = api_of v
     \<and> (\<forall>e \<in> set (gw_out w). e \<in> set (gw_out v) \<or> papi_effect (api_of v) e)"

lemma op_keeps_emit: "papi_effect (api_of w) e \<Longrightarrow> op_keeps w (emit e w)"
  by (auto simp: op_keeps_def)

interpretation op_kept: kept_rest op_keeps
  by unfold_locales (auto simp: op_keeps_def)

lemma op_keeps_emit2: "op_keeps v w \<Longrightarrow> papi_effect (api_of w) e \<Longrightarrow> op_keeps v (emit e w)"
  by (rule op_kept.keep_trans [OF _ op_keeps_emit])

lemma op_keeps_self: "op_keeps v w \<Longrightarrow> op_keeps v (upd_self f w)"
  by (simp add: op_keeps_def)

lemma op_keeps_shared:
  "op_keeps v w \<Longrightarrow> sh_api (f (gw_shared w)) = api_of w \<Longrightarrow> op_keeps v (upd_shared f w)"
  by (simp add: op_keeps_def)

lemma op_keeps_stale: "op_keeps v w \<Longrightarrow> op_keeps v (w\<lparr>gw_stale_orders := xs\<rparr>)"
  by (simp add: op_keeps_def)

lemmas op_intros = op_keeps_emit2 op_keeps_self op_keeps_shared op_kept.keep_refl

text \<open>Requests.\<close>

lemmas request_defs = rest_get_def rest_order_def papi_paths_def Let_def

lemma op_keeps_gets:
  "op_keeps w (op_get_account_balance E ti polling w)" "op_keeps w (op_get_account_status E ti w)"
  "op_keeps w (op_get_position E ti w)" "op_keeps w (op_get_open_orders E ti w)"
  "op_keeps w (op_get_order E ti ord w)"
  by (simp_all add: op_get_account_balance_def op_get_account_status_def op_get_position_def
      op_get_open_orders_def op_get_order_def op_keeps_emit request_defs)

lemma op_keeps_get_trades: "op_keeps w (op_get_trades E ti w)"
  unfolding op_get_trades_def
  by (rule op_kept.keep_fold) (simp add: op_get_trades_of_def op_keeps_emit request_defs)

lemma op_keeps_listen_key: "op_keeps w (op_get_listen_key E w)"
  by (simp add: op_get_listen_key_def op_keeps_emit request_defs)

lemma op_keeps_stale_requests: "op_keeps w (op_request_stale_orders E ti w)"
  unfolding op_request_stale_orders_def
  by (rule op_keeps_stale [OF op_kept.keep_fold])
    (auto simp: op_request_stale_order_def op_keeps_gets op_kept.keep_refl intro: op_keeps_self
      split: option.splits)

lemma op_keeps_pending: "(\<And>w. op_keeps w (f w)) \<Longrightarrow> op_keeps v w \<Longrightarrow> op_keeps v (if_pending E s f w)"
  by (auto simp: if_pending_def intro: op_kept.keep_trans)

lemma op_keeps_timer:
  fixes w :: "('z, 'q) ops"
  shows "op_keeps w (op_timer E ti w)"
proof -
  have q: "op_keeps v (op_check_request_queue E ti v)" for v :: "('z, 'q) ops"
    unfolding op_check_request_queue_def Let_def
    by (intro op_keeps_pending op_keeps_gets op_keeps_get_trades op_keeps_stale_requests op_kept.keep_refl)
  have r: "op_keeps v (op_refresh_listen_key E ti v)" and b: "op_keeps v (op_refresh_balance E ti v)"
    for v :: "('z, 'q) ops"
    by (auto simp: op_refresh_listen_key_def op_refresh_balance_def op_kept.keep_refl
        intro: op_kept.keep_trans [OF op_keeps_self [OF op_kept.keep_refl] op_keeps_listen_key]
          op_kept.keep_trans [OF op_keeps_self [OF op_kept.keep_refl] op_keeps_gets(1)])
  show ?thesis
    using op_kept.keep_trans [OF op_kept.keep_trans [OF r b] q]
    by (simp add: op_timer_def op_kept.keep_refl)
qed

text \<open>Orders.\<close>

lemma op_keeps_orders:
  "op_keeps w (res_state (op_order_place E ti source c ord rd request_id w))"
  "op_keeps w (res_state (op_order_modify E ti source m ord rd request_id w))"
  "op_keeps w (res_state (op_order_cancel E ti source x ord request_id w))"
  by (simp_all add: op_order_place_def op_order_modify_def op_order_cancel_def request_defs
      op_kept.keep_refl op_keeps_emit op_keeps_emit2 op_keeps_self split: sum.split option.split)

lemma op_keeps_cancel_all: "op_keeps w (op_open_orders_cancel_all E ti c request_id w)"
  unfolding op_open_orders_cancel_all_def
  by (rule op_kept.keep_fold)
    (simp add: op_cancel_all_symbol_def request_defs op_kept.keep_refl op_keeps_emit op_keeps_emit2)

text \<open>Responses.\<close>

lemma op_keeps_error:
  "op_keeps w (res_state (log_error og s x t w))" "op_keeps w (res_state (ack_error rt u i v og s x t w))"
  by (simp_all add: log_error_def ack_error_def op_keeps_emit op_kept.keep_refl)

lemma op_keeps_done:
  "op_keeps w (res_state (commit s w))" "op_keeps w (stale_order_done w)"
  by (simp_all add: commit_def stale_order_done_def Let_def op_keeps_emit op_keeps_emit2 op_keeps_self
      op_kept.keep_refl)

lemma op_keeps_folds:
  "op_keeps w (op_on_account_balance_ack bs w)" "op_keeps w (op_on_account_status_ack E ack w)"
  "op_keeps w (op_on_position_list E ps w)" "op_keeps w (op_on_open_orders_ack E os w)"
  "op_keeps w (op_on_trades_ack E ts w)"
  unfolding op_on_account_balance_ack_def op_on_account_status_ack_def op_on_position_list_def
    op_on_open_orders_ack_def op_on_trades_ack_def
  by (rule op_kept.keep_fold, simp add: op_on_account_item_def op_on_position_item_def
      op_on_open_order_def op_on_trade_item_def Let_def op_keeps_emit op_keeps_emit2 op_keeps_self
      op_kept.keep_refl)+

lemma op_keeps_order_acks:
  "op_keeps w (res_state (op_place_success E u i v b w))"
  "op_keeps w (res_state (op_modify_success E u i v b w))"
  "op_keeps w (res_state (op_cancel_success E u i v b w))"
  unfolding op_place_success_def op_modify_success_def op_cancel_success_def
  by (rule parsed_keeps [of op_keeps]; simp add: op_on_order_place_ack_def op_on_order_modify_ack_def
      op_on_order_cancel_ack_def too_late_def ack_error_def Let_def op_keeps_emit op_kept.keep_refl)+

lemma op_keeps_downloads:
  "op_keeps w (res_state (op_get_account_balance_ack E r polling w))"
  "op_keeps w (res_state (op_get_account_status_ack E r w))"
  "op_keeps w (res_state (op_get_position_ack E r w))"
  "op_keeps w (res_state (op_get_open_orders_ack E r w))"
  "op_keeps w (res_state (op_get_order_ack E r client_order_id w))"
  "op_keeps w (res_state (op_get_trades_ack E r w))"
  unfolding op_get_account_balance_ack_def op_get_account_status_ack_def op_get_position_ack_def
    op_get_open_orders_ack_def op_get_order_ack_def op_get_trades_ack_def op_process_response_def
  by (intro op_kept.keep_then op_kept.keep_response parsed_keeps [of op_keeps];
      simp add: op_keeps_error op_keeps_done op_keeps_folds op_on_order_ack_def op_keeps_emit
        op_keeps_self op_kept.keep_refl)+

lemma op_keeps_key_ack: "op_keeps w (res_state (op_get_listen_key_ack E ti r w))"
  unfolding op_get_listen_key_ack_def get_listen_key_ack_def
  by (intro op_kept.keep_response parsed_keeps [of op_keeps];
      simp add: on_listen_key_ack_def Let_def op_keeps_emit op_keeps_emit2 op_keeps_self op_kept.keep_refl)

lemma op_keeps_response: "op_keeps w (res_state (op_response E ti r cb request_id w))"
proof -
  have "op_keeps w (res_state (op_open_orders_cancel_all_ack E r request_id w))"
    unfolding op_open_orders_cancel_all_ack_def open_orders_cancel_all_ack_def
    by (intro op_kept.keep_response parsed_keeps [of op_keeps])
      (simp_all add: op_keeps_error on_open_orders_cancel_all_ack_def op_keeps_emit op_kept.keep_refl
        split: prod.split)
  moreover have "op_keeps w (res_state (op_order_place_ack E r u i v w))"
    "op_keeps w (res_state (op_order_modify_ack E r u i v w))"
    "op_keeps w (res_state (op_order_cancel_ack E r u i v w))" for u i v
    unfolding op_order_place_ack_def op_order_modify_ack_def op_order_cancel_ack_def op_process_response_def
    by (rule op_kept.keep_response; simp add: op_keeps_error op_keeps_order_acks)+
  ultimately show ?thesis
    by (cases cb) (simp_all add: op_response_def op_keeps_downloads op_keeps_key_ack op_kept.keep_refl)
qed

lemma op_keeps_stream:
  "op_keeps w (snd (op_download E state w))"
  "op_keeps w (op_message_header E name v w)" "op_keeps w (op_message_end w)"
proof -
  show "op_keeps w (snd (op_download E state w))"
    by (cases state) (auto simp: op_download_def op_kept.keep_refl
        op_set_connection_status_def oe_set_connection_status_def Let_def
        intro!: op_kept.keep_trans [OF _ op_keeps_listen_key] op_intros)
  show "op_keeps w (op_message_header E name v w)"
    by (auto simp: op_message_header_def oe_message_header_def add_rate_limit_def Let_def
        intro!: op_intros split: option.splits)
  show "op_keeps w (op_message_end w)"
    by (auto simp: op_message_end_def oe_message_end_def intro!: op_intros)
qed

lemma op_keeps_step: "op_step v w \<Longrightarrow> op_keeps v w"
  by (induction rule: op_step.induct)
    (auto simp: op_start_def oe_start_def op_stop_def oe_stop_def op_connected_def oe_connected_def
      op_disconnected_def oe_disconnected_def op_latency_def oe_latency_def op_message_begin_def
      oe_message_begin_def op_force_listen_key_refresh_def force_listen_key_refresh_def
      oe_set_connection_status_def Let_def
      op_keeps_stream op_keeps_timer op_keeps_response op_keeps_orders op_keeps_cancel_all
      op_keeps_stale [OF op_kept.keep_refl] intro!: op_intros)

lemma op_keeps_run: "op_run v w \<Longrightarrow> op_keeps v w"
  by (induction rule: op_run.induct) (auto intro: op_kept.keep_trans op_kept.keep_refl op_keeps_step)

section \<open>One answer per order request\<close>

interpretation op_place: response_handler
  "ack_error RequestType_CREATE_ORDER u i v" "op_place_success E u i v"
  "responses u i" "answer_to RequestType_CREATE_ORDER v" "\<lambda>_. True"
  for u i v E
proof (rule response_handler.intro [OF responses_ack_error _ responses_suspend])
  fix w :: "('z, 'q) acs" and b
  show "(\<exists>w' a. op_place_success E u i v b w = Ok w'
         \<and> responses u i w' = responses u i w @ [a] \<and> answer_to RequestType_CREATE_ORDER v a)
      \<or> (\<exists>e w'. op_place_success E u i v b w = Throw e w' \<and> responses u i w' = responses u i w)"
    by (cases "ge_place E b")
      (auto simp: op_place_success_def op_on_order_place_ack_def answer_defs)
qed

interpretation op_modify: response_handler
  "ack_error RequestType_MODIFY_ORDER u i v" "op_modify_success E u i v"
  "responses u i" "answer_to RequestType_MODIFY_ORDER v"
  "\<lambda>w. \<not> st_disable_fast_order_ack (settings_of w)"
  for u i v E
proof (rule response_handler.intro [OF responses_ack_error _ responses_suspend])
  fix w :: "('z, 'q) acs" and b
  assume "\<not> st_disable_fast_order_ack (settings_of w)"
  then show "(\<exists>w' a. op_modify_success E u i v b w = Ok w'
         \<and> responses u i w' = responses u i w @ [a] \<and> answer_to RequestType_MODIFY_ORDER v a)
      \<or> (\<exists>e w'. op_modify_success E u i v b w = Throw e w' \<and> responses u i w' = responses u i w)"
    by (cases "ge_modify E b")
      (auto simp: op_modify_success_def op_on_order_modify_ack_def answer_defs)
qed

interpretation op_cancel: response_handler
  "ack_error RequestType_CANCEL_ORDER u i v" "op_cancel_success E u i v"
  "responses u i" "answer_to RequestType_CANCEL_ORDER v"
  "\<lambda>w. \<not> st_disable_fast_order_ack (settings_of w)"
  for u i v E
proof (rule response_handler.intro [OF responses_ack_error _ responses_suspend])
  fix w :: "('z, 'q) acs" and b
  assume "\<not> st_disable_fast_order_ack (settings_of w)"
  then show "(\<exists>w' a. op_cancel_success E u i v b w = Ok w'
         \<and> responses u i w' = responses u i w @ [a] \<and> answer_to RequestType_CANCEL_ORDER v a)
      \<or> (\<exists>e w'. op_cancel_success E u i v b w = Throw e w' \<and> responses u i w' = responses u i w)"
    by (cases "ge_cancel E b")
      (auto simp: op_cancel_success_def op_on_order_cancel_ack_def answer_defs)
qed

section \<open>The slots a response commits\<close>

fun slot_commits :: "effect list \<Rightarrow> slot list" where
  "slot_commits [] = []"
| "slot_commits (Slot_commit s # es) = s # slot_commits es"
| "slot_commits (_ # es) = slot_commits es"

lemma slot_commits_append [simp]: "slot_commits (es @ fs) = slot_commits es @ slot_commits fs"
  by (induction es rule: slot_commits.induct) simp_all

definition slots_same :: "('c, 'q) gw \<Rightarrow> ('c, 'q) gw \<Rightarrow> bool" where
  "slots_same v w \<longleftrightarrow> slot_commits (gw_out w) = slot_commits (gw_out v)"

interpretation slots_kept: kept_rest slots_same
  by unfold_locales (simp_all add: slots_same_def)

lemma slots_same_folds:
  "slots_same w (op_on_account_balance_ack bs w)" "slots_same w (op_on_account_status_ack E ack w)"
  "slots_same w (op_on_position_list E ps w)" "slots_same w (op_on_open_orders_ack E os w)"
  "slots_same w (op_on_trades_ack E ts w)"
  unfolding op_on_account_balance_ack_def op_on_account_status_ack_def op_on_position_list_def
    op_on_open_orders_ack_def op_on_trades_ack_def
  by (rule slots_kept.keep_fold, simp add: op_on_account_item_def op_on_position_item_def
      op_on_open_order_def op_on_trade_item_def Let_def slots_same_def)+

text \<open>The slot each callback of a download belongs to.\<close>

fun op_slot :: "callback \<Rightarrow> slot list" where
  "op_slot (CB_balance_polling polling) = (if polling then [] else [Slot_balances])"
| "op_slot CB_account_status = [Slot_positions]"
| "op_slot CB_position = [Slot_positions_pm]"
| "op_slot CB_open_orders = [Slot_open_orders]"
| "op_slot CB_trades = [Slot_trades]"
| "op_slot _ = []"

lemma commits_after:
  assumes "\<not> ends_process (settings_of w) r" "never_fatal succ"
    and "\<And>b w. slots_same w (res_state (succ b w))"
    and "\<And>w. \<exists>u. after w = Ok u \<and> slot_commits (gw_out u) = slot_commits (gw_out w) @ ss"
  shows "\<exists>v. and_then (process_response E r log_error succ w) after = Ok v
    \<and> slot_commits (gw_out v) = slot_commits (gw_out w) @ ss"
proof -
  obtain u where u: "process_response E r log_error succ w = Ok u"
    using process_response_returns [OF assms(1) _ assms(2), of log_error E] by auto
  have "slots_same w (res_state (process_response E r log_error succ w))"
    by (rule slots_kept.keep_response) (simp_all add: log_error_def slots_same_def assms(3) [unfolded slots_same_def])
  then show ?thesis using assms(4) [of u] by (simp add: u slots_same_def)
qed

end
