(* ===== verification/Portfolio_Properties.thy ===== *)
theory Portfolio_Properties
  imports Portfolio_Facts Sample_Env
begin

text \<open>
  The properties of the order entry of portfolio margin accounts, each with a witness where it
  has hypotheses.
\<close>

definition sample_op :: "unit op" where
  "sample_op = (op_fresh 3 sample_account sample_shared [])
     \<lparr> gw_self := (op_create 3 sample_account)\<lparr>sm_connection_status := ConnectionStatus_READY\<rparr> \<rparr>"

section \<open>Requests\<close>

text \<open>
  C33: Whatever happens to the order entry of a portfolio margin account, every request it sends
  goes to the portfolio margin API, never to the API of the plain futures account with the same
  keys.
\<close>

theorem portfolio_uses_papi:
  assumes "op_run (op_fresh stream_id acc sh details) w"
    and "sh_api sh \<in> {fapi_paths stp, dapi_paths stp}"
    and "(q, cb) \<in> set (rest_sent (gw_out w))"
  shows "take 9 (rq_path q) = ''/papi/v1/''"
proof -
  have sent: "\<exists>i. Rest_send q cb i \<in> set es" if "(q, cb) \<in> set (rest_sent es)" for es
    using that by (induction es rule: rest_sent.induct) auto
  obtain i where "Rest_send q cb i \<in> set (gw_out w)" using sent [OF assms(3)] by blast
  then have "papi_effect (sh_api sh) (Rest_send q cb i)"
    using op_keeps_run [OF assms(1)] by (auto simp: op_keeps_def op_fresh_def)
  then have "rq_path q \<in> set (papi_paths (sh_api sh))" by simp
  then show ?thesis using assms(2) by (auto simp: papi_paths_def fapi_paths_def dapi_paths_def Let_def)
qed

theorem portfolio_uses_papi_witness:
  "\<exists>q. rest_sent (gw_out (op_timer (sample_env\<lparr>ge_pending := \<lambda>s. s = Slot_positions_pm\<rparr>) (sample_trace 1)
      (op_set_connection_status ConnectionStatus_READY [] (op_fresh 3 sample_account sample_shared []))))
    = [(q, CB_position)] \<and> take 9 (rq_path q) = ''/papi/v1/''"
proof -
  let ?E = "sample_env\<lparr>ge_pending := \<lambda>s. s = Slot_positions_pm\<rparr>"
  let ?v = "snd (op_download sample_env OE_DONE (op_fresh 3 sample_account sample_shared []))"
  let ?w = "op_timer ?E (sample_trace 1) ?v"
  have v: "?v = op_set_connection_status ConnectionStatus_READY [] (op_fresh 3 sample_account sample_shared [])"
    by (simp add: op_download_def)
  have run: "op_run (op_fresh 3 sample_account sample_shared []) ?w"
    by (rule op_run_step [OF op_run_step [OF op_run_refl op_step_download] op_step_timer])
  have api: "sh_api sample_shared \<in> {fapi_paths JSelfTradePrevention_UNDEFINED_INTERNAL,
      dapi_paths JSelfTradePrevention_UNDEFINED_INTERNAL}"
    by (simp add: sample_shared_def)
  have "ge_refresh sample_env" "st_poll_balance_freq (sh_settings sample_shared) = 0"
    by (simp_all add: sample_env_def sample_shared_def sample_settings_def)
  then obtain q where q: "rest_sent (gw_out ?w) = [(q, CB_position)]"
    by (simp add: op_timer_def op_check_request_queue_def op_refresh_balance_def op_refresh_listen_key_def
        if_pending_def op_get_position_def op_download_def op_set_connection_status_def oe_set_connection_status_def
        stream_ready_def op_fresh_def op_create_def Let_def)
  then have "(q, CB_position) \<in> set (rest_sent (gw_out ?w))" by simp
  from portfolio_uses_papi [OF run api this] q show ?thesis unfolding v by blast
qed

text \<open>The state with the paths of the portfolio API in the place of those of the plain account.\<close>

definition papi_view :: "('c, 'q) gw \<Rightarrow> ('c, 'q) gw" where
  "papi_view w = upd_shared (\<lambda>s. s\<lparr>sh_api := (sh_api s)
     \<lparr> api_simple := (let p = api_papi (sh_api s) in
         \<lparr> as_listen_key = ap_listen_key p, as_account_balance = ap_account_balance p,
           as_account_status = ap_account_status p, as_open_orders = ap_open_orders p,
           as_user_trades = ap_user_trades p, as_order = ap_order p,
           as_all_open_orders = ap_all_open_orders p, as_countdown_cancel_all = [] \<rparr>),
       api_modify_order_full := True \<rparr>\<rparr>) w"

lemma papi_view_simps [simp]:
  "gw_self (papi_view w) = gw_self w" "settings_of (papi_view w) = settings_of w"
  "papi_view (emit e w) = emit e (papi_view w)" "papi_view (upd_self f w) = upd_self f (papi_view w)"
  "stream_ready (papi_view w) = stream_ready w"
  "as_order (api_simple (api_of (papi_view w))) = ap_order (api_papi (api_of w))"
  "as_all_open_orders (api_simple (api_of (papi_view w))) = ap_all_open_orders (api_papi (api_of w))"
  "api_self_trade_prevention (api_of (papi_view w)) = api_self_trade_prevention (api_of w)"
  "api_modify_order_full (api_of (papi_view w)) = True"
  by (simp_all add: papi_view_def emit_def upd_self_def upd_shared_def stream_ready_def Let_def)

text \<open>
  C32: The order actions of the two order entries are the same but for the paths: placing,
  modifying, cancelling and cancel-all of the portfolio one have the outcome and the effects
  that the classic ones have when the paths of the portfolio API stand in the place of its own and
  modify requests carry all fields.
\<close>

theorem portfolio_orders_as_classic:
  fixes w :: "('z, 'q) rst"
  shows "map_res (\<lambda>e. e) papi_view (op_order_place E ti source c ord rd request_id w)
     = order_place E ti source c ord rd request_id (papi_view w)
   \<and> map_res (\<lambda>e. e) papi_view (op_order_modify E ti source m ord rd request_id w)
     = order_modify E ti source m ord rd request_id (papi_view w)
   \<and> map_res (\<lambda>e. e) papi_view (op_order_cancel E ti source x ord request_id w)
     = order_cancel E ti source x ord request_id (papi_view w)
   \<and> papi_view (op_open_orders_cancel_all E ti a request_id w)
     = open_orders_cancel_all E ti a request_id (papi_view w)"
proof -
  note [simp] = rest_order_def Let_def
  have "papi_view (fold (op_cancel_all_symbol E ti a request_id) ss v)
      = fold (cancel_all_symbol E ti a request_id) ss (papi_view v)" for ss and v :: "('z, 'q) rst"
    by (induction ss arbitrary: v) (simp_all add: op_cancel_all_symbol_def cancel_all_symbol_def)
  moreover have "map_res (\<lambda>e. e) papi_view (op_order_modify E ti source m ord rd request_id w)
      = order_modify E ti source m ord rd request_id (papi_view w)"
    by (simp add: op_order_modify_def order_modify_def split: sum.split)
  ultimately show ?thesis
    by (simp add: op_order_place_def order_place_def op_order_cancel_def order_cancel_def
        op_open_orders_cancel_all_def open_orders_cancel_all_def
        del: order_place_url_eq_None split: option.split)
qed

section \<open>Answers\<close>

text \<open>
  C31: Whatever the exchange answers to a request to create, modify or cancel an order of a
  portfolio margin account, exactly one response to its user and order is published, of its
  type and version, unless the process ends or fast order acks are disabled.
\<close>

theorem portfolio_orders_answered_once:
  assumes "\<not> ends_process (settings_of w) r" "\<not> unexpected_ok E r"
    and "\<not> st_disable_fast_order_ack (settings_of w)"
    and "(cb, rt, v) \<in> {(CB_order_place u i, RequestType_CREATE_ORDER, 1),
      (CB_order_modify u i n, RequestType_MODIFY_ORDER, n),
      (CB_order_cancel u i n, RequestType_CANCEL_ORDER, n)}"
  shows "\<exists>w' a. op_response E ti r cb request_id w = Ok w'
    \<and> responses u i w' = responses u i w @ [a]
    \<and> re_request_type a = rt \<and> re_version a = v"
  using op_place.exactly_one [OF _ assms(1,2), where u = u and i = i and v = 1]
    op_modify.exactly_one [OF assms(3,1,2), where u = u and i = i and v = n]
    op_cancel.exactly_one [OF assms(3,1,2), where u = u and i = i and v = n] assms(4)
  by (auto simp: op_response_def op_order_place_ack_def op_order_modify_ack_def op_order_cancel_ack_def
      op_process_response_def answer_to_def)

theorem portfolio_orders_answered_once_witness:
  "\<exists>w' a. op_response sample_env (sample_trace 1) (sample_response 200 Category_SUCCESS)
      (CB_order_modify 1 7 2) ''id'' sample_op = Ok w'
    \<and> responses 1 7 w' = responses 1 7 sample_op @ [a]
    \<and> re_request_type a = RequestType_MODIFY_ORDER \<and> re_version a = 2"
  by (rule portfolio_orders_answered_once)
    (simp_all add: ends_process_def unexpected_ok_def sample_op_def op_fresh_def sample_defs)

text \<open>
  C34: The answer to a download of a portfolio margin account commits exactly the slot of the
  download, whatever the answer is; a balance that is polled between downloads commits none.
\<close>

theorem portfolio_downloads_commit:
  fixes w :: "('z, 'q) kst"
  assumes "\<not> ends_process (settings_of w) r"
    and "cb \<in> {CB_balance_polling polling, CB_account_status, CB_position, CB_open_orders, CB_trades}"
  shows "\<exists>v. op_response E ti r cb request_id w = Ok v
    \<and> slot_commits (gw_out v) = slot_commits (gw_out w) @ op_slot cb"
proof -
  have c: "\<exists>u. commit s v = Ok u \<and> slot_commits (gw_out u) = slot_commits (gw_out v) @ [s]"
    for s and v :: "('z, 'q) kst"
    by (simp add: commit_def)
  note after = commits_after [OF assms(1) never_fatal_parsed parsed_keeps [of slots_same]]
  have "slots_same v (upd_self f (op_on_trades_ack E ts v))" for f ts and v :: "('z, 'q) kst"
    using slots_same_folds(5) [of v E ts] by (simp add: slots_same_def)
  note same = this slots_same_folds slots_kept.keep_refl
  show ?thesis
  proof (cases "cb = CB_balance_polling polling")
    case True
    have "\<exists>v. op_get_account_balance_ack E r polling w = Ok v
        \<and> slot_commits (gw_out v) = slot_commits (gw_out w) @ op_slot (CB_balance_polling polling)"
      unfolding op_get_account_balance_ack_def op_process_response_def
      by (rule after) (cases polling; simp add: same c)+
    then show ?thesis by (simp add: True op_response_def)
  next
    case False
    with assms(2) show ?thesis
      by (auto simp: op_response_def op_get_account_status_ack_def
          op_get_position_ack_def op_get_open_orders_ack_def op_get_trades_ack_def
          op_process_response_def           same intro!: after c)
  qed
qed

theorem portfolio_downloads_commit_witness:
  "(\<exists>v. op_response sample_env (sample_trace 1) (sample_response 500 Category_SERVER_ERROR)
      (CB_balance_polling True) ''id'' sample_op = Ok v
    \<and> slot_commits (gw_out v) = slot_commits (gw_out sample_op) @ [])
   \<and> (\<exists>v. op_response sample_env (sample_trace 1) (sample_response 500 Category_SERVER_ERROR)
      CB_position ''id'' sample_op = Ok v
    \<and> slot_commits (gw_out v) = slot_commits (gw_out sample_op) @ [Slot_positions_pm])"
proof -
  have n: "\<not> ends_process (settings_of sample_op) (sample_response 500 Category_SERVER_ERROR)"
    by (simp add: ends_process_def sample_response_def)
  show ?thesis
    using portfolio_downloads_commit [OF n, of "CB_balance_polling True" True]
      portfolio_downloads_commit [OF n, of CB_position True] by simp
qed

section \<open>Positions\<close>

text \<open>
  The two downloads of positions contradict each other: for a position that is not isolated
  the account publishes the notional where the list of positions publishes the amount, under
  the same account, symbol and margin mode. With a positive notional that is not the amount,
  the long quantity is one thing after the one answer and another thing after the other.
\<close>

theorem portfolio_positions_disagree:
  assumes "\<not> ge_discard_symbol E (pi_symbol i)" "\<not> pi_isolated i" "pi_symbol j = pi_symbol i"
    and "pi_notional i = Fin x" "pi_position_amt j = Fin y" "0 < x" "0 < y" "x \<noteq> y"
  shows "\<exists>p q. gw_out (op_on_account_status_ack E \<lparr> as_update_time = t, as_positions = [i] \<rparr> w)
        = gw_out w @ [Pub_position p]
    \<and> gw_out (op_on_position_list E [j] w) = gw_out w @ [Pub_position q]
    \<and> pu_account p = pu_account q \<and> pu_symbol p = pu_symbol q \<and> pu_margin_mode p = pu_margin_mode q
    \<and> pu_long_quantity p \<noteq> pu_long_quantity q"
  using assms
  by (simp add: op_on_account_status_ack_def op_on_account_item_def op_on_position_list_def
      op_on_position_item_def fmax_def zero_double_def)

definition sample_position :: "double \<Rightarrow> double \<Rightarrow> position_item" where
  "sample_position amount notional = \<lparr> pi_symbol = ''BTCUSDT'', pi_isolated = False,
     pi_position_amt = amount, pi_notional = notional, pi_update_time = 0 \<rparr>"

theorem portfolio_positions_disagree_witness:
  "\<exists>p q. gw_out (op_on_account_status_ack sample_env
        \<lparr> as_update_time = 0, as_positions = [sample_position NaN (Fin 50000)] \<rparr> sample_op)
      = gw_out sample_op @ [Pub_position p]
    \<and> gw_out (op_on_position_list sample_env [sample_position (Fin 1) (Fin 50000)] sample_op)
      = gw_out sample_op @ [Pub_position q]
    \<and> pu_account p = pu_account q \<and> pu_symbol p = pu_symbol q \<and> pu_margin_mode p = pu_margin_mode q
    \<and> pu_long_quantity p \<noteq> pu_long_quantity q"
  by (rule portfolio_positions_disagree [where x = 50000 and y = 1])
    (simp_all add: sample_position_def sample_env_def)

end
