(* ===== verification/Market_Streams.thy ===== *)
theory Market_Streams
  imports Stream_Parsers Gw_World Gw_Controller "HOL-Library.AList"
begin

text \<open>
  \<open>gateway/market_data.cpp\<close> and \<open>gateway/market_data_2.cpp\<close>: the two classes of market data streams.
  The first has top of book, depth and single trades, the second aggregated trades, statistics,
  bars and liquidations. Both subscribe to the symbols of one slice.
\<close>

section \<open>The depth sequencer\<close>

text \<open>
  \<open>market::mbp::Sequencer\<close> is library code. A call gives the callbacks it makes, in order,
  whether it throws \<open>BadState\<close>, and its next state. With a snapshot comes what
  \<open>last_sequence()\<close> is at that time. (Changes to the order book inside a callback are not visible here.)
\<close>

datatype sq_call =
    SQ_update "mbp_level list" "mbp_level list"
  | SQ_snapshot "mbp_level list" "mbp_level list" int nat nanoseconds int
  | SQ_request nat

record 'q sequencer_lib =
  sq_new :: 'q
  sq_clear :: "'q \<Rightarrow> 'q"
  sq_depth_update ::
    "mbp_level list \<Rightarrow> mbp_level list \<Rightarrow> int \<Rightarrow> int \<Rightarrow> int \<Rightarrow> 'q \<Rightarrow> sq_call list \<times> bool \<times> 'q"
  sq_depth_image ::
    "mbp_level list \<Rightarrow> mbp_level list \<Rightarrow> int \<Rightarrow> bool \<Rightarrow> 'q \<Rightarrow> sq_call list \<times> bool \<times> 'q"

section \<open>Messages\<close>

record json_level =
  jl_price :: double
  jl_qty :: double

record trade_2 =
  t2_event_time :: nanoseconds
  t2_trade_time :: nanoseconds
  t2_symbol :: string
  t2_price :: double
  t2_quantity :: double
  t2_buyer_is_maker :: bool

record agg_trade = trade_2 +
  ag_agg_trade_id :: int

record book_ticker =
  bt_order_book_update_id :: int
  bt_event_time :: nanoseconds
  bt_transaction_time :: nanoseconds
  bt_symbol :: string
  bt_best_bid_price :: double
  bt_best_bid_qty :: double
  bt_best_ask_price :: double
  bt_best_ask_qty :: double

record depth_update =
  du_event_time :: nanoseconds
  du_transaction_time :: nanoseconds
  du_symbol :: string
  du_first_update_id :: int
  du_final_update_id :: int
  du_final_update_id_in_last_stream :: int
  du_bids :: "json_level list"
  du_asks :: "json_level list"

record mini_ticker =
  mi_event_time :: nanoseconds
  mi_symbol :: string
  mi_close_price :: double
  mi_open_price :: double
  mi_high_price :: double
  mi_low_price :: double
  mi_total_traded_base_asset_volume :: double

record mark_price_update =
  mp_event_time :: nanoseconds
  mp_symbol :: string
  mp_mark_price :: double
  mp_index_price :: double
  mp_est_settle_price :: double
  mp_funding_rate :: double
  mp_next_funding_time :: nanoseconds

record kline_data =
  kl_begin_time :: nanoseconds
  kl_symbol :: string
  kl_open_price :: double
  kl_close_price :: double
  kl_high_price :: double
  kl_low_price :: double
  kl_base_asset_volume :: double
  kl_number_of_trades :: int
  kl_closed :: bool
  kl_quote_asset_volume :: double

record kline =
  kn_event_time :: nanoseconds
  kn_data :: kline_data

record asset_index_update =
  ai_event_time :: nanoseconds
  ai_symbol :: string
  ai_bid_rate :: double
  ai_ask_rate :: double

record force_order_order =
  fo_symbol :: string
  fo_side :: j_side
  fo_price :: double
  fo_last_filled_quantity :: double
  fo_order_trade_time :: nanoseconds

record force_order =
  fo_event_time :: nanoseconds
  fo_order :: force_order_order

text \<open>
  \<open>me_slice\<close>: \<open>get_slice\<close> of the symbols, \<open>me_dispatched\<close>: the messages the subscription queue
  releases when it is asked, \<open>me_cast_seconds\<close>: \<open>utils::safe_cast\<close> of a time to seconds.
\<close>

record 'q market_env = env +
  me_parser :: parser_lib
  me_sequencer :: "'q sequencer_lib"
  me_error :: "json_value \<Rightarrow> exn + unit"
  me_result :: "json_value \<Rightarrow> exn + unit"
  me_trade :: "string \<Rightarrow> exn + trade_2"
  me_agg_trade :: "string \<Rightarrow> exn + agg_trade"
  me_mini_ticker :: "string \<Rightarrow> exn + mini_ticker"
  me_book_ticker :: "string \<Rightarrow> exn + book_ticker"
  me_depth_update :: "string \<Rightarrow> exn + depth_update"
  me_mark_price_update :: "string \<Rightarrow> exn + mark_price_update"
  me_kline :: "string \<Rightarrow> exn + kline"
  me_asset_index_update :: "string \<Rightarrow> exn + asset_index_update"
  me_force_order :: "string \<Rightarrow> exn + force_order"
  me_is_zero :: "double \<Rightarrow> bool"
  me_cast_seconds :: "nanoseconds \<Rightarrow> int"
  me_slice :: "nat \<Rightarrow> nat \<Rightarrow> string list"
  me_dispatched :: "string list"

section \<open>Streams\<close>

record market_stream =
  mk_stream_id :: u16
  mk_connection_status :: connection_status
  mk_index :: nat
  mk_request_id :: u64

record md1_stream = market_stream +
  mk_priority :: priority

record md2_stream = market_stream +
  mk_assets :: "string list"

type_synonym ('z, 'q) mks = "('z market_stream_scheme, 'q) gw"
type_synonym 'q mk1 = "(md1_stream, 'q) gw"
type_synonym 'q mk2 = "(md2_stream, 'q) gw"

definition mk1_create :: "u16 \<Rightarrow> priority \<Rightarrow> nat \<Rightarrow> md1_stream" where
  "mk1_create stream_id p index =
     \<lparr> mk_stream_id = stream_id, mk_connection_status = ConnectionStatus_UNDEFINED,
       mk_index = index, mk_request_id = ucast stream_id * 1000000, mk_priority = p \<rparr>"

definition mk2_create :: "u16 \<Rightarrow> nat \<Rightarrow> md2_stream" where
  "mk2_create stream_id index =
     \<lparr> mk_stream_id = stream_id, mk_connection_status = ConnectionStatus_UNDEFINED,
       mk_index = index, mk_request_id = ucast stream_id * 1000000, mk_assets = [] \<rparr>"

abbreviation mk_stream_of :: "('z, 'q) mks \<Rightarrow> u16" where
  "mk_stream_of w \<equiv> mk_stream_id (gw_self w)"

definition mk_ready :: "('z, 'q) mks \<Rightarrow> bool" where
  "mk_ready w = (mk_connection_status (gw_self w) = ConnectionStatus_READY)"

definition mk_start :: "('z, 'q) mks \<Rightarrow> ('z, 'q) mks" where
  "mk_start w = emit Conn_start w"

definition mk_stop :: "('z, 'q) mks \<Rightarrow> ('z, 'q) mks" where
  "mk_stop w = emit Conn_stop w"

definition mk_set_connection_status :: "connection_status \<Rightarrow> string \<Rightarrow> ('z, 'q) mks \<Rightarrow> ('z, 'q) mks" where
  "mk_set_connection_status status reason w =
     (let w = upd_self (\<lambda>s. s\<lparr>mk_connection_status := status\<rparr>) w in
      emit (Pub_stream_status \<lparr> ss_stream_id = mk_stream_of w, ss_account = [],
              ss_connection_status = status, ss_reason = reason \<rparr>) w)"

definition mk_check_subscribe_queue :: "'q market_env \<Rightarrow> ('z, 'q) mks \<Rightarrow> ('z, 'q) mks" where
  "mk_check_subscribe_queue E w = fold (\<lambda>message. emit (Ws_send message)) (me_dispatched E) w"

definition mk_timer :: "'q market_env \<Rightarrow> ('z, 'q) mks \<Rightarrow> ('z, 'q) mks" where
  "mk_timer E w =
     (if ge_refresh E then if mk_ready w then mk_check_subscribe_queue E w else w else w)"

definition mk_disconnected :: "('z, 'q) mks \<Rightarrow> ('z, 'q) mks" where
  "mk_disconnected w =
     emit (Queue_clear Queue_subscribe) (mk_set_connection_status ConnectionStatus_DISCONNECTED [] w)"

definition mk_latency :: "nanoseconds \<Rightarrow> ('z, 'q) mks \<Rightarrow> ('z, 'q) mks" where
  "mk_latency sample w = emit (Pub_external_latency (mk_stream_of w) [] sample) w"

definition mk_binary :: "('z, 'q) mks \<Rightarrow> (exn, ('z, 'q) mks) res" where
  "mk_binary w = Fatal ''Unexpected'' w"

section \<open>Subscriptions\<close>

text \<open>\<open>fmt::join\<close>.\<close>

fun fmt_join :: "string list \<Rightarrow> string \<Rightarrow> string" where
  "fmt_join [] sep = []"
| "fmt_join [s] sep = s"
| "fmt_join (s # t # ss) sep = s @ sep @ fmt_join (t # ss) sep"

text \<open>The text of a subscription; \<open>params\<close> is what stands between the outer quotes.\<close>

definition subscribe_text :: "string \<Rightarrow> u64 \<Rightarrow> string" where
  "subscribe_text params request_id =
     ''{'' @ ''\"method\":\"SUBSCRIBE\",'' @ ''\"params\":[\"'' @ params @ ''\"],''
       @ ''\"id\":'' @ show_nat (unat request_id) @ ''}''"

definition mk_push :: "(u64 \<Rightarrow> string) \<Rightarrow> ('z, 'q) mks \<Rightarrow> ('z, 'q) mks" where
  "mk_push message w =
     (let w = upd_self (\<lambda>s. s\<lparr>mk_request_id := mk_request_id s + 1\<rparr>) w
      in emit (Queue_push Queue_subscribe (message (mk_request_id (gw_self w)))) w)"

text \<open>
  That there are symbols to join is asserted, here and in the second class. The callers return when there
  are none.
\<close>

definition mk1_subscribe_channel :: "string list \<Rightarrow> string \<Rightarrow> ('z, 'q) mks \<Rightarrow> ('z, 'q) mks" where
  "mk1_subscribe_channel symbols channel =
     mk_push (subscribe_text
       (fmt_join symbols (''@'' @ channel @ ''\",\"'') @ ''@'' @ channel))"

definition mk1_subscribe_symbols :: "string list \<Rightarrow> 'q mk1 \<Rightarrow> 'q mk1" where
  "mk1_subscribe_symbols symbols w =
     (if symbols = [] then w
      else
        let w = mk1_subscribe_channel symbols ''bookTicker'' w;
            w = (if mk_priority (gw_self w) = Priority_PRIMARY
                 then if st_subscribe_trade_details (settings_of w)
                   then mk1_subscribe_channel symbols ''trade'' w else w
                 else w)
        in if st_subscribe_depth_levels (settings_of w) \<noteq> 0
           then mk1_subscribe_channel symbols
             (''depth@'' @ show_int (to_ms (st_subscribe_depth_freq (settings_of w))) @ ''ms'') w
           else w)"

definition mk1_subscribe :: "'q market_env \<Rightarrow> nat \<Rightarrow> 'q mk1 \<Rightarrow> 'q mk1" where
  "mk1_subscribe E start_from w =
     (if mk_ready w then mk1_subscribe_symbols (me_slice E (mk_index (gw_self w)) start_from) w else w)"

definition mk1_ready :: "'q market_env \<Rightarrow> 'q mk1 \<Rightarrow> 'q mk1" where
  "mk1_ready E w = mk1_subscribe E 0 (mk_set_connection_status ConnectionStatus_READY [] w)"

text \<open>The second class. A channel may have a frequency, which is appended in seconds.\<close>

definition mk2_postfix :: "nanoseconds \<Rightarrow> string" where
  "mk2_postfix freq = (if freq \<noteq> 0 then ''@'' @ show_int (to_s freq) @ ''s'' else [])"

definition mk2_subscribe_channel ::
  "string list \<Rightarrow> string \<Rightarrow> nanoseconds \<Rightarrow> ('z, 'q) mks \<Rightarrow> ('z, 'q) mks" where
  "mk2_subscribe_channel symbols channel freq =
     mk_push (subscribe_text
       (fmt_join symbols (''@'' @ channel @ mk2_postfix freq @ ''\",\"'')
         @ ''@'' @ channel @ mk2_postfix freq))"

definition mk2_subscribe_stream :: "string \<Rightarrow> ('z, 'q) mks \<Rightarrow> ('z, 'q) mks" where
  "mk2_subscribe_stream channel = mk_push (subscribe_text channel)"

definition mk2_subscribe_2 :: "string list \<Rightarrow> string \<Rightarrow> ('z, 'q) mks \<Rightarrow> ('z, 'q) mks" where
  "mk2_subscribe_2 assets channel =
     mk_push (subscribe_text
       (fmt_join assets (''@'' @ channel @ ''\",\"'') @ ''@'' @ channel))"

definition mk2_subscribe_symbols :: "string list \<Rightarrow> ('z, 'q) mks \<Rightarrow> ('z, 'q) mks" where
  "mk2_subscribe_symbols symbols w =
     (if symbols = [] then w
      else
        let w = (if \<not> st_subscribe_trade_details (settings_of w)
                 then mk2_subscribe_channel symbols ''aggTrade'' 0 w else w);
            w = mk2_subscribe_channel symbols ''markPrice'' (st_mark_price_freq (settings_of w)) w;
            w = mk2_subscribe_channel symbols ''miniTicker'' 0 w;
            w = (if st_time_series_lookback (settings_of w) \<noteq> 0
                 then fold (\<lambda>symbol. emit (Queue_push Queue_time_series symbol)) symbols
                        (mk2_subscribe_channel symbols ''kline_1m'' 0 w)
                 else w)
        in if mk_index (gw_self w) = 0 \<and> st_subscribe_force_order (settings_of w)
           then mk2_subscribe_stream ''!forceOrder@arr'' w else w)"

definition mk2_subscribe :: "'q market_env \<Rightarrow> nat \<Rightarrow> 'q mk2 \<Rightarrow> 'q mk2" where
  "mk2_subscribe E start_from w =
     (if mk_ready w then mk2_subscribe_symbols (me_slice E (mk_index (gw_self w)) start_from) w else w)"

text \<open>The assets come from the controller whenever the REST connection has new ones.\<close>

definition mk2_add_assets :: "string list \<Rightarrow> 'q mk2 \<Rightarrow> 'q mk2" where
  "mk2_add_assets assets w =
     (let start = length (mk_assets (gw_self w));
          w = upd_self (\<lambda>s. s\<lparr>mk_assets := mk_assets s @ map (map ascii_to_lower) assets\<rparr>) w
      in mk2_subscribe_2 (drop start (mk_assets (gw_self w))) ''assetIndex'' w)"

definition mk2_ready :: "'q market_env \<Rightarrow> 'q mk2 \<Rightarrow> 'q mk2" where
  "mk2_ready E w =
     (let w = mk2_subscribe E 0 (mk_set_connection_status ConnectionStatus_READY [] w)
      in if mk_assets (gw_self w) \<noteq> [] then mk2_subscribe_2 (mk_assets (gw_self w)) ''assetIndex'' w
         else w)"

section \<open>Trades and top of book\<close>

definition mk_publish :: "market_msg \<Rightarrow> ('z, 'q) mks \<Rightarrow> ('z, 'q) mks" where
  "mk_publish m w = emit (Pub_market (mk_stream_of w) (st_exchange (settings_of w)) m) w"

definition taker_side :: "bool \<Rightarrow> side" where
  "taker_side buyer_is_maker = (if buyer_is_maker then Side_SELL else Side_BUY)"

definition mk1_on_trade :: "'q market_env \<Rightarrow> trade_2 \<Rightarrow> ('z, 'q) mks \<Rightarrow> ('z, 'q) mks" where
  "mk1_on_trade E m w =
     (let w = emit Conn_touch w in
      if me_is_zero E (t2_quantity m) then w
      else mk_publish (MM_trade_summary (t2_symbol m)
        \<lparr> mt_forced_liquidation = False, mt_side = taker_side (t2_buyer_is_maker m),
          mt_price = t2_price m, mt_quantity = t2_quantity m, mt_trade_id = [] \<rparr>
        (t2_trade_time m) (t2_event_time m)) w)"

text \<open>\<open>get_instrument\<close> gives a reference: what the code does to it is stored.\<close>

definition mk_instrument :: "'q sequencer_lib \<Rightarrow> string \<Rightarrow> ('c, 'q) gw \<Rightarrow> 'q instrument" where
  "mk_instrument S symbol w =
     fst (get_instrument (sq_new S) symbol (sh_instruments (gw_shared w)))"

definition mk_store :: "string \<Rightarrow> 'q instrument \<Rightarrow> ('c, 'q) gw \<Rightarrow> ('c, 'q) gw" where
  "mk_store symbol i =
     upd_shared (\<lambda>s. s\<lparr>sh_instruments := AList.update symbol i (sh_instruments s)\<rparr>)"

definition mk1_on_book_ticker :: "'q market_env \<Rightarrow> book_ticker \<Rightarrow> ('z, 'q) mks \<Rightarrow> ('z, 'q) mks" where
  "mk1_on_book_ticker E m w =
     (let w = emit Conn_touch w;
          (passes, i) = tob_update (bt_order_book_update_id m)
                          (mk_instrument (me_sequencer E) (bt_symbol m) w);
          w = mk_store (bt_symbol m) i w
      in if \<not> passes then w
         else mk_publish (MM_top_of_book (bt_symbol m)
           (bt_best_bid_price m) (bt_best_bid_qty m) (bt_best_ask_price m) (bt_best_ask_qty m)
           (bt_transaction_time m) (bt_order_book_update_id m) (bt_event_time m)) w)"

section \<open>Depth\<close>

definition mbp_levels :: "json_level list \<Rightarrow> mbp_level list" where
  "mbp_levels items = map (\<lambda>i. \<lparr> ml_price = jl_price i, ml_quantity = jl_qty i \<rparr>) items"

definition request_snapshot :: "string \<Rightarrow> nat \<Rightarrow> ('c, 'q) gw \<Rightarrow> (exn, ('c, 'q) gw) res" where
  "request_snapshot symbol retries w =
     (if st_mbp_request_max_retries (settings_of w) \<noteq> 0
         \<and> unat (st_mbp_request_max_retries (settings_of w)) < retries
      then Fatal ''Unexpected'' w
      else Ok (emit (Queue_push Queue_depth symbol) w))"

fun mk1_sequencer_call ::
  "depth_update \<Rightarrow> sq_call \<Rightarrow> ('z, 'q) mks \<Rightarrow> (exn, ('z, 'q) mks) res" where
  "mk1_sequencer_call m (SQ_update bids asks) w =
     Ok (mk_publish (MM_by_price (du_symbol m) bids asks UpdateType_INCREMENTAL
           (du_transaction_time m) (du_final_update_id m) (du_event_time m)) w)"
| "mk1_sequencer_call m (SQ_snapshot bids asks sequence retries delay last_sequence) w =
     Ok (mk_publish (MM_by_price (du_symbol m) bids asks UpdateType_SNAPSHOT
           (du_transaction_time m) last_sequence (du_event_time m)) w)"
| "mk1_sequencer_call m (SQ_request retries) w = request_snapshot (du_symbol m) retries w"

text \<open>
  What follows a call of the sequencer: its callbacks, and after \<open>BadState\<close> a new start with a
  request for the whole book.
\<close>

definition sequencer_done ::
  "'q sequencer_lib \<Rightarrow> string \<Rightarrow> 'q instrument
    \<Rightarrow> (sq_call \<Rightarrow> ('c, 'q) gw \<Rightarrow> (exn, ('c, 'q) gw) res) \<Rightarrow> sq_call list \<times> bool \<times> 'q
    \<Rightarrow> ('c, 'q) gw \<Rightarrow> (exn, ('c, 'q) gw) res" where
  "sequencer_done S symbol i callback outcome w =
     (case outcome of (calls, bad_state, q) \<Rightarrow>
        and_then (for_each callback calls (mk_store symbol (i\<lparr>in_sequencer := q\<rparr>) w))
          (\<lambda>w. Ok (if bad_state
             then emit (Queue_push Queue_depth symbol)
                    (mk_store symbol (i\<lparr>in_sequencer := sq_clear S q\<rparr>) w)
             else w)))"

definition mk1_on_depth_update ::
  "'q market_env \<Rightarrow> depth_update \<Rightarrow> ('z, 'q) mks \<Rightarrow> (exn, ('z, 'q) mks) res" where
  "mk1_on_depth_update E m w =
     (let w = emit Conn_touch w;
          S = me_sequencer E;
          (passes, i) = mbp_update (du_final_update_id m) (mk_instrument S (du_symbol m) w);
          w = mk_store (du_symbol m) i w
      in if \<not> passes then Ok w
         else sequencer_done S (du_symbol m) i (mk1_sequencer_call m)
           (sq_depth_update S (mbp_levels (du_bids m)) (mbp_levels (du_asks m))
              (du_first_update_id m) (du_final_update_id m)
              (du_final_update_id_in_last_stream m) (in_sequencer i)) w)"

section \<open>The messages of the second class\<close>

definition mk2_on_agg_trade :: "'q market_env \<Rightarrow> agg_trade \<Rightarrow> ('z, 'q) mks \<Rightarrow> ('z, 'q) mks" where
  "mk2_on_agg_trade E m w =
     (let w = emit Conn_touch w in
      if me_is_zero E (t2_quantity m) then w
      else mk_publish (MM_trade_summary (t2_symbol m)
        \<lparr> mt_forced_liquidation = False, mt_side = taker_side (t2_buyer_is_maker m),
          mt_price = t2_price m, mt_quantity = t2_quantity m,
          mt_trade_id = show_int (ag_agg_trade_id m) \<rparr>
        (t2_trade_time m) (t2_event_time m)) w)"

definition plain_statistic :: "statistics_type \<Rightarrow> double \<Rightarrow> statistics" where
  "plain_statistic t v =
     \<lparr> sx_type = t, sx_value = v, sx_begin_time_utc = 0, sx_end_time_utc = 0 \<rparr>"

definition mk2_on_mini_ticker :: "mini_ticker \<Rightarrow> ('z, 'q) mks \<Rightarrow> ('z, 'q) mks" where
  "mk2_on_mini_ticker m w =
     mk_publish (MM_statistics (mi_symbol m)
       [plain_statistic HIGHEST_TRADED_PRICE (mi_high_price m),
        plain_statistic LOWEST_TRADED_PRICE (mi_low_price m),
        plain_statistic OPEN_PRICE (mi_open_price m),
        plain_statistic CLOSE_PRICE (mi_close_price m),
        plain_statistic TRADE_VOLUME (mi_total_traded_base_asset_volume m)]
       (mi_event_time m)) (emit Conn_touch w)"

definition mk2_on_mark_price_update ::
  "'q market_env \<Rightarrow> mark_price_update \<Rightarrow> ('z, 'q) mks \<Rightarrow> ('z, 'q) mks" where
  "mk2_on_mark_price_update E m w =
     mk_publish (MM_statistics (mp_symbol m)
       [plain_statistic SETTLEMENT_PRICE (mp_mark_price m),
        plain_statistic PRE_SETTLEMENT_PRICE (mp_est_settle_price m),
        plain_statistic INDEX_VALUE (mp_index_price m),
        \<lparr> sx_type = FUNDING_RATE, sx_value = mp_funding_rate m,
          sx_begin_time_utc = me_cast_seconds E (mp_event_time m),
          sx_end_time_utc = me_cast_seconds E (mp_next_funding_time m) \<rparr>]
       (mp_event_time m)) (emit Conn_touch w)"

definition mk2_on_kline :: "'q market_env \<Rightarrow> kline \<Rightarrow> ('z, 'q) mks \<Rightarrow> ('z, 'q) mks" where
  "mk2_on_kline E m w =
     (let w = emit Conn_touch w; d = kn_data m in
      if \<not> kl_closed d \<and> \<not> st_time_series_realtime (settings_of w) then w
      else mk_publish (MM_time_series (kl_symbol d)
        [\<lparr> br_begin_time_utc = me_cast_seconds E (kl_begin_time d), br_confirmed = kl_closed d,
           br_open_price = kl_open_price d, br_high_price = kl_high_price d,
           br_low_price = kl_low_price d, br_close_price = kl_close_price d,
           br_base_amount = kl_base_asset_volume d, br_quote_amount = kl_quote_asset_volume d,
           br_number_of_trades = kl_number_of_trades d \<rparr>]
        UpdateType_INCREMENTAL (kn_event_time m)) w)"

definition mk2_on_asset_index_update :: "asset_index_update \<Rightarrow> ('z, 'q) mks \<Rightarrow> ('z, 'q) mks" where
  "mk2_on_asset_index_update m w =
     mk_publish (MM_statistics (ai_symbol m)
       [plain_statistic HIGHEST_TRADED_PRICE (ai_ask_rate m),
        plain_statistic LOWEST_TRADED_PRICE (ai_bid_rate m)]
       (ai_event_time m)) (emit Conn_touch w)"

definition mk2_on_force_order :: "force_order \<Rightarrow> ('z, 'q) mks \<Rightarrow> ('z, 'q) mks" where
  "mk2_on_force_order m w =
     (let ord = fo_order m in
      mk_publish (MM_trade_summary (fo_symbol ord)
        \<lparr> mt_forced_liquidation = True, mt_side = the (map_j_side (fo_side ord)),
          mt_price = fo_price ord, mt_quantity = fo_last_filled_quantity ord, mt_trade_id = [] \<rparr>
        (fo_order_trade_time ord) (fo_event_time m)) (emit Conn_touch w))"

section \<open>Dispatch of messages\<close>

text \<open>
  The message object of an event is constructed before its handler is called. Errors and
  results of subscriptions are only logged; the messages of the other class end the process.
\<close>

definition mk_unexpected :: "'m \<Rightarrow> ('z, 'q) mks \<Rightarrow> (exn, ('z, 'q) mks) res" where
  "mk_unexpected m w = Fatal ''Unexpected'' w"

definition mk1_handle ::
  "'q market_env \<Rightarrow> market_event \<Rightarrow> ('z, 'q) mks \<Rightarrow> (exn, ('z, 'q) mks) res" where
  "mk1_handle E e =
     (case e of
        ME_error v i \<Rightarrow> parsed (me_error E v) (\<lambda>_ w. Ok w)
      | ME_result v i \<Rightarrow> parsed (me_result E v) (\<lambda>_ w. Ok w)
      | ME_trade text \<Rightarrow> parsed (me_trade E text) (\<lambda>m w. Ok (mk1_on_trade E m w))
      | ME_agg_trade text \<Rightarrow> parsed (me_agg_trade E text) mk_unexpected
      | ME_mini_ticker text \<Rightarrow> parsed (me_mini_ticker E text) mk_unexpected
      | ME_book_ticker text \<Rightarrow> parsed (me_book_ticker E text) (\<lambda>m w. Ok (mk1_on_book_ticker E m w))
      | ME_depth_update text \<Rightarrow> parsed (me_depth_update E text) (mk1_on_depth_update E)
      | ME_mark_price_update text \<Rightarrow> parsed (me_mark_price_update E text) mk_unexpected
      | ME_kline text \<Rightarrow> parsed (me_kline E text) mk_unexpected
      | ME_asset_index_update text \<Rightarrow> parsed (me_asset_index_update E text) mk_unexpected
      | ME_force_order text \<Rightarrow> parsed (me_force_order E text) mk_unexpected)"

definition mk2_handle ::
  "'q market_env \<Rightarrow> market_event \<Rightarrow> ('z, 'q) mks \<Rightarrow> (exn, ('z, 'q) mks) res" where
  "mk2_handle E e =
     (case e of
        ME_error v i \<Rightarrow> parsed (me_error E v) (\<lambda>_ w. Ok w)
      | ME_result v i \<Rightarrow> parsed (me_result E v) (\<lambda>_ w. Ok w)
      | ME_trade text \<Rightarrow> parsed (me_trade E text) mk_unexpected
      | ME_agg_trade text \<Rightarrow> parsed (me_agg_trade E text) (\<lambda>m w. Ok (mk2_on_agg_trade E m w))
      | ME_mini_ticker text \<Rightarrow> parsed (me_mini_ticker E text) (\<lambda>m w. Ok (mk2_on_mini_ticker m w))
      | ME_book_ticker text \<Rightarrow> parsed (me_book_ticker E text) mk_unexpected
      | ME_depth_update text \<Rightarrow> parsed (me_depth_update E text) mk_unexpected
      | ME_mark_price_update text \<Rightarrow>
          parsed (me_mark_price_update E text) (\<lambda>m w. Ok (mk2_on_mark_price_update E m w))
      | ME_kline text \<Rightarrow> parsed (me_kline E text) (\<lambda>m w. Ok (mk2_on_kline E m w))
      | ME_asset_index_update text \<Rightarrow>
          parsed (me_asset_index_update E text) (\<lambda>m w. Ok (mk2_on_asset_index_update m w))
      | ME_force_order text \<Rightarrow> parsed (me_force_order E text) (\<lambda>m w. Ok (mk2_on_force_order m w)))"

text \<open>
  \<open>parse\<close> of both classes. A text inside a message is shorter than the message, so its length
  bounds the nesting. An exception ends the process.
\<close>

definition mk_parse ::
  "'q market_env \<Rightarrow> (market_event \<Rightarrow> ('z, 'q) mks \<Rightarrow> (exn, ('z, 'q) mks) res) \<Rightarrow> string
    \<Rightarrow> ('z, 'q) mks \<Rightarrow> (exn, ('z, 'q) mks) res" where
  "mk_parse E handle message w =
     (let r = (case market_dispatch (Suc (length message)) (me_parser E)
                      (sh_allow_unknown_event_types (gw_shared w)) message of
                 Call e \<Rightarrow> handle e w
               | Handled \<Rightarrow> Ok w
               | Unhandled \<Rightarrow> Ok w
               | Exhausted \<Rightarrow> Fatal ''nesting'' w
               | Ends m \<Rightarrow> Fatal m w
               | Raises e \<Rightarrow> Throw e w)
      in case r of Throw e w \<Rightarrow> Fatal ''Unhandled'' w | done \<Rightarrow> done)"

text \<open>
  The two classes. Their texts agree in what the second class has in common with the first, up
  to the type of the stream.
\<close>

definition mk1_parse :: "'q market_env \<Rightarrow> string \<Rightarrow> 'q mk1 \<Rightarrow> (exn, 'q mk1) res" where
  "mk1_parse E = mk_parse E (mk1_handle E)"

definition mk2_parse :: "'q market_env \<Rightarrow> string \<Rightarrow> 'q mk2 \<Rightarrow> (exn, 'q mk2) res" where
  "mk2_parse E = mk_parse E (mk2_handle E)"

definition mk2_start :: "'q mk2 \<Rightarrow> 'q mk2" where
  "mk2_start = mk_start"

definition mk2_stop :: "'q mk2 \<Rightarrow> 'q mk2" where
  "mk2_stop = mk_stop"

definition mk2_set_connection_status :: "connection_status \<Rightarrow> string \<Rightarrow> 'q mk2 \<Rightarrow> 'q mk2" where
  "mk2_set_connection_status = mk_set_connection_status"

definition mk2_check_subscribe_queue :: "'q market_env \<Rightarrow> 'q mk2 \<Rightarrow> 'q mk2" where
  "mk2_check_subscribe_queue = mk_check_subscribe_queue"

definition mk2_timer :: "'q market_env \<Rightarrow> 'q mk2 \<Rightarrow> 'q mk2" where
  "mk2_timer = mk_timer"

definition mk2_disconnected :: "'q mk2 \<Rightarrow> 'q mk2" where
  "mk2_disconnected = mk_disconnected"

definition mk2_latency :: "nanoseconds \<Rightarrow> 'q mk2 \<Rightarrow> 'q mk2" where
  "mk2_latency = mk_latency"

definition mk2_binary :: "'q mk2 \<Rightarrow> (exn, 'q mk2) res" where
  "mk2_binary = mk_binary"

end
