(* ===== verification/Rest_Market.thy ===== *)
theory Rest_Market
  imports Market_Streams Rest_Trade Download_Library
begin

text \<open>
  \<open>gateway/rest.cpp\<close>: the REST connection for reference data and market data. It downloads the
  exchange information when it is up, announces new symbols and assets to the controller, and
  gets order books and histories of bars on request.
\<close>

section \<open>Messages and state\<close>

record exchange_rate_limit =
  xl_rate_limit_type :: j_rate_limit_type
  xl_interval :: j_interval
  xl_interval_num :: int
  xl_limit :: int

record exchange_filter =
  xf_filter_type :: j_filter_type
  xf_tick_size :: double
  xf_min_qty :: double
  xf_max_qty :: double
  xf_step_size :: double

record exchange_symbol =
  xs_symbol :: string
  xs_pair :: string
  xs_contract_type :: j_contract_type
  xs_delivery_date :: nanoseconds
  xs_onboard_date :: nanoseconds
  xs_status :: j_symbol_status
  xs_base_asset :: string
  xs_quote_asset :: string
  xs_margin_asset :: string
  xs_base_asset_precision :: u32
  xs_quote_precision :: u32
  xs_filters :: "exchange_filter list"
  xs_contract_status :: j_contract_status
  xs_contract_size :: double

record exchange_info =
  xi_server_time :: nanoseconds
  xi_rate_limits :: "exchange_rate_limit list"
  xi_symbols :: "exchange_symbol list"

record depth_ack =
  dk_last_update_id :: int
  dk_message_output_time :: nanoseconds
  dk_transaction_time :: nanoseconds
  dk_bids :: "json_level list"
  dk_asks :: "json_level list"

record kline_item =
  ki_begin_time :: nanoseconds
  ki_open_price :: double
  ki_high_price :: double
  ki_low_price :: double
  ki_close_price :: double
  ki_base_asset_volume :: double
  ki_quote_asset_volume :: double
  ki_number_of_trades :: int

text \<open>
  \<open>re_pow10 n\<close>: \<open>std::pow(10.0, -n)\<close>, \<open>re_cast_days\<close> and \<open>re_cast_seconds\<close>: \<open>utils::safe_cast\<close> of a time,
  \<open>re_depth_released\<close> and \<open>re_kline_released\<close>: the symbols that the two request queues release
  when they are asked. Of an asset index only the symbols are used.
\<close>

record 'q rest_env = env +
  re_sequencer :: "'q sequencer_lib"
  re_exchange_info :: "string \<Rightarrow> exn + exchange_info"
  re_asset_index :: "string \<Rightarrow> exn + string list"
  re_depth :: "string \<Rightarrow> exn + depth_ack"
  re_kline :: "string \<Rightarrow> exn + kline_item list"
  re_pow10 :: "u32 \<Rightarrow> double"
  re_cast_days :: "nanoseconds \<Rightarrow> int"
  re_cast_seconds :: "nanoseconds \<Rightarrow> int"
  re_depth_released :: "string list"
  re_kline_released :: "string list"

record 'd rest_market =
  rm_stream_id :: u16
  rm_connection_status :: connection_status
  rm_download :: 'd
  rm_assets :: "string list"

type_synonym ('d, 'q) rm = "('d rest_market, 'q) gw"
type_synonym 'd rest_lib = "(rest_state, 'd) download_lib"

definition rm_create :: "u16 \<Rightarrow> 'd \<Rightarrow> 'd rest_market" where
  "rm_create stream_id d =
     \<lparr> rm_stream_id = stream_id, rm_connection_status = ConnectionStatus_UNDEFINED,
       rm_download = d, rm_assets = [] \<rparr>"

abbreviation rm_stream_of :: "('d, 'q) rm \<Rightarrow> u16" where
  "rm_stream_of w \<equiv> rm_stream_id (gw_self w)"

abbreviation rm_download_of :: "('d, 'q) rm \<Rightarrow> 'd" where
  "rm_download_of w \<equiv> rm_download (gw_self w)"

definition rm_ready :: "('d, 'q) rm \<Rightarrow> bool" where
  "rm_ready w = (rm_connection_status (gw_self w) = ConnectionStatus_READY)"

section \<open>Stream\<close>

definition rm_start :: "('d, 'q) rm \<Rightarrow> ('d, 'q) rm" where
  "rm_start w = emit Conn_start w"

definition rm_stop :: "('d, 'q) rm \<Rightarrow> ('d, 'q) rm" where
  "rm_stop w = emit Conn_stop w"

definition rm_set_connection_status :: "connection_status \<Rightarrow> string \<Rightarrow> ('d, 'q) rm \<Rightarrow> ('d, 'q) rm" where
  "rm_set_connection_status status reason w =
     (let w = upd_self (\<lambda>s. s\<lparr>rm_connection_status := status\<rparr>) w in
      emit (Pub_stream_status \<lparr> ss_stream_id = rm_stream_of w, ss_account = [],
              ss_connection_status = status, ss_reason = reason \<rparr>) w)"

definition rm_latency :: "nanoseconds \<Rightarrow> ('d, 'q) rm \<Rightarrow> ('d, 'q) rm" where
  "rm_latency sample w = emit (Pub_external_latency (rm_stream_of w) [] sample) w"

definition rm_message_begin :: "('d, 'q) rm \<Rightarrow> ('d, 'q) rm" where
  "rm_message_begin w = upd_shared (\<lambda>s. s\<lparr>sh_rate_limits := []\<rparr>) w"

definition rm_message_header :: "'q rest_env \<Rightarrow> string \<Rightarrow> string \<Rightarrow> ('d, 'q) rm \<Rightarrow> ('d, 'q) rm" where
  "rm_message_header E name v w =
     (if ge_same_text E name ''x-mbx-used-weight-1m'' then
        (case ge_relaxed_u32 E v of
           Some n \<Rightarrow> upd_shared (\<lambda>s. s\<lparr>sh_rate_limits := sh_rate_limits s @
             [\<lparr> rl_type = RateLimit_REQUEST_WEIGHT, rl_period = minutes 1,
                rl_limit = sh_limits_request_weight_1m s, rl_value = n \<rparr>]\<rparr>) w
         | None \<Rightarrow> w)
      else w)"

definition rm_message_end :: "('d, 'q) rm \<Rightarrow> ('d, 'q) rm" where
  "rm_message_end w =
     (if sh_rate_limits (gw_shared w) = [] then w
      else upd_shared (\<lambda>s. s\<lparr>sh_rate_limits := []\<rparr>)
        (emit (Pub_rate_limits \<lparr> ru_stream_id = rm_stream_of w, ru_account = [],
                 ru_origin = Origin_EXCHANGE, ru_rate_limits = sh_rate_limits (gw_shared w) \<rparr>) w))"

text \<open>\<open>process_response\<close> has the text of the one of \<open>RestTrade\<close>.\<close>

definition rm_process_response ::
  "'q rest_env \<Rightarrow> rest_response \<Rightarrow> ('c, 'q) error_handler \<Rightarrow> ('c, 'q) success_handler
    \<Rightarrow> ('c, 'q) gw \<Rightarrow> (exn, ('c, 'q) gw) res" where
  "rm_process_response E r = rt_process_response E r"

section \<open>Requests\<close>

definition rm_get :: "string \<Rightarrow> string \<Rightarrow> rest_request" where
  "rm_get path query =
     \<lparr> rq_method = GET, rq_path = path, rq_query = query, rq_form = False, rq_headers = [],
       rq_body = [], rq_immediate = False \<rparr>"

definition rm_get_exchange_info :: "'d rest_lib \<Rightarrow> ('d, 'q) rm \<Rightarrow> ('d, 'q) rm" where
  "rm_get_exchange_info L w =
     emit (Rest_send (rm_get (am_exchange_info (api_market_data (api_of w))) [])
             (CB_exchange_info (dl_sequence L (rm_download_of w))) ''exchange-info'') w"

definition rm_get_asset_index :: "'d rest_lib \<Rightarrow> ('d, 'q) rm \<Rightarrow> ('d, 'q) rm" where
  "rm_get_asset_index L w =
     emit (Rest_send (rm_get (am_asset_index (api_market_data (api_of w))) [])
             (CB_asset_index (dl_sequence L (rm_download_of w))) ''asset-index'') w"

definition rm_get_depth :: "string \<Rightarrow> ('d, 'q) rm \<Rightarrow> ('d, 'q) rm" where
  "rm_get_depth symbol w =
     emit (Rest_send (rm_get (am_depth (api_market_data (api_of w)))
             (''?symbol='' @ symbol @ ''&limit=''
               @ show_nat (unat (st_subscribe_depth_levels (settings_of w)))))
             (CB_depth symbol) ''depth'') w"

definition rm_get_kline :: "string \<Rightarrow> ('d, 'q) rm \<Rightarrow> ('d, 'q) rm" where
  "rm_get_kline symbol w =
     emit (Rest_send (rm_get (am_kline (api_market_data (api_of w)))
             (''?symbol='' @ symbol @ ''&interval=1m''))
             (CB_kline symbol) ''kline'') w"

section \<open>Download\<close>

definition rm_call :: "'d rest_lib \<Rightarrow> rest_state \<Rightarrow> ('d, 'q) rm \<Rightarrow> int \<times> ('d, 'q) rm" where
  "rm_call L state w =
     (case state of
        RS_UNDEFINED \<Rightarrow> (0, w)
      | RS_EXCHANGE_INFO \<Rightarrow>
          (1, rm_get_exchange_info L
                (rm_set_connection_status ConnectionStatus_DOWNLOADING ''exchange-info'' w))
      | RS_ASSET_INDEX \<Rightarrow>
          (let w = rm_set_connection_status ConnectionStatus_DOWNLOADING ''asset-index'' w in
           if am_asset_index (api_market_data (api_of w)) = []
              \<or> \<not> st_subscribe_asset_index (settings_of w)
           then (0, w) else (1, rm_get_asset_index L w))
      | RS_DONE \<Rightarrow> (0, rm_set_connection_status ConnectionStatus_READY [] w))"

text \<open>There are four states, so four calls are enough.\<close>

definition rm_upd_download :: "('d \<Rightarrow> 'd) \<Rightarrow> ('d, 'q) rm \<Rightarrow> ('d, 'q) rm" where
  "rm_upd_download f = upd_self (\<lambda>s. s\<lparr>rm_download := f (rm_download s)\<rparr>)"

definition rm_send :: "'d rest_lib \<Rightarrow> rest_state download_cmd \<Rightarrow> ('d, 'q) rm \<Rightarrow> ('d, 'q) rm" where
  "rm_send L = dl_send 4 L (\<lambda>w. rm_download_of w) rm_upd_download (rm_call L)"

definition rm_connected :: "'d rest_lib \<Rightarrow> ('d, 'q) rm \<Rightarrow> ('d, 'q) rm" where
  "rm_connected L w =
     (if dl_downloading L (rm_download_of w) then rm_send L Download_bump w
      else rm_send L Download_begin w)"

definition rm_disconnected :: "'d rest_lib \<Rightarrow> ('d, 'q) rm \<Rightarrow> ('d, 'q) rm" where
  "rm_disconnected L w =
     (let w = rm_set_connection_status ConnectionStatus_DISCONNECTED [] w in
      if \<not> dl_downloading L (rm_download_of w) then rm_send L Download_reset w else w)"

text \<open>The error handler of both downloads.\<close>

definition rm_retry :: "'d rest_lib \<Rightarrow> rest_state \<Rightarrow> ('d rest_market, 'q) error_handler" where
  "rm_retry L state origin status error text w =
     Ok (if dl_downloading L (rm_download_of w) then rm_send L (Download_retry state) w else w)"

section \<open>Exchange information\<close>

definition rm_on_rate_limit :: "exchange_rate_limit \<Rightarrow> ('d, 'q) rm \<Rightarrow> ('d, 'q) rm" where
  "rm_on_rate_limit item w =
     (let minute = (xl_interval item = JInterval_MINUTE \<and> xl_interval_num item = 1);
          ten_seconds = (xl_interval item = JInterval_SECOND \<and> xl_interval_num item = 10);
          limit = of_int (xl_limit item);
          w = (if xl_rate_limit_type item = JRateLimitType_REQUEST_WEIGHT \<and> minute
               then upd_shared (\<lambda>s. s\<lparr>sh_limits_request_weight_1m := limit\<rparr>) w else w)
      in if xl_rate_limit_type item = JRateLimitType_ORDERS then
           let w = (if ten_seconds
                    then upd_shared (\<lambda>s. s\<lparr>sh_limits_create_order_10s := limit\<rparr>) w else w)
           in if minute then upd_shared (\<lambda>s. s\<lparr>sh_limits_create_order_1m := limit\<rparr>) w else w
         else w)"

text \<open>Tick size, minimum, maximum and step of the volume.\<close>

definition apply_filter ::
  "exchange_filter \<Rightarrow> double \<times> double \<times> double \<times> double \<Rightarrow> double \<times> double \<times> double \<times> double" where
  "apply_filter f t =
     (case t of (tick_size, min_vol, max_vol, step) \<Rightarrow>
        if xf_filter_type f = JFilterType_PRICE_FILTER then (xf_tick_size f, min_vol, max_vol, step)
        else if xf_filter_type f = JFilterType_LOT_SIZE
        then (tick_size, xf_min_qty f, xf_max_qty f, xf_step_size f)
        else t)"

definition settlement_currency :: "exchange_symbol \<Rightarrow> string" where
  "settlement_currency item =
     (if xs_margin_asset item = xs_base_asset item then xs_quote_asset item
      else xs_base_asset item)"

definition reference_data_of ::
  "'q rest_env \<Rightarrow> nanoseconds \<Rightarrow> bool \<Rightarrow> exchange_symbol \<Rightarrow> reference_data" where
  "reference_data_of E server_time discard item =
     (let step = re_pow10 E (xs_base_asset_precision item) in
      case fold apply_filter (xs_filters item) (re_pow10 E (xs_quote_precision item), step, NaN, step) of
        (tick_size, min_vol, max_vol, step) \<Rightarrow>
        \<lparr> rf_symbol = xs_symbol item,
          rf_security_type = the (map_j_contract_type (xs_contract_type item)),
          rf_base_currency = xs_base_asset item, rf_quote_currency = xs_quote_asset item,
          rf_settlement_currency = settlement_currency item,
          rf_margin_currency = xs_margin_asset item, rf_tick_size = tick_size,
          rf_multiplier = xs_contract_size item, rf_min_notional = NaN,
          rf_min_trade_vol = min_vol, rf_max_trade_vol = max_vol, rf_trade_vol_step_size = step,
          rf_underlying = xs_pair item, rf_issue_date = re_cast_days E (xs_onboard_date item),
          rf_settlement_date = re_cast_days E (xs_delivery_date item),
          rf_sending_time_utc = server_time, rf_discard = discard \<rparr>)"

definition rm_publish :: "market_msg \<Rightarrow> ('d, 'q) rm \<Rightarrow> ('d, 'q) rm" where
  "rm_publish m w = emit (Pub_market (rm_stream_of w) (st_exchange (settings_of w)) m) w"

text \<open>One symbol. The first component collects the names that are new, in lower case.\<close>

definition rm_on_symbol ::
  "'q rest_env \<Rightarrow> nanoseconds \<Rightarrow> exchange_symbol \<Rightarrow> string list \<times> ('d, 'q) rm \<Rightarrow> string list \<times> ('d, 'q) rm"
where
  "rm_on_symbol E server_time item acc =
     (case acc of (symbols, w) \<Rightarrow>
        let discard = ge_discard_symbol E (xs_symbol item);
            w = rm_publish (MM_reference_data (reference_data_of E server_time discard item)) w
        in if discard then (symbols, w)
           else
             let symbol = map ascii_to_lower (xs_symbol item);
                 is_new = symbol \<notin> set (sh_all_symbols (gw_shared w));
                 w = upd_shared (\<lambda>s. s\<lparr>sh_all_symbols := set_emplace symbol (sh_all_symbols s)\<rparr>) w;
                 w = rm_publish (MM_market_status (xs_symbol item)
                       (trading_status_helper (xs_status item) (xs_contract_status item))
                       server_time) w
             in (if is_new then symbols @ [symbol] else symbols, w))"

definition rm_on_exchange_info :: "'q rest_env \<Rightarrow> exchange_info \<Rightarrow> ('d, 'q) rm \<Rightarrow> ('d, 'q) rm" where
  "rm_on_exchange_info E m w =
     (case fold (rm_on_symbol E (xi_server_time m)) (xi_symbols m)
             ([], fold rm_on_rate_limit (xi_rate_limits m) w) of
        (symbols, w) \<Rightarrow> if symbols \<noteq> [] then emit (Ev_symbols_update symbols) w else w)"

definition rm_get_exchange_info_ack ::
  "'q rest_env \<Rightarrow> 'd rest_lib \<Rightarrow> rest_response \<Rightarrow> u32 \<Rightarrow> ('d, 'q) rm \<Rightarrow> (exn, ('d, 'q) rm) res" where
  "rm_get_exchange_info_ack E L r sequence =
     rm_process_response E r (rm_retry L RS_EXCHANGE_INFO)
       (\<lambda>body w. if dl_skip L (rm_download_of w) sequence RS_EXCHANGE_INFO then Ok w
          else parsed (re_exchange_info E body) (\<lambda>m w.
            Ok (rm_send L (Download_check RS_EXCHANGE_INFO) (rm_on_exchange_info E m w))) w)"

section \<open>Asset index\<close>

definition rm_on_asset :: "string \<Rightarrow> string list \<times> ('d, 'q) rm \<Rightarrow> string list \<times> ('d, 'q) rm" where
  "rm_on_asset asset acc =
     (case acc of (assets, w) \<Rightarrow>
        (if asset \<in> set (rm_assets (gw_self w)) then assets else assets @ [asset],
         upd_self (\<lambda>s. s\<lparr>rm_assets := set_emplace asset (rm_assets s)\<rparr>) w))"

definition rm_on_asset_index :: "string list \<Rightarrow> ('d, 'q) rm \<Rightarrow> ('d, 'q) rm" where
  "rm_on_asset_index items w =
     (case fold rm_on_asset items ([], w) of
        (assets, w) \<Rightarrow> if assets \<noteq> [] then emit (Ev_assets_update assets) w else w)"

definition rm_get_asset_index_ack ::
  "'q rest_env \<Rightarrow> 'd rest_lib \<Rightarrow> rest_response \<Rightarrow> u32 \<Rightarrow> ('d, 'q) rm \<Rightarrow> (exn, ('d, 'q) rm) res" where
  "rm_get_asset_index_ack E L r sequence =
     rm_process_response E r (rm_retry L RS_ASSET_INDEX)
       (\<lambda>body w. if dl_skip L (rm_download_of w) sequence RS_ASSET_INDEX then Ok w
          else parsed (re_asset_index E body) (\<lambda>m w.
            Ok (rm_send L (Download_check RS_ASSET_INDEX) (rm_on_asset_index m w))) w)"

section \<open>Order books\<close>

text \<open>There is no callback for incremental updates here.\<close>

fun rm_sequencer_call ::
  "string \<Rightarrow> depth_ack \<Rightarrow> sq_call \<Rightarrow> ('d, 'q) rm \<Rightarrow> (exn, ('d, 'q) rm) res" where
  "rm_sequencer_call symbol m (SQ_update bids asks) w = Ok w"
| "rm_sequencer_call symbol m (SQ_snapshot bids asks sequence retries delay last_sequence) w =
     Ok (rm_publish (MM_by_price symbol bids asks UpdateType_SNAPSHOT
           (dk_transaction_time m) last_sequence (dk_message_output_time m)) w)"
| "rm_sequencer_call symbol m (SQ_request retries) w = request_snapshot symbol retries w"

definition rm_on_depth ::
  "'q rest_env \<Rightarrow> string \<Rightarrow> depth_ack \<Rightarrow> ('d, 'q) rm \<Rightarrow> (exn, ('d, 'q) rm) res" where
  "rm_on_depth E symbol m w =
     (let S = re_sequencer E; i = mk_instrument S symbol w in
      sequencer_done S symbol i (rm_sequencer_call symbol m)
        (sq_depth_image S (mbp_levels (dk_bids m)) (mbp_levels (dk_asks m))
           (dk_last_update_id m) False (in_sequencer i)) w)"

definition rm_get_depth_ack ::
  "'q rest_env \<Rightarrow> rest_response \<Rightarrow> string \<Rightarrow> ('d, 'q) rm \<Rightarrow> (exn, ('d, 'q) rm) res" where
  "rm_get_depth_ack E r symbol =
     rm_process_response E r log_error
       (\<lambda>body. parsed (re_depth E body) (rm_on_depth E symbol))"

section \<open>Bars\<close>

definition kline_bar :: "'q rest_env \<Rightarrow> kline_item \<Rightarrow> bar" where
  "kline_bar E item =
     \<lparr> br_begin_time_utc = re_cast_seconds E (ki_begin_time item), br_confirmed = True,
       br_open_price = ki_open_price item, br_high_price = ki_high_price item,
       br_low_price = ki_low_price item, br_close_price = ki_close_price item,
       br_base_amount = ki_base_asset_volume item, br_quote_amount = ki_quote_asset_volume item,
       br_number_of_trades = ki_number_of_trades item \<rparr>"

definition rm_on_kline :: "'q rest_env \<Rightarrow> string \<Rightarrow> kline_item list \<Rightarrow> ('d, 'q) rm \<Rightarrow> ('d, 'q) rm" where
  "rm_on_kline E symbol items w =
     (let bars = map (kline_bar E) items in
      if bars \<noteq> [] then rm_publish (MM_time_series symbol bars UpdateType_SNAPSHOT 0) w else w)"

definition rm_get_kline_ack ::
  "'q rest_env \<Rightarrow> rest_response \<Rightarrow> string \<Rightarrow> ('d, 'q) rm \<Rightarrow> (exn, ('d, 'q) rm) res" where
  "rm_get_kline_ack E r symbol =
     rm_process_response E r log_error
       (\<lambda>body. parsed (re_kline E body) (\<lambda>items w. Ok (rm_on_kline E symbol items w)))"

section \<open>Request queue, timer and callbacks\<close>

definition rm_check_request_queue :: "'q rest_env \<Rightarrow> ('d, 'q) rm \<Rightarrow> ('d, 'q) rm" where
  "rm_check_request_queue E w =
     fold rm_get_kline (re_kline_released E) (fold rm_get_depth (re_depth_released E) w)"

definition rm_timer :: "'q rest_env \<Rightarrow> ('d, 'q) rm \<Rightarrow> ('d, 'q) rm" where
  "rm_timer E w =
     (if ge_refresh E then if rm_ready w then rm_check_request_queue E w else w else w)"

definition rm_response ::
  "'q rest_env \<Rightarrow> 'd rest_lib \<Rightarrow> rest_response \<Rightarrow> callback \<Rightarrow> ('d, 'q) rm \<Rightarrow> (exn, ('d, 'q) rm) res" where
  "rm_response E L r cb w =
     (case cb of
        CB_exchange_info sequence \<Rightarrow> rm_get_exchange_info_ack E L r sequence w
      | CB_asset_index sequence \<Rightarrow> rm_get_asset_index_ack E L r sequence w
      | CB_depth symbol \<Rightarrow> rm_get_depth_ack E r symbol w
      | CB_kline symbol \<Rightarrow> rm_get_kline_ack E r symbol w
      | _ \<Rightarrow> Ok w)"

end
