(* ===== verification/Market_Facts.thy ===== *)
theory Market_Facts
  imports Rest_Market
begin

text \<open>
  The market data streams: the texts of subscriptions, which updates pass, and what a call of the
  sequencer leads to.
\<close>

section \<open>What was queued and published\<close>

fun queued :: "queue \<Rightarrow> effect list \<Rightarrow> string list" where
  "queued q [] = []"
| "queued q (Queue_push p t # es) = (if p = q then t # queued q es else queued q es)"
| "queued q (_ # es) = queued q es"

lemma queued_append [simp]: "queued q (es @ fs) = queued q es @ queued q fs"
  by (induction q es rule: queued.induct) simp_all

text \<open>The sequence numbers of the tops of book published for a symbol.\<close>

fun book_ids :: "string \<Rightarrow> effect list \<Rightarrow> int list" where
  "book_ids s [] = []"
| "book_ids s (Pub_market i x (MM_top_of_book t a b c d u n v) # es) =
     (if t = s then n # book_ids s es else book_ids s es)"
| "book_ids s (_ # es) = book_ids s es"

lemma book_ids_append [simp]: "book_ids s (es @ fs) = book_ids s es @ book_ids s fs"
  by (induction s es rule: book_ids.induct) simp_all

section \<open>Subscriptions\<close>

text \<open>
  The request the exchange expects: a JSON object with a list of quoted stream names and an id.
\<close>

definition quoted :: "string \<Rightarrow> string" where
  "quoted s = ''\"'' @ s @ ''\"''"

definition stream_frame :: "string list \<Rightarrow> u64 \<Rightarrow> string" where
  "stream_frame streams request_id =
     ''{\"method\":\"SUBSCRIBE\",\"params\":['' @ fmt_join (map quoted streams) '',''
       @ ''],\"id\":'' @ show_nat (unat request_id) @ ''}''"

definition channel_of :: "string \<Rightarrow> string \<Rightarrow> string" where
  "channel_of c s = s @ ''@'' @ c"

lemma fmt_join_streams:
  "ss \<noteq> [] \<Longrightarrow> fmt_join (map (\<lambda>s. q @ s @ t @ q) ss) sep = q @ fmt_join ss (t @ q @ sep @ q) @ t @ q"
  by (induction ss "t @ q @ sep @ q" rule: fmt_join.induct) simp_all

lemma subscribe_text_frame:
  assumes "symbols \<noteq> []"
  shows "subscribe_text (fmt_join symbols (''@'' @ c @ ''\",\"'') @ ''@'' @ c) i
    = stream_frame (map (channel_of c) symbols) i"
  using fmt_join_streams [OF assms, of "''\"''" "''@'' @ c" "'',''"]
  by (simp add: subscribe_text_def stream_frame_def quoted_def channel_of_def comp_def)

text \<open>Frames with successive ids, one for each channel.\<close>

fun frames :: "u64 \<Rightarrow> string list list \<Rightarrow> string list" where
  "frames i [] = []"
| "frames i (s # ss) = stream_frame s (i + 1) # frames (i + 1) ss"

lemma frames_append [simp]: "frames i (ss @ ts) = frames i ss @ frames (i + of_nat (length ss)) ts"
  by (induction ss arbitrary: i) (simp_all add: algebra_simps)

definition mk_pushed :: "string list list \<Rightarrow> ('z, 'q) mks \<Rightarrow> ('z, 'q) mks \<Rightarrow> bool" where
  "mk_pushed ss v w \<longleftrightarrow> gw_shared w = gw_shared v
     \<and> mk_index (gw_self w) = mk_index (gw_self v)
     \<and> mk_request_id (gw_self w) = mk_request_id (gw_self v) + of_nat (length ss)
     \<and> queued Queue_subscribe (gw_out w) =
         queued Queue_subscribe (gw_out v) @ frames (mk_request_id (gw_self v)) ss"

lemma mk_pushed_push: "mk_pushed [s] w (mk_push (stream_frame s) w)"
  by (simp add: mk_pushed_def mk_push_def Let_def)

lemma mk_pushed_refl: "mk_pushed [] w w"
  by (simp add: mk_pushed_def)

lemma mk_pushed_trans: "mk_pushed ss u v \<Longrightarrow> mk_pushed ts v w \<Longrightarrow> mk_pushed (ss @ ts) u w"
  by (simp add: mk_pushed_def algebra_simps)

lemma channel_pushed:
  assumes "symbols \<noteq> []"
  shows "mk_pushed [map (channel_of c) symbols] w (mk1_subscribe_channel symbols c w)"
    "mk_pushed [map (channel_of c) symbols] w (mk2_subscribe_2 symbols c w)"
  using mk_pushed_push [of "map (channel_of c) symbols" w] subscribe_text_frame [OF assms, of c]
  by (simp_all add: mk1_subscribe_channel_def mk2_subscribe_2_def mk_push_def Let_def)

lemma stream_pushed: "mk_pushed [[c]] w (mk2_subscribe_stream c w)"
  using mk_pushed_push [of "[c]" w]
  by (simp add: mk2_subscribe_stream_def subscribe_text_def stream_frame_def quoted_def mk_push_def
      Let_def)

section \<open>The channels of a stream\<close>

lemma mk_status_same [simp]:
  "mk_index (gw_self (mk_set_connection_status s r w)) = mk_index (gw_self w)"
  "mk_request_id (gw_self (mk_set_connection_status s r w)) = mk_request_id (gw_self w)"
  "gw_shared (mk_set_connection_status s r w) = gw_shared w"
  "queued q (gw_out (mk_set_connection_status s r w)) = queued q (gw_out w)"
  "mk_ready (mk_set_connection_status s r w) \<longleftrightarrow> s = ConnectionStatus_READY"
  by (simp_all add: mk_set_connection_status_def mk_ready_def Let_def)

lemma mk_status_self [simp]:
  "mk_priority (gw_self (mk_set_connection_status s r v)) = mk_priority (gw_self v)"
  "mk_assets (gw_self (mk_set_connection_status s r w)) = mk_assets (gw_self w)"
  by (simp_all add: mk_set_connection_status_def Let_def)

definition mk1_channels :: "settings \<Rightarrow> priority \<Rightarrow> string list" where
  "mk1_channels st p =
     ''bookTicker'' # (if p = Priority_PRIMARY \<and> st_subscribe_trade_details st then [''trade''] else [])
       @ (if st_subscribe_depth_levels st \<noteq> 0
          then [''depth@'' @ show_int (to_ms (st_subscribe_depth_freq st)) @ ''ms''] else [])"

definition mk2_channels :: "settings \<Rightarrow> string list" where
  "mk2_channels st =
     (if st_subscribe_trade_details st then [] else [''aggTrade''])
       @ [''markPrice'' @ mk2_postfix (st_mark_price_freq st), ''miniTicker'']
       @ (if st_time_series_lookback st \<noteq> 0 then [''kline_1m''] else [])"

lemma mk_pushed_settings: "mk_pushed ss v w \<Longrightarrow> settings_of w = settings_of v"
  by (simp add: mk_pushed_def)

lemma channel_same [simp]:
  "settings_of (mk1_subscribe_channel symbols c w) = settings_of w"
  "mk_index (gw_self (mk1_subscribe_channel symbols c w)) = mk_index (gw_self w)"
  "settings_of (mk2_subscribe_2 symbols c w) = settings_of w"
  "mk_index (gw_self (mk2_subscribe_2 symbols c w)) = mk_index (gw_self w)"
  "settings_of (mk2_subscribe_channel symbols c f w) = settings_of w"
  "mk_index (gw_self (mk2_subscribe_channel symbols c f w)) = mk_index (gw_self w)"
  "queued Queue_time_series (gw_out (mk2_subscribe_channel symbols c f w))
     = queued Queue_time_series (gw_out w)"
  by (simp_all add: mk1_subscribe_channel_def mk2_subscribe_channel_def mk2_subscribe_2_def
      mk_push_def Let_def)

lemma mk1_channel_priority [simp]:
  "mk_priority (gw_self (mk1_subscribe_channel symbols c w)) = mk_priority (gw_self w)"
  by (simp add: mk1_subscribe_channel_def mk_push_def Let_def)

lemma mk2_channel_assets [simp]:
  "mk_assets (gw_self (mk2_subscribe_channel symbols c f w)) = mk_assets (gw_self w)"
  "mk_assets (gw_self (mk2_subscribe_stream c w)) = mk_assets (gw_self w)"
  by (simp_all add: mk2_subscribe_channel_def mk2_subscribe_stream_def mk_push_def Let_def)

lemma mk1_symbols_pushed:
  assumes "symbols \<noteq> []"
  shows "mk_pushed (map (\<lambda>c. map (channel_of c) symbols)
      (mk1_channels (settings_of w) (mk_priority (gw_self w)))) w (mk1_subscribe_symbols symbols w)"
proof -
  have one: "mk_pushed (s # ss) u w" if "mk_pushed [s] u v" "mk_pushed ss v w"
    for s ss and u v w :: "'a mk1"
    using mk_pushed_trans [OF that] by simp
  show ?thesis
    using assms
    by (auto simp: mk1_subscribe_symbols_def mk1_channels_def Let_def
        intro!: one [OF channel_pushed(1)] channel_pushed(1) mk_pushed_refl)
qed

lemma time_series_fold [simp]:
  "gw_self (fold (\<lambda>s. emit (Queue_push Queue_time_series s)) ss w) = gw_self w"
  "gw_shared (fold (\<lambda>s. emit (Queue_push Queue_time_series s)) ss w) = gw_shared w"
  "queued q (gw_out (fold (\<lambda>s. emit (Queue_push Queue_time_series s)) ss w))
     = queued q (gw_out w) @ (if q = Queue_time_series then ss else [])"
  by (induction ss arbitrary: w) simp_all

lemma mk_pushed_time_series:
  "mk_pushed ss v w \<Longrightarrow> mk_pushed ss v (fold (\<lambda>s. emit (Queue_push Queue_time_series s)) ts w)"
  "mk_pushed [[c]] v (mk2_subscribe_stream c (fold (\<lambda>s. emit (Queue_push Queue_time_series s)) ts v))"
  using stream_pushed [of c "fold (\<lambda>s. emit (Queue_push Queue_time_series s)) ts v"]
  by (simp_all add: mk_pushed_def)

lemma mk2_postfix_zero [simp]: "mk2_postfix 0 = []"
  by (simp add: mk2_postfix_def)

definition mk2_force :: "settings \<Rightarrow> nat \<Rightarrow> string list list" where
  "mk2_force st index =
     (if index = 0 \<and> st_subscribe_force_order st then [[''!forceOrder@arr'']] else [])"

lemma mk2_symbols_pushed:
  assumes "symbols \<noteq> []"
  shows "mk_pushed (map (\<lambda>c. map (channel_of c) symbols) (mk2_channels (settings_of w))
      @ mk2_force (settings_of w) (mk_index (gw_self w))) w (mk2_subscribe_symbols symbols w)"
    "queued Queue_time_series (gw_out (mk2_subscribe_symbols symbols w))
      = queued Queue_time_series (gw_out w)
        @ (if st_time_series_lookback (settings_of w) \<noteq> 0 then symbols else [])"
proof -
  have one: "mk_pushed (s # ss) u w" if "mk_pushed [s] u v" "mk_pushed ss v w"
    for s ss and u v w :: "('a, 'b) mks"
    using mk_pushed_trans [OF that] by simp
  have plain: "mk2_subscribe_channel symbols c f = mk2_subscribe_2 symbols (c @ mk2_postfix f)"
    for c f
    by (simp add: mk2_subscribe_channel_def mk2_subscribe_2_def)
  show "mk_pushed (map (\<lambda>c. map (channel_of c) symbols) (mk2_channels (settings_of w))
      @ mk2_force (settings_of w) (mk_index (gw_self w))) w (mk2_subscribe_symbols symbols w)"
    using assms
    by (auto simp: mk2_subscribe_symbols_def mk2_channels_def mk2_force_def Let_def plain
        intro!: one [OF channel_pushed(2)] mk_pushed_time_series stream_pushed channel_pushed(2) mk_pushed_refl)
  show "queued Queue_time_series (gw_out (mk2_subscribe_symbols symbols w))
      = queued Queue_time_series (gw_out w)
        @ (if st_time_series_lookback (settings_of w) \<noteq> 0 then symbols else [])"
    using assms
    by (simp add: mk2_subscribe_symbols_def mk2_subscribe_stream_def mk_push_def Let_def)
qed

lemma mk_symbols_none [simp]: "mk1_subscribe_symbols [] v = v" "mk2_subscribe_symbols [] w = w"
  by (simp_all add: mk1_subscribe_symbols_def mk2_subscribe_symbols_def)

lemma mk2_symbols_assets [simp]:
  "mk_assets (gw_self (mk2_subscribe_symbols symbols w)) = mk_assets (gw_self w)"
  by (simp add: mk2_subscribe_symbols_def Let_def)

lemma mk_pushed_status: "mk_pushed ss (mk_set_connection_status s r w) v = mk_pushed ss w v"
  by (simp add: mk_pushed_def)

definition mk2_frames :: "'q market_env \<Rightarrow> 'q mk2 \<Rightarrow> string list list" where
  "mk2_frames E w =
     (let symbols = me_slice E (mk_index (gw_self w)) 0 in
      (if symbols = [] then []
       else map (\<lambda>c. map (channel_of c) symbols) (mk2_channels (settings_of w))
         @ mk2_force (settings_of w) (mk_index (gw_self w)))
      @ (if mk_assets (gw_self w) = [] then []
         else [map (channel_of ''assetIndex'') (mk_assets (gw_self w))]))"

lemma mk1_ready_pushed:
  "mk_pushed (let symbols = me_slice E (mk_index (gw_self w)) 0 in
      if symbols = [] then []
      else map (\<lambda>c. map (channel_of c) symbols) (mk1_channels (settings_of w) (mk_priority (gw_self w))))
    w (mk1_ready E w)"
  using mk1_symbols_pushed [of "me_slice E (mk_index (gw_self w)) 0"
      "mk_set_connection_status ConnectionStatus_READY [] w"]
  by (auto simp: mk1_ready_def mk1_subscribe_def mk_pushed_status Let_def) (simp add: mk_pushed_def)

lemma mk2_ready_pushed: "mk_pushed (mk2_frames E w) w (mk2_ready E w)"
proof -
  let ?s = "me_slice E (mk_index (gw_self w)) 0"
  let ?x = "mk2_subscribe_symbols ?s (mk_set_connection_status ConnectionStatus_READY [] w)"
  have symbols: "mk_pushed (if ?s = [] then []
      else map (\<lambda>c. map (channel_of c) ?s) (mk2_channels (settings_of w))
        @ mk2_force (settings_of w) (mk_index (gw_self w))) w ?x"
    using mk2_symbols_pushed(1) [of ?s "mk_set_connection_status ConnectionStatus_READY [] w"]
    by (auto simp: mk_pushed_status) (simp add: mk_pushed_def)
  show ?thesis
    using symbols mk_pushed_trans [OF symbols channel_pushed(2)]
    by (simp add: mk2_ready_def mk2_subscribe_def mk2_frames_def Let_def)
qed

lemma mk2_ready_time_series:
  "queued Queue_time_series (gw_out (mk2_ready E w)) = queued Queue_time_series (gw_out w)
     @ (if st_time_series_lookback (settings_of w) = 0 then [] else me_slice E (mk_index (gw_self w)) 0)"
proof -
  have "queued Queue_time_series (gw_out (mk2_subscribe_2 symbols c v)) = queued Queue_time_series (gw_out v)"
    for symbols c and v :: "'a mk2"
    by (simp add: mk2_subscribe_2_def mk_push_def Let_def)
  then show ?thesis
    using mk2_symbols_pushed(2) [of "me_slice E (mk_index (gw_self w)) 0"
        "mk_set_connection_status ConnectionStatus_READY [] w"]
    by (cases "me_slice E (mk_index (gw_self w)) 0 = []")
      (simp_all add: mk2_ready_def mk2_subscribe_def Let_def)
qed

lemma add_assets_pushed:
  "mk_assets (gw_self w) = [] \<Longrightarrow> assets \<noteq> [] \<Longrightarrow>
     mk_pushed [map (channel_of ''assetIndex'') (map (map ascii_to_lower) assets)] w (mk2_add_assets assets w)
     \<and> mk_assets (gw_self (mk2_add_assets assets w)) = map (map ascii_to_lower) assets"
  using channel_pushed(2) [of "map (map ascii_to_lower) assets" "''assetIndex''"
      "upd_self (\<lambda>s. s\<lparr>mk_assets := mk_assets s @ map (map ascii_to_lower) assets\<rparr>) w"]
  by (simp add: mk2_add_assets_def Let_def mk_pushed_def)
    (simp add: mk2_subscribe_2_def mk_push_def Let_def)

section \<open>Nested messages\<close>

text \<open>What the texts inside a message are parsed to decides, and nothing else is out of bounds.\<close>

lemma market_scan_nested:
  "\<forall>k v m. Item k v \<in> set items \<longrightarrow> pl_text L v = Inr m \<longrightarrow> f m = g m \<and> g m \<noteq> Exhausted \<Longrightarrow>
     market_scan L allow f message items i = market_scan L allow g message items i
     \<and> market_scan L allow g message items i \<noteq> Inl Exhausted"
proof (induction L allow g message items i rule: market_scan.induct)
  case (3 L allow g message key v items i)
  have "market_event_type allow message t \<noteq> Some Exhausted" for t
    by (simp add: market_event_type_def split: j_event_type.split)
  moreover have "f m = g m \<and> g m \<noteq> Exhausted" if "pl_text L v = Inr m" for m
    using 3(2) that by auto
  ultimately show ?case
    using 3
    by (cases "pl_field L key")
      (auto simp: nested_outcome_def split: json_value.split sum.split option.split)
qed simp_all

definition nested_shorter :: "parser_lib \<Rightarrow> bool" where
  "nested_shorter L \<longleftrightarrow> (\<forall>message items k v m. pl_parse L message = Inr items \<longrightarrow>
     Item k v \<in> set items \<longrightarrow> pl_text L v = Inr m \<longrightarrow> length m < length message)"

lemma market_dispatch_stable:
  assumes "nested_shorter L"
  shows "length message < n \<Longrightarrow> market_dispatch n L allow message
      = market_dispatch (Suc (length message)) L allow message
    \<and> market_dispatch (Suc (length message)) L allow message \<noteq> Exhausted"
proof (induction "length message" arbitrary: message n rule: less_induct)
  case less
  obtain k where n: "n = Suc k" using less.prems by (cases n) auto
  let ?f = "market_dispatch k L allow" and ?g = "market_dispatch (length message) L allow"
  have same: "?f m = ?g m \<and> ?g m \<noteq> Exhausted" if "length m < length message" for m
    using less.hyps [OF that, of k] less.hyps [OF that that] that less.prems n by simp
  have scan: "market_scan L allow ?f message items i = market_scan L allow ?g message items i
      \<and> market_scan L allow ?g message items i \<noteq> Inl Exhausted"
    if "pl_parse L message = Inr items" for items i
    using assms same that by (intro market_scan_nested) (auto simp: nested_shorter_def)
  show ?case
    using scan by (auto simp: n Let_def split: sum.split)
qed

section \<open>Top of book\<close>

lemma map_of_update: "map_of (AList.update k v m) = (map_of m)(k \<mapsto> v)"
  by (simp add: AList.update_conv' fun_eq_iff)

lemma mk_instrument_store [simp]:
  "mk_instrument S s (mk_store t i w) = (if s = t then i else mk_instrument S s w)"
  by (auto simp: mk_instrument_def mk_store_def get_instrument_def map_of_update Let_def
      split: option.splits)

lemma mk_instrument_emit [simp]:
  "mk_instrument S s (emit e w) = mk_instrument S s w"
  "mk_instrument S s (w\<lparr>gw_self := self\<rparr>) = mk_instrument S s w"
  by (simp_all add: mk_instrument_def)

lemma mk_store_frame [simp]:
  "gw_self (mk_store s i w) = gw_self w" "gw_out (mk_store s i w) = gw_out w"
  "settings_of (mk_store s i w) = settings_of w" "api_of (mk_store s i w) = api_of w"
  by (simp_all add: mk_store_def)

lemma book_ticker_step:
  "book_ids s (gw_out (mk1_on_book_ticker E m w)) = book_ids s (gw_out w)
     @ (if bt_symbol m = s \<and> fst (tob_update (bt_order_book_update_id m) (mk_instrument (me_sequencer E) s w))
        then [bt_order_book_update_id m] else [])"
  "mk_instrument (me_sequencer E) s (mk1_on_book_ticker E m w) =
     (if bt_symbol m = s then snd (tob_update (bt_order_book_update_id m) (mk_instrument (me_sequencer E) s w))
      else mk_instrument (me_sequencer E) s w)"
  by (auto simp: mk1_on_book_ticker_def mk_publish_def Let_def split: prod.splits)

section \<open>The sequencer\<close>

fun snapshot_requests :: "sq_call list \<Rightarrow> nat list" where
  "snapshot_requests [] = []"
| "snapshot_requests (SQ_request r # cs) = r # snapshot_requests cs"
| "snapshot_requests (_ # cs) = snapshot_requests cs"

definition retries_exceeded :: "settings \<Rightarrow> sq_call list \<Rightarrow> bool" where
  "retries_exceeded st calls \<longleftrightarrow> st_mbp_request_max_retries st \<noteq> 0
     \<and> (\<exists>r \<in> set (snapshot_requests calls). unat (st_mbp_request_max_retries st) < r)"

text \<open>What a handler that calls the sequencer leads to.\<close>

definition depth_outcome ::
  "'q sequencer_lib \<Rightarrow> string \<Rightarrow> sq_call list \<times> bool \<times> 'q \<Rightarrow> ('c, 'q) gw
    \<Rightarrow> (exn, ('c, 'q) gw) res \<Rightarrow> bool" where
  "depth_outcome S symbol outcome w r =
     (case outcome of (calls, bad_state, q) \<Rightarrow>
        if retries_exceeded (settings_of w) calls then \<exists>m v. r = Fatal m v
        else \<exists>v. r = Ok v
          \<and> queued Queue_depth (gw_out v) = queued Queue_depth (gw_out w)
              @ replicate (length (snapshot_requests calls) + (if bad_state then 1 else 0)) symbol
          \<and> in_sequencer (mk_instrument S symbol v) = (if bad_state then sq_clear S q else q))"

text \<open>
  The contract of the callbacks: an update or a snapshot is published or ignored, a request goes
  to \<open>request_snapshot\<close>.
\<close>

locale sequencer_client =
  fixes callback :: "sq_call \<Rightarrow> ('c, 'q) gw \<Rightarrow> (exn, ('c, 'q) gw) res"
    and symbol :: string
  assumes update_quiet: "\<exists>v. callback (SQ_update b a) w = Ok v \<and> gw_shared v = gw_shared w
      \<and> queued q (gw_out v) = queued q (gw_out w)"
    and snapshot_quiet: "\<exists>v. callback (SQ_snapshot b a n r d l) w = Ok v \<and> gw_shared v = gw_shared w
      \<and> queued q (gw_out v) = queued q (gw_out w)"
    and request: "callback (SQ_request r) w = request_snapshot symbol r w"
begin

lemma calls_effect:
  "if retries_exceeded (settings_of w) calls then \<exists>m v. for_each callback calls w = Fatal m v
   else \<exists>v. for_each callback calls w = Ok v \<and> gw_shared v = gw_shared w
     \<and> queued Queue_depth (gw_out v) = queued Queue_depth (gw_out w)
         @ replicate (length (snapshot_requests calls)) symbol"
proof (induction calls arbitrary: w)
  case (Cons c calls)
  have quiet: ?case if "callback c w = Ok v" "gw_shared v = gw_shared w"
    "queued Queue_depth (gw_out v) = queued Queue_depth (gw_out w)"
    "snapshot_requests (c # calls) = snapshot_requests calls" for v
    using Cons [of v] that by (auto simp: retries_exceeded_def split: if_splits)
  show ?case
  proof (cases c)
    case (SQ_update b a)
    then show ?thesis using update_quiet [of b a w Queue_depth] quiet by auto
  next
    case (SQ_snapshot b a n r d l)
    then show ?thesis using snapshot_quiet [of b a n r d l w Queue_depth] quiet by auto
  next
    case (SQ_request r)
    then show ?thesis
      using Cons [of "emit (Queue_push Queue_depth symbol) w"]
      by (auto simp: request request_snapshot_def retries_exceeded_def)
  qed
qed (simp add: retries_exceeded_def)

lemma done_effect:
  "depth_outcome S symbol (calls, bad, q) w (sequencer_done S symbol i callback (calls, bad, q) w)"
proof -
  have shared: "mk_instrument S symbol v = i\<lparr>in_sequencer := q\<rparr>"
    if "gw_shared v = gw_shared (mk_store symbol (i\<lparr>in_sequencer := q\<rparr>) w)" for v :: "('c, 'q) gw"
    using that mk_instrument_store [of S symbol symbol "i\<lparr>in_sequencer := q\<rparr>" w]
    by (simp add: mk_instrument_def)
  show ?thesis
    using calls_effect [of "mk_store symbol (i\<lparr>in_sequencer := q\<rparr>) w" calls]
    by (cases bad; auto simp: depth_outcome_def sequencer_done_def replicate_append_same [symmetric] shared)
qed

end

interpretation mk1_client: sequencer_client "mk1_sequencer_call m" "du_symbol m" for m
  by unfold_locales (simp_all add: mk_publish_def)

interpretation rm_client: sequencer_client "rm_sequencer_call s m" s for s m
  by unfold_locales (simp_all add: rm_publish_def)

lemma depth_update_outcome:
  fixes v :: "('z, 'q) mks"
  assumes S: "S = me_sequencer E" and s: "s = du_symbol m"
  shows "if fst (mbp_update (du_final_update_id m) (mk_instrument S s v))
    then depth_outcome S s
      (sq_depth_update S (mbp_levels (du_bids m)) (mbp_levels (du_asks m)) (du_first_update_id m)
        (du_final_update_id m) (du_final_update_id_in_last_stream m) (in_sequencer (mk_instrument S s v)))
      v (mk1_on_depth_update E m v)
    else \<exists>u. mk1_on_depth_update E m v = Ok u
      \<and> queued Queue_depth (gw_out u) = queued Queue_depth (gw_out v)"
proof -
  obtain passes i where p: "mbp_update (du_final_update_id m) (mk_instrument S s v) = (passes, i)"
    by (cases "mbp_update (du_final_update_id m) (mk_instrument S s v)") auto
  have i: "in_sequencer (mk_instrument S s v) = in_sequencer i"
    using p by (auto simp: mbp_update_def split: if_splits)
  have same: "depth_outcome S s x (mk_store s i (emit Conn_touch v)) r = depth_outcome S s x v r" for x r
    by (simp add: depth_outcome_def)
  have "depth_outcome S s x (mk_store s i (emit Conn_touch v))
      (sequencer_done S s i (mk1_sequencer_call m) x (mk_store s i (emit Conn_touch v)))" for x
    unfolding s using mk1_client.done_effect by (cases x) auto
  then show ?thesis
    by (simp add: mk1_on_depth_update_def Let_def i p same S [symmetric] s [symmetric])
qed

lemma depth_image_outcome:
  "depth_outcome (re_sequencer E) s
     (sq_depth_image (re_sequencer E) (mbp_levels (dk_bids m)) (mbp_levels (dk_asks m))
       (dk_last_update_id m) False (in_sequencer (mk_instrument (re_sequencer E) s w)))
     w (rm_on_depth E s m w)"
proof -
  have "depth_outcome S s x w (sequencer_done S s i (rm_sequencer_call s m) x w)" for S x i
    using rm_client.done_effect by (cases x) auto
  then show ?thesis by (simp add: rm_on_depth_def Let_def)
qed

end
