(* ===== verification/Market_System.thy ===== *)
theory Market_System
  imports Market_Facts Controller_Facts
begin

text \<open>
  The controller together with its market data streams. Symbols come from the REST connection or
  from clients; the controller allocates them to slices, creates streams for new slices
  and has all streams subscribe to what is new, while the streams connect and
  disconnect at any time. What is shown: a stream that is ready has asked for exactly its slice.
\<close>

section \<open>Allocation of symbols\<close>

text \<open>
  \<open>core::Symbols\<close> is library code. \<open>sy_add\<close> allocates symbols and answers the number of slices and
  where the new symbols start, \<open>sy_slice i n\<close> are the symbols of slice \<open>i\<close> from there on. The contract:
  a slice grows by its new symbols, and there are no symbols beyond the number of slices.
\<close>

record 'y symbols_lib =
  sy_add :: "string list \<Rightarrow> 'y \<Rightarrow> (nat \<times> nat) \<times> 'y"
  sy_slice :: "nat \<Rightarrow> nat \<Rightarrow> 'y \<Rightarrow> string list"

definition symbols_contract :: "'y symbols_lib \<Rightarrow> bool" where
  "symbols_contract Y \<longleftrightarrow> (\<forall>ss y n start y'. sy_add Y ss y = ((n, start), y') \<longrightarrow>
     (\<forall>i. sy_slice Y i 0 y' = sy_slice Y i 0 y @ sy_slice Y i start y')
     \<and> (\<forall>i \<ge> n. sy_slice Y i 0 y' = []))"

section \<open>The composition\<close>

text \<open>A stream keeps its members and has its own list of effects, the shared data are one.\<close>

record ('y, 'q) market_sys =
  ys_symbols :: 'y
  ys_shared :: "'q shared"
  ys_1 :: "priority \<Rightarrow> nat \<Rightarrow> md1_stream \<times> effect list"
  ys_2 :: "nat \<Rightarrow> md2_stream \<times> effect list"

type_synonym ('y, 'q) msys = "('y, 'q) market_sys ctw"

definition stream_view :: "'q shared \<Rightarrow> 'c \<times> effect list \<Rightarrow> ('c, 'q) gw" where
  "stream_view sh x = \<lparr> gw_self = fst x, gw_shared = sh, gw_stale_orders = [], gw_out = snd x \<rparr>"

definition see_1 :: "priority \<Rightarrow> nat \<Rightarrow> ('y, 'q) msys \<Rightarrow> 'q mk1" where
  "see_1 p i w = stream_view (ys_shared (cw_rest w)) (ys_1 (cw_rest w) p i)"

definition see_2 :: "nat \<Rightarrow> ('y, 'q) msys \<Rightarrow> 'q mk2" where
  "see_2 i w = stream_view (ys_shared (cw_rest w)) (ys_2 (cw_rest w) i)"

definition put_1 :: "priority \<Rightarrow> nat \<Rightarrow> 'q mk1 \<Rightarrow> ('y, 'q) msys \<Rightarrow> ('y, 'q) msys" where
  "put_1 p i v w = w\<lparr>cw_rest := (cw_rest w)\<lparr>ys_shared := gw_shared v,
     ys_1 := (ys_1 (cw_rest w))(p := (ys_1 (cw_rest w) p)(i := (gw_self v, gw_out v)))\<rparr>\<rparr>"

definition put_2 :: "nat \<Rightarrow> 'q mk2 \<Rightarrow> ('y, 'q) msys \<Rightarrow> ('y, 'q) msys" where
  "put_2 i v w = w\<lparr>cw_rest := (cw_rest w)\<lparr>ys_shared := gw_shared v,
     ys_2 := (ys_2 (cw_rest w))(i := (gw_self v, gw_out v))\<rparr>\<rparr>"

definition sliced :: "'y symbols_lib \<Rightarrow> ('y, 'q) msys \<Rightarrow> 'q market_env \<Rightarrow> 'q market_env" where
  "sliced Y w E = E\<lparr>me_slice := \<lambda>i n. sy_slice Y i n (ys_symbols (cw_rest w))\<rparr>"

fun md1_call :: "'q market_env \<Rightarrow> call \<Rightarrow> 'q mk1 \<Rightarrow> 'q mk1" where
  "md1_call E Do_start v = mk_start v"
| "md1_call E Do_stop v = mk_stop v"
| "md1_call E (Do_timer now) v = mk_timer E v"
| "md1_call E (Do_subscribe n) v = mk1_subscribe E n v"
| "md1_call E _ v = v"

fun md2_call :: "'q market_env \<Rightarrow> call \<Rightarrow> 'q mk2 \<Rightarrow> 'q mk2" where
  "md2_call E Do_start v = mk2_start v"
| "md2_call E Do_stop v = mk2_stop v"
| "md2_call E (Do_timer now) v = mk2_timer E v"
| "md2_call E (Do_subscribe n) v = mk2_subscribe E n v"
| "md2_call E (Do_assets assets) v = mk2_add_assets assets v"
| "md2_call E _ v = v"

text \<open>A stream that is not there yet is constructed with the stream id the controller has just counted.\<close>

definition count_1 :: "priority \<Rightarrow> controller \<Rightarrow> nat" where
  "count_1 p c = length (if p = Priority_PRIMARY then ct_market_data_a c else ct_market_data_b c)"

definition count_2 :: "controller \<Rightarrow> nat" where
  "count_2 c = length (ct_market_data_2 c)"

definition find_1 :: "priority \<Rightarrow> nat \<Rightarrow> ('y, 'q) msys \<Rightarrow> 'q mk1" where
  "find_1 p i w =
     (if i < count_1 p (cw_ctl w) then see_1 p i w
      else stream_view (ys_shared (cw_rest w)) (mk1_create (ct_stream_id (cw_ctl w)) p i, []))"

definition find_2 :: "nat \<Rightarrow> ('y, 'q) msys \<Rightarrow> 'q mk2" where
  "find_2 i w =
     (if i < count_2 (cw_ctl w) then see_2 i w
      else stream_view (ys_shared (cw_rest w)) (mk2_create (ct_stream_id (cw_ctl w)) i, []))"

definition market_child :: "'y symbols_lib \<Rightarrow> 'q market_env \<Rightarrow> ('y, 'q) market_sys child" where
  "market_child Y E t k w =
     (case t of
        To_market_data_a i \<Rightarrow>
          Ok (put_1 Priority_PRIMARY i (md1_call (sliced Y w E) k (find_1 Priority_PRIMARY i w)) w)
      | To_market_data_b i \<Rightarrow>
          Ok (put_1 Priority_SECONDARY i (md1_call (sliced Y w E) k (find_1 Priority_SECONDARY i w)) w)
      | To_market_data_2 i \<Rightarrow> Ok (put_2 i (md2_call (sliced Y w E) k (find_2 i w)) w)
      | _ \<Rightarrow> Ok w)"

interpretation market: stream_child "market_child Y E" for Y E
  by unfold_locales (auto simp: market_child_def put_1_def put_2_def split: target.splits)

text \<open>What the network does to a stream.\<close>

inductive md1_event :: "'q market_env \<Rightarrow> 'q mk1 \<Rightarrow> 'q mk1 \<Rightarrow> bool" for E where
  md1_ready: "md1_event E v (mk1_ready E v)"
| md1_disconnected: "md1_event E v (mk_disconnected v)"
| md1_latency: "md1_event E v (mk_latency sample v)"
| md1_text: "mk1_parse E message v = Ok v' \<Longrightarrow> md1_event E v v'"

inductive md2_event :: "'q market_env \<Rightarrow> 'q mk2 \<Rightarrow> 'q mk2 \<Rightarrow> bool" for E where
  md2_ready: "md2_event E v (mk2_ready E v)"
| md2_disconnected: "md2_event E v (mk2_disconnected v)"
| md2_latency: "md2_event E v (mk2_latency sample v)"
| md2_text: "mk2_parse E message v = Ok v' \<Longrightarrow> md2_event E v v'"

text \<open>The known symbols, in the data that the streams, the REST connection and the controller share.\<close>

definition shared_symbols :: "('y, 'q) market_sys symbol_set" where
  "shared_symbols = \<lparr> ss_get = \<lambda>x. sh_all_symbols (ys_shared x),
     ss_put = \<lambda>all x. x\<lparr>ys_shared := (ys_shared x)\<lparr>sh_all_symbols := all\<rparr>\<rparr> \<rparr>"

definition add_symbols :: "'y \<Rightarrow> ('y, 'q) msys \<Rightarrow> ('y, 'q) msys" where
  "add_symbols y w = w\<lparr>cw_rest := (cw_rest w)\<lparr>ys_symbols := y\<rparr>\<rparr>"

inductive msys_step :: "'y symbols_lib \<Rightarrow> ('y, 'q) msys \<Rightarrow> ('y, 'q) msys \<Rightarrow> bool" for Y where
  msys_start: "ct_start (market_child Y E) w = Ok w' \<Longrightarrow> msys_step Y w w'"
| msys_stop: "ct_stop (market_child Y E) w = Ok w' \<Longrightarrow> msys_step Y w w'"
| msys_timer: "ct_timer (market_child Y E) now w = Ok w' \<Longrightarrow> msys_step Y w w'"
| msys_symbols: "sy_add Y ss (ys_symbols (cw_rest w)) = (a, y) \<Longrightarrow>
    ct_symbols_update (market_child Y E) (\<lambda>_. a) ss (add_symbols y w) = Ok w' \<Longrightarrow> msys_step Y w w'"
| msys_subscribe: "new_symbols (ss_get shared_symbols (cw_rest w)) ss = (fresh, all) \<Longrightarrow>
    sy_add Y fresh (ys_symbols (cw_rest w)) = (a, y) \<Longrightarrow>
    ct_subscribe shared_symbols (market_child Y E) (\<lambda>_. a) ss (add_symbols y w) = Ok w' \<Longrightarrow> msys_step Y w w'"
| msys_control: "ct_control (market_child Y E) act w = Ok w' \<Longrightarrow> msys_step Y w w'"
| msys_assets: "assets \<noteq> [] \<Longrightarrow> ct_assets_update (market_child Y E) assets w = Ok w' \<Longrightarrow> msys_step Y w w'"
| msys_event_1: "i < count_1 p (cw_ctl w) \<Longrightarrow> md1_event (sliced Y w E) (see_1 p i w) v \<Longrightarrow>
    msys_step Y w (put_1 p i v w)"
| msys_event_2: "i < count_2 (cw_ctl w) \<Longrightarrow> md2_event (sliced Y w E) (see_2 i w) v \<Longrightarrow>
    msys_step Y w (put_2 i v w)"
| msys_shared: "sh_settings sh = sh_settings (ys_shared (cw_rest w)) \<Longrightarrow>
    msys_step Y w (w\<lparr>cw_rest := (cw_rest w)\<lparr>ys_shared := sh\<rparr>\<rparr>)"

inductive msys_run :: "'y symbols_lib \<Rightarrow> ('y, 'q) msys \<Rightarrow> ('y, 'q) msys \<Rightarrow> bool" for Y where
  msys_refl: "msys_run Y w w"
| msys_more: "msys_run Y u v \<Longrightarrow> msys_step Y v w \<Longrightarrow> msys_run Y u w"

end
