(* ===== verification/Market_System_Facts.thy ===== *)
theory Market_System_Facts
  imports Market_System
begin

text \<open>
  What a stream has asked for since it became ready, and that the steps of the composition keep it
  in line with the slices.
\<close>

section \<open>Since the stream became ready\<close>

fun ready_status :: "effect \<Rightarrow> bool" where
  "ready_status (Pub_stream_status s) = (ss_connection_status s = ConnectionStatus_READY)"
| "ready_status _ = False"

definition since_ready :: "effect list \<Rightarrow> effect list" where
  "since_ready es = rev (takeWhile (\<lambda>e. \<not> ready_status e) (rev es))"

lemma since_ready_append:
  "\<forall>e \<in> set fs. \<not> ready_status e \<Longrightarrow> since_ready (es @ fs) = since_ready es @ fs"
  using takeWhile_append2 [of "rev fs" "\<lambda>e. \<not> ready_status e" "rev es"]
  by (auto simp: since_ready_def)

lemma since_ready_status: "ready_status e \<Longrightarrow> since_ready (es @ [e]) = []"
  by (simp add: since_ready_def)

text \<open>A request for symbols is one frame for each channel, with the fixed stream if there is one.\<close>

datatype block = Symbol_block "string list" | Asset_block "string list"

fun block_symbols :: "block \<Rightarrow> string list" where
  "block_symbols (Symbol_block ss) = ss"
| "block_symbols (Asset_block _) = []"

fun block_empty :: "block \<Rightarrow> bool" where
  "block_empty (Symbol_block ss) = (ss = [])"
| "block_empty (Asset_block ss) = (ss = [])"

fun block_frames :: "string list \<Rightarrow> string list list \<Rightarrow> block \<Rightarrow> string list list" where
  "block_frames chans force (Symbol_block ss) = map (\<lambda>c. map (channel_of c) ss) chans @ force"
| "block_frames chans force (Asset_block ss) = [map (channel_of ''assetIndex'') ss]"

text \<open>
  If the stream is ready, the subscriptions it has queued since then are frames with successive ids
  for blocks of symbols that together are \<open>part\<close>, and for assets.
\<close>

definition complete ::
  "string list \<Rightarrow> string list list \<Rightarrow> string list \<Rightarrow> ('z, 'q) mks \<Rightarrow> bool" where
  "complete chans force part v \<longleftrightarrow> mk_ready v \<longrightarrow>
     (\<exists>i blocks. concat (map block_symbols blocks) = part \<and> (\<forall>b \<in> set blocks. \<not> block_empty b)
       \<and> queued Queue_subscribe (since_ready (gw_out v)) =
           frames i (concat (map (block_frames chans force) blocks))
       \<and> mk_request_id (gw_self v) = i + of_nat (length (concat (map (block_frames chans force) blocks))))"

section \<open>Steps that ask for nothing\<close>

definition calm :: "('z, 'q) mks \<Rightarrow> ('z, 'q) mks \<Rightarrow> bool" where
  "calm v w \<longleftrightarrow> gw_self w = gw_self v \<and> settings_of w = settings_of v
     \<and> (\<exists>es. gw_out w = gw_out v @ es \<and> queued Queue_subscribe es = [] \<and> (\<forall>e \<in> set es. \<not> ready_status e))"

lemma calm_trans: "calm u v \<Longrightarrow> calm v w \<Longrightarrow> calm u w"
  unfolding calm_def by (metis append_assoc append_is_Nil_conv queued_append Un_iff set_append)

interpretation calm_kept: kept calm
  by unfold_locales (simp add: calm_def, rule calm_trans)

lemma calm_emit: "calm v w \<Longrightarrow> queued Queue_subscribe [e] = [] \<Longrightarrow> \<not> ready_status e \<Longrightarrow> calm v (emit e w)"
  by (erule calm_trans) (auto simp: calm_def)

lemma calm_shared: "calm v w \<Longrightarrow> sh_settings (f (gw_shared w)) = settings_of w \<Longrightarrow> calm v (upd_shared f w)"
  by (erule calm_trans) (auto simp: calm_def)

lemma calm_store: "calm v w \<Longrightarrow> calm v (mk_store s i w)"
  unfolding mk_store_def by (rule calm_shared) simp_all

lemma calm_publish: "calm v w \<Longrightarrow> calm v (mk_publish m w)"
  unfolding mk_publish_def by (rule calm_emit) simp_all

lemmas calm_intros = calm_emit calm_store calm_publish calm_kept.keep_refl

lemma calm_complete: "calm v w \<Longrightarrow> complete ch f part v \<Longrightarrow> complete ch f part w"
proof -
  assume c: "calm v w"
  then have "queued Queue_subscribe (since_ready (gw_out w)) = queued Queue_subscribe (since_ready (gw_out v))"
    "gw_self w = gw_self v"
    by (auto simp: calm_def since_ready_append)
  then show "complete ch f part v \<Longrightarrow> complete ch f part w"
    by (simp add: complete_def mk_ready_def)
qed

lemma calm_timer: "calm v (mk_timer E v)"
  unfolding mk_timer_def mk_check_subscribe_queue_def
  by (auto intro!: calm_kept.keep_fold calm_intros)

lemma calm_depth: "calm v (res_state (mk1_on_depth_update E m v))"
proof -
  have call: "calm w (res_state (mk1_sequencer_call m c w))" for c and w :: "('a, 'b) mks"
    by (cases c) (auto simp: request_snapshot_def intro!: calm_intros)
  have finish: "calm w (res_state (sequencer_done S s i (mk1_sequencer_call m) x w))"
    for S s i x and w :: "('a, 'b) mks"
    unfolding sequencer_done_def
    by (auto split: prod.splits intro!: calm_kept.keep_then calm_intros
        calm_kept.keep_trans [OF _ calm_kept.keep_for_each] call)
  show ?thesis
    unfolding mk1_on_depth_update_def Let_def
    by (auto split: prod.splits intro!: calm_kept.keep_trans [OF _ finish] calm_intros)
qed

lemma calm_handle: "calm v (res_state (mk1_handle E e v))" "calm w (res_state (mk2_handle E e w))"
proof -
  have d: "calm v (res_state (mk1_on_depth_update E m v))" for m and v :: "('a, 'b) mks" by (rule calm_depth)
  show "calm v (res_state (mk1_handle E e v))"
    unfolding mk1_handle_def
    by (cases e)
      (auto simp: mk_unexpected_def mk1_on_trade_def mk1_on_book_ticker_def Let_def
        intro!: parsed_keeps [of calm] calm_intros d split: prod.splits)
  show "calm w (res_state (mk2_handle E e w))"
    unfolding mk2_handle_def
    by (cases e)
      (auto simp: mk_unexpected_def mk2_on_agg_trade_def mk2_on_mini_ticker_def
        mk2_on_mark_price_update_def mk2_on_kline_def mk2_on_asset_index_update_def
        mk2_on_force_order_def Let_def
        intro!: parsed_keeps [of calm] calm_intros)
qed

lemma calm_mk_parse:
  "mk_parse E h message v = Ok w \<Longrightarrow> (\<And>e. calm v (res_state (h e v))) \<Longrightarrow> calm v w"
  by (auto simp: mk_parse_def Let_def calm_kept.keep_refl split: outcome.splits res.splits)
    (metis res_state.simps(1))

lemma calm_parse:
  "mk1_parse E message v = Ok v' \<Longrightarrow> calm v v'" "mk2_parse E message w = Ok w' \<Longrightarrow> calm w w'"
  by (auto simp: mk1_parse_def mk2_parse_def intro: calm_mk_parse [OF _ calm_handle(1)]
      calm_mk_parse [OF _ calm_handle(2)])

section \<open>Steps that ask for a block\<close>

definition quiet :: "('z, 'q) mks \<Rightarrow> ('z, 'q) mks \<Rightarrow> bool" where
  "quiet v w \<longleftrightarrow> mk_connection_status (gw_self w) = mk_connection_status (gw_self v)
     \<and> (\<exists>es. gw_out w = gw_out v @ es \<and> (\<forall>e \<in> set es. \<not> ready_status e))"

lemma quiet_trans: "quiet u v \<Longrightarrow> quiet v w \<Longrightarrow> quiet u w"
  unfolding quiet_def by (metis append_assoc Un_iff set_append)

interpretation quiet_kept: kept quiet
  by unfold_locales (simp add: quiet_def, rule quiet_trans)

lemma quiet_push: "quiet v w \<Longrightarrow> quiet v (mk_push t w)"
  by (erule quiet_trans) (auto simp: quiet_def mk_push_def Let_def)

lemma quiet_time_series: "quiet v w \<Longrightarrow> quiet v (fold (\<lambda>s. emit (Queue_push Queue_time_series s)) ss w)"
  by (erule quiet_trans) (rule quiet_kept.keep_fold, auto simp: quiet_def)

lemma quiet_symbols:
  "quiet v (mk1_subscribe_symbols symbols v)" "quiet w (mk2_subscribe_symbols symbols w)"
  by (auto simp: mk1_subscribe_symbols_def mk1_subscribe_channel_def mk2_subscribe_symbols_def
      mk2_subscribe_channel_def mk2_subscribe_stream_def Let_def
      intro!: quiet_push quiet_time_series quiet_kept.keep_refl)

lemma block_complete:
  assumes "mk_pushed (block_frames ch f b) v w" "quiet v w" "\<not> block_empty b" "complete ch f part v"
  shows "complete ch f (part @ block_symbols b) w"
proof (unfold complete_def, intro impI)
  assume "mk_ready w"
  then have "mk_ready v" using assms(2) by (simp add: quiet_def mk_ready_def)
  then obtain i blocks where b: "concat (map block_symbols blocks) = part"
    "\<forall>b \<in> set blocks. \<not> block_empty b"
    "queued Queue_subscribe (since_ready (gw_out v)) = frames i (concat (map (block_frames ch f) blocks))"
    "mk_request_id (gw_self v) = i + of_nat (length (concat (map (block_frames ch f) blocks)))"
    using assms(4) unfolding complete_def by blast
  obtain es where es: "gw_out w = gw_out v @ es" "\<forall>e \<in> set es. \<not> ready_status e"
    using assms(2) unfolding quiet_def by blast
  have "queued Queue_subscribe es = frames (mk_request_id (gw_self v)) (block_frames ch f b)"
    using assms(1) es(1) by (simp add: mk_pushed_def)
  then show "\<exists>i blocks. concat (map block_symbols blocks) = part @ block_symbols b
      \<and> (\<forall>b \<in> set blocks. \<not> block_empty b)
      \<and> queued Queue_subscribe (since_ready (gw_out w)) = frames i (concat (map (block_frames ch f) blocks))
      \<and> mk_request_id (gw_self w) = i + of_nat (length (concat (map (block_frames ch f) blocks)))"
    using b assms(1,3) es
    by (intro exI [of _ i] exI [of _ "blocks @ [b]"])
      (simp add: mk_pushed_def since_ready_append algebra_simps)
qed

text \<open>The settings and the place of the stream.\<close>

definition steady :: "('z, 'q) mks \<Rightarrow> ('z, 'q) mks \<Rightarrow> bool" where
  "steady v w \<longleftrightarrow> settings_of w = settings_of v \<and> mk_index (gw_self w) = mk_index (gw_self v)"

lemma steady_calm: "calm v w \<Longrightarrow> steady v w"
  by (simp add: calm_def steady_def)

lemma steady_pushed: "mk_pushed ss v w \<Longrightarrow> steady v w"
  by (simp add: mk_pushed_def steady_def)

lemma not_ready_complete: "\<not> mk_ready v \<Longrightarrow> complete ch f part v"
  by (simp add: complete_def)

lemma fresh_complete: "complete ch f [] (mk_set_connection_status ConnectionStatus_READY [] v)"
proof -
  have "since_ready (gw_out (mk_set_connection_status ConnectionStatus_READY [] v)) = []"
    by (simp add: mk_set_connection_status_def Let_def since_ready_status)
  then show ?thesis
    unfolding complete_def by (intro impI exI [of _ "mk_request_id (gw_self v)"] exI [of _ "[]"]) simp
qed

lemma mk1_symbols_complete:
  assumes "complete (mk1_channels (settings_of v) (mk_priority (gw_self v))) [] part v"
  shows "complete (mk1_channels (settings_of v) (mk_priority (gw_self v))) [] (part @ ss)
      (mk1_subscribe_symbols ss v)"
    "steady v (mk1_subscribe_symbols ss v)"
    "mk_priority (gw_self (mk1_subscribe_symbols ss v)) = mk_priority (gw_self v)"
proof -
  show "complete (mk1_channels (settings_of v) (mk_priority (gw_self v))) [] (part @ ss)
      (mk1_subscribe_symbols ss v)"
  proof (cases "ss = []")
    case False
    then show ?thesis
      using block_complete [of _ "[]" "Symbol_block ss", OF _ quiet_symbols(1) _ assms]
        mk1_symbols_pushed [OF False, of v] by simp
  qed (use assms in simp)
  show "steady v (mk1_subscribe_symbols ss v)"
    using steady_pushed [OF mk1_symbols_pushed] by (cases "ss = []") (auto simp: steady_def)
  show "mk_priority (gw_self (mk1_subscribe_symbols ss v)) = mk_priority (gw_self v)"
    by (simp add: mk1_subscribe_symbols_def Let_def)
qed

lemma mk2_symbols_complete:
  assumes "complete (mk2_channels (settings_of v)) (mk2_force (settings_of v) (mk_index (gw_self v))) part v"
  shows "complete (mk2_channels (settings_of v)) (mk2_force (settings_of v) (mk_index (gw_self v))) (part @ ss)
      (mk2_subscribe_symbols ss v)"
    "steady v (mk2_subscribe_symbols ss v)"
proof -
  show "complete (mk2_channels (settings_of v)) (mk2_force (settings_of v) (mk_index (gw_self v))) (part @ ss)
      (mk2_subscribe_symbols ss v)"
  proof (cases "ss = []")
    case False
    then show ?thesis
      using block_complete [of _ _ "Symbol_block ss", OF _ quiet_symbols(2) _ assms]
        mk2_symbols_pushed(1) [OF False, of v] by simp
  qed (use assms in simp)
  show "steady v (mk2_subscribe_symbols ss v)"
    using steady_pushed [OF mk2_symbols_pushed(1)] by (cases "ss = []") (auto simp: steady_def)
qed

lemma mk2_assets_complete:
  assumes "complete ch f part v" "assets \<noteq> []"
  shows "complete ch f part (mk2_subscribe_2 assets ''assetIndex'' v)"
    "steady v (mk2_subscribe_2 assets ''assetIndex'' v)"
proof -
  note p = channel_pushed(2) [OF assms(2), of "''assetIndex''" v]
  have "quiet v (mk2_subscribe_2 assets ''assetIndex'' v)"
    unfolding mk2_subscribe_2_def by (intro quiet_push quiet_kept.keep_refl)
  from block_complete [of ch f "Asset_block assets", OF _ this _ assms(1)] p assms(2)
  show "complete ch f part (mk2_subscribe_2 assets ''assetIndex'' v)" by simp
  show "steady v (mk2_subscribe_2 assets ''assetIndex'' v)" by (rule steady_pushed [OF p])
qed

section \<open>One stream\<close>

definition ok_1 :: "settings \<Rightarrow> string list \<Rightarrow> priority \<Rightarrow> nat \<Rightarrow> 'q mk1 \<Rightarrow> bool" where
  "ok_1 st part p i v \<longleftrightarrow> mk_index (gw_self v) = i \<and> mk_priority (gw_self v) = p
     \<and> complete (mk1_channels st p) [] part v"

definition ok_2 :: "settings \<Rightarrow> string list \<Rightarrow> nat \<Rightarrow> 'q mk2 \<Rightarrow> bool" where
  "ok_2 st part i v \<longleftrightarrow> mk_index (gw_self v) = i \<and> complete (mk2_channels st) (mk2_force st i) part v"

lemma ok_calm:
  "calm v v' \<Longrightarrow> settings_of v = st \<Longrightarrow> ok_1 st part p i v \<Longrightarrow> settings_of v' = st \<and> ok_1 st part p i v'"
  "calm w w' \<Longrightarrow> settings_of w = st \<Longrightarrow> ok_2 st part i w \<Longrightarrow> settings_of w' = st \<and> ok_2 st part i w'"
  by (auto simp: ok_1_def ok_2_def calm_complete) (simp_all add: calm_def)

lemma ok_symbols:
  "settings_of v = st \<Longrightarrow> ok_1 st part p i v \<Longrightarrow>
     settings_of (mk1_subscribe_symbols ss v) = st \<and> ok_1 st (part @ ss) p i (mk1_subscribe_symbols ss v)"
  "settings_of w = st \<Longrightarrow> ok_2 st part i w \<Longrightarrow>
     settings_of (mk2_subscribe_symbols ss w) = st \<and> ok_2 st (part @ ss) i (mk2_subscribe_symbols ss w)"
  using mk1_symbols_complete [of v part ss] mk2_symbols_complete [of w part ss]
  by (auto simp: ok_1_def ok_2_def steady_def)

lemma ok_assets:
  "settings_of w = st \<Longrightarrow> ok_2 st part i w \<Longrightarrow> assets \<noteq> [] \<Longrightarrow>
     settings_of (mk2_subscribe_2 assets ''assetIndex'' w) = st
     \<and> ok_2 st part i (mk2_subscribe_2 assets ''assetIndex'' w)"
  using mk2_assets_complete [of _ _ part w assets] by (auto simp: ok_2_def steady_def)

lemma not_ready_ok:
  "\<not> mk_ready v \<Longrightarrow> ok_1 st part p i v = (mk_index (gw_self v) = i \<and> mk_priority (gw_self v) = p)"
  "\<not> mk_ready w \<Longrightarrow> ok_2 st part i w = (mk_index (gw_self w) = i)"
  by (auto simp: ok_1_def ok_2_def not_ready_complete)

lemma calm_start: "calm v (mk_start v)" "calm v (mk_stop v)" "calm v (mk_latency sample v)"
  by (auto simp: mk_start_def mk_stop_def mk_latency_def intro!: calm_intros)

fun more :: "(nat \<Rightarrow> nat \<Rightarrow> string list) \<Rightarrow> call \<Rightarrow> nat \<Rightarrow> string list \<Rightarrow> string list" where
  "more slices (Do_subscribe n) i part = part @ slices i n"
| "more slices _ i part = part"

lemma ok_call_1:
  assumes "settings_of v = st" "ok_1 st part p i v"
  shows "settings_of (md1_call E k v) = st \<and> ok_1 st (more (me_slice E) k i part) p i (md1_call E k v)"
proof (cases k)
  case (Do_subscribe n)
  then show ?thesis
    using assms ok_symbols(1) [OF assms] not_ready_ok(1) [of v]
    by (auto simp: mk1_subscribe_def) (simp_all add: ok_1_def)
qed (use assms in \<open>simp_all add: ok_calm(1) [OF calm_start(1)] ok_calm(1) [OF calm_start(2)]
    ok_calm(1) [OF calm_timer]\<close>)

lemma ok_call_2:
  assumes "settings_of v = st" "ok_2 st part i v" "k \<noteq> Do_assets []"
  shows "settings_of (md2_call E k v) = st \<and> ok_2 st (more (me_slice E) k i part) i (md2_call E k v)"
proof (cases k)
  case (Do_subscribe n)
  then show ?thesis
    using assms ok_symbols(2) [OF assms(1,2)] not_ready_ok(2) [of v]
    by (auto simp: mk2_subscribe_def) (simp_all add: ok_2_def)
next
  case (Do_assets assets)
  let ?v = "upd_self (\<lambda>s. s\<lparr>mk_assets := mk_assets s @ map (map ascii_to_lower) assets\<rparr>) v"
  have "settings_of ?v = st \<and> ok_2 st part i ?v"
    using assms(1,2) by (simp add: ok_2_def complete_def mk_ready_def)
  then show ?thesis
    using ok_assets [of ?v st part i "map (map ascii_to_lower) assets"] assms(3) Do_assets
    by (simp add: mk2_add_assets_def Let_def)
qed (use assms in \<open>simp_all add: ok_calm(2) [OF calm_start(1)] ok_calm(2) [OF calm_start(2)]
    ok_calm(2) [OF calm_timer] mk2_start_def mk2_stop_def mk2_timer_def\<close>)

lemma ok_event_1:
  assumes "md1_event E v v'" "settings_of v = st" "ok_1 st (me_slice E i 0) p i v"
  shows "settings_of v' = st \<and> ok_1 st (me_slice E i 0) p i v'"
  using assms
proof (induction rule: md1_event.induct)
  case (md1_ready v)
  let ?v = "mk_set_connection_status ConnectionStatus_READY [] v"
  have "settings_of ?v = st \<and> ok_1 st [] p i ?v"
    using md1_ready fresh_complete by (simp add: ok_1_def)
  then show ?case
    using ok_symbols(1) [of ?v st "[]" p i "me_slice E i 0"] md1_ready
    by (simp add: mk1_ready_def mk1_subscribe_def ok_1_def)
next
  case (md1_disconnected v)
  then show ?case
    by (simp add: mk_disconnected_def ok_1_def not_ready_complete)
      (simp add: not_ready_complete mk_ready_def mk_set_connection_status_def Let_def)
next
  case (md1_latency v sample)
  then show ?case by (rule ok_calm(1) [OF calm_start(3)])
next
  case (md1_text message v v')
  show ?case by (rule ok_calm(1) [OF calm_parse(1) [OF md1_text(1)] md1_text(2,3)])
qed

lemma ok_event_2:
  assumes "md2_event E v v'" "settings_of v = st" "ok_2 st (me_slice E i 0) i v"
  shows "settings_of v' = st \<and> ok_2 st (me_slice E i 0) i v'"
  using assms
proof (induction rule: md2_event.induct)
  case (md2_ready v)
  let ?v = "mk_set_connection_status ConnectionStatus_READY [] v"
  have "settings_of ?v = st \<and> ok_2 st [] i ?v"
    using md2_ready fresh_complete by (simp add: ok_2_def)
  then have s: "settings_of (mk2_subscribe_symbols (me_slice E i 0) ?v) = st
      \<and> ok_2 st (me_slice E i 0) i (mk2_subscribe_symbols (me_slice E i 0) ?v)"
    using ok_symbols(2) [of ?v st "[]" i "me_slice E i 0"] by simp
  show ?case
    using s ok_assets [OF conjunct1 [OF s] conjunct2 [OF s]] md2_ready
    by (auto simp: mk2_ready_def mk2_subscribe_def Let_def ok_2_def)
next
  case (md2_disconnected v)
  then show ?case
    by (simp add: mk2_disconnected_def mk_disconnected_def ok_2_def)
      (simp add: not_ready_complete mk_ready_def mk_set_connection_status_def Let_def)
next
  case (md2_latency v sample)
  then show ?case unfolding mk2_latency_def by (rule ok_calm(2) [OF calm_start(3)])
next
  case (md2_text message v v')
  show ?case by (rule ok_calm(2) [OF calm_parse(2) [OF md2_text(1)] md2_text(2,3)])
qed

section \<open>All streams\<close>

text \<open>
  \<open>good st part t w\<close>: the stream \<open>t\<close> has asked for \<open>part i\<close>, where \<open>i\<close> is its index. \<open>present\<close>: it is there.
\<close>

fun good :: "settings \<Rightarrow> (nat \<Rightarrow> string list) \<Rightarrow> target \<Rightarrow> ('y, 'q) msys \<Rightarrow> bool" where
  "good st part (To_market_data_a i) w = ok_1 st (part i) Priority_PRIMARY i (see_1 Priority_PRIMARY i w)"
| "good st part (To_market_data_b i) w = ok_1 st (part i) Priority_SECONDARY i (see_1 Priority_SECONDARY i w)"
| "good st part (To_market_data_2 i) w = ok_2 st (part i) i (see_2 i w)"
| "good st part _ w = True"

fun present :: "controller \<Rightarrow> target \<Rightarrow> bool" where
  "present c (To_market_data_a i) = (i < count_1 Priority_PRIMARY c)"
| "present c (To_market_data_b i) = (i < count_1 Priority_SECONDARY c)"
| "present c (To_market_data_2 i) = (i < count_2 c)"
| "present c _ = True"

definition has_settings :: "settings \<Rightarrow> ('y, 'q) msys \<Rightarrow> bool" where
  "has_settings st w \<longleftrightarrow> sh_settings (ys_shared (cw_rest w)) = st"

lemma stream_view_simps [simp]:
  "gw_self (stream_view sh x) = fst x" "gw_out (stream_view sh x) = snd x" "gw_shared (stream_view sh x) = sh"
  by (simp_all add: stream_view_def)

lemma complete_view [simp]:
  "complete ch f part (stream_view sh (gw_self v, gw_out v)) = complete ch f part v"
  "complete ch f part (stream_view (gw_shared v) x) = complete ch f part (stream_view sh x)"
  by (simp_all add: complete_def mk_ready_def)

lemma ok_view [simp]:
  "ok_1 st part p i (stream_view sh (gw_self v, gw_out v)) = ok_1 st part p i v"
  "ok_2 st part i (stream_view sh (gw_self w, gw_out w)) = ok_2 st part i w"
  by (simp_all add: ok_1_def ok_2_def)

lemma ok_shared:
  "ok_1 st part p i (stream_view sh x) = ok_1 st part p i (stream_view sh' x)"
  "ok_2 st part i (stream_view sh y) = ok_2 st part i (stream_view sh' y)"
  by (simp_all add: ok_1_def ok_2_def complete_def mk_ready_def)

lemma put_simps [simp]:
  "cw_ctl (put_1 p i v w) = cw_ctl w" "ys_symbols (cw_rest (put_1 p i v w)) = ys_symbols (cw_rest w)"
  "cw_ctl (put_2 i x w) = cw_ctl w" "ys_symbols (cw_rest (put_2 i x w)) = ys_symbols (cw_rest w)"
  "has_settings st (put_1 p i v w) = (settings_of v = st)"
  "has_settings st (put_2 i x w) = (settings_of x = st)"
  by (simp_all add: put_1_def put_2_def has_settings_def)

definition target_1 :: "priority \<Rightarrow> nat \<Rightarrow> target" where
  "target_1 p i = (if p = Priority_PRIMARY then To_market_data_a i else To_market_data_b i)"

lemma good_put_1:
  "good st part t (put_1 p i v w) = (if t = target_1 p i then ok_1 st (part i) p i v else good st part t w)"
  by (cases t; cases p; auto simp: put_1_def see_1_def see_2_def target_1_def)
    (simp_all add: ok_shared(1) [of _ _ _ _ "gw_shared v" _ "ys_shared (cw_rest w)"]
      ok_shared(2) [of _ _ _ "gw_shared v" _ "ys_shared (cw_rest w)"])

lemma good_put_2:
  "good st part t (put_2 i v w) = (if t = To_market_data_2 i then ok_2 st (part i) i v else good st part t w)"
  by (cases t; auto simp: put_2_def see_1_def see_2_def)
    (simp_all add: ok_shared(1) [of _ _ _ _ "gw_shared v" _ "ys_shared (cw_rest w)"]
      ok_shared(2) [of _ _ _ "gw_shared v" _ "ys_shared (cw_rest w)"])

text \<open>A call changes what its stream has asked for and nothing else.\<close>

definition slices_of :: "'y symbols_lib \<Rightarrow> ('y, 'q) msys \<Rightarrow> nat \<Rightarrow> nat \<Rightarrow> string list" where
  "slices_of Y w i n = sy_slice Y i n (ys_symbols (cw_rest w))"

lemma me_slice_sliced [simp]: "me_slice (sliced Y w E) = slices_of Y w"
  by (simp add: sliced_def slices_of_def fun_eq_iff)

lemma see_settings [simp]:
  "has_settings st w \<Longrightarrow> settings_of (see_1 p i w) = st" "has_settings st w \<Longrightarrow> settings_of (see_2 i w) = st"
  by (simp_all add: has_settings_def see_1_def see_2_def)

definition frame :: "('y, 'q) msys \<Rightarrow> ('y, 'q) msys \<Rightarrow> bool" where
  "frame v w \<longleftrightarrow> cw_ctl w = cw_ctl v \<and> ys_symbols (cw_rest w) = ys_symbols (cw_rest v)"

lemma child_step:
  assumes "market_child Y E t k w = Ok w'" "has_settings st w" "k \<noteq> Do_assets []"
    and "present (cw_ctl w) t" "good st part t w"
  shows "has_settings st w' \<and> frame w w'
    \<and> good st (\<lambda>i. more (slices_of Y w) k i (part i)) t w'
    \<and> (\<forall>t' part. t' \<noteq> t \<longrightarrow> good st part t' w' = good st part t' w)"
proof -
  have one: ?thesis if "t = target_1 p i" for p i
  proof -
    let ?v = "md1_call (sliced Y w E) k (see_1 p i w)"
    have c: "i < count_1 p (cw_ctl w)" "ok_1 st (part i) p i (see_1 p i w)"
      using assms(4,5) that by (cases p; simp add: target_1_def)+
    have "w' = put_1 p i ?v w"
      using assms(1) c(1) that by (cases p) (simp_all add: market_child_def target_1_def find_1_def)
    then show ?thesis
      using ok_call_1 [OF see_settings(1) [OF assms(2)] c(2), of "sliced Y w E" k] that
      by (simp add: frame_def good_put_1)
  qed
  show ?thesis
  proof (cases t)
    case (To_market_data_a i)
    then show ?thesis by (intro one [of Priority_PRIMARY i]) (simp add: target_1_def)
  next
    case (To_market_data_b i)
    then show ?thesis by (intro one [of Priority_SECONDARY i]) (simp add: target_1_def)
  next
    case (To_market_data_2 i)
    then have "w' = put_2 i (md2_call (sliced Y w E) k (see_2 i w)) w"
      using assms(1,4) by (simp add: market_child_def find_2_def)
    then show ?thesis
      using ok_call_2 [OF see_settings(2) [OF assms(2)] _ assms(3), of "part i" i i "sliced Y w E"]
        To_market_data_2 assms(5)
      by (simp add: frame_def good_put_2)
  qed (use assms(1,2) in \<open>simp_all add: market_child_def frame_def\<close>)
qed

text \<open>A stream that the controller creates is not ready, so it is in line with any slice.\<close>

lemma create_step:
  assumes "market_child Y E t Do_start w = Ok w'" "has_settings st w" "\<not> present (cw_ctl w) t"
  shows "has_settings st w' \<and> frame w w' \<and> good st part t w'
    \<and> (\<forall>t' part. t' \<noteq> t \<longrightarrow> good st part t' w' = good st part t' w)"
proof -
  have one: ?thesis if "t = target_1 p i" for p i
  proof -
    let ?v = "mk_start (stream_view (ys_shared (cw_rest w)) (mk1_create (ct_stream_id (cw_ctl w)) p i, []))"
    have "\<not> i < count_1 p (cw_ctl w)" using assms(3) that by (cases p) (simp_all add: target_1_def)
    then have "w' = put_1 p i ?v w"
      using assms(1) that by (cases p) (simp_all add: market_child_def target_1_def find_1_def)
    moreover have "ok_1 st (part i) p i ?v" "settings_of ?v = st"
      using assms(2) by (simp_all add: ok_1_def mk_start_def mk1_create_def complete_def mk_ready_def has_settings_def)
    ultimately show ?thesis using that by (simp add: frame_def good_put_1)
  qed
  show ?thesis
  proof (cases t)
    case (To_market_data_a i)
    then show ?thesis by (intro one [of Priority_PRIMARY i]) (simp add: target_1_def)
  next
    case (To_market_data_b i)
    then show ?thesis by (intro one [of Priority_SECONDARY i]) (simp add: target_1_def)
  next
    case (To_market_data_2 i)
    let ?v = "mk2_start (stream_view (ys_shared (cw_rest w)) (mk2_create (ct_stream_id (cw_ctl w)) i, []))"
    have "w' = put_2 i ?v w"
      using assms(1,3) To_market_data_2 by (simp add: market_child_def find_2_def)
    moreover have "ok_2 st (part i) i ?v" "settings_of ?v = st"
      using assms(2)
      by (simp_all add: ok_2_def mk2_start_def mk_start_def mk2_create_def complete_def mk_ready_def has_settings_def)
    ultimately show ?thesis using To_market_data_2 by (simp add: frame_def good_put_2)
  qed (use assms(3) in simp_all)
qed

section \<open>What every step keeps\<close>

definition in_line :: "settings \<Rightarrow> 'y \<Rightarrow> (nat \<Rightarrow> string list) \<Rightarrow> ('y, 'q) msys \<Rightarrow> bool" where
  "in_line st y part w \<longleftrightarrow> has_settings st w \<and> ys_symbols (cw_rest w) = y
     \<and> (\<forall>t. present (cw_ctl w) t \<longrightarrow> good st part t w)"

lemma in_line_calls:
  assumes "in_line st y part w" "\<forall>t \<in> set ts. present (cw_ctl w) t"
    and "for_each (\<lambda>t. market_child Y E t k) ts w = Ok w'" "k \<noteq> Do_assets []" "\<forall>n. k \<noteq> Do_subscribe n"
  shows "in_line st y part w' \<and> cw_ctl w' = cw_ctl w"
  using assms(1-3)
proof (induction ts arbitrary: w)
  case (Cons t ts)
  obtain v where v: "market_child Y E t k w = Ok v" "for_each (\<lambda>t. market_child Y E t k) ts v = Ok w'"
    using Cons.prems(3) by (cases "market_child Y E t k w") auto
  have g: "has_settings st w" "present (cw_ctl w) t" "good st part t w"
    using Cons.prems(1,2) by (simp_all add: in_line_def)
  have m: "more (slices_of Y w) k i (part i) = part i" for i
    using assms(5) by (cases k) auto
  have "in_line st y part v" "cw_ctl v = cw_ctl w"
    using child_step [OF v(1) g(1) assms(4) g(2,3)] Cons.prems(1)
    by (auto simp: in_line_def frame_def m)
  then show ?case using Cons.IH [OF _ _ v(2)] Cons.prems(2) by simp
qed simp

text \<open>All streams of a group subscribe: those in the group go on to the new slices.\<close>

lemma subscribe_calls:
  assumes "has_settings st w" "distinct ts" "\<forall>t \<in> set ts. present (cw_ctl w) t \<and> good st part t w"
    and "for_each (\<lambda>t. market_child Y E t (Do_subscribe n)) ts w = Ok w'"
  shows "has_settings st w' \<and> frame w w'
    \<and> (\<forall>t \<in> set ts. good st (\<lambda>i. part i @ slices_of Y w i n) t w')
    \<and> (\<forall>t part. t \<notin> set ts \<longrightarrow> good st part t w' = good st part t w)"
  using assms
proof (induction ts arbitrary: w)
  case (Cons t ts)
  obtain v where v: "market_child Y E t (Do_subscribe n) w = Ok v"
    "for_each (\<lambda>t. market_child Y E t (Do_subscribe n)) ts v = Ok w'"
    using Cons.prems(4) by (cases "market_child Y E t (Do_subscribe n) w") auto
  have s: "has_settings st v" "frame w v" "good st (\<lambda>i. part i @ slices_of Y w i n) t v"
    "\<And>t' part. t' \<noteq> t \<Longrightarrow> good st part t' v = good st part t' w"
    using child_step [OF v(1) Cons.prems(1)] Cons.prems(3) by auto
  have "\<forall>t \<in> set ts. present (cw_ctl v) t \<and> good st part t v"
  proof
    fix u
    assume "u \<in> set ts"
    then show "present (cw_ctl v) u \<and> good st part u v"
      using Cons.prems(2,3) s(2) s(4) [of u part] by (cases "u = t") (auto simp: frame_def)
  qed
  from Cons.IH [OF s(1) _ this v(2)] Cons.prems(2) s show ?case
    by (auto simp: frame_def slices_of_def)
qed (simp add: frame_def)

lemma ctl_simps [simp]:
  "has_settings st (upd_ctl f w) = has_settings st w" "good st part t (upd_ctl f w) = good st part t w"
  by (cases t; simp add: has_settings_def see_1_def see_2_def)+

lemma in_line_ctl:
  "in_line st y part w \<Longrightarrow> (\<And>t. present (f (cw_ctl w)) t = present (cw_ctl w) t) \<Longrightarrow> in_line st y part (upd_ctl f w)"
  by (simp add: in_line_def)

lemma in_line_added:
  assumes "in_line st y part w" "market_child Y E t Do_start w = Ok v" "\<not> present (cw_ctl w) t"
    and "\<And>u. present (f (cw_ctl w)) u \<Longrightarrow> u = t \<or> present (cw_ctl w) u"
  shows "in_line st y part (upd_ctl f v)"
proof -
  have s: "has_settings st w" using assms(1) by (simp add: in_line_def)
  show ?thesis
    using create_step [OF assms(2) s assms(3)] assms(1,4) by (auto simp: in_line_def frame_def) metis
qed

lemma in_line_add_1:
  assumes "in_line st y part w" "add_market_data (market_child Y E) p w = Ok w'"
  shows "in_line st y part w'"
proof -
  let ?w = "upd_ctl (\<lambda>c. c\<lparr>ct_stream_id := ct_stream_id c + 1\<rparr>) w"
  let ?t = "target_1 p (count_1 p (cw_ctl w))"
  have same: "present (c\<lparr>ct_stream_id := i\<rparr>) t = present c t" for c i t
    by (cases t) (simp_all add: count_1_def count_2_def)
  have l: "in_line st y part ?w" by (rule in_line_ctl [OF assms(1)]) (simp add: same)
  obtain v where v: "market_child Y E ?t Do_start ?w = Ok v"
    using market.child_returns by blast
  let ?md = "\<lparr> md_stream_id = ct_stream_id (cw_ctl w) + 1, md_priority = p,
    md_index = count_1 p (cw_ctl w) \<rparr>"
  let ?f = "\<lambda>c. if p = Priority_PRIMARY then c\<lparr>ct_market_data_a := ct_market_data_a c @ [?md]\<rparr>
    else c\<lparr>ct_market_data_b := ct_market_data_b c @ [?md]\<rparr>"
  have eq: "w' = upd_ctl ?f v"
    using assms(2) v by (cases p) (auto simp: add_market_data_def Let_def target_1_def count_1_def)
  have np: "\<not> present (cw_ctl ?w) ?t" by (cases p) (simp_all add: target_1_def count_1_def)
  have pr: "u = ?t \<or> present (cw_ctl ?w) u" if "present (?f (cw_ctl ?w)) u" for u
    using that by (cases p; cases u) (auto simp: target_1_def count_1_def count_2_def less_Suc_eq)
  show ?thesis unfolding eq by (rule in_line_added [OF l v np pr])
qed

lemma in_line_add_2:
  assumes "in_line st y part w" "add_market_data_2 (market_child Y E) w = Ok w'"
  shows "in_line st y part w'"
proof -
  let ?w = "upd_ctl (\<lambda>c. c\<lparr>ct_stream_id := ct_stream_id c + 1\<rparr>) w"
  let ?t = "To_market_data_2 (count_2 (cw_ctl w))"
  have same: "present (c\<lparr>ct_stream_id := i\<rparr>) t = present c t" for c i t
    by (cases t) (simp_all add: count_1_def count_2_def)
  have l: "in_line st y part ?w" by (rule in_line_ctl [OF assms(1)]) (simp add: same)
  obtain v where v: "market_child Y E ?t Do_start ?w = Ok v"
    using market.child_returns by blast
  let ?f = "\<lambda>c. c\<lparr>ct_market_data_2 := ct_market_data_2 c @
    [\<lparr> m2_stream_id = ct_stream_id (cw_ctl w) + 1, m2_index = count_2 (cw_ctl w) \<rparr>]\<rparr>"
  have eq: "w' = upd_ctl ?f v"
    using assms(2) v by (auto simp: add_market_data_2_def Let_def count_2_def)
  have np: "\<not> present (cw_ctl ?w) ?t" by (simp add: count_2_def)
  have pr: "u = ?t \<or> present (cw_ctl ?w) u" if "present (?f (cw_ctl ?w)) u" for u
    using that by (cases u) (auto simp: count_1_def count_2_def less_Suc_eq)
  show ?thesis unfolding eq by (rule in_line_added [OF l v np pr])
qed

lemma in_line_grow:
  assumes "\<And>w w'. in_line st y part w \<Longrightarrow> add w = Ok w' \<Longrightarrow> in_line st y part w'"
  shows "in_line st y part w \<Longrightarrow> grow_to c goal add w = Ok w' \<Longrightarrow> in_line st y part w'"
proof -
  have "in_line st y part w \<Longrightarrow> grow n c goal add w = Ok w' \<Longrightarrow> in_line st y part w'" for n
  proof (induction n arbitrary: w)
    case (Suc n)
    then show ?case using assms by (cases "add w") (auto split: if_splits)
  qed simp
  then show "in_line st y part w \<Longrightarrow> grow_to c goal add w = Ok w' \<Longrightarrow> in_line st y part w'"
    by (simp add: grow_to_def)
qed

lemma in_line_ensure:
  assumes "in_line st y part w" "ensure_symbol_slices (market_child Y E) n w = Ok w'"
  shows "in_line st y part w'"
proof -
  let ?C = "market_child Y E"
  let ?b = "\<lambda>u. if st_ws_enable_secondary (ct_settings (cw_ctl u))
    then grow_to (\<lambda>c. length (ct_market_data_b c)) n (add_market_data ?C Priority_SECONDARY) u else Ok u"
  have grow: "in_line st y part b"
    if "in_line st y part a" "grow_to c n (add_market_data ?C p) a = Ok b" for a b c p
    by (rule in_line_grow [OF in_line_add_1 that])
  obtain u where u: "grow_to (\<lambda>c. length (ct_market_data_a c)) n (add_market_data ?C Priority_PRIMARY) w = Ok u"
    using market.grow_a by blast
  have 1: "in_line st y part u" by (rule grow [OF assms(1) u])
  obtain v where v: "?b u = Ok v" using market.grow_b_if by blast
  have 2: "in_line st y part v"
  proof (cases "st_ws_enable_secondary (ct_settings (cw_ctl u))")
    case True
    then show ?thesis using v by (intro grow [OF 1]) simp
  qed (use 1 v in simp)
  have 3: "grow_to (\<lambda>c. length (ct_market_data_2 c)) n (add_market_data_2 ?C) v = Ok w'"
    using assms(2) u v by (simp add: ensure_symbol_slices_def)
  show ?thesis by (rule in_line_grow [OF in_line_add_2 2 3])
qed

section \<open>Symbols\<close>

definition group_a :: "controller \<Rightarrow> target list" where
  "group_a c = map To_market_data_a (indices (ct_market_data_a c))"

definition group_b :: "controller \<Rightarrow> target list" where
  "group_b c = map To_market_data_b (indices (ct_market_data_b c))"

definition group_2 :: "controller \<Rightarrow> target list" where
  "group_2 c = map To_market_data_2 (indices (ct_market_data_2 c))"

lemmas group_defs = group_a_def group_b_def group_2_def indices_def count_1_def count_2_def

lemma groups_eta:
  "group_a = (\<lambda>c. map To_market_data_a (indices (ct_market_data_a c)))"
  "group_b = (\<lambda>c. map To_market_data_b (indices (ct_market_data_b c)))"
  "group_2 = (\<lambda>c. map To_market_data_2 (indices (ct_market_data_2 c)))"
  by (simp_all add: fun_eq_iff group_a_def group_b_def group_2_def)

lemma groups:
  "distinct (group_a c)" "distinct (group_b c)" "distinct (group_2 c)"
  "\<forall>t \<in> set (group_a c). present c t" "\<forall>t \<in> set (group_b c). present c t" "\<forall>t \<in> set (group_2 c). present c t"
  "set (group_a c) \<inter> set (group_b c) = {}" "(set (group_a c) \<union> set (group_b c)) \<inter> set (group_2 c) = {}"
  by (auto simp: group_defs distinct_map inj_on_def)

lemma good_outside:
  "present c t \<Longrightarrow> t \<notin> set (group_a c) \<Longrightarrow> t \<notin> set (group_b c) \<Longrightarrow> t \<notin> set (group_2 c) \<Longrightarrow> good st part t w"
  by (cases t) (auto simp: group_defs)

lemma symbols_update_returns:
  "\<exists>w'. ct_symbols_update (market_child Y E) (\<lambda>_. (n, start)) ss w = Ok w'"
proof -
  let ?C = "market_child Y E" and ?k = "Do_subscribe start"
  obtain v where "ensure_symbol_slices ?C n w = Ok v" using market.slices_effect by blast
  moreover obtain a where "call_group ?C ?k group_a v = Ok a" using market.group_returns by blast
  moreover obtain b where "call_group ?C ?k group_b a = Ok b" using market.group_returns by blast
  moreover obtain c where "call_group ?C ?k group_2 b = Ok c" using market.group_returns by blast
  ultimately show ?thesis by (simp add: ct_symbols_update_def groups_eta [symmetric])
qed

text \<open>In the middle of an update: the streams in \<open>D\<close> have gone on to the new symbols.\<close>

definition halfway ::
  "settings \<Rightarrow> 'y \<Rightarrow> controller \<Rightarrow> (nat \<Rightarrow> string list) \<Rightarrow> (nat \<Rightarrow> string list) \<Rightarrow> target set \<Rightarrow> ('y, 'q) msys \<Rightarrow> bool"
where
  "halfway st y c old new D w \<longleftrightarrow> has_settings st w \<and> cw_ctl w = c \<and> ys_symbols (cw_rest w) = y
     \<and> (\<forall>t. present c t \<longrightarrow> good st (if t \<in> D then new else old) t w)"

lemma halfway_group:
  assumes "halfway st y c old new D w" "call_group (market_child Y E) (Do_subscribe n) f w = Ok w'"
    and "distinct (f c)" "set (f c) \<inter> D = {}" "\<forall>t \<in> set (f c). present c t"
    and "new = (\<lambda>i. old i @ sy_slice Y i n y)"
  shows "halfway st y c old new (D \<union> set (f c)) w'"
proof -
  have h: "has_settings st w" "cw_ctl w = c" "ys_symbols (cw_rest w) = y"
    "\<And>t. present c t \<Longrightarrow> good st (if t \<in> D then new else old) t w"
    using assms(1) by (simp_all add: halfway_def)
  have calls: "for_each (\<lambda>t. market_child Y E t (Do_subscribe n)) (f c) w = Ok w'"
    using assms(2) h(2) by (simp add: call_group_def)
  have "present (cw_ctl w) t \<and> good st old t w" if "t \<in> set (f c)" for t
    using h(4) [of t] assms(4,5) that h(2) by (auto split: if_splits)
  then have "\<forall>t \<in> set (f c). present (cw_ctl w) t \<and> good st old t w" by blast
  from subscribe_calls [OF h(1) assms(3) this calls]
  have r: "has_settings st w'" "frame w w'" "\<And>t. t \<in> set (f c) \<Longrightarrow> good st new t w'"
    "\<And>t part. t \<notin> set (f c) \<Longrightarrow> good st part t w' = good st part t w"
    using h(3) assms(6) by (simp_all add: slices_of_def)
  moreover have "good st (if t \<in> D \<union> set (f c) then new else old) t w'" if "present c t" for t
    using r(3) [of t] r(4) [of t] h(4) [OF that] by (cases "t \<in> set (f c)") auto
  ultimately show ?thesis using h by (simp add: halfway_def frame_def)
qed

lemma in_line_symbols_update:
  assumes "in_line st y part w" "ct_symbols_update (market_child Y E) (\<lambda>_. (n, start)) ss w = Ok w'"
  shows "in_line st y (\<lambda>i. part i @ sy_slice Y i start y) w'"
proof -
  let ?C = "market_child Y E" and ?k = "Do_subscribe start"
  let ?new = "\<lambda>i. part i @ sy_slice Y i start y"
  obtain v where v: "ensure_symbol_slices ?C n w = Ok v" using market.slices_effect by blast
  have l: "in_line st y part v" by (rule in_line_ensure [OF assms(1) v])
  let ?c = "cw_ctl v"
  obtain a where a: "call_group ?C ?k group_a v = Ok a" using market.group_returns by blast
  obtain b where b: "call_group ?C ?k group_b a = Ok b" using market.group_returns by blast
  have w': "call_group ?C ?k group_2 b = Ok w'"
    using assms(2) v a b by (simp add: ct_symbols_update_def groups_eta [symmetric])
  have 0: "halfway st y ?c part ?new {} v" using l by (simp add: halfway_def in_line_def)
  have 1: "halfway st y ?c part ?new ({} \<union> set (group_a ?c)) a"
    by (rule halfway_group [OF 0 a groups(1) _ groups(4)]) simp_all
  have 2: "halfway st y ?c part ?new ({} \<union> set (group_a ?c) \<union> set (group_b ?c)) b"
    by (rule halfway_group [OF 1 b groups(2) _ groups(5)]) (use groups(7) in auto)
  have 3: "halfway st y ?c part ?new ({} \<union> set (group_a ?c) \<union> set (group_b ?c) \<union> set (group_2 ?c)) w'"
    by (rule halfway_group [OF 2 w' groups(3) _ groups(6)]) (use groups(8) in auto)
  have "good st ?new t w'" if "present ?c t" for t
    using 3 that good_outside [OF that, of st ?new w'] by (auto simp: halfway_def split: if_splits)
  then show ?thesis using 3 by (simp add: halfway_def in_line_def)
qed

section \<open>Runs\<close>

definition lined_up :: "'y symbols_lib \<Rightarrow> settings \<Rightarrow> ('y, 'q) msys \<Rightarrow> bool" where
  "lined_up Y st w \<longleftrightarrow> in_line st (ys_symbols (cw_rest w)) (\<lambda>i. slices_of Y w i 0) w"

text \<open>Every slice with symbols has its streams.\<close>

definition covered :: "'y symbols_lib \<Rightarrow> ('y, 'q) msys \<Rightarrow> bool" where
  "covered Y w \<longleftrightarrow> (\<forall>i. slices_of Y w i 0 \<noteq> [] \<longrightarrow>
     i < count_1 Priority_PRIMARY (cw_ctl w) \<and> i < count_2 (cw_ctl w)
     \<and> (st_ws_enable_secondary (ct_settings (cw_ctl w)) \<longrightarrow> i < count_1 Priority_SECONDARY (cw_ctl w)))"

lemma lined_up_group:
  assumes "lined_up Y st w" "\<And>t. t \<in> set (f (cw_ctl w)) \<Longrightarrow> present (cw_ctl w) t"
    and "call_group (market_child Y E) k f w = Ok w'" "k \<noteq> Do_assets []" "\<forall>n. k \<noteq> Do_subscribe n"
  shows "lined_up Y st w' \<and> frame w w'"
  using in_line_calls [of st _ _ w "f (cw_ctl w)" Y E k w'] assms
  by (auto simp: lined_up_def call_group_def in_line_def slices_of_def frame_def)

lemma and_then_OkE:
  assumes "and_then r f = Ok w"
  obtains v where "r = Ok v" "f v = Ok w"
  using assms by (cases r) auto

lemma lined_up_dispatch:
  assumes "lined_up Y st w" "ct_dispatch (market_child Y E) k w = Ok w'"
    and "k \<noteq> Do_assets []" "\<forall>n. k \<noteq> Do_subscribe n"
  shows "lined_up Y st w' \<and> frame w w'"
proof -
  let ?C = "market_child Y E"
  have step: "lined_up Y st v \<and> frame w v"
    if "lined_up Y st u \<and> frame w u" "call_group ?C k f u = Ok v"
      "\<And>c t. t \<in> set (f c) \<Longrightarrow> present c t" for f u v
    using lined_up_group [OF conjunct1 [OF that(1)] that(3) that(2) assms(3,4)] that(1) by (simp add: frame_def)
  obtain a b c d e where
    r: "call_group ?C k group_a w = Ok a" "call_group ?C k group_b a = Ok b" "call_group ?C k group_2 b = Ok c"
      "call_group ?C k (\<lambda>c. map (To_order_entry \<circ> fst) (ct_order_entry c)) c = Ok d"
      "call_group ?C k (\<lambda>c. map To_drop_copy (live_drop_copies c)) d = Ok e"
      "call_group ?C k (\<lambda>c. map (To_download \<circ> fst) (ct_download c)) e = Ok w'"
    using assms(2) unfolding ct_dispatch_def groups_eta [symmetric]
    by (elim and_then_OkE) (auto simp: market_child_def)
  have "lined_up Y st a \<and> frame w a"
    by (rule step [OF _ r(1)]) (use assms(1) groups(4) in \<open>auto simp: frame_def\<close>)
  then have "lined_up Y st b \<and> frame w b"
    by (rule step [OF _ r(2)]) (use groups(5) in auto)
  then have "lined_up Y st c \<and> frame w c"
    by (rule step [OF _ r(3)]) (use groups(6) in auto)
  then have "lined_up Y st d \<and> frame w d"
    by (rule step [OF _ r(4)]) auto
  then have "lined_up Y st e \<and> frame w e"
    by (rule step [OF _ r(5)]) auto
  then show ?thesis by (rule step [OF _ r(6)]) auto
qed

text \<open>A change of the controller that leaves the streams.\<close>

definition same_streams :: "controller \<Rightarrow> controller \<Rightarrow> bool" where
  "same_streams c d \<longleftrightarrow> ct_market_data_a d = ct_market_data_a c \<and> ct_market_data_b d = ct_market_data_b c
     \<and> ct_market_data_2 d = ct_market_data_2 c \<and> ct_settings d = ct_settings c"

lemma same_streams_present: "same_streams c d \<Longrightarrow> present d t = present c t"
  by (cases t) (simp_all add: same_streams_def count_1_def count_2_def)

lemma covered_same:
  "same_streams (cw_ctl w) (cw_ctl w') \<Longrightarrow> ys_symbols (cw_rest w') = ys_symbols (cw_rest w)
    \<Longrightarrow> covered Y w' = covered Y w"
  by (simp add: covered_def same_streams_def count_1_def count_2_def slices_of_def)

lemma lined_up_ctl:
  "lined_up Y st w \<Longrightarrow> same_streams (cw_ctl w) (f (cw_ctl w)) \<Longrightarrow> lined_up Y st (upd_ctl f w)"
  using in_line_ctl [of st _ _ w f, OF _ same_streams_present]
  by (simp add: lined_up_def slices_of_def)

lemma dispatch_keeps:
  assumes "ct_dispatch (market_child Y E) k w = Ok w'" "k \<noteq> Do_assets []" "\<forall>n. k \<noteq> Do_subscribe n"
    and "lined_up Y st w \<and> covered Y w"
  shows "lined_up Y st w' \<and> covered Y w'"
  using lined_up_dispatch [OF conjunct1 [OF assms(4)] assms(1-3)] assms(4) covered_same [of w w' Y]
  by (simp add: frame_def same_streams_def)

lemma lined_up_update:
  assumes "symbols_contract Y" "lined_up Y st w"
    and add: "sy_add Y fresh (ys_symbols (cw_rest w)) = ((n, start), y)"
    and upd: "ct_symbols_update (market_child Y E) (\<lambda>_. (n, start)) ss (add_symbols y w) = Ok w'"
  shows "lined_up Y st w' \<and> covered Y w'"
proof -
  let ?old = "\<lambda>i. slices_of Y w i 0" and ?C = "market_child Y E"
  have part: "sy_slice Y i 0 y = ?old i @ sy_slice Y i start y" "n \<le> i \<Longrightarrow> sy_slice Y i 0 y = []" for i
    using assms(1) add unfolding symbols_contract_def slices_of_def by blast+
  have see: "good st part t (add_symbols y w) = good st part t w" for part t
    by (cases t) (simp_all add: add_symbols_def see_1_def see_2_def)
  have "in_line st y ?old (add_symbols y w)"
    using assms(2) see by (simp add: lined_up_def in_line_def add_symbols_def has_settings_def)
  from in_line_symbols_update [OF this upd]
  have l: "in_line st y (\<lambda>i. sy_slice Y i 0 y) w'" by (simp add: part(1) [symmetric])
  then have "lined_up Y st w'" by (simp add: lined_up_def in_line_def slices_of_def)
  moreover have "covered Y w'"
  proof -
    obtain v where v: "ensure_symbol_slices ?C n (add_symbols y w) = Ok v"
      "n \<le> length (ct_market_data_a (cw_ctl v))" "n \<le> length (ct_market_data_2 (cw_ctl v))"
      "st_ws_enable_secondary (ct_settings (cw_ctl v)) \<Longrightarrow> n \<le> length (ct_market_data_b (cw_ctl v))"
      using market.slices_effect [of Y E n "add_symbols y w"] by (auto simp: market.same_rest_def)
    obtain a b where ab: "call_group ?C (Do_subscribe start) group_a v = Ok a" "cw_ctl a = cw_ctl v"
      "call_group ?C (Do_subscribe start) group_b a = Ok b" "cw_ctl b = cw_ctl v"
      using market.group_returns by metis
    then have "call_group ?C (Do_subscribe start) group_2 b = Ok w'"
      using upd v(1) by (simp add: ct_symbols_update_def groups_eta [symmetric])
    then have "cw_ctl w' = cw_ctl v" using market.group_returns [of Y E "Do_subscribe start" group_2 b] ab(4) by fastforce
    moreover have "slices_of Y w' i 0 \<noteq> [] \<Longrightarrow> i < n" for i
      using l part(2) [of i] by (force simp: in_line_def slices_of_def)
    ultimately show ?thesis
      using v(2-4) unfolding covered_def count_1_def count_2_def by fastforce
  qed
  ultimately show ?thesis ..
qed

lemma lined_up_put:
  assumes "lined_up Y st w"
  shows "md1_event (sliced Y w E) (see_1 p i w) v \<Longrightarrow> i < count_1 p (cw_ctl w) \<Longrightarrow> lined_up Y st (put_1 p i v w)"
    "md2_event (sliced Y w F) (see_2 i w) x \<Longrightarrow> i < count_2 (cw_ctl w) \<Longrightarrow> lined_up Y st (put_2 i x w)"
proof -
  have s: "has_settings st w" and g: "\<And>t. present (cw_ctl w) t \<Longrightarrow> good st (\<lambda>i. slices_of Y w i 0) t w"
    using assms by (simp_all add: lined_up_def in_line_def)
  have sl: "slices_of Y (put_1 p i v w) = slices_of Y w" "slices_of Y (put_2 i x w) = slices_of Y w"
    by (simp_all add: slices_of_def fun_eq_iff)
  show "lined_up Y st (put_1 p i v w)"
    if "md1_event (sliced Y w E) (see_1 p i w) v" "i < count_1 p (cw_ctl w)"
  proof -
    have "good st (\<lambda>i. slices_of Y w i 0) (target_1 p i) w"
      using that(2) g [of "target_1 p i"] by (cases p) (simp_all add: target_1_def)
    then have "ok_1 st (me_slice (sliced Y w E) i 0) p i (see_1 p i w)"
      by (cases p) (simp_all add: target_1_def)
    from ok_event_1 [OF that(1) see_settings(1) [OF s] this] show ?thesis
      using g sl by (auto simp: lined_up_def in_line_def good_put_1)
  qed
  show "lined_up Y st (put_2 i x w)"
    if "md2_event (sliced Y w F) (see_2 i w) x" "i < count_2 (cw_ctl w)"
  proof -
    have "ok_2 st (me_slice (sliced Y w F) i 0) i (see_2 i w)"
      using that(2) g [of "To_market_data_2 i"] by simp
    from ok_event_2 [OF that(1) see_settings(2) [OF s] this] show ?thesis
      using g sl by (auto simp: lined_up_def in_line_def good_put_2)
  qed
qed

lemma lined_up_shared:
  assumes "lined_up Y st w" "sh_settings sh = sh_settings (ys_shared (cw_rest w))"
  shows "lined_up Y st (w\<lparr>cw_rest := (cw_rest w)\<lparr>ys_shared := sh\<rparr>\<rparr>)"
proof -
  have "good st part t (w\<lparr>cw_rest := (cw_rest w)\<lparr>ys_shared := sh\<rparr>\<rparr>) = good st part t w" for part t
    by (cases t) (simp_all add: see_1_def see_2_def ok_shared(1) [of _ _ _ _ sh _ "ys_shared (cw_rest w)"]
        ok_shared(2) [of _ _ _ sh _ "ys_shared (cw_rest w)"])
  then show ?thesis using assms by (simp add: lined_up_def in_line_def has_settings_def slices_of_def)
qed

lemma lined_up_assets:
  assumes "lined_up Y st w" "assets \<noteq> []" "ct_assets_update (market_child Y E) assets w = Ok w'"
  shows "lined_up Y st w' \<and> frame w w'"
proof (cases "ct_market_data_2 (cw_ctl w) = []")
  case False
  let ?t = "To_market_data_2 0" and ?part = "\<lambda>i. slices_of Y w i 0"
  have l: "has_settings st w" "\<And>t. present (cw_ctl w) t \<Longrightarrow> good st ?part t w"
    using assms(1) by (simp_all add: lined_up_def in_line_def)
  have p: "present (cw_ctl w) ?t" using False by (simp add: count_2_def)
  have c: "market_child Y E ?t (Do_assets assets) w = Ok w'" using assms(3) False by (simp add: ct_assets_update_def)
  from child_step [OF c l(1) _ p l(2) [OF p]] assms(2)
  have r: "has_settings st w'" "frame w w'" "good st ?part ?t w'"
    "\<And>t part. t \<noteq> ?t \<Longrightarrow> good st part t w' = good st part t w"
    by simp_all
  have "good st ?part t w'" if "present (cw_ctl w) t" for t
    using r(3) r(4) [of t ?part] l(2) [OF that] by (cases "t = ?t") simp_all
  then show ?thesis using r(1,2) by (simp add: lined_up_def in_line_def frame_def slices_of_def)
qed (use assms in \<open>simp add: ct_assets_update_def frame_def\<close>)

lemma lined_up_zombie:
  assumes "lined_up Y st w" "remove_zombie (market_child Y E) a w = Ok w'"
  shows "lined_up Y st w' \<and> same_streams (cw_ctl w) (cw_ctl w') \<and> ys_symbols (cw_rest w') = ys_symbols (cw_rest w)"
proof -
  let ?f = "\<lambda>c. c\<lparr>ct_drop_copy := set_drop_copy a None (ct_drop_copy c)\<rparr>"
  have s: "same_streams (cw_ctl w) (?f (cw_ctl w))" by (simp add: same_streams_def)
  have "w' = upd_ctl ?f w"
    using assms(2) by (auto simp: remove_zombie_def market_child_def Let_def split: if_splits)
  then show ?thesis using lined_up_ctl [OF assms(1), of ?f] s by simp
qed

lemma lined_up_zombies:
  assumes "lined_up Y st w" "for_each (remove_zombie (market_child Y E)) zs w = Ok w'"
  shows "lined_up Y st w' \<and> same_streams (cw_ctl w) (cw_ctl w') \<and> ys_symbols (cw_rest w') = ys_symbols (cw_rest w)"
  using assms
proof (induction zs arbitrary: w)
  case (Cons a zs)
  obtain v where v: "remove_zombie (market_child Y E) a w = Ok v"
    "for_each (remove_zombie (market_child Y E)) zs v = Ok w'"
    using Cons.prems(2) by (cases "remove_zombie (market_child Y E) a w") auto
  note z = lined_up_zombie [OF Cons.prems(1) v(1)]
  show ?case using Cons.IH [OF conjunct1 [OF z] v(2)] z by (simp add: same_streams_def)
qed (simp add: same_streams_def)

lemma msys_step_keeps:
  assumes "msys_step Y w w'" "symbols_contract Y" "lined_up Y st w" "covered Y w"
  shows "lined_up Y st w' \<and> covered Y w'"
  using assms
proof (induction rule: msys_step.induct)
  case (msys_start E w w')
  then show ?case by (intro dispatch_keeps [of Y E Do_start w w' st]) (simp_all add: ct_start_def assert_that_eq_Ok)
next
  case (msys_stop E w w')
  then show ?case by (intro dispatch_keeps [of Y E Do_stop w w' st]) (simp_all add: ct_stop_def)
next
  case (msys_timer E now w w')
  let ?C = "market_child Y E"
  obtain v where v: "for_each (remove_zombie ?C) (ct_zombies (cw_ctl w)) w = Ok v"
    "ct_dispatch ?C (Do_timer now) (upd_ctl (\<lambda>c. c\<lparr>ct_zombies := []\<rparr>) v) = Ok w'"
    using msys_timer(1) unfolding ct_timer_def by (rule and_then_OkE)
  note z = lined_up_zombies [OF msys_timer(3) v(1)]
  let ?v = "upd_ctl (\<lambda>c. c\<lparr>ct_zombies := []\<rparr>) v"
  have l: "lined_up Y st ?v" by (rule lined_up_ctl [OF conjunct1 [OF z]]) (simp add: same_streams_def)
  have "covered Y ?v = covered Y w"
    by (rule covered_same) (use z in \<open>simp_all add: same_streams_def\<close>)
  then show ?case using l msys_timer(4) by (intro dispatch_keeps [OF v(2)]) simp_all
next
  case (msys_symbols ss w a y E w')
  obtain n start where "a = (n, start)" by (cases a)
  then show ?case using lined_up_update [OF msys_symbols(3,4), of ss n start y E ss w'] msys_symbols(1,2) by simp
next
  case (msys_subscribe w ss fresh all a y E w')
  obtain n start where a: "a = (n, start)" by (cases a)
  let ?w = "w\<lparr>cw_rest := ss_put shared_symbols all (cw_rest w)\<rparr>"
  have "lined_up Y st (w\<lparr>cw_rest := (cw_rest w)\<lparr>ys_shared :=
      (ys_shared (cw_rest w))\<lparr>sh_all_symbols := all\<rparr>\<rparr>\<rparr>)"
    by (rule lined_up_shared) (use msys_subscribe(5) in simp_all)
  then have l: "lined_up Y st ?w" by (simp add: shared_symbols_def)
  have v: "(add_symbols y w)\<lparr>cw_rest := ss_put shared_symbols all (cw_rest (add_symbols y w))\<rparr> = add_symbols y ?w"
    "ss_get shared_symbols (cw_rest (add_symbols y w)) = ss_get shared_symbols (cw_rest w)"
    "ys_symbols (cw_rest ?w) = ys_symbols (cw_rest w)"
    by (simp_all add: add_symbols_def shared_symbols_def)
  have u: "ct_symbols_update (market_child Y E) (\<lambda>_. a) fresh (add_symbols y ?w) = Ok w'"
    using msys_subscribe(1,3) by (simp add: ct_subscribe_def v)
  show ?case
    using lined_up_update [OF msys_subscribe(4) l, of fresh n start y E fresh w'] msys_subscribe(2) u a v(3)
    by simp
next
  case (msys_control E act w w')
  then have "w' = w" by (cases act) (simp_all add: ct_control_def assert_that_eq_Ok market_child_def)
  then show ?case using msys_control by simp
next
  case (msys_assets assets E w w')
  note k = lined_up_assets [OF msys_assets(4,1,2)]
  then show ?case
    using covered_same [of w w' Y] msys_assets(5) by (simp add: frame_def same_streams_def)
next
  case (msys_event_1 i p w E v)
  then show ?case using lined_up_put(1) [of Y st w E p i v] covered_same [of w "put_1 p i v w" Y]
    by (simp add: same_streams_def)
next
  case (msys_event_2 i w E v)
  then show ?case using lined_up_put(2) [of Y st w E i v] covered_same [of w "put_2 i v w" Y]
    by (simp add: same_streams_def)
next
  case (msys_shared sh w)
  then show ?case
    using lined_up_shared [of Y st w sh] covered_same [of w "w\<lparr>cw_rest := (cw_rest w)\<lparr>ys_shared := sh\<rparr>\<rparr>" Y]
    by (simp add: same_streams_def)
qed

lemma msys_run_keeps:
  "msys_run Y w w' \<Longrightarrow> symbols_contract Y \<Longrightarrow> lined_up Y st w \<Longrightarrow> covered Y w
    \<Longrightarrow> lined_up Y st w' \<and> covered Y w'"
  by (induction rule: msys_run.induct) (auto dest: msys_step_keeps)

text \<open>In the beginning there are neither symbols nor streams.\<close>

definition no_markets :: "'y symbols_lib \<Rightarrow> ('y, 'q) msys \<Rightarrow> bool" where
  "no_markets Y w \<longleftrightarrow> (\<forall>i. slices_of Y w i 0 = []) \<and> ct_market_data_a (cw_ctl w) = []
     \<and> ct_market_data_b (cw_ctl w) = [] \<and> ct_market_data_2 (cw_ctl w) = []"

lemma no_markets_lined_up:
  "no_markets Y w \<Longrightarrow> lined_up Y (sh_settings (ys_shared (cw_rest w))) w \<and> covered Y w"
proof -
  assume n: "no_markets Y w"
  have "good st part t w" if "present (cw_ctl w) t" for st part t
    using that n by (cases t) (simp_all add: no_markets_def count_1_def count_2_def)
  then show ?thesis using n by (simp add: lined_up_def in_line_def has_settings_def no_markets_def covered_def)
qed

lemma lined_up_streams:
  assumes "lined_up Y st w"
  shows "i < count_1 p (cw_ctl w) \<Longrightarrow> complete (mk1_channels st p) [] (slices_of Y w i 0) (see_1 p i w)"
    "i < count_2 (cw_ctl w) \<Longrightarrow> complete (mk2_channels st) (mk2_force st i) (slices_of Y w i 0) (see_2 i w)"
proof -
  have g: "\<And>t. present (cw_ctl w) t \<Longrightarrow> good st (\<lambda>i. slices_of Y w i 0) t w"
    using assms by (simp add: lined_up_def in_line_def)
  show "i < count_1 p (cw_ctl w) \<Longrightarrow> complete (mk1_channels st p) [] (slices_of Y w i 0) (see_1 p i w)"
    using g [of "target_1 p i"] by (cases p) (simp_all add: target_1_def ok_1_def)
  show "i < count_2 (cw_ctl w) \<Longrightarrow> complete (mk2_channels st) (mk2_force st i) (slices_of Y w i 0) (see_2 i w)"
    using g [of "To_market_data_2 i"] by (simp add: ok_2_def)
qed

end
