(* ===== verification/Rest_Market_Facts.thy ===== *)
theory Rest_Market_Facts
  imports Market_Facts "HOL-Library.Multiset"
begin

text \<open>
  The REST connection of the market data: its runs, which symbols are announced in them, its
  download and what it publishes.
\<close>

section \<open>Announced symbols\<close>

fun announced :: "effect list \<Rightarrow> string list" where
  "announced [] = []"
| "announced (Ev_symbols_update ss # es) = ss @ announced es"
| "announced (_ # es) = announced es"

lemma announced_append [simp]: "announced (es @ fs) = announced es @ announced fs"
  by (induction es rule: announced.induct) simp_all

text \<open>
  What a step adds to the known symbols it announces, in the same order, and no symbol becomes
  known twice.
\<close>

abbreviation symbols_of :: "('c, 'q) gw \<Rightarrow> string list" where
  "symbols_of w \<equiv> sh_all_symbols (gw_shared w)"

definition keeps_names :: "('c, 'q) gw \<Rightarrow> ('c, 'q) gw \<Rightarrow> bool" where
  "keeps_names v w \<longleftrightarrow> (\<exists>new. announced (gw_out w) = announced (gw_out v) @ new
     \<and> symbols_of w = symbols_of v @ new \<and> (distinct (symbols_of v) \<longrightarrow> distinct (symbols_of w)))"

lemma keeps_names_same:
  "announced (gw_out w) = announced (gw_out v) \<Longrightarrow> symbols_of w = symbols_of v \<Longrightarrow> keeps_names v w"
  by (simp add: keeps_names_def)

lemma keeps_names_trans: "keeps_names u v \<Longrightarrow> keeps_names v w \<Longrightarrow> keeps_names u w"
  unfolding keeps_names_def by (elim exE) (metis append_assoc)

interpretation names_kept: kept_rest keeps_names
  by unfold_locales (auto intro: keeps_names_same keeps_names_trans)

lemma keeps_names_emit:
  "keeps_names v w \<Longrightarrow> announced [e] = [] \<Longrightarrow> keeps_names v (emit e w)"
  by (simp add: keeps_names_def)

lemma keeps_names_self: "keeps_names v w \<Longrightarrow> keeps_names v (upd_self f w)"
  by (simp add: keeps_names_def)

lemma keeps_names_shared:
  "keeps_names v w \<Longrightarrow> sh_all_symbols (f (gw_shared w)) = symbols_of w
    \<Longrightarrow> keeps_names v (upd_shared f w)"
  by (simp add: keeps_names_def)

lemmas names_intros = keeps_names_emit keeps_names_self keeps_names_shared names_kept.keep_refl

section \<open>Runs of the REST connection\<close>

text \<open>
  A step is a callback of the connection or a change that others make to the shared state. A
  \<open>Subscribe\<close> event of a client reaches the controller, which has the same set of known symbols. \<open>subs\<close>
  collects the symbols that the controller has handed on because of such events.
\<close>

inductive rm_step :: "'d rest_lib \<Rightarrow> ('d, 'q) rm \<Rightarrow> ('d, 'q) rm \<Rightarrow> bool" for L where
  rm_step_start: "rm_step L w (rm_start w)"
| rm_step_stop: "rm_step L w (rm_stop w)"
| rm_step_connected: "rm_step L w (rm_connected L w)"
| rm_step_disconnected: "rm_step L w (rm_disconnected L w)"
| rm_step_latency: "rm_step L w (rm_latency sample w)"
| rm_step_begin: "rm_step L w (rm_message_begin w)"
| rm_step_header: "rm_step L w (rm_message_header E name v w)"
| rm_step_end: "rm_step L w (rm_message_end w)"
| rm_step_timer: "rm_step L w (rm_timer E w)"
| rm_step_response: "rm_step L w (res_state (rm_response E L r cb w))"
| rm_step_shared: "sh_all_symbols (f (gw_shared w)) = symbols_of w \<Longrightarrow> rm_step L w (upd_shared f w)"

inductive rm_run :: "'d rest_lib \<Rightarrow> string list \<Rightarrow> ('d, 'q) rm \<Rightarrow> ('d, 'q) rm \<Rightarrow> bool" for L where
  rm_run_refl: "rm_run L [] w w"
| rm_run_step: "rm_run L subs u v \<Longrightarrow> rm_step L v w \<Longrightarrow> rm_run L subs u w"
| rm_run_subscribe: "rm_run L subs u v \<Longrightarrow> new_symbols (symbols_of v) ss = (fresh, all) \<Longrightarrow>
    rm_run L (subs @ fresh) u (upd_shared (\<lambda>s. s\<lparr>sh_all_symbols := all\<rparr>) v)"

definition rm_fresh :: "u16 \<Rightarrow> 'd \<Rightarrow> 'q shared \<Rightarrow> ('d, 'q) rm" where
  "rm_fresh stream_id d sh =
     \<lparr> gw_self = rm_create stream_id d, gw_shared = sh, gw_stale_orders = [], gw_out = [] \<rparr>"

lemma new_symbols_append:
  "new_symbols known ss = (fresh, all) \<Longrightarrow>
     all = known @ fresh \<and> (distinct known \<longrightarrow> distinct all)"
  by (induction known ss arbitrary: fresh all rule: new_symbols.induct)
    (auto simp: set_emplace_def split: prod.splits if_splits)

section \<open>Symbols in a run\<close>

lemma keeps_names_status: "keeps_names w (rm_set_connection_status s r w)"
  by (simp add: rm_set_connection_status_def Let_def names_intros)

lemma keeps_names_call: "keeps_names w (snd (rm_call L s w))"
  by (auto simp: rm_call_def rm_get_exchange_info_def rm_get_asset_index_def Let_def
      split: rest_state.splits intro!: names_intros keeps_names_status)

lemma keeps_names_send: "keeps_names w (rm_send L c w)"
  unfolding rm_send_def
  by (rule names_kept.keep_send) (simp_all add: rm_upd_download_def keeps_names_call names_intros)

text \<open>The exchange information: the names in the list under construction are known, but not announced yet.\<close>

lemma on_symbols_names:
  assumes "fold (rm_on_symbol E t) items (names, v) = (names', w)"
    and "symbols_of v = base @ names"
  shows "symbols_of w = base @ names' \<and> announced (gw_out w) = announced (gw_out v)
    \<and> (distinct (symbols_of v) \<longrightarrow> distinct (symbols_of w))"
  using assms
proof (induction items arbitrary: names v)
  case (Cons item items)
  obtain n u where nu: "rm_on_symbol E t item (names, v) = (n, u)"
    by (cases "rm_on_symbol E t item (names, v)") auto
  have "symbols_of u = base @ n \<and> announced (gw_out u) = announced (gw_out v)
      \<and> (distinct (symbols_of v) \<longrightarrow> distinct (symbols_of u))"
    using nu Cons.prems(2)
    by (auto simp: rm_on_symbol_def rm_publish_def Let_def set_emplace_def split: if_splits)
  then show ?case using Cons.IH [of n u] Cons.prems nu by auto
qed simp

lemma keeps_names_info: "keeps_names w (rm_on_exchange_info E m w)"
proof -
  let ?v = "fold rm_on_rate_limit (xi_rate_limits m) w"
  have limits: "keeps_names w ?v"
    by (rule names_kept.keep_fold) (auto simp: rm_on_rate_limit_def Let_def intro!: names_intros)
  obtain names u where u: "fold (rm_on_symbol E (xi_server_time m)) (xi_symbols m) ([], ?v) = (names, u)"
    by (cases "fold (rm_on_symbol E (xi_server_time m)) (xi_symbols m) ([], ?v)") auto
  have "keeps_names ?v (rm_on_exchange_info E m w)"
    using on_symbols_names [OF u, of "symbols_of ?v"]
    by (auto simp: rm_on_exchange_info_def u keeps_names_def)
  then show ?thesis by (rule keeps_names_trans [OF limits])
qed

lemma keeps_names_index: "keeps_names w (rm_on_asset_index items w)"
proof -
  have "keeps_names v (snd (fold rm_on_asset items (assets, v)))" for assets and v :: "('a, 'b) rm"
  proof (induction items arbitrary: assets v)
    case (Cons a items)
    obtain b u where u: "rm_on_asset a (assets, v) = (b, u)" by (cases "rm_on_asset a (assets, v)") auto
    then have "keeps_names v u" by (auto simp: rm_on_asset_def intro!: names_intros)
    then show ?case using keeps_names_trans Cons.IH [of u b] by (simp add: u) blast
  qed (simp add: names_intros)
  from this [of w "[]"] show ?thesis
    by (auto simp: rm_on_asset_index_def split: prod.splits intro: names_intros)
qed

lemma keeps_names_depth: "keeps_names w (res_state (rm_on_depth E symbol m w))"
proof -
  have call: "keeps_names v (res_state (rm_sequencer_call symbol m c v))" for c and v :: "('a, 'b) rm"
    by (cases c) (auto simp: rm_publish_def request_snapshot_def intro: names_intros)
  have finish: "keeps_names v (res_state (sequencer_done S symbol i (rm_sequencer_call symbol m) x v))"
    for S i x and v :: "('a, 'b) rm"
    unfolding sequencer_done_def mk_store_def
    by (auto split: prod.splits intro!: names_kept.keep_then
        names_kept.keep_trans [OF _ names_kept.keep_for_each] call names_intros)
  show ?thesis by (simp add: rm_on_depth_def Let_def finish)
qed

lemma keeps_names_response: "keeps_names w (res_state (rm_response E L r cb w))"
proof -
  note [simp] = rm_process_response_def rm_retry_def log_error_def names_intros keeps_names_send
  have send: "keeps_names v (rm_send L c (f v))" if "\<And>v. keeps_names v (f v)"
    for c f and v :: "('a, 'b) rm"
    by (rule keeps_names_trans [OF that keeps_names_send])
  have info: "keeps_names w (res_state (rm_get_exchange_info_ack E L r n w))" for n
    unfolding rm_get_exchange_info_ack_def rm_process_response_def
    by (rule names_kept.keep_rt_response)
      (auto intro!: parsed_keeps [of keeps_names] send keeps_names_info)
  have index: "keeps_names w (res_state (rm_get_asset_index_ack E L r n w))" for n
    unfolding rm_get_asset_index_ack_def rm_process_response_def
    by (rule names_kept.keep_rt_response)
      (auto intro!: parsed_keeps [of keeps_names] send keeps_names_index)
  have depth: "keeps_names w (res_state (rm_get_depth_ack E r s w))" for s
    unfolding rm_get_depth_ack_def rm_process_response_def
    by (rule names_kept.keep_rt_response)
      (auto intro!: parsed_keeps [of keeps_names] keeps_names_depth)
  have kline: "keeps_names w (res_state (rm_get_kline_ack E r s w))" for s
    unfolding rm_get_kline_ack_def rm_process_response_def
    by (rule names_kept.keep_rt_response)
      (auto simp: rm_on_kline_def rm_publish_def Let_def intro!: parsed_keeps [of keeps_names])
  show ?thesis
    by (cases cb) (simp_all add: rm_response_def info index depth kline)
qed

lemma keeps_names_timer: "keeps_names w (rm_timer E w)"
  by (auto simp: rm_timer_def rm_check_request_queue_def rm_get_depth_def rm_get_kline_def
      intro!: names_kept.keep_trans [OF names_kept.keep_fold names_kept.keep_fold] names_intros)

lemma keeps_names_step: "rm_step L v w \<Longrightarrow> keeps_names v w"
  by (induction rule: rm_step.induct)
    (auto simp: rm_start_def rm_stop_def rm_connected_def rm_disconnected_def rm_latency_def
      rm_message_begin_def rm_message_header_def rm_message_end_def Let_def
      keeps_names_response keeps_names_timer
      intro!: names_intros keeps_names_trans [OF keeps_names_status keeps_names_send]
        keeps_names_send keeps_names_status split: option.splits)

lemma run_names:
  "rm_run L subs u w \<Longrightarrow> \<exists>new. announced (gw_out w) = announced (gw_out u) @ new
     \<and> mset (symbols_of w) = mset (symbols_of u) + mset new + mset subs
     \<and> (distinct (symbols_of u) \<longrightarrow> distinct (symbols_of w))"
proof (induction rule: rm_run.induct)
  case (rm_run_step subs u v w)
  then obtain a b where "announced (gw_out v) = announced (gw_out u) @ a"
    "mset (symbols_of v) = mset (symbols_of u) + mset a + mset subs"
    "announced (gw_out w) = announced (gw_out v) @ b" "symbols_of w = symbols_of v @ b"
    using keeps_names_step [OF rm_run_step.hyps(2)] unfolding keeps_names_def by blast
  with rm_run_step show ?case
    using keeps_names_step [OF rm_run_step.hyps(2)]
    by (intro exI [of _ "a @ b"]) (auto simp: keeps_names_def)
next
  case (rm_run_subscribe subs u v ss fresh all)
  then show ?case using new_symbols_append [OF rm_run_subscribe.hyps(2)] by auto
qed auto

section \<open>What is published\<close>

fun market_msgs :: "effect list \<Rightarrow> market_msg list" where
  "market_msgs [] = []"
| "market_msgs (Pub_market i x m # es) = m # market_msgs es"
| "market_msgs (_ # es) = market_msgs es"

lemma market_msgs_append [simp]: "market_msgs (es @ fs) = market_msgs es @ market_msgs fs"
  by (induction es rule: market_msgs.induct) simp_all

definition symbol_msgs :: "'q rest_env \<Rightarrow> nanoseconds \<Rightarrow> exchange_symbol \<Rightarrow> market_msg list" where
  "symbol_msgs E t item =
     MM_reference_data (reference_data_of E t (ge_discard_symbol E (xs_symbol item)) item)
     # (if ge_discard_symbol E (xs_symbol item) then []
        else [MM_market_status (xs_symbol item)
                (trading_status_helper (xs_status item) (xs_contract_status item)) t])"

definition kept_names :: "'q rest_env \<Rightarrow> exchange_symbol list \<Rightarrow> string list" where
  "kept_names E items = map (\<lambda>item. map ascii_to_lower (xs_symbol item))
     (filter (\<lambda>item. \<not> ge_discard_symbol E (xs_symbol item)) items)"

lemma on_symbols_published:
  "fold (rm_on_symbol E t) items (names, v) = (names', w) \<Longrightarrow>
     market_msgs (gw_out w) = market_msgs (gw_out v) @ concat (map (symbol_msgs E t) items)
     \<and> set (symbols_of w) = set (symbols_of v) \<union> set (kept_names E items)"
proof (induction items arbitrary: names v)
  case (Cons item items)
  obtain n u where nu: "rm_on_symbol E t item (names, v) = (n, u)"
    by (cases "rm_on_symbol E t item (names, v)") auto
  then have "market_msgs (gw_out u) = market_msgs (gw_out v) @ symbol_msgs E t item
      \<and> set (symbols_of u) = set (symbols_of v) \<union> set (kept_names E [item])"
    by (auto simp: rm_on_symbol_def rm_publish_def symbol_msgs_def kept_names_def Let_def split: if_splits)
  then show ?case using Cons.IH [of n u] Cons.prems nu by (auto simp: kept_names_def)
qed (simp add: kept_names_def)

lemma rate_limits_same:
  "gw_out (fold rm_on_rate_limit items w) = gw_out w \<and> symbols_of (fold rm_on_rate_limit items w) = symbols_of w
    \<and> gw_self (fold rm_on_rate_limit items w) = gw_self w"
  by (induction items arbitrary: w) (simp_all add: rm_on_rate_limit_def Let_def)

lemma info_published:
  "market_msgs (gw_out (rm_on_exchange_info E m w))
      = market_msgs (gw_out w) @ concat (map (symbol_msgs E (xi_server_time m)) (xi_symbols m))"
  "set (symbols_of (rm_on_exchange_info E m w)) = set (symbols_of w) \<union> set (kept_names E (xi_symbols m))"
proof -
  let ?v = "fold rm_on_rate_limit (xi_rate_limits m) w"
  obtain names u where u: "fold (rm_on_symbol E (xi_server_time m)) (xi_symbols m) ([], ?v) = (names, u)"
    by (cases "fold (rm_on_symbol E (xi_server_time m)) (xi_symbols m) ([], ?v)") auto
  note pub = on_symbols_published [OF u] rate_limits_same [of "xi_rate_limits m" w]
  show "market_msgs (gw_out (rm_on_exchange_info E m w))
      = market_msgs (gw_out w) @ concat (map (symbol_msgs E (xi_server_time m)) (xi_symbols m))"
    "set (symbols_of (rm_on_exchange_info E m w)) = set (symbols_of w) \<union> set (kept_names E (xi_symbols m))"
    using pub by (simp_all add: rm_on_exchange_info_def u)
qed

text \<open>The last filter of a kind counts.\<close>

definition filters_of :: "j_filter_type \<Rightarrow> exchange_symbol \<Rightarrow> exchange_filter list" where
  "filters_of t item = filter (\<lambda>f. xf_filter_type f = t) (xs_filters item)"

definition last_or :: "('a \<Rightarrow> 'b) \<Rightarrow> 'b \<Rightarrow> 'a list \<Rightarrow> 'b" where
  "last_or f d xs = (if xs = [] then d else f (last xs))"

lemma apply_filters:
  "fold apply_filter fs (a, b, c, d) =
     (last_or xf_tick_size a (filter (\<lambda>f. xf_filter_type f = JFilterType_PRICE_FILTER) fs),
      last_or xf_min_qty b (filter (\<lambda>f. xf_filter_type f = JFilterType_LOT_SIZE) fs),
      last_or xf_max_qty c (filter (\<lambda>f. xf_filter_type f = JFilterType_LOT_SIZE) fs),
      last_or xf_step_size d (filter (\<lambda>f. xf_filter_type f = JFilterType_LOT_SIZE) fs))"
  by (induction fs arbitrary: a b c d) (auto simp: apply_filter_def last_or_def)

section \<open>The download\<close>

definition rest_states :: "rest_state list" where
  "rest_states = [RS_EXCHANGE_INFO, RS_ASSET_INDEX, RS_DONE]"

definition index_off :: "('c, 'q) gw \<Rightarrow> bool" where
  "index_off w \<longleftrightarrow> am_asset_index (api_market_data (api_of w)) = []
     \<or> \<not> st_subscribe_asset_index (settings_of w)"

lemma rm_status_same [simp]:
  "rm_download_of (rm_set_connection_status s r w) = rm_download_of w"
  "gw_shared (rm_set_connection_status s r w) = gw_shared w"
  "rm_ready (rm_set_connection_status s r w) \<longleftrightarrow> s = ConnectionStatus_READY"
  "rest_sent (gw_out (rm_set_connection_status s r w)) = rest_sent (gw_out w)"
  by (simp_all add: rm_set_connection_status_def rm_ready_def Let_def)

lemma rm_upd_download_same [simp]:
  "rm_download_of (rm_upd_download f w) = f (rm_download_of w)"
  "gw_shared (rm_upd_download f w) = gw_shared w"
  "rm_ready (rm_upd_download f w) = rm_ready w" "gw_out (rm_upd_download f w) = gw_out w"
  by (simp_all add: rm_upd_download_def rm_ready_def)

lemma rm_emit_same [simp]: "rm_ready (emit e w) = rm_ready w"
  by (simp add: rm_ready_def)

lemma rm_send_asset:
  assumes C: "download_contract rest_states L"
    and due: "dl_due L (dl_command L c (rm_download_of w)) = Some RS_ASSET_INDEX"
  shows "if index_off w then rm_ready (rm_send L c w)
    else \<not> rm_ready (rm_send L c w) \<and> waiting L RS_ASSET_INDEX (rm_download_of (rm_send L c w))
      \<and> (\<exists>q n. rest_sent (gw_out (rm_send L c w)) = rest_sent (gw_out w) @ [(q, CB_asset_index n)])"
proof -
  let ?d = "dl_command L c (rm_download_of w)"
  have next1: "dl_due L (dl_answer L 0 ?d) = Some RS_DONE"
    using contract_next [OF C due] by (simp add: rest_states_def)
  have next2: "dl_due L (dl_answer L 0 (dl_answer L 0 ?d)) = None"
    using contract_next [OF C next1] by (simp add: rest_states_def)
  have wait: "dl_due L (dl_answer L 1 ?d) = None" "waiting L RS_ASSET_INDEX (dl_answer L 1 ?d)"
    using contract_wait [OF C due] waitingI [OF due] by simp_all
  show ?thesis
    using due next1 next2 wait
    by (simp add: rm_send_def dl_send_def eval_nat_numeral rm_call_def rm_get_asset_index_def
        index_off_def Let_def)
qed

lemma rm_send_info:
  assumes C: "download_contract rest_states L"
    and due: "dl_due L (dl_command L c (rm_download_of w)) = Some RS_EXCHANGE_INFO"
  shows "\<not> rm_ready (rm_send L c w) \<and> waiting L RS_EXCHANGE_INFO (rm_download_of (rm_send L c w))
    \<and> (\<exists>q n. rest_sent (gw_out (rm_send L c w)) = rest_sent (gw_out w) @ [(q, CB_exchange_info n)])
    \<and> gw_shared (rm_send L c w) = gw_shared w"
  using contract_wait [OF C due, of 1] waitingI [OF due] due
  by (simp add: rm_send_def dl_send_def eval_nat_numeral rm_call_def rm_get_exchange_info_def Let_def)

lemma rm_send_done:
  assumes C: "download_contract rest_states L"
    and due: "dl_due L (dl_command L c (rm_download_of w)) = Some RS_DONE"
  shows "rm_ready (rm_send L c w)"
proof -
  have "dl_due L (dl_answer L 0 (dl_command L c (rm_download_of w))) = None"
    using contract_next [OF C due] by (simp add: rest_states_def)
  then show ?thesis
    using due by (simp add: rm_send_def dl_send_def eval_nat_numeral rm_call_def)
qed

text \<open>The answers.\<close>

lemma info_same [simp]:
  "gw_self (rm_on_exchange_info E m w) = gw_self w"
  "settings_of (rm_on_exchange_info E m w) = settings_of w"
  "api_of (rm_on_exchange_info E m w) = api_of w"
proof -
  have limits: "gw_self (fold rm_on_rate_limit ls v) = gw_self v
      \<and> settings_of (fold rm_on_rate_limit ls v) = settings_of v \<and> api_of (fold rm_on_rate_limit ls v) = api_of v"
    for ls and v :: "('a, 'b) rm"
    by (induction ls arbitrary: v) (simp_all add: rm_on_rate_limit_def Let_def)
  have item: "gw_self (snd (fold (rm_on_symbol E t) items (names, v))) = gw_self v
      \<and> settings_of (snd (fold (rm_on_symbol E t) items (names, v))) = settings_of v
      \<and> api_of (snd (fold (rm_on_symbol E t) items (names, v))) = api_of v"
    for t items names and v :: "('a, 'b) rm"
    by (induction items arbitrary: names v)
      (auto simp: rm_on_symbol_def rm_publish_def Let_def)
  show "gw_self (rm_on_exchange_info E m w) = gw_self w"
    "settings_of (rm_on_exchange_info E m w) = settings_of w"
    "api_of (rm_on_exchange_info E m w) = api_of w"
    using limits [of "xi_rate_limits m" w]
      item [of "xi_server_time m" "xi_symbols m" "[]" "fold rm_on_rate_limit (xi_rate_limits m) w"]
    by (auto simp: rm_on_exchange_info_def split: prod.splits)
qed

lemma index_off_info [simp]: "index_off (rm_on_exchange_info E m w) = index_off w"
  by (simp add: index_off_def)

lemma index_download [simp]: "rm_download_of (rm_on_asset_index items w) = rm_download_of w"
proof -
  have "rm_download_of (snd (fold rm_on_asset items (assets, v))) = rm_download_of v"
    for assets and v :: "('a, 'b) rm"
    by (induction items arbitrary: assets v) (simp_all add: rm_on_asset_def)
  from this [of "[]" w] show ?thesis by (auto simp: rm_on_asset_index_def split: prod.splits)
qed

lemmas rm_response_defs = rm_response_def rm_process_response_def rt_process_response_def process_body_def
  parsed_def

lemma rm_info_answer:
  "rr_result r = Inr (status, Category_SUCCESS, b) \<Longrightarrow> re_exchange_info E b = Inr info \<Longrightarrow>
     \<not> dl_skip L (rm_download_of v) n RS_EXCHANGE_INFO \<Longrightarrow>
     rm_response E L r (CB_exchange_info n) v
       = Ok (rm_send L (Download_check RS_EXCHANGE_INFO) (rm_on_exchange_info E info v))"
  by (simp add: rm_response_defs rm_get_exchange_info_ack_def)

lemma rm_index_answer:
  "rr_result r = Inr (status, Category_SUCCESS, b) \<Longrightarrow> re_asset_index E b = Inr items \<Longrightarrow>
     \<not> dl_skip L (rm_download_of v) n RS_ASSET_INDEX \<Longrightarrow>
     rm_response E L r (CB_asset_index n) v
       = Ok (rm_send L (Download_check RS_ASSET_INDEX) (rm_on_asset_index items v))"
  by (simp add: rm_response_defs rm_get_asset_index_ack_def)

end
