(* ===== verification/Market_Properties.thy ===== *)
theory Market_Properties
  imports Rest_Market_Facts Sample_Env
begin

text \<open>
  The properties of the market data streams and of the REST connection of the market data, each
  with a witness where it has hypotheses.
\<close>

section \<open>Subscriptions\<close>

text \<open>
  A stream that is ready has queued one subscription for every channel of its settings and
  priority, each a request for all symbols of its slice, with successive ids. A stream of the
  second class also asks for the assets, the first one for the liquidations, and the
  histories of exactly its symbols are requested if there is to be a history.
\<close>

theorem market_subscriptions:
  fixes v :: "'q mk1" and w :: "'q mk2"
  shows "queued Queue_subscribe (gw_out (mk1_ready E v)) = queued Queue_subscribe (gw_out v)
      @ frames (mk_request_id (gw_self v))
          (let symbols = me_slice E (mk_index (gw_self v)) 0 in
           if symbols = [] then []
           else map (\<lambda>c. map (channel_of c) symbols) (mk1_channels (settings_of v) (mk_priority (gw_self v))))
    \<and> queued Queue_subscribe (gw_out (mk2_ready E w)) = queued Queue_subscribe (gw_out w)
      @ frames (mk_request_id (gw_self w)) (mk2_frames E w)
    \<and> queued Queue_time_series (gw_out (mk2_ready E w)) = queued Queue_time_series (gw_out w)
      @ (if st_time_series_lookback (settings_of w) = 0 then []
         else me_slice E (mk_index (gw_self w)) 0)"
  using mk1_ready_pushed [of E v] mk2_ready_pushed [of E w] mk2_ready_time_series [of E w]
  by (simp add: mk_pushed_def)

text \<open>
  The assets are subscribed to twice when they are announced before the stream is ready: the
  first request is queued although the stream is not ready, the second when it is.
\<close>

theorem assets_subscribed_twice:
  assumes "mk_assets (gw_self w) = []" "assets \<noteq> []"
  shows "\<exists>ss. queued Queue_subscribe (gw_out (mk2_ready E (mk2_add_assets assets w)))
    = queued Queue_subscribe (gw_out w) @ frames (mk_request_id (gw_self w))
        (map (channel_of ''assetIndex'') (map (map ascii_to_lower) assets) # ss
         @ [map (channel_of ''assetIndex'') (map (map ascii_to_lower) assets)])"
proof -
  note a = add_assets_pushed [OF assms]
  obtain ss where "mk2_frames E (mk2_add_assets assets w)
      = ss @ [map (channel_of ''assetIndex'') (map (map ascii_to_lower) assets)]"
    using a assms(2) by (simp add: mk2_frames_def Let_def)
  then show ?thesis
    using mk_pushed_trans [OF conjunct1 [OF a] mk2_ready_pushed [of E]]
    by (auto simp: mk_pushed_def)
qed

section \<open>Parsing\<close>

text \<open>
  C40: Parsing a message of a market data stream ends: when a text inside a message is shorter than
  the message, the parser calls itself at most once for every character. With any larger
  bound on the nesting the outcome is the same, and it is never that the bound was reached.
\<close>

theorem market_parse_terminates:
  assumes "nested_shorter L" "length message < n"
  shows "market_dispatch n L allow message = market_dispatch (Suc (length message)) L allow message
    \<and> market_dispatch n L allow message \<noteq> Exhausted"
  using market_dispatch_stable [OF assms] by simp

text \<open>A reader that takes the rest of a text to be a message inside it.\<close>

definition onion_lib :: parser_lib where
  "onion_lib = \<lparr>
     pl_parse = \<lambda>m. Inr (if m = [] then [Item ''e'' JV_null] else [Item ''data'' (JV_string (tl m))]),
     pl_field = \<lambda>k. if k = ''data'' then JField_data else JField_event_type,
     pl_event = \<lambda>v. Inr JEventType_trade,
     pl_text = \<lambda>v. case v of JV_string m \<Rightarrow> Inr m | _ \<Rightarrow> Inl (Std_exception []) \<rparr>"

theorem market_parse_terminates_witness:
  "market_dispatch 9 onion_lib False ''abc'' = Call (ME_trade [])
   \<and> market_dispatch 3 onion_lib False ''abc'' = Exhausted"
proof -
  have "nested_shorter onion_lib"
    by (auto simp: nested_shorter_def onion_lib_def split: json_value.splits if_splits)
  note ends = market_parse_terminates [OF this, of "''abc''" 9 False, THEN conjunct1]
  show ?thesis
    using ends by (simp add: eval_nat_numeral onion_lib_def market_event_type_def nested_outcome_def)
qed

section \<open>Top of book\<close>

text \<open>
  C36: Whatever streams the updates of the top of book come from, primary or secondary and of any
  slice, what is published for a symbol is what passes one gate of this symbol: the ids
  are published in ascending order, and the updates of other symbols do not matter.
\<close>

theorem top_of_book_gated:
  "let ids = map (\<lambda>(_, m). bt_order_book_update_id m) (filter (\<lambda>(_, m). bt_symbol m = s) msgs);
       v = fold (\<lambda>(self, m) w. mk1_on_book_ticker E m (w\<lparr>gw_self := self\<rparr>)) msgs w;
       new = sequence_gate.passed tob_update ids (mk_instrument (me_sequencer E) s w)
   in book_ids s (gw_out v) = book_ids s (gw_out w) @ new \<and> sorted new"
proof -
  have "book_ids s (gw_out (fold (\<lambda>(self, m) w. mk1_on_book_ticker E m (w\<lparr>gw_self := self\<rparr>)) msgs w))
      = book_ids s (gw_out w) @ sequence_gate.passed tob_update
          (map (\<lambda>(_, m). bt_order_book_update_id m) (filter (\<lambda>(_, m). bt_symbol m = s) msgs))
          (mk_instrument (me_sequencer E) s w)"
    by (induction msgs arbitrary: w) (auto simp: book_ticker_step)
  then show ?thesis using tob.passed_sorted by (simp add: Let_def)
qed

text \<open>An update that comes from both streams of a slice is published twice.\<close>

theorem secondary_duplicates:
  "book_ids s (gw_out (fold (\<lambda>(self, m) w. mk1_on_book_ticker E m (w\<lparr>gw_self := self\<rparr>)) [(a, m), (b, m)] w))
   = book_ids s (gw_out w)
     @ (if bt_symbol m = s \<and> fst (tob_update (bt_order_book_update_id m) (mk_instrument (me_sequencer E) s w))
        then replicate 2 (bt_order_book_update_id m) else [])"
  by (auto simp: book_ticker_step tob_update_def numeral_2_eq_2)

section \<open>Depth\<close>

text \<open>
  C37: Both streams of depth, the updates of the market data stream and the order books of the REST
  connection, treat the sequencer alike. Every snapshot it requests is queued for the symbol, and
  after a bad state it starts anew with one more request; when it has requested a
  snapshot too often the process ends. An update that is older than the last queues nothing.
\<close>

theorem depth_requests_counted:
  fixes v :: "('z, 'q) mks" and w :: "('d, 'q) rm"
  shows "(if fst (mbp_update (du_final_update_id m) (mk_instrument (me_sequencer E) (du_symbol m) v))
      then depth_outcome (me_sequencer E) (du_symbol m)
        (sq_depth_update (me_sequencer E) (mbp_levels (du_bids m)) (mbp_levels (du_asks m))
          (du_first_update_id m) (du_final_update_id m) (du_final_update_id_in_last_stream m)
          (in_sequencer (mk_instrument (me_sequencer E) (du_symbol m) v))) v (mk1_on_depth_update E m v)
      else \<exists>u. mk1_on_depth_update E m v = Ok u
        \<and> queued Queue_depth (gw_out u) = queued Queue_depth (gw_out v))
    \<and> depth_outcome (re_sequencer F) symbol
        (sq_depth_image (re_sequencer F) (mbp_levels (dk_bids d)) (mbp_levels (dk_asks d))
          (dk_last_update_id d) False (in_sequencer (mk_instrument (re_sequencer F) symbol w)))
        w (rm_on_depth F symbol d w)"
  using depth_update_outcome [OF refl refl] depth_image_outcome by blast

section \<open>Symbols\<close>

text \<open>
  C35: Whatever happens to the REST connection, and whatever symbols clients subscribe to in
  between, every known symbol has been handed to the market data streams exactly once, either
  by an announcement of the REST connection or by the controller for a client.
\<close>

theorem symbols_handed_on_once:
  assumes "rm_run L subs (rm_fresh stream_id d sh) w" "sh_all_symbols sh = []"
  shows "mset (symbols_of w) = mset (announced (gw_out w)) + mset subs \<and> distinct (symbols_of w)"
  using run_names [OF assms(1)] assms(2) by (auto simp: rm_fresh_def)

definition sample_symbol :: exchange_symbol where
  "sample_symbol = \<lparr> xs_symbol = ''BTCUSDT'', xs_pair = ''BTCUSDT'',
     xs_contract_type = JContractType_PERPETUAL, xs_delivery_date = 0, xs_onboard_date = 0,
     xs_status = JSymbolStatus_TRADING, xs_base_asset = ''BTC'', xs_quote_asset = ''USDT'',
     xs_margin_asset = ''USDT'', xs_base_asset_precision = 8, xs_quote_precision = 8,
     xs_filters = [], xs_contract_status = JContractStatus_UNDEFINED_INTERNAL, xs_contract_size = NaN \<rparr>"

definition sample_info :: exchange_info where
  "sample_info = \<lparr> xi_server_time = 5, xi_rate_limits = [], xi_symbols = [sample_symbol] \<rparr>"

definition sample_sequencer :: "unit sequencer_lib" where
  "sample_sequencer = \<lparr> sq_new = (), sq_clear = \<lambda>_. (),
     sq_depth_update = \<lambda>b a f n l q. ([SQ_request 1], False, ()),
     sq_depth_image = \<lambda>b a n c q. ([SQ_snapshot b a n 0 0 n], False, ()) \<rparr>"

definition sample_rest_env :: "unit rest_env" where
  "sample_rest_env = env.extend sample_env (rest_env.fields sample_sequencer (\<lambda>_. Inr sample_info)
     (\<lambda>_. Inr [''BTCUSD'']) (\<lambda>_. Inl (Std_exception [])) (\<lambda>_. Inl (Std_exception []))
     (\<lambda>n. Fin (1 / 10 ^ unat n)) (\<lambda>t. 0) (\<lambda>t. 0) [] [])"

lemma sample_rest_env_simps [simp]:
  "re_exchange_info sample_rest_env b = Inr sample_info"
  "re_asset_index sample_rest_env b = Inr [''BTCUSD'']"
  "ge_discard_symbol sample_rest_env s = False"
  by (simp_all add: sample_rest_env_def env.defs rest_env.defs sample_env_def)

definition rest_lib_sample :: "(rest_state \<times> int \<times> bool) rest_lib" where
  "rest_lib_sample = plain_download rest_states RS_UNDEFINED"

definition sample_rm :: "((rest_state \<times> int \<times> bool), unit) rm" where
  "sample_rm = rm_fresh 2 (RS_EXCHANGE_INFO, 1, False) sample_shared"

theorem symbols_handed_on_once_witness:
  "let v = upd_shared (\<lambda>s. s\<lparr>sh_all_symbols := [''ethusdt'']\<rparr>) sample_rm;
       w = res_state (rm_response sample_rest_env rest_lib_sample (sample_response 200 Category_SUCCESS)
             (CB_exchange_info 0) v)
   in mset (symbols_of w) = mset (announced (gw_out w)) + {#''ethusdt''#} \<and> distinct (symbols_of w)"
proof -
  have "new_symbols (symbols_of sample_rm) [''ethusdt''] = ([''ethusdt''], [''ethusdt''])"
    by (simp add: sample_rm_def rm_fresh_def sample_shared_def set_emplace_def)
  note run = rm_run_subscribe [OF rm_run_refl this]
  have "sh_all_symbols sample_shared = []" by (simp add: sample_shared_def)
  from symbols_handed_on_once [OF rm_run_step [OF run [unfolded sample_rm_def] rm_step_response] this]
  show ?thesis by (simp add: Let_def sample_rm_def)
qed

section \<open>Reference data\<close>

text \<open>
  C39: The exchange information is published in order: for every symbol its reference data, in
  which tick size and volumes come from the last filter of their kind or else from the precisions,
  and the trading status unless the symbol is discarded. Afterwards exactly the
  symbols that are not discarded are known in addition, in lower case.
\<close>

theorem exchange_info_published:
  "market_msgs (gw_out (rm_on_exchange_info E m w))
      = market_msgs (gw_out w) @ concat (map (symbol_msgs E (xi_server_time m)) (xi_symbols m))
    \<and> set (symbols_of (rm_on_exchange_info E m w)) = set (symbols_of w) \<union> set (kept_names E (xi_symbols m))
    \<and> rf_tick_size (reference_data_of E t c item) =
        last_or xf_tick_size (re_pow10 E (xs_quote_precision item)) (filters_of JFilterType_PRICE_FILTER item)
    \<and> rf_min_trade_vol (reference_data_of E t c item) =
        last_or xf_min_qty (re_pow10 E (xs_base_asset_precision item)) (filters_of JFilterType_LOT_SIZE item)
    \<and> rf_max_trade_vol (reference_data_of E t c item) =
        last_or xf_max_qty NaN (filters_of JFilterType_LOT_SIZE item)
    \<and> rf_trade_vol_step_size (reference_data_of E t c item) =
        last_or xf_step_size (re_pow10 E (xs_base_asset_precision item)) (filters_of JFilterType_LOT_SIZE item)"
  by (simp add: info_published reference_data_of_def apply_filters filters_of_def Let_def)

text \<open>The settlement currency is never the currency that margin is posted in, unless all are the same.\<close>

theorem settlement_never_margin:
  "rf_settlement_currency (reference_data_of E t c item) = rf_margin_currency (reference_data_of E t c item)
   \<longleftrightarrow> xs_margin_asset item = xs_base_asset item \<and> xs_base_asset item = xs_quote_asset item"
  by (auto simp: reference_data_of_def settlement_currency_def Let_def split: prod.splits)

section \<open>The download\<close>

text \<open>
  C38: The REST connection becomes ready: when it is up it asks for the exchange information and is
  not ready. A readable answer makes it ready if there are no asset indices to get, and
  otherwise leads to a request for them, a readable answer to which makes it ready. In between
  anything may happen that leaves the download alone.
\<close>

theorem rest_ready_after_answers:
  assumes "download_contract rest_states L" "\<not> dl_downloading L (rm_download_of w)"
    and "\<And>d s. waiting L s d \<Longrightarrow> \<not> dl_skip L d (dl_sequence L d) s"
    and "rr_result r1 = Inr (200, Category_SUCCESS, b1)" "re_exchange_info E1 b1 = Inr info"
    and "rr_result r2 = Inr (200, Category_SUCCESS, b2)" "re_asset_index E2 b2 = Inr items"
    and "rm_download_of v = rm_download_of (rm_connected L w)"
    and "rm_download_of u = rm_download_of (res_state
      (rm_response E1 L r1 (CB_exchange_info (dl_sequence L (rm_download_of v))) v))"
  shows "\<not> rm_ready (rm_connected L w)
    \<and> (\<exists>x. rm_response E1 L r1 (CB_exchange_info (dl_sequence L (rm_download_of v))) v = Ok x
        \<and> (if index_off v then rm_ready x
           else \<not> rm_ready x \<and> (\<exists>y. rm_response E2 L r2 (CB_asset_index (dl_sequence L (rm_download_of u))) u
             = Ok y \<and> rm_ready y)))"
proof -
  note C = assms(1)
  have 0: "\<not> rm_ready (rm_connected L w)" "waiting L RS_EXCHANGE_INFO (rm_download_of v)"
    using rm_send_info [OF C, of Download_begin w] contract_begin [OF C] assms(2,8)
    by (simp_all add: rm_connected_def rest_states_def)
  let ?x = "rm_send L (Download_check RS_EXCHANGE_INFO) (rm_on_exchange_info E1 info v)"
  have 1: "rm_response E1 L r1 (CB_exchange_info (dl_sequence L (rm_download_of v))) v = Ok ?x"
    by (rule rm_info_answer [OF assms(4,5) assms(3) [OF 0(2)]])
  have "dl_due L (dl_command L (Download_check RS_EXCHANGE_INFO) (rm_download_of v)) = Some RS_ASSET_INDEX"
    using contract_check [OF C 0(2)] by (simp add: rest_states_def)
  then have 2: "if index_off v then rm_ready ?x
      else \<not> rm_ready ?x \<and> waiting L RS_ASSET_INDEX (rm_download_of ?x)"
    using rm_send_asset [OF C, of "Download_check RS_EXCHANGE_INFO" "rm_on_exchange_info E1 info v"]
    by (auto split: if_splits)
  have "\<exists>y. rm_response E2 L r2 (CB_asset_index (dl_sequence L (rm_download_of u))) u = Ok y \<and> rm_ready y"
    if "\<not> index_off v"
  proof -
    have u: "waiting L RS_ASSET_INDEX (rm_download_of u)" using 1 2 that assms(9) by simp
    have "dl_due L (dl_command L (Download_check RS_ASSET_INDEX) (rm_download_of u)) = Some RS_DONE"
      using contract_check [OF C u] by (simp add: rest_states_def)
    then have "rm_ready (rm_send L (Download_check RS_ASSET_INDEX) (rm_on_asset_index items u))"
      by (intro rm_send_done [OF C]) simp
    then show ?thesis using rm_index_answer [OF assms(6,7) assms(3) [OF u]] by blast
  qed
  then show ?thesis using 0(1) 1 2 by (simp split: if_splits)
qed

definition sample_index :: "((rest_state \<times> int \<times> bool), unit) rm" where
  "sample_index = rm_fresh 2 (RS_UNDEFINED, 0, False)
     (sample_shared\<lparr>sh_settings := sample_settings\<lparr>st_subscribe_asset_index := True\<rparr>\<rparr>)"

theorem rest_ready_after_answers_witness:
  "let v = rm_connected rest_lib_sample sample_index;
       r = sample_response 200 Category_SUCCESS;
       x = res_state (rm_response sample_rest_env rest_lib_sample r (CB_exchange_info 0) v);
       y = res_state (rm_response sample_rest_env rest_lib_sample r (CB_asset_index 0) x)
   in \<not> rm_ready v \<and> \<not> rm_ready x \<and> rm_ready y"
proof -
  let ?L = rest_lib_sample and ?r = "sample_response 200 Category_SUCCESS"
  let ?v = "rm_connected ?L sample_index"
  have C: "download_contract rest_states ?L"
    by (simp only: rest_lib_sample_def plain_download_contract)
  have skip: "\<not> dl_skip ?L d (dl_sequence ?L d) s" if "waiting ?L s d" for d s
    using contract_state [OF C that] by (auto simp: rest_lib_sample_def plain_download_def split: prod.splits)
  have down: "\<not> dl_downloading ?L (rm_download_of sample_index)"
    by (simp add: sample_index_def rm_fresh_def rm_create_def rest_lib_sample_def plain_download_def)
  have seq: "dl_sequence ?L d = 0" for d by (simp add: rest_lib_sample_def plain_download_def)
  have "gw_shared ?v = gw_shared sample_index"
    using rm_send_info [OF C, of Download_begin sample_index] contract_begin [OF C] down
    by (simp add: rm_connected_def rest_states_def)
  then have on: "\<not> index_off ?v"
    by (simp add: index_off_def sample_index_def rm_fresh_def sample_shared_def fapi_paths_def)
  have r: "rr_result ?r = Inr (200, Category_SUCCESS, ''body'')" by (simp add: sample_response_def)
  show ?thesis
    using rest_ready_after_answers [OF C down skip r sample_rest_env_simps(1) r sample_rest_env_simps(2) refl refl] on
    by (auto simp: seq Let_def)
qed

section \<open>Histories\<close>

text \<open>
  The history of bars is published under the name it was asked for. The market data stream asks for it
  under the name of its slice, which is in lower case, while all else about the symbol,
  its reference data among them, is published under the name the exchange gives.
\<close>

theorem history_under_lower_case:
  assumes "rr_result r = Inr (200, Category_SUCCESS, b)" "re_kline E b = Inr items" "items \<noteq> []"
  shows "market_msgs (gw_out (res_state (rm_response E L r (CB_kline (map ascii_to_lower (xs_symbol item))) w)))
      = market_msgs (gw_out w)
        @ [MM_time_series (map ascii_to_lower (xs_symbol item)) (map (kline_bar E) items) UpdateType_SNAPSHOT 0]
    \<and> rf_symbol (reference_data_of E t c item) = xs_symbol item"
  using assms
  by (simp add: rm_response_defs rm_get_kline_ack_def rm_on_kline_def rm_publish_def
      reference_data_of_def Let_def split: prod.splits)

end
