(* ===== verification/Market_System_Properties.thy ===== *)
theory Market_System_Properties
  imports Market_System_Facts Market_Properties
begin

text \<open>
  The property of the controller and its market data streams together: no symbol is missed and none is
  asked for twice, whatever the order in which symbols are added and streams connect.
\<close>

definition market_complete :: "'y symbols_lib \<Rightarrow> ('y, 'q) msys \<Rightarrow> bool" where
  "market_complete Y w \<longleftrightarrow>
     (let st = sh_settings (ys_shared (cw_rest w)) in
      covered Y w
      \<and> (\<forall>p i. i < count_1 p (cw_ctl w) \<longrightarrow>
           complete (mk1_channels st p) [] (slices_of Y w i 0) (see_1 p i w))
      \<and> (\<forall>i < count_2 (cw_ctl w).
           complete (mk2_channels st) (mk2_force st i) (slices_of Y w i 0) (see_2 i w)))"

text \<open>
  C3: Every slice with symbols has its market data streams, and a stream that is ready
  has queued, since it became ready, one request for each of its channels and each block of
  symbols, with successive ids; the blocks together are exactly its slice. This holds after
  every run in which symbols are found by the REST connection or by clients, assets are announced,
  and streams become ready, lose their connection and receive messages in any order.
\<close>

theorem market_symbols_covered:
  assumes "symbols_contract Y" "no_markets Y v" "msys_run Y v w"
  shows "market_complete Y w"
proof -
  have k: "lined_up Y (sh_settings (ys_shared (cw_rest v))) w \<and> covered Y w"
    using msys_run_keeps [OF assms(3,1)] no_markets_lined_up [OF assms(2)] by blast
  then have "sh_settings (ys_shared (cw_rest w)) = sh_settings (ys_shared (cw_rest v))"
    by (simp add: lined_up_def in_line_def has_settings_def)
  then show ?thesis
    using k lined_up_streams [OF conjunct1 [OF k]] by (simp add: market_complete_def Let_def)
qed

text \<open>An allocation that puts all symbols into one slice.\<close>

definition one_slice :: "string list symbols_lib" where
  "one_slice = \<lparr> sy_add = \<lambda>ss y. ((if y @ ss = [] then 0 else 1, length y), y @ ss),
     sy_slice = \<lambda>i n y. if i = 0 then drop n y else [] \<rparr>"

lemma one_slice_contract: "symbols_contract one_slice"
  by (auto simp: symbols_contract_def one_slice_def)

definition sample_market :: "unit market_env" where
  "sample_market = env.extend sample_env (market_env.fields onion_lib sample_sequencer
     (\<lambda>_. Inr ()) (\<lambda>_. Inr ()) (\<lambda>_. Inl (Std_exception [])) (\<lambda>_. Inl (Std_exception []))
     (\<lambda>_. Inl (Std_exception [])) (\<lambda>_. Inl (Std_exception [])) (\<lambda>_. Inl (Std_exception []))
     (\<lambda>_. Inl (Std_exception [])) (\<lambda>_. Inl (Std_exception [])) (\<lambda>_. Inl (Std_exception []))
     (\<lambda>_. Inl (Std_exception [])) (\<lambda>x. x = Fin 0) (\<lambda>t. t div 1000000000) (\<lambda>_ _. []) [])"

definition sample_msys :: "(string list, unit) msys" where
  "sample_msys = \<lparr> cw_ctl = \<lparr> ct_settings = sample_settings, ct_accounts = [], ct_requests = [],
       ct_stream_id = 1, ct_market_data_a = [], ct_market_data_b = [], ct_market_data_2 = [],
       ct_order_entry = [], ct_drop_copy = [], ct_download = [], ct_zombies = [] \<rparr>,
     cw_rest = \<lparr> ys_symbols = [], ys_shared = sample_shared,
       ys_1 = \<lambda>p i. (mk1_create 0 p i, []), ys_2 = \<lambda>i. (mk2_create 0 i, []) \<rparr> \<rparr>"

text \<open>One symbol, then the stream becomes ready, then another one.\<close>

definition sample_add :: "string list \<Rightarrow> (string list, unit) msys \<Rightarrow> (string list, unit) msys" where
  "sample_add ss w = res_state (case sy_add one_slice ss (ys_symbols (cw_rest w)) of (a, y) \<Rightarrow>
     ct_symbols_update (market_child one_slice sample_market) (\<lambda>_. a) ss (add_symbols y w))"

definition sample_ready :: "(string list, unit) msys \<Rightarrow> (string list, unit) msys" where
  "sample_ready w = put_1 Priority_PRIMARY 0
     (mk1_ready (sliced one_slice w sample_market) (see_1 Priority_PRIMARY 0 w)) w"

lemma sample_add_step: "msys_run one_slice v w \<Longrightarrow> msys_run one_slice v (sample_add ss w)"
proof (erule msys_more)
  let ?y = "ys_symbols (cw_rest w) @ ss" and ?n = "if ys_symbols (cw_rest w) @ ss = [] then 0 else 1::nat"
  let ?u = "ct_symbols_update (market_child one_slice sample_market)
    (\<lambda>_. (?n, length (ys_symbols (cw_rest w)))) ss (add_symbols ?y w)"
  have a: "sy_add one_slice ss (ys_symbols (cw_rest w)) = ((?n, length (ys_symbols (cw_rest w))), ?y)"
    by (simp add: one_slice_def)
  obtain w' where "?u = Ok w'"
    using symbols_update_returns by blast
  then show "msys_step one_slice w (sample_add ss w)"
    using msys_symbols [OF a, of sample_market w'] a by (simp add: sample_add_def)
qed

lemmas sample_add_simps = sample_add_def one_slice_def ct_symbols_update_def ensure_symbol_slices_def
  grow_to_def add_market_data_def add_market_data_2_def call_group_def indices_def market_child_def Let_def
  find_1_def find_2_def count_1_def count_2_def add_symbols_def upd_ctl_def put_1_def put_2_def
  see_1_def see_2_def mk_start_def mk2_start_def mk1_subscribe_def mk2_subscribe_def eval_nat_numeral

lemma sample_first:
  "ct_market_data_a (cw_ctl (sample_add [''btcusdt''] sample_msys))
     = [\<lparr> md_stream_id = 2, md_priority = Priority_PRIMARY, md_index = 0 \<rparr>]"
  "ct_market_data_b (cw_ctl (sample_add [''btcusdt''] sample_msys)) = []"
  "ct_market_data_2 (cw_ctl (sample_add [''btcusdt''] sample_msys)) = [\<lparr> m2_stream_id = 3, m2_index = 0 \<rparr>]"
  "ys_symbols (cw_rest (sample_add [''btcusdt''] sample_msys)) = [''btcusdt'']"
  "\<not> st_ws_enable_secondary (ct_settings (cw_ctl (sample_add [''btcusdt''] sample_msys)))"
  by (simp_all add: sample_msys_def sample_settings_def mk_ready_def mk1_create_def mk2_create_def sample_add_simps)

lemma subscribe_status [simp]:
  "mk_connection_status (gw_self (mk1_subscribe_symbols ss v)) = mk_connection_status (gw_self v)"
  "mk_connection_status (gw_self (mk2_subscribe_symbols ss w)) = mk_connection_status (gw_self w)"
  using quiet_symbols(1) [of v ss] quiet_symbols(2) [of w ss] by (simp_all add: quiet_def)

lemma sample_second:
  assumes "ct_market_data_a (cw_ctl w) = [m]" "ct_market_data_b (cw_ctl w) = []" "ct_market_data_2 (cw_ctl w) = [x]"
    and "mk_ready (see_1 Priority_PRIMARY 0 w)" "\<not> st_ws_enable_secondary (ct_settings (cw_ctl w))"
  shows "mk_ready (see_1 Priority_PRIMARY 0 (sample_add ss w))"
    "ys_symbols (cw_rest (sample_add ss w)) = ys_symbols (cw_rest w) @ ss"
  using assms by (simp_all add: sample_add_simps mk_ready_def)

theorem market_symbols_covered_witness:
  "let w = sample_add [''ethusdt''] (sample_ready (sample_add [''btcusdt''] sample_msys)) in
   mk_ready (see_1 Priority_PRIMARY 0 w) \<and> slices_of one_slice w 0 0 = [''btcusdt'', ''ethusdt'']
   \<and> market_complete one_slice w"
proof -
  let ?v = "sample_ready (sample_add [''btcusdt''] sample_msys)"
  let ?w = "sample_add [''ethusdt''] ?v"
  have n: "no_markets one_slice sample_msys"
    by (simp add: no_markets_def slices_of_def one_slice_def sample_msys_def)
  have c: "0 < count_1 Priority_PRIMARY (cw_ctl (sample_add [''btcusdt''] sample_msys))"
    by (simp add: count_1_def sample_first)
  have r: "msys_run one_slice sample_msys ?w"
    unfolding sample_ready_def
    by (intro sample_add_step msys_more [OF _ msys_event_1 [OF c md1_ready]] msys_refl)
  have 1: "mk_ready (see_1 Priority_PRIMARY 0 ?v)"
    by (simp add: sample_ready_def see_1_def put_1_def mk1_ready_def mk1_subscribe_def mk_ready_def
        mk_set_connection_status_def Let_def)
  have 2: "cw_ctl ?v = cw_ctl (sample_add [''btcusdt''] sample_msys)"
    "ys_symbols (cw_rest ?v) = [''btcusdt'']"
    by (simp_all add: sample_ready_def sample_first)
  have "mk_ready (see_1 Priority_PRIMARY 0 ?w)" "slices_of one_slice ?w 0 0 = [''btcusdt'', ''ethusdt'']"
    using sample_second [of ?v, unfolded 2, OF sample_first(1-3) 1 sample_first(5), of "[''ethusdt'']"]
    by (simp_all add: slices_of_def one_slice_def)
  then show ?thesis
    using market_symbols_covered [OF one_slice_contract n r] by (simp add: Let_def)
qed

end
