(* ===== verification/Controller_Runs.thy ===== *)
theory Controller_Runs
  imports Controller_Properties
begin

text \<open>
  The controller from its construction on: the shape of its state, which every event keeps,
  and that no event ends in one of its fatal errors, except for those that violate an assertion.
\<close>

section \<open>The shape of the state\<close>

text \<open>
  Every account has its request, its order entry, a place for its user stream, and a download
  connection exactly when it trades over the WebSocket. A user stream fits its account. The streams of
  a group are numbered by their position, and the groups are of the same length.
\<close>

definition drop_copy_kind :: "oe_kind \<Rightarrow> dc_kind" where
  "drop_copy_kind k = (if k = Kind_OrderEntryPortfolio then Kind_DropCopyPortfolio else Kind_DropCopyClassic)"

definition accounts_shape :: "controller \<Rightarrow> bool" where
  "accounts_shape c \<longleftrightarrow> well_named (ct_accounts c)
     \<and> fst ` set (ct_accounts c) \<subseteq> set (ct_requests c)
     \<and> (\<forall>k. (map_of (ct_accounts c) k = None) = (map_of (ct_order_entry c) k = None))
     \<and> (\<forall>k a. map_of (ct_accounts c) k = Some a \<longrightarrow>
          (\<exists>n. map_of (ct_order_entry c) k = Some (order_entry_kind (ct_settings c) (ac_margin_mode a), n))
          \<and> (map_of (ct_download c) k \<noteq> None)
              = (order_entry_kind (ct_settings c) (ac_margin_mode a) = Kind_WebSocket))"

definition drop_copies_shape :: "controller \<Rightarrow> bool" where
  "drop_copies_shape c \<longleftrightarrow>
     (\<forall>k. (map_of (ct_drop_copy c) k = None) = (map_of (ct_accounts c) k = None))
     \<and> (\<forall>k d. map_of (ct_drop_copy c) k = Some (Some d) \<longrightarrow>
          (\<exists>o_kind n. map_of (ct_order_entry c) k = Some (o_kind, n) \<and> dc_kind d = drop_copy_kind o_kind))
     \<and> (\<forall>k \<in> set (ct_zombies c). map_of (ct_accounts c) k \<noteq> None)"

definition markets_shape :: "controller \<Rightarrow> bool" where
  "markets_shape c \<longleftrightarrow>
     map md_index (ct_market_data_a c) = [0..<length (ct_market_data_a c)]
     \<and> map md_index (ct_market_data_b c) = [0..<length (ct_market_data_b c)]
     \<and> map m2_index (ct_market_data_2 c) = [0..<length (ct_market_data_2 c)]
     \<and> length (ct_market_data_2 c) = length (ct_market_data_a c)
     \<and> length (ct_market_data_b c) =
         (if st_ws_enable_secondary (ct_settings c) then length (ct_market_data_a c) else 0)"

definition ct_shape :: "controller \<Rightarrow> bool" where
  "ct_shape c \<longleftrightarrow> accounts_shape c \<and> drop_copies_shape c \<and> markets_shape c"

lemmas shape_defs = ct_shape_def accounts_shape_def drop_copies_shape_def markets_shape_def

lemma shape_drop_copies:
  assumes "ct_shape c" "drop_copies_shape (c\<lparr>ct_zombies := zs, ct_drop_copy := m\<rparr>)"
  shows "ct_shape (c\<lparr>ct_stream_id := i, ct_zombies := zs, ct_drop_copy := m\<rparr>)"
proof -
  have "accounts_shape (c\<lparr>ct_stream_id := i, ct_zombies := zs, ct_drop_copy := m\<rparr>) = accounts_shape c"
    by (simp add: accounts_shape_def)
  moreover have "markets_shape (c\<lparr>ct_stream_id := i, ct_zombies := zs, ct_drop_copy := m\<rparr>) = markets_shape c"
    by (simp add: markets_shape_def)
  moreover have "drop_copies_shape (c\<lparr>ct_stream_id := i, ct_zombies := zs, ct_drop_copy := m\<rparr>)"
    using assms(2) by (simp add: drop_copies_shape_def)
  ultimately show ?thesis using assms(1) by (simp add: ct_shape_def)
qed

lemma shape_keys:
  assumes "ct_shape c"
  shows "map_of (ct_order_entry c) k = None \<longleftrightarrow> map_of (ct_accounts c) k = None"
    "map_of (ct_drop_copy c) k = None \<longleftrightarrow> map_of (ct_accounts c) k = None"
    "map_of (ct_accounts c) k \<noteq> None \<Longrightarrow> k \<in> set (ct_requests c)"
proof -
  have a: "accounts_shape c" and d: "drop_copies_shape c" using assms by (simp_all add: ct_shape_def)
  show "map_of (ct_order_entry c) k = None \<longleftrightarrow> map_of (ct_accounts c) k = None"
    using a unfolding accounts_shape_def by metis
  show "map_of (ct_drop_copy c) k = None \<longleftrightarrow> map_of (ct_accounts c) k = None"
    using d unfolding drop_copies_shape_def by metis
  show "map_of (ct_accounts c) k \<noteq> None \<Longrightarrow> k \<in> set (ct_requests c)"
    using a unfolding accounts_shape_def map_of_eq_None_iff by blast
qed

lemma shape_remove:
  assumes "ct_shape c" "map_of (ct_drop_copy c) a \<noteq> None"
  shows "ct_shape (c\<lparr>ct_zombies := set_emplace a (ct_zombies c)\<rparr>)"
proof -
  let ?c = "c\<lparr>ct_zombies := set_emplace a (ct_zombies c), ct_drop_copy := ct_drop_copy c\<rparr>"
  have d: "drop_copies_shape c" using assms(1) by (simp add: ct_shape_def)
  have "map_of (ct_accounts c) a \<noteq> None" using assms(2) shape_keys(2) [OF assms(1)] by simp
  then have "drop_copies_shape ?c"
    using d by (simp add: drop_copies_shape_def)
  from shape_drop_copies [OF assms(1) this, of "ct_stream_id c"] show ?thesis by simp
qed

lemma created_shape:
  assumes "controller_create L stp_of st cfg = Ok c"
  shows "ct_shape c"
proof -
  from assms have c: "well_named (ct_accounts c)" "ct_settings c = st"
    "ct_order_entry c = entries_from st 1 (ct_accounts c)"
    "ct_drop_copy c = map (\<lambda>p. (fst p, None)) (ct_accounts c)"
    "ct_download c = downloads_from (1 + of_nat (length (ct_accounts c)))
       (filter (downloads st) (ct_accounts c))"
    "fst ` set (ct_accounts c) \<subseteq> set (ct_requests c)"
    "ct_zombies c = []" "ct_market_data_a c = []" "ct_market_data_b c = []" "ct_market_data_2 c = []"
    by (auto elim: controller_create_result)
  have e: "map_of (entries_from st n ps) k = None \<longleftrightarrow> map_of ps k = None" for n ps k
    by (induction ps arbitrary: n) auto
  have d: "map_of (map (\<lambda>p. (fst p, None :: drop_copy option)) ps) k
      = (if map_of ps k = None then None else Some None)" for ps :: "(string \<times> account) list" and k
    by (induction ps) auto
  have "(\<exists>n. map_of (entries_from st 1 (ct_accounts c)) k = Some (order_entry_kind st (ac_margin_mode a), n))
      \<and> (map_of (ct_download c) k \<noteq> None) = (order_entry_kind st (ac_margin_mode a) = Kind_WebSocket)"
    if "map_of (ct_accounts c) k = Some a" for k a
    using map_of_SomeD [OF that] c(1) map_of_entries [of "ct_accounts c" k a st 1]
      well_named_filter [OF c(1), of k a "downloads st"]
    by (auto simp: c(5) well_named_def map_of_downloads downloads_def order_entry_kind_def
        split: margin_mode.splits)
  then show ?thesis
    by (simp add: shape_defs c(2) c(1) c(6) c(3) c(4) c(7-10) e d)
qed

section \<open>Events\<close>

text \<open>
  What reaches the controller. The allocation of symbols is library code: its answer, the number of
  slices and where the new symbols start, comes with the event.
\<close>

datatype ct_event =
    CE_start
  | CE_stop
  | CE_timer nanoseconds
  | CE_symbols_update "nat \<times> nat" "string list"
  | CE_assets_update "string list"
  | CE_subscribe "nat \<times> nat" "string list"
  | CE_listen_key_update dc_kind string string
  | CE_remove string
  | CE_control control

fun ct_handle :: "'x symbol_set \<Rightarrow> 'x child \<Rightarrow> ct_event \<Rightarrow> 'x handler" where
  "ct_handle S child CE_start w = ct_start child w"
| "ct_handle S child CE_stop w = ct_stop child w"
| "ct_handle S child (CE_timer now) w = ct_timer child now w"
| "ct_handle S child (CE_symbols_update a symbols) w = ct_symbols_update child (\<lambda>_. a) symbols w"
| "ct_handle S child (CE_assets_update assets) w = ct_assets_update child assets w"
| "ct_handle S child (CE_subscribe a symbols) w = ct_subscribe S child (\<lambda>_. a) symbols w"
| "ct_handle S child (CE_listen_key_update k a key) w = ct_listen_key_update child k a key w"
| "ct_handle S child (CE_remove a) w = Ok (ct_remove a w)"
| "ct_handle S child (CE_control act) w = ct_control child act w"

text \<open>The events that violate an assertion of their handler.\<close>

fun asserts_fail :: "controller \<Rightarrow> ct_event \<Rightarrow> bool" where
  "asserts_fail c CE_start =
     (ct_market_data_a c \<noteq> [] \<or> ct_market_data_b c \<noteq> [] \<or> ct_market_data_2 c \<noteq> [])"
| "asserts_fail c (CE_control act) = (act = Control_UNDEFINED)"
| "asserts_fail c (CE_listen_key_update k a key) =
     (a = [] \<or> key = [] \<and> map_of (ct_drop_copy c) a = Some None)"
| "asserts_fail c _ = False"

text \<open>
  Who sends it: a listen key comes from an order entry of the controller, for the user stream
  of its kind, and a removal from a user stream of the controller.
\<close>

fun from_stream :: "controller \<Rightarrow> ct_event \<Rightarrow> bool" where
  "from_stream c (CE_listen_key_update k a key) =
     (case map_of (ct_order_entry c) a of None \<Rightarrow> False | Some (o_kind, n) \<Rightarrow> k = drop_copy_kind o_kind)"
| "from_stream c (CE_remove a) = (case map_of (ct_drop_copy c) a of Some (Some d) \<Rightarrow> True | _ \<Rightarrow> False)"
| "from_stream c _ = True"

inductive ct_run :: "'x symbol_set \<Rightarrow> 'x child \<Rightarrow> 'x ctw \<Rightarrow> 'x ctw \<Rightarrow> bool" for S child where
  ct_run_refl: "ct_run S child w w"
| ct_run_event: "ct_run S child u v \<Longrightarrow> from_stream (cw_ctl v) ev \<Longrightarrow> ct_handle S child ev v = Ok w \<Longrightarrow>
    ct_run S child u w"

section \<open>Every event returns and keeps the shape\<close>

context stream_child
begin

lemma slices_shape:
  assumes "ct_shape (cw_ctl w)"
  shows "\<exists>w'. ensure_symbol_slices child n w = Ok w' \<and> ct_shape (cw_ctl w')"
proof -
  obtain w' where w': "ensure_symbol_slices child n w = Ok w'" "same_rest (cw_ctl w) (cw_ctl w')"
    "length (ct_market_data_a (cw_ctl w')) = max n (length (ct_market_data_a (cw_ctl w)))"
    "length (ct_market_data_b (cw_ctl w')) =
       (if st_ws_enable_secondary (ct_settings (cw_ctl w))
        then max n (length (ct_market_data_b (cw_ctl w))) else length (ct_market_data_b (cw_ctl w)))"
    "length (ct_market_data_2 (cw_ctl w')) = max n (length (ct_market_data_2 (cw_ctl w)))"
    using slices_effect by blast
  have "numbered (cw_ctl w')"
    using assms w'(2) by (simp add: shape_defs same_rest_def numbered_def)
  then have "markets_shape (cw_ctl w')"
    using assms w'(2-5) by (simp add: shape_defs same_rest_def numbered_def)
  moreover have "accounts_shape (cw_ctl w') = accounts_shape (cw_ctl w)"
    "drop_copies_shape (cw_ctl w') = drop_copies_shape (cw_ctl w)"
    using w'(2) by (simp_all add: accounts_shape_def drop_copies_shape_def same_rest_def)
  ultimately show ?thesis using w'(1) assms by (auto simp: ct_shape_def)
qed

lemma symbols_update_shape:
  assumes "ct_shape (cw_ctl w)"
  shows "\<exists>w'. ct_symbols_update child (\<lambda>_. (n, start)) symbols w = Ok w' \<and> ct_shape (cw_ctl w')"
proof -
  obtain v where v: "ensure_symbol_slices child n w = Ok v" "ct_shape (cw_ctl v)"
    using slices_shape [OF assms] by blast
  have "\<exists>w'. ct_symbols_update child (\<lambda>_. (n, start)) symbols w = Ok w' \<and> cw_ctl w' = cw_ctl v"
    using v(1) by (simp add: ct_symbols_update_def) (intro then_returns group_keeps refl; simp)
  then show ?thesis using v(2) by auto
qed

lemma shape_known:
  "ct_shape c \<Longrightarrow> \<forall>a \<in> set (ct_zombies c). known c a"
  unfolding known_def ct_shape_def accounts_shape_def drop_copies_shape_def by metis

lemma timer_shape:
  assumes "ct_shape (cw_ctl w)"
  shows "\<exists>w'. ct_timer child now w = Ok w' \<and> ct_shape (cw_ctl w')"
proof -
  have removed: "map_of (fold (\<lambda>a. set_drop_copy a None) zs m) a =
      (if a \<in> set zs \<and> map_of m a \<noteq> None then Some None else map_of m a)" for zs m a
    by (induction zs arbitrary: m) (auto simp: map_of_set_drop_copy)
  have "\<forall>a \<in> set (ct_zombies (cw_ctl w)). known (cw_ctl w) a"
    by (rule shape_known [OF assms])
  from timer_effect [OF this] obtain w' where "ct_timer child now w = Ok w'"
    "cw_ctl w' = (cw_ctl w)\<lparr>ct_zombies := [], ct_drop_copy :=
       fold (\<lambda>a. set_drop_copy a None) (ct_zombies (cw_ctl w)) (ct_drop_copy (cw_ctl w))\<rparr>"
    by blast
  moreover have "drop_copies_shape (cw_ctl w)" using assms by (simp add: ct_shape_def)
  then have "drop_copies_shape ((cw_ctl w)\<lparr>ct_zombies := [], ct_drop_copy :=
       fold (\<lambda>a. set_drop_copy a None) (ct_zombies (cw_ctl w)) (ct_drop_copy (cw_ctl w))\<rparr>)"
    by (auto simp: drop_copies_shape_def removed)
  note shape_drop_copies [OF assms this, of "ct_stream_id (cw_ctl w)"]
  ultimately show ?thesis by simp
qed

text \<open>What an event that violates no assertion, or a build without them, makes of the controller.\<close>

definition clear :: "controller \<Rightarrow> ct_event \<Rightarrow> bool" where
  "clear c ev \<longleftrightarrow> \<not> (st_assertions (ct_settings c) \<and> asserts_fail c ev)"

lemma listen_key_shape:
  assumes "ct_shape (cw_ctl w)" "from_stream (cw_ctl w) (CE_listen_key_update k a key)"
    and "clear (cw_ctl w) (CE_listen_key_update k a key)"
  shows "\<exists>w'. ct_listen_key_update child k a key w = Ok w' \<and> ct_shape (cw_ctl w')"
proof -
  obtain o_kind n where oe: "map_of (ct_order_entry (cw_ctl w)) a = Some (o_kind, n)" "k = drop_copy_kind o_kind"
    using assms(2) by (auto split: option.splits)
  have acc: "map_of (ct_accounts (cw_ctl w)) a \<noteq> None" using oe shape_keys(1) [OF assms(1), of a] by simp
  note req = shape_keys(3) [OF assms(1) acc]
  have named: "\<not> st_assertions (ct_settings (cw_ctl w)) \<or> a \<noteq> []" using assms(3) by (auto simp: clear_def)
  have "map_of (ct_drop_copy (cw_ctl w)) a \<noteq> None" using acc shape_keys(2) [OF assms(1)] by simp
  then consider d where "map_of (ct_drop_copy (cw_ctl w)) a = Some (Some d)"
    | "map_of (ct_drop_copy (cw_ctl w)) a = Some None"
    by (cases "map_of (ct_drop_copy (cw_ctl w)) a") auto
  then show ?thesis
  proof cases
    case 2
    define v where "v = upd_ctl (\<lambda>c. c\<lparr>ct_stream_id := ct_stream_id c + 1\<rparr>) w"
    define d where "d = \<lparr> dc_kind = k, dc_stream_id = ct_stream_id (cw_ctl v), dc_listen_key = key \<rparr>"
    obtain u where u: "child (To_drop_copy a) Do_start v = Ok u" "cw_ctl u = cw_ctl v" by (rule child_cases)
    have "\<not> st_assertions (ct_settings (cw_ctl w)) \<or> key \<noteq> []" using assms(3) 2 by (auto simp: clear_def)
    then have "ct_listen_key_update child k a key w
        = Ok (upd_ctl (\<lambda>c. c\<lparr>ct_drop_copy := set_drop_copy a (Some d) (ct_drop_copy c)\<rparr>) u)"
      using 2 acc req named u(1) by (auto simp: ct_listen_key_update_def Let_def v_def d_def assert_that_def)
    moreover have "drop_copies_shape (cw_ctl w)" using assms(1) by (simp add: ct_shape_def)
    then have "drop_copies_shape ((cw_ctl w)\<lparr>ct_zombies := ct_zombies (cw_ctl w),
        ct_drop_copy := set_drop_copy a (Some d) (ct_drop_copy (cw_ctl w))\<rparr>)"
      using oe acc by (auto simp: drop_copies_shape_def map_of_set_drop_copy d_def)
    note shape_drop_copies [OF assms(1) this, of "ct_stream_id (cw_ctl w) + 1"]
    ultimately show ?thesis using u(2) by (simp add: v_def)
  qed (use assms(1) named in \<open>auto simp: ct_listen_key_update_def assert_that_def\<close>)
qed

lemma handle_shape:
  assumes "ct_shape (cw_ctl w)" "from_stream (cw_ctl w) ev" "clear (cw_ctl w) ev"
  shows "\<exists>w'. ct_handle S child ev w = Ok w' \<and> ct_shape (cw_ctl w')"
proof -
  have same: "\<exists>w'. r = Ok w' \<and> ct_shape (cw_ctl w')" if "\<exists>w'. r = Ok w' \<and> cw_ctl w' = cw_ctl w" for r
    using that assms(1) by auto
  show ?thesis
  proof (cases ev)
    case CE_start
    then have "ct_start child w = ct_dispatch child Do_start w"
      using assms(3) by (auto simp: ct_start_def clear_def assert_that_def)
    then show ?thesis using CE_start same [OF dispatch_returns] by simp
  next
    case (CE_symbols_update a symbols)
    then show ?thesis using symbols_update_shape [OF assms(1)] by (cases a) simp
  next
    case (CE_subscribe a symbols)
    then show ?thesis
      using symbols_update_shape assms(1) by (cases a) (auto simp: ct_subscribe_def split: prod.splits)
  next
    case (CE_assets_update assets)
    then show ?thesis
      using same [OF child_returns [of "To_market_data_2 0" "Do_assets assets" w]] assms(1)
      by (simp add: ct_assets_update_def)
  next
    case (CE_listen_key_update k a key)
    then show ?thesis using listen_key_shape [OF assms(1)] assms(2,3) by simp
  next
    case (CE_remove a)
    then have "map_of (ct_drop_copy (cw_ctl w)) a \<noteq> None" using assms(2) by (auto split: option.splits)
    then show ?thesis using CE_remove shape_remove [OF assms(1)] by (simp add: ct_remove_def)
  next
    case (CE_control act)
    then show ?thesis
      using assms(1,3) same [OF child_returns [of To_dispatcher _ w]]
      by (cases act) (auto simp: ct_control_def clear_def assert_that_def)
  qed (simp_all add: ct_stop_def same dispatch_returns timer_shape [OF assms(1)])
qed

lemma handle_asserts:
  assumes "ct_shape (cw_ctl w)" "from_stream (cw_ctl w) ev" "\<not> clear (cw_ctl w) ev"
  shows "\<exists>w'. ct_handle S child ev w = Fatal ''assert'' w'"
proof (cases ev)
  case (CE_listen_key_update k a key)
  have "map_of (ct_order_entry (cw_ctl w)) a \<noteq> None"
    using assms(2) CE_listen_key_update by (auto split: option.splits)
  then have acc: "map_of (ct_accounts (cw_ctl w)) a \<noteq> None" "a \<in> set (ct_requests (cw_ctl w))"
    using shape_keys(1,3) [OF assms(1), of a] by auto
  then show ?thesis
    using assms(3) CE_listen_key_update
    by (auto simp: clear_def ct_listen_key_update_def Let_def assert_that_def)
qed (use assms(3) in \<open>auto simp: clear_def ct_start_def ct_control_def assert_that_def\<close>)

lemma handle_Ok_shape:
  assumes "ct_shape (cw_ctl w)" "from_stream (cw_ctl w) ev" "ct_handle S child ev w = Ok w'"
  shows "ct_shape (cw_ctl w')"
proof (cases "clear (cw_ctl w) ev")
  case True
  from handle_shape [OF assms(1,2) True, of S] assms(3) show ?thesis by auto
next
  case False
  from handle_asserts [OF assms(1,2) False, of S] assms(3) show ?thesis by auto
qed

lemma run_shape: "ct_run S child w w' \<Longrightarrow> ct_shape (cw_ctl w) \<Longrightarrow> ct_shape (cw_ctl w')"
  by (induction rule: ct_run.induct) (auto intro: handle_Ok_shape)

end

text \<open>
  C6: From its construction on, the controller keeps the shape of its state, whatever events reach
  it in whatever order: every account has its order entry of the right kind, its place for a user stream of that
  kind and its download connection, only accounts are waiting for the removal of their user stream, and the
  groups of market data streams are numbered and of equal length. In every such state, as long as the
  streams that are called return (\<open>stream_child\<close>), every event is handled without an exception, and it ends the process exactly when the build has its assertions and the
  event violates them: a start when there are market data streams, a control message without an action, a listen
  key for an account without a name, or an empty listen key that is to get a user stream. No other event meets a
  fatal error.
\<close>

theorem controller_type_safe:
  assumes "stream_child child" "controller_create L stp_of st cfg = Ok c" "cw_ctl v = c" "ct_run S child v w"
    and "from_stream (cw_ctl w) ev"
  shows "ct_shape (cw_ctl w)
    \<and> (if st_assertions (ct_settings (cw_ctl w)) \<and> asserts_fail (cw_ctl w) ev
       then \<exists>w'. ct_handle S child ev w = Fatal ''assert'' w'
       else \<exists>w'. ct_handle S child ev w = Ok w' \<and> ct_shape (cw_ctl w'))"
  using stream_child.run_shape [OF assms(1,4)] created_shape [OF assms(2)] assms(3,5)
    stream_child.handle_shape [OF assms(1), of w ev S] stream_child.handle_asserts [OF assms(1), of w ev S]
  by (simp add: stream_child.clear_def [OF assms(1)])

definition sample_world :: "unit sys" where
  "sample_world = \<lparr> cw_ctl = res_state sample_created, cw_rest = \<lambda>a. sample_oe \<rparr>"

lemma sample_world_code:
  "map_of (ct_order_entry (cw_ctl sample_world)) ''A'' = Some (Kind_WebSocket, 2)" by code_simp

lemma sample_world_asserts: "st_assertions (ct_settings (cw_ctl sample_world))" by code_simp

theorem controller_type_safe_witness:
  "\<exists>w w' w''. ct_listen_key_update (classic_child sample_env (sample_trace 1)) Kind_DropCopyClassic ''A'' ''key''
       sample_world = Ok w \<and> ct_shape (cw_ctl w)
     \<and> ct_timer (classic_child sample_env (sample_trace 1)) (seconds 2) w = Ok w' \<and> ct_shape (cw_ctl w')
     \<and> ct_control (classic_child sample_env (sample_trace 1)) Control_UNDEFINED sample_world = Fatal ''assert'' w''"
proof -
  let ?C = "classic_child sample_env (sample_trace 1)" and ?S = "unseen_symbols []"
  let ?e = "CE_listen_key_update Kind_DropCopyClassic ''A'' ''key''"
  note safe = controller_type_safe [OF classic.stream_child_axioms sample_created_create, of sample_world]
  have s: "cw_ctl sample_world = res_state sample_created" by (simp add: sample_world_def)
  have f: "from_stream (cw_ctl sample_world) ?e" by (simp add: sample_world_code drop_copy_kind_def)
  obtain w where w: "ct_handle ?S ?C ?e sample_world = Ok w" "ct_shape (cw_ctl w)"
    using safe [OF s ct_run_refl f] by auto
  have "from_stream (cw_ctl w) (CE_timer (seconds 2))" by simp
  from safe [OF s ct_run_event [OF ct_run_refl f w(1)] this] w
  obtain w' where w': "ct_timer ?C (seconds 2) w = Ok w'" "ct_shape (cw_ctl w')" by auto
  have "from_stream (cw_ctl sample_world) (CE_control Control_UNDEFINED)" by simp
  from safe [OF s ct_run_refl this, of ?S]
  have "\<exists>w''. ct_control ?C Control_UNDEFINED sample_world = Fatal ''assert'' w''"
    by (simp add: sample_world_asserts)
  with w w' show ?thesis by auto
qed

end
