(* ===== verification/Order_Routing.thy ===== *)
theory Order_Routing
  imports Controller_Runs Portfolio_Facts Web_Socket_Facts Rest_Trade
begin

text \<open>
  The controller together with the order entries of all kinds: how a request of a client
  reaches the stream of its account, and what the stream makes of it
  (\<open>server::OrderActionStream\<close> in \<open>gateway/order_entry_classic.cpp\<close>, \<open>order_entry_portfolio.cpp\<close>,
  \<open>web_socket.cpp\<close> and \<open>rest_trade.cpp\<close>).
\<close>

section \<open>Requests of clients\<close>

text \<open>What is used of \<open>MessageInfo\<close>.\<close>

record message_info =
  mi_source :: u8
  mi_trace :: trace_info
  mi_receive_time_utc :: nanoseconds

text \<open>
  The arguments of the handlers: the account (a member of each of the events), the event, the order, the
  reference data and the request id. The previous request id is not used.
\<close>

datatype order_request =
    Req_create string create_order oms_order ref_data string
  | Req_modify string modify_order oms_order ref_data string
  | Req_cancel string cancel_order oms_order ref_data string
  | Req_cancel_all string cancel_all_orders string
  | Req_mass_quote
  | Req_cancel_quotes

fun request_action :: "order_request \<Rightarrow> order_action" where
  "request_action (Req_create a c ord rd request_id) = Do_create_order a"
| "request_action (Req_modify a m ord rd request_id) = Do_modify_order a (oo_account ord)"
| "request_action (Req_cancel a c ord rd request_id) = Do_cancel_order a (oo_account ord)"
| "request_action (Req_cancel_all a c request_id) = Do_cancel_all_orders a"
| "request_action Req_mass_quote = Do_mass_quote"
| "request_action Req_cancel_quotes = Do_cancel_quotes"

section \<open>The handlers of the streams\<close>

text \<open>
  Quotes do not reach any stream. Everything that an order action sends over REST is signed, and a signature
  asserts that the account has an HMAC key (\<open>create_rest_signature\<close> and the others in \<open>tools/crypto.cpp\<close>):
  when the build has its assertions, an action without the key ends the process before it has sent
  anything. That there is a text to sign is asserted as well, and always so (\<open>signed_texts_nonempty\<close>).
\<close>

definition signing ::
  "(('z account_stream_scheme, 'q) gw \<Rightarrow> (exn, ('z account_stream_scheme, 'q) gw) res)
    \<Rightarrow> ('z account_stream_scheme, 'q) gw \<Rightarrow> (exn, ('z account_stream_scheme, 'q) gw) res" where
  "signing f w =
     (case f w of
        Ok v \<Rightarrow>
          (if st_assertions (settings_of w) \<and> gw_out v \<noteq> gw_out w
              \<and> cr_mac (ac_crypto (sm_account (gw_self w))) = None
           then Fatal ''assert'' w else Ok v)
      | r \<Rightarrow> r)"

lemma signing_eq:
  "signing f w = Ok v \<longleftrightarrow> f w = Ok v \<and> \<not> (st_assertions (settings_of w) \<and> gw_out v \<noteq> gw_out w
     \<and> cr_mac (ac_crypto (sm_account (gw_self w))) = None)"
  "signing f w = Throw e v \<longleftrightarrow> f w = Throw e v"
  by (cases "f w"; auto simp: signing_def)+

lemma signing_fatal:
  "signing f w = Fatal m v \<Longrightarrow> f w = Fatal m v \<or> m = ''assert'' \<and> st_assertions (settings_of w)
     \<and> cr_mac (ac_crypto (sm_account (gw_self w))) = None"
  by (cases "f w") (auto simp: signing_def split: if_splits)

lemma signed_texts_nonempty:
  "order_place_url on L c rd request_id t stp = Some url \<Longrightarrow> url \<noteq> []"
  "order_modify_url L m ord rd t full = Inr body \<Longrightarrow> body \<noteq> []"
  "order_cancel_url ord t \<noteq> []" "all_open_orders_url symbol t \<noteq> []"
  by (auto simp: order_place_url_def order_modify_url_def order_cancel_url_def all_open_orders_url_def
      kv_amp_def kv_def Let_def split: if_splits)

fun oe_action :: "env \<Rightarrow> message_info \<Rightarrow> order_request \<Rightarrow> 'q oe \<Rightarrow> (exn, 'q oe) res" where
  "oe_action E mi (Req_create a c ord rd request_id) w =
     signing (order_place E (mi_trace mi) (mi_source mi) c ord rd request_id) w"
| "oe_action E mi (Req_modify a m ord rd request_id) w =
     signing (order_modify E (mi_trace mi) (mi_source mi) m ord rd request_id) w"
| "oe_action E mi (Req_cancel a c ord rd request_id) w =
     signing (order_cancel E (mi_trace mi) (mi_source mi) c ord request_id) w"
| "oe_action E mi (Req_cancel_all a c request_id) w =
     signing (\<lambda>w. Ok (open_orders_cancel_all E (mi_trace mi) c request_id w)) w"
| "oe_action E mi _ w = Throw (Oms_NotSupported ''not supported'') w"

fun op_action :: "env \<Rightarrow> message_info \<Rightarrow> order_request \<Rightarrow> 'q op \<Rightarrow> (exn, 'q op) res" where
  "op_action E mi (Req_create a c ord rd request_id) w =
     signing (op_order_place E (mi_trace mi) (mi_source mi) c ord rd request_id) w"
| "op_action E mi (Req_modify a m ord rd request_id) w =
     signing (op_order_modify E (mi_trace mi) (mi_source mi) m ord rd request_id) w"
| "op_action E mi (Req_cancel a c ord rd request_id) w =
     signing (op_order_cancel E (mi_trace mi) (mi_source mi) c ord request_id) w"
| "op_action E mi (Req_cancel_all a c request_id) w =
     signing (\<lambda>w. Ok (op_open_orders_cancel_all E (mi_trace mi) c request_id w)) w"
| "op_action E mi _ w = Throw (Oms_NotSupported ''not supported'') w"

fun ws_action :: "ws_env \<Rightarrow> message_info \<Rightarrow> order_request \<Rightarrow> ('d, 'q) ws \<Rightarrow> (exn, ('d, 'q) ws) res" where
  "ws_action E mi (Req_create a c ord rd request_id) w =
     ws_order_place E (mi_receive_time_utc mi) (mi_source mi) c rd request_id w"
| "ws_action E mi (Req_modify a m ord rd request_id) w =
     ws_order_modify E (mi_receive_time_utc mi) (mi_source mi) m ord rd w"
| "ws_action E mi (Req_cancel a c ord rd request_id) w =
     ws_order_cancel E (mi_receive_time_utc mi) (mi_source mi) c ord w"
| "ws_action E mi (Req_cancel_all a c request_id) w = ws_cancel_all_orders w"
| "ws_action E mi _ w = Throw (Oms_NotSupported ''not supported'') w"

fun rt_action ::
  "env \<Rightarrow> message_info \<Rightarrow> order_request \<Rightarrow> (rest_stream, 'q) gw \<Rightarrow> (exn, (rest_stream, 'q) gw) res" where
  "rt_action E mi (Req_create a c ord rd request_id) w = rt_create_order w"
| "rt_action E mi (Req_modify a m ord rd request_id) w = rt_modify_order w"
| "rt_action E mi (Req_cancel a c ord rd request_id) w = rt_cancel_order w"
| "rt_action E mi (Req_cancel_all a c request_id) w =
     signing (\<lambda>w. Ok (rt_open_orders_cancel_all E (mi_trace mi) c request_id w)) w"
| "rt_action E mi _ w = Throw (Oms_NotSupported ''not supported'') w"

section \<open>The composition\<close>

text \<open>
  The order entry of an account is of one of three classes. \<open>Shared\<close> is one for all, \<open>Request\<close> one per account;
  a stream has its members and its own list of effects. \<open>dk_log\<close> holds the requests that
  returned to the client, with the stream id that the handler returned.
\<close>

datatype 'd entry =
    Entry_classic oe_classic
  | Entry_portfolio oe_portfolio
  | Entry_socket "'d web_socket"

record ('d, 'q) desk =
  dk_shared :: "'q shared"
  dk_stale :: "string \<Rightarrow> (u8 \<times> u64) list"
  dk_entry :: "string \<Rightarrow> 'd entry \<times> effect list"
  dk_download :: "string \<Rightarrow> rest_stream \<times> effect list"
  dk_log :: "((message_info \<times> order_request) \<times> u16) list"

type_synonym ('d, 'q) office = "('d, 'q) desk ctw"

definition entry_view :: "string \<Rightarrow> 'c \<Rightarrow> ('d, 'q) desk \<Rightarrow> ('c, 'q) gw" where
  "entry_view a s w = \<lparr> gw_self = s, gw_shared = dk_shared w, gw_stale_orders = dk_stale w a,
     gw_out = snd (dk_entry w a) \<rparr>"

definition put_entry :: "string \<Rightarrow> ('c \<Rightarrow> 'd entry) \<Rightarrow> ('d, 'q) desk \<Rightarrow> ('c, 'q) gw \<Rightarrow> ('d, 'q) desk" where
  "put_entry a mk w v = w\<lparr>dk_shared := gw_shared v, dk_stale := (dk_stale w)(a := gw_stale_orders v),
     dk_entry := (dk_entry w)(a := (mk (gw_self v), gw_out v))\<rparr>"

definition download_view :: "string \<Rightarrow> ('d, 'q) desk \<Rightarrow> (rest_stream, 'q) gw" where
  "download_view a w = \<lparr> gw_self = fst (dk_download w a), gw_shared = dk_shared w,
     gw_stale_orders = dk_stale w a, gw_out = snd (dk_download w a) \<rparr>"

definition put_download :: "string \<Rightarrow> ('d, 'q) desk \<Rightarrow> (rest_stream, 'q) gw \<Rightarrow> ('d, 'q) desk" where
  "put_download a w v = w\<lparr>dk_shared := gw_shared v, dk_stale := (dk_stale w)(a := gw_stale_orders v),
     dk_download := (dk_download w)(a := (gw_self v, gw_out v))\<rparr>"

definition entry_act ::
  "ws_env \<Rightarrow> message_info \<Rightarrow> order_request \<Rightarrow> string \<Rightarrow> ('d, 'q) desk \<Rightarrow> (exn, ('d, 'q) desk) res" where
  "entry_act E mi r a w =
     (case fst (dk_entry w a) of
        Entry_classic s \<Rightarrow> map_res (\<lambda>e. e) (put_entry a Entry_classic w)
          (oe_action (env.truncate E) mi r (entry_view a s w))
      | Entry_portfolio s \<Rightarrow> map_res (\<lambda>e. e) (put_entry a Entry_portfolio w)
          (op_action (env.truncate E) mi r (entry_view a s w))
      | Entry_socket s \<Rightarrow> map_res (\<lambda>e. e) (put_entry a Entry_socket w)
          (ws_action E mi r (entry_view a s w)))"

fun entry_stream_id :: "'d entry \<Rightarrow> u16" where
  "entry_stream_id (Entry_classic s) = sm_stream_id s"
| "entry_stream_id (Entry_portfolio s) = sm_stream_id s"
| "entry_stream_id (Entry_socket s) = sm_stream_id s"

fun entry_account :: "'d entry \<Rightarrow> account" where
  "entry_account (Entry_classic s) = sm_account s"
| "entry_account (Entry_portfolio s) = sm_account s"
| "entry_account (Entry_socket s) = sm_account s"

fun entry_kind :: "'d entry \<Rightarrow> oe_kind" where
  "entry_kind (Entry_classic s) = Kind_OrderEntryClassic"
| "entry_kind (Entry_portfolio s) = Kind_OrderEntryPortfolio"
| "entry_kind (Entry_socket s) = Kind_WebSocket"

definition log_request :: "message_info \<Rightarrow> order_request \<Rightarrow> u16 \<Rightarrow> ('d, 'q) desk \<Rightarrow> ('d, 'q) desk" where
  "log_request mi r n w = w\<lparr>dk_log := dk_log w @ [((mi, r), n)]\<rparr>"

text \<open>
  A request that reaches the gateway. The controller looks up the stream and hands the arguments on;
  the stream returns its id.
\<close>

definition target_act ::
  "ws_env \<Rightarrow> message_info \<Rightarrow> order_request \<Rightarrow> target \<Rightarrow> ('d, 'q) desk \<Rightarrow> (exn, ('d, 'q) desk) res" where
  "target_act E mi r t w =
     (case t of
        To_order_entry a \<Rightarrow>
          and_then (entry_act E mi r a w) (\<lambda>w. Ok (log_request mi r (entry_stream_id (fst (dk_entry w a))) w))
      | To_download a \<Rightarrow>
          and_then (map_res (\<lambda>e. e) (put_download a w) (rt_action (env.truncate E) mi r (download_view a w)))
            (\<lambda>w. Ok (log_request mi r (sm_stream_id (fst (dk_download w a))) w))
      | _ \<Rightarrow> Throw (Oms_NotSupported ''not supported'') w)"

definition ct_route ::
  "ws_env \<Rightarrow> message_info \<Rightarrow> order_request \<Rightarrow> ('d, 'q) office \<Rightarrow> (exn, ('d, 'q) office) res" where
  "ct_route E mi r w =
     (case ct_order_action (request_action r) (cw_ctl w) of
        Aborted m \<Rightarrow> Fatal m w
      | Refused e \<Rightarrow> Throw e w
      | Routed t \<Rightarrow> map_res (\<lambda>e. e) (\<lambda>d. w\<lparr>cw_rest := d\<rparr>) (target_act E mi r t (cw_rest w)))"

section \<open>Everything else that happens\<close>

text \<open>What the controller has an order entry do. The network has its own events.\<close>

fun op_call :: "env \<Rightarrow> trace_info \<Rightarrow> call \<Rightarrow> 'q op \<Rightarrow> 'q op" where
  "op_call E ti Do_start w = op_start w"
| "op_call E ti Do_stop w = op_stop w"
| "op_call E ti (Do_timer now) w = op_timer E ti w"
| "op_call E ti Do_force_listen_key_refresh w = op_force_listen_key_refresh ti w"
| "op_call E ti (Do_subscribe n) w = w"
| "op_call E ti (Do_assets xs) w = w"
| "op_call E ti (Do_state b) w = w"

fun ws_call :: "ws_env \<Rightarrow> trace_info \<Rightarrow> call \<Rightarrow> ('d, 'q) ws \<Rightarrow> ('d, 'q) ws" where
  "ws_call E ti Do_start w = ws_start w"
| "ws_call E ti Do_stop w = ws_stop w"
| "ws_call E ti (Do_timer now) w = ws_timer E ti now w"
| "ws_call E ti Do_force_listen_key_refresh w = ws_force_listen_key_refresh ti w"
| "ws_call E ti (Do_subscribe n) w = w"
| "ws_call E ti (Do_assets xs) w = w"
| "ws_call E ti (Do_state b) w = w"

definition entry_call :: "ws_env \<Rightarrow> trace_info \<Rightarrow> call \<Rightarrow> string \<Rightarrow> ('d, 'q) desk \<Rightarrow> ('d, 'q) desk" where
  "entry_call E ti k a w =
     (case fst (dk_entry w a) of
        Entry_classic s \<Rightarrow> put_entry a Entry_classic w (oe_call (env.truncate E) ti k (entry_view a s w))
      | Entry_portfolio s \<Rightarrow> put_entry a Entry_portfolio w (op_call (env.truncate E) ti k (entry_view a s w))
      | Entry_socket s \<Rightarrow> put_entry a Entry_socket w (ws_call E ti k (entry_view a s w)))"

definition office_child :: "ws_env \<Rightarrow> trace_info \<Rightarrow> ('d, 'q) desk child" where
  "office_child E ti t k w =
     (case t of To_order_entry a \<Rightarrow> Ok (w\<lparr>cw_rest := entry_call E ti k a (cw_rest w)\<rparr>) | _ \<Rightarrow> Ok w)"

text \<open>The set of known symbols is one for all.\<close>

definition office_symbols :: "('d, 'q) desk symbol_set" where
  "office_symbols = \<lparr> ss_get = \<lambda>d. sh_all_symbols (dk_shared d),
     ss_put = \<lambda>all d. d\<lparr>dk_shared := (dk_shared d)\<lparr>sh_all_symbols := all\<rparr>\<rparr> \<rparr>"

interpretation office: stream_child "office_child E ti" for E ti
  by unfold_locales (auto simp: office_child_def split: target.splits)

inductive oe_event :: "'q oe \<Rightarrow> 'q oe \<Rightarrow> bool" where
  oe_ev_connected: "oe_event w (oe_connected w)"
| oe_ev_disconnected: "oe_event w (oe_disconnected w)"
| oe_ev_latency: "oe_event w (oe_latency sample w)"
| oe_ev_begin: "oe_event w (oe_message_begin w)"
| oe_ev_header: "oe_event w (oe_message_header E name v w)"
| oe_ev_end: "oe_event w (oe_message_end w)"
| oe_ev_download: "oe_event w (snd (oe_download E state w))"
| oe_ev_response: "oe_event w (res_state (oe_response E ti r cb request_id w))"

inductive op_event :: "'q op \<Rightarrow> 'q op \<Rightarrow> bool" where
  op_ev_connected: "op_event w (op_connected w)"
| op_ev_disconnected: "op_event w (op_disconnected w)"
| op_ev_latency: "op_event w (op_latency sample w)"
| op_ev_begin: "op_event w (op_message_begin w)"
| op_ev_header: "op_event w (op_message_header E name v w)"
| op_ev_end: "op_event w (op_message_end w)"
| op_ev_download: "op_event w (snd (op_download E state w))"
| op_ev_response: "op_event w (res_state (op_response E ti r cb request_id w))"

inductive ws_event :: "'d ws_lib \<Rightarrow> (wsapi_request \<Rightarrow> string) \<Rightarrow> ('d, 'q) ws \<Rightarrow> ('d, 'q) ws \<Rightarrow> bool"
  for L enc where
  ws_ev_latency: "ws_event L enc w (ws_latency sample w)"
| ws_ev_binary: "ws_event L enc w (res_state (ws_binary w))"
| ws_ev_ready: "ws_enc E = enc \<Longrightarrow> ws_event L enc w (ws_ready L E ti w)"
| ws_ev_disconnected: "ws_enc E = enc \<Longrightarrow> ws_event L enc w (ws_disconnected L E ti w)"
| ws_ev_message: "ws_enc E = enc \<Longrightarrow> ws_event L enc w (res_state (ws_parse L E ti message w))"

text \<open>
  A step: a request of a client, accepted or rejected; an event of the controller, with the calls it makes; an event
  of an order entry; and anything the other streams do to the data they share with the order entries
  and to themselves. All use the same codec for the ids of the WebSocket requests.
\<close>

definition others :: "('d, 'q) office \<Rightarrow> 'q shared \<Rightarrow> (string \<Rightarrow> (u8 \<times> u64) list)
    \<Rightarrow> (string \<Rightarrow> rest_stream \<times> effect list) \<Rightarrow> ('d, 'q) office" where
  "others w sh st ds = w\<lparr>cw_rest := (cw_rest w)\<lparr>dk_shared := sh, dk_stale := st, dk_download := ds\<rparr>\<rparr>"

inductive office_step ::
  "'d ws_lib \<Rightarrow> (wsapi_request \<Rightarrow> string) \<Rightarrow> ('d, 'q) office \<Rightarrow> ('d, 'q) office \<Rightarrow> bool" for L enc where
  office_request: "ws_enc E = enc \<Longrightarrow> ct_route E mi r w = Ok w' \<Longrightarrow> office_step L enc w w'"
| office_rejected: "ws_enc E = enc \<Longrightarrow> ct_route E mi r w = Throw e w' \<Longrightarrow> office_step L enc w w'"
| office_controller: "ws_enc E = enc \<Longrightarrow> from_stream (cw_ctl w) ev \<Longrightarrow>
    ct_handle office_symbols (office_child E ti) ev w = Ok w' \<Longrightarrow> office_step L enc w w'"
| office_classic: "fst (dk_entry (cw_rest w) a) = Entry_classic s \<Longrightarrow>
    oe_event (entry_view a s (cw_rest w)) v \<Longrightarrow>
    office_step L enc w (w\<lparr>cw_rest := put_entry a Entry_classic (cw_rest w) v\<rparr>)"
| office_portfolio: "fst (dk_entry (cw_rest w) a) = Entry_portfolio s \<Longrightarrow>
    op_event (entry_view a s (cw_rest w)) v \<Longrightarrow>
    office_step L enc w (w\<lparr>cw_rest := put_entry a Entry_portfolio (cw_rest w) v\<rparr>)"
| office_socket: "fst (dk_entry (cw_rest w) a) = Entry_socket s \<Longrightarrow>
    ws_event L enc (entry_view a s (cw_rest w)) v \<Longrightarrow>
    office_step L enc w (w\<lparr>cw_rest := put_entry a Entry_socket (cw_rest w) v\<rparr>)"
| office_others: "office_step L enc w (others w sh st ds)"

inductive office_run ::
  "'d ws_lib \<Rightarrow> (wsapi_request \<Rightarrow> string) \<Rightarrow> ('d, 'q) office \<Rightarrow> ('d, 'q) office \<Rightarrow> bool" for L enc where
  office_refl: "office_run L enc w w"
| office_more: "office_run L enc u v \<Longrightarrow> office_step L enc v w \<Longrightarrow> office_run L enc u w"

text \<open>The beginning: the controller as it is constructed, with the order entries it constructs.\<close>

definition entry_create :: "oe_kind \<Rightarrow> u16 \<Rightarrow> account \<Rightarrow> 'd \<Rightarrow> 'd entry" where
  "entry_create k n acc d =
     (case k of
        Kind_OrderEntryClassic \<Rightarrow> Entry_classic (oe_create n acc)
      | Kind_OrderEntryPortfolio \<Rightarrow> Entry_portfolio (op_create n acc)
      | Kind_WebSocket \<Rightarrow> Entry_socket (ws_create n acc d))"

definition office_open :: "'d \<Rightarrow> ('d, 'q) office \<Rightarrow> bool" where
  "office_open d w \<longleftrightarrow>
     (\<exists>L stp_of st cfg. controller_create L stp_of st cfg = Ok (cw_ctl w))
     \<and> dk_log (cw_rest w) = []
     \<and> (\<forall>a. snd (dk_entry (cw_rest w) a) = [])
     \<and> (\<forall>a k n acc. map_of (ct_order_entry (cw_ctl w)) a = Some (k, n) \<longrightarrow>
          map_of (ct_accounts (cw_ctl w)) a = Some acc \<longrightarrow>
          fst (dk_entry (cw_rest w) a) = entry_create k n acc d)"

end
