(* ===== verification/Order_Routing_Facts.thy ===== *)
theory Order_Routing_Facts
  imports Order_Routing
begin

text \<open>
  Which of the effects of an order entry are order requests, and that only the order actions
  have such effects: an event of the network, a timer, an answer or a download sends none.
\<close>

section \<open>Order requests on the wire\<close>

text \<open>
  What identifies an order request: its type, the user, the order and the version. A REST request
  has it in its callback, a WebSocket request in its id, as the one who answers reads it.
\<close>

type_synonym order_key = "request_type \<times> u8 \<times> u64 \<times> u32"

fun wsapi_key :: "wsapi_request \<Rightarrow> order_key option" where
  "wsapi_key r =
     (case wr_type r of
        WSAPIType_ORDER_PLACE \<Rightarrow>
          Some (RequestType_CREATE_ORDER, wr_user_id r, wr_order_id r, wr_version r)
      | WSAPIType_ORDER_MODIFY \<Rightarrow>
          Some (RequestType_MODIFY_ORDER, wr_user_id r, wr_order_id r, wr_version r)
      | WSAPIType_ORDER_CANCEL \<Rightarrow>
          Some (RequestType_CANCEL_ORDER, wr_user_id r, wr_order_id r, wr_version r)
      | _ \<Rightarrow> None)"

fun order_key :: "(string \<Rightarrow> string + wsapi_request) \<Rightarrow> effect \<Rightarrow> order_key option" where
  "order_key dec (Rest_send q (CB_order_place u i) request_id) = Some (RequestType_CREATE_ORDER, u, i, 1)"
| "order_key dec (Rest_send q (CB_order_modify u i v) request_id) = Some (RequestType_MODIFY_ORDER, u, i, v)"
| "order_key dec (Rest_send q (CB_order_cancel u i v) request_id) = Some (RequestType_CANCEL_ORDER, u, i, v)"
| "order_key dec (Ws_send text) = (case dec (id_of text) of Inr r \<Rightarrow> wsapi_key r | Inl e \<Rightarrow> None)"
| "order_key dec _ = None"

text \<open>A REST request carries the key of the account; a WebSocket session has been logged on with it.\<close>

fun signed_for :: "account \<Rightarrow> effect \<Rightarrow> bool" where
  "signed_for acc (Rest_send q cb request_id) = (rq_headers q = cr_headers (ac_crypto acc))"
| "signed_for acc _ = True"

text \<open>The key of a client's request, and its account.\<close>

fun request_key :: "message_info \<Rightarrow> order_request \<Rightarrow> order_key option" where
  "request_key mi (Req_create a c ord rd request_id) =
     Some (RequestType_CREATE_ORDER, mi_source mi, co_order_id c, 1)"
| "request_key mi (Req_modify a m ord rd request_id) =
     Some (RequestType_MODIFY_ORDER, mi_source mi, mo_order_id m, mo_version m)"
| "request_key mi (Req_cancel a c ord rd request_id) =
     Some (RequestType_CANCEL_ORDER, mi_source mi, ca_order_id c, ca_version c)"
| "request_key mi _ = None"

fun request_account :: "order_request \<Rightarrow> string" where
  "request_account (Req_create a c ord rd request_id) = a"
| "request_account (Req_modify a m ord rd request_id) = a"
| "request_account (Req_cancel a c ord rd request_id) = a"
| "request_account (Req_cancel_all a c request_id) = a"
| "request_account _ = []"

section \<open>No order request\<close>

text \<open>A stream stays itself, and what it adds to its effects are the order requests with the given keys.\<close>

definition orders :: "(string \<Rightarrow> string + wsapi_request) \<Rightarrow> order_key list
    \<Rightarrow> ('z account_stream_scheme, 'q) gw \<Rightarrow> ('z account_stream_scheme, 'q) gw \<Rightarrow> bool" where
  "orders dec ks v w \<longleftrightarrow> stream_of w = stream_of v \<and> sm_account (gw_self w) = sm_account (gw_self v)
     \<and> (\<exists>es. gw_out w = gw_out v @ es \<and> List.map_filter (order_key dec) es = ks
         \<and> (\<forall>e \<in> set es. order_key dec e \<noteq> None \<longrightarrow> signed_for (sm_account (gw_self v)) e))"

abbreviation no_orders :: "(string \<Rightarrow> string + wsapi_request)
    \<Rightarrow> ('z account_stream_scheme, 'q) gw \<Rightarrow> ('z account_stream_scheme, 'q) gw \<Rightarrow> bool" where
  "no_orders dec \<equiv> orders dec []"

lemma map_filter_append [simp]:
  "List.map_filter f (xs @ ys) = List.map_filter f xs @ List.map_filter f ys"
  by (simp add: List.map_filter_def)

lemma no_orders_refl [simp]: "no_orders dec w w"
  by (simp add: orders_def)

lemma orders_trans:
  assumes "orders dec ks u v" "orders dec ls v w"
  shows "orders dec (ks @ ls) u w"
proof -
  obtain es fs where "gw_out v = gw_out u @ es" "List.map_filter (order_key dec) es = ks"
    "\<forall>e \<in> set es. order_key dec e \<noteq> None \<longrightarrow> signed_for (sm_account (gw_self u)) e"
    "gw_out w = gw_out v @ fs" "List.map_filter (order_key dec) fs = ls"
    "\<forall>e \<in> set fs. order_key dec e \<noteq> None \<longrightarrow> signed_for (sm_account (gw_self v)) e"
    using assms by (auto simp: orders_def)
  then show ?thesis using assms unfolding orders_def by (intro conjI exI [of _ "es @ fs"]) auto
qed

lemma no_orders_trans: "no_orders dec u v \<Longrightarrow> no_orders dec v w \<Longrightarrow> no_orders dec u w"
  using orders_trans [of dec "[]" u v "[]" w] by simp

lemma orders_emit:
  assumes "signed_for (sm_account (gw_self w)) e"
  shows "orders dec (List.map_filter (order_key dec) [e]) w (emit e w)"
  using assms by (simp add: orders_def)

lemma no_orders_emit: "no_orders dec v w \<Longrightarrow> order_key dec e = None \<Longrightarrow> no_orders dec v (emit e w)"
  by (rule no_orders_trans) (auto simp: orders_def)

lemma no_orders_self:
  "no_orders dec v w \<Longrightarrow> (\<And>s. sm_stream_id (f s) = sm_stream_id s) \<Longrightarrow> (\<And>s. sm_account (f s) = sm_account s) \<Longrightarrow>
     no_orders dec v (upd_self f w)"
  by (simp add: orders_def)

lemma no_orders_shared: "no_orders dec v w \<Longrightarrow> no_orders dec v (upd_shared f w)"
  by (simp add: orders_def)

lemma no_orders_stale: "no_orders dec v w \<Longrightarrow> no_orders dec v (w\<lparr>gw_stale_orders := xs\<rparr>)"
  by (simp add: orders_def)

interpretation quiet: kept_rest "no_orders dec" for dec
  by unfold_locales (auto intro: no_orders_trans no_orders_emit)

lemmas quiet_intros = no_orders_emit no_orders_self no_orders_shared no_orders_stale no_orders_refl

lemma quiet_parsed:
  "(\<And>m w. no_orders dec w (res_state (f m w))) \<Longrightarrow> no_orders dec w (res_state (parsed p f w))"
  by (rule parsed_keeps) simp_all

lemma quiet_pending:
  "no_orders dec v w \<Longrightarrow> (\<And>w. no_orders dec w (f w)) \<Longrightarrow> no_orders dec v (if_pending E s f w)"
  by (auto simp: if_pending_def intro: no_orders_trans)

section \<open>REST order entries\<close>

text \<open>What the classes share.\<close>

lemma quiet_errors:
  "no_orders dec w (res_state (log_error o' s x t w))" "no_orders dec w (res_state (commit sl w))"
  "no_orders dec w (res_state (ack_error rt u i v o' s x t w))"
  by (simp_all add: log_error_def commit_def ack_error_def no_orders_emit)

lemma quiet_stream:
  "no_orders dec w (oe_start w)" "no_orders dec w (oe_stop w)" "no_orders dec w (oe_connected w)"
  "no_orders dec w (oe_latency sample w)" "no_orders dec w (oe_set_connection_status c t w)"
  "no_orders dec w (oe_disconnected w)" "no_orders dec w (oe_message_begin w)"
  "no_orders dec w (oe_message_end w)"
  by (auto simp: oe_start_def oe_stop_def oe_connected_def oe_latency_def oe_disconnected_def
      oe_set_connection_status_def Let_def oe_message_begin_def oe_message_end_def intro!: quiet_intros)

lemma quiet_header: "no_orders dec w (oe_message_header E name v w)"
  by (auto simp: oe_message_header_def add_rate_limit_def Let_def intro!: quiet_intros split: option.splits)

lemma quiet_force: "no_orders dec w (force_listen_key_refresh ti w)"
  by (auto simp: force_listen_key_refresh_def intro!: quiet_intros)

lemma quiet_listen_key_ack: "no_orders dec w (res_state (get_listen_key_ack E ti r w))"
  unfolding get_listen_key_ack_def
  by (rule quiet.keep_response)
    (auto simp: on_listen_key_ack_def Let_def intro!: quiet_parsed quiet_intros)

lemma quiet_stale_done: "no_orders dec w (stale_order_done w)"
  by (auto simp: stale_order_done_def Let_def intro!: quiet_intros)

lemma quiet_cancel_all_ack: "no_orders dec w (on_open_orders_cancel_all_ack code msg request_id w)"
  by (simp add: on_open_orders_cancel_all_ack_def no_orders_emit)

text \<open>The classic one.\<close>

lemma quiet_get_listen_key: "no_orders dec v w \<Longrightarrow> no_orders dec v (get_listen_key E w)"
  by (auto simp: get_listen_key_def intro!: quiet_intros)

lemma quiet_download: "no_orders dec w (snd (oe_download E s w))"
  by (cases s) (auto simp: oe_download_def intro!: quiet_get_listen_key quiet_stream(5))

lemma quiet_folds:
  "no_orders dec w (on_account_balance_ack items w)" "no_orders dec w (on_account_status_ack E ack w)"
  "no_orders dec w (on_open_orders_ack os w)" "no_orders dec w (on_trades_ack E ts w)"
  unfolding on_account_balance_ack_def on_account_status_ack_def on_open_orders_ack_def on_trades_ack_def
  by (rule quiet.keep_fold, auto simp: on_balance_item_def on_position_item_def on_open_order_def
      on_trade_item_def Let_def intro!: quiet_intros)+

lemma quiet_download_acks:
  "no_orders dec w (res_state (get_account_balance_ack E r w))"
  "no_orders dec w (res_state (get_account_status_ack E r w))"
  "no_orders dec w (res_state (get_open_orders_ack E r w))"
  "no_orders dec w (res_state (get_order_ack E r c w))"
  "no_orders dec w (res_state (get_trades_ack E r w))"
  by (auto simp: get_account_balance_ack_def get_account_status_ack_def get_open_orders_ack_def
      get_order_ack_def get_trades_ack_def on_order_ack_def
      intro!: quiet.keep_then quiet.keep_response quiet_parsed quiet_folds quiet_stale_done quiet_intros
        quiet_errors)

lemma quiet_action_acks:
  "no_orders dec w (res_state (order_place_ack E r u i v w))"
  "no_orders dec w (res_state (order_modify_ack E r u i v w))"
  "no_orders dec w (res_state (order_cancel_ack E r u i v w))"
  "no_orders dec w (res_state (open_orders_cancel_all_ack E r request_id w))"
  "no_orders dec w (res_state (countdown_cancel_all_ack E r w))"
  by (auto simp: order_place_ack_def order_modify_ack_def order_cancel_ack_def place_success_def
      modify_success_def cancel_success_def too_late_def open_orders_cancel_all_ack_def
      countdown_cancel_all_ack_def on_order_place_ack_def on_order_modify_ack_def on_order_cancel_ack_def
      Let_def intro!: quiet.keep_response quiet_parsed quiet_cancel_all_ack quiet_errors quiet_intros)

lemma quiet_gets:
  "no_orders dec w (get_account_balance E ti w)" "no_orders dec w (get_account_status E ti w)"
  "no_orders dec w (get_open_orders E ti w)" "no_orders dec w (get_order E ti ord w)"
  by (auto simp: get_account_balance_def get_account_status_def get_open_orders_def get_order_def
      Let_def intro!: quiet_intros)

lemma quiet_get_trades: "no_orders dec w (get_trades E ti w)"
  unfolding get_trades_def
  by (rule quiet.keep_fold) (auto simp: get_trades_of_def Let_def intro!: quiet_intros)

lemma quiet_stale_requests: "no_orders dec w (request_stale_orders E ti w)"
  unfolding request_stale_orders_def
  by (rule no_orders_stale [OF quiet.keep_fold])
    (auto simp: request_stale_order_def intro!: no_orders_self quiet_gets split: option.splits)

lemma quiet_queue: "no_orders dec w (check_request_queue E ti w)"
  by (simp add: check_request_queue_def Let_def quiet_pending quiet_gets quiet_get_trades quiet_stale_requests)

lemma quiet_countdown: "no_orders dec w (countdown_cancel_all E ti w)"
  unfolding countdown_cancel_all_def
  by (rule quiet.keep_fold) (auto simp: countdown_symbol_def Let_def intro!: quiet_intros)

lemma quiet_timer: "no_orders dec w (oe_timer E ti now w)"
proof -
  have r: "no_orders dec w (refresh_listen_key E ti w)"
    by (auto simp: refresh_listen_key_def intro!: quiet_get_listen_key quiet_intros)
  then have "no_orders dec w (upd_self (\<lambda>s. s\<lparr>oe_next_auto_cancel := n\<rparr>) (refresh_listen_key E ti w))" for n
    by (auto intro!: no_orders_self)
  then show ?thesis
    using r by (auto simp: oe_timer_def Let_def
        intro: no_orders_trans [OF _ quiet_queue] no_orders_trans [OF _ quiet_countdown])
qed

lemma quiet_oe_call: "no_orders dec w (oe_call E ti k w)"
  by (cases k) (simp_all add: quiet_stream quiet_timer quiet_force)

lemma quiet_oe_event: "oe_event v w \<Longrightarrow> no_orders dec v w"
proof (induction rule: oe_event.induct)
  case (oe_ev_response w E ti r cb request_id)
  then show ?case
    by (cases cb) (simp_all add: oe_response_def quiet_listen_key_ack quiet_download_acks quiet_action_acks)
qed (simp_all add: quiet_stream quiet_header quiet_download)


text \<open>The portfolio margin one.\<close>

lemma quiet_op_gets:
  "no_orders dec w (op_get_account_balance E ti polling w)" "no_orders dec w (op_get_account_status E ti w)"
  "no_orders dec w (op_get_position E ti w)" "no_orders dec w (op_get_open_orders E ti w)"
  "no_orders dec w (op_get_order E ti ord w)"
  by (simp_all add: op_get_account_balance_def op_get_account_status_def op_get_position_def
      op_get_open_orders_def op_get_order_def no_orders_emit Let_def)

lemma quiet_op_get_listen_key: "no_orders dec w (op_get_listen_key E w)"
  by (simp add: op_get_listen_key_def no_orders_emit)

lemma quiet_op_get_trades: "no_orders dec w (op_get_trades E ti w)"
  unfolding op_get_trades_def
  by (rule quiet.keep_fold) (simp add: op_get_trades_of_def Let_def no_orders_emit)

lemma quiet_op_stale_requests: "no_orders dec w (op_request_stale_orders E ti w)"
  unfolding op_request_stale_orders_def
  by (rule no_orders_stale [OF quiet.keep_fold])
    (auto simp: op_request_stale_order_def intro!: no_orders_self quiet_op_gets split: option.splits)

lemma quiet_op_timer:
  fixes w :: "('z, 'q) ops"
  shows "no_orders dec w (op_timer E ti w)"
proof -
  have q: "no_orders dec v (op_check_request_queue E ti v)" for v :: "('z, 'q) ops"
    by (simp add: op_check_request_queue_def Let_def quiet_pending quiet_op_gets quiet_op_get_trades
        quiet_op_stale_requests)
  have r: "no_orders dec v (op_refresh_listen_key E ti v)" and b: "no_orders dec v (op_refresh_balance E ti v)"
    for v :: "('z, 'q) ops"
    by (auto simp: op_refresh_listen_key_def op_refresh_balance_def
        intro: no_orders_trans [OF no_orders_self [OF no_orders_refl] quiet_op_get_listen_key]
          no_orders_trans [OF no_orders_self [OF no_orders_refl] quiet_op_gets(1)])
  show ?thesis
    using no_orders_trans [OF no_orders_trans [OF r b] q] by (simp add: op_timer_def)
qed

lemma quiet_op_folds:
  "no_orders dec w (op_on_account_balance_ack bs w)" "no_orders dec w (op_on_account_status_ack E ack w)"
  "no_orders dec w (op_on_position_list E ps w)" "no_orders dec w (op_on_open_orders_ack E os w)"
  "no_orders dec w (op_on_trades_ack E ts w)"
  unfolding op_on_account_balance_ack_def op_on_account_status_ack_def op_on_position_list_def
    op_on_open_orders_ack_def op_on_trades_ack_def
  by (rule quiet.keep_fold, auto simp: op_on_account_item_def op_on_position_item_def
      op_on_open_order_def op_on_trade_item_def Let_def intro!: quiet_intros)+

lemma quiet_op_acks:
  "no_orders dec w (res_state (op_get_account_balance_ack E r polling w))"
  "no_orders dec w (res_state (op_get_account_status_ack E r w))"
  "no_orders dec w (res_state (op_get_position_ack E r w))"
  "no_orders dec w (res_state (op_get_open_orders_ack E r w))"
  "no_orders dec w (res_state (op_get_order_ack E r client_order_id w))"
  "no_orders dec w (res_state (op_get_trades_ack E r w))"
  by (auto simp: op_get_account_balance_ack_def op_get_account_status_ack_def op_get_position_ack_def
      op_get_open_orders_ack_def op_get_order_ack_def op_get_trades_ack_def op_process_response_def
      op_on_order_ack_def intro!: quiet.keep_then quiet.keep_response quiet_parsed quiet_op_folds
      quiet_stale_done quiet_intros quiet_errors)

lemma quiet_op_action_acks:
  "no_orders dec w (res_state (op_order_place_ack E r u i v w))"
  "no_orders dec w (res_state (op_order_modify_ack E r u i v w))"
  "no_orders dec w (res_state (op_order_cancel_ack E r u i v w))"
  by (auto simp: op_order_place_ack_def op_order_modify_ack_def op_order_cancel_ack_def op_process_response_def
      op_place_success_def op_modify_success_def op_cancel_success_def too_late_def
      op_on_order_place_ack_def op_on_order_modify_ack_def op_on_order_cancel_ack_def Let_def
      intro!: quiet.keep_response quiet_parsed quiet_errors quiet_intros)

lemma quiet_op_call: "no_orders dec w (op_call E ti k w)"
  by (cases k) (simp_all add: op_same_defs quiet_stream quiet_op_timer quiet_force)

lemma quiet_op_event: "op_event v w \<Longrightarrow> no_orders dec v w"
proof (induction rule: op_event.induct)
  case (op_ev_response w E ti r cb request_id)
  then show ?case
    by (cases cb) (simp_all add: op_response_def op_same_defs quiet_listen_key_ack quiet_op_acks
        quiet_op_action_acks quiet_action_acks)
next
  case (op_ev_download w E state)
  then show ?case
    by (cases state) (auto simp: op_download_def op_same_defs
        intro: no_orders_trans [OF quiet_stream(5) quiet_op_get_listen_key] quiet_stream(5))
qed (simp_all add: op_same_defs quiet_stream quiet_header)

section \<open>WebSocket order entries\<close>

context wsapi_text
begin

abbreviation dec :: "string \<Rightarrow> string + wsapi_request" where
  "dec \<equiv> wsapi_request_decode b64d uncode"

lemma key_of_sent: "carries (enc r) s \<Longrightarrow> order_key dec (Ws_send s) = wsapi_key r"
  using id_of_carries [of r s] decode_encode [of r] by simp

lemma orders_ws_request:
  assumes "ws_enc E = enc" "\<And>i. carries i (f i)"
    "wsapi_key \<lparr> wr_sequence = ws_request_id (gw_self w) + 1, wr_type = t,
        wr_user_id = user, wr_order_id = order_id, wr_version = version, wr_order_id_2 = 0 \<rparr> = k"
  shows "orders dec (case k of None \<Rightarrow> [] | Some x \<Rightarrow> [x]) w (ws_request E t user order_id version f w)"
proof -
  let ?r = "\<lparr> wr_sequence = ws_request_id (gw_self w) + 1, wr_type = t,
        wr_user_id = user, wr_order_id = order_id, wr_version = version, wr_order_id_2 = 0 \<rparr>"
  have "order_key dec (Ws_send (f (enc ?r))) = k"
    using key_of_sent [OF assms(2)] assms(3) by simp
  then show ?thesis
    unfolding ws_request_effect assms(1)
    by (simp add: orders_def List.map_filter_def split: option.split del: order_key.simps)
qed

lemma quiet_ws_request:
  assumes "ws_enc E = enc" "\<And>i. carries i (f i)" "\<And>r. wr_type r = t \<Longrightarrow> wsapi_key r = None"
  shows "no_orders dec w (ws_request E t user order_id version f w)"
  using orders_ws_request [OF assms(1,2), of w t user order_id version None] assms(3) by simp

lemmas quiet_sends = quiet_ws_request carries_jsons

lemma quiet_ws_status: "no_orders dec v w \<Longrightarrow> no_orders dec v (ws_set_connection_status st r w)"
  by (simp add: ws_set_connection_status_def Let_def quiet_intros)

lemma quiet_ws_requests:
  assumes "ws_enc E = enc"
  shows "no_orders dec w (ws_session_logon E ti w)" "no_orders dec w (ws_user_data_stream_start E w)"
    "no_orders dec w (ws_user_data_stream_ping E now w)" "no_orders dec w (ws_account_balance E ti w)"
    "no_orders dec w (ws_account_status E ti w)" "no_orders dec w (ws_account_position E ti w)"
proof -
  show "no_orders dec w (ws_user_data_stream_ping E now w)"
    by (auto simp: ws_user_data_stream_ping_def Let_def carries_jsons
        intro!: no_orders_trans [OF _ quiet_ws_request [OF assms]] quiet_intros)
qed (auto simp: ws_session_logon_def ws_user_data_stream_start_def ws_account_balance_def
    ws_account_status_def ws_account_position_def Let_def carries_jsons
    intro!: quiet_ws_status quiet_ws_request [OF assms])

lemma quiet_ws_send:
  assumes "ws_enc E = enc"
  shows "no_orders dec w (ws_send L E ti c w)"
proof -
  note r = quiet_ws_requests [OF assms]
  have "no_orders dec w (snd (ws_download E ti s w))" for s and w :: "('d, 'q) ws"
    by (auto simp: ws_download_def split: ws_state.splits
        intro!: quiet_ws_status no_orders_trans [OF _ r(1)] no_orders_trans [OF _ r(2)]
          no_orders_trans [OF _ r(6)] no_orders_refl)
  then show ?thesis
    unfolding ws_send_def
    by (intro quiet.keep_send) (auto simp: ws_upd_download_def intro!: quiet_intros)
qed

lemma quiet_ws_limits: "no_orders dec v w \<Longrightarrow> no_orders dec v (ws_update_rate_limits items w)"
  by (auto simp: ws_update_rate_limits_def Let_def intro!: quiet_intros)

lemma quiet_ws_retry: "ws_enc E = enc \<Longrightarrow> no_orders dec w (ws_retry L E ti s w)"
  by (simp add: ws_retry_def quiet_ws_send)

lemma quiet_ws_acks:
  "no_orders dec w (ws_ack_error rt r status error text w)"
  "no_orders dec w (ws_publish_ack response m r w)" "no_orders dec w (ws_place_success ti m r w)"
  by (auto simp: ws_ack_error_def ws_publish_ack_def ws_place_success_def Let_def intro!: quiet_intros)

lemma quiet_ws_handle:
  assumes "ws_enc E = enc"
  shows "no_orders dec w (res_state (ws_handle L E ti e w))"
proof -
  have p: "no_orders dec w (on_position_item E t i w)" for t i and w :: "('d, 'q) ws"
    by (auto simp: on_position_item_def intro!: quiet_intros)
  have c: "no_orders dec w (ws_canceled_order m w)" for m and w :: "('d, 'q) ws"
    by (auto simp: ws_canceled_order_def intro!: quiet_intros)
  note s = quiet_ws_send [OF assms]
  show ?thesis
    by (auto simp: ws_handle_def parsed_def ws_on_session_logon_def ws_on_listen_key_def
        ws_on_account_balance_def ws_on_account_status_def ws_on_account_position_def
        ws_on_open_orders_cancel_all_def ws_on_order_place_def ws_on_order_modify_def
        ws_on_order_cancel_def ws_modify_success_def ws_cancel_success_def Let_def p c
        split: wsapi_event.splits sum.splits
        intro!: quiet_ws_limits no_orders_emit quiet.keep_fold no_orders_self s
          quiet_ws_retry [OF assms] quiet_ws_acks
        intro: no_orders_trans [OF _ s])
qed

lemma quiet_ws_parse:
  assumes "ws_enc E = enc"
  shows "no_orders dec w (res_state (ws_parse L E ti message w))"
proof -
  have e: "no_orders dec w (res_state (for_each (ws_handle L E ti) calls w))" for calls
    by (rule quiet.keep_for_each) (rule quiet_ws_handle [OF assms])
  obtain calls outcome where d: "wsapi_dispatch (we_fnv E) (we_parser E)
      (wsapi_request_decode (we_b64d E) (we_uncode E)) (sh_allow_unknown_event_types (gw_shared w))
      message = (calls, outcome)" by force
  show ?thesis
    using e [of calls] unfolding ws_parse_def d
    by (cases "for_each (ws_handle L E ti) calls w"; cases outcome) (simp_all add: Let_def)
qed

lemma quiet_ws_call:
  assumes "ws_enc E = enc"
  shows "no_orders dec w (ws_call E ti k w)"
proof -
  note r = quiet_ws_requests [OF assms]
  have "no_orders dec w (ws_timer E ti now w)" for now
    by (auto simp: ws_timer_def ws_check_request_queue_def Let_def
        intro!: no_orders_trans [OF _ r(4)] no_orders_trans [OF _ r(5)] r no_orders_refl)
  then show ?thesis
    by (cases k) (auto simp: ws_start_def ws_stop_def ws_force_listen_key_refresh_def intro!: quiet_intros)
qed

lemma quiet_ws_event: "ws_event L enc v w \<Longrightarrow> no_orders dec v w"
proof (induction rule: ws_event.induct)
  case (ws_ev_disconnected E w ti)
  then show ?case
    by (auto simp: ws_disconnected_def
        intro!: no_orders_trans [OF _ quiet_ws_send] quiet_ws_status no_orders_self no_orders_refl)
qed (simp_all add: ws_latency_def ws_binary_def ws_ready_def quiet_ws_send quiet_ws_parse no_orders_emit)

end

end
