(* ===== verification/Order_Routing_Runs.thy ===== *)
theory Order_Routing_Runs
  imports Order_Routing_Facts
begin

text \<open>
  The runs of the composition of \<open>Order_Routing\<close>: what the order actions send, what a request
  changes, and the invariant that relates the requests of the clients to the order requests
  on the wire.
\<close>

section \<open>What a request sends\<close>

abbreviation the_key :: "message_info \<Rightarrow> order_request \<Rightarrow> order_key list" where
  "the_key mi r \<equiv> (case request_key mi r of None \<Rightarrow> [] | Some k \<Rightarrow> [k])"

lemma orders_sent:
  assumes "no_orders dec w v" "order_key dec e = Some k" "signed_for (sm_account (gw_self v)) e"
  shows "orders dec [k] w (emit e v)"
  using orders_trans [OF assms(1) orders_emit [OF assms(3), of dec]] assms(2)
  by (simp add: List.map_filter_def del: split_paired_Ex)

lemma quiet_cancel_all: "no_orders dec w (open_orders_cancel_all E ti c request_id w)"
  unfolding open_orders_cancel_all_def
  by (rule quiet.keep_fold) (auto simp: cancel_all_symbol_def Let_def intro!: quiet_intros)

lemma quiet_op_cancel_all: "no_orders dec w (op_open_orders_cancel_all E ti c request_id w)"
  unfolding op_open_orders_cancel_all_def
  by (rule quiet.keep_fold) (auto simp: op_cancel_all_symbol_def Let_def intro!: quiet_intros)

lemma oe_action_orders:
  assumes "oe_action E mi r w = Ok v" shows "orders dec (the_key mi r) w v"
  using assms
  by (cases r) (auto simp: signing_eq order_place_def order_modify_def order_cancel_def Let_def rest_order_def
      quiet_cancel_all split: if_splits sum.splits option.splits intro!: orders_sent no_orders_self)

lemma op_action_orders:
  assumes "op_action E mi r w = Ok v" shows "orders dec (the_key mi r) w v"
  using assms
  by (cases r) (auto simp: signing_eq op_order_place_def op_order_modify_def op_order_cancel_def Let_def rest_order_def
      quiet_op_cancel_all split: if_splits sum.splits option.splits intro!: orders_sent no_orders_self)

context wsapi_text
begin

lemma orders_ws_sent:
  assumes "ws_enc E = enc" "\<And>i. carries i (f i)"
  shows "orders dec [(RequestType_CREATE_ORDER, user, order_id, version)] w
      (ws_request E WSAPIType_ORDER_PLACE user order_id version f w)"
    "orders dec [(RequestType_MODIFY_ORDER, user, order_id, version)] w
      (ws_request E WSAPIType_ORDER_MODIFY user order_id version f w)"
    "orders dec [(RequestType_CANCEL_ORDER, user, order_id, version)] w
      (ws_request E WSAPIType_ORDER_CANCEL user order_id version f w)"
  using orders_ws_request [OF assms, of w WSAPIType_ORDER_PLACE user order_id version]
    orders_ws_request [OF assms, of w WSAPIType_ORDER_MODIFY user order_id version]
    orders_ws_request [OF assms, of w WSAPIType_ORDER_CANCEL user order_id version]
  by simp_all

lemma ws_action_orders:
  assumes "ws_action E mi r w = Ok v" "ws_enc E = enc" shows "orders dec (the_key mi r) w v"
proof (cases r)
  case (Req_create a c ord rd request_id)
  have "no_orders dec w (upd_self (\<lambda>s. s\<lparr>ws_open_orders_symbols := set_emplace (co_symbol c)
      (ws_open_orders_symbols s)\<rparr>) w)" by (simp add: no_orders_self)
  from orders_trans [OF this orders_ws_sent(1) [OF assms(2)]] show ?thesis
    using assms(1) by (auto simp: Req_create ws_order_place_def Let_def carries_jsons split: if_splits)
qed (use assms(1) in \<open>auto simp: ws_order_modify_def ws_order_cancel_def ws_cancel_all_orders_def Let_def
  carries_jsons split: if_splits intro!: orders_ws_sent [OF assms(2)]\<close>)

end

section \<open>Requests that are not accepted\<close>

text \<open>
  An exception leaves the stream as it was. The process ends for cancel-all of a WebSocket order entry, and
  for the assertions of the encoder and of the signatures.
\<close>

fun order_asserts :: "order_request \<Rightarrow> bool" where
  "order_asserts (Req_create a c ord rd request_id) = order_place_asserts c"
| "order_asserts _ = True"

definition asserted :: "order_request \<Rightarrow> string \<Rightarrow> ('z account_stream_scheme, 'q) gw \<Rightarrow> bool" where
  "asserted r m w \<longleftrightarrow> m = ''assert'' \<and> st_assertions (settings_of w)
     \<and> (\<not> order_asserts r \<or> cr_mac (ac_crypto (sm_account (gw_self w))) = None)"

lemma order_fatal:
  "order_place E ti source c ord rd request_id w = Fatal m v \<Longrightarrow>
     m = ''assert'' \<and> st_assertions (settings_of w) \<and> \<not> order_place_asserts c"
  "order_modify E ti source x ord rd request_id w \<noteq> Fatal m v"
  "order_cancel E ti source y ord request_id w \<noteq> Fatal m v"
  "op_order_place E ti source c ord rd request_id z = Fatal m u \<Longrightarrow>
     m = ''assert'' \<and> st_assertions (settings_of z) \<and> \<not> order_place_asserts c"
  "op_order_modify E ti source x ord rd request_id z \<noteq> Fatal m u"
  "op_order_cancel E ti source y ord request_id z \<noteq> Fatal m u"
  by (auto simp: order_place_def order_modify_def order_cancel_def op_order_place_def op_order_modify_def
      op_order_cancel_def Let_def split: if_splits sum.splits option.splits)

lemma order_throws:
  "order_place E ti source c ord rd request_id w = Throw e v \<Longrightarrow> v = w"
  "order_modify E ti source x ord rd request_id w = Throw e v \<Longrightarrow> v = w"
  "order_cancel E ti source y ord request_id w = Throw e v \<Longrightarrow> v = w"
  "op_order_place E ti source c ord rd request_id z = Throw e u \<Longrightarrow> u = z"
  "op_order_modify E ti source x ord rd request_id z = Throw e u \<Longrightarrow> u = z"
  "op_order_cancel E ti source y ord request_id z = Throw e u \<Longrightarrow> u = z"
  by (auto simp: order_place_def order_modify_def order_cancel_def op_order_place_def op_order_modify_def
      op_order_cancel_def Let_def split: if_splits sum.splits option.splits)

lemma oe_action_throws:
  "oe_action E mi r w = Throw e v \<Longrightarrow> v = w" "oe_action E mi r w = Fatal m v \<Longrightarrow> asserted r m w"
  by (cases r; auto simp: signing_eq asserted_def dest!: signing_fatal
      dest: order_throws(1-3) order_fatal(1) simp: order_fatal(2,3))+

lemma op_action_throws:
  "op_action E mi r w = Throw e v \<Longrightarrow> v = w" "op_action E mi r w = Fatal m v \<Longrightarrow> asserted r m w"
  by (cases r; auto simp: signing_eq asserted_def dest!: signing_fatal
      dest: order_throws(4-6) order_fatal(4) simp: order_fatal(5,6))+

lemma ws_action_throws:
  "ws_action E mi r w = Throw e v \<Longrightarrow> v = w"
  "ws_action E mi r w = Fatal m v \<Longrightarrow> \<exists>a c request_id. r = Req_cancel_all a c request_id"
  by (cases r; auto simp: ws_order_place_def ws_order_modify_def ws_order_cancel_def
      ws_cancel_all_orders_def Let_def split: if_splits)+

lemma rt_action_throws:
  "rt_action E mi r w = Throw e v \<Longrightarrow> v = w" "rt_action E mi r w = Fatal m v \<Longrightarrow> asserted r m w"
  by (cases r; auto simp: rt_create_order_def rt_modify_order_def rt_cancel_order_def signing_eq asserted_def
      dest!: signing_fatal)+

lemma put_entry_same:
  assumes "fst (dk_entry w a) = mk s" shows "put_entry a mk w (entry_view a s w) = w"
proof -
  have "(mk s, snd (dk_entry w a)) = dk_entry w a" using assms by (metis prod.collapse)
  then show ?thesis by (cases w) (simp add: put_entry_def entry_view_def)
qed

lemma put_download_same: "put_download a w (download_view a w) = w"
  by (cases w) (simp add: put_download_def download_view_def)

lemma map_res_eq:
  "map_res (\<lambda>e. e) g r = Ok v \<longleftrightarrow> (\<exists>u. r = Ok u \<and> v = g u)"
  "map_res (\<lambda>e. e) g r = Throw e v \<longleftrightarrow> (\<exists>u. r = Throw e u \<and> v = g u)"
  "map_res (\<lambda>e. e) g r = Fatal m v \<longleftrightarrow> (\<exists>u. r = Fatal m u \<and> v = g u)"
  by (cases r; auto)+

definition desk_asserted :: "order_request \<Rightarrow> string \<Rightarrow> account \<Rightarrow> ('d, 'q) desk \<Rightarrow> bool" where
  "desk_asserted r m acc w \<longleftrightarrow> m = ''assert'' \<and> st_assertions (sh_settings (dk_shared w))
     \<and> (\<not> order_asserts r \<or> cr_mac (ac_crypto acc) = None)"

lemma asserted_views:
  "asserted r m (entry_view a s w) = desk_asserted r m (sm_account s) w"
  "asserted r m (download_view a w) = desk_asserted r m (sm_account (fst (dk_download w a))) w"
  by (simp_all add: asserted_def desk_asserted_def entry_view_def download_view_def)

lemma entry_act_throws: "entry_act E mi r a w = Throw e v \<Longrightarrow> v = w"
  by (auto simp: entry_act_def put_entry_same map_res_eq
      dest!: oe_action_throws(1) op_action_throws(1) ws_action_throws(1) split: entry.splits)

lemma entry_act_fatal:
  assumes "entry_act E mi r a w = Fatal m v"
  shows "desk_asserted r m (entry_account (fst (dk_entry w a))) w
    \<or> entry_kind (fst (dk_entry w a)) = Kind_WebSocket \<and> (\<exists>b c request_id. r = Req_cancel_all b c request_id)"
proof (cases "fst (dk_entry w a)")
  case (Entry_socket s)
  then show ?thesis using assms by (auto simp: entry_act_def map_res_eq dest: ws_action_throws(2))
qed (use assms in \<open>auto simp: entry_act_def map_res_eq asserted_views
  dest!: oe_action_throws(2) op_action_throws(2)\<close>)

section \<open>One account\<close>

text \<open>
  The order entry of account \<open>a\<close> sends the order requests \<open>ks\<close>; nothing else is touched but the
  data that the streams share.
\<close>

definition entry_orders :: "(string \<Rightarrow> string + wsapi_request) \<Rightarrow> order_key list
    \<Rightarrow> 'd entry \<times> effect list \<Rightarrow> 'd entry \<times> effect list \<Rightarrow> bool" where
  "entry_orders dec ks x y \<longleftrightarrow> entry_kind (fst y) = entry_kind (fst x)
     \<and> entry_stream_id (fst y) = entry_stream_id (fst x) \<and> entry_account (fst y) = entry_account (fst x)
     \<and> (\<exists>es. snd y = snd x @ es \<and> List.map_filter (order_key dec) es = ks
         \<and> (\<forall>e \<in> set es. order_key dec e \<noteq> None \<longrightarrow> signed_for (entry_account (fst x)) e))"

definition desk_orders :: "(string \<Rightarrow> string + wsapi_request) \<Rightarrow> string \<Rightarrow> order_key list
    \<Rightarrow> ('d, 'q) desk \<Rightarrow> ('d, 'q) desk \<Rightarrow> bool" where
  "desk_orders dec a ks v w \<longleftrightarrow> dk_log w = dk_log v \<and> dk_download w = dk_download v
     \<and> (\<forall>b. b \<noteq> a \<longrightarrow> dk_entry w b = dk_entry v b) \<and> entry_orders dec ks (dk_entry v a) (dk_entry w a)"

lemma entry_orders_refl [simp]: "entry_orders dec [] x x"
  by (simp add: entry_orders_def)

lemma entry_orders_trans:
  assumes "entry_orders dec ks x y" "entry_orders dec ls y z"
  shows "entry_orders dec (ks @ ls) x z"
proof -
  obtain es fs where "snd y = snd x @ es" "List.map_filter (order_key dec) es = ks"
    "\<forall>e \<in> set es. order_key dec e \<noteq> None \<longrightarrow> signed_for (entry_account (fst x)) e"
    "snd z = snd y @ fs" "List.map_filter (order_key dec) fs = ls"
    "\<forall>e \<in> set fs. order_key dec e \<noteq> None \<longrightarrow> signed_for (entry_account (fst y)) e"
    using assms by (auto simp: entry_orders_def)
  then show ?thesis using assms unfolding entry_orders_def by (intro conjI exI [of _ "es @ fs"]) auto
qed

lemma put_entry_orders:
  "fst (dk_entry w a) = Entry_classic s \<Longrightarrow> orders dec ks (entry_view a s w) v \<Longrightarrow>
     desk_orders dec a ks w (put_entry a Entry_classic w v)"
  "fst (dk_entry w a) = Entry_portfolio t \<Longrightarrow> orders dec ks (entry_view a t w) x \<Longrightarrow>
     desk_orders dec a ks w (put_entry a Entry_portfolio w x)"
  "fst (dk_entry w a) = Entry_socket u \<Longrightarrow> orders dec ks (entry_view a u w) y \<Longrightarrow>
     desk_orders dec a ks w (put_entry a Entry_socket w y)"
  by (auto simp: desk_orders_def entry_orders_def orders_def put_entry_def entry_view_def)

section \<open>The controller\<close>

text \<open>
  A relation that the calls of the streams keep, and that does not depend on the members of the controller that
  change, is kept by every event of the controller.
\<close>

definition routes :: "controller \<Rightarrow> settings \<times> (string \<times> account) list \<times> (string \<times> oe_kind \<times> u16) list
    \<times> (string \<times> u16) list" where
  "routes c = (ct_settings c, ct_accounts c, ct_order_entry c, ct_download c)"

locale child_kept = kept R for R :: "'x ctw \<Rightarrow> 'x ctw \<Rightarrow> bool" +
  fixes child :: "'x child"
  assumes kept_child: "R w (res_state (child t k w))"
    and kept_ctl: "routes (f (cw_ctl w)) = routes (cw_ctl w) \<Longrightarrow> R w (upd_ctl f w)"
  fixes S :: "'x symbol_set"
  assumes kept_put: "R w (w\<lparr>cw_rest := ss_put S all (cw_rest w)\<rparr>)"
begin

lemma kept_first: "R w v \<Longrightarrow> R v (res_state r) \<Longrightarrow> R w (res_state r)"
  by (rule keep_trans)

lemma kept_group: "R w (res_state (call_group child k ts w))"
  unfolding call_group_def by (rule keep_for_each) (rule kept_child)

lemma kept_dispatch: "R w (res_state (ct_dispatch child k w))"
  unfolding ct_dispatch_def by (intro keep_then kept_child kept_group)

lemma kept_ctl_child:
  "routes (f (cw_ctl w)) = routes (cw_ctl w) \<Longrightarrow> R w (res_state (child t k (upd_ctl f w)))"
  by (rule kept_first [OF kept_ctl kept_child])

lemma kept_timer: "R w (res_state (ct_timer child now w))"
  unfolding ct_timer_def
proof (rule keep_then)
  show "R w (res_state (for_each (remove_zombie child) (ct_zombies (cw_ctl w)) w))"
    by (rule keep_for_each)
      (auto simp: remove_zombie_def Let_def routes_def keep_refl intro: kept_ctl_child kept_ctl)
qed (rule kept_first [OF kept_ctl kept_dispatch], simp add: routes_def)

lemma kept_grow: "(\<And>v. R v (res_state (add v))) \<Longrightarrow> R w (res_state (grow n count goal add w))"
  by (induction n arbitrary: w) (auto simp: keep_refl intro: keep_then)

lemma kept_add:
  "R w (res_state (add_market_data child p w))" "R w (res_state (add_market_data_2 child w))"
  by (auto simp: add_market_data_def add_market_data_2_def Let_def routes_def
      intro!: keep_then kept_ctl_child kept_ctl)

lemma kept_symbols: "R w (res_state (ct_symbols_update child alloc symbols w))"
proof -
  have "R v (res_state (ensure_symbol_slices child n v))" for n v
    unfolding ensure_symbol_slices_def grow_to_def
    by (auto simp: keep_refl intro!: keep_then kept_grow kept_add)
  then show ?thesis
    unfolding ct_symbols_update_def by (auto intro!: keep_then kept_group split: prod.splits)
qed

lemma kept_assert: "R w (res_state (f w)) \<Longrightarrow> R w (res_state (assert_that on p f w))"
  by (simp add: assert_that_def keep_refl)

lemma kept_listen_key: "R w (res_state (ct_listen_key_update child k a key w))"
proof -
  let ?g = "\<lambda>c :: controller. c\<lparr>ct_stream_id := ct_stream_id c + 1\<rparr>"
  have u: "R w (upd_ctl ?g w)" by (simp add: kept_ctl routes_def)
  have "R w (res_state (and_then (child (To_drop_copy a) Do_start (upd_ctl ?g w)) (\<lambda>w.
      Ok (upd_ctl (\<lambda>c. c\<lparr>ct_drop_copy := set_drop_copy a (Some d) (ct_drop_copy c)\<rparr>) w))))" for d
    by (auto simp: routes_def intro!: keep_then kept_ctl_child kept_ctl)
  then show ?thesis
    using u by (auto simp: ct_listen_key_update_def Let_def assert_that_def keep_refl split: option.splits)
qed

lemma kept_handle: "R w (res_state (ct_handle S child ev w))"
proof (cases ev)
  case (CE_subscribe a symbols)
  then show ?thesis
    by (auto simp: ct_subscribe_def intro!: kept_first [OF kept_put kept_symbols] split: prod.splits)
next
  case (CE_listen_key_update k a key)
  then show ?thesis by (simp add: kept_listen_key)
next
  case (CE_remove a)
  then show ?thesis by (auto simp: ct_remove_def routes_def intro!: kept_ctl)
next
  case (CE_control act)
  then show ?thesis by (cases act) (simp_all add: ct_control_def kept_assert kept_child keep_refl)
qed (simp_all add: ct_start_def ct_stop_def ct_assets_update_def kept_assert kept_dispatch kept_timer kept_symbols
    kept_child keep_refl)

end

section \<open>The invariant\<close>

definition accepted :: "string \<Rightarrow> ((message_info \<times> order_request) \<times> u16) list \<Rightarrow> order_key list" where
  "accepted a rs = List.map_filter (\<lambda>((mi, r), n).
     if request_account r = a then request_key mi r else None) rs"

lemma accepted_log [simp]:
  "accepted a [] = []"
  "accepted a (rs @ [((mi, r), n)]) = accepted a rs @ (if request_account r = a then the_key mi r else [])"
  by (simp_all add: accepted_def List.map_filter_def split: option.split)

text \<open>The order entries are those the controller has constructed.\<close>

definition seated :: "('d, 'q) office \<Rightarrow> bool" where
  "seated w \<longleftrightarrow> (\<forall>a k n acc. map_of (ct_order_entry (cw_ctl w)) a = Some (k, n) \<longrightarrow>
     map_of (ct_accounts (cw_ctl w)) a = Some acc \<longrightarrow>
     entry_kind (fst (dk_entry (cw_rest w) a)) = k \<and> entry_stream_id (fst (dk_entry (cw_rest w) a)) = n
     \<and> entry_account (fst (dk_entry (cw_rest w) a)) = acc)"

definition faithful :: "(string \<Rightarrow> string + wsapi_request) \<Rightarrow> ('d, 'q) office \<Rightarrow> bool" where
  "faithful dec w \<longleftrightarrow> (\<forall>a.
     List.map_filter (order_key dec) (snd (dk_entry (cw_rest w) a)) = accepted a (dk_log (cw_rest w))
     \<and> (\<forall>e \<in> set (snd (dk_entry (cw_rest w) a)). order_key dec e \<noteq> None \<longrightarrow>
          signed_for (entry_account (fst (dk_entry (cw_rest w) a))) e))"

definition returned_ids :: "('d, 'q) office \<Rightarrow> bool" where
  "returned_ids w \<longleftrightarrow> (\<forall>((mi, r), n) \<in> set (dk_log (cw_rest w)). request_key mi r \<noteq> None \<longrightarrow>
     (\<exists>k. map_of (ct_order_entry (cw_ctl w)) (request_account r) = Some (k, n)))"

definition office_ok :: "(string \<Rightarrow> string + wsapi_request) \<Rightarrow> ('d, 'q) office \<Rightarrow> bool" where
  "office_ok dec w \<longleftrightarrow> ct_shape (cw_ctl w) \<and> seated w \<and> faithful dec w \<and> returned_ids w"

text \<open>A step that is no request: the order entries send no order requests.\<close>

definition office_quiet :: "(string \<Rightarrow> string + wsapi_request) \<Rightarrow> ('d, 'q) office \<Rightarrow> ('d, 'q) office \<Rightarrow> bool" where
  "office_quiet dec v w \<longleftrightarrow> routes (cw_ctl w) = routes (cw_ctl v)
     \<and> dk_log (cw_rest w) = dk_log (cw_rest v)
     \<and> (\<forall>a. entry_orders dec [] (dk_entry (cw_rest v) a) (dk_entry (cw_rest w) a))"

lemma office_quiet_trans: "office_quiet dec u v \<Longrightarrow> office_quiet dec v w \<Longrightarrow> office_quiet dec u w"
  unfolding office_quiet_def using entry_orders_trans [of dec "[]" _ _ "[]"]
  by (metis append_Nil)

lemma quiet_desk:
  assumes "desk_orders dec a [] (cw_rest w) d"
  shows "office_quiet dec w (w\<lparr>cw_rest := d\<rparr>)"
proof -
  have "entry_orders dec [] (dk_entry (cw_rest w) b) (dk_entry d b)" for b
    using assms by (cases "b = a") (simp_all add: desk_orders_def)
  then show ?thesis using assms by (simp add: office_quiet_def desk_orders_def)
qed

lemma seated_step:
  assumes "routes (cw_ctl w) = routes (cw_ctl v)" "seated v"
    and "\<And>a. \<exists>ks. entry_orders dec ks (dk_entry (cw_rest v) a) (dk_entry (cw_rest w) a)"
  shows "seated w"
  using assms by (simp add: seated_def routes_def entry_orders_def)

lemma quiet_keeps:
  assumes "office_quiet dec v w" "office_ok dec v" "ct_shape (cw_ctl w)"
  shows "office_ok dec w"
proof -
  note q = assms(1) [unfolded office_quiet_def]
  have "seated w" using seated_step [of w v dec] q assms(2) by (auto simp: office_ok_def)
  moreover have "faithful dec w"
    unfolding faithful_def
  proof (intro allI)
    fix a
    from q have "entry_orders dec [] (dk_entry (cw_rest v) a) (dk_entry (cw_rest w) a)" by blast
    then obtain es where es: "snd (dk_entry (cw_rest w) a) = snd (dk_entry (cw_rest v) a) @ es"
      "List.map_filter (order_key dec) es = []"
      "\<forall>e \<in> set es. order_key dec e \<noteq> None \<longrightarrow> signed_for (entry_account (fst (dk_entry (cw_rest v) a))) e"
      "entry_account (fst (dk_entry (cw_rest w) a)) = entry_account (fst (dk_entry (cw_rest v) a))"
      unfolding entry_orders_def by blast
    then show "List.map_filter (order_key dec) (snd (dk_entry (cw_rest w) a)) = accepted a (dk_log (cw_rest w))
      \<and> (\<forall>e \<in> set (snd (dk_entry (cw_rest w) a)). order_key dec e \<noteq> None \<longrightarrow>
          signed_for (entry_account (fst (dk_entry (cw_rest w) a))) e)"
      using q assms(2) by (auto simp: office_ok_def faithful_def)
  qed
  moreover have "returned_ids w"
    using q assms(2) by (simp add: office_ok_def returned_ids_def routes_def)
  ultimately show ?thesis using assms(3) by (simp add: office_ok_def)
qed

text \<open>A request.\<close>

lemma order_action_target:
  assumes "ct_order_action (request_action r) c = Routed t"
  shows "(t = To_order_entry (request_account r) \<and> map_of (ct_order_entry c) (request_account r) \<noteq> None
      \<and> ((\<exists>a x request_id. r = Req_cancel_all a x request_id) \<longrightarrow> \<not> st_ws_api (ct_settings c)))
    \<or> (t = To_download (request_account r) \<and> (\<forall>mi. request_key mi r = None))"
  using assms by (cases r) (auto simp: ct_order_action_def routed_to_def get_order_entry_def get_rest_trade_def
      split: if_splits)

lemma order_action_addressed:
  "ct_order_action act c = Routed t \<Longrightarrow> st_assertions (ct_settings c) \<longrightarrow> addressed act"
  "ct_order_action act c = Aborted m \<Longrightarrow> m = ''assert'' \<and> st_assertions (ct_settings c) \<and> \<not> addressed act"
  by (auto simp: ct_order_action_def routed_to_def split: if_splits order_action.splits sum.splits)

lemma and_then_fails:
  "and_then r f = Throw e v \<longleftrightarrow> r = Throw e v \<or> (\<exists>s. r = Ok s \<and> f s = Throw e v)"
  "and_then r f = Fatal m v \<longleftrightarrow> r = Fatal m v \<or> (\<exists>s. r = Ok s \<and> f s = Fatal m v)"
  by (cases r; auto)+

lemma target_act_throws: "target_act E mi r t w = Throw e v \<Longrightarrow> v = w"
  by (cases t; auto simp: target_act_def map_res_eq and_then_fails put_download_same
      dest: entry_act_throws rt_action_throws(1))

lemma target_act_fatal:
  "target_act E mi r (To_order_entry a) w = Fatal m v \<Longrightarrow> \<exists>u. entry_act E mi r a w = Fatal m u"
  "target_act E mi r (To_download a) w = Fatal m v \<Longrightarrow>
     desk_asserted r m (sm_account (fst (dk_download w a))) w"
  by (auto simp: target_act_def map_res_eq and_then_fails asserted_views dest!: rt_action_throws(2))

lemma rejected_same: "ct_route E mi r w = Throw e w' \<Longrightarrow> w' = w"
  by (auto simp: ct_route_def map_res_eq dest: target_act_throws split: routed.splits)

context wsapi_text
begin

lemma entry_act_orders:
  assumes "entry_act E mi r a w = Ok v" "ws_enc E = enc"
  shows "desk_orders dec a (the_key mi r) w v"
  using assms(1) by (auto simp: entry_act_def map_res_eq split: entry.splits
      dest!: oe_action_orders [where dec = dec] op_action_orders [where dec = dec]
        ws_action_orders [OF _ assms(2)] intro: put_entry_orders)

lemma entry_call_orders:
  assumes "ws_enc E = enc" shows "desk_orders dec a [] w (entry_call E ti k a w)"
  by (auto simp: entry_call_def split: entry.splits
      intro!: put_entry_orders quiet_oe_call quiet_op_call quiet_ws_call [OF assms])

lemma office_keeps_child:
  assumes "ws_enc E = enc"
  shows "child_kept (office_quiet dec) (office_child E ti) office_symbols"
proof
  show "office_quiet dec w w" for w by (simp add: office_quiet_def)
  show "office_quiet dec w (res_state (office_child E ti t k w))" for t k w
    using quiet_desk [OF entry_call_orders [OF assms]]
    by (auto simp: office_child_def office_quiet_def split: target.splits)
  show "office_quiet dec w (upd_ctl f w)" if "routes (f (cw_ctl w)) = routes (cw_ctl w)" for f w
    using that by (simp add: office_quiet_def)
  show "office_quiet dec w (w\<lparr>cw_rest := ss_put office_symbols all (cw_rest w)\<rparr>)" for all w
    by (simp add: office_quiet_def office_symbols_def)
qed (rule office_quiet_trans)

lemma request_keeps:
  assumes "ct_route E mi r w = Ok w'" "ws_enc E = enc" "office_ok dec w"
  shows "office_ok dec w'"
proof -
  let ?a = "request_account r"
  obtain t d where t: "ct_order_action (request_action r) (cw_ctl w) = Routed t"
    "target_act E mi r t (cw_rest w) = Ok d" "w' = w\<lparr>cw_rest := d\<rparr>"
    using assms(1) by (auto simp: ct_route_def map_res_eq split: routed.splits)
  from order_action_target [OF t(1)] show ?thesis
  proof (elim disjE conjE)
    assume t': "t = To_order_entry ?a" "map_of (ct_order_entry (cw_ctl w)) ?a \<noteq> None"
    obtain d' where "entry_act E mi r ?a (cw_rest w) = Ok d'"
      and d: "d = log_request mi r (entry_stream_id (fst (dk_entry d' ?a))) d'"
      using t(2) t'(1) by (auto simp: target_act_def and_then_eq_Ok)
    then have d': "desk_orders dec ?a (the_key mi r) (cw_rest w) d'"
      by (intro entry_act_orders [OF _ assms(2)])
    note n = d' [unfolded desk_orders_def]
    obtain k n where k: "map_of (ct_order_entry (cw_ctl w)) ?a = Some (k, n)" using t'(2) by auto
    then have "map_of (ct_accounts (cw_ctl w)) ?a \<noteq> None"
      using assms(3) shape_keys(1) [of "cw_ctl w" ?a] by (simp add: office_ok_def)
    then have "entry_stream_id (fst (dk_entry (cw_rest w) ?a)) = n"
      using assms(3) k by (auto simp: office_ok_def seated_def)
    then have id: "entry_stream_id (fst (dk_entry d' ?a)) = n" using n by (simp add: entry_orders_def)
    have e: "\<exists>ks. entry_orders dec ks (dk_entry (cw_rest w) b) (dk_entry (cw_rest w') b)" for b
      using n by (cases "b = ?a") (auto simp: t(3) d log_request_def intro: exI [of _ "[]"])
    have "seated w'" using seated_step [OF _ _ e] assms(3) by (simp add: t(3) office_ok_def)
    moreover have "returned_ids w'"
      using assms(3) k id n by (auto simp: office_ok_def returned_ids_def t(3) d log_request_def)
    moreover have "faithful dec w'"
      unfolding faithful_def
    proof (intro allI)
      fix b
      note f = assms(3) [unfolded office_ok_def faithful_def]
      show "List.map_filter (order_key dec) (snd (dk_entry (cw_rest w') b)) = accepted b (dk_log (cw_rest w'))
        \<and> (\<forall>e \<in> set (snd (dk_entry (cw_rest w') b)). order_key dec e \<noteq> None \<longrightarrow>
            signed_for (entry_account (fst (dk_entry (cw_rest w') b))) e)"
      proof (cases "b = ?a")
        case True
        have "entry_orders dec (the_key mi r) (dk_entry (cw_rest w) ?a) (dk_entry d' ?a)" using n by simp
        then obtain es where "snd (dk_entry d' ?a) = snd (dk_entry (cw_rest w) ?a) @ es"
          "List.map_filter (order_key dec) es = the_key mi r"
          "\<forall>e \<in> set es. order_key dec e \<noteq> None \<longrightarrow> signed_for (entry_account (fst (dk_entry (cw_rest w) ?a))) e"
          "entry_account (fst (dk_entry d' ?a)) = entry_account (fst (dk_entry (cw_rest w) ?a))"
          unfolding entry_orders_def by blast
        then show ?thesis using f n True by (auto simp: t(3) d log_request_def)
      qed (use f n in \<open>simp add: t(3) d log_request_def\<close>)
    qed
    ultimately show ?thesis using assms(3) by (simp add: office_ok_def t(3))
  next
    assume t': "t = To_download ?a" and q: "\<forall>mi. request_key mi r = None"
    then obtain v n where d: "d = log_request mi r n (put_download ?a (cw_rest w) v)"
      using t(2) by (auto simp: target_act_def and_then_eq_Ok map_res_eq)
    show ?thesis
      using assms(3) q
      by (auto simp: office_ok_def seated_def faithful_def returned_ids_def t(3) d log_request_def put_download_def)
  qed
qed

lemma office_step_keeps: "office_step L enc v w \<Longrightarrow> office_ok dec v \<Longrightarrow> office_ok dec w"
proof (induction rule: office_step.induct)
  case (office_request E mi r w w')
  then show ?case by (rule_tac request_keeps)
next
  case (office_rejected E mi r w e w')
  then show ?case using rejected_same [of E mi r w e w'] by simp
next
  case (office_controller E w ev ti w')
  have "office_quiet dec w w'"
    using child_kept.kept_handle [OF office_keeps_child [OF office_controller(1)], of w ti ev] office_controller(3)
    by simp
  moreover have "ct_shape (cw_ctl w')"
    using office.handle_Ok_shape [of w ev office_symbols E ti w'] office_controller by (simp add: office_ok_def)
  ultimately show ?case using quiet_keeps office_controller(4) by blast
next
  case (office_classic w a s v)
  from quiet_keeps [OF quiet_desk [OF put_entry_orders(1) [OF office_classic(1) quiet_oe_event [OF office_classic(2)]]]
      office_classic(3)] office_classic(3)
  show ?case by (simp add: office_ok_def)
next
  case (office_portfolio w a s v)
  from quiet_keeps [OF quiet_desk [OF put_entry_orders(2) [OF office_portfolio(1) quiet_op_event [OF office_portfolio(2)]]]
      office_portfolio(3)] office_portfolio(3)
  show ?case by (simp add: office_ok_def)
next
  case (office_socket w a s v)
  from quiet_keeps [OF quiet_desk [OF put_entry_orders(3) [OF office_socket(1) quiet_ws_event [OF office_socket(2)]]]
      office_socket(3)] office_socket(3)
  show ?case by (simp add: office_ok_def)
next
  case (office_others w sh st ds)
  then show ?case
    by (simp add: others_def office_ok_def seated_def faithful_def returned_ids_def)
qed

lemma office_open_ok: "office_open d w \<Longrightarrow> office_ok dec w"
  by (auto simp: office_open_def office_ok_def seated_def faithful_def returned_ids_def
      List.map_filter_def created_shape entry_create_def oe_create_def op_create_def ws_create_def
      split: oe_kind.splits)

lemma office_run_keeps: "office_run L enc v w \<Longrightarrow> office_ok dec v \<Longrightarrow> office_ok dec w"
  by (induction rule: office_run.induct) (auto intro: office_step_keeps)

end

text \<open>With the codec of RFC 4648 and the numbers of the schema.\<close>

interpretation rfc_office: child_kept "office_quiet (wsapi_request_decode rfc_b64d schema_uncode)"
    "office_child (E\<lparr>we_b64e := rfc_b64e, we_code := schema_code\<rparr>) ti" office_symbols for E ti
  by (rule rfc_text.office_keeps_child) (simp add: ws_enc_def fun_eq_iff)

end
