(* ===== verification/Order_Routing_Properties.thy ===== *)
theory Order_Routing_Properties
  imports Order_Routing_Runs Web_Socket_Properties
begin

text \<open>
  What clients can rely on when they send requests to the gateway: each accepted order request is sent
  once, for its account, in order; and a request has no other consequences.
\<close>

definition sent_as_accepted :: "(string \<Rightarrow> string + wsapi_request) \<Rightarrow> ('d, 'q) office \<Rightarrow> bool" where
  "sent_as_accepted dec w \<longleftrightarrow>
     (\<forall>a. List.map_filter (order_key dec) (snd (dk_entry (cw_rest w) a)) = accepted a (dk_log (cw_rest w))
       \<and> (\<forall>acc. map_of (ct_accounts (cw_ctl w)) a = Some acc \<longrightarrow>
           (\<forall>e \<in> set (snd (dk_entry (cw_rest w) a)). order_key dec e \<noteq> None \<longrightarrow> signed_for acc e)))
     \<and> returned_ids w"

lemma office_account:
  assumes "office_ok dec w" "map_of (ct_accounts (cw_ctl w)) a = Some acc"
  shows "entry_account (fst (dk_entry (cw_rest w) a)) = acc"
    "entry_kind (fst (dk_entry (cw_rest w) a)) = order_entry_kind (ct_settings (cw_ctl w)) (ac_margin_mode acc)"
proof -
  have s: "accounts_shape (cw_ctl w)" "seated w" using assms(1) by (auto simp: office_ok_def ct_shape_def)
  from s(1) assms(2) obtain n where "map_of (ct_order_entry (cw_ctl w)) a
      = Some (order_entry_kind (ct_settings (cw_ctl w)) (ac_margin_mode acc), n)"
    unfolding accounts_shape_def by blast
  with s(2) assms(2) show "entry_account (fst (dk_entry (cw_rest w) a)) = acc"
    "entry_kind (fst (dk_entry (cw_rest w) a)) = order_entry_kind (ct_settings (cw_ctl w)) (ac_margin_mode acc)"
    by (simp_all add: seated_def)
qed

lemma open_run_ok:
  assumes "wsapi_text b64e b64d code uncode" "office_open d v"
    "office_run L (wsapi_request_encode b64e code) v w"
  shows "office_ok (wsapi_request_decode b64d uncode) w"
  using wsapi_text.office_run_keeps [OF assms(1,3)] wsapi_text.office_open_ok [OF assms(1,2)] by blast

text \<open>
  C2: Whatever happens (requests of any clients, answers, timers, connections that come and go, other
  streams at work), the order requests that the order entry of an account has sent, over REST or
  over the WebSocket API, are exactly the create, modify and cancel requests for this account that returned to
  their clients, each once and in their order, identified by user, order and version. They carry the API
  key of this account, and each client was given the id of the stream of the account.
\<close>

theorem orders_sent_as_accepted:
  assumes "wsapi_text b64e b64d code uncode" "office_open d v"
    and "office_run L (wsapi_request_encode b64e code) v w"
  shows "sent_as_accepted (wsapi_request_decode b64d uncode) w"
proof -
  have ok: "office_ok (wsapi_request_decode b64d uncode) w" by (rule open_run_ok [OF assms])
  then have "faithful (wsapi_request_decode b64d uncode) w" "returned_ids w" by (simp_all add: office_ok_def)
  then show ?thesis
    using office_account(1) [OF ok] unfolding sent_as_accepted_def faithful_def by metis
qed

text \<open>The gateway of \<open>sample_created\<close>: an account that trades over the WebSocket and a portfolio margin account.\<close>

definition sample_office :: "(ws_state \<times> int \<times> bool, unit) office" where
  "sample_office = \<lparr> cw_ctl = res_state sample_created,
     cw_rest = \<lparr> dk_shared = sample_shared, dk_stale = \<lambda>a. [],
       dk_entry = \<lambda>a. (case map_of (ct_order_entry (res_state sample_created)) a of
           Some (k, n) \<Rightarrow> (case map_of (ct_accounts (res_state sample_created)) a of
               Some acc \<Rightarrow> entry_create k n acc (WS_UNDEFINED, 0, False)
             | None \<Rightarrow> Entry_classic (oe_create 0 sample_account))
         | None \<Rightarrow> Entry_classic (oe_create 0 sample_account), []),
       dk_download = \<lambda>a. (rt_create 0 sample_account, []), dk_log = [] \<rparr> \<rparr>"

definition sample_message :: message_info where
  "sample_message = \<lparr> mi_source = 3, mi_trace = sample_trace 1, mi_receive_time_utc = 1000000 \<rparr>"

definition sample_order_request :: "string \<Rightarrow> order_request" where
  "sample_order_request a = Req_create a sample_create \<lparr> oo_user_id = 3, oo_order_id = 1000, oo_strategy_id = 0,
     oo_symbol = ''BTCUSDT'', oo_side = Side_BUY, oo_quantity = Fin 1, oo_price = Fin 100,
     oo_external_order_id = [], oo_client_order_id = [], oo_create_time_utc = 0,
     oo_account = a \<rparr> sample_ref_data ''r''"

lemma sample_office_open: "office_open (WS_UNDEFINED, 0, False) sample_office"
  unfolding office_open_def sample_office_def using sample_created_create by auto

lemma sample_office_entry:
  "map_of (ct_order_entry (res_state sample_created)) ''P'' = Some (Kind_OrderEntryPortfolio, 3)" by code_simp

lemma sample_office_asserts: "st_assertions (ct_settings (cw_ctl sample_office))"
proof -
  have "st_assertions (ct_settings (res_state sample_created))" by code_simp
  then show ?thesis by (simp add: sample_office_def)
qed

lemma sample_office_key:
  assumes "map_of (ct_accounts (res_state sample_created)) ''P'' = Some acc"
  shows "cr_mac (ac_crypto acc) \<noteq> None"
proof -
  have "list_all (\<lambda>(k, a). cr_mac (ac_crypto a) \<noteq> None) (ct_accounts (res_state sample_created))" by code_simp
  with map_of_SomeD [OF assms] show ?thesis by (auto simp: list_all_iff)
qed

lemma sample_office_portfolio:
  obtains acc where "dk_entry (cw_rest sample_office) ''P'' = (Entry_portfolio (op_create 3 acc), [])"
    "cr_mac (ac_crypto acc) \<noteq> None"
proof -
  have "map_of (ct_accounts (res_state sample_created)) ''P'' \<noteq> None"
    using shape_keys(1) [OF created_shape [OF sample_created_create], of "''P''"] sample_office_entry by auto
  then obtain acc where acc: "map_of (ct_accounts (res_state sample_created)) ''P'' = Some acc" by blast
  from sample_office_key [OF acc] show thesis
    by (intro that [of acc]) (simp_all add: sample_office_def sample_office_entry acc entry_create_def)
qed

lemma sample_create_asserts: "order_place_asserts sample_create"
  by (simp add: order_place_asserts_def sample_create_def isnan_def)

theorem orders_sent_as_accepted_witness:
  "\<exists>w. office_run sample_ws_lib (wsapi_request_encode rfc_b64e schema_code) sample_office w
     \<and> List.map_filter (order_key (wsapi_request_decode rfc_b64d schema_uncode)) (snd (dk_entry (cw_rest w) ''P''))
         = [(RequestType_CREATE_ORDER, 3, 1000, 1)]
     \<and> dk_log (cw_rest w) = [((sample_message, sample_order_request ''P''), 3)]"
proof -
  let ?enc = "wsapi_request_encode rfc_b64e schema_code"
  obtain acc where p: "dk_entry (cw_rest sample_office) ''P'' = (Entry_portfolio (op_create 3 acc), [])"
    and key: "cr_mac (ac_crypto acc) \<noteq> None"
    by (rule sample_office_portfolio)
  let ?r = "snd (op_download sample_env OE_DONE (entry_view ''P'' (op_create 3 acc) (cw_rest sample_office)))"
  let ?v = "sample_office\<lparr>cw_rest := put_entry ''P'' Entry_portfolio (cw_rest sample_office) ?r\<rparr>"
  have 1: "office_run sample_ws_lib ?enc sample_office ?v"
    by (rule office_more [OF office_refl office_portfolio [OF _ op_ev_download]]) (simp add: p)
  have "stream_ready ?r"
    by (simp add: op_download_def op_set_connection_status_def oe_set_connection_status_def stream_ready_def Let_def)
  then obtain w where w: "ct_route sample_ws_env sample_message (sample_order_request ''P'') ?v = Ok w"
    "dk_log (cw_rest w) = [((sample_message, sample_order_request ''P''), 3)]"
    using sample_office_entry key
    by (simp add: ct_route_def sample_order_request_def ct_order_action_def routed_to_def get_order_entry_def
        target_act_def signing_def order_place_url_case [OF sample_create_asserts] entry_act_def put_entry_def entry_view_def log_request_def sample_office_def op_order_place_def Let_def
        stream_ready_def op_download_def op_set_connection_status_def oe_set_connection_status_def op_create_def)
  have "ws_enc sample_ws_env = ?enc" by (simp add: ws_enc_def fun_eq_iff)
  then have 2: "office_run sample_ws_lib ?enc sample_office w"
    by (rule office_more [OF 1 office_request]) (rule w(1))
  have "accepted ''P'' (dk_log (cw_rest w)) = [(RequestType_CREATE_ORDER, 3, 1000, 1)]"
    by (simp add: w(2) accepted_def List.map_filter_def sample_order_request_def sample_message_def sample_create_def)
  then show ?thesis
    using orders_sent_as_accepted [OF rfc_text.wsapi_text_axioms sample_office_open 2] 2 w(2)
    unfolding sent_as_accepted_def by metis
qed

section \<open>What a request changes\<close>

lemma same_fold:
  "(\<And>x v. gw_shared (f x v) = gw_shared v \<and> gw_stale_orders (f x v) = gw_stale_orders v) \<Longrightarrow>
     gw_shared (fold f xs w) = gw_shared w \<and> gw_stale_orders (fold f xs w) = gw_stale_orders w"
  by (induction xs arbitrary: w) simp_all

lemma cancel_all_same:
  "gw_shared (open_orders_cancel_all E ti c request_id w) = gw_shared w
   \<and> gw_stale_orders (open_orders_cancel_all E ti c request_id w) = gw_stale_orders w"
  "gw_shared (op_open_orders_cancel_all E ti c request_id x) = gw_shared x
   \<and> gw_stale_orders (op_open_orders_cancel_all E ti c request_id x) = gw_stale_orders x"
  unfolding open_orders_cancel_all_def op_open_orders_cancel_all_def
  by (rule same_fold, simp add: cancel_all_symbol_def op_cancel_all_symbol_def Let_def)+

lemma action_same:
  "oe_action E mi r v = Ok v' \<Longrightarrow> gw_shared v' = gw_shared v \<and> gw_stale_orders v' = gw_stale_orders v"
  "op_action E mi r w = Ok w' \<Longrightarrow> gw_shared w' = gw_shared w \<and> gw_stale_orders w' = gw_stale_orders w"
  "ws_action F mi r x = Ok x' \<Longrightarrow> gw_shared x' = gw_shared x \<and> gw_stale_orders x' = gw_stale_orders x"
  "rt_action E mi r y = Ok y' \<Longrightarrow> gw_shared y' = gw_shared y \<and> gw_stale_orders y' = gw_stale_orders y"
  by (cases r; auto simp: signing_eq order_place_def order_modify_def order_cancel_def op_order_place_def
      op_order_modify_def op_order_cancel_def ws_order_place_def ws_order_modify_def ws_order_cancel_def ws_cancel_all_orders_def
      ws_request_effect rt_create_order_def rt_modify_order_def rt_cancel_order_def rt_open_orders_cancel_all_def
      Let_def cancel_all_same split: if_splits sum.splits option.splits)+

text \<open>All that is not the streams of account \<open>a\<close> is the same.\<close>

definition only_account :: "string \<Rightarrow> ('d, 'q) desk \<Rightarrow> ('d, 'q) desk \<Rightarrow> bool" where
  "only_account a v w \<longleftrightarrow> dk_shared w = dk_shared v \<and> dk_stale w = dk_stale v
     \<and> (\<forall>b. b \<noteq> a \<longrightarrow> dk_entry w b = dk_entry v b \<and> dk_download w b = dk_download v b)"

lemma entry_act_only: "entry_act E mi r a w = Ok v \<Longrightarrow> only_account a w v"
  by (auto simp: entry_act_def map_res_eq put_entry_def only_account_def entry_view_def dest!: action_same
      split: entry.splits)

lemma target_act_only:
  assumes "target_act E mi r t w = Ok v" "t = To_order_entry a \<or> t = To_download a"
  shows "only_account a w v"
  using assms by (auto simp: target_act_def and_then_eq_Ok map_res_eq log_request_def put_download_def
      only_account_def download_view_def dest!: entry_act_only action_same)

text \<open>
  C7: In every reachable state of the gateway a request of a client does one of three things. It is accepted; then
  neither the controller nor the shared data nor any stream of another account has changed. Or it is rejected with an exception, and nothing
  at all has changed. Or it ends the process, and that only by an assertion, in a build that has its
  assertions: the one of the controller, when the request names no account or an order of another one, or those of the
  stream it goes to, when it creates an order of undefined type, a market order with a price or a limit order
  without one, or when there is no HMAC key to sign it with. The fatal error of the handler for cancel-all
  of the WebSocket order entry is never reached.
\<close>

theorem request_stays_with_account:
  assumes "wsapi_text b64e b64d code uncode" "office_open d v"
    and "office_run L (wsapi_request_encode b64e code) v w"
  shows "case ct_route E mi r w of
      Ok w' \<Rightarrow> cw_ctl w' = cw_ctl w \<and> only_account (request_account r) (cw_rest w) (cw_rest w')
        \<and> (st_assertions (ct_settings (cw_ctl w)) \<longrightarrow> addressed (request_action r))
    | Throw e w' \<Rightarrow> w' = w
    | Fatal m w' \<Rightarrow> m = ''assert''
        \<and> (st_assertions (ct_settings (cw_ctl w)) \<and> \<not> addressed (request_action r)
          \<or> st_assertions (sh_settings (dk_shared (cw_rest w)))
            \<and> ((\<exists>a c ord rd request_id. r = Req_create a c ord rd request_id \<and> \<not> order_place_asserts c)
              \<or> cr_mac (ac_crypto (entry_account (fst (dk_entry (cw_rest w) (request_account r))))) = None
              \<or> cr_mac (ac_crypto (sm_account (fst (dk_download (cw_rest w) (request_account r))))) = None))"
proof (cases "ct_route E mi r w")
  case (Ok w')
  then obtain t d where t: "ct_order_action (request_action r) (cw_ctl w) = Routed t"
    "target_act E mi r t (cw_rest w) = Ok d" "w' = w\<lparr>cw_rest := d\<rparr>"
    by (auto simp: ct_route_def map_res_eq split: routed.splits)
  then show ?thesis
    unfolding Ok using order_action_target [OF t(1)] order_action_addressed(1) [OF t(1)] target_act_only [OF t(2)]
    by auto
next
  case (Throw e w')
  then show ?thesis using rejected_same by force
next
  case (Fatal m w')
  show ?thesis
  proof (cases "ct_order_action (request_action r) (cw_ctl w)")
    case (Routed t)
    let ?a = "request_account r"
    obtain d where d: "target_act E mi r t (cw_rest w) = Fatal m d"
      using Fatal Routed by (auto simp: ct_route_def map_res_eq)
    have a: "\<not> order_asserts r \<Longrightarrow> \<exists>a c ord rd request_id. r = Req_create a c ord rd request_id
        \<and> \<not> order_place_asserts c"
      by (cases r) auto
    have "(\<exists>acc \<in> {entry_account (fst (dk_entry (cw_rest w) ?a)), sm_account (fst (dk_download (cw_rest w) ?a))}.
        desk_asserted r m acc (cw_rest w))"
      using order_action_target [OF Routed]
    proof (elim disjE conjE)
      assume t: "t = To_order_entry ?a" "map_of (ct_order_entry (cw_ctl w)) ?a \<noteq> None"
        "(\<exists>a x request_id. r = Req_cancel_all a x request_id) \<longrightarrow> \<not> st_ws_api (ct_settings (cw_ctl w))"
      note ok = open_run_ok [OF assms]
      obtain acc where "map_of (ct_accounts (cw_ctl w)) ?a = Some acc"
        using t(2) ok shape_keys(1) [of "cw_ctl w" ?a] by (auto simp: office_ok_def)
      from office_account(2) [OF ok this]
      have "entry_kind (fst (dk_entry (cw_rest w) ?a)) = Kind_WebSocket \<Longrightarrow> st_ws_api (ct_settings (cw_ctl w))"
        by (auto simp: order_entry_kind_def split: margin_mode.splits if_splits)
      moreover obtain u where "entry_act E mi r ?a (cw_rest w) = Fatal m u"
        using target_act_fatal(1) d t(1) by blast
      ultimately show ?thesis using entry_act_fatal t(3) by blast
    qed (use target_act_fatal(2) d in blast)
    with a show ?thesis unfolding Fatal by (auto simp: desk_asserted_def)
  qed (use Fatal order_action_addressed(2) in \<open>auto simp: ct_route_def\<close>)
qed

theorem request_stays_with_account_witness:
  "ct_route sample_ws_env sample_message (sample_order_request ''P'') sample_office
     = Throw (Oms_NotReady ''not ready'') sample_office
   \<and> ct_route sample_ws_env sample_message (sample_order_request []) sample_office = Fatal ''assert'' sample_office
   \<and> addressed (request_action (sample_order_request ''P''))"
proof -
  note stays = request_stays_with_account [OF rfc_text.wsapi_text_axioms sample_office_open office_refl,
      where E = sample_ws_env and mi = sample_message]
  obtain acc where p: "dk_entry (cw_rest sample_office) ''P'' = (Entry_portfolio (op_create 3 acc), [])"
    by (rule sample_office_portfolio)
  obtain w where w: "ct_route sample_ws_env sample_message (sample_order_request ''P'') sample_office
      = Throw (Oms_NotReady ''not ready'') w"
    using sample_office_entry p
    by (simp add: ct_route_def sample_order_request_def ct_order_action_def routed_to_def get_order_entry_def
        target_act_def entry_act_def entry_view_def op_order_place_def stream_ready_def op_create_def
        sample_office_def signing_def)
  then have "w = sample_office" using stays [where r = "sample_order_request ''P''"] by simp
  moreover have "ct_route sample_ws_env sample_message (sample_order_request []) sample_office
      = Fatal ''assert'' sample_office"
    using sample_office_asserts by (simp add: ct_route_def sample_order_request_def ct_order_action_def)
  ultimately show ?thesis using w by (simp add: sample_order_request_def)
qed

end
