(* ===== verification/Account_Slots.thy ===== *)
theory Account_Slots
  imports User_Stream_Facts
begin

text \<open>
  The request slots of an account (\<open>gateway/request.hpp\<close>) and the streams around them. The user stream
  goes through the states of its download and asks the slots for each of them; other streams
  look at the slots in their timers, send the requests, and commit a slot when the answer
  is there, which the user stream sees in its own timer. All of them share \<open>Shared\<close>, the slots and
  the details of the stale orders.

  Who serves the slots depends on the account. The locale \<open>account_server\<close> says what is expected of
  the servers; with it, every round of timers and answers brings the download of a classic user
  stream forward.
\<close>

section \<open>Request slots\<close>

text \<open>
  \<open>core::limit::Request\<close> is a library class. \<open>sl_check\<close> is \<open>check_pending\<close>, given what \<open>can_request\<close>
  answers: the rate limiter's word. Its result says whether it calls back. The streams rely on this:
  what has been asked for is called back for when the limiter permits, and after a commit there is a
  response. \<open>slot_contract\<close> assumes this whatever the other slots of the account are doing: it does not
  look at \<open>Request::ready\<close> (below).
\<close>

record 'r slot_lib =
  sl_request :: "'r \<Rightarrow> 'r"
  sl_check :: "bool \<Rightarrow> 'r \<Rightarrow> bool \<times> 'r"
  sl_commit :: "'r \<Rightarrow> 'r"
  sl_responded :: "'r \<Rightarrow> bool"

definition slot_contract :: "'r slot_lib \<Rightarrow> bool" where
  "slot_contract S \<longleftrightarrow> (\<forall>r. fst (sl_check S True (sl_request S r))) \<and> (\<forall>r. sl_responded S (sl_commit S r))"

text \<open>An object that keeps the contract: whether a request is to be made, and whether there is a response.\<close>

definition plain_slot :: "(bool \<times> bool) slot_lib" where
  "plain_slot = \<lparr> sl_request = \<lambda>(p, r). (True, False), sl_check = \<lambda>can (p, r). (p \<and> can, p \<and> \<not> can, r),
     sl_commit = \<lambda>(p, r). (p, True), sl_responded = snd \<rparr>"

lemma plain_slot_contract: "slot_contract plain_slot"
  by (simp add: slot_contract_def plain_slot_def split: prod.splits)

text \<open>
  The two callbacks of the library class. \<open>Request\<close> is ready when all of its slots are; whether a slot may
  make a request now is the answer of the rate limiter in \<open>Shared\<close>. The gateway itself never calls \<open>ready\<close>, and
  what the library uses it for is not part of the sources: \<open>request_ready\<close> is the function that is handed to the
  library, and no other definition uses it. Were the library to hold a slot back until the others are ready, the
  assumption of \<open>slot_contract\<close> would have to be that of the last slot; that is not modelled.
\<close>

definition request_ready :: "('r \<Rightarrow> bool) \<Rightarrow> (slot \<Rightarrow> 'r) \<Rightarrow> bool" where
  "request_ready ready f \<longleftrightarrow> ready (f Slot_balances) \<and> ready (f Slot_positions)
     \<and> ready (f Slot_positions_pm) \<and> ready (f Slot_open_orders) \<and> ready (f Slot_stale_orders)
     \<and> ready (f Slot_trades)"

lemma request_ready_all: "request_ready ready f \<longleftrightarrow> (\<forall>s. ready (f s))"
  unfolding request_ready_def by (metis slot.exhaust)

definition request_can_request :: "(trace_info \<Rightarrow> bool) \<Rightarrow> trace_info \<Rightarrow> bool" where
  "request_can_request rate_limiter ti = rate_limiter ti"

text \<open>What the effects of a stream do to the slots.\<close>

fun slot_effect :: "'r slot_lib \<Rightarrow> effect \<Rightarrow> (slot \<Rightarrow> 'r) \<Rightarrow> slot \<Rightarrow> 'r" where
  "slot_effect S (Slot_request s) f = f(s := sl_request S (f s))"
| "slot_effect S (Slot_commit s) f = f(s := sl_commit S (f s))"
| "slot_effect S _ f = f"

section \<open>The account\<close>

text \<open>\<open>'e\<close> is the state of the streams that serve the slots.\<close>

record ('d, 'q, 'r, 'e) acct =
  av_user :: "'d user_stream"
  av_entry :: 'e
  av_shared :: "'q shared"
  av_details :: "(u8 \<times> u64) list"
  av_slots :: "slot \<Rightarrow> 'r"

text \<open>A handler as the other components know it, and what it leaves behind.\<close>

definition acct_view :: "'c \<Rightarrow> ('d, 'q, 'r, 'e) acct \<Rightarrow> ('c, 'q) gw" where
  "acct_view c a = \<lparr> gw_self = c, gw_shared = av_shared a, gw_stale_orders = av_details a, gw_out = [] \<rparr>"

definition acct_put :: "'r slot_lib \<Rightarrow> ('c, 'q) gw \<Rightarrow> ('d, 'q, 'r, 'e) acct \<Rightarrow> ('d, 'q, 'r, 'e) acct" where
  "acct_put S w a = a\<lparr>av_shared := gw_shared w, av_details := gw_stale_orders w,
     av_slots := fold (slot_effect S) (gw_out w) (av_slots a)\<rparr>"

abbreviation user_view :: "('d, 'q, 'r, 'e) acct \<Rightarrow> ('d, 'q) us" where
  "user_view a \<equiv> acct_view (av_user a) a"

definition put_user :: "'r slot_lib \<Rightarrow> ('d, 'q) us \<Rightarrow> ('d, 'q, 'r, 'e) acct \<Rightarrow> ('d, 'q, 'r, 'e) acct" where
  "put_user S w a = acct_put S w (a\<lparr>av_user := gw_self w\<rparr>)"

text \<open>The connection of the user stream is up; its timer, which sees the slots.\<close>

definition acct_user_ready :: "'r slot_lib \<Rightarrow> 'd user_lib \<Rightarrow> ('d, 'q, 'r, 'e) acct \<Rightarrow> ('d, 'q, 'r, 'e) acct" where
  "acct_user_ready S L a = put_user S (us_ready L usc_download (user_view a)) a"

definition acct_user_timer ::
  "'r slot_lib \<Rightarrow> 'd user_lib \<Rightarrow> user_env \<Rightarrow> trace_info \<Rightarrow> ('d, 'q, 'r, 'e) acct \<Rightarrow> ('d, 'q, 'r, 'e) acct" where
  "acct_user_timer S L E ti a =
     put_user S (usc_timer (E\<lparr>ue_responded := \<lambda>s. sl_responded S (av_slots a s)\<rparr>) L ti (user_view a)) a"

text \<open>A stream that checks some of the slots: which of them call back, and the slots afterwards.\<close>

definition pending_slots :: "'r slot_lib \<Rightarrow> bool \<Rightarrow> (slot \<Rightarrow> 'r) \<Rightarrow> slot \<Rightarrow> bool" where
  "pending_slots S can f s = fst (sl_check S can (f s))"

definition check_slots :: "'r slot_lib \<Rightarrow> bool \<Rightarrow> slot list \<Rightarrow> (slot \<Rightarrow> 'r) \<Rightarrow> slot \<Rightarrow> 'r" where
  "check_slots S can ss f = (\<lambda>s. if s \<in> set ss then snd (sl_check S can (f s)) else f s)"

text \<open>A round: what the servers do, and then the timer of the user stream.\<close>

definition acct_round ::
  "'r slot_lib \<Rightarrow> 'd user_lib \<Rightarrow> ('i \<Rightarrow> ('d, 'q, 'r, 'e) acct \<Rightarrow> (exn, ('d, 'q, 'r, 'e) acct) res)
    \<Rightarrow> 'i \<times> user_env \<times> trace_info \<Rightarrow> ('d, 'q, 'r, 'e) acct \<Rightarrow> (exn, ('d, 'q, 'r, 'e) acct) res" where
  "acct_round S L serve = (\<lambda>(i, E, ti) a. and_then (serve i a) (\<lambda>c. Ok (acct_user_timer S L E ti c)))"

definition acct_rounds ::
  "'r slot_lib \<Rightarrow> 'd user_lib \<Rightarrow> ('i \<Rightarrow> ('d, 'q, 'r, 'e) acct \<Rightarrow> (exn, ('d, 'q, 'r, 'e) acct) res)
    \<Rightarrow> ('i \<times> user_env \<times> trace_info) list \<Rightarrow> ('d, 'q, 'r, 'e) acct \<Rightarrow> (exn, ('d, 'q, 'r, 'e) acct) res" where
  "acct_rounds S L serve = for_each (acct_round S L serve)"

lemma view_simps [simp]:
  "gw_self (acct_view c a) = c" "gw_shared (acct_view c a) = av_shared a"
  "gw_stale_orders (acct_view c a) = av_details a" "gw_out (acct_view c a) = []"
  by (simp_all add: acct_view_def)

lemma acct_put_simps [simp]:
  "av_user (acct_put S w a) = av_user a" "av_entry (acct_put S w a) = av_entry a"
  "av_shared (acct_put S w a) = gw_shared w" "av_details (acct_put S w a) = gw_stale_orders w"
  "av_slots (acct_put S w a) = fold (slot_effect S) (gw_out w) (av_slots a)"
  "av_user (put_user S v a) = gw_self v" "av_entry (put_user S v a) = av_entry a"
  "av_shared (put_user S v a) = gw_shared v" "av_details (put_user S v a) = gw_stale_orders v"
  "av_slots (put_user S v a) = fold (slot_effect S) (gw_out v) (av_slots a)"
  by (simp_all add: acct_put_def put_user_def)

section \<open>The slots under the effects\<close>

definition slot_commit :: "effect \<Rightarrow> bool" where
  "slot_commit e = (\<exists>s. e = Slot_commit s)"

definition slot_request :: "effect \<Rightarrow> bool" where
  "slot_request e = (\<exists>s. e = Slot_request s)"

lemma slot_effect_other: "e \<noteq> Slot_request s \<Longrightarrow> e \<noteq> Slot_commit s \<Longrightarrow> slot_effect S e f s = f s"
  by (cases e) auto

text \<open>Asked slots stay asked as long as nothing is committed, and answered ones answered as long as nothing is asked.\<close>

lemma slots_asked:
  assumes "slot_contract S" "Slot_request s \<in> set es \<or> fst (sl_check S True (f s))" "\<forall>e \<in> set es. \<not> slot_commit e"
  shows "fst (sl_check S True (fold (slot_effect S) es f s))"
  using assms(2,3)
proof (induction es arbitrary: f)
  case (Cons e es)
  have "Slot_request s \<in> set es \<or> fst (sl_check S True (slot_effect S e f s))"
    using Cons.prems assms(1) slot_effect_other [of e s S f]
    by (cases "e = Slot_request s") (auto simp: slot_commit_def slot_contract_def)
  then show ?case using Cons by simp
qed simp

lemma slots_responded:
  assumes "slot_contract S" "Slot_commit s \<in> set es \<or> sl_responded S (f s)" "\<forall>e \<in> set es. \<not> slot_request e"
  shows "sl_responded S (fold (slot_effect S) es f s)"
  using assms(2,3)
proof (induction es arbitrary: f)
  case (Cons e es)
  have "Slot_commit s \<in> set es \<or> sl_responded S (slot_effect S e f s)"
    using Cons.prems assms(1) slot_effect_other [of e s S f]
    by (cases "e = Slot_commit s") (auto simp: slot_request_def slot_contract_def)
  then show ?case using Cons by simp
qed simp

lemma slots_kept:
  assumes "\<forall>e \<in> set es. \<not> slot_request e \<and> \<not> slot_commit e"
  shows "fold (slot_effect S) es f = f"
  using assms
proof (induction es arbitrary: f)
  case (Cons e es)
  then have "slot_effect S e f = f"
    by (cases e) (auto simp: slot_request_def slot_commit_def)
  with Cons show ?case by simp
qed simp

section \<open>The timer of the user stream\<close>

definition user_asks :: "(u8 \<times> u64) set \<Rightarrow> ('d, 'q) us \<Rightarrow> ('d, 'q) us \<Rightarrow> bool" where
  "user_asks K v w \<longleftrightarrow> gw_shared w = gw_shared v
     \<and> set (gw_stale_orders w) \<subseteq> set (gw_stale_orders v) \<union> K
     \<and> (\<exists>es. gw_out w = gw_out v @ es \<and> (\<forall>e \<in> set es. \<not> slot_commit e))"

lemma user_asks_refl [simp]: "user_asks K w w"
  by (simp add: user_asks_def)

lemma user_asks_trans: "user_asks K u v \<Longrightarrow> user_asks K v w \<Longrightarrow> user_asks K u w"
  by (fastforce simp: user_asks_def)

interpretation asks: kept "user_asks K" for K
  by unfold_locales (auto intro: user_asks_trans)

lemma asks_emit: "user_asks K v w \<Longrightarrow> \<not> slot_commit e \<Longrightarrow> user_asks K v (emit e w)"
  by (auto simp: user_asks_def)

lemma asks_self: "user_asks K v w \<Longrightarrow> user_asks K v (upd_self f w)"
  by (auto simp: user_asks_def)

lemma no_slot_commit [simp]: "\<not> slot_commit (Pub_stream_status a)" "\<not> slot_commit (Slot_request s)"
  by (simp_all add: slot_commit_def)

lemma asks_status: "user_asks K w (us_set_connection_status c t w)"
  by (auto simp: us_set_connection_status_def Let_def intro!: asks_emit asks_self)

lemma asks_download: "user_asks K w (snd (usc_download s w))"
  by (cases s) (auto simp: usc_download_def us_downloading_def intro!: asks_emit asks_status)

lemma asks_send: "user_asks K w (us_send L usc_download c w)"
  unfolding us_send_def
  by (rule asks.keep_send) (simp_all add: us_upd_download_def asks_self asks_download)

text \<open>\<open>K\<close>: the orders that the dispatcher reports as stale.\<close>

definition stale_keys :: "user_env \<Rightarrow> (u8 \<times> u64) set" where
  "stale_keys E = (\<Union>n. (\<lambda>ord. (oo_user_id ord, oo_order_id ord)) ` set (ue_stale_orders E n))"

lemma add_stale_set:
  "set (snd (fold us_add_stale orders acc)) \<subseteq> set (snd acc) \<union> (\<lambda>ord. (oo_user_id ord, oo_order_id ord)) ` set orders"
proof (induction orders arbitrary: acc)
  case (Cons x orders)
  have "set (snd (us_add_stale x acc)) \<subseteq> insert (oo_user_id x, oo_order_id x) (set (snd acc))"
    by (auto simp: us_add_stale_def Let_def)
  then show ?case using Cons.IH [of "us_add_stale x acc"] by auto
qed simp

lemma asks_find:
  assumes "stale_keys E \<subseteq> K"
  shows "user_asks K w (snd (us_find_stale_orders E w))"
  using add_stale_set [of "ue_stale_orders E (name_of w)" "(0, gw_stale_orders w)"] assms
  by (fastforce simp: user_asks_def us_find_stale_orders_effect stale_keys_def)

lemma asks_timer:
  assumes K: "stale_keys E \<subseteq> K"
  shows "user_asks K w (usc_timer E L ti w)"
proof -
  have queue: "user_asks K v (usc_check_request_queue E L v)" for v :: "('a, 'b) us"
    by (auto simp: usc_check_request_queue_def us_check_def us_check_open_orders_def Let_def
        intro: asks_send user_asks_trans [OF asks_find [OF K] asks_send] split: dc_state.splits)
  have balance: "user_asks K v (usc_refresh_balance ti v)" for v :: "('a, 'b) us"
    by (auto simp: usc_refresh_balance_def intro!: asks_emit asks_self)
  have stale: "user_asks K v (us_check_stale_orders E ti v)" for v :: "('a, 'b) us"
    by (auto simp: us_check_stale_orders_def Let_def case_prod_beta
        intro!: asks_emit user_asks_trans [OF asks_self asks_find [OF K]])
  show ?thesis
    using queue [of w] user_asks_trans [OF queue user_asks_trans [OF balance stale]]
    by (auto simp: usc_timer_def Let_def)
qed

section \<open>Rounds\<close>

text \<open>
  The state between two rounds, \<open>n\<close> states from the end: the servers are fit, the user stream is where it
  should be, and the slot of its state has been asked, with something to send for it.
\<close>

definition acct_asked :: "'r slot_lib \<Rightarrow> dc_state \<Rightarrow> ('d, 'q, 'r, 'e) acct \<Rightarrow> bool" where
  "acct_asked S s a \<longleftrightarrow> fst (sl_check S True (av_slots a (us_slot s)))
     \<and> (s = DC_GET_STALE_ORDERS \<longrightarrow> av_details a \<noteq> [])
     \<and> (s = DC_GET_TRADES \<longrightarrow> us_trades_on (user_view a))"

definition acct_fit ::
  "(settings \<Rightarrow> 'e \<Rightarrow> bool) \<Rightarrow> settings \<Rightarrow> (u8 \<times> u64) set \<Rightarrow> ('d, 'q, 'r, 'e) acct \<Rightarrow> bool" where
  "acct_fit fit st K a \<longleftrightarrow>
     sh_settings (av_shared a) = st \<and> set (av_details a) \<subseteq> K \<and> fit st (av_entry a)"

text \<open>The states that wait for a slot, and what a round needs of the user stream's environment.\<close>

definition slot_state :: "dc_state \<Rightarrow> bool" where
  "slot_state s \<longleftrightarrow> s \<notin> {DC_UNDEFINED, DC_DONE, DC_GET_POSITIONS_PM}"

definition user_env_ok :: "(u8 \<times> u64) set \<Rightarrow> user_env \<Rightarrow> bool" where
  "user_env_ok K E \<longleftrightarrow> ge_refresh E \<and> stale_keys E \<subseteq> K"

lemma slot_states: "0 < n \<Longrightarrow> n \<le> 5 \<Longrightarrow> slot_state (us_states US_Classic ! (5 - n))"
proof -
  assume "0 < n" "n \<le> 5"
  then have "n = 1 \<or> n = 2 \<or> n = 3 \<or> n = 4 \<or> n = 5" by linarith
  then show ?thesis by (elim disjE) (simp_all add: slot_state_def)
qed

lemma put_user_asked:
  assumes "slot_contract S" "user_asks K (user_view a) w" "us_waits s w"
  shows "acct_asked S s (put_user S w a)"
  using slots_asked [OF assms(1), of "us_slot s" "gw_out w" "av_slots a"] assms(2,3)
  by (auto simp: acct_asked_def us_waits_def user_asks_def us_trades_on_def)

lemma us_at_view: "gw_self v = gw_self w \<Longrightarrow> us_at L n v = us_at L n w"
  by (simp add: us_at_def stream_ready_def)

text \<open>
  The servers of an account. \<open>serve\<close> is one round of theirs, \<open>ok\<close> what they need of their environment and
  \<open>fit\<close> of their state: then they come to an end, stay fit, leave the user stream alone, and have a
  response in every slot that the user stream has asked.
\<close>

locale account_server =
  fixes S :: "'r slot_lib"
    and serve :: "'i \<Rightarrow> ('d, 'q, 'r, 'e) acct \<Rightarrow> (exn, ('d, 'q, 'r, 'e) acct) res"
    and ok :: "settings \<Rightarrow> (u8 \<times> u64) set \<Rightarrow> 'i \<Rightarrow> bool"
    and fit :: "settings \<Rightarrow> 'e \<Rightarrow> bool"
  assumes serves: "slot_contract S \<Longrightarrow> ok st K i \<Longrightarrow> acct_fit fit st K a \<Longrightarrow>
    \<exists>c. serve i a = Ok c \<and> acct_fit fit st K c \<and> av_user c = av_user a
      \<and> (\<forall>s. slot_state s \<longrightarrow> acct_asked S s a \<longrightarrow> sl_responded S (av_slots c (us_slot s)))"
begin

definition acct_at where
  "acct_at L st K n a \<longleftrightarrow> acct_fit fit st K a \<and> us_at L n (user_view a)
     \<and> (n = 0 \<or> acct_asked S (us_states US_Classic ! (5 - n)) a)"

lemma user_progress:
  assumes "slot_contract S" "acct_fit fit st K a" "user_asks K (user_view a) w" "us_at L j w" "us_asked j w"
  shows "acct_at L st K j (put_user S w a)"
proof -
  have "us_at L j (user_view (put_user S w a))"
    using assms(4) us_at_view [of "user_view (put_user S w a)" w] by simp
  moreover have "acct_fit fit st K (put_user S w a)"
    using assms(2,3) by (auto simp: acct_fit_def user_asks_def)
  ultimately show ?thesis
    using put_user_asked [OF assms(1,3)] assms(5) by (auto simp: acct_at_def us_asked_def)
qed

lemma round_progress:
  assumes L: "download_contract (us_states US_Classic) L" and S: "slot_contract S"
    and ok: "ok st K i" "user_env_ok K E" and at: "acct_at L st K n a"
  shows "\<exists>d j. acct_round S L serve (i, E, ti) a = Ok d \<and> j \<le> n - 1 \<and> acct_at L st K j d"
proof -
  obtain c where c: "serve i a = Ok c" "acct_fit fit st K c" "av_user c = av_user a"
    "\<And>s. slot_state s \<Longrightarrow> acct_asked S s a \<Longrightarrow> sl_responded S (av_slots c (us_slot s))"
    using serves [OF S ok(1), of a] at by (auto simp: acct_at_def)
  let ?E = "E\<lparr>ue_responded := \<lambda>s. sl_responded S (av_slots c s)\<rparr>"
  let ?w = "usc_timer ?E L ti (user_view c)"
  have u: "us_at L n (user_view c)"
    using at us_at_view [of "user_view c" "user_view a"] c(3) by (simp add: acct_at_def)
  then have "n \<le> 5" by (simp add: us_at_def split: if_splits)
  then have "us_answered ?E n"
    using c(4) at slot_states [of n] by (cases "n = 0") (auto simp: us_answered_def acct_at_def)
  then obtain j where j: "j \<le> n - 1" "us_at L j ?w" "us_asked j ?w"
    using us_timer_progress [OF L _ _ u, of ?E ti] ok(2) by (auto simp: user_env_ok_def)
  have "user_asks K (user_view c) ?w"
    using ok(2) by (intro asks_timer) (simp add: user_env_ok_def stale_keys_def)
  then have "acct_at L st K j (put_user S ?w c)" using user_progress [OF S c(2) _ j(2,3)] by blast
  moreover have "acct_round S L serve (i, E, ti) a = Ok (put_user S ?w c)"
    by (simp add: acct_round_def acct_user_timer_def c(1))
  ultimately show ?thesis using j(1) by blast
qed

lemma rounds_progress:
  assumes "download_contract (us_states US_Classic) L" "slot_contract S"
    and "\<forall>(i, E, ti) \<in> set rs. ok st K i \<and> user_env_ok K E" and "acct_at L st K n a"
  shows "\<exists>d j. acct_rounds S L serve rs a = Ok d \<and> j \<le> n - length rs \<and> acct_at L st K j d"
  using assms(3,4)
proof (induction rs arbitrary: n a)
  case (Cons r rs)
  obtain i E ti where r: "r = (i, E, ti)" by (cases r)
  obtain b k where b: "acct_round S L serve r a = Ok b" "k \<le> n - 1" "acct_at L st K k b"
    using round_progress [OF assms(1,2), of st K i E n a ti] Cons.prems by (auto simp: r)
  obtain d j where "acct_rounds S L serve rs b = Ok d" "j \<le> k - length rs" "acct_at L st K j d"
    using Cons.IH [OF _ b(3)] Cons.prems by auto
  with b show ?case by (intro exI [of _ d] exI [of _ j]) (auto simp: acct_rounds_def)
qed (auto simp: acct_rounds_def)

lemma ready_starts:
  assumes L: "download_contract (us_states US_Classic) L" and S: "slot_contract S" and "acct_fit fit st K a"
  shows "\<exists>j \<le> 5. acct_at L st K j (acct_user_ready S L a)"
proof -
  let ?w = "us_ready L usc_download (user_view a)"
  have first: "dl_due L (dl_command L Download_begin d) = Some DC_GET_BALANCES" for d
    using contract_begin [OF L] by simp
  obtain j where j: "j \<le> 5" "us_at L j ?w" "us_asked j ?w"
    using us_drive_progress [OF L, of "us_upd_download (dl_command L Download_begin) (user_view a)" 5 8] first
    by (auto simp: us_send_defs)
  have "user_asks K (user_view a) ?w" by (simp add: us_ready_def asks_send)
  then show ?thesis
    using user_progress [OF S assms(3) _ j(2,3)] j(1) by (auto simp: acct_user_ready_def)
qed

lemma becomes_ready:
  assumes "download_contract (us_states US_Classic) L" "slot_contract S"
    and "\<forall>(i, E, ti) \<in> set rs. ok st K i \<and> user_env_ok K E" "5 \<le> length rs" "acct_fit fit st K a"
  shows "\<exists>b. acct_rounds S L serve rs (acct_user_ready S L a) = Ok b
    \<and> stream_ready (user_view b) \<and> acct_fit fit st K b"
proof -
  obtain j where j: "j \<le> 5" "acct_at L st K j (acct_user_ready S L a)"
    using ready_starts [OF assms(1,2,5)] by blast
  obtain b i where b: "acct_rounds S L serve rs (acct_user_ready S L a) = Ok b" "i \<le> j - length rs"
    "acct_at L st K i b"
    using rounds_progress [OF assms(1,2,3) j(2)] by blast
  have "i = 0" using b(2) j(1) assms(4) by simp
  then show ?thesis using b by (simp add: acct_at_def us_at_def)
qed

end

end
