(* ===== verification/Account_Download.thy ===== *)
theory Account_Download
  imports Account_Slots Order_Entry_Facts
begin

text \<open>
  The REST streams that serve the slots of an account. Their timers send requests for the slots that
  have been asked, and the answers commit them, whatever they are. A classic account has one such
  stream, its order entry; the end of the theory interprets \<open>account_server\<close> with it.
\<close>

section \<open>Requests and answers\<close>

fun requests_of :: "effect list \<Rightarrow> (callback \<times> string) list" where
  "requests_of [] = []"
| "requests_of (Rest_send q cb request_id # es) = (cb, request_id) # requests_of es"
| "requests_of (_ # es) = requests_of es"

lemma requests_of_append [simp]: "requests_of (es @ fs) = requests_of es @ requests_of fs"
  by (induction es rule: requests_of.induct) simp_all

text \<open>
  The answers to a list of requests, in their order. \<open>respond\<close> is the member function that a response
  goes to; each answer has an environment and a time of its own.
\<close>

type_synonym rest_answer = "env \<times> trace_info \<times> rest_response"

definition rest_answers ::
  "(env \<Rightarrow> trace_info \<Rightarrow> rest_response \<Rightarrow> callback \<Rightarrow> string \<Rightarrow> ('c, 'q) gw \<Rightarrow> (exn, ('c, 'q) gw) res)
    \<Rightarrow> (nat \<Rightarrow> rest_answer) \<Rightarrow> (callback \<times> string) list \<Rightarrow> ('c, 'q) gw \<Rightarrow> (exn, ('c, 'q) gw) res" where
  "rest_answers respond answer rs =
     for_each (\<lambda>((E, ti, r), (cb, request_id)). respond E ti r cb request_id)
       (zip (map answer [0..<length rs]) rs)"

section \<open>What a timer sends\<close>

fun is_order :: "callback \<Rightarrow> bool" where
  "is_order (CB_order c) = True"
| "is_order _ = False"

definition outstanding :: "(callback \<times> string) list \<Rightarrow> nat" where
  "outstanding rs = length (filter (is_order \<circ> fst) rs)"

lemma outstanding_simps [simp]:
  "outstanding [] = 0" "outstanding (rs @ ss) = outstanding rs + outstanding ss"
  "outstanding ((cb, i) # rs) = (if is_order cb then Suc (outstanding rs) else outstanding rs)"
  by (simp_all add: outstanding_def)

text \<open>Nothing but requests, none of them lost to the counter of the stale orders.\<close>

definition entry_sends :: "('z, 'q) rst \<Rightarrow> ('z, 'q) rst \<Rightarrow> bool" where
  "entry_sends v w \<longleftrightarrow>
     sm_connection_status (gw_self w) = sm_connection_status (gw_self v) \<and> gw_shared w = gw_shared v
     \<and> set (gw_stale_orders w) \<subseteq> set (gw_stale_orders v)
     \<and> (\<exists>es. gw_out w = gw_out v @ es \<and> (\<forall>e \<in> set es. \<not> slot_request e \<and> \<not> slot_commit e)
           \<and> oe_stale_orders_counter (gw_self w) = oe_stale_orders_counter (gw_self v) + outstanding (requests_of es))"

lemma entry_sends_refl [simp]: "entry_sends w w"
  by (simp add: entry_sends_def)

lemma entry_sends_trans: "entry_sends u v \<Longrightarrow> entry_sends v w \<Longrightarrow> entry_sends u w"
  by (fastforce simp: entry_sends_def)

interpretation sends: kept entry_sends
  by unfold_locales (auto intro: entry_sends_trans)

lemma sends_request:
  "\<not> is_order cb \<Longrightarrow> entry_sends w (emit (Rest_send q cb i) w)"
  by (auto simp: entry_sends_def slot_request_def slot_commit_def)

lemma sends_self:
  assumes "\<And>s. sm_connection_status (f s) = sm_connection_status s"
    "\<And>s. oe_stale_orders_counter (f s) = oe_stale_orders_counter s"
  shows "entry_sends w (upd_self f w)"
  using assms by (simp add: entry_sends_def)

lemma sends_stale_order: "entry_sends w (request_stale_order E ti key w)"
  by (auto simp: entry_sends_def request_stale_order_def get_order_def Let_def slot_request_def
      slot_commit_def split: option.splits)

lemma sends_stale_orders: "entry_sends w (request_stale_orders E ti w)"
proof -
  have "entry_sends w (fold (request_stale_order E ti) (gw_stale_orders w) w)"
    by (intro sends.keep_fold sends_stale_order)
  then show ?thesis by (auto simp: entry_sends_def request_stale_orders_def)
qed

lemma sends_gets:
  "entry_sends w (get_account_balance E ti w)" "entry_sends w (get_account_status E ti w)"
  "entry_sends w (get_open_orders E ti w)" "entry_sends w (get_trades_of E ti s w)"
  "entry_sends w (countdown_symbol E ti s w)"
  by (auto simp: get_account_balance_def get_account_status_def get_open_orders_def get_trades_of_def
      countdown_symbol_def Let_def intro!: sends_request)

lemma sends_trades: "entry_sends w (get_trades E ti w)"
  unfolding get_trades_def by (intro sends.keep_fold sends_gets)

lemma sends_pending: "(\<And>w. entry_sends w (f w)) \<Longrightarrow> entry_sends w (if_pending E s f w)"
  by (simp add: if_pending_def)

lemma sends_queue: "entry_sends w (check_request_queue E ti w)"
  unfolding check_request_queue_def Let_def
  by (intro sends.keep_trans [OF sends_pending sends.keep_trans [OF sends_pending
        sends.keep_trans [OF sends_pending sends.keep_trans [OF sends_pending sends_pending]]]])
    (auto intro: sends_gets sends_stale_orders sends_trades)

lemma sends_refresh: "entry_sends w (refresh_listen_key E ti w)"
proof -
  have "entry_sends w (get_listen_key E (upd_self f w))"
    if "\<And>s. sm_connection_status (f s) = sm_connection_status s"
      "\<And>s. oe_stale_orders_counter (f s) = oe_stale_orders_counter s" for f
    unfolding get_listen_key_def using that
    by (intro sends.keep_trans [OF sends_self sends_request]) auto
  then show ?thesis by (auto simp: refresh_listen_key_def)
qed

text \<open>The requests of the queue, by callback.\<close>

definition callbacks :: "effect list \<Rightarrow> callback list" where
  "callbacks es = map fst (requests_of es)"

lemma callbacks_simps [simp]:
  "callbacks [] = []" "callbacks (es @ fs) = callbacks es @ callbacks fs"
  "callbacks [Rest_send q cb i] = [cb]"
  by (simp_all add: callbacks_def)

lemma sends_callbacks: "entry_sends v w \<Longrightarrow> set (callbacks (gw_out v)) \<subseteq> set (callbacks (gw_out w))"
  by (auto simp: entry_sends_def)

lemma stale_order_callbacks:
  "callbacks (gw_out (fold (request_stale_order E ti) keys w))
     = callbacks (gw_out w) @ map (CB_order \<circ> oo_client_order_id) (stale_found E keys)"
proof (induction keys arbitrary: w)
  case (Cons k keys)
  obtain u i where k: "k = (u, i)" by (cases k)
  show ?case
    by (simp add: k Cons.IH) (simp add: request_stale_order_def get_order_def Let_def split: option.splits)
qed simp

lemma trades_callbacks:
  "callbacks (gw_out (fold (get_trades_of E ti) symbols w)) = callbacks (gw_out w) @ map (\<lambda>_. CB_trades) symbols"
  by (induction symbols arbitrary: w) (simp_all add: get_trades_of_def Let_def)

text \<open>The callbacks that a slot waits for.\<close>

fun slot_callbacks :: "env \<Rightarrow> (u8 \<times> u64) list \<Rightarrow> string list \<Rightarrow> slot \<Rightarrow> callback list" where
  "slot_callbacks E details symbols Slot_balances = [CB_account_balance]"
| "slot_callbacks E details symbols Slot_positions = [CB_account_status]"
| "slot_callbacks E details symbols Slot_open_orders = [CB_open_orders]"
| "slot_callbacks E details symbols Slot_stale_orders = map (CB_order \<circ> oo_client_order_id) (stale_found E details)"
| "slot_callbacks E details symbols Slot_trades = map (\<lambda>_. CB_trades) symbols"
| "slot_callbacks E details symbols Slot_positions_pm = []"

lemma pending_callbacks:
  assumes "\<And>w. callbacks (gw_out (f w)) = callbacks (gw_out w) @ c w"
  shows "callbacks (gw_out (if_pending E s f w)) = callbacks (gw_out w) @ (if ge_pending E s then c w else [])"
  by (simp add: if_pending_def assms)

section \<open>The answers\<close>

text \<open>What an answer leaves alone, apart from the counter of the stale orders.\<close>

definition entry_answers :: "('z, 'q) rst \<Rightarrow> ('z, 'q) rst \<Rightarrow> bool" where
  "entry_answers v w \<longleftrightarrow>
     sm_connection_status (gw_self w) = sm_connection_status (gw_self v) \<and> settings_of w = settings_of v
     \<and> gw_stale_orders w = gw_stale_orders v
     \<and> oe_stale_orders_counter (gw_self w) = oe_stale_orders_counter (gw_self v)
     \<and> (\<exists>es. gw_out w = gw_out v @ es \<and> (\<forall>e \<in> set es. \<not> slot_request e))"

lemma entry_answers_refl [simp]: "entry_answers w w"
  by (simp add: entry_answers_def)

lemma entry_answers_trans: "entry_answers u v \<Longrightarrow> entry_answers v w \<Longrightarrow> entry_answers u w"
  by (fastforce simp: entry_answers_def)

lemma ea_emit: "entry_answers v w \<Longrightarrow> \<not> slot_request e \<Longrightarrow> entry_answers v (emit e w)"
  by (auto simp: entry_answers_def)

lemma ea_self:
  assumes "entry_answers v w" "\<And>s. sm_connection_status (f s) = sm_connection_status s"
    "\<And>s. oe_stale_orders_counter (f s) = oe_stale_orders_counter s"
  shows "entry_answers v (upd_self f w)"
  using assms by (simp add: entry_answers_def)

lemma no_slot_request [simp]:
  "\<not> slot_request (Pub_stream_status a)" "\<not> slot_request (Pub_funds b)" "\<not> slot_request (Pub_position c)"
  "\<not> slot_request (Pub_order d n)" "\<not> slot_request (Pub_response r n i j)"
  "\<not> slot_request (Pub_response_order r d n i j)" "\<not> slot_request (Pub_trade t u)"
  "\<not> slot_request (Pub_cancel_all_ack k)" "\<not> slot_request (Conn_suspend_for x)"
  "\<not> slot_request (Rest_send q cb l)" "\<not> slot_request (Download_command m)"
  "\<not> slot_request (Slot_commit s)" "\<not> slot_request (Ev_listen_key_update l y)"
  by (simp_all add: slot_request_def)

interpretation ans: kept_rest entry_answers
  by unfold_locales (auto intro: entry_answers_trans ea_emit)

lemmas ea_intros = ea_emit ea_self entry_answers_refl

lemma ea_parsed:
  "(\<And>m w. entry_answers w (res_state (f m w))) \<Longrightarrow> entry_answers w (res_state (parsed p f w))"
  by (rule parsed_keeps) simp_all

lemma ea_errors:
  "entry_answers w (res_state (log_error o' s x t w))" "entry_answers w (res_state (ack_error rt u i v o' s x t w))"
  by (simp_all add: log_error_def ack_error_def ea_emit)

lemma ea_folds:
  "entry_answers w (on_account_balance_ack items w)" "entry_answers w (on_account_status_ack E ack w)"
  "entry_answers w (on_open_orders_ack os w)" "entry_answers w (on_trades_ack E ts w)"
  unfolding on_account_balance_ack_def on_account_status_ack_def on_open_orders_ack_def on_trades_ack_def
  by (rule ans.keep_fold, auto simp: on_balance_item_def on_position_item_def on_open_order_def
      on_trade_item_def Let_def intro!: ea_intros)+

lemma ea_listen_key: "entry_answers w (res_state (get_listen_key_ack E ti r w))"
  unfolding get_listen_key_ack_def
  by (rule ans.keep_response)
    (auto simp: on_listen_key_ack_def Let_def intro!: ea_parsed ea_intros)

lemma ea_actions:
  "entry_answers w (res_state (order_place_ack E r u i v w))"
  "entry_answers w (res_state (order_modify_ack E r u i v w))"
  "entry_answers w (res_state (order_cancel_ack E r u i v w))"
  "entry_answers w (res_state (open_orders_cancel_all_ack E r request_id w))"
  "entry_answers w (res_state (countdown_cancel_all_ack E r w))"
  by (auto simp: order_place_ack_def order_modify_ack_def order_cancel_ack_def place_success_def
      modify_success_def cancel_success_def too_late_def open_orders_cancel_all_ack_def
      countdown_cancel_all_ack_def on_order_place_ack_def on_order_modify_ack_def on_order_cancel_ack_def
      on_open_orders_cancel_all_ack_def Let_def intro!: ans.keep_response ea_parsed ea_errors ea_intros)

text \<open>
  An answer has been handled: \<open>cs\<close> says which slot the answer to a request commits, whatever the response.
  The answers to the stale orders commit their slot together, with the last one.
\<close>

definition answered :: "(callback \<Rightarrow> slot option) \<Rightarrow> callback \<Rightarrow> ('z, 'q) rst \<Rightarrow> ('z, 'q) rst \<Rightarrow> bool" where
  "answered cs cb v w \<longleftrightarrow>
     sm_connection_status (gw_self w) = sm_connection_status (gw_self v) \<and> settings_of w = settings_of v
     \<and> gw_stale_orders w = gw_stale_orders v
     \<and> oe_stale_orders_counter (gw_self w) = oe_stale_orders_counter (gw_self v) - (if is_order cb then 1 else 0)
     \<and> (\<exists>es. gw_out w = gw_out v @ es \<and> (\<forall>e \<in> set es. \<not> slot_request e)
         \<and> (\<forall>s. cs cb = Some s \<longrightarrow> Slot_commit s \<in> set es)
         \<and> (is_order cb \<longrightarrow> oe_stale_orders_counter (gw_self v) \<le> 1 \<longrightarrow> Slot_commit Slot_stale_orders \<in> set es))"

lemma answered_other:
  "entry_answers v w \<Longrightarrow> cs cb = None \<Longrightarrow> \<not> is_order cb \<Longrightarrow> answered cs cb v w"
  by (auto simp: entry_answers_def answered_def)

lemma answered_commit:
  "entry_answers v w \<Longrightarrow> cs cb = Some s \<Longrightarrow> \<not> is_order cb \<Longrightarrow> answered cs cb v (emit (Slot_commit s) w)"
  by (auto simp: entry_answers_def answered_def)

lemma answered_order: "entry_answers v w \<Longrightarrow> cs (CB_order c) = None \<Longrightarrow> answered cs (CB_order c) v (stale_order_done w)"
  by (auto simp: entry_answers_def answered_def stale_order_done_def Let_def)

text \<open>
  A stream whose answers are all handled this way, and what is left of a whole list of them: nothing is
  outstanding, and all the slots of the callbacks have been committed.
\<close>

definition releases :: "(callback \<Rightarrow> slot option) \<Rightarrow> callback set \<Rightarrow> slot \<Rightarrow> bool" where
  "releases cs cbs s \<longleftrightarrow>
     (\<exists>cb \<in> cbs. cs cb = Some s) \<or> s = Slot_stale_orders \<and> (\<exists>cb \<in> cbs. is_order cb)"

lemma outstanding_zero: "outstanding rs = 0 \<longleftrightarrow> (\<forall>cb \<in> fst ` set rs. \<not> is_order cb)"
  by (auto simp: outstanding_def filter_empty_conv)

definition all_answered :: "(callback \<Rightarrow> slot option) \<Rightarrow> callback set \<Rightarrow> ('z, 'q) rst \<Rightarrow> ('z, 'q) rst \<Rightarrow> bool" where
  "all_answered cs cbs v w \<longleftrightarrow>
     sm_connection_status (gw_self w) = sm_connection_status (gw_self v) \<and> settings_of w = settings_of v
     \<and> gw_stale_orders w = gw_stale_orders v \<and> oe_stale_orders_counter (gw_self w) = 0
     \<and> (\<exists>es. gw_out w = gw_out v @ es \<and> (\<forall>e \<in> set es. \<not> slot_request e)
         \<and> (\<forall>s. releases cs cbs s \<longrightarrow> Slot_commit s \<in> set es))"

locale rest_server =
  fixes respond :: "env \<Rightarrow> trace_info \<Rightarrow> rest_response \<Rightarrow> callback \<Rightarrow> string \<Rightarrow> ('z, 'q) rst \<Rightarrow> (exn, ('z, 'q) rst) res"
    and cs :: "callback \<Rightarrow> slot option"
  assumes answer_effect: "\<not> ends_process (settings_of w) r \<Longrightarrow>
    \<exists>v. respond E ti r cb request_id w = Ok v \<and> answered cs cb w v"
begin

lemma pairs_answered:
  assumes "\<forall>x \<in> set rs. \<not> ends_process (settings_of w) (snd (snd (fst x)))"
    and "oe_stale_orders_counter (gw_self w) = outstanding (map snd rs)"
  shows "\<exists>v. for_each (\<lambda>((E, ti, r), (cb, request_id)). respond E ti r cb request_id) rs w = Ok v
    \<and> all_answered cs (fst ` set (map snd rs)) w v"
  using assms
proof (induction rs arbitrary: w)
  case Nil
  then show ?case by (simp add: all_answered_def releases_def)
next
  case (Cons x rs)
  obtain E ti r cb i where x: "x = ((E, ti, r), (cb, i))" by (metis prod.exhaust)
  have "\<not> ends_process (settings_of w) r" using Cons.prems(1) by (simp add: x)
  then obtain v where v: "respond E ti r cb i w = Ok v" "answered cs cb w v"
    using answer_effect by blast
  have same: "settings_of v = settings_of w" "oe_stale_orders_counter (gw_self v) = outstanding (map snd rs)"
    using v(2) Cons.prems(2) by (auto simp: answered_def x)
  obtain u where u: "for_each (\<lambda>((E, ti, r), (cb, request_id)). respond E ti r cb request_id) rs v = Ok u"
    "all_answered cs (fst ` set (map snd rs)) v u"
    using Cons.IH [of v] Cons.prems(1) same by auto
  obtain es where es: "gw_out v = gw_out w @ es" "\<forall>e \<in> set es. \<not> slot_request e"
    "\<And>s. cs cb = Some s \<Longrightarrow> Slot_commit s \<in> set es"
    "is_order cb \<Longrightarrow> oe_stale_orders_counter (gw_self w) \<le> 1 \<Longrightarrow> Slot_commit Slot_stale_orders \<in> set es"
    using v(2) by (auto simp: answered_def)
  obtain fs where fs: "gw_out u = gw_out v @ fs" "\<forall>e \<in> set fs. \<not> slot_request e"
    "\<And>s. releases cs (fst ` set (map snd rs)) s \<Longrightarrow> Slot_commit s \<in> set fs"
    using u(2) by (auto simp: all_answered_def)
  have "Slot_commit s \<in> set (es @ fs)" if rel: "releases cs (fst ` set (map snd (x # rs))) s" for s
  proof (cases "releases cs (fst ` set (map snd rs)) s")
    case False
    then have "cs cb = Some s \<or> s = Slot_stale_orders \<and> is_order cb \<and> outstanding (map snd rs) = 0"
      using rel outstanding_zero [of "map snd rs"] by (auto simp: releases_def x)
    then show ?thesis using es(3,4) Cons.prems(2) by (auto simp: x)
  qed (simp add: fs(3))
  then have "all_answered cs (fst ` set (map snd (x # rs))) w u"
    using u(2) v(2) es(1,2) fs(1,2) unfolding all_answered_def answered_def
    by (intro conjI exI [of _ "es @ fs"]) auto
  then show ?case using v(1) u(1) by (simp add: x)
qed

lemma all_answered:
  assumes "\<forall>i. \<not> ends_process (settings_of w) (snd (snd (answer i)))"
    and "oe_stale_orders_counter (gw_self w) = outstanding rs"
  shows "\<exists>v. rest_answers respond answer rs w = Ok v \<and> all_answered cs (fst ` set rs) w v"
proof -
  let ?xs = "zip (map answer [0..<length rs]) rs"
  have "\<forall>x \<in> set ?xs. \<not> ends_process (settings_of w) (snd (snd (fst x)))"
  proof
    fix x assume "x \<in> set ?xs"
    then have "fst x \<in> set (map answer [0..<length rs])" by (metis prod.collapse set_zip_leftD)
    then show "\<not> ends_process (settings_of w) (snd (snd (fst x)))" using assms(1) by auto
  qed
  moreover have "map snd ?xs = rs" by simp
  ultimately show ?thesis
    using pairs_answered [of ?xs w] assms(2) by (simp add: rest_answers_def)
qed

end

text \<open>A timer and the answers to what it has sent, for a stream that had nothing outstanding.\<close>

definition rest_serves :: "(callback \<Rightarrow> slot option) \<Rightarrow> ('z, 'q) rst \<Rightarrow> ('z, 'q) rst \<Rightarrow> bool" where
  "rest_serves cs w v \<longleftrightarrow>
     sm_connection_status (gw_self v) = sm_connection_status (gw_self w) \<and> settings_of v = settings_of w
     \<and> set (gw_stale_orders v) \<subseteq> set (gw_stale_orders w) \<and> oe_stale_orders_counter (gw_self v) = 0
     \<and> (\<forall>e \<in> set (gw_out v). \<not> slot_request e)"

context rest_server
begin

lemma timer_answered:
  assumes "entry_sends w x" "gw_out w = []" "oe_stale_orders_counter (gw_self w) = 0"
    and "\<forall>i. \<not> ends_process (settings_of w) (snd (snd (answer i)))"
  shows "\<exists>v. rest_answers respond answer (requests_of (gw_out x)) x = Ok v \<and> rest_serves cs w v
    \<and> (\<forall>s. releases cs (set (callbacks (gw_out x))) s \<longrightarrow> Slot_commit s \<in> set (gw_out v))"
proof -
  have "oe_stale_orders_counter (gw_self x) = outstanding (requests_of (gw_out x))"
    "gw_shared x = gw_shared w" "\<forall>e \<in> set (gw_out x). \<not> slot_request e"
    using assms(1-3) by (auto simp: entry_sends_def)
  then obtain v where v: "rest_answers respond answer (requests_of (gw_out x)) x = Ok v"
    "all_answered cs (fst ` set (requests_of (gw_out x))) x v"
    using all_answered [of x answer "requests_of (gw_out x)"] assms(4) by auto
  have "rest_serves cs w v"
    using v(2) assms(1,2) by (auto simp: rest_serves_def all_answered_def entry_sends_def)
  then show ?thesis using v by (auto simp: all_answered_def callbacks_def)
qed

end

section \<open>A REST stream of an account\<close>

text \<open>
  One round of such a stream: its timer looks at the slots, if it runs, and it gets the answers to its
  requests. \<open>checks\<close> are the slots it looks at; \<open>get\<close> and \<open>put\<close> are its place among the servers of the
  account.
\<close>

record rest_in =
  ri_env :: env
  ri_rate_limiter :: "trace_info \<Rightarrow> bool"
  ri_time :: trace_info
  ri_now :: nanoseconds
  ri_answer :: "nat \<Rightarrow> rest_answer"

definition rest_serve ::
  "'r slot_lib \<Rightarrow> (env \<Rightarrow> trace_info \<Rightarrow> nanoseconds \<Rightarrow> ('z, 'q) rst \<Rightarrow> ('z, 'q) rst)
    \<Rightarrow> (env \<Rightarrow> trace_info \<Rightarrow> rest_response \<Rightarrow> callback \<Rightarrow> string \<Rightarrow> ('z, 'q) rst \<Rightarrow> (exn, ('z, 'q) rst) res)
    \<Rightarrow> slot list \<Rightarrow> ('e \<Rightarrow> 'z rest_stream_scheme) \<Rightarrow> ('z rest_stream_scheme \<Rightarrow> 'e \<Rightarrow> 'e) \<Rightarrow> rest_in
    \<Rightarrow> ('d, 'q, 'r, 'e) acct \<Rightarrow> (exn, ('d, 'q, 'r, 'e) acct) res" where
  "rest_serve S timer respond checks get put i a =
     (let can = request_can_request (ri_rate_limiter i) (ri_time i);
          v = acct_view (get (av_entry a)) a;
          w = timer ((ri_env i)\<lparr>ge_pending := pending_slots S can (av_slots a)\<rparr>) (ri_time i) (ri_now i) v;
          slots = (if ge_refresh (ri_env i) \<and> stream_ready v then check_slots S can checks (av_slots a)
                   else av_slots a)
      in map_res id (\<lambda>u. acct_put S u (a\<lparr>av_entry := put (gw_self u) (av_entry a), av_slots := slots\<rparr>))
           (rest_answers respond (ri_answer i) (requests_of (gw_out w)) w))"

text \<open>
  What a round needs: the timer runs, the rate limiter permits, no answer ends the process, and the
  dispatcher finds the orders that it has reported as stale. The stream is ready, and has nothing
  outstanding.
\<close>

definition finds :: "(u8 \<times> u64) set \<Rightarrow> env \<Rightarrow> bool" where
  "finds K E \<longleftrightarrow> (\<forall>(u, i) \<in> K. ge_find_order E u i \<noteq> None)"

definition rest_in_ok :: "settings \<Rightarrow> (u8 \<times> u64) set \<Rightarrow> rest_in \<Rightarrow> bool" where
  "rest_in_ok st K i \<longleftrightarrow> ge_refresh (ri_env i) \<and> request_can_request (ri_rate_limiter i) (ri_time i)
     \<and> (\<forall>j. \<not> ends_process st (snd (snd (ri_answer i j)))) \<and> finds K (ri_env i)"

definition entry_fit :: "settings \<Rightarrow> 'z rest_stream_scheme \<Rightarrow> bool" where
  "entry_fit st e \<longleftrightarrow> sm_connection_status e = ConnectionStatus_READY \<and> oe_stale_orders_counter e = 0"

text \<open>For a slot that has been asked something is sent.\<close>

lemma stale_found_nonempty: "ks \<noteq> [] \<Longrightarrow> set ks \<subseteq> K \<Longrightarrow> finds K E \<Longrightarrow> stale_found E ks \<noteq> []"
  by (cases ks) (auto simp: finds_def)

lemma asked_callbacks:
  assumes "slot_state s" "acct_asked S s a" "set (av_details a) \<subseteq> K" "finds K E"
  shows "slot_callbacks E (av_details a) (st_download_symbols (sh_settings (av_shared a))) (us_slot s) \<noteq> []"
  using assms stale_found_nonempty [of "av_details a" K E]
  by (cases s) (auto simp: slot_state_def acct_asked_def us_trades_on_def)

text \<open>
  The contract of a stream: its timer sends for each of its slots, \<open>ours\<close>, if this is pending, and the
  answers commit it.
\<close>

locale rest_account = rest_server respond cs
  for respond :: "env \<Rightarrow> trace_info \<Rightarrow> rest_response \<Rightarrow> callback \<Rightarrow> string \<Rightarrow> ('z, 'q) rst \<Rightarrow> (exn, ('z, 'q) rst) res"
    and cs :: "callback \<Rightarrow> slot option" +
  fixes timer :: "env \<Rightarrow> trace_info \<Rightarrow> nanoseconds \<Rightarrow> ('z, 'q) rst \<Rightarrow> ('z, 'q) rst"
    and ours :: "slot set"
  assumes timer_sends: "ge_refresh E \<Longrightarrow> stream_ready w \<Longrightarrow> entry_sends w (timer E ti now w)"
    and timer_callbacks: "ge_refresh E \<Longrightarrow> stream_ready w \<Longrightarrow> ge_pending E s \<Longrightarrow> s \<in> ours \<Longrightarrow>
      set (slot_callbacks E (gw_stale_orders w) (st_download_symbols (settings_of w)) s)
        \<subseteq> set (callbacks (gw_out (timer E ti now w)))"
    and callbacks_release: "s \<in> ours \<Longrightarrow> cb \<in> set (slot_callbacks E ks symbols s) \<Longrightarrow>
      cs cb = Some s \<or> s = Slot_stale_orders \<and> is_order cb"
begin

lemma serve_effect:
  assumes S: "slot_contract S" and ok: "rest_in_ok (sh_settings (av_shared a)) K i"
    and at: "set (av_details a) \<subseteq> K" "entry_fit (sh_settings (av_shared a)) (get (av_entry a))"
  obtains c e where "rest_serve S timer respond checks get put i a = Ok c"
    "av_user c = av_user a" "sh_settings (av_shared c) = sh_settings (av_shared a)"
    "set (av_details c) \<subseteq> K" "av_entry c = put e (av_entry a)" "entry_fit (sh_settings (av_shared a)) e"
    "\<And>s. slot_state s \<Longrightarrow> us_slot s \<in> ours \<Longrightarrow> acct_asked S s a \<Longrightarrow> sl_responded S (av_slots c (us_slot s))"
    "\<And>s. s \<notin> set checks \<Longrightarrow> sl_responded S (av_slots a s) \<Longrightarrow> sl_responded S (av_slots c s)"
proof -
  let ?E = "(ri_env i)\<lparr>ge_pending := pending_slots S True (av_slots a)\<rparr>"
  let ?v = "acct_view (get (av_entry a)) a"
  let ?w = "timer ?E (ri_time i) (ri_now i) ?v"
  have run: "ge_refresh ?E" "stream_ready ?v"
    using ok at by (simp_all add: rest_in_ok_def entry_fit_def stream_ready_def)
  have sends: "entry_sends ?v ?w" by (rule timer_sends [OF run])
  obtain x where x: "rest_answers respond (ri_answer i) (requests_of (gw_out ?w)) ?w = Ok x"
    "rest_serves cs ?v x"
    "\<And>s. releases cs (set (callbacks (gw_out ?w))) s \<Longrightarrow> Slot_commit s \<in> set (gw_out x)"
    using timer_answered [OF sends, of "ri_answer i"] ok at by (auto simp: rest_in_ok_def entry_fit_def)
  define c where "c = acct_put S x (a\<lparr>av_entry := put (gw_self x) (av_entry a),
    av_slots := check_slots S True checks (av_slots a)\<rparr>)"
  have c: "rest_serve S timer respond checks get put i a = Ok c"
    using x(1) ok run by (simp add: rest_serve_def rest_in_ok_def c_def Let_def)
  have slots: "sl_responded S (av_slots c s)"
    if "Slot_commit s \<in> set (gw_out x) \<or> sl_responded S (check_slots S True checks (av_slots a) s)" for s
    unfolding c_def acct_put_simps
    by (rule slots_responded [OF S]) (use x(2) that in \<open>auto simp: rest_serves_def\<close>)
  have "sl_responded S (av_slots c (us_slot s))" if s: "slot_state s" "us_slot s \<in> ours" "acct_asked S s a" for s
  proof -
    let ?cbs = "slot_callbacks ?E (av_details a) (st_download_symbols (sh_settings (av_shared a))) (us_slot s)"
    have "set ?cbs \<subseteq> set (callbacks (gw_out ?w))"
      using timer_callbacks [OF run, of "us_slot s" "ri_time i" "ri_now i"] s(2,3)
      by (simp add: acct_asked_def pending_slots_def)
    moreover have "?cbs \<noteq> []"
      using asked_callbacks [OF s(1,3) at(1), of ?E] ok by (simp add: rest_in_ok_def finds_def)
    then obtain cb where cb: "cb \<in> set ?cbs" by (cases ?cbs) auto
    ultimately have "releases cs (set (callbacks (gw_out ?w))) (us_slot s)"
      using callbacks_release [OF s(2) cb] by (auto simp: releases_def)
    then show ?thesis using slots x(3) by blast
  qed
  moreover have "sl_responded S (av_slots c s)" if "s \<notin> set checks" "sl_responded S (av_slots a s)" for s
    using slots that by (simp add: check_slots_def)
  moreover have "entry_fit (sh_settings (av_shared a)) (gw_self x)"
    "set (av_details c) \<subseteq> K" "sh_settings (av_shared c) = sh_settings (av_shared a)"
    using x(2) at by (auto simp: c_def entry_fit_def rest_serves_def)
  ultimately show thesis by (intro that [of c "gw_self x"] c) (simp_all add: c_def)
qed

end

section \<open>The order entry of a classic account\<close>

text \<open>The slot that an answer commits, whatever the response.\<close>

fun callback_slot :: "callback \<Rightarrow> slot option" where
  "callback_slot CB_account_balance = Some Slot_balances"
| "callback_slot CB_account_status = Some Slot_positions"
| "callback_slot CB_open_orders = Some Slot_open_orders"
| "callback_slot CB_trades = Some Slot_trades"
| "callback_slot _ = None"

lemma queue_callbacks:
  assumes "ge_pending E s"
  shows "set (slot_callbacks E (gw_stale_orders w) (st_download_symbols (settings_of w)) s)
    \<subseteq> set (callbacks (gw_out (check_request_queue E ti w)))"
proof -
  have [simp]: "gw_stale_orders (get_account_balance E ti w) = gw_stale_orders w"
    "gw_stale_orders (get_account_status E ti w) = gw_stale_orders w"
    "gw_stale_orders (get_open_orders E ti w) = gw_stale_orders w" for w :: "(oe_classic, 'a) gw"
    by (simp_all add: get_account_balance_def get_account_status_def get_open_orders_def)
  have [simp]: "gw_shared (get_account_balance E ti w) = gw_shared w"
    "gw_shared (get_account_status E ti w) = gw_shared w" "gw_shared (get_open_orders E ti w) = gw_shared w"
    "gw_shared (request_stale_orders E ti w) = gw_shared w" for w :: "(oe_classic, 'a) gw"
    using sends_gets(1-3) [of w E ti] sends_stale_orders [of w E ti] by (simp_all add: entry_sends_def)
  have [simp]: "callbacks (gw_out (get_account_balance E ti w)) = callbacks (gw_out w) @ [CB_account_balance]"
    "callbacks (gw_out (get_account_status E ti w)) = callbacks (gw_out w) @ [CB_account_status]"
    "callbacks (gw_out (get_open_orders E ti w)) = callbacks (gw_out w) @ [CB_open_orders]"
    "callbacks (gw_out (request_stale_orders E ti w)) = callbacks (gw_out w)
       @ map (CB_order \<circ> oo_client_order_id) (stale_found E (gw_stale_orders w))"
    "callbacks (gw_out (get_trades E ti w)) = callbacks (gw_out w)
       @ map (\<lambda>_. CB_trades) (st_download_symbols (settings_of w))" for w :: "(oe_classic, 'a) gw"
    by (simp_all add: get_account_balance_def get_account_status_def get_open_orders_def
        request_stale_orders_def stale_order_callbacks get_trades_def trades_callbacks)
  show ?thesis using assms by (cases s) (auto simp: check_request_queue_def if_pending_def Let_def)
qed

lemma entry_timer_effect:
  assumes "ge_refresh E" "stream_ready w"
  obtains v where "entry_sends w v" "oe_timer E ti now w = check_request_queue E ti v"
    "gw_stale_orders v = gw_stale_orders w"
proof -
  define u where "u = refresh_listen_key E ti w"
  define g :: "oe_classic \<Rightarrow> oe_classic" where
    "g = (\<lambda>s. s\<lparr>oe_next_auto_cancel := now + st_rest_order_countdown (settings_of u) sdiv 4\<rparr>)"
  define v where "v = (if st_rest_cancel_on_disconnect (settings_of u) \<and> st_rest_order_countdown (settings_of u) \<noteq> 0
       \<and> oe_next_auto_cancel (gw_self u) < now then countdown_cancel_all E ti (upd_self g u) else u)"
  have u: "entry_sends w u" unfolding u_def by (rule sends_refresh)
  have k: "gw_stale_orders u = gw_stale_orders w"
    by (simp add: u_def refresh_listen_key_def get_listen_key_def)
  have g: "entry_sends u (upd_self g u)" by (rule sends_self) (simp_all add: g_def)
  have c: "entry_sends x (countdown_cancel_all E ti x)" for x :: "(oe_classic, 'a) gw"
    unfolding countdown_cancel_all_def by (intro sends.keep_fold sends_gets)
  have d: "gw_stale_orders (countdown_cancel_all E ti x) = gw_stale_orders x" for x :: "(oe_classic, 'a) gw"
    unfolding countdown_cancel_all_def by (rule fold_keeps) (simp add: countdown_symbol_def Let_def)
  have "entry_sends u v" using entry_sends_trans [OF g c] by (simp add: v_def)
  moreover have "gw_stale_orders v = gw_stale_orders u" using d by (simp add: v_def)
  moreover have "oe_timer E ti now w = check_request_queue E ti v"
    using assms by (simp add: oe_timer_def Let_def u_def v_def g_def)
  ultimately show thesis using that u k by (metis entry_sends_trans)
qed

lemma timer_sends:
  assumes "ge_refresh E" "stream_ready w"
  shows "entry_sends w (oe_timer E ti now w)"
    "ge_pending E s \<Longrightarrow> set (slot_callbacks E (gw_stale_orders w) (st_download_symbols (settings_of w)) s)
       \<subseteq> set (callbacks (gw_out (oe_timer E ti now w)))"
proof -
  obtain v where v: "entry_sends w v" "oe_timer E ti now w = check_request_queue E ti v"
    "gw_stale_orders v = gw_stale_orders w"
    by (rule entry_timer_effect [OF assms])
  show "entry_sends w (oe_timer E ti now w)"
    unfolding v(2) by (rule entry_sends_trans [OF v(1) sends_queue])
  have "gw_shared v = gw_shared w" using v(1) by (simp add: entry_sends_def)
  then show "ge_pending E s \<Longrightarrow> set (slot_callbacks E (gw_stale_orders w) (st_download_symbols (settings_of w)) s)
       \<subseteq> set (callbacks (gw_out (oe_timer E ti now w)))"
    using queue_callbacks [of E s v ti] v(2,3) by simp
qed

lemma never_fatal_actions:
  "never_fatal (place_success E u i v)" "never_fatal (modify_success E u i v)"
  "never_fatal (cancel_success E u i v)"
  "never_fatal (\<lambda>body. parsed (ge_cancel_all E body) (\<lambda>(code, msg) w. Ok (f code msg w)))"
  by (auto simp: never_fatal_def place_success_def modify_success_def cancel_success_def too_late_def
      ack_error_def parsed_def split: sum.splits if_splits prod.splits)

lemma action_returns:
  assumes "\<not> ends_process (settings_of w) r"
  shows "\<exists>x. order_place_ack E r u i v w = Ok x" "\<exists>x. order_modify_ack E r u i v w = Ok x"
    "\<exists>x. order_cancel_ack E r u i v w = Ok x" "\<exists>x. open_orders_cancel_all_ack E r request_id w = Ok x"
    "\<exists>x. countdown_cancel_all_ack E r w = Ok x" "\<exists>x. get_listen_key_ack E ti r w = Ok x"
  unfolding order_place_ack_def order_modify_ack_def order_cancel_ack_def open_orders_cancel_all_ack_def
    countdown_cancel_all_ack_def get_listen_key_ack_def
  by (rule process_response_returns [OF assms]; simp add: never_fatal_actions always_ok_def ack_error_def log_error_def)+

lemma download_answered:
  assumes "\<not> ends_process (settings_of w) r" "never_fatal succ" "callback_slot cb = Some s"
    and "\<And>b v. entry_answers v (res_state (succ b v))"
  shows "\<exists>v. and_then (process_response E r log_error succ w) (commit s) = Ok v \<and> answered callback_slot cb w v"
proof -
  obtain v where v: "and_then (process_response E r log_error succ w) (commit s) = Ok (emit (Slot_commit s) v)"
    "process_response E r log_error succ w = Ok v"
    using commit_after_response [OF assms(1,2), of E s] by blast
  have "entry_answers w (res_state (process_response E r log_error succ w))"
    by (intro ans.keep_response ea_errors assms(4))
  then have "entry_answers w v" using v(2) by simp
  moreover have "\<not> is_order cb" using assms(3) by (cases cb) simp_all
  ultimately show ?thesis using v(1) answered_commit assms(3) by blast
qed

lemma order_answered:
  assumes "\<not> ends_process (settings_of w) r"
  shows "\<exists>v. get_order_ack E r c w = Ok v \<and> answered callback_slot (CB_order c) w v"
proof -
  let ?err = "\<lambda>origin status error text w.
    Ok (emit (Pub_order (lost_order w c error text) (stream_of w)) w)"
  let ?succ = "\<lambda>body. parsed (ge_order E body) (\<lambda>m w. Ok (on_order_ack m w))"
  obtain v where v: "process_response E r ?err ?succ w = Ok v"
    using process_response_returns [OF assms, of ?err ?succ E] by (auto simp: always_ok_def)
  have "entry_answers w (res_state (process_response E r ?err ?succ w))"
    by (intro ans.keep_response ea_parsed) (auto simp: on_order_ack_def intro!: ea_intros)
  then have "answered callback_slot (CB_order c) w (stale_order_done v)" using v answered_order [of w v callback_slot c] by simp
  then show ?thesis using v by (simp add: get_order_ack_def)
qed

text \<open>Every answer that does not end the process is handled to the end.\<close>

lemma oe_answer_effect:
  assumes "\<not> ends_process (settings_of w) r"
  shows "\<exists>v. oe_response E ti r cb request_id w = Ok v \<and> answered callback_slot cb w v"
proof -
  have other: ?thesis
    if "oe_response E ti r cb request_id w = q" "\<exists>v. q = Ok v" "entry_answers w (res_state q)"
      "callback_slot cb = None" "\<not> is_order cb" for q
    using that answered_other [of w _ callback_slot cb] by auto
  show ?thesis
  proof (cases cb)
    case CB_account_balance
    then show ?thesis
      using ea_folds(1)
      by (auto simp: oe_response_def get_account_balance_ack_def intro!: download_answered [OF assms] ea_parsed)
  next
    case CB_account_status
    then show ?thesis
      using ea_folds(2)
      by (auto simp: oe_response_def get_account_status_ack_def intro!: download_answered [OF assms] ea_parsed)
  next
    case CB_open_orders
    then show ?thesis
      using ea_folds(3)
      by (auto simp: oe_response_def get_open_orders_ack_def intro!: download_answered [OF assms] ea_parsed)
  next
    case CB_trades
    then show ?thesis
      using ea_folds(4)
      by (auto simp: oe_response_def get_trades_ack_def intro!: download_answered [OF assms] ea_parsed ea_self)
  next
    case (CB_order c)
    then show ?thesis using order_answered [OF assms] by (simp add: oe_response_def)
  qed ((rule other, simp add: oe_response_def);
      simp add: action_returns [OF assms] ea_actions ea_listen_key)+
qed

interpretation oe_server: rest_server oe_response callback_slot
  by unfold_locales (rule oe_answer_effect)

text \<open>
  The order entry checks every slot but that of the portfolio positions. It is the only server of a
  classic account.
\<close>

definition entry_slots :: "slot list" where
  "entry_slots = [Slot_balances, Slot_positions, Slot_open_orders, Slot_stale_orders, Slot_trades]"

lemma callback_slot_release:
  "cb \<in> set (slot_callbacks E ks symbols s) \<Longrightarrow> callback_slot cb = Some s \<or> s = Slot_stale_orders \<and> is_order cb"
  by (cases s) auto

interpretation oe_account: rest_account oe_response callback_slot oe_timer UNIV
  by unfold_locales (blast intro: timer_sends(1), blast dest: timer_sends(2), rule callback_slot_release)

definition classic_serve ::
  "'r slot_lib \<Rightarrow> rest_in \<Rightarrow> ('d, 'q, 'r, oe_classic) acct \<Rightarrow> (exn, ('d, 'q, 'r, oe_classic) acct) res" where
  "classic_serve S = rest_serve S oe_timer oe_response entry_slots id (\<lambda>c e. c)"

lemma classic_serves:
  assumes S: "slot_contract S" and ok: "rest_in_ok st K i" and at: "acct_fit entry_fit st K a"
  shows "\<exists>c. classic_serve S i a = Ok c \<and> acct_fit entry_fit st K c \<and> av_user c = av_user a
      \<and> (\<forall>s. slot_state s \<longrightarrow> acct_asked S s a \<longrightarrow> sl_responded S (av_slots c (us_slot s)))"
proof -
  have "rest_in_ok (sh_settings (av_shared a)) K i" "set (av_details a) \<subseteq> K"
    "entry_fit (sh_settings (av_shared a)) (id (av_entry a))"
    using ok at by (simp_all add: acct_fit_def)
  from oe_account.serve_effect [where get = id and put = "\<lambda>c e. c" and checks = entry_slots, OF S this] show ?thesis
    using at by (fastforce simp: classic_serve_def acct_fit_def)
qed

interpretation classic_account: account_server S "classic_serve S" rest_in_ok entry_fit for S
  by unfold_locales (rule classic_serves)

end
