(* ===== verification/Account_Download_Ws.thy ===== *)
theory Account_Download_Ws
  imports Account_Download Rest_Trade Web_Socket_Facts
begin

text \<open>
  The servers of a classic account that trades over the WebSocket API: the WebSocket connection
  downloads balances and positions, the REST connection of \<open>rest_trade.cpp\<close> open orders and stale
  orders. Nobody serves the slot of the trades; the end of the theory interprets \<open>account_server\<close> for
  accounts without a trades lookback.
\<close>

section \<open>The REST connection\<close>

text \<open>The answer to a download of trades would commit the slot of the open orders.\<close>

fun rt_callback_slot :: "callback \<Rightarrow> slot option" where
  "rt_callback_slot CB_open_orders = Some Slot_open_orders"
| "rt_callback_slot CB_trades = Some Slot_open_orders"
| "rt_callback_slot _ = None"

lemma rt_process_answered:
  assumes "\<not> ends_process (settings_of w) r" "always_ok err" "never_fatal succ"
    and "\<And>o' s x t v. entry_answers v (res_state (err o' s x t v))" "\<And>b v. entry_answers v (res_state (succ b v))"
  shows "\<exists>v. rt_process_response E r err succ w = Ok v \<and> entry_answers w v"
proof -
  have "\<exists>v. rt_process_response E r err succ w = Ok v"
  proof (cases "process_body E r err succ w")
    case (Throw e v)
    obtain o' s x t where "rt_caught E e = (o', s, x, t)" by (cases "rt_caught E e") auto
    then show ?thesis using assms(2) by (simp add: rt_process_response_def Throw always_ok_def)
  next
    case (Fatal m v)
    then show ?thesis
      using process_response_returns [OF assms(1-3), of E] by (simp add: process_response_def)
  qed (simp add: rt_process_response_def)
  moreover have "entry_answers w (res_state (rt_process_response E r err succ w))"
    by (rule kept_rest.keep_rt_response [OF ans.kept_rest_axioms assms(4,5)])
  ultimately show ?thesis by auto
qed

lemma rt_download_answered:
  assumes "\<not> ends_process (settings_of w) r" "never_fatal succ" "rt_callback_slot cb = Some s"
    and "\<And>b v. entry_answers v (res_state (succ b v))"
  shows "\<exists>v. and_then (rt_process_response E r log_error succ w) (commit s) = Ok v \<and> answered rt_callback_slot cb w v"
proof -
  obtain v where "rt_process_response E r log_error succ w = Ok v" "entry_answers w v"
    using rt_process_answered [where E = E and err = log_error, OF assms(1) _ assms(2) ea_errors(1) assms(4)] by auto
  moreover have "\<not> is_order cb" using assms(3) by (cases cb) simp_all
  ultimately show ?thesis using answered_commit [of w v rt_callback_slot cb s] assms(3) by (simp add: commit_def)
qed

lemma rt_order_answered:
  assumes "\<not> ends_process (settings_of w) r"
  shows "\<exists>v. rt_get_order_ack E r c w = Ok v \<and> answered rt_callback_slot (CB_order c) w v"
proof -
  let ?err = "\<lambda>origin status error text w.
    Ok (emit (Pub_order (lost_order w c error text) (stream_of w)) w)"
  let ?succ = "\<lambda>body. parsed (ge_order E body) (\<lambda>m w. Ok (rt_on_order_ack m w))"
  have "\<exists>v. rt_process_response E r ?err ?succ w = Ok v \<and> entry_answers w v"
    by (rule rt_process_answered [OF assms])
      (auto simp: always_ok_def rt_on_order_ack_def on_order_ack_def intro!: ea_parsed ea_intros)
  then obtain v where "rt_process_response E r ?err ?succ w = Ok v" "entry_answers w v" by blast
  then show ?thesis using answered_order [of w v rt_callback_slot c] by (simp add: rt_get_order_ack_def)
qed

lemma rt_cancel_all_answered:
  assumes "\<not> ends_process (settings_of w) r"
  shows "\<exists>v. rt_open_orders_cancel_all_ack E r i w = Ok v \<and> entry_answers w v"
  unfolding rt_open_orders_cancel_all_ack_def
  by (rule rt_process_answered [OF assms])
    (auto simp: ea_errors never_fatal_actions rt_on_open_orders_cancel_all_ack_def on_open_orders_cancel_all_ack_def
      Let_def intro!: ea_parsed ea_intros)

lemma rt_answer_effect:
  assumes "\<not> ends_process (settings_of w) r"
  shows "\<exists>v. rt_response E r cb request_id w = Ok v \<and> answered rt_callback_slot cb w v"
proof (cases cb)
  case CB_open_orders
  then show ?thesis
    using ea_folds(3)
    by (auto simp: rt_response_def rt_get_open_orders_ack_def rt_on_open_orders_ack_def
        intro!: rt_download_answered [OF assms] ea_parsed)
next
  case CB_trades
  then show ?thesis
    using ea_folds(4)
    by (auto simp: rt_response_def rt_get_trades_ack_def rt_on_trades_ack_def
        intro!: rt_download_answered [OF assms] ea_parsed)
next
  case (CB_order c)
  then show ?thesis using rt_order_answered [OF assms] by (simp add: rt_response_def)
next
  case CB_open_orders_cancel_all
  then show ?thesis
    using rt_cancel_all_answered [OF assms, of E request_id] answered_other [of w _ rt_callback_slot cb]
    by (auto simp: rt_response_def)
qed (simp_all add: rt_response_def answered_other)

interpretation rt_server: rest_server "\<lambda>E ti. rt_response E" rt_callback_slot
  by unfold_locales (rule rt_answer_effect)

text \<open>The slots it serves; it looks at that of the trades as well, and forgets it.\<close>

definition rt_slots :: "slot list" where
  "rt_slots = [Slot_open_orders, Slot_stale_orders, Slot_trades]"

lemma rt_timer_sends: "entry_sends w (rt_timer E ti w)"
proof -
  have t: "entry_sends w (rt_get_trades E ti w)" for w :: "('a, 'b) rst"
    by (simp add: rt_get_trades_def sends_self)
  have "entry_sends w (rt_check_request_queue E ti w)"
    unfolding rt_check_request_queue_def rt_get_open_orders_def Let_def
    by (intro sends.keep_trans [OF sends_pending sends.keep_trans [OF sends_pending sends_pending]])
      (auto intro: sends_gets sends_stale_orders t)
  then show ?thesis by (simp add: rt_timer_def)
qed

lemma rt_timer_callbacks:
  assumes "ge_refresh E" "stream_ready w" "ge_pending E s" "s \<in> {Slot_open_orders, Slot_stale_orders}"
  shows "set (slot_callbacks E (gw_stale_orders w) (st_download_symbols (settings_of w)) s)
    \<subseteq> set (callbacks (gw_out (rt_timer E ti w)))"
proof -
  have [simp]: "gw_stale_orders (get_open_orders E ti w) = gw_stale_orders w"
    "callbacks (gw_out (get_open_orders E ti w)) = callbacks (gw_out w) @ [CB_open_orders]"
    "callbacks (gw_out (request_stale_orders E ti w)) = callbacks (gw_out w)
       @ map (CB_order \<circ> oo_client_order_id) (stale_found E (gw_stale_orders w))"
    "callbacks (gw_out (rt_get_trades E ti w)) = callbacks (gw_out w)" for w :: "('a, 'b) rst"
    by (simp_all add: get_open_orders_def request_stale_orders_def stale_order_callbacks rt_get_trades_def)
  show ?thesis
    using assms by (auto simp: rt_timer_def rt_check_request_queue_def rt_get_open_orders_def if_pending_def Let_def)
qed

interpretation rt_account: rest_account "\<lambda>E ti. rt_response E" rt_callback_slot "\<lambda>E ti now. rt_timer E ti"
    "{Slot_open_orders, Slot_stale_orders}"
  by unfold_locales (simp add: rt_timer_sends, blast dest: rt_timer_callbacks, auto)

section \<open>The WebSocket connection\<close>

text \<open>The answers to the messages that a timer has sent, each with an environment and a time of its own.\<close>

definition ws_replies ::
  "'d ws_lib \<Rightarrow> (string \<Rightarrow> ws_env \<times> trace_info \<times> string) \<Rightarrow> string list \<Rightarrow> ('d, 'q) ws \<Rightarrow> (exn, ('d, 'q) ws) res" where
  "ws_replies L reply = for_each (\<lambda>text. case reply text of (E, ti, message) \<Rightarrow> ws_parse L E ti message)"

text \<open>Nothing but the two slots is touched, and they are not asked for.\<close>

definition ws_serves :: "('d, 'q) ws \<Rightarrow> ('d, 'q) ws \<Rightarrow> bool" where
  "ws_serves v w \<longleftrightarrow>
     sm_connection_status (gw_self w) = sm_connection_status (gw_self v)
     \<and> ws_listen_key (gw_self w) = ws_listen_key (gw_self v)
     \<and> ws_listen_key_refresh (gw_self w) = ws_listen_key_refresh (gw_self v)
     \<and> settings_of w = settings_of v \<and> gw_stale_orders w = gw_stale_orders v
     \<and> (\<exists>es. gw_out w = gw_out v @ es \<and> (\<forall>e \<in> set es. \<not> slot_request e)
           \<and> (\<forall>s. Slot_commit s \<in> set es \<longrightarrow> s \<in> {Slot_balances, Slot_positions}))"

lemma ws_serves_refl [simp]: "ws_serves w w"
  by (simp add: ws_serves_def)

lemma ws_serves_trans: "ws_serves u v \<Longrightarrow> ws_serves v w \<Longrightarrow> ws_serves u w"
  by (fastforce simp: ws_serves_def)

interpretation served: kept ws_serves
  by unfold_locales (auto intro: ws_serves_trans)

lemma served_emit:
  "ws_serves v w \<Longrightarrow> \<not> slot_request e \<Longrightarrow> (\<And>s. e = Slot_commit s \<Longrightarrow> s \<in> {Slot_balances, Slot_positions})
    \<Longrightarrow> ws_serves v (emit e w)"
  by (auto simp: ws_serves_def)

lemma served_limits: "ws_serves v w \<Longrightarrow> ws_serves v (ws_update_rate_limits items w)"
  by (auto simp: ws_update_rate_limits_def Let_def ws_serves_def slot_request_def)

lemma served_answers:
  "ws_serves w (ws_on_account_balance m w)" "ws_serves w (ws_on_account_status E n w)"
proof -
  have b: "ws_serves w (fold (\<lambda>item w. emit (Pub_funds (ws_funds w item)) w) items w)" for items
    by (rule served.keep_fold, rule served_emit) simp_all
  have p: "ws_serves w (fold (on_position_item E t) items w)" for items t
    by (rule served.keep_fold) (auto simp: on_position_item_def intro!: served_emit)
  show "ws_serves w (ws_on_account_balance m w)" "ws_serves w (ws_on_account_status E n w)"
    by (auto simp: ws_on_account_balance_def ws_on_account_status_def b p
        intro!: served_emit served_limits)
qed

lemma answers_commit:
  "Slot_commit Slot_balances \<in> set (gw_out (ws_on_account_balance m w))"
  "Slot_commit Slot_positions \<in> set (gw_out (ws_on_account_status E n w))"
  by (simp_all add: ws_on_account_balance_def ws_on_account_status_def)

text \<open>What the timer sends: the messages that ask for a slot.\<close>

fun ws_type_slot :: "wsapi_type \<Rightarrow> slot option" where
  "ws_type_slot WSAPIType_ACCOUNT_BALANCE = Some Slot_balances"
| "ws_type_slot WSAPIType_ACCOUNT_STATUS = Some Slot_positions"
| "ws_type_slot _ = None"

definition ws_asks :: "ws_env \<Rightarrow> slot \<Rightarrow> string \<Rightarrow> bool" where
  "ws_asks E s text \<longleftrightarrow> (\<exists>r. carries (ws_enc E r) text \<and> ws_type_slot (wr_type r) = Some s)"

definition ws_sends :: "ws_env \<Rightarrow> slot set \<Rightarrow> ('d, 'q) ws \<Rightarrow> ('d, 'q) ws \<Rightarrow> bool" where
  "ws_sends E ss v w \<longleftrightarrow>
     sm_connection_status (gw_self w) = sm_connection_status (gw_self v)
     \<and> ws_listen_key (gw_self w) = ws_listen_key (gw_self v)
     \<and> ws_listen_key_refresh (gw_self w) = ws_listen_key_refresh (gw_self v)
     \<and> gw_shared w = gw_shared v \<and> gw_stale_orders w = gw_stale_orders v
     \<and> (\<exists>ts. gw_out w = gw_out v @ map Ws_send ts \<and> (\<forall>t \<in> set ts. \<exists>s. ws_asks E s t)
           \<and> (\<forall>s \<in> ss. \<exists>t \<in> set ts. ws_asks E s t))"

lemma ws_sends_refl: "ws_sends E {} w w"
  by (simp add: ws_sends_def)

lemma ws_sends_trans: "ws_sends E ss u v \<Longrightarrow> ws_sends E tt v w \<Longrightarrow> ws_sends E (ss \<union> tt) u w"
  unfolding ws_sends_def by (elim conjE exE, intro conjI) (simp_all, (rule exI [of _ "ts @ ts'" for ts ts'], auto))

lemma ws_sends_gets:
  "ws_sends E {Slot_balances} w (ws_account_balance E ti w)"
  "ws_sends E {Slot_positions} w (ws_account_status E ti w)"
proof -
  have m: "ws_sends E {s} w (ws_request E ty 0 0 0 f w)"
    if "ws_type_slot ty = Some s" "\<And>i. carries i (f i)" for s ty f
  proof -
    let ?r = "\<lparr> wr_sequence = ws_request_id (gw_self w) + 1, wr_type = ty, wr_user_id = 0,
      wr_order_id = 0, wr_version = 0, wr_order_id_2 = 0 \<rparr>"
    have "ws_asks E s (f (ws_enc E ?r))"
      unfolding ws_asks_def by (rule exI [of _ ?r]) (simp add: that)
    then show ?thesis
      by (auto simp: ws_sends_def ws_request_effect intro!: exI [of _ "[f (ws_enc E ?r)]"])
  qed
  show "ws_sends E {Slot_balances} w (ws_account_balance E ti w)"
    "ws_sends E {Slot_positions} w (ws_account_status E ti w)"
    by (simp_all add: ws_account_balance_def ws_account_status_def m carries_jsons)
qed

text \<open>The listen key is not kept alive before the time \<open>T\<close>.\<close>

definition no_ping :: "nanoseconds \<Rightarrow> 'd web_socket \<Rightarrow> bool" where
  "no_ping T s \<longleftrightarrow> ws_listen_key s = [] \<or> ws_listen_key_refresh s = 0 \<or> T \<le> ws_listen_key_refresh s"

lemma ws_timer_sends:
  assumes "ge_refresh E" "stream_ready w" "no_ping T (gw_self w)" "now < T"
  shows "ws_sends E {s \<in> {Slot_balances, Slot_positions}. ge_pending E s} w (ws_timer E ti now w)"
proof -
  have t: "ws_timer E ti now w = ws_check_request_queue E ti w"
    using assms by (auto simp: ws_timer_def ws_user_data_stream_ping_def no_ping_def)
  have b: "ws_sends E {s \<in> {Slot_balances}. ge_pending E s} w
      (if ge_pending E Slot_balances then ws_account_balance E ti w else w)"
    by (auto simp: Collect_conv_if ws_sends_gets ws_sends_refl)
  have p: "ws_sends E {s \<in> {Slot_positions}. ge_pending E s} w
      (if ge_pending E Slot_positions then ws_account_status E ti w else w)" for w :: "('a, 'b) ws"
    by (auto simp: Collect_conv_if ws_sends_gets ws_sends_refl)
  have "ws_sends E ({s \<in> {Slot_balances}. ge_pending E s} \<union> {s \<in> {Slot_positions}. ge_pending E s}) w
      (ws_check_request_queue E ti w)"
    unfolding ws_check_request_queue_def Let_def by (rule ws_sends_trans [OF b p])
  moreover have "{s \<in> {Slot_balances}. ge_pending E s} \<union> {s \<in> {Slot_positions}. ge_pending E s}
      = {s \<in> {Slot_balances, Slot_positions}. ge_pending E s}"
    by auto
  ultimately show ?thesis by (simp only: t)
qed

text \<open>
  The answer to such a message: it has the id of the request, wherever this id stands among its members,
  and its result can be read. The status does not matter.
\<close>

definition ws_readable :: "ws_env \<Rightarrow> string \<Rightarrow> slot \<Rightarrow> bool" where
  "ws_readable E message s \<longleftrightarrow>
     (s = Slot_balances \<longrightarrow> (\<exists>m. we_account_balance E message = Inr m))
     \<and> (s = Slot_positions \<longrightarrow> (\<exists>m. we_account_status E message = Inr m))"

definition ws_reply_ok :: "ws_env \<Rightarrow> string \<Rightarrow> ws_env \<times> trace_info \<times> string \<Rightarrow> bool" where
  "ws_reply_ok E0 text = (\<lambda>(E, ti, message).
     wsapi_text (we_b64e E0) (we_b64d E) (we_code E0) (we_uncode E) \<and> we_fnv E ''error'' \<noteq> we_fnv E ''id''
     \<and> (\<exists>xs i ys. pl_parse (we_parser E) message = Inr (xs @ Item ''id'' i # ys)
           \<and> pl_text (we_parser E) i = Inr (id_of text) \<and> list_all (not_id (we_fnv E)) xs)
     \<and> (\<forall>s. ws_asks E0 s text \<longrightarrow> ws_readable E message s))"

lemma ws_reply_served:
  assumes "ws_asks E0 s text" "ws_reply_ok E0 text (E, ti, message)"
  shows "\<exists>v. ws_parse L E ti message w = Ok v \<and> ws_serves w v \<and> Slot_commit s \<in> set (gw_out v)"
proof -
  obtain r where r: "carries (ws_enc E0 r) text" "ws_type_slot (wr_type r) = Some s"
    using assms(1) by (auto simp: ws_asks_def)
  have readable: "ws_readable E message s" using assms by (auto simp: ws_reply_ok_def)
  have parse: "wsapi_dispatch (we_fnv E) (we_parser E) (wsapi_request_decode (we_b64d E) (we_uncode E))
      u message = ([ev], Handled)" if "wsapi_route message r = Some (Some ev, True)" for u ev
    using assms(2) r(1) that
    by (auto simp: ws_reply_ok_def ws_enc_def intro: wsapi_text.answer_reaches)
  show ?thesis
  proof (cases "wr_type r")
    case WSAPIType_ACCOUNT_BALANCE
    then have s: "s = Slot_balances" using r(2) by simp
    then obtain m where "we_account_balance E message = Inr m" using readable by (auto simp: ws_readable_def)
    then have "ws_parse L E ti message w = Ok (ws_on_account_balance m w)"
      using parse [of "WE_account_balance message"] WSAPIType_ACCOUNT_BALANCE
      by (simp add: ws_parse_def ws_handle_def wsapi_route_def)
    then show ?thesis using served_answers(1) answers_commit(1) by (auto simp: s)
  next
    case WSAPIType_ACCOUNT_STATUS
    then have s: "s = Slot_positions" using r(2) by simp
    then obtain m where "we_account_status E message = Inr m" using readable by (auto simp: ws_readable_def)
    then have "ws_parse L E ti message w = Ok (ws_on_account_status E m w)"
      using parse [of "WE_account_status message"] WSAPIType_ACCOUNT_STATUS
      by (simp add: ws_parse_def ws_handle_def wsapi_route_def)
    then show ?thesis using served_answers(2) answers_commit(2) by (auto simp: s)
  qed (use r(2) in simp_all)
qed

lemma ws_replies_served:
  assumes "\<forall>t \<in> set ts. (\<exists>s. ws_asks E0 s t) \<and> ws_reply_ok E0 t (reply t)"
  shows "\<exists>v. ws_replies L reply ts w = Ok v \<and> ws_serves w v
    \<and> (\<forall>s. (\<exists>t \<in> set ts. ws_asks E0 s t) \<longrightarrow> Slot_commit s \<in> set (gw_out v))"
  using assms
proof (induction ts arbitrary: w)
  case (Cons t ts)
  obtain E ti message where reply: "reply t = (E, ti, message)" by (metis prod.exhaust)
  obtain s where s: "ws_asks E0 s t" "ws_reply_ok E0 t (E, ti, message)" using Cons.prems by (auto simp: reply)
  have all: "\<exists>u. ws_parse L E ti message w = Ok u \<and> ws_serves w u \<and> Slot_commit s' \<in> set (gw_out u)"
    if "ws_asks E0 s' t" for s'
    by (rule ws_reply_served [OF that s(2)])
  obtain u where u: "ws_parse L E ti message w = Ok u" "ws_serves w u" using all [OF s(1)] by blast
  have here: "Slot_commit s' \<in> set (gw_out u)" if "ws_asks E0 s' t" for s'
    using all [OF that] u(1) by auto
  obtain v where v: "ws_replies L reply ts u = Ok v" "ws_serves u v"
    "\<And>s. \<exists>t \<in> set ts. ws_asks E0 s t \<Longrightarrow> Slot_commit s \<in> set (gw_out v)"
    using Cons.IH [of u] Cons.prems by auto
  have "set (gw_out u) \<subseteq> set (gw_out v)" using v(2) by (auto simp: ws_serves_def)
  then show ?case
    using u v here ws_serves_trans [OF u(2) v(2)] by (auto simp: ws_replies_def reply)
qed (simp add: ws_replies_def)

section \<open>The account\<close>

text \<open>One round of both connections. The rest of the state is that of the classic account.\<close>

record ws_in =
  wi_env :: ws_env
  wi_rate_limiter :: "trace_info \<Rightarrow> bool"
  wi_time :: trace_info
  wi_now :: nanoseconds
  wi_reply :: "string \<Rightarrow> ws_env \<times> trace_info \<times> string"
  wi_rest :: rest_in

definition ws_slots :: "slot list" where
  "ws_slots = [Slot_balances, Slot_positions]"

definition wsa_socket ::
  "'r slot_lib \<Rightarrow> 'd2 ws_lib \<Rightarrow> ws_in \<Rightarrow> ('d, 'q, 'r, 'd2 web_socket \<times> rest_stream) acct
    \<Rightarrow> (exn, ('d, 'q, 'r, 'd2 web_socket \<times> rest_stream) acct) res" where
  "wsa_socket S L i a =
     (let can = request_can_request (wi_rate_limiter i) (wi_time i);
          v = acct_view (fst (av_entry a)) a;
          w = ws_timer ((wi_env i)\<lparr>ge_pending := pending_slots S can (av_slots a)\<rparr>) (wi_time i) (wi_now i) v;
          slots = (if ge_refresh (wi_env i) \<and> stream_ready v then check_slots S can ws_slots (av_slots a)
                   else av_slots a)
      in map_res id (\<lambda>u. acct_put S u (a\<lparr>av_entry := (gw_self u, snd (av_entry a)), av_slots := slots\<rparr>))
           (ws_replies L (wi_reply i) (ws_sent (gw_out w)) w))"

definition wsa_serve ::
  "'r slot_lib \<Rightarrow> 'd2 ws_lib \<Rightarrow> ws_in \<Rightarrow> ('d, 'q, 'r, 'd2 web_socket \<times> rest_stream) acct
    \<Rightarrow> (exn, ('d, 'q, 'r, 'd2 web_socket \<times> rest_stream) acct) res" where
  "wsa_serve S L i a = and_then (wsa_socket S L i a)
     (rest_serve S (\<lambda>E ti now. rt_timer E ti) (\<lambda>E ti. rt_response E) rt_slots snd (\<lambda>e p. (fst p, e)) (wi_rest i))"

text \<open>
  What a round needs: before the time \<open>T\<close>, when the listen key has to be kept alive, the timer runs, the
  rate limiter permits, the requests get their answers. No download of trades is configured.
\<close>

definition wsa_ok :: "nanoseconds \<Rightarrow> settings \<Rightarrow> (u8 \<times> u64) set \<Rightarrow> ws_in \<Rightarrow> bool" where
  "wsa_ok T st K i \<longleftrightarrow> ge_refresh (wi_env i) \<and> request_can_request (wi_rate_limiter i) (wi_time i) \<and> wi_now i < T
     \<and> (\<forall>t s. ws_asks (wi_env i) s t \<longrightarrow> ws_reply_ok (wi_env i) t (wi_reply i t)) \<and> rest_in_ok st K (wi_rest i)"

definition socket_fit :: "nanoseconds \<Rightarrow> 'd web_socket \<Rightarrow> bool" where
  "socket_fit T s \<longleftrightarrow> sm_connection_status s = ConnectionStatus_READY \<and> no_ping T s"

definition wsa_fit :: "nanoseconds \<Rightarrow> settings \<Rightarrow> 'd web_socket \<times> rest_stream \<Rightarrow> bool" where
  "wsa_fit T st e \<longleftrightarrow> socket_fit T (fst e) \<and> entry_fit st (snd e)
     \<and> (st_download_trades_lookback st = 0 \<or> st_download_symbols st = [])"

lemma slots_untouched:
  assumes "Slot_request s \<notin> set es" "Slot_commit s \<notin> set es"
  shows "fold (slot_effect S) es f s = f s"
  using assms
proof (induction es arbitrary: f)
  case (Cons e es)
  have "slot_effect S e f s = f s" using Cons.prems by (intro slot_effect_other) auto
  with Cons show ?case by simp
qed simp

lemma ws_sent_map [simp]: "ws_sent (map Ws_send ts) = ts"
  by (induction ts) simp_all

lemma ws_asks_env [simp]: "ws_asks (E\<lparr>ge_pending := f\<rparr>) s t = ws_asks E s t"
  by (simp add: ws_asks_def ws_enc_def)

text \<open>The first half: the WebSocket connection commits its two slots, and leaves the others alone.\<close>

lemma socket_effect:
  assumes S: "slot_contract S" and ok: "wsa_ok T st K i" and fit: "socket_fit T (fst (av_entry a))"
  obtains c where "wsa_socket S L i a = Ok c" "av_user c = av_user a"
    "sh_settings (av_shared c) = sh_settings (av_shared a)" "av_details c = av_details a"
    "socket_fit T (fst (av_entry c))" "snd (av_entry c) = snd (av_entry a)"
    "\<And>s. s \<in> set ws_slots \<Longrightarrow> fst (sl_check S True (av_slots a s)) \<Longrightarrow> sl_responded S (av_slots c s)"
    "\<And>s. s \<notin> set ws_slots \<Longrightarrow> av_slots c s = av_slots a s"
proof -
  let ?E = "(wi_env i)\<lparr>ge_pending := pending_slots S True (av_slots a)\<rparr>"
  let ?v = "acct_view (fst (av_entry a)) a"
  let ?w = "ws_timer ?E (wi_time i) (wi_now i) ?v"
  have run: "ge_refresh ?E" "stream_ready ?v" "no_ping T (gw_self ?v)" "wi_now i < T"
    using ok fit by (simp_all add: wsa_ok_def socket_fit_def stream_ready_def)
  obtain ts where ts: "gw_out ?w = map Ws_send ts" "\<forall>t \<in> set ts. \<exists>s. ws_asks (wi_env i) s t"
    "\<forall>s \<in> set ws_slots. fst (sl_check S True (av_slots a s)) \<longrightarrow> (\<exists>t \<in> set ts. ws_asks (wi_env i) s t)"
    and w: "sm_connection_status (gw_self ?w) = sm_connection_status (fst (av_entry a))"
      "no_ping T (gw_self ?w)" "gw_shared ?w = av_shared a" "gw_stale_orders ?w = av_details a"
    using ws_timer_sends [OF run, of "wi_time i"] run(3)
    by (auto simp: ws_sends_def pending_slots_def ws_slots_def no_ping_def)
  have "\<forall>t \<in> set ts. (\<exists>s. ws_asks (wi_env i) s t) \<and> ws_reply_ok (wi_env i) t (wi_reply i t)"
    using ts(2) ok by (auto simp: wsa_ok_def)
  from ws_replies_served [OF this, of L ?w] obtain x where x: "ws_replies L (wi_reply i) ts ?w = Ok x" "ws_serves ?w x"
    "\<And>s. \<exists>t \<in> set ts. ws_asks (wi_env i) s t \<Longrightarrow> Slot_commit s \<in> set (gw_out x)"
    by blast
  define c where "c = acct_put S x (a\<lparr>av_entry := (gw_self x, snd (av_entry a)),
    av_slots := check_slots S True ws_slots (av_slots a)\<rparr>)"
  obtain es where es: "gw_out x = map Ws_send ts @ es" "\<forall>e \<in> set (gw_out x). \<not> slot_request e"
    "\<forall>s. Slot_commit s \<in> set (gw_out x) \<longrightarrow> s \<in> set ws_slots"
    using x(2) by (auto simp: ws_serves_def ts(1) slot_request_def ws_slots_def)
  have "wsa_socket S L i a = Ok c"
    using x(1) ok run ts(1) by (simp add: wsa_socket_def wsa_ok_def c_def Let_def)
  moreover have "sl_responded S (av_slots c s)" if "s \<in> set ws_slots" "fst (sl_check S True (av_slots a s))" for s
    unfolding c_def acct_put_simps
    by (rule slots_responded [OF S]) (use x(3) ts(3) es(2) that in auto)
  moreover have "av_slots c s = av_slots a s" if "s \<notin> set ws_slots" for s
    unfolding c_def acct_put_simps using es(2,3) that
    by (subst slots_untouched) (auto simp: slot_request_def check_slots_def)
  moreover have "socket_fit T (fst (av_entry c))"
    using x(2) w(1,2) fit by (simp add: c_def socket_fit_def ws_serves_def no_ping_def)
  ultimately show thesis
    using x(2) w(3,4) by (intro that [of c]) (simp_all add: c_def ws_serves_def)
qed

text \<open>Both halves.\<close>

lemma ws_serves_account:
  assumes S: "slot_contract S" and ok: "wsa_ok T st K i" and at: "acct_fit (wsa_fit T) st K a"
  shows "\<exists>c. wsa_serve S L i a = Ok c \<and> acct_fit (wsa_fit T) st K c \<and> av_user c = av_user a
      \<and> (\<forall>s. slot_state s \<longrightarrow> acct_asked S s a \<longrightarrow> sl_responded S (av_slots c (us_slot s)))"
proof -
  have fit: "socket_fit T (fst (av_entry a))" "entry_fit st (snd (av_entry a))"
    "set (av_details a) \<subseteq> K" "sh_settings (av_shared a) = st"
    using at by (simp_all add: acct_fit_def wsa_fit_def)
  obtain b where b: "wsa_socket S L i a = Ok b" "av_user b = av_user a"
    "sh_settings (av_shared b) = sh_settings (av_shared a)" "av_details b = av_details a"
    "socket_fit T (fst (av_entry b))" "snd (av_entry b) = snd (av_entry a)"
    "\<And>s. s \<in> set ws_slots \<Longrightarrow> fst (sl_check S True (av_slots a s)) \<Longrightarrow> sl_responded S (av_slots b s)"
    "\<And>s. s \<notin> set ws_slots \<Longrightarrow> av_slots b s = av_slots a s"
    using socket_effect [OF S ok fit(1), of L] by blast
  have rest: "rest_in_ok (sh_settings (av_shared b)) K (wi_rest i)" "set (av_details b) \<subseteq> K"
    "entry_fit (sh_settings (av_shared b)) (snd (av_entry b))"
    using ok fit b(3,4,6) by (simp_all add: wsa_ok_def)
  obtain c e where c: "rest_serve S (\<lambda>E ti now. rt_timer E ti) (\<lambda>E ti. rt_response E) rt_slots snd
      (\<lambda>e p. (fst p, e)) (wi_rest i) b = Ok c"
    "av_user c = av_user b" "sh_settings (av_shared c) = sh_settings (av_shared b)" "set (av_details c) \<subseteq> K"
    "av_entry c = (fst (av_entry b), e)" "entry_fit (sh_settings (av_shared b)) e"
    "\<And>s. slot_state s \<Longrightarrow> us_slot s \<in> {Slot_open_orders, Slot_stale_orders} \<Longrightarrow> acct_asked S s b
       \<Longrightarrow> sl_responded S (av_slots c (us_slot s))"
    "\<And>s. s \<notin> set rt_slots \<Longrightarrow> sl_responded S (av_slots b s) \<Longrightarrow> sl_responded S (av_slots c s)"
    using rt_account.serve_effect [where get = snd and put = "\<lambda>e p. (fst p, e)" and checks = rt_slots, OF S rest]
    by blast
  have "acct_fit (wsa_fit T) st K c"
    using at b(3,5) c(3-6) fit(4) by (simp add: acct_fit_def wsa_fit_def)
  moreover have "sl_responded S (av_slots c (us_slot s))" if s: "slot_state s" "acct_asked S s a" for s
  proof (cases "us_slot s \<in> set ws_slots")
    case True
    then show ?thesis
      using b(7) [of "us_slot s"] c(8) [of "us_slot s"] s(2) by (auto simp: acct_asked_def ws_slots_def rt_slots_def)
  next
    case False
    have "s \<noteq> DC_GET_TRADES"
      using s(2) at by (auto simp: acct_asked_def us_trades_on_def acct_fit_def wsa_fit_def)
    then have "us_slot s \<in> {Slot_open_orders, Slot_stale_orders}"
      using s(1) False by (cases s) (auto simp: slot_state_def ws_slots_def)
    moreover have "acct_asked S s b"
      using s(2) b(2,3,4) b(8) [OF False] by (simp add: acct_asked_def us_trades_on_def)
    ultimately show ?thesis using c(7) s(1) by blast
  qed
  moreover have "wsa_serve S L i a = Ok c" using b(1) c(1) by (simp add: wsa_serve_def)
  ultimately show ?thesis using b(2) c(2) by auto
qed

interpretation ws_account: account_server S "wsa_serve S L" "wsa_ok T" "wsa_fit T" for S L T
  by unfold_locales (rule ws_serves_account)

end
