(* ===== verification/Account_Download_Properties.thy ===== *)
theory Account_Download_Properties
  imports Account_Download_Ws User_Stream_Properties Web_Socket_Properties
begin

text \<open>
  The download of an account completes: one round of timers and answers after the other brings it
  forward, whatever the answers are.
\<close>

section \<open>A classic account\<close>

text \<open>
  C4: The user stream and the order entry of a classic account bring the download to its end
  together: once the order entry is ready and the connection of the user stream is up, five rounds
  of their timers and of answers, errors included, make the user stream ready. No answer may end the
  process, and the dispatcher has to find the orders it has reported as stale.
\<close>

theorem account_becomes_ready:
  assumes "download_contract (us_states US_Classic) L" "slot_contract S"
    and "\<forall>(i, E, ti) \<in> set rs. rest_in_ok (sh_settings (av_shared a)) K i \<and> user_env_ok K E" "5 \<le> length rs"
    and "sm_connection_status (av_entry a) = ConnectionStatus_READY"
    and "oe_stale_orders_counter (av_entry a) = 0" "set (av_details a) \<subseteq> K"
  shows "\<exists>b. acct_rounds S L (classic_serve S) rs (acct_user_ready S L a) = Ok b
    \<and> stream_ready (user_view b) \<and> sm_connection_status (av_entry b) = ConnectionStatus_READY
    \<and> oe_stale_orders_counter (av_entry b) = 0"
proof -
  have "acct_fit entry_fit (sh_settings (av_shared a)) K a"
    using assms(5-7) by (simp add: acct_fit_def entry_fit_def)
  from classic_account.becomes_ready [OF assms(1-4) this] show ?thesis
    by (auto simp: acct_fit_def entry_fit_def)
qed

definition sample_acct :: "'e \<Rightarrow> (dc_state \<times> int \<times> bool, unit, bool \<times> bool, 'e) acct" where
  "sample_acct e = \<lparr> av_user = us_create 9 sample_account ''key'' (DC_UNDEFINED, 0, False),
     av_entry = e, av_shared = sample_shared, av_details = [(1, 7)], av_slots = \<lambda>s. (False, False) \<rparr>"

definition sample_error :: "nat \<Rightarrow> rest_answer" where
  "sample_error = (\<lambda>i. (sample_env, sample_trace 1, sample_response 503 Category_SERVER_ERROR))"

definition sample_serve :: rest_in where
  "sample_serve = \<lparr> ri_env = sample_env, ri_rate_limiter = \<lambda>_. True, ri_time = sample_trace 1, ri_now = 1,
     ri_answer = sample_error \<rparr>"

definition sample_round :: "'i \<Rightarrow> 'i \<times> user_env \<times> trace_info" where
  "sample_round i = (i, sample_user_env\<lparr>ue_stale_orders := \<lambda>_. []\<rparr>, sample_trace 2)"

theorem account_becomes_ready_witness:
  "\<exists>b. acct_rounds plain_slot (sample_download US_Classic) (classic_serve plain_slot) (replicate 5 (sample_round sample_serve))
      (acct_user_ready plain_slot (sample_download US_Classic) (sample_acct (gw_self sample_oe))) = Ok b
    \<and> stream_ready (user_view b) \<and> sm_connection_status (av_entry b) = ConnectionStatus_READY
    \<and> oe_stale_orders_counter (av_entry b) = 0"
proof (rule account_becomes_ready [where K = "{(1, 7)}"])
  have "rest_in_ok (sh_settings (av_shared (sample_acct (gw_self sample_oe)))) {(1, 7)} sample_serve"
    by (simp add: rest_in_ok_def sample_serve_def sample_error_def finds_def request_can_request_def)
      (simp add: sample_env_def ends_process_def sample_response_def)
  then show "\<forall>(i, E, ti) \<in> set (replicate 5 (sample_round sample_serve)).
      rest_in_ok (sh_settings (av_shared (sample_acct (gw_self sample_oe)))) {(1, 7)} i \<and> user_env_ok {(1, 7)} E"
    by (simp add: sample_round_def user_env_ok_def stale_keys_def)
qed (simp_all only: sample_download_def plain_download_contract plain_slot_contract,
    simp_all add: sample_acct_def sample_oe_def oe_create_def)

section \<open>An account that trades over the WebSocket API\<close>

text \<open>
  C5: The account that trades over the WebSocket API becomes ready in the same way, although its slots
  are served by two streams, the WebSocket connection for balances and positions and the REST
  connection for open orders and stale orders: five rounds of timers and answers, errors included,
  are enough, if no trades are to be downloaded, which neither stream does. The answers to the WebSocket
  requests have their ids, and the rounds are over before the listen key has to be kept alive.
\<close>

theorem ws_account_becomes_ready:
  assumes "download_contract (us_states US_Classic) L" "slot_contract S"
    and "\<forall>(i, E, ti) \<in> set rs. wsa_ok T (sh_settings (av_shared a)) K i \<and> user_env_ok K E" "5 \<le> length rs"
    and "av_entry a = (ws, rt)" "sm_connection_status ws = ConnectionStatus_READY" "no_ping T ws"
    and "sm_connection_status rt = ConnectionStatus_READY" "oe_stale_orders_counter rt = 0"
    and "set (av_details a) \<subseteq> K" "st_download_trades_lookback (sh_settings (av_shared a)) = 0"
  shows "\<exists>b. acct_rounds S L (wsa_serve S W) rs (acct_user_ready S L a) = Ok b \<and> stream_ready (user_view b)"
proof -
  have "acct_fit (wsa_fit T) (sh_settings (av_shared a)) K a"
    using assms(5-11) by (simp add: acct_fit_def wsa_fit_def socket_fit_def entry_fit_def)
  from ws_account.becomes_ready [OF assms(1-4) this] show ?thesis by blast
qed

definition sample_socket :: "(ws_state \<times> int \<times> bool) web_socket" where
  "sample_socket = (gw_self sample_ws)\<lparr>sm_connection_status := ConnectionStatus_READY,
     ws_listen_key := ''key'', ws_listen_key_refresh := seconds 1800\<rparr>"

definition sample_rt :: rest_stream where
  "sample_rt = (rt_create 4 sample_account)\<lparr>sm_connection_status := ConnectionStatus_READY\<rparr>"

definition sample_ws_acct ::
  "(dc_state \<times> int \<times> bool, unit, bool \<times> bool, (ws_state \<times> int \<times> bool) web_socket \<times> rest_stream) acct" where
  "sample_ws_acct = (sample_acct (sample_socket, sample_rt))\<lparr>av_shared :=
     sample_shared\<lparr>sh_settings := sample_settings\<lparr>st_download_trades_lookback := 0\<rparr>\<rparr>\<rparr>"

text \<open>The exchange refuses both requests.\<close>

definition sample_reply_env :: ws_env where
  "sample_reply_env = sample_ws_env\<lparr>
     we_account_balance := \<lambda>_. Inr ((sample_answer [])\<lparr>wa_status := 401\<rparr>),
     we_account_status := \<lambda>_. Inr ((sample_answer \<lparr> as_update_time = 0, as_positions = [] \<rparr>)\<lparr>wa_status := 401\<rparr>)\<rparr>"

definition sample_ws_serve :: ws_in where
  "sample_ws_serve = \<lparr> wi_env = sample_ws_env, wi_rate_limiter = \<lambda>_. True, wi_time = sample_trace 1, wi_now = 1,
     wi_reply = \<lambda>t. (sample_reply_env, sample_trace 1, id_of t), wi_rest = sample_serve \<rparr>"

lemma sample_reply_ok: "ws_reply_ok sample_ws_env t (sample_reply_env, ti, id_of t)"
  unfolding ws_reply_ok_def sample_reply_env_def
  by (auto simp: rfc_text.wsapi_text_axioms ws_readable_def intro!: exI [of _ "[]"])

theorem ws_account_becomes_ready_witness:
  "\<exists>b. acct_rounds plain_slot (sample_download US_Classic) (wsa_serve plain_slot sample_ws_lib)
      (replicate 5 (sample_round sample_ws_serve))
      (acct_user_ready plain_slot (sample_download US_Classic) sample_ws_acct) = Ok b
    \<and> stream_ready (user_view b)"
proof (rule ws_account_becomes_ready [where K = "{(1, 7)}" and T = "seconds 1800" and ws = sample_socket
    and rt = sample_rt])
  have "rest_in_ok (sh_settings (av_shared sample_ws_acct)) {(1, 7)} sample_serve"
    by (simp add: rest_in_ok_def sample_serve_def sample_error_def finds_def request_can_request_def)
      (simp add: sample_env_def ends_process_def sample_response_def)
  moreover have "ge_refresh sample_ws_env" by (simp add: sample_ws_env_def sample_env_def env.defs)
  ultimately have "wsa_ok (seconds 1800) (sh_settings (av_shared sample_ws_acct)) {(1, 7)} sample_ws_serve"
    by (simp add: wsa_ok_def sample_ws_serve_def request_can_request_def sample_reply_ok seconds_def)
  then show "\<forall>(i, E, ti) \<in> set (replicate 5 (sample_round sample_ws_serve)).
      wsa_ok (seconds 1800) (sh_settings (av_shared sample_ws_acct)) {(1, 7)} i \<and> user_env_ok {(1, 7)} E"
    by (simp add: sample_round_def user_env_ok_def stale_keys_def)
qed (simp_all only: sample_download_def plain_download_contract plain_slot_contract,
    simp_all add: sample_ws_acct_def sample_acct_def sample_socket_def sample_rt_def rt_create_def no_ping_def
      sample_ws_def seconds_def)

end
