(* ===== verification/Map_Asserts.thy ===== *)
theory Map_Asserts
  imports Order_Maps
begin

text \<open>
  The \<open>static_assert\<close>s of \<open>protocol/json/map.cpp\<close>: the file checks each of its maps at compile
  time on a list of pairs. Here each list is a definition, the checks are the lemmas \<open>*_hold\<close>, and
  the lemmas \<open>*_leave\<close> say which enumerators a list leaves unchecked. Every list of a map
  from the exchange leaves \<open>UNKNOWN_INTERNAL\<close> out.
\<close>

definition asserts_hold :: "('a \<Rightarrow> 'b option) \<Rightarrow> ('a \<times> 'b) list \<Rightarrow> bool" where
  "asserts_hold f ps = list_all (\<lambda>(x, y). f x = Some y) ps"

definition unasserted :: "('a \<times> 'b) list \<Rightarrow> 'a set" where
  "unasserted ps = - fst ` set ps"

text \<open>A list of pairs that holds determines the map on what it does not leave out.\<close>

lemma asserts_determine:
  assumes "asserts_hold f ps" "asserts_hold g ps" "x \<notin> unasserted ps"
  shows "f x = g x"
  using assms by (fastforce simp: asserts_hold_def unasserted_def list_all_iff)

section \<open>From the exchange\<close>

definition contract_status_asserts :: "(j_contract_status \<times> trading_status) list" where
  "contract_status_asserts =
    [(JContractStatus_UNDEFINED_INTERNAL, TradingStatus_UNDEFINED),
     (JContractStatus_TRADING, TradingStatus_OPEN),
     (JContractStatus_HALT, TradingStatus_HALT),
     (JContractStatus_BREAK, TradingStatus_CLOSE),
     (JContractStatus_END_OF_DAY, TradingStatus_END_OF_DAY),
     (JContractStatus_PRE_TRADING, TradingStatus_PRE_OPEN),
     (JContractStatus_AUCTION_MATCH, TradingStatus_PRE_OPEN),
     (JContractStatus_POST_TRADING, TradingStatus_CLOSE),
     (JContractStatus_SETTLING, TradingStatus_PRE_CLOSE),
     (JContractStatus_PENDING_TRADING, TradingStatus_PRE_OPEN),
     (JContractStatus_DELIVERING, TradingStatus_UNDEFINED),
     (JContractStatus_CLOSE, TradingStatus_CLOSE),
     (JContractStatus_TRADING_CANCEL_ONLY, TradingStatus_PRE_OPEN)]"

lemma contract_status_asserts_hold: "asserts_hold map_j_contract_status contract_status_asserts"
  by (simp add: asserts_hold_def contract_status_asserts_def)

lemma contract_status_asserts_leave: "unasserted contract_status_asserts = {JContractStatus_UNKNOWN_INTERNAL, JContractStatus_PRE_DELIVERING}"
  by (rule set_eqI, rename_tac x, case_tac x) (simp_all add: unasserted_def contract_status_asserts_def)

definition contract_type_asserts :: "(j_contract_type \<times> security_type) list" where
  "contract_type_asserts =
    [(JContractType_UNDEFINED_INTERNAL, SecurityType_UNDEFINED),
     (JContractType_PERPETUAL, SecurityType_SWAP),
     (JContractType_CURRENT_QUARTER, SecurityType_FUTURES),
     (JContractType_NEXT_QUARTER, SecurityType_FUTURES),
     (JContractType_CURRENT_QUARTER_DELIVERING, SecurityType_FUTURES),
     (JContractType_PERPETUAL_DELIVERING, SecurityType_FUTURES),
     (JContractType_TRADIFI_PERPETUAL, SecurityType_SWAP)]"

lemma contract_type_asserts_hold: "asserts_hold map_j_contract_type contract_type_asserts"
  by (simp add: asserts_hold_def contract_type_asserts_def)

lemma contract_type_asserts_leave: "unasserted contract_type_asserts = {JContractType_UNKNOWN_INTERNAL, JContractType_CURRENT_WEEK, JContractType_NEXT_WEEK}"
  by (rule set_eqI, rename_tac x, case_tac x) (simp_all add: unasserted_def contract_type_asserts_def)

definition order_status_asserts :: "(j_order_status \<times> order_status) list" where
  "order_status_asserts =
    [(JOrderStatus_UNDEFINED_INTERNAL, OrderStatus_UNDEFINED),
     (JOrderStatus_NEW, OrderStatus_WORKING),
     (JOrderStatus_PARTIALLY_FILLED, OrderStatus_WORKING),
     (JOrderStatus_FILLED, OrderStatus_COMPLETED),
     (JOrderStatus_CANCELED, OrderStatus_CANCELED),
     (JOrderStatus_EXPIRED, OrderStatus_EXPIRED),
     (JOrderStatus_NEW_INSURANCE, OrderStatus_UNDEFINED),
     (JOrderStatus_NEW_ADL, OrderStatus_UNDEFINED),
     (JOrderStatus_EXPIRED_IN_MATCH, OrderStatus_EXPIRED)]"

lemma order_status_asserts_hold: "asserts_hold map_j_order_status order_status_asserts"
  by (simp add: asserts_hold_def order_status_asserts_def)

lemma order_status_asserts_leave: "unasserted order_status_asserts = {JOrderStatus_UNKNOWN_INTERNAL}"
  by (rule set_eqI, rename_tac x, case_tac x) (simp_all add: unasserted_def order_status_asserts_def)

definition request_status_asserts :: "(j_order_status \<times> request_status) list" where
  "request_status_asserts =
    [(JOrderStatus_UNDEFINED_INTERNAL, RequestStatus_UNDEFINED),
     (JOrderStatus_NEW, RequestStatus_ACCEPTED),
     (JOrderStatus_PARTIALLY_FILLED, RequestStatus_ACCEPTED),
     (JOrderStatus_FILLED, RequestStatus_REJECTED),
     (JOrderStatus_CANCELED, RequestStatus_REJECTED),
     (JOrderStatus_EXPIRED, RequestStatus_REJECTED),
     (JOrderStatus_NEW_INSURANCE, RequestStatus_REJECTED),
     (JOrderStatus_NEW_ADL, RequestStatus_REJECTED),
     (JOrderStatus_EXPIRED_IN_MATCH, RequestStatus_REJECTED)]"

lemma request_status_asserts_hold: "asserts_hold map_j_order_status_to_request_status request_status_asserts"
  by (simp add: asserts_hold_def request_status_asserts_def)

lemma request_status_asserts_leave: "unasserted request_status_asserts = {JOrderStatus_UNKNOWN_INTERNAL}"
  by (rule set_eqI, rename_tac x, case_tac x) (simp_all add: unasserted_def request_status_asserts_def)

definition order_type_asserts :: "(j_order_type \<times> order_type) list" where
  "order_type_asserts =
    [(JOrderType_UNDEFINED_INTERNAL, OrderType_UNDEFINED),
     (JOrderType_LIMIT, OrderType_LIMIT),
     (JOrderType_MARKET, OrderType_MARKET),
     (JOrderType_STOP, OrderType_UNDEFINED),
     (JOrderType_TAKE_PROFIT, OrderType_UNDEFINED),
     (JOrderType_LIQUIDATION, OrderType_UNDEFINED)]"

lemma order_type_asserts_hold: "asserts_hold map_j_order_type order_type_asserts"
  by (simp add: asserts_hold_def order_type_asserts_def)

lemma order_type_asserts_leave: "unasserted order_type_asserts = {JOrderType_UNKNOWN_INTERNAL}"
  by (rule set_eqI, rename_tac x, case_tac x) (simp_all add: unasserted_def order_type_asserts_def)

definition side_asserts :: "(j_side \<times> side) list" where
  "side_asserts =
    [(JSide_UNDEFINED_INTERNAL, Side_UNDEFINED),
     (JSide_BUY, Side_BUY),
     (JSide_SELL, Side_SELL)]"

lemma side_asserts_hold: "asserts_hold map_j_side side_asserts"
  by (simp add: asserts_hold_def side_asserts_def)

lemma side_asserts_leave: "unasserted side_asserts = {JSide_UNKNOWN_INTERNAL}"
  by (rule set_eqI, rename_tac x, case_tac x) (simp_all add: unasserted_def side_asserts_def)

definition symbol_status_asserts :: "(j_symbol_status \<times> trading_status) list" where
  "symbol_status_asserts =
    [(JSymbolStatus_UNDEFINED_INTERNAL, TradingStatus_UNDEFINED),
     (JSymbolStatus_TRADING, TradingStatus_OPEN),
     (JSymbolStatus_HALT, TradingStatus_HALT),
     (JSymbolStatus_BREAK, TradingStatus_CLOSE),
     (JSymbolStatus_END_OF_DAY, TradingStatus_END_OF_DAY),
     (JSymbolStatus_PRE_TRADING, TradingStatus_PRE_OPEN),
     (JSymbolStatus_AUCTION_MATCH, TradingStatus_PRE_OPEN),
     (JSymbolStatus_POST_TRADING, TradingStatus_CLOSE),
     (JSymbolStatus_SETTLING, TradingStatus_PRE_CLOSE),
     (JSymbolStatus_PENDING_TRADING, TradingStatus_PRE_OPEN),
     (JSymbolStatus_DELIVERING, TradingStatus_UNDEFINED),
     (JSymbolStatus_PRE_SETTLE, TradingStatus_OPEN),
     (JSymbolStatus_TRADING_HALT, TradingStatus_HALT),
     (JSymbolStatus_TRADING_CANCEL_ONLY, TradingStatus_HALT)]"

lemma symbol_status_asserts_hold: "asserts_hold map_j_symbol_status symbol_status_asserts"
  by (simp add: asserts_hold_def symbol_status_asserts_def)

lemma symbol_status_asserts_leave: "unasserted symbol_status_asserts = {JSymbolStatus_UNKNOWN_INTERNAL, JSymbolStatus_PRE_DELIVERING}"
  by (rule set_eqI, rename_tac x, case_tac x) (simp_all add: unasserted_def symbol_status_asserts_def)

definition time_in_force_asserts :: "(j_time_in_force \<times> time_in_force) list" where
  "time_in_force_asserts =
    [(JTimeInForce_UNDEFINED_INTERNAL, TimeInForce_UNDEFINED),
     (JTimeInForce_GTC, TimeInForce_GTC),
     (JTimeInForce_IOC, TimeInForce_IOC),
     (JTimeInForce_FOK, TimeInForce_FOK),
     (JTimeInForce_GTX, TimeInForce_GTX),
     (JTimeInForce_OTC, TimeInForce_UNDEFINED),
     (JTimeInForce_RPI, TimeInForce_GTC)]"

lemma time_in_force_asserts_hold: "asserts_hold map_j_time_in_force time_in_force_asserts"
  by (simp add: asserts_hold_def time_in_force_asserts_def)

lemma time_in_force_asserts_leave: "unasserted time_in_force_asserts = {JTimeInForce_UNKNOWN_INTERNAL}"
  by (rule set_eqI, rename_tac x, case_tac x) (simp_all add: unasserted_def time_in_force_asserts_def)

section \<open>To the exchange\<close>

definition to_order_status_asserts :: "(order_status \<times> j_order_status) list" where
  "to_order_status_asserts =
    [(OrderStatus_UNDEFINED, JOrderStatus_UNDEFINED_INTERNAL),
     (OrderStatus_SENT, JOrderStatus_UNDEFINED_INTERNAL),
     (OrderStatus_ACCEPTED, JOrderStatus_UNDEFINED_INTERNAL),
     (OrderStatus_SUSPENDED, JOrderStatus_UNDEFINED_INTERNAL),
     (OrderStatus_WORKING, JOrderStatus_NEW),
     (OrderStatus_STOPPED, JOrderStatus_UNDEFINED_INTERNAL),
     (OrderStatus_COMPLETED, JOrderStatus_FILLED),
     (OrderStatus_EXPIRED, JOrderStatus_EXPIRED),
     (OrderStatus_CANCELED, JOrderStatus_CANCELED),
     (OrderStatus_REJECTED, JOrderStatus_UNDEFINED_INTERNAL)]"

lemma to_order_status_asserts_hold: "asserts_hold map_order_status to_order_status_asserts"
  by (simp add: asserts_hold_def to_order_status_asserts_def)

lemma to_order_status_asserts_leave: "unasserted to_order_status_asserts = {}"
  by (rule set_eqI, rename_tac x, case_tac x) (simp_all add: unasserted_def to_order_status_asserts_def)

definition to_order_type_asserts :: "(order_type \<times> j_order_type) list" where
  "to_order_type_asserts =
    [(OrderType_UNDEFINED, JOrderType_UNDEFINED_INTERNAL),
     (OrderType_MARKET, JOrderType_MARKET),
     (OrderType_LIMIT, JOrderType_LIMIT)]"

lemma to_order_type_asserts_hold: "asserts_hold map_order_type to_order_type_asserts"
  by (simp add: asserts_hold_def to_order_type_asserts_def)

lemma to_order_type_asserts_leave: "unasserted to_order_type_asserts = {}"
  by (rule set_eqI, rename_tac x, case_tac x) (simp_all add: unasserted_def to_order_type_asserts_def)

definition to_side_asserts :: "(side \<times> j_side) list" where
  "to_side_asserts =
    [(Side_UNDEFINED, JSide_UNDEFINED_INTERNAL),
     (Side_BUY, JSide_BUY),
     (Side_SELL, JSide_SELL)]"

lemma to_side_asserts_hold: "asserts_hold map_side to_side_asserts"
  by (simp add: asserts_hold_def to_side_asserts_def)

lemma to_side_asserts_leave: "unasserted to_side_asserts = {}"
  by (rule set_eqI, rename_tac x, case_tac x) (simp_all add: unasserted_def to_side_asserts_def)

definition to_time_in_force_asserts :: "((time_in_force \<times> execution_instruction list \<times> string) \<times> j_time_in_force) list" where
  "to_time_in_force_asserts =
    [((TimeInForce_UNDEFINED, [], ''''), JTimeInForce_UNDEFINED_INTERNAL),
     ((TimeInForce_GFD, [], ''''), JTimeInForce_UNDEFINED_INTERNAL),
     ((TimeInForce_GTC, [], ''''), JTimeInForce_GTC),
     ((TimeInForce_OPG, [], ''''), JTimeInForce_UNDEFINED_INTERNAL),
     ((TimeInForce_IOC, [], ''''), JTimeInForce_IOC),
     ((TimeInForce_FOK, [], ''''), JTimeInForce_FOK),
     ((TimeInForce_GTX, [], ''''), JTimeInForce_GTX),
     ((TimeInForce_GTD, [], ''''), JTimeInForce_UNDEFINED_INTERNAL),
     ((TimeInForce_AT_THE_CLOSE, [], ''''), JTimeInForce_UNDEFINED_INTERNAL),
     ((TimeInForce_GOOD_THROUGH_CROSSING, [], ''''), JTimeInForce_UNDEFINED_INTERNAL),
     ((TimeInForce_AT_CROSSING, [], ''''), JTimeInForce_UNDEFINED_INTERNAL),
     ((TimeInForce_GOOD_FOR_TIME, [], ''''), JTimeInForce_UNDEFINED_INTERNAL),
     ((TimeInForce_GFA, [], ''''), JTimeInForce_UNDEFINED_INTERNAL),
     ((TimeInForce_GFM, [], ''''), JTimeInForce_UNDEFINED_INTERNAL),
     ((TimeInForce_GTC, [ExecutionInstruction_PARTICIPATE_DO_NOT_INITIATE], ''''), JTimeInForce_GTX),
     ((TimeInForce_GTC, [], ''RPI''), JTimeInForce_RPI)]"

lemma to_time_in_force_asserts_hold: "asserts_hold (\<lambda>(t, i, d). map_time_in_force t i d) to_time_in_force_asserts"
  by (simp add: asserts_hold_def to_time_in_force_asserts_def map_time_in_force.simps)

lemma to_time_in_force_asserts_leave:
  "fst ` fst ` set to_time_in_force_asserts = UNIV"
  by (rule set_eqI, rename_tac x, case_tac x) (simp_all add: to_time_in_force_asserts_def)

end
