(* ===== verification/Spec2Isabelle.thy ===== *)
theory Spec2Isabelle
  imports Text_Properties Order_Entry_Properties Controller_Properties
    User_Stream_Properties Web_Socket_Properties Rest_Trade_Properties
    Portfolio_Properties Market_System_Properties Order_Routing_Properties
    Account_Download_Properties Map_Asserts
begin

text \<open>
  A model of the gateway \<open>roq-binance-futures\<close> (C++), which connects the trading API of
  \<open>roq\<close> to the futures exchanges USD-M and COIN-M of Binance, and the theorems about it.

  \<^bold>\<open>The program.\<close> The \<^emph>\<open>controller\<close> (\<open>gateway/controller.cpp\<close>) owns one stream per connection: the
  REST connection for reference data, market data streams, and for each account an order
  entry, a user stream (drop copy) that exists while a listen key is known, and
  a download connection. Order actions are routed to the order entry of the account, and cancel-all to its download
  connection when the WebSocket API is used. The
  order entry (\<open>gateway/order_entry_classic.cpp\<close>; for portfolio margin accounts \<open>gateway/order_entry_portfolio.cpp\<close>) writes requests with the encoder
  (\<open>protocol/json/encoder.cpp\<close>), signs them with the account (\<open>gateway/account.cpp\<close>,
  \<open>tools/crypto.cpp\<close>), sorts the responses by their HTTP category and publishes to the dispatcher. It
  sends the listen key of the user stream to the controller. The REST connection (\<open>gateway/rest.cpp\<close>) announces
  the symbols of the exchange to the controller, which has the market data streams subscribe to
  them; these queue requests for order books and histories that the REST connection sends.

  \<^bold>\<open>Theories.\<close>
  \<^item> \<open>Gw_Prelude\<close>: integers, durations, outcomes of handlers (\<open>Ok\<close>, \<open>Throw\<close>, \<open>Fatal\<close>), loops, printing.
  \<^item> \<open>Fp_Double\<close>: doubles with rounding, NaN and infinities, as far as the code computes with them.
  \<^item> \<open>Roq_Types\<close>, \<open>Json_Enums\<close>: the enumerations of the API and of the JSON schemas.
  \<^item> \<open>Order_Maps\<close> and \<open>Map_Asserts\<close> (\<open>protocol/json/map.cpp\<close>, its maps and its compile time checks),
    \<open>Json_Utils\<close> (\<open>protocol/json/utils.*\<close>, \<open>gateway/utils.hpp\<close>),
    \<open>Wsapi_Request\<close> (\<open>protocol/json/wsapi_request.*\<close>).
  \<^item> \<open>Wire_Text\<close>: query strings and JSON texts as a reader sees them; \<open>Order_Encoder\<close>: the encoder.
  \<^item> \<open>Rest_Crypto\<close>: crypto and account signatures; \<open>Gw_Config\<close>: API paths, configuration file, accounts.
  \<^item> \<open>Rate_Throttle\<close> (\<open>tools/throttle.cpp\<close>), \<open>Gw_Shared\<close> (instruments of \<open>gateway/shared.*\<close>).
  \<^item> \<open>Stream_Parsers\<close>: the three message parsers of \<open>protocol/json\<close>.
  \<^item> \<open>Gw_World\<close>: messages, effects, the state a handler works on, and the environment.
  \<^item> \<open>Rest_Response\<close>: \<open>process_response\<close> and its contract; \<open>Order_Entry_Classic\<close>: the order entry, one
    definition per member function; \<open>Order_Entry_Facts\<close>: its step relation and what every step keeps.
  \<^item> \<open>Gw_Controller\<close>, \<open>Controller_Facts\<close>: the controller, and what holds for any streams it may own.
  \<^item> \<open>Listen_Key_Window\<close>: runs of the order entry in which no listen key is lost, and how often the timer asks.
  \<^item> \<open>Gw_System\<close>: the controller composed with the order entries of its accounts.
  \<^item> \<open>Gw_Connections\<close>: the names of the streams, what they announce to support, and the REST and WebSocket
    clients they are created with.
  \<^item> \<open>Download_Library\<close>: the download object of the library, its contract and a plain instance.
  \<^item> \<open>User_Streams\<close> (\<open>gateway/drop_copy_classic.*\<close>, \<open>gateway/drop_copy_portfolio.*\<close>), \<open>User_Stream_Facts\<close>: the
    user streams, their step relation and what every step keeps.
  \<^item> \<open>Web_Socket\<close> (\<open>gateway/web_socket.*\<close>), \<open>Web_Socket_Facts\<close>: the order entry over the WebSocket API, the
    requests it sends and its download.
  \<^item> \<open>Rest_Trade\<close> (\<open>gateway/rest_trade.*\<close>): the REST connection beside it; member functions with the text
    of the order entry's are defined by them.
  \<^item> \<open>Order_Entry_Portfolio\<close> (\<open>gateway/order_entry_portfolio.*\<close>), \<open>Portfolio_Facts\<close>: the order entry of portfolio
    margin accounts, which paths it uses, and its answers and downloads.
  \<^item> \<open>Market_Streams\<close> (\<open>gateway/market_data.*\<close>, \<open>gateway/market_data_2.*\<close>), \<open>Market_Facts\<close>: the two classes of market
    data streams; subscriptions, nesting of messages, gates and the depth sequencer.
  \<^item> \<open>Market_System\<close>, \<open>Market_System_Facts\<close>: the controller composed with its market data streams, which share
    the allocation of symbols to slices; what a stream has asked for since it became ready.
  \<^item> \<open>Controller_Runs\<close>: the events of the controller from its construction on, and the shape of its state.
  \<^item> \<open>Order_Routing\<close>, \<open>Order_Routing_Facts\<close>, \<open>Order_Routing_Runs\<close>: the controller composed with the order entries of
    all three classes and the download connections; requests of clients, which effects are order requests, and
    the invariant that relates the two.
  \<^item> \<open>Account_Slots\<close>: the user stream of an account and the request slots it shares with the streams that serve
    them (\<open>gateway/request.*\<close>); what is expected of these, and rounds of timers and answers.
  \<^item> \<open>Account_Download\<close>, \<open>Account_Download_Ws\<close>: the streams that serve the slots: the order entry of a classic
    account, or its WebSocket connection together with the REST connection beside it.
  \<^item> \<open>Rest_Market\<close> (\<open>gateway/rest.*\<close>), \<open>Rest_Market_Facts\<close>: the REST connection of reference data and market
    data; its runs, what it announces and publishes, and its download.
  \<^item> \<open>Sample_Env\<close>: concrete instances of the parameters.
  \<^item> \<open>Text_Properties\<close>, \<open>Order_Entry_Properties\<close>, \<open>Controller_Properties\<close>,
    \<open>User_Stream_Properties\<close>, \<open>Web_Socket_Properties\<close>, \<open>Rest_Trade_Properties\<close>,
    \<open>Portfolio_Properties\<close>, \<open>Market_Properties\<close>, \<open>Market_System_Properties\<close>,
    \<open>Order_Routing_Properties\<close>, \<open>Account_Download_Properties\<close> and this theory: the properties, numbered C1 to C40.

  \<^bold>\<open>State and effects.\<close> A member function is a function from state to outcome. The state \<open>gw\<close> holds the
  object (\<open>gw_self\<close>), the shared data (\<open>gw_shared\<close>), the stale orders of the request object, and the list
  \<open>gw_out\<close> of everything done to the outside, in order. Unordered containers are duplicate-free lists in
  the order of iteration, which is arbitrary. The answers of library objects and of the
  dispatcher come from the record \<open>env\<close>; a run of an object may use another one at each step.

  The symbols that are known are one set, which the controller and the streams share in the code. Where the
  controller is composed with streams, its operations reach the set through a \<open>symbol_set\<close>, a getter and a
  setter, so that the REST connection and the controller see the same one.

  \<^bold>\<open>Assertions.\<close> The settings have a field \<open>st_assertions\<close>, which says that the program is built with its
  assertions; it is no flag of the program. In such a build an assertion that is violated is the outcome
  \<open>Fatal ''assert''\<close>, otherwise the handler goes on, and the theorems hold for both. Modelled are the assertions of
  the controller on start, state, order actions and listen keys (\<open>gateway/controller.cpp\<close>), of the user streams on
  their listen key, of the encoder on the type and price of an order, of the responses on status 409, and those of
  \<open>tools/crypto.cpp\<close> where order actions are signed. Not modelled are the assertions of \<open>tools/crypto.cpp\<close>
  for downloads, listen keys and the logon, and those of the member functions \<open>download\<close> on a state that the library
  does not call them with; there the model is the one of a build without assertions. The remaining ones
  (\<open>gateway/shared.cpp\<close>, the subscriptions of market data) cannot be violated.

  \<^bold>\<open>Interfaces.\<close> \<open>codec\<close> (a reader after a writer), \<open>wsapi_wire\<close> and \<open>exchange_text\<close> (what is assumed of base64
  and of number printing), \<open>sequence_gate\<close> (updates that do not go back), \<open>response_handler\<close> (one answer per
  request), \<open>stream_child\<close> (a stream that is called returns), \<open>kept\<close> and \<open>kept_rest\<close> (what every step keeps
  is kept by loops, downloads and REST responses), \<open>wsapi_text\<close> (the id at the front of a request is
  read back), \<open>sequencer_client\<close> (the callbacks of the depth sequencer: what is requested is queued),
  \<open>child_kept\<close> (what the calls of the streams keep is kept by every event of the controller), \<open>rest_server\<close> and
  \<open>rest_account\<close> (a REST stream answers every request and commits the slots it serves), \<open>account_server\<close> (the
  streams of an account respond to every slot that is asked for). Each is interpreted on the model's
  definitions.

  \<^bold>\<open>Bounds.\<close> Ids and versions have the width of the code and wrap; durations are unbounded integers,
  since nanosecond counts leave 64 bits only after 292 years. \<open>grow\<close> gets the number of missing
  streams as its fuel, and each round adds one. The download object
  calls the handler at most once for each state per command: eight states for user streams, five for the
  WebSocket, four for the REST connection. A message of a market data stream may contain another one as
  a text: the nesting is bounded by the length of the message, which is proved to be enough.
  Nothing else needs
  fuel: all loops run over lists.

  \<^bold>\<open>Not modelled.\<close> Logging and metrics; in \<open>Order_Routing\<close> the
  streams that are no order entries, which may change the shared data in any way; the library objects
  (queues, rate limiter), which are answers of the
  environment or commands among the effects, and the allocation of symbols, of which only the contract
  \<open>symbols_contract\<close> is assumed (a slice grows by its new symbols); of a request slot that it calls back
  for what has been asked and has a response after a commit (\<open>slot_contract\<close>; the gate of \<open>gateway/request.cpp\<close>
  that holds requests back is \<open>request_ready\<close>, and the composed downloads assume a library that calls back); the generated message classes, which are parameters
  from a text to a message or an exception. The parsing of the command line (\<open>flags\<close>), the
  applications and the bridges are glue of the server library. Of the market data sequencer, which is library
  code, only the calls it makes are seen; the changes of the order book inside its callbacks are not.
\<close>

section \<open>The user stream of an account\<close>

text \<open>
  C1: The life of a user stream ends with its first listen key. When the stream of an account asks
  to be removed (its listen key has expired) while the order entry knows a key, the next timer
  removes the stream, and whatever happens afterwards (new keys obtained, timers,
  disconnects, responses, subscriptions) the account never gets a user stream again: the order
  entry stores the new key without announcing it.
\<close>

theorem listen_key_lost:
  assumes "named w" "has_key a w" "ct_zombies (cw_ctl w) = []"
    and "map_of (ct_drop_copy (cw_ctl w)) a = Some (Some d)"
    and "map_of (ct_order_entry (cw_ctl w)) a \<noteq> None"
  shows "\<exists>w'. ct_timer (classic_child E ti) now (ct_remove a w) = Ok w'
    \<and> (\<forall>t. sys_run w' t \<longrightarrow> gone a t)"
proof -
  let ?r = "ct_remove a w"
  have r: "sys_keeps a w ?r" using assms(1,2) by (intro sys_step_keeps sys_remove)
  have named: "named ?r" using sys_keeps_named [OF r assms(1)] .
  have key: "has_key a ?r" using sys_keeps_has_key [OF r assms(2)] .
  obtain w' where w': "ct_timer (classic_child E ti) now ?r = Ok w'" "gone a w'"
    using timer_removes [of ?r a E ti now] assms(3-5) by (auto simp: ct_remove_def set_emplace_def)
  have k: "sys_keeps a ?r w'" by (rule sys_step_keeps [OF sys_timer [OF w'(1)] named key])
  have "gone a t" if "sys_run w' t" for t
    using sys_run_keeps [OF that sys_keeps_named [OF k named] sys_keeps_has_key [OF k key]] w'(2)
    by (simp add: sys_keeps_def)
  with w'(1) show ?thesis by blast
qed

definition sample_sys :: "unit sys" where
  "sample_sys = \<lparr>
     cw_ctl = (empty_controller sample_settings)
       \<lparr>ct_order_entry := [(''A'', Kind_OrderEntryClassic, 3)],
        ct_drop_copy := [(''A'', Some \<lparr> dc_kind = Kind_DropCopyClassic, dc_stream_id = 4,
          dc_listen_key = ''old-key'' \<rparr>)]\<rparr>,
     cw_rest = \<lambda>a. upd_self (\<lambda>s. s\<lparr>sm_account := sample_account\<lparr>ac_name := a\<rparr>,
       oe_listen_key := ''old-key''\<rparr>) sample_oe \<rparr>"

text \<open>The answer to a request for a listen key, by an order entry that has one already.\<close>

lemma sample_new_key:
  assumes "has_key a w"
  shows "\<exists>t. sys_step w t \<and> oe_listen_key (gw_self (cw_rest t a)) = ''new-key''"
proof -
  let ?v = "res_state (oe_response sample_env (sample_trace 9)
    (sample_response 200 Category_SUCCESS) (CB_listen_key 2) [] (cw_rest w a))"
  have "key_ok sample_env" by (simp add: key_ok_def sample_env_def)
  then have s: "oe_step (cw_rest w a) ?v" by (rule step_response)
  have v: "gw_out ?v = gw_out (cw_rest w a) @ [Download_command (Download_check_relaxed OE_LISTEN_KEY)]"
    "oe_listen_key (gw_self ?v) = ''new-key''"
    using assms
    by (auto simp: oe_response_def get_listen_key_ack_def process_response_def process_body_def
        sample_response_def sample_env_def on_listen_key_ack_def Let_def has_key_def)
  have "sys_step w (on_oe a (\<lambda>_. ?v) w)"
    by (rule sys_entry [OF s v(1)]) (simp add: deliver_def)
  moreover have "oe_listen_key (gw_self (cw_rest (on_oe a (\<lambda>_. ?v) w) a)) = ''new-key''"
    using v(2) by (simp add: on_oe_def)
  ultimately show ?thesis by blast
qed

theorem listen_key_lost_witness:
  "\<exists>w' t. ct_timer (classic_child sample_env (sample_trace 1)) (seconds 1)
        (ct_remove ''A'' sample_sys) = Ok w'
    \<and> sys_run w' t \<and> oe_listen_key (gw_self (cw_rest t ''A'')) = ''new-key'' \<and> gone ''A'' t"
proof -
  have s: "named sample_sys" "has_key ''A'' sample_sys"
    by (simp_all add: named_def has_key_def sample_sys_def)
  have c: "ct_zombies (cw_ctl sample_sys) = []"
    "map_of (ct_drop_copy (cw_ctl sample_sys)) ''A'' = Some (Some \<lparr> dc_kind = Kind_DropCopyClassic,
       dc_stream_id = 4, dc_listen_key = ''old-key'' \<rparr>)"
    "map_of (ct_order_entry (cw_ctl sample_sys)) ''A'' \<noteq> None"
    by (simp_all add: sample_sys_def empty_controller_def)
  obtain w' where w': "ct_timer (classic_child sample_env (sample_trace 1)) (seconds 1)
      (ct_remove ''A'' sample_sys) = Ok w'" "\<forall>t. sys_run w' t \<longrightarrow> gone ''A'' t"
    using listen_key_lost [OF s c] by blast
  have "sys_run sample_sys w'"
    by (blast intro: sys_refl sys_more sys_remove sys_timer [OF w'(1)])
  then have "has_key ''A'' w'" using sys_run_keeps s sys_keeps_has_key by metis
  then obtain t where "sys_step w' t" "oe_listen_key (gw_self (cw_rest t ''A'')) = ''new-key''"
    using sample_new_key by blast
  with w' show ?thesis by (blast intro: sys_refl sys_more)
qed

section \<open>From the answer to a new order to its cancel request\<close>

text \<open>
  C9: An order is canceled by the number the exchange gave it. When a create request was answered
  with success, the published response \<open>a\<close> carries the id by which the order management knows the
  order; the cancel request for the order is then sent to the exchange with exactly the
  exchange's number as \<open>orderId\<close>.
\<close>

theorem cancel_uses_number_of_answer:
  assumes "rr_result r = Inr (status, Category_SUCCESS, body)" "ge_place E body = Inr m"
    and "oe_response E ti r (CB_order_place u i) request_id w = Ok w'"
    and "responses u i w' = responses u i w @ [a]"
    and "oo_external_order_id ord = re_external_order_id a" "stream_ready w'"
    and "CHR ''#'' \<notin> set (om_symbol m)" "query_plain (om_symbol m)"
    and "query_plain (oo_symbol ord)" "query_plain (oo_client_order_id ord)"
  shows "\<exists>v q c. order_cancel E2 ti2 source k ord request_id2 w' = Ok v
    \<and> rest_sent (gw_out v) = rest_sent (gw_out w') @ [(q, c)] \<and> rq_method q = DELETE
    \<and> parse_query (rq_body q) =
        [(''symbol'', oo_symbol ord), (''orderId'', show_int (om_order_id m)),
         (''origClientOrderId'', oo_client_order_id ord),
         (''recvWindow'', show_int (to_ms (st_rest_order_recv_window (settings_of w'))))]"
proof -
  have "w' = on_order_place_ack m u i 1 w"
    using assms(1-3) by (simp add: oe_response_def order_place_ack_def process_response_def
        process_body_def place_success_def)
  then have "a = ack_response RequestType_CREATE_ORDER RequestStatus_ACCEPTED 1 m"
    using assms(4) by (simp add: on_order_place_ack_def Let_def List.map_filter_def split: if_splits)
  then have "parse_query (order_cancel_url ord n) =
      [(''symbol'', oo_symbol ord), (''orderId'', show_int (om_order_id m)),
       (''origClientOrderId'', oo_client_order_id ord), (''recvWindow'', show_int n)]" for n
    using assms(5,7-) by (intro cancel_url_parsed) (simp_all add: ack_response_def)
  then show ?thesis
    using assms(6) by (simp add: order_cancel_def rest_order_def Let_def)
qed

theorem cancel_uses_number_of_answer_witness:
  "let w' = res_state (oe_response sample_env (sample_trace 1)
         (sample_response 200 Category_SUCCESS) (CB_order_place 1 7) [] sample_oe) in
   \<exists>v q c. order_cancel sample_env (sample_trace 2) 1 \<lparr> ca_order_id = 7, ca_version = 2 \<rparr>
        sample_oms_order [] w' = Ok v
    \<and> rest_sent (gw_out v) = rest_sent (gw_out w') @ [(q, c)] \<and> rq_method q = DELETE
    \<and> parse_query (rq_body q) =
        [(''symbol'', ''BTCUSDT''), (''orderId'', show_int 42), (''origClientOrderId'', ''c''),
         (''recvWindow'', show_int (to_ms (st_rest_order_recv_window (settings_of w'))))]"
proof -
  define m where "m = order_msg.truncate sample_order"
  define w' where "w' = on_order_place_ack m 1 7 1 sample_oe"
  define a where "a = ack_response RequestType_CREATE_ORDER RequestStatus_ACCEPTED 1 m"
  have w': "oe_response sample_env (sample_trace 1) (sample_response 200 Category_SUCCESS)
      (CB_order_place 1 7) [] sample_oe = Ok w'"
    by (simp add: oe_response_def order_place_ack_def process_response_def process_body_def
        place_success_def sample_response_def sample_env_def w'_def m_def)
  have one: "responses 1 7 w' = responses 1 7 sample_oe @ [a]"
    by (simp add: w'_def on_order_place_ack_def a_def Let_def List.map_filter_def)
  have ready: "stream_ready w'"
    by (simp add: w'_def on_order_place_ack_def Let_def stream_ready_def sample_oe_def)
  have m: "om_symbol m = ''BTCUSDT''" "om_order_id m = 42"
    by (simp_all add: m_def sample_order_def order_msg.defs)
  have number: "show_int 42 = ''42''" by code_simp
  have ord: "oo_symbol sample_oms_order = ''BTCUSDT''" "oo_client_order_id sample_oms_order = ''c''"
    "oo_external_order_id sample_oms_order = re_external_order_id a"
    using number by (simp_all add: sample_oms_order_def sample_env_def a_def ack_response_def m
        create_external_order_id_def)
  show ?thesis
    using cancel_uses_number_of_answer [where E = sample_env and r = "sample_response 200 Category_SUCCESS"
        and status = 200 and body = "''body''" and m = m and ord = sample_oms_order, OF _ _ w' one ord(3) ready]
    by (simp add: w' m ord) (simp add: sample_response_def sample_env_def m_def)
qed

end
